(* ===== verification/VK_Prelude.thy ===== *)
theory VK_Prelude
  imports Main "HOL-Library.Word"
begin

text \<open>
  What every component of the development shares: Go's \<open>error\<close> values with their wrapping,
  the kernel of the world every effectful operation runs in (a fault script, a clock and a
  supply of UUIDs, each indexed by a tick that every call to the outside consumes), HTTP
  responses, and the generic list lemmas that the components' proofs use.

  A Go function that returns \<open>(T, error)\<close> is a HOL function into \<open>go_error + 'a\<close>; one that also
  changes state returns the new state beside it.
\<close>

named_theorems vk_ops \<open>definitions of the state-changing operations, for unfolding\<close>
named_theorems vk_frame \<open>what an operation leaves unchanged\<close>

section \<open>Go errors\<close>

text \<open>
  \<open>ErrSentinel\<close> is a package variable made by \<open>errors.New\<close> that callers compare against;
  \<open>ErrNew\<close> is an anonymous error; \<open>ErrWrap msg es\<close> is what \<open>fmt.Errorf\<close> returns for a format
  with one or more \<open>%w\<close> verbs: the formatted text and the wrapped errors;
  \<open>ValidationError field msg\<close> is the struct of that name of the services.
\<close>

datatype go_error =
    ErrSentinel string
  | ErrNew string
  | ErrWrap string "go_error list"
  | ValidationError string string

fun err_text :: "go_error \<Rightarrow> string" where
  "err_text (ErrSentinel m) = m"
| "err_text (ErrNew m) = m"
| "err_text (ErrWrap m es) = m"
| "err_text (ValidationError f m) = f @ '': '' @ m"

definition wrapf :: "string \<Rightarrow> go_error \<Rightarrow> go_error" where
  \<comment> \<open>\<open>fmt.Errorf("<prefix>: %w", err)\<close>\<close>
  "wrapf p e = ErrWrap (p @ '': '' @ err_text e) [e]"

text \<open>\<open>errors.Is\<close>: the error or one it wraps is the target.\<close>

fun errors_is :: "go_error \<Rightarrow> go_error \<Rightarrow> bool" where
  "errors_is (ErrWrap m es) t \<longleftrightarrow> ErrWrap m es = t \<or> (\<exists>e \<in> set es. errors_is e t)"
| "errors_is e t \<longleftrightarrow> e = t"

text \<open>\<open>errors.As\<close> for \<open>*ValidationError\<close>: the first validation error of the chain, depth first.\<close>

fun as_validation :: "go_error \<Rightarrow> (string \<times> string) option"
  and as_validation_list :: "go_error list \<Rightarrow> (string \<times> string) option" where
  "as_validation (ValidationError f m) = Some (f, m)"
| "as_validation (ErrWrap m es) = as_validation_list es"
| "as_validation (ErrSentinel m) = None"
| "as_validation (ErrNew m) = None"
| "as_validation_list [] = None"
| "as_validation_list (e # es) =
     (case as_validation e of Some v \<Rightarrow> Some v | None \<Rightarrow> as_validation_list es)"

lemma errors_is_refl [simp]: "errors_is e e"
  by (cases e) auto

lemma errors_is_wrapf [simp]:
  "errors_is (wrapf p e) (ErrSentinel s) \<longleftrightarrow> errors_is e (ErrSentinel s)"
  by (simp add: wrapf_def)

lemma as_validation_wrapf [simp]: "as_validation (wrapf p e) = as_validation e"
  by (simp add: wrapf_def split: option.splits)

lemma wrapf_neq [simp]:
  "wrapf p e \<noteq> ErrSentinel s" "wrapf p e \<noteq> ErrNew s" "wrapf p e \<noteq> ValidationError f m"
  by (simp_all add: wrapf_def)

section \<open>The outside world\<close>

text \<open>
  \<open>uuid.UUID\<close> is 16 bytes, here one 128-bit word whose byte \<open>0\<close> is the most significant one, so
  that PostgreSQL's order on the type \<open>uuid\<close> is the unsigned order of the word and \<open>uuid.Nil\<close> is
  \<open>0\<close>. A \<open>time.Time\<close> is the instant it denotes, in nanoseconds since the Unix epoch.
\<close>

type_synonym uuid = "128 word"
type_synonym time = int

abbreviation uuid_Nil :: uuid where "uuid_Nil \<equiv> 0"

text \<open>
  Every call that leaves the process (a database statement, an object-store request, an HTTP
  request) takes one tick \<open>n\<close> and fails when \<open>w_fault n\<close> is \<open>Some msg\<close>. The clock and the UUID
  generator are read the same way. All three are arbitrary: a theorem holds for every script of
  faults, clock readings and generated identifiers unless it states a hypothesis on them.
\<close>

record world =
  w_tick :: nat
  w_fault :: "nat \<Rightarrow> string option"
  w_now :: "nat \<Rightarrow> time"
  w_uuid :: "nat \<Rightarrow> uuid"

definition tick :: "'a world_scheme \<Rightarrow> 'a world_scheme" where
  "tick w = w\<lparr>w_tick := Suc (w_tick w)\<rparr>"

definition fault :: "'a world_scheme \<Rightarrow> go_error option" where
  "fault w = map_option ErrNew (w_fault w (w_tick w))"

definition now :: "'a world_scheme \<Rightarrow> time" where
  "now w = w_now w (w_tick w)"

definition new_uuid :: "'a world_scheme \<Rightarrow> uuid" where
  "new_uuid w = w_uuid w (w_tick w)"

definition no_faults :: "'a world_scheme \<Rightarrow> bool" where
  "no_faults w \<longleftrightarrow> (\<forall>n. w_fault w n = None)"

lemma tick_sel [simp]:
  "w_tick (tick w) = Suc (w_tick w)" "w_fault (tick w) = w_fault w"
  "w_now (tick w) = w_now w" "w_uuid (tick w) = w_uuid w" "more (tick w) = more w"
  by (simp_all add: tick_def)

lemma no_faults_tick [simp]: "no_faults (tick w) = no_faults w"
  by (simp add: no_faults_def)

lemma fault_none: "no_faults w \<Longrightarrow> fault w = None"
  by (simp add: no_faults_def fault_def)

section \<open>HTTP\<close>

datatype 'a http_response =
    RespondJSON nat 'a
  | RespondError nat string
  | RespondPaginated nat 'a int string bool
  | NextHandler

fun resp_status :: "'a http_response \<Rightarrow> nat option" where
  "resp_status (RespondJSON s b) = Some s"
| "resp_status (RespondError s m) = Some s"
| "resp_status (RespondPaginated s b t c h) = Some s"
| "resp_status NextHandler = None"

section \<open>Lists\<close>

lemma filter_below_cursor:
  fixes xs ys :: "'a::linorder list"
  assumes "sorted_wrt (>) (xs @ c # ys)"
  shows "filter (\<lambda>x. x < c) (xs @ c # ys) = ys"
proof -
  have "filter (\<lambda>x. x < c) xs = []"
    using assms by (auto simp: sorted_wrt_append filter_empty_conv)
  moreover have "filter (\<lambda>x. x < c) ys = ys"
    using assms by (auto simp: sorted_wrt_append filter_id_conv)
  ultimately show ?thesis by simp
qed

lemma sum_cases_eq:
  "(case s of Inl e \<Rightarrow> Inl e | Inr x \<Rightarrow> Inr x) = s"
  by (cases s) auto

end
