(* ===== verification/Go_Strings.thy ===== *)
theory Go_Strings
  imports VK_Prelude "HOL-Library.Sublist"
begin

text \<open>
  The functions of Go's packages \<open>strings\<close>, \<open>strconv\<close>, \<open>fmt\<close> and \<open>html\<close> that the program uses.
  A Go string is a sequence of bytes, which is what HOL's \<open>string\<close> is, so \<open>length\<close> is Go's \<open>len\<close>.
\<close>

section \<open>Trimming\<close>

text \<open>
  \<open>strings.TrimSpace\<close> removes the runes of \<open>unicode.IsSpace\<close> from both ends. In UTF-8 these are
  the following byte sequences; decoding a rune at either end of a byte string yields one of them
  exactly when the sequence is a prefix (a suffix) of the string.
\<close>

definition space_encodings :: "string list" where
  "space_encodings =
     [[CHR 0x09], [CHR 0x0A], [CHR 0x0B], [CHR 0x0C], [CHR 0x0D], [CHR 0x20],
      [CHR 0xC2, CHR 0x85], [CHR 0xC2, CHR 0xA0], [CHR 0xE1, CHR 0x9A, CHR 0x80]] @
     map (\<lambda>b. [CHR 0xE2, CHR 0x80, b])
       [CHR 0x80, CHR 0x81, CHR 0x82, CHR 0x83, CHR 0x84, CHR 0x85, CHR 0x86, CHR 0x87, CHR 0x88,
        CHR 0x89, CHR 0x8A, CHR 0xA8, CHR 0xA9, CHR 0xAF] @
     [[CHR 0xE2, CHR 0x81, CHR 0x9F], [CHR 0xE3, CHR 0x80, CHR 0x80]]"

definition leading_space :: "string list \<Rightarrow> string \<Rightarrow> nat" where
  "leading_space encs s =
     (case find (\<lambda>e. e \<noteq> [] \<and> prefix e s) encs of None \<Rightarrow> 0 | Some e \<Rightarrow> length e)"

lemma leading_space_le: "leading_space encs s \<le> length s"
  by (auto simp: leading_space_def find_Some_iff prefix_length_le split: option.splits)

lemma leading_space_pos:
  "leading_space encs s \<noteq> 0 \<Longrightarrow> s \<noteq> []"
  by (auto simp: leading_space_def find_Some_iff split: option.splits)

function trim_leading :: "string list \<Rightarrow> string \<Rightarrow> string" where
  "trim_leading encs s =
     (if leading_space encs s = 0 then s else trim_leading encs (drop (leading_space encs s) s))"
  by pat_completeness auto
termination
proof (relation "measure (\<lambda>(encs, s). length s)")
  fix encs s
  assume "leading_space encs s \<noteq> 0"
  with leading_space_pos [of encs s]
  show "((encs, drop (leading_space encs s) s), encs, s) \<in> measure (\<lambda>(encs, s). length s)"
    by (cases s) auto
qed simp

declare trim_leading.simps [simp del]

definition trim_trailing :: "string list \<Rightarrow> string \<Rightarrow> string" where
  "trim_trailing encs s = rev (trim_leading (map rev encs) (rev s))"

definition trim_space :: "string \<Rightarrow> string" where
  "trim_space s = trim_trailing space_encodings (trim_leading space_encodings s)"

lemma trim_leading_suffix: "suffix (trim_leading encs s) s"
proof (induction encs s rule: trim_leading.induct)
  case (1 encs s)
  show ?case
  proof (cases "leading_space encs s = 0")
    case True
    then show ?thesis by (simp add: trim_leading.simps [of encs s])
  next
    case False
    with 1 have "suffix (trim_leading encs (drop (leading_space encs s) s))
        (drop (leading_space encs s) s)" by simp
    with False show ?thesis
      by (metis suffix_drop suffix_order.trans trim_leading.simps)
  qed
qed

lemma trim_leading_done: "leading_space encs (trim_leading encs s) = 0"
proof (induction encs s rule: trim_leading.induct)
  case (1 encs s)
  then show ?case
    by (cases "leading_space encs s = 0") (simp_all add: trim_leading.simps [of encs s])
qed

lemma trim_leading_id: "leading_space encs s = 0 \<Longrightarrow> trim_leading encs s = s"
  by (simp add: trim_leading.simps [of encs s])

lemma trim_trailing_prefix: "prefix (trim_trailing encs s) s"
  using trim_leading_suffix [of "map rev encs" "rev s"]
  by (simp add: trim_trailing_def suffix_to_prefix)

lemma leading_space_zero_iff:
  "leading_space encs s = 0 \<longleftrightarrow> (\<forall>e \<in> set encs. e \<noteq> [] \<longrightarrow> \<not> prefix e s)"
  by (auto simp: leading_space_def find_None_iff find_Some_iff split: option.splits)

lemma leading_space_prefix: "leading_space encs s = 0 \<Longrightarrow> prefix t s \<Longrightarrow> leading_space encs t = 0"
  unfolding leading_space_zero_iff by (meson prefix_order.trans)

lemma trim_space_no_leading: "leading_space space_encodings (trim_space s) = 0"
  unfolding trim_space_def
  by (rule leading_space_prefix [OF trim_leading_done trim_trailing_prefix])

lemma trim_space_no_trailing: "leading_space (map rev space_encodings) (rev (trim_space s)) = 0"
  by (simp add: trim_space_def trim_trailing_def trim_leading_done)

lemma trim_space_idem [simp]: "trim_space (trim_space s) = trim_space s"
proof -
  have "trim_leading space_encodings (trim_space s) = trim_space s"
    by (rule trim_leading_id [OF trim_space_no_leading])
  moreover have "trim_trailing space_encodings (trim_space s) = trim_space s"
    by (simp add: trim_trailing_def trim_leading_id [OF trim_space_no_trailing])
  ultimately show ?thesis by (metis trim_space_def)
qed

lemma length_trim_space: "length (trim_space s) \<le> length s"
proof -
  have "length (trim_space s) \<le> length (trim_leading space_encodings s)"
    unfolding trim_space_def by (rule prefix_length_le [OF trim_trailing_prefix])
  also have "\<dots> \<le> length s" by (rule suffix_length_le [OF trim_leading_suffix])
  finally show ?thesis .
qed

lemma set_trim_space: "set (trim_space s) \<subseteq> set s"
proof -
  have "set (trim_space s) \<subseteq> set (trim_leading space_encodings s)"
    unfolding trim_space_def by (rule set_mono_prefix [OF trim_trailing_prefix])
  also have "\<dots> \<subseteq> set s" by (rule set_mono_suffix [OF trim_leading_suffix])
  finally show ?thesis .
qed

section \<open>Searching and splitting\<close>

fun index_byte :: "string \<Rightarrow> char \<Rightarrow> nat option" where
  \<comment> \<open>\<open>strings.IndexByte\<close>, with \<open>None\<close> for \<open>-1\<close>\<close>
  "index_byte [] c = None"
| "index_byte (x # xs) c = (if x = c then Some 0 else map_option Suc (index_byte xs c))"

fun split_byte :: "char \<Rightarrow> string \<Rightarrow> string list" where
  \<comment> \<open>\<open>strings.Split\<close> with a one-byte separator\<close>
  "split_byte c [] = [[]]"
| "split_byte c (x # xs) =
     (if x = c then [] # split_byte c xs
      else (case split_byte c xs of [] \<Rightarrow> [[x]] | p # ps \<Rightarrow> (x # p) # ps))"

fun join :: "string \<Rightarrow> string list \<Rightarrow> string" where
  \<comment> \<open>\<open>strings.Join\<close>\<close>
  "join sep [] = []"
| "join sep [x] = x"
| "join sep (x # y # ys) = x @ sep @ join sep (y # ys)"

definition contains :: "string \<Rightarrow> string \<Rightarrow> bool" where
  \<comment> \<open>\<open>strings.Contains\<close>\<close>
  "contains s t \<longleftrightarrow> sublist t s"

lemma index_byte_None: "index_byte s c = None \<longleftrightarrow> c \<notin> set s"
  by (induction s) auto

lemma index_byte_Some:
  "index_byte s c = Some i \<Longrightarrow> i < length s \<and> s ! i = c \<and> c \<notin> set (take i s)"
  by (induction s arbitrary: i) (auto split: if_splits)

lemma split_byte_ne [simp]: "split_byte c s \<noteq> []"
  by (induction s) (auto split: list.splits)

lemma split_byte_parts: "p \<in> set (split_byte c s) \<Longrightarrow> c \<notin> set p"
  by (induction s arbitrary: p) (auto split: list.splits if_splits)

lemma split_byte_no_sep: "c \<notin> set s \<Longrightarrow> split_byte c s = [s]"
  by (induction s) auto

lemma split_byte_append:
  "c \<notin> set s \<Longrightarrow> split_byte c (s @ c # t) = s # split_byte c t"
  by (induction s) auto

lemma join_split_byte: "join [c] (split_byte c s) = s"
proof (induction s)
  case Nil
  then show ?case by simp
next
  case (Cons x xs)
  obtain p ps where ps: "split_byte c xs = p # ps"
    by (cases "split_byte c xs") auto
  with Cons show ?case by (cases ps) auto
qed

lemma split_join_byte:
  "ps \<noteq> [] \<Longrightarrow> \<forall>p \<in> set ps. c \<notin> set p \<Longrightarrow> split_byte c (join [c] ps) = ps"
  by (induction "[c]" ps rule: join.induct) (auto simp: split_byte_no_sep split_byte_append)

lemma takeWhile_to_sep: "c \<notin> set p \<Longrightarrow> takeWhile (\<lambda>x. x \<noteq> c) (p @ c # r) = p"
  by (induction p) auto

section \<open>Numbers\<close>

fun nat_digits :: "nat \<Rightarrow> string" where
  "nat_digits n =
     (if n < 10 then [char_of (48 + n)] else nat_digits (n div 10) @ [char_of (48 + n mod 10)])"

declare nat_digits.simps [simp del]

definition itoa :: "int \<Rightarrow> string" where
  \<comment> \<open>\<open>strconv.Itoa\<close> and the verb \<open>%d\<close>\<close>
  "itoa i = (if i < 0 then CHR ''-'' # nat_digits (nat (- i)) else nat_digits (nat i))"

definition pad_left :: "nat \<Rightarrow> string \<Rightarrow> string" where
  "pad_left n s = replicate (n - length s) (CHR ''0'') @ s"

definition zero_pad :: "nat \<Rightarrow> int \<Rightarrow> string" where
  \<comment> \<open>the verb \<open>%0<n>d\<close>: the sign counts for the width\<close>
  "zero_pad n i =
     (if i < 0 then CHR ''-'' # pad_left (n - 1) (nat_digits (nat (- i)))
      else pad_left n (nat_digits (nat i)))"

definition digits_value :: "string \<Rightarrow> nat" where
  "digits_value s = foldl (\<lambda>a c. 10 * a + (of_char c - 48)) 0 s"

lemma digits_value_append:
  "digits_value (s @ [c]) = 10 * digits_value s + (of_char c - 48)"
  by (simp add: digits_value_def)

lemma of_char_digit [simp]: "n < 10 \<Longrightarrow> of_char (char_of (48 + n :: nat)) = 48 + n"
  by (simp add: of_char_of)

lemma digits_value_nat_digits: "digits_value (nat_digits n) = n"
proof (induction n rule: nat_digits.induct)
  case (1 n)
  show ?case
  proof (cases "n < 10")
    case True
    then show ?thesis by (simp add: nat_digits.simps [of n] digits_value_def)
  next
    case False
    with 1 show ?thesis
      by (simp add: nat_digits.simps [of n] digits_value_append)
  qed
qed

lemma nat_digits_inj: "nat_digits m = nat_digits n \<Longrightarrow> m = n"
  by (metis digits_value_nat_digits)

lemma nat_digits_ne [simp]: "nat_digits n \<noteq> []"
  by (subst nat_digits.simps) simp

lemma nat_digits_chars: "c \<in> set (nat_digits n) \<Longrightarrow> 48 \<le> (of_char c :: nat) \<and> of_char c < (58 :: nat)"
proof (induction n rule: nat_digits.induct)
  case (1 n)
  show ?case
  proof (cases "n < 10")
    case True
    with "1.prems" show ?thesis by (auto simp: nat_digits.simps [of n])
  next
    case False
    with 1 show ?thesis by (auto simp: nat_digits.simps [of n])
  qed
qed

lemma foldl_zeros: "foldl (\<lambda>a c. 10 * a + (of_char c - 48)) (0::nat) (replicate k (CHR ''0'')) = 0"
  by (induction k) simp_all

lemma digits_value_pad: "digits_value (pad_left n s) = digits_value s"
  by (simp add: pad_left_def digits_value_def foldl_zeros)

lemma zero_pad_inj: "0 \<le> i \<Longrightarrow> 0 \<le> j \<Longrightarrow> zero_pad n i = zero_pad n j \<Longrightarrow> i = j"
  by (auto simp: zero_pad_def)
    (metis digits_value_nat_digits digits_value_pad eq_nat_nat_iff)

section \<open>HTML escaping\<close>

definition html_escape_char :: "char \<Rightarrow> string" where
  "html_escape_char c =
     (if c = CHR ''&'' then ''&amp;''
      else if c = CHR 0x27 then ''&#39;''
      else if c = CHR ''<'' then ''&lt;''
      else if c = CHR ''>'' then ''&gt;''
      else if c = CHR 0x22 then ''&#34;''
      else [c])"

definition html_escape :: "string \<Rightarrow> string" where
  \<comment> \<open>\<open>html.EscapeString\<close>\<close>
  "html_escape s = concat (map html_escape_char s)"

lemma html_escape_safe:
  "CHR ''<'' \<notin> set (html_escape s) \<and> CHR ''>'' \<notin> set (html_escape s) \<and>
   CHR 0x22 \<notin> set (html_escape s) \<and> CHR 0x27 \<notin> set (html_escape s)"
  by (auto simp: html_escape_def html_escape_char_def split: if_splits)

lemma html_escape_append: "html_escape (s @ t) = html_escape s @ html_escape t"
  by (simp add: html_escape_def)

lemma html_escape_id:
  "set s \<inter> {CHR ''&'', CHR 0x27, CHR ''<'', CHR ''>'', CHR 0x22} = {} \<Longrightarrow> html_escape s = s"
  by (induction s) (auto simp: html_escape_def html_escape_char_def)

definition fmt_bool :: "bool \<Rightarrow> string" where
  \<comment> \<open>the verb \<open>%v\<close> on a \<open>bool\<close>\<close>
  "fmt_bool b = (if b then ''true'' else ''false'')"

end
