(* ===== verification/Go_Base64.thy ===== *)
theory Go_Base64
  imports Go_Strings
begin

text \<open>
  Go's \<open>base64.RawURLEncoding\<close> (the URL alphabet, no padding) and \<open>hex.EncodeToString\<close>, on bytes.
  The decoder is the non-strict one of the package: carriage returns and line feeds are skipped,
  and the unused low bits of a last short group are ignored.
\<close>

section \<open>Hexadecimal\<close>

definition hex_digit :: "nat \<Rightarrow> char" where
  "hex_digit n = (if n < 10 then char_of (48 + n) else char_of (87 + n))"

definition hex_encode :: "string \<Rightarrow> string" where
  "hex_encode bs = concat (map (\<lambda>c. [hex_digit (of_char c div 16), hex_digit (of_char c mod 16)]) bs)"

lemma length_hex_encode: "length (hex_encode bs) = 2 * length bs"
  by (induction bs) (simp_all add: hex_encode_def)

lemma hex_digit_inj: "m < 16 \<Longrightarrow> n < 16 \<Longrightarrow> hex_digit m = hex_digit n \<Longrightarrow> m = n"
proof -
  assume mn: "m < 16" "n < 16" "hex_digit m = hex_digit n"
  then have "(of_char (hex_digit m) :: nat) = of_char (hex_digit n)" by simp
  then show ?thesis
    using mn by (simp add: hex_digit_def split: if_splits)
qed

lemma hex_encode_inj: "hex_encode s = hex_encode t \<longleftrightarrow> s = t"
proof
  show "hex_encode s = hex_encode t \<Longrightarrow> s = t"
  proof (induction s arbitrary: t)
    case Nil
    then show ?case by (cases t) (simp_all add: hex_encode_def)
  next
    case (Cons c s)
    then obtain d t' where t: "t = d # t'" by (cases t) (simp_all add: hex_encode_def)
    have lt: "(of_char x :: nat) div 16 < 16" for x :: char
      by (rule less_mult_imp_div_less) (simp add: nat_of_char_less_256)
    from Cons.prems t have "hex_digit (of_char c div 16) = hex_digit (of_char d div 16)"
        "hex_digit (of_char c mod 16) = hex_digit (of_char d mod 16)" "hex_encode s = hex_encode t'"
      by (simp_all add: hex_encode_def)
    then have "(of_char c :: nat) div 16 = of_char d div 16" "(of_char c :: nat) mod 16 = of_char d mod 16"
        "s = t'"
      using hex_digit_inj lt Cons.IH by simp_all
    then have "(of_char c :: nat) = of_char d" by (metis div_mult_mod_eq)
    with \<open>s = t'\<close> t show ?case by simp
  qed
qed simp

lemma hex_digit_not_bar: "n < 16 \<Longrightarrow> hex_digit n \<noteq> CHR ''|''"
proof -
  assume n: "n < 16"
  have "(of_char (hex_digit n) :: nat) \<noteq> of_char (CHR ''|'')"
    using n by (simp add: hex_digit_def)
  then show ?thesis by metis
qed

lemma hex_digit_not_bar': "n < 16 \<Longrightarrow> CHR ''|'' \<noteq> hex_digit n"
  using hex_digit_not_bar by metis

lemma hex_encode_no_bar: "CHR ''|'' \<notin> set (hex_encode s)"
proof -
  have "(of_char x :: nat) div 16 < 16" for x :: char
    by (rule less_mult_imp_div_less) (simp add: nat_of_char_less_256)
  then show ?thesis
    by (induction s) (simp_all add: hex_encode_def hex_digit_not_bar')
qed

section \<open>Base64, URL alphabet, no padding\<close>

definition b64_char :: "nat \<Rightarrow> char" where
  "b64_char n =
     (if n < 26 then char_of (65 + n) else if n < 52 then char_of (71 + n)
      else if n < 62 then char_of (n - 4) else if n = 62 then CHR ''-'' else CHR ''_'')"

definition b64_value :: "char \<Rightarrow> nat option" where
  "b64_value c =
     (let k = of_char c :: nat in
      if 65 \<le> k \<and> k \<le> 90 then Some (k - 65)
      else if 97 \<le> k \<and> k \<le> 122 then Some (k - 71)
      else if 48 \<le> k \<and> k \<le> 57 then Some (k + 4)
      else if k = 45 then Some 62
      else if k = 95 then Some 63
      else None)"

fun b64_encode :: "string \<Rightarrow> string" where
  "b64_encode (a # b # c # rest) =
     (let x = of_char a * 65536 + of_char b * 256 + (of_char c :: nat) in
      [b64_char (x div 262144), b64_char (x div 4096 mod 64), b64_char (x div 64 mod 64),
       b64_char (x mod 64)] @ b64_encode rest)"
| "b64_encode [a, b] =
     (let x = of_char a * 65536 + (of_char b :: nat) * 256 in
      [b64_char (x div 262144), b64_char (x div 4096 mod 64), b64_char (x div 64 mod 64)])"
| "b64_encode [a] =
     (let x = (of_char a :: nat) * 65536 in [b64_char (x div 262144), b64_char (x div 4096 mod 64)])"
| "b64_encode [] = []"

fun b64_values :: "nat list \<Rightarrow> string option" where
  "b64_values (p # q # r # s # rest) =
     (let x = p * 262144 + q * 4096 + r * 64 + s in
      map_option (\<lambda>t. [char_of (x div 65536), char_of (x div 256 mod 256), char_of (x mod 256)] @ t)
        (b64_values rest))"
| "b64_values [p, q, r] =
     (let x = p * 262144 + q * 4096 + r * 64 in
      Some [char_of (x div 65536), char_of (x div 256 mod 256)])"
| "b64_values [p, q] = (let x = p * 262144 + q * 4096 in Some [char_of (x div 65536)])"
| "b64_values [p] = None"
| "b64_values [] = Some []"

definition b64_decode :: "string \<Rightarrow> go_error + string" where
  "b64_decode s =
     (let cs = filter (\<lambda>c. c \<noteq> CHR 0x0A \<and> c \<noteq> CHR 0x0D) s;
          vs = map b64_value cs
      in if None \<in> set vs then Inl (ErrNew ''illegal base64 data'')
         else (case b64_values (map the vs) of
                 None \<Rightarrow> Inl (ErrNew ''illegal base64 data'')
               | Some bs \<Rightarrow> Inr bs))"

lemma b64_value_char: "n < 64 \<Longrightarrow> b64_value (b64_char n) = Some n"
  by (auto simp: b64_value_def b64_char_def Let_def of_char_of)

lemma b64_char_not_newline: "b64_char n \<noteq> CHR 0x0A \<and> b64_char n \<noteq> CHR 0x0D" if "n < 64"
  using b64_value_char [OF that] by (auto simp: b64_value_def)

text \<open>A byte string as the list of its six-bit groups, so that the codec is two maps.\<close>

fun b64_groups :: "string \<Rightarrow> nat list" where
  "b64_groups (a # b # c # rest) =
     (let x = of_char a * 65536 + of_char b * 256 + (of_char c :: nat) in
      [x div 262144, x div 4096 mod 64, x div 64 mod 64, x mod 64] @ b64_groups rest)"
| "b64_groups [a, b] =
     (let x = of_char a * 65536 + (of_char b :: nat) * 256 in
      [x div 262144, x div 4096 mod 64, x div 64 mod 64])"
| "b64_groups [a] = (let x = (of_char a :: nat) * 65536 in [x div 262144, x div 4096 mod 64])"
| "b64_groups [] = []"

lemma b64_encode_groups: "b64_encode s = map b64_char (b64_groups s)"
  by (induction s rule: b64_groups.induct) (simp_all add: Let_def)

lemma of_char_less [simp]: "(of_char c :: nat) < 256"
  by (metis nat_of_char_less_256)

lemma b64_groups_bound: "n \<in> set (b64_groups s) \<Longrightarrow> n < 64"
proof (induction s arbitrary: n rule: b64_groups.induct)
  case (1 a b c rest)
  have "(of_char a * 65536 + of_char b * 256 + of_char c :: nat) div 262144 < 64"
    using of_char_less [of a] of_char_less [of b] of_char_less [of c] by linarith
  with 1 show ?case by (auto simp: Let_def)
next
  case (2 a b)
  have "(of_char a * 65536 + of_char b * 256 :: nat) div 262144 < 64"
    using of_char_less [of a] of_char_less [of b] by linarith
  with 2 show ?case by (auto simp: Let_def)
next
  case (3 a)
  have "(of_char a * 65536 :: nat) div 262144 < 64"
    using of_char_less [of a] by linarith
  with 3 show ?case by (auto simp: Let_def)
qed simp

lemma regroup_linear:
  fixes x p q t r0 r1 r2 :: nat
  shows "r0 + 64 * p = x \<Longrightarrow> r1 + 64 * q = p \<Longrightarrow> r2 + 64 * t = q \<Longrightarrow>
    t * 262144 + r2 * 4096 + r1 * 64 + r0 = x"
  by simp

lemma regroup4:
  fixes x :: nat
  shows "x div 262144 * 262144 + x div 4096 mod 64 * 4096 + x div 64 mod 64 * 64 + x mod 64 = x"
proof -
  have q: "x div 64 div 64 = x div 4096" and t: "x div 4096 div 64 = x div 262144"
    by (simp_all add: div_mult2_eq [symmetric])
  have "x div 64 mod 64 + 64 * (x div 4096) = x div 64"
    using mod_mult_div_eq [of "x div 64" 64] by (simp only: q)
  moreover have "x div 4096 mod 64 + 64 * (x div 262144) = x div 4096"
    using mod_mult_div_eq [of "x div 4096" 64] by (simp only: t)
  ultimately show ?thesis
    by (rule regroup_linear [OF mod_mult_div_eq])
qed

lemma pack3:
  fixes a b c :: nat
  assumes "b < 256" "c < 256"
  shows "(a * 65536 + b * 256 + c) div 65536 = a" "(a * 65536 + b * 256 + c) div 256 mod 256 = b"
    "(a * 65536 + b * 256 + c) mod 256 = c"
proof -
  have x: "a * 65536 + b * 256 + c = c + (a * 256 + b) * 256" by simp
  have y: "a * 256 + b = b + a * 256" by simp
  have d: "(a * 65536 + b * 256 + c) div 256 = a * 256 + b"
    unfolding x using assms by simp
  have e: "n div 65536 = n div 256 div 256" for n :: nat
    by (simp add: div_mult2_eq [symmetric])
  show "(a * 65536 + b * 256 + c) div 65536 = a"
    unfolding e d unfolding y using assms by simp
  show "(a * 65536 + b * 256 + c) div 256 mod 256 = b"
    unfolding d unfolding y using assms by simp
  show "(a * 65536 + b * 256 + c) mod 256 = c"
    unfolding x using assms(2) by (metis mod_less mod_mult_self1)
qed

lemma char_of_char_bytes:
  "n = of_char c \<Longrightarrow> char_of n = c" "n mod 256 = of_char c \<Longrightarrow> char_of n = c" for n :: nat
  by (simp, metis char_of_char char_of_mod_256)

lemma b64_values_groups: "b64_values (b64_groups s) = Some s"
proof (induction s rule: b64_groups.induct)
  case (1 a b c rest)
  define x where "x = of_char a * 65536 + of_char b * 256 + (of_char c :: nat)"
  have "x div 65536 = of_char a" "x div 256 mod 256 = of_char b" "x mod 256 = of_char c"
    unfolding x_def by (rule pack3; simp)+
  with 1 show ?case
    by (simp add: Let_def regroup4 char_of_char_bytes flip: x_def)
next
  case (2 a b)
  define x where "x = of_char a * 65536 + (of_char b :: nat) * 256"
  have "x div 65536 = of_char a" "x div 256 mod 256 = of_char b"
    using pack3 [of "of_char b" 0 "of_char a"] by (simp_all add: x_def)
  moreover have "x mod 64 = 0" by (simp add: x_def)
  then have "x div 262144 * 262144 + x div 4096 mod 64 * 4096 + x div 64 mod 64 * 64 = x"
    using regroup4 [of x] by simp
  ultimately show ?case by (simp add: Let_def char_of_char_bytes flip: x_def)
next
  case (3 a)
  define x where "x = (of_char a :: nat) * 65536"
  have "x div 65536 = of_char a" by (simp add: x_def)
  moreover have "x mod 64 = 0" "x div 64 mod 64 = 0" by (simp_all add: x_def div_mult2_eq)
  then have "x div 262144 * 262144 + x div 4096 mod 64 * 4096 = x"
    using regroup4 [of x] by simp
  ultimately show ?case by (simp add: Let_def char_of_char_bytes flip: x_def)
next
  case 4
  then show ?case by simp
qed

lemma b64_encode_no_newline: "filter (\<lambda>c. c \<noteq> CHR 0x0A \<and> c \<noteq> CHR 0x0D) (b64_encode s) = b64_encode s"
  using b64_groups_bound b64_char_not_newline
  by (auto simp: b64_encode_groups filter_id_conv)

lemma b64_decode_encode [simp]: "b64_decode (b64_encode s) = Inr s"
proof -
  have vals: "map b64_value (b64_encode s) = map Some (b64_groups s)"
    using b64_groups_bound by (simp add: b64_encode_groups b64_value_char)
  have "None \<notin> set (map Some (b64_groups s))" by auto
  then show ?thesis
    unfolding b64_decode_def b64_encode_no_newline Let_def vals
    by (simp add: b64_values_groups comp_def)
qed

lemma b64_encode_ne: "s \<noteq> [] \<Longrightarrow> b64_encode s \<noteq> []"
  by (cases s rule: b64_encode.cases) (auto simp: Let_def)

end
