(* ===== verification/Go_Http.thy ===== *)
theory Go_Http
  imports Go_Base64
begin

text \<open>
  What the program takes from \<open>net/http\<close>, \<open>net\<close>, \<open>encoding/json\<close>, \<open>crypto\<close>, \<open>time\<close> and from the
  packages \<open>google/uuid\<close> and \<open>chi\<close>: a request as the handlers read it, the split of a host and
  port, JSON values, and the record \<open>go_lib\<close> of library functions that are not defined here and
  that every definition which calls them takes as its argument \<open>L\<close>.
\<close>

section \<open>JSON values\<close>

text \<open>\<open>JNumber m e\<close> is the \<open>float64\<close> of value \<open>m * 2 ^ e\<close>: every finite one has this form.\<close>

datatype json =
    JNull
  | JBool bool
  | JNumber int int
  | JString string
  | JArray "json list"
  | JObject "(string \<times> json) list"

section \<open>Library functions\<close>

text \<open>
  \<open>lib_sha256\<close> is \<open>sha256.Sum256\<close> on bytes. \<open>lib_uuid_string\<close> and \<open>lib_uuid_parse\<close> are
  \<open>uuid.UUID.String\<close> and \<open>uuid.Parse\<close>. \<open>lib_format layout t\<close> is \<open>t.UTC().Format(layout)\<close> and
  \<open>lib_parse_time\<close> is \<open>time.Parse\<close>. \<open>lib_json_parse\<close> decodes one JSON value, \<open>lib_json_print\<close> is
  \<open>json.Marshal\<close>. \<open>lib_col_time\<close> is what PostgreSQL returns for an instant stored in a column of
  type \<open>timestamptz\<close>, and \<open>lib_col_uuid\<close> what it returns for a text stored in a column of type
  \<open>uuid\<close>, \<open>None\<close> when it rejects the text.
\<close>

record go_lib =
  lib_sha256 :: "string \<Rightarrow> string"
  lib_uuid_string :: "uuid \<Rightarrow> string"
  lib_uuid_parse :: "string \<Rightarrow> go_error + uuid"
  lib_format :: "string \<Rightarrow> time \<Rightarrow> string"
  lib_parse_time :: "string \<Rightarrow> string \<Rightarrow> go_error + time"
  lib_json_parse :: "string \<Rightarrow> json option"
  lib_json_print :: "json \<Rightarrow> string option"
  lib_col_time :: "time \<Rightarrow> time"
  lib_col_uuid :: "string \<Rightarrow> string option"

text \<open>Parsing the canonical text of a UUID gives the UUID, and no text of a UUID is empty.\<close>

definition uuid_lib_ok :: "go_lib \<Rightarrow> bool" where
  "uuid_lib_ok L \<longleftrightarrow>
     (\<forall>u. lib_uuid_parse L (lib_uuid_string L u) = Inr u \<and> lib_uuid_string L u \<noteq> [])"

text \<open>
  A concrete library for the witnesses: UUIDs in decimal, instants in decimal, a
  one-byte digest, whole-microsecond columns and a JSON codec for flat objects of strings.
\<close>

definition sample_uuid_parse :: "string \<Rightarrow> go_error + uuid" where
  "sample_uuid_parse s =
     (if s \<noteq> [] \<and> (\<forall>c \<in> set s. (48::nat) \<le> of_char c \<and> of_char c < (58::nat))
      then Inr (word_of_nat (digits_value s)) else Inl (ErrNew ''invalid UUID''))"

definition sample_lib :: go_lib where
  "sample_lib =
     \<lparr>lib_sha256 = (\<lambda>s. [char_of (length s)]),
      lib_uuid_string = (\<lambda>u. nat_digits (unat u)),
      lib_uuid_parse = sample_uuid_parse,
      lib_format = (\<lambda>layout t. itoa t),
      lib_parse_time = (\<lambda>layout s. Inr (int (digits_value s))),
      lib_json_parse = (\<lambda>s. None),
      lib_json_print = (\<lambda>j. Some ''{}''),
      lib_col_time = (\<lambda>t. t div 1000 * 1000),
      lib_col_uuid = (\<lambda>s. if s = ''system'' then None else Some s)\<rparr>"

lemma uuid_lib_ok_sample: "uuid_lib_ok sample_lib"
  using nat_digits_chars
  by (auto simp: uuid_lib_ok_def sample_lib_def sample_uuid_parse_def digits_value_nat_digits)

section \<open>Requests\<close>

text \<open>
  \<open>req_header\<close>, \<open>req_query\<close> and \<open>req_param\<close> are \<open>r.Header.Get\<close>, \<open>r.URL.Query().Get\<close> and
  \<open>chi.URLParam\<close>: all three return the empty string for a missing key.
\<close>

record request =
  req_method :: string
  req_path :: string
  req_header :: "string \<Rightarrow> string"
  req_query :: "string \<Rightarrow> string"
  req_param :: "string \<Rightarrow> string"
  req_remote_addr :: string
  req_body :: string

section \<open>net.SplitHostPort\<close>

definition last_index_byte :: "string \<Rightarrow> char \<Rightarrow> nat option" where
  "last_index_byte s c = map_option (\<lambda>i. length s - 1 - i) (index_byte (rev s) c)"

definition slice :: "string \<Rightarrow> nat \<Rightarrow> nat \<Rightarrow> string" where
  "slice s i j = take (j - i) (drop i s)"

definition split_host_port :: "string \<Rightarrow> go_error + (string \<times> string)" where
  "split_host_port hp =
     (case last_index_byte hp (CHR '':'') of
        None \<Rightarrow> Inl (ErrNew ''missing port in address'')
      | Some i \<Rightarrow>
          if take 1 hp = ''['' then
            (case index_byte hp (CHR '']'') of
               None \<Rightarrow> Inl (ErrNew ''missing ']' in address'')
             | Some e \<Rightarrow>
                 if Suc e = length hp then Inl (ErrNew ''missing port in address'')
                 else if Suc e \<noteq> i then
                   (if hp ! Suc e = CHR '':'' then Inl (ErrNew ''too many colons in address'')
                    else Inl (ErrNew ''missing port in address''))
                 else if CHR ''['' \<in> set (drop 1 hp) then Inl (ErrNew ''unexpected '[' in address'')
                 else if CHR '']'' \<in> set (drop (Suc e) hp) then Inl (ErrNew ''unexpected ']' in address'')
                 else Inr (slice hp 1 e, drop (Suc i) hp))
          else if CHR '':'' \<in> set (take i hp) then Inl (ErrNew ''too many colons in address'')
          else if CHR ''['' \<in> set hp then Inl (ErrNew ''unexpected '[' in address'')
          else if CHR '']'' \<in> set hp then Inl (ErrNew ''unexpected ']' in address'')
          else Inr (take i hp, drop (Suc i) hp))"

end
