(* ===== verification/Auth_Roles.thy ===== *)
theory Auth_Roles
  imports Go_Http
begin

text \<open>
  The package \<open>internal/auth\<close>: system roles and their order, case roles, the authentication
  context carried by a request, the client address, and the two permission middlewares of
  \<open>permissions.go\<close>.
\<close>

section \<open>System roles\<close>

text \<open>\<open>type SystemRole int\<close> with its five constants, from \<open>-1\<close> for \<open>RoleNone\<close> to \<open>3\<close>.\<close>

datatype SystemRole = RoleNone | RoleAPIService | RoleUser | RoleCaseAdmin | RoleSystemAdmin

fun role_int :: "SystemRole \<Rightarrow> int" where
  "role_int RoleNone = -1"
| "role_int RoleAPIService = 0"
| "role_int RoleUser = 1"
| "role_int RoleCaseAdmin = 2"
| "role_int RoleSystemAdmin = 3"

lemma role_int_inj: "role_int a = role_int b \<longleftrightarrow> a = b"
  by (cases a; cases b) auto

instantiation SystemRole :: linorder
begin

definition less_eq_SystemRole :: "SystemRole \<Rightarrow> SystemRole \<Rightarrow> bool" where
  "less_eq_SystemRole a b \<longleftrightarrow> role_int a \<le> role_int b"

definition less_SystemRole :: "SystemRole \<Rightarrow> SystemRole \<Rightarrow> bool" where
  "less_SystemRole a b \<longleftrightarrow> role_int a < role_int b"

instance
  by standard (auto simp: less_eq_SystemRole_def less_SystemRole_def role_int_inj)

end

lemmas role_order = less_eq_SystemRole_def less_SystemRole_def

lemma role_none_least [simp]: "RoleNone \<le> r"
  by (cases r) (simp_all add: role_order)

lemma role_admin_greatest [simp]: "r \<le> RoleSystemAdmin"
  by (cases r) (simp_all add: role_order)

lemma role_admin_le_iff [simp]: "RoleSystemAdmin \<le> r \<longleftrightarrow> r = RoleSystemAdmin"
  by (cases r) (simp_all add: role_order)

lemma role_admin_not_less [simp]: "\<not> RoleSystemAdmin < r"
  by (cases r) (simp_all add: role_order)

fun SystemRole_String :: "SystemRole \<Rightarrow> string" where
  "SystemRole_String RoleSystemAdmin = ''system_admin''"
| "SystemRole_String RoleCaseAdmin = ''case_admin''"
| "SystemRole_String RoleUser = ''user''"
| "SystemRole_String RoleAPIService = ''api_service''"
| "SystemRole_String RoleNone = ''unknown''"

definition ParseSystemRole :: "string \<Rightarrow> SystemRole \<times> bool" where
  "ParseSystemRole s =
     (if s = ''system_admin'' then (RoleSystemAdmin, True)
      else if s = ''case_admin'' then (RoleCaseAdmin, True)
      else if s = ''user'' then (RoleUser, True)
      else if s = ''api_service'' then (RoleAPIService, True)
      else (RoleNone, False))"

lemma parse_role_string:
  "ParseSystemRole (SystemRole_String r) = (r, r \<noteq> RoleNone)"
  by (cases r) (simp_all add: ParseSystemRole_def)

lemma parse_role_ok: "ParseSystemRole s = (r, b) \<Longrightarrow> b \<longleftrightarrow> r \<noteq> RoleNone"
  by (auto simp: ParseSystemRole_def split: if_splits)

section \<open>Case roles and the authentication context\<close>

type_synonym CaseRole = string

definition CaseRoleInvestigator :: CaseRole where "CaseRoleInvestigator = ''investigator''"
definition CaseRoleProsecutor :: CaseRole where "CaseRoleProsecutor = ''prosecutor''"
definition CaseRoleDefence :: CaseRole where "CaseRoleDefence = ''defence''"
definition CaseRoleJudge :: CaseRole where "CaseRoleJudge = ''judge''"
definition CaseRoleObserver :: CaseRole where "CaseRoleObserver = ''observer''"
definition CaseRoleVictimRepresentative :: CaseRole where
  "CaseRoleVictimRepresentative = ''victim_representative''"

record AuthContext =
  UserID :: string
  Email :: string
  Username :: string
  SystemRole :: SystemRole
  TokenExpiry :: int
  SessionID :: string
  IPAddress :: string

text \<open>The two values the package stores in a \<open>context.Context\<close>, under its two private keys.\<close>

record ctx =
  authContextKey :: "AuthContext option"
  caseRoleKey :: "CaseRole option"

definition WithAuthContext :: "ctx \<Rightarrow> AuthContext \<Rightarrow> ctx" where
  "WithAuthContext c ac = c\<lparr>authContextKey := Some ac\<rparr>"

definition GetAuthContext :: "ctx \<Rightarrow> AuthContext option" where
  "GetAuthContext c = authContextKey c"

definition WithCaseRole :: "ctx \<Rightarrow> CaseRole \<Rightarrow> ctx" where
  "WithCaseRole c r = c\<lparr>caseRoleKey := Some r\<rparr>"

definition GetCaseRole :: "ctx \<Rightarrow> CaseRole option" where
  "GetCaseRole c = caseRoleKey c"

lemma context_values [simp]:
  "GetAuthContext (WithAuthContext c ac) = Some ac"
  "GetCaseRole (WithCaseRole c r) = Some r"
  "GetAuthContext (WithCaseRole c r) = GetAuthContext c"
  "GetCaseRole (WithAuthContext c ac) = GetCaseRole c"
  by (simp_all add: WithAuthContext_def GetAuthContext_def WithCaseRole_def GetCaseRole_def)

section \<open>The client's address\<close>

definition GetClientIP :: "request \<Rightarrow> string" where
  "GetClientIP r =
     (let xff = req_header r ''X-Forwarded-For'' in
      if xff \<noteq> [] then
        trim_space (case index_byte xff (CHR '','') of Some idx \<Rightarrow> take idx xff | None \<Rightarrow> xff)
      else let xri = req_header r ''X-Real-IP'' in
      if xri \<noteq> [] then trim_space xri
      else (case split_host_port (req_remote_addr r) of
              Inl err \<Rightarrow> req_remote_addr r
            | Inr (host, port) \<Rightarrow> host))"

lemma client_ip_no_comma: "req_header r ''X-Forwarded-For'' \<noteq> [] \<Longrightarrow> CHR '','' \<notin> set (GetClientIP r)"
proof -
  let ?xff = "req_header r ''X-Forwarded-For''"
  assume "?xff \<noteq> []"
  moreover have "CHR '','' \<notin> set (case index_byte ?xff (CHR '','') of
      Some idx \<Rightarrow> take idx ?xff | None \<Rightarrow> ?xff)"
    using index_byte_None [of ?xff "CHR '',''"] index_byte_Some [of ?xff "CHR '',''"]
    by (auto split: option.split)
  ultimately show ?thesis
    using set_trim_space by (force simp: GetClientIP_def Let_def)
qed

section \<open>Permission middlewares\<close>

text \<open>
  A call of \<open>AuditLogger.LogAccessDenied\<close>, by its arguments. A middleware answers the request
  itself or passes it on with a context; the audit calls it made are the second component.
\<close>

record access_denied =
  ad_user :: string
  ad_endpoint :: string
  ad_required :: string
  ad_actual :: string
  ad_ip :: string

datatype outcome = Answered nat string | Passed ctx

definition LogAccessDenied_call ::
  "bool \<Rightarrow> string \<Rightarrow> string \<Rightarrow> string \<Rightarrow> string \<Rightarrow> string \<Rightarrow> access_denied list" where
  \<comment> \<open>\<open>if audit != nil { audit.LogAccessDenied(...) }\<close>\<close>
  "LogAccessDenied_call audit user endpoint required actual ip =
     (if audit then [\<lparr>ad_user = user, ad_endpoint = endpoint, ad_required = required,
                      ad_actual = actual, ad_ip = ip\<rparr>]
      else [])"

definition RequireSystemRole ::
  "SystemRole \<Rightarrow> bool \<Rightarrow> ctx \<Rightarrow> request \<Rightarrow> outcome \<times> access_denied list" where
  "RequireSystemRole minimum audit c r =
     (case GetAuthContext c of
        None \<Rightarrow> (Answered 500 ''internal error'', [])
      | Some ac \<Rightarrow>
          if SystemRole ac < minimum then
            (Answered 403 ''insufficient permissions'',
             LogAccessDenied_call audit (UserID ac) (req_path r) (SystemRole_String minimum)
               (SystemRole_String (SystemRole ac)) (IPAddress ac))
          else (Passed c, []))"

definition ErrNoCaseRole :: go_error where
  "ErrNoCaseRole = ErrSentinel ''no case role assigned''"

definition RequireCaseRole ::
  "(string \<Rightarrow> string \<Rightarrow> go_error + CaseRole) \<Rightarrow> bool \<Rightarrow> CaseRole list \<Rightarrow> ctx \<Rightarrow> request
     \<Rightarrow> outcome \<times> access_denied list" where
  "RequireCaseRole LoadCaseRole audit allowed c r =
     (case GetAuthContext c of
        None \<Rightarrow> (Answered 500 ''internal error'', [])
      | Some ac \<Rightarrow>
          if SystemRole ac \<ge> RoleSystemAdmin then (Passed c, [])
          else
            let caseID = req_param r ''id'' in
            if caseID = [] then (Answered 400 ''case ID required'', [])
            else
              (case LoadCaseRole caseID (UserID ac) of
                 Inl err \<Rightarrow>
                   if errors_is err ErrNoCaseRole then
                     (Answered 403 ''insufficient permissions'',
                      LogAccessDenied_call audit (UserID ac) (req_path r) ''case_role'' ''none''
                        (IPAddress ac))
                   else (Answered 500 ''authorization check failed'', [])
               | Inr role \<Rightarrow>
                   if role \<notin> set allowed then
                     (Answered 403 ''insufficient permissions'',
                      LogAccessDenied_call audit (UserID ac) (req_path r) ''case_role'' role
                        (IPAddress ac))
                   else (Passed (WithCaseRole c role), [])))"

lemma require_system_role_pass:
  "fst (RequireSystemRole minimum audit c r) = Passed c' \<longleftrightarrow>
     c' = c \<and> (\<exists>ac. GetAuthContext c = Some ac \<and> minimum \<le> SystemRole ac)"
  by (auto simp: RequireSystemRole_def not_less split: option.splits)

lemma require_case_role_pass:
  "fst (RequireCaseRole load audit allowed c r) = Passed c' \<longleftrightarrow>
     (\<exists>ac. GetAuthContext c = Some ac \<and>
        (if SystemRole ac = RoleSystemAdmin then c' = c
         else req_param r ''id'' \<noteq> [] \<and>
           (\<exists>role. load (req_param r ''id'') (UserID ac) = Inr role \<and> role \<in> set allowed \<and>
              c' = WithCaseRole c role)))"
  by (auto simp: RequireCaseRole_def Let_def split: option.splits sum.splits if_splits)

lemma require_case_role_audit:
  "snd (RequireCaseRole load True allowed c r) \<noteq> [] \<longleftrightarrow>
     fst (RequireCaseRole load True allowed c r) = Answered 403 ''insufficient permissions''"
  by (auto simp: RequireCaseRole_def LogAccessDenied_call_def Let_def
      split: option.splits sum.splits if_splits)

end
