(* ===== verification/Auth_Jwks.thy ===== *)
theory Auth_Jwks
  imports Auth_Roles "HOL-Library.AList"
begin

text \<open>
  \<open>internal/auth/jwks.go\<close>: the fetcher of the identity provider's signing keys with its cache.
  The state is the world extended by the cache and by what the endpoint answers at each tick.
  \<open>json.Unmarshal\<close> into \<open>jwksResponse\<close> is the argument \<open>unmarshal\<close>.
\<close>

record jwkKey =
  Kty :: string
  Kid :: string
  Use :: string
  N_field :: string
  E_field :: string
  Alg :: string

record PublicKey =
  pk_N :: nat
  pk_E :: int

definition ErrJWKSUnavailable :: go_error where
  "ErrJWKSUnavailable = ErrSentinel ''JWKS endpoint unavailable''"

text \<open>
  What one request to the endpoint gives: the request cannot be built, the exchange fails, or a
  response with a status and a body that may fail to be read.
\<close>

datatype http_result = ReqError string | HttpError string | HttpResp nat "go_error + string"

type_synonym key_map = "(string \<times> PublicKey) list"

record jwks_state = world +
  jf_cache :: "(key_map \<times> time) option"
  jf_http :: "nat \<Rightarrow> http_result"

definition cacheTTL :: time where "cacheTTL = 5 * 60 * 1000000000"
definition maxCacheAge :: time where "maxCacheAge = 15 * 60 * 1000000000"

section \<open>Parsing a key\<close>

definition big_int :: "string \<Rightarrow> nat" where
  \<comment> \<open>\<open>new(big.Int).SetBytes\<close>\<close>
  "big_int bs = foldl (\<lambda>a c. 256 * a + of_char c) 0 bs"

definition parseRSAPublicKey :: "string \<Rightarrow> string \<Rightarrow> go_error + PublicKey" where
  "parseRSAPublicKey nStr eStr =
     (case b64_decode nStr of
        Inl err \<Rightarrow> Inl (wrapf ''decode modulus'' err)
      | Inr nBytes \<Rightarrow>
          (case b64_decode eStr of
             Inl err \<Rightarrow> Inl (wrapf ''decode exponent'' err)
           | Inr eBytes \<Rightarrow>
               let n = big_int nBytes; e = big_int eBytes in
               if \<not> e < 2 ^ 63 then Inl (ErrNew ''exponent too large'')
               else Inr \<lparr>pk_N = n, pk_E = int e\<rparr>))"

fun collect_keys :: "jwkKey list \<Rightarrow> key_map \<Rightarrow> key_map" where
  \<comment> \<open>the loop of \<open>fetchAndCache\<close> over the keys of the response\<close>
  "collect_keys [] keys = keys"
| "collect_keys (k # ks) keys =
     (if Kty k \<noteq> ''RSA'' \<or> Use k \<noteq> ''sig'' then collect_keys ks keys
      else (case parseRSAPublicKey (N_field k) (E_field k) of
              Inl err \<Rightarrow> collect_keys ks keys
            | Inr pubKey \<Rightarrow> collect_keys ks (AList.update (Kid k) pubKey keys)))"

section \<open>Fetching\<close>

definition fetchAndCache ::
  "(string \<Rightarrow> go_error + jwkKey list) \<Rightarrow> jwks_state \<Rightarrow> (go_error + key_map) \<times> jwks_state" where
  "fetchAndCache unmarshal w =
     (let w1 = tick w in
      case jf_http w (w_tick w) of
        ReqError m \<Rightarrow> (Inl (wrapf ''create JWKS request'' (ErrNew m)), w1)
      | HttpError m \<Rightarrow> (Inl (wrapf ''JWKS HTTP request'' (ErrNew m)), w1)
      | HttpResp status body \<Rightarrow>
          if status \<noteq> 200 then
            (Inl (ErrNew (''JWKS endpoint returned status '' @ itoa (int status))), w1)
          else
            (case map_sum id (take 1048576) body of
               Inl err \<Rightarrow> (Inl (wrapf ''read JWKS response'' err), w1)
             | Inr bytes \<Rightarrow>
                 (case unmarshal bytes of
                    Inl err \<Rightarrow> (Inl (wrapf ''parse JWKS response'' err), w1)
                  | Inr jwks \<Rightarrow>
                      let keys = collect_keys jwks [] in
                      if keys = [] then
                        (Inl (ErrNew ''no valid RSA signing keys in JWKS response''), w1)
                      else (Inr keys, tick (w1\<lparr>jf_cache := Some (keys, now w1)\<rparr>)))))"

definition Prefetch ::
  "(string \<Rightarrow> go_error + jwkKey list) \<Rightarrow> jwks_state \<Rightarrow> go_error option \<times> jwks_state" where
  "Prefetch unmarshal w =
     (case fetchAndCache unmarshal w of
        (Inl err, w') \<Rightarrow> (Some err, w')
      | (Inr _, w') \<Rightarrow> (None, w'))"

definition refreshOrFallback ::
  "(string \<Rightarrow> go_error + jwkKey list) \<Rightarrow> string \<Rightarrow> PublicKey \<Rightarrow> jwks_state
     \<Rightarrow> (go_error + PublicKey) \<times> jwks_state" where
  "refreshOrFallback unmarshal kid fallbackKey w =
     (case fetchAndCache unmarshal w of
        (Inl err, w') \<Rightarrow>
          (case jf_cache w' of
             Some (keys, fetchedAt) \<Rightarrow>
               if now w' - fetchedAt < maxCacheAge then (Inr fallbackKey, tick w')
               else (Inl (ErrWrap (err_text ErrJWKSUnavailable @
                       '': cache expired and refresh failed: '' @ err_text err)
                       [ErrJWKSUnavailable, err]), tick w')
           | None \<Rightarrow>
               (Inl (ErrWrap (err_text ErrJWKSUnavailable @
                  '': cache expired and refresh failed: '' @ err_text err)
                  [ErrJWKSUnavailable, err]), w'))
      | (Inr keys, w') \<Rightarrow>
          (case map_of keys kid of
             None \<Rightarrow> (Inl (ErrNew (''key ID '' @ kid @ '' not found after refresh'')), w')
           | Some key \<Rightarrow> (Inr key, w')))"

definition fetch_key ::
  "(string \<Rightarrow> go_error + jwkKey list) \<Rightarrow> string \<Rightarrow> jwks_state
     \<Rightarrow> (go_error + PublicKey) \<times> jwks_state" where
  \<comment> \<open>the end of \<open>GetKey\<close>, reached on a cache miss\<close>
  "fetch_key unmarshal kid w =
     (case fetchAndCache unmarshal w of
        (Inl err, w') \<Rightarrow>
          (Inl (ErrWrap (err_text ErrJWKSUnavailable @ '': '' @ err_text err)
             [ErrJWKSUnavailable, err]), w')
      | (Inr keys, w') \<Rightarrow>
          (case map_of keys kid of
             None \<Rightarrow> (Inl (ErrNew (''key ID '' @ kid @ '' not found in JWKS'')), w')
           | Some key \<Rightarrow> (Inr key, w')))"

definition GetKey ::
  "(string \<Rightarrow> go_error + jwkKey list) \<Rightarrow> string \<Rightarrow> jwks_state
     \<Rightarrow> (go_error + PublicKey) \<times> jwks_state" where
  "GetKey unmarshal kid w =
     (case jf_cache w of
        Some (keys, fetchedAt) \<Rightarrow>
          (case map_of keys kid of
             Some key \<Rightarrow>
               if now w - fetchedAt < cacheTTL then (Inr key, tick w)
               else refreshOrFallback unmarshal kid key (tick w)
           | None \<Rightarrow> fetch_key unmarshal kid w)
      | None \<Rightarrow> fetch_key unmarshal kid w)"

definition ForceRefresh ::
  "(string \<Rightarrow> go_error + jwkKey list) \<Rightarrow> string \<Rightarrow> jwks_state
     \<Rightarrow> (go_error + PublicKey) \<times> jwks_state" where
  "ForceRefresh unmarshal kid w =
     (case fetchAndCache unmarshal w of
        (Inl err, w') \<Rightarrow> (Inl (wrapf ''force refresh JWKS'' err), w')
      | (Inr keys, w') \<Rightarrow>
          (case map_of keys kid of
             None \<Rightarrow> (Inl (ErrNew (''key ID '' @ kid @ '' not found after refresh'')), w')
           | Some key \<Rightarrow> (Inr key, w')))"

definition HasCachedKeys :: "jwks_state \<Rightarrow> bool" where
  "HasCachedKeys w \<longleftrightarrow> (case jf_cache w of None \<Rightarrow> False | Some (keys, _) \<Rightarrow> 0 < length keys)"

section \<open>What a fetch does\<close>

lemma jf_cache_tick [simp]: "jf_cache (tick w) = jf_cache w" "jf_http (tick w) = jf_http w"
  by (simp_all add: tick_def)

lemma fetch_fail_cache:
  "fetchAndCache unmarshal w = (Inl err, w') \<Longrightarrow> w' = tick w"
  by (auto simp: fetchAndCache_def Let_def split: http_result.splits sum.splits if_splits)

lemma fetch_ok_cache:
  "fetchAndCache unmarshal w = (Inr keys, w') \<Longrightarrow>
     keys \<noteq> [] \<and> jf_cache w' = Some (keys, w_now w (Suc (w_tick w))) \<and>
     w_tick w' = w_tick w + 2 \<and> w_now w' = w_now w"
  by (auto simp: fetchAndCache_def Let_def now_def split: http_result.splits sum.splits if_splits)

lemma collect_keys_signing:
  assumes "\<forall>k \<in> fst ` set keys. \<exists>j \<in> J. Kid j = k \<and> Kty j = ''RSA'' \<and> Use j = ''sig''"
    and "set ks \<subseteq> J"
  shows "\<forall>k \<in> fst ` set (collect_keys ks keys). \<exists>j \<in> J. Kid j = k \<and> Kty j = ''RSA'' \<and> Use j = ''sig''"
  using assms
proof (induction ks keys rule: collect_keys.induct)
  case (2 k ks keys)
  show ?case
  proof (cases "Kty k \<noteq> ''RSA'' \<or> Use k \<noteq> ''sig''")
    case True
    moreover have "set ks \<subseteq> J" using 2(5) by simp
    ultimately show ?thesis using 2(1) [OF True 2(4)] by simp
  next
    case False
    show ?thesis
    proof (cases "parseRSAPublicKey (N_field k) (E_field k)")
      case (Inl err)
      moreover have "set ks \<subseteq> J" using 2(5) by simp
      ultimately show ?thesis using 2(2) [OF False Inl 2(4)] False by simp
    next
      case (Inr pubKey)
      have upd: "\<forall>k \<in> fst ` set (AList.update (Kid k) pubKey keys).
          \<exists>j \<in> J. Kid j = k \<and> Kty j = ''RSA'' \<and> Use j = ''sig''"
        using 2(4,5) False by (auto simp: dom_update)
      moreover have "set ks \<subseteq> J" using 2(5) by simp
      ultimately show ?thesis using 2(3) [OF False Inr upd] False Inr by simp
    qed
  qed
qed simp

text \<open>
  A key that \<open>GetKey\<close> returns is in the cache that it leaves, and some clock reading of the call
  was less than the maximal age after the instant the cache was filled.
\<close>

definition key_fresh :: "string \<Rightarrow> PublicKey \<Rightarrow> jwks_state \<Rightarrow> jwks_state \<Rightarrow> bool" where
  "key_fresh kid key w w' \<longleftrightarrow>
     (\<exists>keys fetchedAt n. jf_cache w' = Some (keys, fetchedAt) \<and> map_of keys kid = Some key \<and>
        w_tick w \<le> n \<and> n < w_tick w' \<and> w_now w n - fetchedAt < maxCacheAge)"

lemma key_fresh_fetched:
  assumes "fetchAndCache unmarshal w = (Inr keys, w')" and "map_of keys kid = Some key"
  shows "key_fresh kid key w w'"
  unfolding key_fresh_def using fetch_ok_cache [OF assms(1)] assms(2)
  by (intro exI [of _ keys] exI [of _ "w_now w (Suc (w_tick w))"] exI [of _ "Suc (w_tick w)"])
    (simp add: maxCacheAge_def)

lemma key_fresh_from_tick: "key_fresh kid key (tick w) w' \<Longrightarrow> key_fresh kid key w w'"
  unfolding key_fresh_def by (auto dest: Suc_leD)

lemma fetch_key_fresh:
  "fetch_key unmarshal kid w = (Inr key, w') \<Longrightarrow> key_fresh kid key w w'"
  by (auto simp: fetch_key_def split: prod.splits sum.splits option.splits
      intro: key_fresh_fetched)

lemma refresh_fresh:
  assumes "refreshOrFallback unmarshal kid fb w = (Inr key, w')"
    and "jf_cache w = Some (keys, t)" and "map_of keys kid = Some fb"
  shows "key_fresh kid key w w'"
proof (cases "fetchAndCache unmarshal w")
  case (Pair r w1)
  show ?thesis
  proof (cases r)
    case (Inl err)
    have w1: "w1 = tick w"
      using Pair Inl fetch_fail_cache by blast
    with Pair Inl assms have "key = fb" "w' = tick w1" "now w1 - t < maxCacheAge"
      by (auto simp: refreshOrFallback_def split: if_splits)
    then show ?thesis
      unfolding key_fresh_def using assms w1
      by (intro exI [of _ keys] exI [of _ t] exI [of _ "Suc (w_tick w)"]) (simp add: now_def)
  next
    case (Inr ks)
    with Pair assms(1) have "map_of ks kid = Some key" "w' = w1"
      by (auto simp: refreshOrFallback_def split: option.splits)
    with Pair Inr show ?thesis by (auto intro: key_fresh_fetched)
  qed
qed

lemma GetKey_fresh: "GetKey unmarshal kid w = (Inr key, w') \<Longrightarrow> key_fresh kid key w w'"
proof -
  assume r: "GetKey unmarshal kid w = (Inr key, w')"
  show ?thesis
  proof (cases "\<exists>keys t k. jf_cache w = Some (keys, t) \<and> map_of keys kid = Some k")
    case False
    with r have "fetch_key unmarshal kid w = (Inr key, w')"
      by (auto simp: GetKey_def split: option.splits)
    then show ?thesis by (rule fetch_key_fresh)
  next
    case True
    then obtain keys t k where c: "jf_cache w = Some (keys, t)" "map_of keys kid = Some k"
      by blast
    show ?thesis
    proof (cases "now w - t < cacheTTL")
      case True
      with c r have "key = k" "w' = tick w" by (auto simp: GetKey_def)
      with c True show ?thesis
        unfolding key_fresh_def
        by (intro exI [of _ keys] exI [of _ t] exI [of _ "w_tick w"])
          (simp add: now_def cacheTTL_def maxCacheAge_def)
    next
      case False
      with c r have "refreshOrFallback unmarshal kid k (tick w) = (Inr key, w')"
        by (auto simp: GetKey_def)
      with c have "key_fresh kid key (tick w) w'"
        by (intro refresh_fresh) simp_all
      then show ?thesis by (rule key_fresh_from_tick)
    qed
  qed
qed

text \<open>
  When \<open>GetKey\<close> fails, either the identity provider was unavailable and the cache is as it was, or
  a fresh key set has been cached that has no key of this identifier.
\<close>

definition key_missing :: "string \<Rightarrow> go_error \<Rightarrow> jwks_state \<Rightarrow> jwks_state \<Rightarrow> bool" where
  "key_missing kid err w w' \<longleftrightarrow>
     jf_cache w' = jf_cache w \<and> errors_is err ErrJWKSUnavailable \<or>
     (\<exists>keys t. jf_cache w' = Some (keys, t) \<and> map_of keys kid = None)"

lemma fetch_key_error:
  "fetch_key unmarshal kid w = (Inl err, w') \<Longrightarrow> key_missing kid err w w'"
  by (auto simp: fetch_key_def key_missing_def split: prod.splits sum.splits option.splits
      dest!: fetch_fail_cache fetch_ok_cache)

lemma refresh_error:
  "refreshOrFallback unmarshal kid fb w = (Inl err, w') \<Longrightarrow> key_missing kid err w w'"
  by (auto simp: refreshOrFallback_def key_missing_def split: prod.splits sum.splits option.splits
      if_splits dest!: fetch_fail_cache fetch_ok_cache)

lemma GetKey_error:
  assumes "GetKey unmarshal kid w = (Inl err, w')"
  shows "key_missing kid err w w'"
proof -
  have t: "key_missing kid err (tick w) w' \<Longrightarrow> key_missing kid err w w'"
    by (simp add: key_missing_def)
  show ?thesis
    using assms t [OF refresh_error]
    by (auto simp: GetKey_def split: option.splits if_splits prod.splits intro: fetch_key_error)
qed

text \<open>Every operation only reads the clock and lets its ticks pass.\<close>

definition jwks_steps :: "jwks_state \<Rightarrow> jwks_state \<Rightarrow> bool" where
  "jwks_steps w w' \<longleftrightarrow> w_now w' = w_now w \<and> w_tick w \<le> w_tick w'"

lemma jwks_steps_refl [simp]: "jwks_steps w w"
  by (simp add: jwks_steps_def)

lemma jwks_steps_tick [simp]: "jwks_steps w (tick w') = (w_now w' = w_now w \<and> w_tick w \<le> Suc (w_tick w'))"
  by (simp add: jwks_steps_def)

lemma jwks_steps_trans: "jwks_steps u v \<Longrightarrow> jwks_steps v w \<Longrightarrow> jwks_steps u w"
  by (simp add: jwks_steps_def)

lemma fetch_steps: "fetchAndCache unmarshal w = (r, w') \<Longrightarrow> jwks_steps w w'"
  by (cases r) (auto simp: jwks_steps_def dest: fetch_fail_cache fetch_ok_cache)

lemma GetKey_steps: "GetKey unmarshal kid w = (r, w') \<Longrightarrow> jwks_steps w w'"
  by (auto simp: GetKey_def refreshOrFallback_def fetch_key_def jwks_steps_def
      split: option.splits if_splits prod.splits sum.splits dest!: fetch_steps)

lemma key_fresh_later: "jwks_steps u w \<Longrightarrow> key_fresh kid key w w' \<Longrightarrow> key_fresh kid key u w'"
  unfolding key_fresh_def jwks_steps_def by (metis order_trans)

lemma ForceRefresh_fresh:
  "ForceRefresh unmarshal kid w = (Inr key, w') \<Longrightarrow> key_fresh kid key w w' \<and> jwks_steps w w'"
  by (auto simp: ForceRefresh_def split: prod.splits sum.splits option.splits
      intro: key_fresh_fetched fetch_steps)

end
