(* ===== verification/Auth_Middleware.thy ===== *)
theory Auth_Middleware
  imports Auth_Jwks
begin

text \<open>
  \<open>internal/auth/middleware.go\<close>: the bearer-token middleware. The record \<open>jwt_lib\<close> holds
  the library functions it calls: \<open>json.Unmarshal\<close> into the token's header and payload and into
  the key set, and \<open>rsa.VerifyPKCS1v15\<close> with SHA-256, which is \<open>True\<close> for a good signature.
\<close>

record jwtHeader =
  hdr_Alg :: string
  hdr_Kid :: string
  hdr_Typ :: string

text \<open>
  \<open>Exp\<close> and \<open>Nbf\<close> are \<open>float64\<close>: a pair \<open>(m, e)\<close> for \<open>m * 2 ^ e\<close>. \<open>Aud\<close> is a Go \<open>any\<close>.
\<close>

record jwtPayload =
  Sub :: string
  pl_Email :: string
  PreferredUsername :: string
  Exp :: "int \<times> int"
  Nbf :: "int \<times> int"
  Iss :: string
  Aud :: json
  Sid :: string
  RealmRoles :: "string list"

record jwt_lib =
  unmarshal_header :: "string \<Rightarrow> go_error + jwtHeader"
  unmarshal_payload :: "string \<Rightarrow> go_error + jwtPayload"
  unmarshal_jwks :: "string \<Rightarrow> go_error + jwkKey list"
  verify_pkcs1v15 :: "PublicKey \<Rightarrow> string \<Rightarrow> string \<Rightarrow> bool"

record Middleware =
  mw_issuer :: string
  mw_audience :: string

definition NewMiddleware :: "string \<Rightarrow> string \<Rightarrow> string \<Rightarrow> Middleware" where
  "NewMiddleware keycloakURL realm clientID =
     \<lparr>mw_issuer = keycloakURL @ ''/realms/'' @ realm, mw_audience = clientID\<rparr>"

section \<open>Claims\<close>

definition float_trunc :: "int \<times> int \<Rightarrow> int" where
  \<comment> \<open>the value of \<open>m * 2 ^ e\<close> truncated towards zero\<close>
  "float_trunc x =
     (case x of (m, e) \<Rightarrow>
        if 0 \<le> e then m * 2 ^ nat e else sgn m * (\<bar>m\<bar> div 2 ^ nat (- e)))"

definition float_int64 :: "int \<times> int \<Rightarrow> int" where
  \<comment> \<open>\<open>int64(f)\<close>; out of range the conversion gives the minimal value, as on amd64\<close>
  "float_int64 x =
     (let v = float_trunc x in if - (2 ^ 63) \<le> v \<and> v < 2 ^ 63 then v else - (2 ^ 63))"

definition float_zero :: "int \<times> int \<Rightarrow> bool" where
  "float_zero x \<longleftrightarrow> fst x = 0"

definition float_pos :: "int \<times> int \<Rightarrow> bool" where
  "float_pos x \<longleftrightarrow> fst x > 0"

definition unix_time :: "int \<Rightarrow> time" where
  \<comment> \<open>\<open>time.Unix(sec, 0)\<close>\<close>
  "unix_time sec = sec * 1000000000"

definition audienceMatches :: "Middleware \<Rightarrow> json \<Rightarrow> bool" where
  "audienceMatches m aud =
     (case aud of
        JString v \<Rightarrow> v = mw_audience m
      | JArray v \<Rightarrow> (\<exists>a \<in> set v. a = JString (mw_audience m))
      | _ \<Rightarrow> False)"

fun highest_role :: "SystemRole \<Rightarrow> string list \<Rightarrow> SystemRole" where
  "highest_role highest [] = highest"
| "highest_role highest (r # rs) =
     (case ParseSystemRole r of (parsed, ok) \<Rightarrow>
        if ok \<and> parsed > highest then highest_role parsed rs else highest_role highest rs)"

definition extractSystemRole :: "string list \<Rightarrow> SystemRole \<times> bool" where
  "extractSystemRole roles =
     (let highest = highest_role RoleNone roles in
      if highest = RoleNone then (RoleNone, False) else (highest, True))"

lemma highest_role_Max:
  "highest_role h rs = Max (insert h ((\<lambda>r. fst (ParseSystemRole r)) ` set rs))"
proof (induction h rs rule: highest_role.induct)
  case (2 h r rs)
  obtain p b where p: "ParseSystemRole r = (p, b)" by fastforce
  then have b: "b \<longleftrightarrow> p \<noteq> RoleNone" by (rule parse_role_ok)
  have ins: "Max (insert h (insert p A)) = Max (insert (max h p) A)" if "finite A" for A
    using that by (cases "A = {}") (simp_all add: max.assoc)
  show ?case
  proof (cases "b \<and> p > h")
    case True
    then have "max h p = p" by (simp add: max_absorb2 less_imp_le)
    with True 2(1) [OF p [symmetric] True] p show ?thesis
      by (simp add: ins del: Max_insert)
  next
    case False
    with b have "\<not> h < p" by (cases "p = RoleNone") (auto simp: not_less)
    moreover from this have "max h p = h" by (simp add: max_absorb1 not_less)
    ultimately show ?thesis using False 2(2) [OF p [symmetric] False] p
      by (simp add: ins del: Max_insert)
  qed
qed simp

lemma extractSystemRole_iff:
  "extractSystemRole roles = (r, True) \<longleftrightarrow>
     r \<noteq> RoleNone \<and> r = Max (insert RoleNone ((\<lambda>s. fst (ParseSystemRole s)) ` set roles))"
  by (auto simp: extractSystemRole_def Let_def highest_role_Max)

section \<open>Validation of a token\<close>

definition check_claims :: "Middleware \<Rightarrow> jwtPayload \<Rightarrow> jwks_state \<Rightarrow> (go_error + AuthContext) \<times> jwks_state" where
  \<comment> \<open>the checks of \<open>validateAndExtract\<close> on the payload; the clock is read once for the expiry and
    once for a positive not-before claim\<close>
  "check_claims m payload w =
     (if Iss payload \<noteq> mw_issuer m then (Inl (ErrNew ''invalid issuer''), w)
      else if \<not> audienceMatches m (Aud payload) then (Inl (ErrNew ''invalid audience''), w)
      else if float_zero (Exp payload) then (Inl (ErrNew ''missing exp claim''), w)
      else
        let w1 = tick w in
        if now w > unix_time (float_int64 (Exp payload)) then (Inl (ErrNew ''token expired''), w1)
        else if float_pos (Nbf payload) \<and> now w1 < unix_time (float_int64 (Nbf payload)) then
          (Inl (ErrNew ''token not yet valid''), tick w1)
        else
          let w2 = (if float_pos (Nbf payload) then tick w1 else w1) in
          case extractSystemRole (RealmRoles payload) of (systemRole, hasRole) \<Rightarrow>
            if \<not> hasRole then (Inl (ErrNew ''token has no recognized VaultKeeper role''), w2)
            else (Inr \<lparr>UserID = Sub payload, Email = pl_Email payload,
                       Username = PreferredUsername payload, SystemRole = systemRole,
                       TokenExpiry = float_int64 (Exp payload), SessionID = Sid payload,
                       IPAddress = []\<rparr>, w2))"

definition check_signature ::
  "jwt_lib \<Rightarrow> string \<Rightarrow> string \<Rightarrow> string \<Rightarrow> jwks_state \<Rightarrow> (go_error + PublicKey) \<times> jwks_state" where
  \<comment> \<open>the part of \<open>validateAndExtract\<close> that finds the key and verifies the signature\<close>
  "check_signature J kid hash signature w =
     (case GetKey (unmarshal_jwks J) kid w of
        (Inl err, w1) \<Rightarrow> (Inl (wrapf ''get signing key'' err), w1)
      | (Inr pubKey, w1) \<Rightarrow>
          if verify_pkcs1v15 J pubKey hash signature then (Inr pubKey, w1)
          else
            (case ForceRefresh (unmarshal_jwks J) kid w1 of
               (Inl err, w2) \<Rightarrow>
                 (Inl (wrapf ''signature verification failed and key refresh failed'' err), w2)
             | (Inr pubKey', w2) \<Rightarrow>
                 if verify_pkcs1v15 J pubKey' hash signature then (Inr pubKey', w2)
                 else (Inl (wrapf ''signature verification failed after key refresh''
                             (ErrSentinel ''crypto/rsa: verification error'')), w2)))"

definition validateAndExtract ::
  "go_lib \<Rightarrow> jwt_lib \<Rightarrow> Middleware \<Rightarrow> string \<Rightarrow> jwks_state \<Rightarrow> (go_error + AuthContext) \<times> jwks_state" where
  "validateAndExtract L J m rawToken w =
     (case split_byte (CHR ''.'') rawToken of
        [p0, p1, p2] \<Rightarrow>
          (case b64_decode p0 of
             Inl err \<Rightarrow> (Inl (wrapf ''decode JWT header'' err), w)
           | Inr headerJSON \<Rightarrow>
          (case unmarshal_header J headerJSON of
             Inl err \<Rightarrow> (Inl (wrapf ''parse JWT header'' err), w)
           | Inr header \<Rightarrow>
          if hdr_Alg header \<noteq> ''RS256'' then
            (Inl (ErrNew (''unsupported algorithm: '' @ hdr_Alg header)), w)
          else
          (case b64_decode p2 of
             Inl err \<Rightarrow> (Inl (wrapf ''decode JWT signature'' err), w)
           | Inr signature \<Rightarrow>
          (case check_signature J (hdr_Kid header) (lib_sha256 L (p0 @ ''.'' @ p1)) signature w of
             (Inl err, w1) \<Rightarrow> (Inl err, w1)
           | (Inr key, w1) \<Rightarrow>
          (case b64_decode p1 of
             Inl err \<Rightarrow> (Inl (wrapf ''decode JWT payload'' err), w1)
           | Inr payloadJSON \<Rightarrow>
          (case unmarshal_payload J payloadJSON of
             Inl err \<Rightarrow> (Inl (wrapf ''parse JWT payload'' err), w1)
           | Inr payload \<Rightarrow> check_claims m payload w1))))))
      | parts \<Rightarrow>
          (Inl (ErrNew (''malformed JWT: expected 3 parts, got '' @ itoa (int (length parts)))), w))"

definition isUpstreamError :: "go_error \<Rightarrow> bool" where
  "isUpstreamError err \<longleftrightarrow> errors_is err ErrJWKSUnavailable"

definition Authenticate ::
  "go_lib \<Rightarrow> jwt_lib \<Rightarrow> Middleware \<Rightarrow> ctx \<Rightarrow> request \<Rightarrow> jwks_state \<Rightarrow> outcome \<times> jwks_state" where
  "Authenticate L J m c r w =
     (if req_path r = ''/health'' \<or> req_method r = ''OPTIONS'' then (Passed c, w)
      else
        let authHeader = req_header r ''Authorization'' in
        if authHeader = [] then (Answered 401 ''authentication required'', w)
        else if \<not> prefix ''Bearer '' authHeader then (Answered 401 ''invalid or expired token'', w)
        else
          let rawToken = drop 7 authHeader in
          case validateAndExtract L J m rawToken w of
            (Inl err, w') \<Rightarrow>
              if isUpstreamError err then (Answered 502 ''authentication service unavailable'', w')
              else (Answered 401 ''invalid or expired token'', w')
          | (Inr ac, w') \<Rightarrow>
              (Passed (WithAuthContext c (ac\<lparr>IPAddress := GetClientIP r\<rparr>)), w'))"

section \<open>What an accepted token satisfies\<close>

text \<open>
  \<open>claims_ok m p ac clk n\<close>: the payload \<open>p\<close> carries the issuer and audience of the middleware, is
  within its validity at the clock readings \<open>n\<close> and \<open>n + 1\<close>, has a recognised role, and \<open>ac\<close> is
  read off it with the greatest of its roles.
\<close>

definition claims_ok ::
  "Middleware \<Rightarrow> jwtPayload \<Rightarrow> AuthContext \<Rightarrow> (nat \<Rightarrow> time) \<Rightarrow> nat \<Rightarrow> bool" where
  "claims_ok m p ac clk n \<longleftrightarrow>
     Iss p = mw_issuer m \<and> audienceMatches m (Aud p) \<and>
     clk n \<le> unix_time (float_int64 (Exp p)) \<and>
     (float_pos (Nbf p) \<longrightarrow> unix_time (float_int64 (Nbf p)) \<le> clk (Suc n)) \<and>
     UserID ac = Sub p \<and> TokenExpiry ac = float_int64 (Exp p) \<and> SystemRole ac \<noteq> RoleNone \<and>
     SystemRole ac = Max (insert RoleNone ((\<lambda>s. fst (ParseSystemRole s)) ` set (RealmRoles p)))"

lemma check_claims_ok:
  assumes "check_claims m p w = (Inr ac, w')"
  shows "claims_ok m p ac (w_now w) (w_tick w) \<and> w_tick w < w_tick w' \<and> jf_cache w' = jf_cache w"
proof -
  obtain r b where e: "extractSystemRole (RealmRoles p) = (r, b)" by fastforce
  with assms have b: "b" "SystemRole ac = r" "UserID ac = Sub p" "TokenExpiry ac = float_int64 (Exp p)"
    by (auto simp: check_claims_def Let_def split: if_splits)
  then have "SystemRole ac \<noteq> RoleNone \<and> SystemRole ac =
      Max (insert RoleNone ((\<lambda>s. fst (ParseSystemRole s)) ` set (RealmRoles p)))"
    using e extractSystemRole_iff [of "RealmRoles p" r] by auto
  moreover have "Iss p = mw_issuer m" "audienceMatches m (Aud p)"
      "now w \<le> unix_time (float_int64 (Exp p))"
      "float_pos (Nbf p) \<Longrightarrow> unix_time (float_int64 (Nbf p)) \<le> now (tick w)"
      "w_tick w < w_tick w'" "jf_cache w' = jf_cache w"
    using assms by (auto simp: check_claims_def Let_def not_less split: if_splits prod.splits)
  ultimately show ?thesis
    using b(3,4) unfolding claims_ok_def now_def by fastforce
qed

lemma check_claims_not_upstream:
  "check_claims m p w = (Inl err, w') \<Longrightarrow> \<not> isUpstreamError err"
  by (auto simp: check_claims_def isUpstreamError_def ErrJWKSUnavailable_def Let_def
      split: if_splits prod.splits)

lemma check_signature_ok:
  assumes "check_signature J kid hash signature w = (Inr key, w')"
  shows "key_fresh kid key w w' \<and> verify_pkcs1v15 J key hash signature \<and> jwks_steps w w'"
proof (cases "GetKey (unmarshal_jwks J) kid w")
  case (Pair r w1)
  with assms obtain k where r: "r = Inr k"
    by (cases r) (auto simp: check_signature_def)
  have st: "jwks_steps w w1" using Pair by (rule GetKey_steps)
  show ?thesis
  proof (cases "verify_pkcs1v15 J k hash signature")
    case True
    with assms Pair r have "w' = w1" "key = k" by (simp_all add: check_signature_def)
    with True Pair r st show ?thesis by (auto intro: GetKey_fresh)
  next
    case False
    with assms Pair r have "ForceRefresh (unmarshal_jwks J) kid w1 = (Inr key, w')"
        "verify_pkcs1v15 J key hash signature"
      by (auto simp: check_signature_def split: prod.splits sum.splits if_splits)
    with st show ?thesis
      using ForceRefresh_fresh key_fresh_later jwks_steps_trans by blast
  qed
qed

text \<open>
  The parts of a token that was accepted between \<open>w\<close> and \<open>w'\<close>: three segments, the RS256
  algorithm, a signature over the first two segments by a key of the token's identifier that is in
  the cache left behind and was fresh, and good claims at clock readings of the call.
\<close>

definition token_accepted ::
  "go_lib \<Rightarrow> jwt_lib \<Rightarrow> Middleware \<Rightarrow> string \<Rightarrow> AuthContext \<Rightarrow> jwks_state \<Rightarrow> jwks_state \<Rightarrow> bool" where
  "token_accepted L J m rawToken ac w w' \<longleftrightarrow>
     (\<exists>p0 p1 p2 hb h sg pb p key n.
        rawToken = p0 @ ''.'' @ p1 @ ''.'' @ p2 \<and>
        b64_decode p0 = Inr hb \<and> unmarshal_header J hb = Inr h \<and> hdr_Alg h = ''RS256'' \<and>
        b64_decode p2 = Inr sg \<and>
        key_fresh (hdr_Kid h) key w w' \<and>
        verify_pkcs1v15 J key (lib_sha256 L (p0 @ ''.'' @ p1)) sg \<and>
        b64_decode p1 = Inr pb \<and> unmarshal_payload J pb = Inr p \<and>
        claims_ok m p ac (w_now w) n \<and> w_tick w \<le> n \<and> n < w_tick w')"

lemma split3:
  assumes "split_byte c s = [a, b, d]"
  shows "s = a @ c # b @ c # d"
  using join_split_byte [of c s] assms by simp

lemma validate_ok:
  assumes "validateAndExtract L J m rawToken w = (Inr ac, w')"
  shows "token_accepted L J m rawToken ac w w'"
proof -
  obtain p0 p1 p2 where parts: "split_byte (CHR ''.'') rawToken = [p0, p1, p2]"
    using assms by (auto simp: validateAndExtract_def split: list.splits)
  note [simp] = validateAndExtract_def parts
  obtain hb where hb: "b64_decode p0 = Inr hb" using assms by (cases "b64_decode p0") auto
  obtain h where h: "unmarshal_header J hb = Inr h"
    using assms hb by (cases "unmarshal_header J hb") auto
  have alg: "hdr_Alg h = ''RS256''" using assms hb h by (auto split: if_splits)
  obtain sg where sg: "b64_decode p2 = Inr sg"
    using assms hb h alg by (cases "b64_decode p2") auto
  obtain key w1 where k: "check_signature J (hdr_Kid h) (lib_sha256 L (p0 @ ''.'' @ p1)) sg w = (Inr key, w1)"
    using assms hb h alg sg by (auto split: prod.splits sum.splits)
  obtain pb where pb: "b64_decode p1 = Inr pb"
    using assms hb h alg sg k by (cases "b64_decode p1") auto
  obtain p where p: "unmarshal_payload J pb = Inr p"
    using assms hb h alg sg k pb by (cases "unmarshal_payload J pb") auto
  have cl: "check_claims m p w1 = (Inr ac, w')"
    using assms hb h alg sg k pb p by simp
  have ks: "key_fresh (hdr_Kid h) key w w1"
      "verify_pkcs1v15 J key (lib_sha256 L (p0 @ ''.'' @ p1)) sg" "jwks_steps w w1"
    using check_signature_ok [OF k] by simp_all
  have c: "claims_ok m p ac (w_now w1) (w_tick w1)" "w_tick w1 < w_tick w'" "jf_cache w' = jf_cache w1"
    using check_claims_ok [OF cl] by simp_all
  have "key_fresh (hdr_Kid h) key w w'"
    using ks(1) c(2,3) unfolding key_fresh_def by (metis less_trans)
  moreover have "claims_ok m p ac (w_now w) (w_tick w1)" "w_tick w \<le> w_tick w1"
    using c(1) ks(3) by (simp_all add: jwks_steps_def)
  ultimately show ?thesis
    unfolding token_accepted_def using split3 [OF parts] hb h alg sg pb p ks(2) c(2) by fastforce
qed

end
