(* ===== verification/Auth_Props.thy ===== *)
theory Auth_Props
  imports Auth_Middleware
begin

text \<open>
  The properties of authentication and authorisation: what a request that passed carries, what the
  two gates let through and record, and how the key cache bridges an outage of the identity
  provider.
\<close>

section \<open>A concrete deployment\<close>

definition sample_jwt_payload :: jwtPayload where
  "sample_jwt_payload =
     \<lparr>Sub = ''u1'', pl_Email = ''u@icc.int'', PreferredUsername = ''u'', Exp = (100, 0), Nbf = (0, 0),
      Iss = ''https://kc/realms/vk'', Aud = JArray [JString ''app'', JString ''vk''], Sid = ''s'',
      RealmRoles = [''user'', ''offline'', ''case_admin'']\<rparr>"

definition sample_rsa_key :: PublicKey where
  "sample_rsa_key = \<lparr>pk_N = 3233, pk_E = 17\<rparr>"

definition sample_jwt_lib :: jwt_lib where
  "sample_jwt_lib =
     \<lparr>unmarshal_header = (\<lambda>b. Inr \<lparr>hdr_Alg = ''RS256'', hdr_Kid = ''k'', hdr_Typ = ''JWT''\<rparr>),
      unmarshal_payload = (\<lambda>b. Inr sample_jwt_payload),
      unmarshal_jwks = (\<lambda>b. Inl (ErrNew ''unexpected end of JSON input'')),
      verify_pkcs1v15 = (\<lambda>key h s. key = sample_rsa_key)\<rparr>"

text \<open>The endpoint is down and one key was cached at the instant \<open>0\<close>; the clock stands at \<open>age\<close>.\<close>

definition sample_jwks :: "time \<Rightarrow> jwks_state" where
  "sample_jwks age =
     \<lparr>w_tick = 0, w_fault = (\<lambda>n. None), w_now = (\<lambda>n. age), w_uuid = (\<lambda>n. 1),
      jf_cache = Some ([(''k'', sample_rsa_key)], 0), jf_http = (\<lambda>n. HttpError ''connection refused'')\<rparr>"

definition sample_auth_request :: request where
  "sample_auth_request =
     \<lparr>req_method = ''GET'', req_path = ''/api/cases'',
      req_header = (\<lambda>h. if h = ''Authorization'' then ''Bearer ..'' else []),
      req_query = (\<lambda>q. []), req_param = (\<lambda>q. if q = ''id'' then ''c1'' else []),
      req_remote_addr = ''10.0.0.1:80'', req_body = []\<rparr>"

definition sample_context :: "SystemRole \<Rightarrow> ctx" where
  "sample_context r =
     \<lparr>authContextKey = Some \<lparr>UserID = ''u1'', Email = [], Username = ''u'', SystemRole = r,
        TokenExpiry = 100, SessionID = [], IPAddress = ''10.0.0.1''\<rparr>,
      caseRoleKey = None\<rparr>"

section \<open>Tokens\<close>

lemma authenticate_passed:
  assumes "Authenticate L J m c r w = (Passed c', w')"
    and "req_path r \<noteq> ''/health''" "req_method r \<noteq> ''OPTIONS''"
  shows "\<exists>rawToken ac. req_header r ''Authorization'' = ''Bearer '' @ rawToken \<and>
    token_accepted L J m rawToken ac w w' \<and>
    c' = WithAuthContext c (ac\<lparr>IPAddress := GetClientIP r\<rparr>)"
proof -
  let ?h = "req_header r ''Authorization''"
  have h: "?h \<noteq> []" "prefix ''Bearer '' ?h"
    using assms by (auto simp: Authenticate_def Let_def split: if_splits)
  then obtain raw where raw: "?h = ''Bearer '' @ raw" by (auto simp: prefix_def)
  obtain ac where "validateAndExtract L J m raw w = (Inr ac, w')"
      "c' = WithAuthContext c (ac\<lparr>IPAddress := GetClientIP r\<rparr>)"
    using assms h raw
    by (auto simp: Authenticate_def Let_def split: if_splits prod.splits sum.splits)
  with raw show ?thesis by (auto dest: validate_ok)
qed


lemma sample_token_validates:
  "\<exists>w' ac. validateAndExtract L sample_jwt_lib (NewMiddleware ''https://kc'' ''vk'' ''vk'') ''..'' (sample_jwks 5) =
     (Inr ac, w') \<and> SystemRole ac = RoleCaseAdmin"
proof -
  have "split_byte (CHR ''.'') ''..'' = [[], [], []]" by simp
  moreover have "b64_decode [] = Inr []" using b64_decode_encode [of "[]"] by simp
  moreover have "extractSystemRole [''user'', ''offline'', ''case_admin''] = (RoleCaseAdmin, True)"
    by (simp add: extractSystemRole_def ParseSystemRole_def role_order)
  ultimately show ?thesis
    by (simp add: validateAndExtract_def sample_jwt_lib_def sample_jwks_def check_signature_def
        GetKey_def now_def cacheTTL_def check_claims_def sample_jwt_payload_def NewMiddleware_def
        audienceMatches_def float_zero_def float_pos_def float_int64_def float_trunc_def
        unix_time_def Let_def)
qed


text \<open>
  An outage of the identity provider: while every request to the key endpoint fails, a cached
  key is returned as long as the clock has not passed 15 minutes since it was fetched, and after
  that the call fails with the error that is answered with status 502, and keeps the cache.
\<close>

theorem key_cache_outage:
  assumes "\<forall>n. \<exists>msg. jf_http w n = HttpError msg"
    and "jf_cache w = Some (keys, t)" "map_of keys kid = Some key"
    and "GetKey unmarshal kid w = (r, w')"
  shows "((\<forall>n. w_now w n - t < maxCacheAge) \<longrightarrow> r = Inr key) \<and>
    ((\<forall>n. maxCacheAge \<le> w_now w n - t) \<longrightarrow>
       (\<exists>err. r = Inl err \<and> isUpstreamError err)) \<and>
    jf_cache w' = jf_cache w"
proof -
  obtain msg where "jf_http (tick w) (w_tick (tick w)) = HttpError msg"
    using assms(1) by (metis jf_cache_tick(2))
  then have f: "fetchAndCache unmarshal (tick w) =
      (Inl (wrapf ''JWKS HTTP request'' (ErrNew msg)), tick (tick w))"
    by (simp add: fetchAndCache_def)
  have le: "cacheTTL \<le> maxCacheAge" by (simp add: cacheTTL_def maxCacheAge_def)
  show ?thesis
    using assms(2-4) f le
    by (auto simp: GetKey_def refreshOrFallback_def now_def isUpstreamError_def not_less
        split: if_splits dest: spec [of _ "w_tick w"] spec [of _ "Suc (Suc (w_tick w))"])
qed

theorem key_cache_outage_witness:
  "fst (GetKey (unmarshal_jwks sample_jwt_lib) ''k'' (sample_jwks 600000000000)) = Inr sample_rsa_key \<and>
   (\<exists>err. fst (GetKey (unmarshal_jwks sample_jwt_lib) ''k'' (sample_jwks 900000000000)) = Inl err \<and>
      isUpstreamError err)"
proof -
  have out: "((\<forall>n. w_now (sample_jwks a) n - 0 < maxCacheAge) \<longrightarrow> r = Inr sample_rsa_key) \<and>
      ((\<forall>n. maxCacheAge \<le> w_now (sample_jwks a) n - 0) \<longrightarrow> (\<exists>err. r = Inl err \<and> isUpstreamError err)) \<and>
      jf_cache w' = jf_cache (sample_jwks a)"
    if "GetKey (unmarshal_jwks sample_jwt_lib) ''k'' (sample_jwks a) = (r, w')" for a r w'
    by (rule key_cache_outage [OF _ _ _ that, where keys = "[(''k'', sample_rsa_key)]"])
      (simp_all add: sample_jwks_def)
  obtain r1 w1 where 1: "GetKey (unmarshal_jwks sample_jwt_lib) ''k'' (sample_jwks 600000000000) = (r1, w1)"
    by fastforce
  obtain r2 w2 where 2: "GetKey (unmarshal_jwks sample_jwt_lib) ''k'' (sample_jwks 900000000000) = (r2, w2)"
    by fastforce
  show ?thesis
    using out [OF 1] out [OF 2] 1 2 by (simp add: sample_jwks_def maxCacheAge_def)
qed

lemma collect_keys_map_of:
  "map_of (collect_keys ks keys) kid =
     (case map_of (rev (concat (map (\<lambda>k.
         if Kty k = ''RSA'' \<and> Use k = ''sig'' then
           (case parseRSAPublicKey (N_field k) (E_field k) of Inl err \<Rightarrow> [] | Inr pk \<Rightarrow> [(Kid k, pk)])
         else []) ks))) kid of Some pk \<Rightarrow> Some pk | None \<Rightarrow> map_of keys kid)"
  by (induction ks keys rule: collect_keys.induct)
    (auto simp: map_add_def update_conv' split: option.splits sum.splits)

text \<open>
  The key set a fetch caches maps an identifier to the last of the response's RSA signing keys
  with that identifier whose modulus and exponent decode; keys of another type or use, and keys
  that do not decode, are not in it.
\<close>

theorem fetch_caches_signing_keys:
  assumes "fetchAndCache unmarshal w = (Inr keys, w')"
  shows "\<exists>body jwks. jf_http w (w_tick w) = HttpResp 200 (Inr body) \<and>
    unmarshal (take 1048576 body) = Inr jwks \<and>
    (\<exists>t. jf_cache w' = Some (keys, t)) \<and> keys \<noteq> [] \<and>
    map_of keys = map_of (rev (concat (map (\<lambda>k.
      if Kty k = ''RSA'' \<and> Use k = ''sig'' then
        (case parseRSAPublicKey (N_field k) (E_field k) of Inl err \<Rightarrow> [] | Inr pk \<Rightarrow> [(Kid k, pk)])
      else []) jwks)))"
proof -
  obtain body jwks where b: "jf_http w (w_tick w) = HttpResp 200 (Inr body)"
      "unmarshal (take 1048576 body) = Inr jwks" "keys = collect_keys jwks []"
    using assms by (auto simp: fetchAndCache_def Let_def map_sum_def
        split: http_result.splits sum.splits if_splits)
  have "map_of keys = map_of (rev (concat (map (\<lambda>k.
      if Kty k = ''RSA'' \<and> Use k = ''sig'' then
        (case parseRSAPublicKey (N_field k) (E_field k) of Inl err \<Rightarrow> [] | Inr pk \<Rightarrow> [(Kid k, pk)])
      else []) jwks)))"
    unfolding b(3) by (rule ext) (subst collect_keys_map_of, simp split: option.split)
  with b fetch_ok_cache [OF assms] show ?thesis by blast
qed

definition sample_jwk :: "string \<Rightarrow> jwkKey" where
  "sample_jwk use = \<lparr>Kty = ''RSA'', Kid = ''k'', Use = use, N_field = b64_encode [CHR ''a''],
     E_field = b64_encode [CHR ''b''], Alg = ''RS256''\<rparr>"

theorem fetch_caches_signing_keys_witness:
  "\<exists>w' keys t. fetchAndCache (\<lambda>b. Inr [sample_jwk ''sig'', sample_jwk ''enc''])
      (sample_jwks 5\<lparr>jf_http := \<lambda>n. HttpResp 200 (Inr ''{}'')\<rparr>) = (Inr keys, w') \<and>
     jf_cache w' = Some (keys, t) \<and> map_of keys ''k'' = Some \<lparr>pk_N = 97, pk_E = 98\<rparr>"
proof -
  let ?un = "\<lambda>b. Inr [sample_jwk ''sig'', sample_jwk ''enc'']"
  let ?w = "sample_jwks 5\<lparr>jf_http := \<lambda>n. HttpResp 200 (Inr ''{}'')\<rparr>"
  have p: "parseRSAPublicKey (b64_encode [CHR ''a'']) (b64_encode [CHR ''b'']) = Inr \<lparr>pk_N = 97, pk_E = 98\<rparr>"
    unfolding parseRSAPublicKey_def b64_decode_encode by (simp add: big_int_def Let_def)
  have "\<exists>keys w'. fetchAndCache ?un ?w = (Inr keys, w')"
    by (simp add: fetchAndCache_def sample_jwks_def sample_jwk_def p Let_def del: b64_encode.simps)
  then obtain keys w' where f: "fetchAndCache ?un ?w = (Inr keys, w')" by blast
  from fetch_caches_signing_keys [OF f] obtain t where "jf_cache w' = Some (keys, t)"
      "map_of keys ''k'' = Some \<lparr>pk_N = 97, pk_E = 98\<rparr>"
    by (auto simp: sample_jwk_def p simp del: b64_encode.simps)
  with f show ?thesis by blast
qed

section \<open>The gates\<close>

lemma system_role_audit:
  "snd (RequireSystemRole minimum True c r) =
     (case GetAuthContext c of
        None \<Rightarrow> []
      | Some ac \<Rightarrow>
          if SystemRole ac < minimum then
            [\<lparr>ad_user = UserID ac, ad_endpoint = req_path r, ad_required = SystemRole_String minimum,
              ad_actual = SystemRole_String (SystemRole ac), ad_ip = IPAddress ac\<rparr>]
          else [])"
  by (auto simp: RequireSystemRole_def LogAccessDenied_call_def split: option.splits)

definition both_gates ::
  "(string \<Rightarrow> string \<Rightarrow> go_error + CaseRole) \<Rightarrow> SystemRole \<Rightarrow> CaseRole list \<Rightarrow> ctx \<Rightarrow> request
     \<Rightarrow> outcome \<times> access_denied list" where
  "both_gates load minimum allowed c r =
     (case RequireSystemRole minimum True c r of
        (Passed c', log) \<Rightarrow> (case RequireCaseRole load True allowed c' r of (out, log') \<Rightarrow> (out, log @ log'))
      | (out, log) \<Rightarrow> (out, log))"



lemma parse_role_fst: "r \<noteq> RoleNone \<Longrightarrow> fst (ParseSystemRole s) = r \<longleftrightarrow> s = SystemRole_String r"
  by (cases r) (auto simp: ParseSystemRole_def)

text \<open>
  The role of a token is the greatest of the roles it lists that the program knows, whatever
  their order and whatever else the list has; a list without a known role gives no role.
\<close>

theorem extract_role_max:
  "extractSystemRole roles =
     (let known = {r. r \<noteq> RoleNone \<and> SystemRole_String r \<in> set roles} in
      if known = {} then (RoleNone, False) else (Max known, True))"
proof -
  let ?known = "{r. r \<noteq> RoleNone \<and> SystemRole_String r \<in> set roles}"
  have img: "(\<lambda>s. fst (ParseSystemRole s)) ` set roles - {RoleNone} = ?known"
  proof (rule set_eqI)
    fix r
    have "r \<in> (\<lambda>s. fst (ParseSystemRole s)) ` set roles \<longleftrightarrow> (\<exists>s \<in> set roles. fst (ParseSystemRole s) = r)"
      by blast
    then show "r \<in> (\<lambda>s. fst (ParseSystemRole s)) ` set roles - {RoleNone} \<longleftrightarrow> r \<in> ?known"
      by (cases "r = RoleNone") (simp_all add: parse_role_fst)
  qed
  have fin: "finite ?known" unfolding img [symmetric] by simp
  have "highest_role RoleNone roles = Max (insert RoleNone ?known)"
    unfolding highest_role_Max img [symmetric] by simp
  moreover have "Max (insert RoleNone ?known) = Max ?known \<and> Max ?known \<noteq> RoleNone" if "?known \<noteq> {}"
  proof -
    have "Max ?known \<in> ?known" using Max_in [OF fin that] .
    then show ?thesis using that fin by (simp add: Max_insert max_absorb2)
  qed
  moreover have "Max (insert RoleNone ?known) = RoleNone" if "?known = {}"
    unfolding that by simp
  ultimately show ?thesis
    unfolding extractSystemRole_def Let_def by (cases "?known = {}") presburger+
qed

end
