(* ===== verification/Pg_Calls.thy ===== *)
theory Pg_Calls
  imports Go_Http
begin

text \<open>
  The shape of the calls the repositories make through \<open>pgx\<close>. A statement takes a tick and may
  fail; reading the rows of a query takes one tick per row and one for \<open>rows.Err()\<close>. None of them
  touches anything of the world but the tick, which is the frame property \<open>only_ticks\<close> below.
\<close>

definition only_ticks :: "'a world_scheme \<Rightarrow> 'a world_scheme \<Rightarrow> bool" where
  "only_ticks w w' \<longleftrightarrow> w' = w\<lparr>w_tick := w_tick w'\<rparr> \<and> w_tick w \<le> w_tick w'"

lemma only_ticks_refl [simp]: "only_ticks w w"
  by (simp add: only_ticks_def)

lemma only_ticks_tick [simp]: "only_ticks w (tick w)"
  by (simp add: only_ticks_def tick_def)

lemma only_ticks_trans: "only_ticks u v \<Longrightarrow> only_ticks v w \<Longrightarrow> only_ticks u w"
  unfolding only_ticks_def by (metis le_trans world.surjective world.update_convs(1) world.select_convs(1))

lemma only_ticks_from_tick: "only_ticks (tick u) w \<Longrightarrow> only_ticks u w"
  using only_ticks_trans only_ticks_tick by blast

lemma only_ticks_sel:
  assumes "only_ticks w w'"
  shows "w_fault w' = w_fault w" "w_now w' = w_now w" "w_uuid w' = w_uuid w" "world.more w' = world.more w"
    "w_tick w \<le> w_tick w'"
proof -
  obtain n where "w' = w\<lparr>w_tick := n\<rparr>" using assms unfolding only_ticks_def by blast
  then show "w_fault w' = w_fault w" "w_now w' = w_now w" "w_uuid w' = w_uuid w" "world.more w' = world.more w"
    by simp_all
  show "w_tick w \<le> w_tick w'" using assms by (simp add: only_ticks_def)
qed

lemma only_ticks_no_faults: "only_ticks w w' \<Longrightarrow> no_faults w' = no_faults w"
  by (simp add: no_faults_def only_ticks_sel)

section \<open>Statements\<close>

definition pg_call :: "(go_error \<Rightarrow> go_error) \<Rightarrow> 'a world_scheme \<Rightarrow> go_error option \<times> 'a world_scheme" where
  \<comment> \<open>one call that fails or succeeds without a result; \<open>f\<close> is how the caller wraps the error\<close>
  "pg_call f w = (map_option f (fault w), tick w)"

definition advisory_lock_id :: "uuid \<Rightarrow> 64 word" where
  \<comment> \<open>\<open>int64(id[0])<<56 | ... | int64(id[7])\<close>\<close>
  "advisory_lock_id u =
     foldl (\<lambda>acc i. or acc (push_bit (56 - 8 * i) (ucast (and (drop_bit (120 - 8 * i) u) 255))))
       0 [0, 1, 2, 3, 4, 5, 6, 7]"

section \<open>Reading rows\<close>

fun scan_rows ::
  "(go_error \<Rightarrow> go_error) \<Rightarrow> 'r list \<Rightarrow> 'a world_scheme \<Rightarrow> (go_error + 'r list) \<times> 'a world_scheme" where
  "scan_rows f [] w = (Inr [], w)"
| "scan_rows f (r # rs) w =
     (case fault w of
        Some err \<Rightarrow> (Inl (f err), tick w)
      | None \<Rightarrow>
          (case scan_rows f rs (tick w) of
             (Inl err, w') \<Rightarrow> (Inl err, w')
           | (Inr xs, w') \<Rightarrow> (Inr (r # xs), w')))"

definition query_rows ::
  "(go_error \<Rightarrow> go_error) \<Rightarrow> (go_error \<Rightarrow> go_error) \<Rightarrow> (go_error \<Rightarrow> go_error) \<Rightarrow> 'r list
     \<Rightarrow> 'a world_scheme \<Rightarrow> (go_error + 'r list) \<times> 'a world_scheme" where
  \<comment> \<open>\<open>pool.Query\<close>, the loop over \<open>rows.Next\<close> and \<open>rows.Scan\<close>, and \<open>rows.Err\<close>; \<open>rows\<close> is the
    result of the statement in the order it asks for\<close>
  "query_rows fq fs fi rows w =
     (case fault w of
        Some err \<Rightarrow> (Inl (fq err), tick w)
      | None \<Rightarrow>
          (case scan_rows fs rows (tick w) of
             (Inl err, w') \<Rightarrow> (Inl err, w')
           | (Inr xs, w') \<Rightarrow>
               (case fault w' of
                  Some err \<Rightarrow> (Inl (fi err), tick w')
                | None \<Rightarrow> (Inr xs, tick w'))))"

lemma scan_rows_ok: "scan_rows f rs w = (Inr xs, w') \<Longrightarrow> xs = rs"
  by (induction f rs w arbitrary: xs rule: scan_rows.induct)
    (auto split: option.splits prod.splits sum.splits)

lemma scan_rows_ticks: "scan_rows f rs w = (r, w') \<Longrightarrow> only_ticks w w'"
proof (induction f rs w arbitrary: r rule: scan_rows.induct)
  case (2 f r rs w)
  then show ?case
    by (auto split: option.splits prod.splits sum.splits intro: only_ticks_from_tick)
qed simp

lemma scan_rows_no_faults: "no_faults w \<Longrightarrow> fst (scan_rows f rs w) = Inr rs"
  by (induction f rs w rule: scan_rows.induct)
    (auto simp: fault_none split: option.splits prod.splits sum.splits)

lemma query_rows_ok: "query_rows fq fs fi rows w = (Inr xs, w') \<Longrightarrow> xs = rows"
  by (auto simp: query_rows_def split: option.splits prod.splits sum.splits dest: scan_rows_ok)

lemma query_rows_ticks: "query_rows fq fs fi rows w = (r, w') \<Longrightarrow> only_ticks w w'"
  by (auto simp: query_rows_def split: option.splits prod.splits sum.splits
      dest!: scan_rows_ticks intro: only_ticks_from_tick only_ticks_trans [OF _ only_ticks_tick])

lemma query_rows_no_faults:
  assumes "no_faults w"
  shows "fst (query_rows fq fs fi rows w) = Inr rows"
proof (cases "scan_rows fs rows (tick w)")
  case (Pair r w')
  with assms scan_rows_no_faults [of "tick w" fs rows] have "r = Inr rows" by simp
  moreover have "no_faults w'"
    using scan_rows_ticks [OF Pair] assms by (simp add: only_ticks_no_faults)
  ultimately show ?thesis
    using Pair assms by (simp add: query_rows_def fault_none)
qed

lemma pg_call_simps [simp]:
  "snd (pg_call f w) = tick w" "fst (pg_call f w) = None \<longleftrightarrow> fault w = None"
  by (simp_all add: pg_call_def)

lemma pg_call_no_faults: "no_faults w \<Longrightarrow> pg_call f w = (None, tick w)"
  by (simp add: pg_call_def fault_none)

end
