(* ===== verification/Hash_Chain.thy ===== *)
theory Hash_Chain
  imports VK_Prelude
begin

text \<open>
  What the custody log and the authentication audit log have in common: an append-only list of
  entries, each holding the hash of the one before it and its own hash, which is a digest of a
  text made from the previous hash and the entry. The locale \<open>hash_chain_log\<close> is the contract
  between a log and those who rely on its chain.
\<close>

definition chain_head :: "('e \<Rightarrow> 'h) \<Rightarrow> 'h \<Rightarrow> 'e list \<Rightarrow> 'h" where
  "chain_head link genesis es = (if es = [] then genesis else link (last es))"

fun chained :: "('e \<Rightarrow> 'h) \<Rightarrow> ('e \<Rightarrow> 'h) \<Rightarrow> ('h \<Rightarrow> 'e \<Rightarrow> 'h) \<Rightarrow> 'h \<Rightarrow> 'e list \<Rightarrow> bool" where
  "chained prev link compute h [] \<longleftrightarrow> True"
| "chained prev link compute h (e # es) \<longleftrightarrow>
     prev e = h \<and> link e = compute h e \<and> chained prev link compute (link e) es"

lemma chain_head_simps [simp]:
  "chain_head link g [] = g" "chain_head link g (es @ [e]) = link e"
  by (simp_all add: chain_head_def)

lemma chain_head_Cons: "chain_head link g (e # es) = chain_head link (link e) es"
  by (simp add: chain_head_def)

lemma chained_append:
  "chained prev link compute h (xs @ ys) \<longleftrightarrow>
     chained prev link compute h xs \<and> chained prev link compute (chain_head link h xs) ys"
  by (induction xs arbitrary: h) (auto simp: chain_head_Cons)

lemma chained_snoc:
  "chained prev link compute h (xs @ [e]) \<longleftrightarrow>
     chained prev link compute h xs \<and> prev e = chain_head link h xs \<and>
     link e = compute (chain_head link h xs) e"
  by (simp add: chained_append)

text \<open>
  Two chains of the same length that end in the same hash either collide the digest or hash the
  same texts with the same links in every position.
\<close>

definition collision :: "('t \<Rightarrow> 'h) \<Rightarrow> bool" where
  "collision digest \<longleftrightarrow> (\<exists>x y. x \<noteq> y \<and> digest x = digest y)"

fun chain_texts :: "('e \<Rightarrow> 'h) \<Rightarrow> ('h \<Rightarrow> 'e \<Rightarrow> 't) \<Rightarrow> 'h \<Rightarrow> 'e list \<Rightarrow> 't list" where
  "chain_texts link tx h [] = []"
| "chain_texts link tx h (e # es) = tx h e # chain_texts link tx (link e) es"

lemma chain_texts_snoc:
  "chain_texts link tx h (es @ [e]) = chain_texts link tx h es @ [tx (chain_head link h es) e]"
  by (induction es arbitrary: h) (auto simp: chain_head_Cons)

lemma chain_pinned:
  assumes "chained prev link (\<lambda>h e. digest (tx h e)) g xs"
    and "chained prev link (\<lambda>h e. digest (tx h e)) g ys"
    and "length xs = length ys" and "chain_head link g xs = chain_head link g ys"
    and good: "good g" "\<And>t. good (digest t)"
    and inj: "\<And>h e h' e'. good h \<Longrightarrow> good h' \<Longrightarrow> tx h e = tx h' e' \<Longrightarrow> h = h'"
  shows "collision digest \<or>
    (chain_texts link tx g xs = chain_texts link tx g ys \<and> map link xs = map link ys)"
  using assms(1-4)
proof (induction xs arbitrary: ys rule: rev_induct)
  case Nil
  then show ?case by simp
next
  case (snoc x xs)
  then obtain y zs where ys: "ys = zs @ [y]"
    by (metis length_greater_0_conv append_is_Nil_conv append_butlast_last_id not_Cons_self2)
  with snoc.prems have link: "link x = link y"
    and d: "digest (tx (chain_head link g xs) x) = digest (tx (chain_head link g zs) y)"
    by (auto simp: chained_snoc)
  show ?case
  proof (cases "tx (chain_head link g xs) x = tx (chain_head link g zs) y")
    case False
    with d show ?thesis unfolding collision_def by blast
  next
    case True
    have "good (chain_head link g es)" if "chained prev link (\<lambda>h e. digest (tx h e)) g es" for es
      using that good by (cases es rule: rev_cases) (auto simp: chained_snoc)
    with True snoc.prems ys have "chain_head link g xs = chain_head link g zs"
      by (intro inj [OF _ _ True]) (auto simp: chained_snoc)
    with snoc ys have "collision digest \<or>
        (chain_texts link tx g xs = chain_texts link tx g zs \<and> map link xs = map link zs)"
      by (simp add: chained_snoc)
    with True ys link show ?thesis by (auto simp: chain_texts_snoc)
  qed
qed

section \<open>The contract of a hash-chained log\<close>

text \<open>
  \<open>entries w\<close> is the log of the state \<open>w\<close> in the order in which its chain is read; \<open>append a w\<close>
  is the state after a successful append of \<open>a\<close>, \<open>None\<close> when it fails; \<open>in_order a w\<close> says when the
  new entry is read after all others. The law: such an append adds one entry at the end, linked to
  the head of the chain.
\<close>

locale hash_chain_log =
  fixes entries :: "'w \<Rightarrow> 'e list"
    and append :: "'a \<Rightarrow> 'w \<Rightarrow> 'w option"
    and in_order :: "'a \<Rightarrow> 'w \<Rightarrow> bool"
    and prev link :: "'e \<Rightarrow> 'h"
    and compute :: "'h \<Rightarrow> 'e \<Rightarrow> 'h"
    and genesis :: 'h
  assumes append_entry:
    "append a w = Some w' \<Longrightarrow> in_order a w \<Longrightarrow>
       \<exists>e. entries w' = entries w @ [e] \<and> prev e = chain_head link genesis (entries w) \<and>
         link e = compute (chain_head link genesis (entries w)) e"
begin

fun appends :: "'a list \<Rightarrow> 'w \<Rightarrow> 'w option" where
  "appends [] w = Some w"
| "appends (a # as) w =
     (if in_order a w then (case append a w of None \<Rightarrow> None | Some w' \<Rightarrow> appends as w') else None)"

lemma append_chained:
  assumes "append a w = Some w'" "in_order a w" "chained prev link compute genesis (entries w)"
  shows "chained prev link compute genesis (entries w')"
  using append_entry [OF assms(1,2)] assms(3) by (auto simp: chained_snoc)

lemma append_length:
  assumes "append a w = Some w'" "in_order a w"
  shows "length (entries w') = Suc (length (entries w))"
  using append_entry [OF assms] by auto

lemma append_prefix:
  assumes "append a w = Some w'" "in_order a w"
  shows "take (length (entries w)) (entries w') = entries w"
  using append_entry [OF assms] by auto

lemma appends_chained:
  assumes "appends as w = Some w'" "chained prev link compute genesis (entries w)"
  shows "chained prev link compute genesis (entries w') \<and>
    length (entries w') = length (entries w) + length as \<and>
    take (length (entries w)) (entries w') = entries w"
  using assms
proof (induction as arbitrary: w)
  case Nil
  then show ?case by simp
next
  case (Cons a as)
  then obtain u where u: "append a w = Some u" "in_order a w" "appends as u = Some w'"
    by (auto split: if_splits option.splits)
  note step = append_chained [OF u(1,2) Cons.prems(2)] append_length [OF u(1,2)]
    append_prefix [OF u(1,2)]
  from Cons.IH [OF u(3) step(1)] step show ?case
    by (auto simp: min_def dest: arg_cong [where f = "take (length (entries w))"])
qed

end

end
