(* ===== verification/Audit_Log.thy ===== *)
theory Audit_Log
  imports Pg_Calls Hash_Chain Auth_Roles "HOL-Library.Product_Lexorder"
begin

text \<open>
  \<open>internal/audit/logger.go\<close>: the hash-chained log of authentication and authorisation events.
  A call of \<open>LogAuthEvent\<close> is two steps of the interleaving model: it begins a transaction,
  whose start is the value of the column default \<open>created_at = now()\<close>, and after it has the
  advisory lock it runs to the end.
\<close>

record AuthEvent =
  ae_Action :: string
  ae_ActorUserID :: string
  ae_IPAddress :: string
  ae_UserAgent :: string
  ae_Detail :: "(string \<times> string) list"

text \<open>
  A row of \<open>auth_audit_log\<close>. \<open>au_hashed_at\<close> is not a column: it is the reading of the process's
  clock that went into the hash, kept here to state what the hash is.
\<close>

record audit_row =
  au_id :: uuid
  au_action :: string
  au_actor_user_id :: string
  au_ip_address :: string
  au_user_agent :: string
  au_detail :: string
  au_hash_value :: string
  au_previous_hash :: string
  au_created_at :: time
  au_hashed_at :: time

record audit_db = world +
  auth_audit_log :: "audit_row list"

definition computeHash :: "go_lib \<Rightarrow> string \<Rightarrow> string \<Rightarrow> string \<Rightarrow> string \<Rightarrow> time \<Rightarrow> string" where
  "computeHash L action actor detail previousHash ts =
     hex_encode (lib_sha256 L (join ''|'' [action, actor, detail, previousHash, itoa ts]))"

definition audit_order :: "audit_row list \<Rightarrow> audit_row list" where
  \<comment> \<open>\<open>ORDER BY created_at, id\<close>\<close>
  "audit_order rows = sort_key (\<lambda>r. (au_created_at r, au_id r)) rows"

definition getLastHash :: "'a audit_db_scheme \<Rightarrow> (go_error + string) \<times> 'a audit_db_scheme" where
  "getLastHash w =
     (case fault w of
        Some err \<Rightarrow> (Inl (wrapf ''query last hash'' err), tick w)
      | None \<Rightarrow>
          (case rev (audit_order (auth_audit_log w)) of
             [] \<Rightarrow> (Inr [], tick w)
           | r # _ \<Rightarrow> (Inr (au_hash_value r), tick w)))"

definition audit_begin ::
  "go_lib \<Rightarrow> AuthEvent \<Rightarrow> 'a audit_db_scheme \<Rightarrow> (go_error + string \<times> time) \<times> 'a audit_db_scheme" where
  \<comment> \<open>marshalling the detail and \<open>BeginTx\<close>: the detail and the start of the transaction\<close>
  "audit_begin L event w =
     (case lib_json_print L (JObject (map (map_prod id JString) (ae_Detail event))) of
        None \<Rightarrow> (Inl (wrapf ''marshal auth event detail'' (ErrNew ''json: unsupported value'')), w)
      | Some detail \<Rightarrow>
          (case pg_call (wrapf ''begin auth audit tx'') w of
             (Some err, w1) \<Rightarrow> (Inl err, w1)
           | (None, w1) \<Rightarrow> (Inr (detail, lib_col_time L (now w)), w1)))"

definition audit_finish ::
  "go_lib \<Rightarrow> AuthEvent \<Rightarrow> string \<Rightarrow> time \<Rightarrow> 'a audit_db_scheme \<Rightarrow> go_error option \<times> 'a audit_db_scheme" where
  \<comment> \<open>from the advisory lock to the commit\<close>
  "audit_finish L event detail started w =
     (case pg_call (wrapf ''lock auth audit chain'') w of (Some err, w1) \<Rightarrow> (Some err, w1) | (None, w1) \<Rightarrow>
     (case getLastHash w1 of (Inl err, w2) \<Rightarrow> (Some (wrapf ''get last auth audit hash'' err), w2) | (Inr previousHash, w2) \<Rightarrow>
     let hashed_at = now w2; w3 = tick w2;
         hashValue = computeHash L (ae_Action event) (ae_ActorUserID event) detail previousHash hashed_at
     in
     (case pg_call (wrapf ''insert auth audit log'') w3 of (Some err, w4) \<Rightarrow> (Some err, w4) | (None, w4) \<Rightarrow>
     (case pg_call (wrapf ''commit auth audit log'') w4 of (Some err, w5) \<Rightarrow> (Some err, w5) | (None, w5) \<Rightarrow>
       (None, w5\<lparr>auth_audit_log := auth_audit_log w5 @
          [\<lparr>au_id = new_uuid w3, au_action = ae_Action event, au_actor_user_id = ae_ActorUserID event,
            au_ip_address = ae_IPAddress event, au_user_agent = ae_UserAgent event,
            au_detail = detail, au_hash_value = hashValue, au_previous_hash = previousHash,
            au_created_at = started, au_hashed_at = hashed_at\<rparr>]\<rparr>)))))"

definition LogAuthEvent ::
  "go_lib \<Rightarrow> AuthEvent \<Rightarrow> 'a audit_db_scheme \<Rightarrow> go_error option \<times> 'a audit_db_scheme" where
  "LogAuthEvent L event w =
     (case audit_begin L event w of
        (Inl err, w1) \<Rightarrow> (Some err, w1)
      | (Inr (detail, started), w1) \<Rightarrow> audit_finish L event detail started w1)"

definition LogAccessDenied ::
  "go_lib \<Rightarrow> access_denied \<Rightarrow> 'a audit_db_scheme \<Rightarrow> 'a audit_db_scheme" where
  "LogAccessDenied L d w =
     snd (LogAuthEvent L
       \<lparr>ae_Action = ''access_denied'', ae_ActorUserID = ad_user d, ae_IPAddress = ad_ip d,
        ae_UserAgent = [],
        ae_Detail = [(''endpoint'', ad_endpoint d), (''required_role'', ad_required d),
          (''actual_role'', ad_actual d)]\<rparr> w)"

section \<open>One append\<close>

lemma audit_log_tick [simp]: "auth_audit_log (tick w) = auth_audit_log w"
  by (simp add: tick_def)

definition audit_head :: "audit_row list \<Rightarrow> string" where
  "audit_head rows = chain_head au_hash_value [] (audit_order rows)"

lemma getLastHash_ok: "getLastHash w = (Inr h, w') \<Longrightarrow> h = audit_head (auth_audit_log w) \<and> w' = tick w"
  by (cases "audit_order (auth_audit_log w)" rule: rev_cases)
    (auto simp: getLastHash_def audit_head_def split: option.splits)

definition audit_entry :: "go_lib \<Rightarrow> string \<Rightarrow> audit_row \<Rightarrow> string" where
  "audit_entry L h r = computeHash L (au_action r) (au_actor_user_id r) (au_detail r) h (au_hashed_at r)"

lemma audit_finish_ok:
  assumes "audit_finish L event detail started w = (None, w')"
  shows "\<exists>r. auth_audit_log w' = auth_audit_log w @ [r] \<and> au_created_at r = started \<and>
    au_action r = ae_Action event \<and> au_actor_user_id r = ae_ActorUserID event \<and>
    au_ip_address r = ae_IPAddress event \<and> au_detail r = detail \<and>
    au_id r = w_uuid w (w_tick w + 3) \<and> au_hashed_at r = w_now w (w_tick w + 2) \<and>
    au_previous_hash r = audit_head (auth_audit_log w) \<and>
    au_hash_value r = audit_entry L (audit_head (auth_audit_log w)) r \<and>
    w_uuid w' = w_uuid w \<and> w_now w' = w_now w \<and> w_fault w' = w_fault w"
  using assms
  by (auto simp: audit_finish_def pg_call_def Let_def audit_entry_def now_def new_uuid_def
      eval_nat_numeral dest!: getLastHash_ok split: option.splits prod.splits sum.splits)

lemma getLastHash_fail: "getLastHash w = (Inl err, w') \<Longrightarrow> w' = tick w"
  by (auto simp: getLastHash_def split: option.splits list.splits)

lemma audit_finish_fail:
  "audit_finish L event detail started w = (Some err, w') \<Longrightarrow> auth_audit_log w' = auth_audit_log w"
  by (auto simp: audit_finish_def pg_call_def Let_def
      dest!: getLastHash_ok getLastHash_fail split: option.splits prod.splits sum.splits)

lemma audit_finish_no_faults:
  assumes "no_faults w"
  shows "\<exists>w'. audit_finish L event detail started w = (None, w') \<and> no_faults w'"
  using assms
  by (auto simp: audit_finish_def pg_call_def Let_def getLastHash_def fault_none no_faults_def fault_def
      split: option.splits prod.splits list.splits)

lemma insort_key_append_max:
  "k a \<le> k x \<Longrightarrow> insort_key k a (xs @ [x]) = insort_key k a xs @ [x]"
  by (induction xs) auto

lemma sort_key_snoc_max:
  "\<forall>y \<in> set xs. k y \<le> k x \<Longrightarrow> sort_key k (xs @ [x]) = sort_key k xs @ [x]"
  by (induction xs) (auto simp: insort_key_append_max)

definition started_last :: "time \<Rightarrow> audit_row list \<Rightarrow> bool" where
  "started_last t rows \<longleftrightarrow> (\<forall>r \<in> set rows. au_created_at r < t)"

definition audit_append ::
  "go_lib \<Rightarrow> AuthEvent \<times> string \<times> time \<Rightarrow> 'a audit_db_scheme \<Rightarrow> 'a audit_db_scheme option" where
  "audit_append L a w =
     (case a of (event, detail, started) \<Rightarrow>
        case audit_finish L event detail started w of (None, w') \<Rightarrow> Some w' | (Some err, w') \<Rightarrow> None)"

interpretation audit_chain: hash_chain_log "\<lambda>w. audit_order (auth_audit_log w)" "audit_append L"
  "\<lambda>a w. started_last (snd (snd a)) (auth_audit_log w)"
  au_previous_hash au_hash_value "audit_entry L" "[]"
  for L :: go_lib
proof unfold_locales
  fix a :: "AuthEvent \<times> string \<times> time" and w w' :: "'a audit_db_scheme"
  assume ap: "audit_append L a w = Some w'" and last: "started_last (snd (snd a)) (auth_audit_log w)"
  obtain event detail started where a: "a = (event, detail, started)" by (cases a) auto
  with ap have "audit_finish L event detail started w = (None, w')"
    by (auto simp: audit_append_def split: prod.splits option.splits)
  from audit_finish_ok [OF this] obtain r where r: "auth_audit_log w' = auth_audit_log w @ [r]"
      "au_created_at r = started" "au_previous_hash r = audit_head (auth_audit_log w)"
      "au_hash_value r = audit_entry L (audit_head (auth_audit_log w)) r"
    by blast
  have "\<forall>y \<in> set (auth_audit_log w). (au_created_at y, au_id y) \<le> (au_created_at r, au_id r)"
    using last r(2) a by (auto simp: started_last_def)
  with r show "\<exists>e. audit_order (auth_audit_log w') = audit_order (auth_audit_log w) @ [e] \<and>
      au_previous_hash e = chain_head au_hash_value [] (audit_order (auth_audit_log w)) \<and>
      au_hash_value e = audit_entry L (chain_head au_hash_value [] (audit_order (auth_audit_log w))) e"
    by (auto simp: audit_order_def audit_head_def sort_key_snoc_max)
qed

section \<open>Properties\<close>

abbreviation audit_chained :: "go_lib \<Rightarrow> audit_row list \<Rightarrow> bool" where
  "audit_chained L rows \<equiv> chained au_previous_hash au_hash_value (audit_entry L) [] (audit_order rows)"


definition sample_audit :: audit_db where
  "sample_audit =
     \<lparr>w_tick = 0, w_fault = (\<lambda>n. None), w_now = (\<lambda>n. 1000 * int n),
      w_uuid = (\<lambda>n. of_nat n + 1), auth_audit_log = []\<rparr>"

definition sample_auth_event :: "string \<Rightarrow> AuthEvent" where
  "sample_auth_event actor =
     \<lparr>ae_Action = ''login'', ae_ActorUserID = actor, ae_IPAddress = [], ae_UserAgent = [],
      ae_Detail = []\<rparr>"

lemma sample_audit_no_faults: "no_faults sample_audit"
  by (simp add: sample_audit_def no_faults_def)


text \<open>
  Two authorisation events that are logged at the same time can fork the chain: if \<open>a\<close> begins
  its transaction before \<open>b\<close> but \<open>b\<close> gets the lock first, then the next event \<open>c\<close> is linked to \<open>b\<close>
  although \<open>a\<close> was already linked to \<open>b\<close>: two rows have the same predecessor, and no row follows \<open>a\<close>.
\<close>

theorem audit_log_forks:
  assumes "no_faults w" "auth_audit_log w = []" "ta < tb" "tb < tc"
    and "audit_finish L b db tb w = (rb, w1)" "audit_finish L a da ta w1 = (ra, w2)"
    and "audit_finish L c dc tc w2 = (rc, w3)"
  shows "\<exists>row_b row_a row_c. auth_audit_log w3 = [row_b, row_a, row_c] \<and>
    au_previous_hash row_a = au_hash_value row_b \<and> au_previous_hash row_c = au_hash_value row_b \<and>
    audit_order (auth_audit_log w3) = [row_a, row_b, row_c]"
proof -
  obtain w1' where w1: "audit_finish L b db tb w = (None, w1')" "no_faults w1'"
    using audit_finish_no_faults [OF assms(1)] by blast
  with assms(5) have e1: "w1' = w1" by simp
  obtain w2' where w2: "audit_finish L a da ta w1 = (None, w2')" "no_faults w2'"
    using audit_finish_no_faults w1(2) e1 by blast
  with assms(6) have e2: "w2' = w2" by simp
  obtain w3' where w3: "audit_finish L c dc tc w2 = (None, w3')" "no_faults w3'"
    using audit_finish_no_faults w2(2) e2 by blast
  with assms(7) have e3: "w3' = w3" by simp
  obtain row_b where b: "auth_audit_log w1 = [row_b]" "au_created_at row_b = tb"
    using audit_finish_ok [OF w1(1)] e1 assms(2) by auto
  obtain row_a where a: "auth_audit_log w2 = [row_b, row_a]" "au_created_at row_a = ta"
      "au_previous_hash row_a = audit_head [row_b]"
    using audit_finish_ok [OF w2(1)] e2 b by auto
  obtain row_c where c: "auth_audit_log w3 = [row_b, row_a, row_c]" "au_created_at row_c = tc"
      "au_previous_hash row_c = audit_head [row_b, row_a]"
    using audit_finish_ok [OF w3(1)] e3 a by auto
  have "audit_head [row_b] = au_hash_value row_b" "audit_head [row_b, row_a] = au_hash_value row_b"
      "audit_order [row_b, row_a, row_c] = [row_a, row_b, row_c]"
    using a(2) b(2) c(2) assms(3,4) by (simp_all add: audit_head_def audit_order_def chain_head_def)
  with a b c show ?thesis by auto
qed

theorem audit_log_forks_witness:
  "\<exists>w1 w2 w3 row_b row_a row_c.
     audit_finish sample_lib (sample_auth_event ''b'') ''{}'' 2 sample_audit = (None, w1) \<and>
     audit_finish sample_lib (sample_auth_event ''a'') ''{}'' 1 w1 = (None, w2) \<and>
     audit_finish sample_lib (sample_auth_event ''c'') ''{}'' 3 w2 = (None, w3) \<and>
     auth_audit_log w3 = [row_b, row_a, row_c] \<and> au_previous_hash row_a = au_previous_hash row_c"
proof -
  note nf = audit_finish_no_faults
  obtain w1 where w1: "audit_finish sample_lib (sample_auth_event ''b'') ''{}'' 2 sample_audit = (None, w1)" "no_faults w1"
    using nf [OF sample_audit_no_faults] by blast
  obtain w2 where w2: "audit_finish sample_lib (sample_auth_event ''a'') ''{}'' 1 w1 = (None, w2)" "no_faults w2"
    using nf [OF w1(2)] by blast
  obtain w3 where w3: "audit_finish sample_lib (sample_auth_event ''c'') ''{}'' 3 w2 = (None, w3)"
    using nf [OF w2(2)] by blast
  have "auth_audit_log sample_audit = []" by (simp add: sample_audit_def)
  from audit_log_forks [OF sample_audit_no_faults this _ _ w1(1) w2(1) w3]
  have "\<exists>row_b row_a row_c. auth_audit_log w3 = [row_b, row_a, row_c] \<and>
      au_previous_hash row_a = au_previous_hash row_c"
    by auto
  with w1 w2 w3 show ?thesis by blast
qed

end
