(* ===== verification/Custody.thy ===== *)
theory Custody
  imports Pg_Calls Hash_Chain "HOL-Library.Product_Lexorder"
begin

text \<open>
  The package \<open>internal/custody\<close>: the append-only chain of custody. The table \<open>custody_log\<close> is a
  list of rows in the order of their commits; \<open>Insert\<close>, \<open>list\<close> and \<open>ListAllByCase\<close> are the
  repository's operations, \<open>RecordEvidenceEvent\<close> and \<open>RecordCaseEvent\<close> the logger's, and
  \<open>VerifyCaseChain\<close> the verifier.
\<close>

section \<open>Data\<close>

record Event =
  ev_ID :: uuid
  ev_CaseID :: uuid
  ev_EvidenceID :: uuid
  ev_Action :: string
  ev_ActorUserID :: string
  ev_Detail :: string
  ev_HashValue :: string
  ev_PreviousHash :: string
  ev_Timestamp :: time

record ChainBreak =
  cb_EntryID :: uuid
  cb_Position :: int
  cb_ExpectedHash :: string
  cb_ActualHash :: string
  cb_Timestamp :: time

record ChainVerification =
  cv_Valid :: bool
  cv_TotalEntries :: int
  cv_VerifiedAt :: time
  cv_Breaks :: "ChainBreak list"

text \<open>
  A row of the table: the event as its columns return it, and whether \<open>evidence_id\<close> is \<open>NULL\<close>.
  Scanning \<open>NULL\<close> into a \<open>uuid.UUID\<close> leaves \<open>uuid.Nil\<close>.
\<close>

record custody_row =
  row_event :: Event
  row_evidence_null :: bool

record custody_db = world +
  custody_log :: "custody_row list"

definition scan_event :: "custody_row \<Rightarrow> Event" where
  "scan_event r = (if row_evidence_null r then (row_event r)\<lparr>ev_EvidenceID := uuid_Nil\<rparr> else row_event r)"

text \<open>The order \<open>ORDER BY timestamp, id\<close>.\<close>

definition ev_key :: "Event \<Rightarrow> time \<times> uuid" where
  "ev_key e = (ev_Timestamp e, ev_ID e)"

definition case_rows :: "uuid \<Rightarrow> custody_row list \<Rightarrow> custody_row list" where
  "case_rows caseID rows =
     sort_key (\<lambda>r. ev_key (row_event r)) (filter (\<lambda>r. ev_CaseID (row_event r) = caseID) rows)"

section \<open>Hashing an event\<close>

definition sortedJSON :: "go_lib \<Rightarrow> json \<Rightarrow> string" where
  "sortedJSON L m = (case lib_json_print L m of None \<Rightarrow> ''{}'' | Some b \<Rightarrow> b)"

definition canonicalJSON :: "go_lib \<Rightarrow> string \<Rightarrow> string" where
  \<comment> \<open>\<open>json.Unmarshal\<close> into a \<open>map[string]any\<close> takes an object or \<open>null\<close>, which leaves the map nil\<close>
  "canonicalJSON L v =
     (case lib_json_parse L v of
        Some (JObject kvs) \<Rightarrow> sortedJSON L (JObject kvs)
      | Some JNull \<Rightarrow> sortedJSON L JNull
      | _ \<Rightarrow> v)"

definition RFC3339Nano :: string where "RFC3339Nano = ''2006-01-02T15:04:05.999999999Z07:00''"

definition log_text :: "go_lib \<Rightarrow> string \<Rightarrow> Event \<Rightarrow> string" where
  \<comment> \<open>the text that \<open>ComputeLogHash\<close> hashes\<close>
  "log_text L prev entry =
     join ''|'' [prev, lib_uuid_string L (ev_ID entry), ev_ActorUserID entry, ev_Action entry,
       lib_format L RFC3339Nano (ev_Timestamp entry), lib_uuid_string L (ev_EvidenceID entry),
       lib_uuid_string L (ev_CaseID entry), canonicalJSON L (ev_Detail entry)]"

definition ComputeLogHash :: "go_lib \<Rightarrow> string \<Rightarrow> Event \<Rightarrow> string" where
  "ComputeLogHash L prev entry = hex_encode (lib_sha256 L (log_text L prev entry))"

section \<open>Insert\<close>

definition last_hash :: "uuid \<Rightarrow> custody_row list \<Rightarrow> string" where
  \<comment> \<open>\<open>SELECT hash_value ... ORDER BY timestamp DESC, id DESC LIMIT 1\<close>, and \<open>\"\"\<close> for no rows\<close>
  "last_hash caseID rows =
     (case rev (case_rows caseID rows) of [] \<Rightarrow> [] | r # _ \<Rightarrow> ev_HashValue (row_event r))"

definition stored_row :: "go_lib \<Rightarrow> Event \<Rightarrow> string \<Rightarrow> custody_row" where
  \<comment> \<open>what the columns return for the inserted values; \<open>actor\<close> is the stored actor\<close>
  "stored_row L e actor =
     \<lparr>row_event = e\<lparr>ev_ActorUserID := actor, ev_Timestamp := lib_col_time L (ev_Timestamp e)\<rparr>,
      row_evidence_null = (ev_EvidenceID e = uuid_Nil)\<rparr>"

definition custody_Insert ::
  "go_lib \<Rightarrow> Event \<Rightarrow> 'a custody_db_scheme \<Rightarrow> go_error option \<times> 'a custody_db_scheme" where
  "custody_Insert L e0 w0 =
     (case pg_call (wrapf ''begin custody tx'') w0 of (Some err, w1) \<Rightarrow> (Some err, w1) | (None, w1) \<Rightarrow>
     (case pg_call (wrapf ''lock custody chain'') w1 of (Some err, w2) \<Rightarrow> (Some err, w2) | (None, w2) \<Rightarrow>
     (case pg_call (wrapf ''get last custody hash'') w2 of (Some err, w3) \<Rightarrow> (Some err, w3) | (None, w3) \<Rightarrow>
     let previousHash = last_hash (ev_CaseID e0) (custody_log w3);
         e1 = (if ev_ID e0 = uuid_Nil then e0\<lparr>ev_ID := new_uuid w3\<rparr> else e0);
         w4 = (if ev_ID e0 = uuid_Nil then tick w3 else w3);
         e2 = e1\<lparr>ev_PreviousHash := previousHash\<rparr>;
         e = e2\<lparr>ev_HashValue := ComputeLogHash L previousHash e2\<rparr>
     in
     (case pg_call (wrapf ''insert custody log'') w4 of (Some err, w5) \<Rightarrow> (Some err, w5) | (None, w5) \<Rightarrow>
     if ev_ID e \<in> set (map (ev_ID \<circ> row_event) (custody_log w5)) then
       (Some (wrapf ''insert custody log'' (ErrNew ''duplicate key value violates unique constraint'')), w5)
     else
     (case lib_col_uuid L (ev_ActorUserID e) of
        None \<Rightarrow> (Some (wrapf ''insert custody log'' (ErrNew ''invalid input syntax for type uuid'')), w5)
      | Some actor \<Rightarrow>
     (case pg_call (wrapf ''commit custody log'') w5 of (Some err, w6) \<Rightarrow> (Some err, w6) | (None, w6) \<Rightarrow>
       (None, w6\<lparr>custody_log := custody_log w6 @ [stored_row L e actor]\<rparr>)))))))"

section \<open>The logger\<close>

definition marshal_detail :: "go_lib \<Rightarrow> (string \<times> string) list \<Rightarrow> string" where
  \<comment> \<open>\<open>json.Marshal\<close> of a \<open>map[string]string\<close>, whose error is dropped\<close>
  "marshal_detail L detail =
     (case lib_json_print L (JObject (map (map_prod id JString) detail)) of
        None \<Rightarrow> [] | Some b \<Rightarrow> b)"

definition RecordEvidenceEvent ::
  "go_lib \<Rightarrow> uuid \<Rightarrow> uuid \<Rightarrow> string \<Rightarrow> string \<Rightarrow> (string \<times> string) list \<Rightarrow> 'a custody_db_scheme
     \<Rightarrow> go_error option \<times> 'a custody_db_scheme" where
  "RecordEvidenceEvent L caseID evidenceID action actorUserID detail w =
     custody_Insert L
       \<lparr>ev_ID = uuid_Nil, ev_CaseID = caseID, ev_EvidenceID = evidenceID, ev_Action = action,
        ev_ActorUserID = actorUserID, ev_Detail = marshal_detail L detail, ev_HashValue = [],
        ev_PreviousHash = [], ev_Timestamp = now w\<rparr> (tick w)"

definition RecordCaseEvent ::
  "go_lib \<Rightarrow> uuid \<Rightarrow> string \<Rightarrow> string \<Rightarrow> (string \<times> string) list \<Rightarrow> 'a custody_db_scheme
     \<Rightarrow> go_error option \<times> 'a custody_db_scheme" where
  "RecordCaseEvent L caseID action actorUserID detail w =
     custody_Insert L
       \<lparr>ev_ID = uuid_Nil, ev_CaseID = caseID, ev_EvidenceID = uuid_Nil, ev_Action = action,
        ev_ActorUserID = actorUserID, ev_Detail = marshal_detail L detail, ev_HashValue = [],
        ev_PreviousHash = [], ev_Timestamp = now w\<rparr> (tick w)"

section \<open>Reading the log\<close>

definition custody_limit :: "int \<Rightarrow> int" where
  \<comment> \<open>the clamping of the limit in \<open>list\<close>\<close>
  "custody_limit limit =
     (let l = (if limit \<le> 0 then 50 else limit) in if l > 200 then 200 else l)"

definition custody_decode_cursor :: "go_lib \<Rightarrow> string \<Rightarrow> go_error + uuid" where
  "custody_decode_cursor L cursor =
     (case b64_decode cursor of
        Inl err \<Rightarrow> Inl (wrapf ''invalid cursor'' err)
      | Inr decoded \<Rightarrow>
          (case lib_uuid_parse L decoded of
             Inl err \<Rightarrow> Inl (wrapf ''invalid cursor UUID'' err)
           | Inr u \<Rightarrow> Inr u))"

definition matches_col :: "string \<Rightarrow> uuid \<Rightarrow> custody_row \<Rightarrow> bool" where
  \<comment> \<open>the condition \<open><filterCol> = $1\<close>, which is not true for \<open>NULL\<close>\<close>
  "matches_col filterCol filterID r \<longleftrightarrow>
     (if filterCol = ''case_id'' then ev_CaseID (row_event r) = filterID
      else \<not> row_evidence_null r \<and> ev_EvidenceID (row_event r) = filterID)"

definition page_rows :: "string \<Rightarrow> uuid \<Rightarrow> uuid option \<Rightarrow> int \<Rightarrow> custody_row list \<Rightarrow> custody_row list" where
  \<comment> \<open>\<open>SELECT ... WHERE <filterCol> = $1 [AND id < $2] ORDER BY timestamp DESC, id DESC LIMIT n\<close>\<close>
  "page_rows filterCol filterID cursorID n rows =
     take (nat n) (rev (sort_key (\<lambda>r. ev_key (row_event r))
       (filter (\<lambda>r. matches_col filterCol filterID r \<and>
          (case cursorID of None \<Rightarrow> True | Some c \<Rightarrow> ev_ID (row_event r) < c)) rows)))"

definition custody_list ::
  "go_lib \<Rightarrow> string \<Rightarrow> uuid \<Rightarrow> int \<Rightarrow> string \<Rightarrow> 'a custody_db_scheme
     \<Rightarrow> (go_error + Event list \<times> int) \<times> 'a custody_db_scheme" where
  "custody_list L filterCol filterID limit0 cursor w =
     (if filterCol \<noteq> ''case_id'' \<and> filterCol \<noteq> ''evidence_id'' then
        (Inl (ErrNew (''invalid filter column: '' @ filterCol)), w)
      else
        let limit = custody_limit limit0 in
        case (if cursor = [] then Inr None else map_sum id Some (custody_decode_cursor L cursor)) of
          Inl err \<Rightarrow> (Inl err, w)
        | Inr cursorID \<Rightarrow>
            (case pg_call (wrapf ''count custody entries'') w of
               (Some err, w1) \<Rightarrow> (Inl err, w1)
             | (None, w1) \<Rightarrow>
                 let total = int (length (filter (matches_col filterCol filterID) (custody_log w))) in
                 case query_rows (wrapf ''query custody log'') (wrapf ''scan custody event'')
                   (wrapf ''iterate custody events'')
                   (map scan_event (page_rows filterCol filterID cursorID (limit + 1) (custody_log w))) w1
                 of (Inl err, w2) \<Rightarrow> (Inl err, w2)
                  | (Inr events, w2) \<Rightarrow>
                      (Inr (if int (length events) > limit then take (nat limit) events else events,
                            total), w2)))"

definition ListByCase ::
  "go_lib \<Rightarrow> uuid \<Rightarrow> int \<Rightarrow> string \<Rightarrow> 'a custody_db_scheme
     \<Rightarrow> (go_error + Event list \<times> int) \<times> 'a custody_db_scheme" where
  "ListByCase L caseID limit cursor w = custody_list L ''case_id'' caseID limit cursor w"

definition ListByEvidence ::
  "go_lib \<Rightarrow> uuid \<Rightarrow> int \<Rightarrow> string \<Rightarrow> 'a custody_db_scheme
     \<Rightarrow> (go_error + Event list \<times> int) \<times> 'a custody_db_scheme" where
  "ListByEvidence L evidenceID limit cursor w = custody_list L ''evidence_id'' evidenceID limit cursor w"

definition ListAllByCase ::
  "uuid \<Rightarrow> 'a custody_db_scheme \<Rightarrow> (go_error + Event list) \<times> 'a custody_db_scheme" where
  "ListAllByCase caseID w =
     query_rows (wrapf ''query all custody events'') (wrapf ''scan custody event'') id
       (map scan_event (case_rows caseID (custody_log w))) w"

section \<open>Verification\<close>

fun verify_loop :: "go_lib \<Rightarrow> int \<Rightarrow> string \<Rightarrow> Event list \<Rightarrow> ChainBreak list" where
  \<comment> \<open>the loop of \<open>VerifyCaseChain\<close>: the breaks it appends\<close>
  "verify_loop L i previousHash [] = []"
| "verify_loop L i previousHash (e # es) =
     (let expected = ComputeLogHash L previousHash e in
      (if ev_HashValue e \<noteq> expected then
         [\<lparr>cb_EntryID = ev_ID e, cb_Position = i, cb_ExpectedHash = expected,
           cb_ActualHash = ev_HashValue e, cb_Timestamp = ev_Timestamp e\<rparr>] else []) @
      (if ev_PreviousHash e \<noteq> previousHash then
         [\<lparr>cb_EntryID = ev_ID e, cb_Position = i, cb_ExpectedHash = previousHash,
           cb_ActualHash = ev_PreviousHash e, cb_Timestamp = ev_Timestamp e\<rparr>] else []) @
      verify_loop L (i + 1) (ev_HashValue e) es)"

definition VerifyCaseChain ::
  "go_lib \<Rightarrow> uuid \<Rightarrow> 'a custody_db_scheme \<Rightarrow> (go_error + ChainVerification) \<times> 'a custody_db_scheme" where
  "VerifyCaseChain L caseID w =
     (case ListAllByCase caseID w of
        (Inl err, w1) \<Rightarrow> (Inl (wrapf ''list events for verification'' err), w1)
      | (Inr events, w1) \<Rightarrow>
          let breaks = verify_loop L 0 [] events in
          (Inr \<lparr>cv_Valid = (breaks = []), cv_TotalEntries = int (length events),
                cv_VerifiedAt = now w1, cv_Breaks = breaks\<rparr>, tick w1))"

end
