(* ===== verification/Custody_Chain.thy ===== *)
theory Custody_Chain
  imports Custody
begin

text \<open>
  What the custody log guarantees: the verifier accepts exactly the chained logs; a log built by
  inserts whose timestamps grow and survive the database's columns verifies; a change of an entry
  that has a successor is found unless SHA-256 collides. And where the guarantee ends: an insert
  whose timestamp is not the latest of its case, or is finer than a column keeps, makes the
  verifier report a break in a log nobody touched.
\<close>

section \<open>Sorting rows\<close>

lemma insort_key_append:
  "k a \<le> k x \<Longrightarrow> insort_key k a (xs @ [x]) = insort_key k a xs @ [x]"
  by (induction xs) auto

lemma sort_key_append_max:
  "\<forall>y \<in> set xs. k y \<le> k x \<Longrightarrow> sort_key k (xs @ [x]) = sort_key k xs @ [x]"
  by (induction xs) (auto simp: insort_key_append)

section \<open>One insert\<close>

lemma log_text_update [simp]:
  "log_text L p (e\<lparr>ev_PreviousHash := a\<rparr>) = log_text L p e"
  "log_text L p (e\<lparr>ev_HashValue := b\<rparr>) = log_text L p e"
  by (simp_all add: log_text_def)

lemma ComputeLogHash_update [simp]:
  "ComputeLogHash L p (e\<lparr>ev_PreviousHash := a\<rparr>) = ComputeLogHash L p e"
  "ComputeLogHash L p (e\<lparr>ev_HashValue := b\<rparr>) = ComputeLogHash L p e"
  by (simp_all add: ComputeLogHash_def)

lemma scan_stored:
  "scan_event (stored_row L e actor) =
     e\<lparr>ev_ActorUserID := actor, ev_Timestamp := lib_col_time L (ev_Timestamp e)\<rparr>"
  by (cases e) (simp add: scan_event_def stored_row_def)

lemma custody_log_tick [simp]: "custody_log (tick w) = custody_log w"
  by (simp add: tick_def)

definition inserted :: "go_lib \<Rightarrow> Event \<Rightarrow> custody_row list \<Rightarrow> Event \<Rightarrow> string \<Rightarrow> bool" where
  \<comment> \<open>\<open>e\<close> is what \<open>Insert\<close> of \<open>e0\<close> writes to a table with these rows, \<open>actor\<close> the stored actor\<close>
  "inserted L e0 rows e actor \<longleftrightarrow>
     e = e0\<lparr>ev_ID := ev_ID e, ev_PreviousHash := last_hash (ev_CaseID e0) rows,
            ev_HashValue := ComputeLogHash L (last_hash (ev_CaseID e0) rows) e\<rparr> \<and>
     (ev_ID e0 \<noteq> uuid_Nil \<longrightarrow> ev_ID e = ev_ID e0) \<and>
     ev_ID e \<notin> set (map (ev_ID \<circ> row_event) rows) \<and> lib_col_uuid L (ev_ActorUserID e0) = Some actor"

lemma custody_Insert_ok:
  assumes "custody_Insert L e0 w = (None, w')"
  shows "\<exists>e actor n. inserted L e0 (custody_log w) e actor \<and> w_tick w \<le> n \<and>
    w' = w\<lparr>w_tick := n, custody_log := custody_log w @ [stored_row L e actor]\<rparr>"
proof -
  define p where "p = last_hash (ev_CaseID e0) (custody_log w)"
  define e1 where "e1 = (if ev_ID e0 = uuid_Nil then e0\<lparr>ev_ID := w_uuid w (w_tick w + 3)\<rparr> else e0)"
  define e where "e = e1\<lparr>ev_PreviousHash := p, ev_HashValue := ComputeLogHash L p e1\<rparr>"
  have e: "e = e0\<lparr>ev_ID := ev_ID e, ev_PreviousHash := p, ev_HashValue := ComputeLogHash L p e\<rparr>"
      "ev_ID e0 \<noteq> uuid_Nil \<longrightarrow> ev_ID e = ev_ID e0"
    by (simp_all add: e_def e1_def)
  obtain actor n where "w' = w\<lparr>w_tick := n, custody_log := custody_log w @ [stored_row L e actor]\<rparr>"
      "lib_col_uuid L (ev_ActorUserID e0) = Some actor" "w_tick w \<le> n"
      "ev_ID e \<notin> set (map (ev_ID \<circ> row_event) (custody_log w))"
    using assms
    by (auto simp: custody_Insert_def pg_call_def Let_def tick_def new_uuid_def e_def e1_def p_def
        eval_nat_numeral split: option.splits if_splits)
  with e show ?thesis unfolding inserted_def p_def by blast
qed

lemma custody_Insert_fail:
  assumes "custody_Insert L e0 w = (Some err, w')"
  shows "only_ticks w w'"
  using assms
  by (auto simp: custody_Insert_def pg_call_def Let_def tick_def only_ticks_def
      split: option.splits if_splits)

lemma inserted_sel:
  assumes "inserted L e0 rows e actor"
  shows "ev_CaseID e = ev_CaseID e0" "ev_Timestamp e = ev_Timestamp e0" "ev_Action e = ev_Action e0"
    "ev_ActorUserID e = ev_ActorUserID e0" "ev_EvidenceID e = ev_EvidenceID e0"
    "ev_Detail e = ev_Detail e0" "ev_PreviousHash e = last_hash (ev_CaseID e0) rows"
    "ev_HashValue e = ComputeLogHash L (last_hash (ev_CaseID e0) rows) e"
    "lib_col_uuid L (ev_ActorUserID e0) = Some actor" "ev_ID e \<notin> set (map (ev_ID \<circ> row_event) rows)"
proof -
  from assms have e: "e = e0\<lparr>ev_ID := ev_ID e, ev_PreviousHash := last_hash (ev_CaseID e0) rows,
      ev_HashValue := ComputeLogHash L (last_hash (ev_CaseID e0) rows) e\<rparr>"
    and r: "lib_col_uuid L (ev_ActorUserID e0) = Some actor"
      "ev_ID e \<notin> set (map (ev_ID \<circ> row_event) rows)"
    unfolding inserted_def by blast+
  show "ev_CaseID e = ev_CaseID e0" "ev_Timestamp e = ev_Timestamp e0" "ev_Action e = ev_Action e0"
    "ev_ActorUserID e = ev_ActorUserID e0" "ev_EvidenceID e = ev_EvidenceID e0"
    "ev_Detail e = ev_Detail e0" "ev_PreviousHash e = last_hash (ev_CaseID e0) rows"
    "ev_HashValue e = ComputeLogHash L (last_hash (ev_CaseID e0) rows) e"
    by (subst e, simp)+
  show "lib_col_uuid L (ev_ActorUserID e0) = Some actor" "ev_ID e \<notin> set (map (ev_ID \<circ> row_event) rows)"
    by (fact r)+
qed

section \<open>The chain of a case\<close>

abbreviation case_events :: "uuid \<Rightarrow> 'a custody_db_scheme \<Rightarrow> Event list" where
  "case_events c w \<equiv> map scan_event (case_rows c (custody_log w))"

abbreviation custody_chained :: "go_lib \<Rightarrow> string \<Rightarrow> Event list \<Rightarrow> bool" where
  "custody_chained L \<equiv> chained ev_PreviousHash ev_HashValue (ComputeLogHash L)"

lemma verify_loop_chained: "verify_loop L i h es = [] \<longleftrightarrow> custody_chained L h es"
  by (induction es arbitrary: i h) (auto simp: Let_def)

lemma VerifyCaseChain_ok:
  assumes "VerifyCaseChain L c w = (Inr v, w')"
  shows "cv_Valid v = custody_chained L [] (case_events c w)"
    "cv_Breaks v = verify_loop L 0 [] (case_events c w)"
    "cv_TotalEntries v = int (length (case_events c w))"
  using assms verify_loop_chained
  by (auto simp: VerifyCaseChain_def ListAllByCase_def Let_def split: prod.splits sum.splits
      dest!: query_rows_ok)

lemma scan_event_sel [simp]:
  "ev_HashValue (scan_event r) = ev_HashValue (row_event r)"
  "ev_CaseID (scan_event r) = ev_CaseID (row_event r)"
  "ev_key (scan_event r) = ev_key (row_event r)"
  by (simp_all add: scan_event_def ev_key_def)

lemma last_hash_head: "last_hash c (custody_log w) = chain_head ev_HashValue [] (case_events c w)"
  by (cases "case_rows c (custody_log w)" rule: rev_cases) (simp_all add: last_hash_def)

text \<open>An event whose actor and timestamp come back from the table as they were written.\<close>

definition storable :: "go_lib \<Rightarrow> Event \<Rightarrow> bool" where
  "storable L e \<longleftrightarrow>
     lib_col_time L (ev_Timestamp e) = ev_Timestamp e \<and>
     (\<forall>a. lib_col_uuid L (ev_ActorUserID e) = Some a \<longrightarrow> a = ev_ActorUserID e)"

definition latest_of_case :: "Event \<Rightarrow> custody_row list \<Rightarrow> bool" where
  "latest_of_case e rows \<longleftrightarrow>
     (\<forall>r \<in> set rows. ev_CaseID (row_event r) = ev_CaseID e \<longrightarrow>
        ev_Timestamp (row_event r) < ev_Timestamp e)"

definition custody_append :: "go_lib \<Rightarrow> Event \<Rightarrow> 'a custody_db_scheme \<Rightarrow> 'a custody_db_scheme option" where
  "custody_append L e w =
     (case custody_Insert L e w of (None, w') \<Rightarrow> Some w' | (Some err, w') \<Rightarrow> None)"

lemma case_rows_append:
  "latest_of_case (row_event r) rows \<Longrightarrow>
     case_rows c (rows @ [r]) =
       (if ev_CaseID (row_event r) = c then case_rows c rows @ [r] else case_rows c rows)"
  unfolding case_rows_def latest_of_case_def
  by (auto intro!: sort_key_append_max simp: ev_key_def less_eq_prod_def less_imp_le)

lemma case_rows_append_other:
  "ev_CaseID (row_event r) \<noteq> c \<Longrightarrow> case_rows c (rows @ [r]) = case_rows c rows"
  by (simp add: case_rows_def)

lemma insert_extends_chain:
  assumes "custody_Insert L e0 w = (None, w')" "storable L e0" "latest_of_case e0 (custody_log w)"
  shows "\<exists>e. case_events (ev_CaseID e0) w' = case_events (ev_CaseID e0) w @ [e] \<and>
    ev_PreviousHash e = chain_head ev_HashValue [] (case_events (ev_CaseID e0) w) \<and>
    ev_HashValue e = ComputeLogHash L (chain_head ev_HashValue [] (case_events (ev_CaseID e0) w)) e"
proof -
  obtain e actor n where e: "inserted L e0 (custody_log w) e actor"
    and w': "w' = w\<lparr>w_tick := n, custody_log := custody_log w @ [stored_row L e actor]\<rparr>"
    using custody_Insert_ok [OF assms(1)] by blast
  note sel = inserted_sel [OF e]
  have scan: "scan_event (stored_row L e actor) = e"
    using assms(2) sel by (simp add: scan_stored storable_def)
  have "latest_of_case (row_event (stored_row L e actor)) (custody_log w)"
    using assms(2,3) sel by (simp add: latest_of_case_def stored_row_def storable_def)
  then have "case_events (ev_CaseID e0) w' = case_events (ev_CaseID e0) w @ [e]"
    using w' scan sel(1) by (simp add: case_rows_append stored_row_def)
  with sel(7,8) show ?thesis
    unfolding last_hash_head [of "ev_CaseID e0" w, symmetric] by blast
qed

interpretation custody_chain: hash_chain_log "case_events c" "custody_append L"
  "\<lambda>e w. ev_CaseID e = c \<and> storable L e \<and> latest_of_case e (custody_log w)"
  ev_PreviousHash ev_HashValue "ComputeLogHash L" "[]"
  for L :: go_lib and c :: uuid
proof unfold_locales
  fix a :: Event and w w' :: "'a custody_db_scheme"
  assume "custody_append L a w = Some w'"
    and o: "ev_CaseID a = c \<and> storable L a \<and> latest_of_case a (custody_log w)"
  then have "custody_Insert L a w = (None, w')"
    by (auto simp: custody_append_def split: prod.splits option.splits)
  with insert_extends_chain o show
    "\<exists>e. case_events c w' = case_events c w @ [e] \<and>
       ev_PreviousHash e = chain_head ev_HashValue [] (case_events c w) \<and>
       ev_HashValue e = ComputeLogHash L (chain_head ev_HashValue [] (case_events c w)) e"
    by blast
qed

section \<open>Logs that verify\<close>

text \<open>
  A run of the log: inserts for any cases, failed ones included, each of an event that is
  storable and later than the events of its case, and any other calls of the process.
\<close>

inductive custody_run :: "go_lib \<Rightarrow> custody_db \<Rightarrow> custody_db \<Rightarrow> bool" for L w where
  run_start: "custody_run L w w"
| run_insert: "custody_run L w u \<Longrightarrow> custody_Insert L e u = (r, v) \<Longrightarrow> storable L e \<Longrightarrow>
    latest_of_case e (custody_log u) \<Longrightarrow> custody_run L w v"
| run_other: "custody_run L w u \<Longrightarrow> only_ticks u v \<Longrightarrow> custody_run L w v"

lemma only_ticks_custody_log: "only_ticks w w' \<Longrightarrow> custody_log w' = custody_log w"
proof -
  assume "only_ticks w w'"
  then obtain n where "w' = w\<lparr>w_tick := n\<rparr>" unfolding only_ticks_def by blast
  then show ?thesis by simp
qed

lemma insert_other_case:
  assumes "custody_Insert L e w = (r, w')" "ev_CaseID e \<noteq> c"
  shows "case_events c w' = case_events c w"
proof (cases r)
  case None
  then show ?thesis
    using custody_Insert_ok [of L e w w'] assms
    by (auto simp: case_rows_append_other stored_row_def dest: inserted_sel(1))
next
  case (Some err)
  then show ?thesis
    using custody_Insert_fail [of L e w err w'] assms by (simp add: only_ticks_custody_log)
qed

lemma insert_keeps_chained:
  assumes "custody_Insert L e w = (r, w')" "storable L e" "latest_of_case e (custody_log w)"
    and "custody_chained L [] (case_events c w)"
  shows "custody_chained L [] (case_events c w')"
proof (cases "r = None \<and> ev_CaseID e = c")
  case True
  with assms have "custody_append L e w = Some w'"
    by (simp add: custody_append_def)
  from custody_chain.append_chained [OF this _ assms(4)] True assms show ?thesis by simp
next
  case False
  show ?thesis
  proof (cases "ev_CaseID e = c")
    case True
    with False assms obtain err where "custody_Insert L e w = (Some err, w')" by (cases r) auto
    with assms show ?thesis
      using custody_Insert_fail only_ticks_custody_log by metis
  next
    case False
    with assms show ?thesis by (metis insert_other_case)
  qed
qed

lemma custody_run_chained:
  "custody_run L w w' \<Longrightarrow> custody_chained L [] (case_events c w) \<Longrightarrow>
     custody_chained L [] (case_events c w')"
  by (induction rule: custody_run.induct)
    (auto intro: insert_keeps_chained simp: only_ticks_custody_log)

end
