(* ===== verification/Custody_Props.thy ===== *)
theory Custody_Props
  imports Custody_Chain
begin

text \<open>
  The properties of the custody log that its users rely on, and the ones they cannot rely on.
\<close>

section \<open>Texts and digests\<close>

lemma ComputeLogHash_eq_collision:
  "ComputeLogHash L p e = ComputeLogHash L q f \<Longrightarrow> log_text L p e \<noteq> log_text L q f \<Longrightarrow>
     collision (lib_sha256 L)"
  unfolding ComputeLogHash_def collision_def hex_encode_inj by blast

lemma hex_collision: "collision (\<lambda>t. hex_encode (lib_sha256 L t)) \<Longrightarrow> collision (lib_sha256 L)"
  unfolding collision_def hex_encode_inj .

lemma log_text_prev_inj:
  assumes "CHR ''|'' \<notin> set p" "CHR ''|'' \<notin> set q" "log_text L p e = log_text L q f"
  shows "p = q"
proof -
  have "takeWhile (\<lambda>c. c \<noteq> CHR ''|'') (log_text L p e) = p" if "CHR ''|'' \<notin> set p" for p e
    using takeWhile_to_sep [OF that] by (simp add: log_text_def)
  with assms show ?thesis by metis
qed

lemma chained_link_of:
  "custody_chained L h (xs @ e # y # zs) \<Longrightarrow>
     ev_HashValue e = ComputeLogHash L (chain_head ev_HashValue h xs) e \<and>
     ev_PreviousHash e = chain_head ev_HashValue h xs \<and> ev_PreviousHash y = ev_HashValue e"
  by (auto simp: chained_append)

lemma chained_prev_of:
  "custody_chained L h (xs @ y # zs) \<Longrightarrow> ev_PreviousHash y = chain_head ev_HashValue h xs"
  by (auto simp: chained_append)

lemma tamper_collision:
  assumes "custody_chained L h es" "custody_chained L h (es[i := e'])" "Suc i < length es"
    and "log_text L (ev_PreviousHash (es ! i)) e' \<noteq> log_text L (ev_PreviousHash (es ! i)) (es ! i)"
  shows "collision (lib_sha256 L)"
proof -
  define xs where "xs = take i es"
  obtain y zs where d: "drop (Suc i) es = y # zs"
    using assms(3) by (cases "drop (Suc i) es") auto
  have "es = xs @ es ! i # drop (Suc i) es"
    using assms(3) by (simp add: xs_def id_take_nth_drop)
  with d have es: "es = xs @ es ! i # y # zs" by simp
  have es': "es[i := e'] = xs @ e' # y # zs"
    using assms(3) d by (simp add: xs_def upd_conv_take_nth_drop)
  have "custody_chained L h (xs @ es ! i # y # zs)"
    using assms(1) by (simp only: es [symmetric])
  note a = chained_link_of [OF this]
  have "custody_chained L h (xs @ e' # y # zs)"
    using assms(2) by (simp only: es')
  note b = chained_link_of [OF this]
  have "ComputeLogHash L (chain_head ev_HashValue h xs) e' =
      ComputeLogHash L (chain_head ev_HashValue h xs) (es ! i)"
    using a b by metis
  then show ?thesis
    using ComputeLogHash_eq_collision a assms(4) by metis
qed

section \<open>Inserting before existing entries\<close>

lemma insort_key_before:
  "k a \<le> k x \<Longrightarrow> insort_key k a (xs @ x # ys) = insort_key k a xs @ x # ys"
  by (induction xs) auto

lemma insort_key_front: "\<forall>y \<in> set ys. k a \<le> k y \<Longrightarrow> insort_key k a (xs @ ys) = insort_key k a xs @ ys"
  by (induction xs) (cases ys, auto)

lemma insort_key_after: "\<forall>y \<in> set xs. k y < k a \<Longrightarrow> insort_key k a (xs @ ys) = xs @ insort_key k a ys"
  by (induction xs) auto

lemma sort_key_insert:
  "\<exists>A B. sort_key k (xs @ [x]) = A @ x # B \<and> sort_key k xs = A @ B \<and>
     (\<forall>a \<in> set A. k a \<le> k x) \<and> (\<forall>b \<in> set B. k x < k b)"
proof (induction xs)
  case Nil
  show ?case by (intro exI [of _ "[]"]) simp
next
  case (Cons a xs)
  then obtain A B where AB: "sort_key k (xs @ [x]) = A @ x # B" "sort_key k xs = A @ B"
      "\<forall>a \<in> set A. k a \<le> k x" "\<forall>b \<in> set B. k x < k b"
    by blast
  show ?case
  proof (cases "k a \<le> k x")
    case True
    with AB have "\<forall>b \<in> set B. k a \<le> k b" by force
    with AB True show ?thesis
      by (intro exI [of _ "insort_key k a A"] exI [of _ B])
        (auto simp: insort_key_before insort_key_front set_insort_key)
  next
    case False
    with AB have lt: "\<forall>b \<in> set A. k b < k a" by force
    with AB False show ?thesis
      by (intro exI [of _ A] exI [of _ "insort_key k a B"])
        (auto simp: insort_key_after set_insort_key)
  qed
qed

lemma insert_splits_case:
  assumes "custody_Insert L e0 w = (None, w')" "ev_CaseID e0 = c"
  shows "\<exists>A B e. case_events c w = A @ B \<and> case_events c w' = A @ e # B \<and>
    ev_Timestamp e = lib_col_time L (ev_Timestamp e0) \<and>
    (\<forall>b \<in> set B. ev_key e < ev_key b) \<and> (\<forall>a \<in> set A. ev_key a \<le> ev_key e) \<and>
    ev_PreviousHash e = last_hash c (custody_log w) \<and>
    (\<exists>e1 actor. lib_col_uuid L (ev_ActorUserID e0) = Some actor \<and>
       ev_HashValue e = ComputeLogHash L (last_hash c (custody_log w)) e1 \<and>
       ev_ActorUserID e1 = ev_ActorUserID e0 \<and> ev_Timestamp e1 = ev_Timestamp e0 \<and>
       e = e1\<lparr>ev_ActorUserID := actor, ev_Timestamp := lib_col_time L (ev_Timestamp e1)\<rparr>)"
proof -
  obtain e1 actor n where e1: "inserted L e0 (custody_log w) e1 actor"
    and w': "w' = w\<lparr>w_tick := n, custody_log := custody_log w @ [stored_row L e1 actor]\<rparr>"
    using custody_Insert_ok [OF assms(1)] by blast
  note sel = inserted_sel [OF e1]
  let ?k = "\<lambda>r. ev_key (row_event r)" and ?r = "stored_row L e1 actor"
  let ?rows = "filter (\<lambda>r. ev_CaseID (row_event r) = c) (custody_log w)"
  obtain A B where AB: "sort_key ?k (?rows @ [?r]) = A @ ?r # B" "sort_key ?k ?rows = A @ B"
      "\<forall>a \<in> set A. ?k a \<le> ?k ?r" "\<forall>b \<in> set B. ?k ?r < ?k b"
    using sort_key_insert [of ?k ?rows ?r] by blast
  have "case_rows c (custody_log w') = A @ ?r # B" "case_rows c (custody_log w) = A @ B"
    using AB w' sel(1) assms(2) by (simp_all add: case_rows_def stored_row_def)
  then have ev: "case_events c w' = map scan_event A @ scan_event ?r # map scan_event B"
      "case_events c w = map scan_event A @ map scan_event B"
    by simp_all
  have scan: "scan_event ?r =
      e1\<lparr>ev_ActorUserID := actor, ev_Timestamp := lib_col_time L (ev_Timestamp e1)\<rparr>"
    by (rule scan_stored)
  have keys: "\<forall>b \<in> set (map scan_event B). ev_key (scan_event ?r) < ev_key b"
      "\<forall>a \<in> set (map scan_event A). ev_key a \<le> ev_key (scan_event ?r)"
    using AB(3,4) by simp_all
  have "ev_Timestamp (scan_event ?r) = lib_col_time L (ev_Timestamp e0)"
      "ev_PreviousHash (scan_event ?r) = last_hash c (custody_log w)"
      "ev_HashValue (scan_event ?r) = ComputeLogHash L (last_hash c (custody_log w)) e1"
    using scan sel(2,7,8) assms(2) by simp_all
  with ev scan keys sel(2,4,9) show ?thesis by blast
qed

lemma out_of_order_fixpoint:
  assumes "custody_chained L [] (A @ B)" "custody_chained L [] (A @ e # B)" "B \<noteq> []"
    and "ev_PreviousHash e = chain_head ev_HashValue [] (A @ B)"
  shows "ComputeLogHash L (ev_PreviousHash e) e = ev_PreviousHash e"
proof -
  obtain b bs where B: "B = b # bs" using assms(3) by (cases B) auto
  have "ev_PreviousHash b = chain_head ev_HashValue [] A"
    using assms(1) B chained_prev_of by blast
  moreover have "ev_HashValue e = ComputeLogHash L (chain_head ev_HashValue [] A) e \<and>
      ev_PreviousHash e = chain_head ev_HashValue [] A \<and> ev_PreviousHash b = ev_HashValue e"
    using assms(2) B chained_link_of by blast
  ultimately show ?thesis by metis
qed

section \<open>A small log for the witnesses\<close>

definition sample_custody :: custody_db where
  "sample_custody =
     \<lparr>w_tick = 0, w_fault = (\<lambda>n. None), w_now = (\<lambda>n. 1000 * int n),
      w_uuid = (\<lambda>n. of_nat n + 1), custody_log = []\<rparr>"

definition sample_event :: "time \<Rightarrow> Event" where
  "sample_event ts =
     \<lparr>ev_ID = uuid_Nil, ev_CaseID = 7, ev_EvidenceID = uuid_Nil, ev_Action = ''case_created'',
      ev_ActorUserID = ''u1'', ev_Detail = ''{}'', ev_HashValue = [], ev_PreviousHash = [],
      ev_Timestamp = ts\<rparr>"

definition sample_log :: "time list \<Rightarrow> custody_db" where
  "sample_log tss = foldl (\<lambda>w ts. snd (custody_Insert sample_lib (sample_event ts) w)) sample_custody tss"

lemma custody_Insert_succeeds:
  assumes "no_faults w" "ev_ID e = uuid_Nil" "lib_col_uuid L (ev_ActorUserID e) \<noteq> None"
    and "w_uuid w (w_tick w + 3) \<notin> set (map (ev_ID \<circ> row_event) (custody_log w))"
  shows "\<exists>w'. custody_Insert L e w = (None, w')"
proof -
  have f: "fault (w\<lparr>w_tick := n\<rparr>) = None" "fault w = None" for n
    using assms(1) by (simp_all add: fault_def no_faults_def)
  have "fst (custody_Insert L e w) = None"
    using assms(2-4) f
    by (auto simp: custody_Insert_def pg_call_def tick_def Let_def new_uuid_def eval_nat_numeral
        split: option.splits)
  then show ?thesis by (metis prod.collapse)
qed

lemma sample_insert: "\<exists>w'. custody_Insert sample_lib (sample_event ts) sample_custody = (None, w')"
  by (rule custody_Insert_succeeds)
    (simp_all add: sample_custody_def sample_event_def sample_lib_def no_faults_def)

lemma sample_storable: "storable sample_lib (sample_event 5000)"
  by (simp add: storable_def sample_lib_def sample_event_def)

lemma sample_run:
  "\<exists>w'. custody_run sample_lib sample_custody w' \<and> length (case_events 7 w') = 1 \<and> no_faults w'"
proof -
  obtain w' where w': "custody_Insert sample_lib (sample_event 5000) sample_custody = (None, w')"
    using sample_insert by blast
  have l: "latest_of_case (sample_event 5000) (custody_log sample_custody)"
    by (simp add: latest_of_case_def sample_custody_def)
  have "custody_run sample_lib sample_custody w'"
    by (rule run_insert [OF run_start w' sample_storable l])
  moreover have "case_events 7 sample_custody = []" "ev_CaseID (sample_event 5000) = 7"
    by (simp_all add: case_rows_def sample_custody_def sample_event_def)
  then have "length (case_events 7 w') = 1"
    using insert_extends_chain [OF w' sample_storable l] by (metis length_append_singleton list.size(3) One_nat_def)
  moreover have "no_faults w'"
    using custody_Insert_ok [OF w'] by (auto simp: sample_custody_def no_faults_def)
  ultimately show ?thesis by blast
qed

lemma VerifyCaseChain_returns: "no_faults w \<Longrightarrow> \<exists>v w'. VerifyCaseChain L c w = (Inr v, w')"
proof -
  assume "no_faults w"
  then have "fst (ListAllByCase c w) = Inr (case_events c w)"
    unfolding ListAllByCase_def by (rule query_rows_no_faults)
  then show ?thesis
    by (cases "ListAllByCase c w") (simp add: VerifyCaseChain_def Let_def)
qed

section \<open>Properties\<close>

text \<open>
  C2: a custody log that grows by inserts of events that are later than those of their case, and
  whose actor and timestamp survive the columns, is reported as intact by the verifier, with no
  breaks and the right number of entries; and without faults the verifier does report.
\<close>

theorem custody_log_verifies:
  assumes "custody_run L w w'" "custody_log w = []" "no_faults w'"
  shows "\<exists>v w''. VerifyCaseChain L c w' = (Inr v, w'') \<and> cv_Valid v \<and> cv_Breaks v = [] \<and>
    cv_TotalEntries v = int (length (filter (\<lambda>r. ev_CaseID (row_event r) = c) (custody_log w')))"
proof -
  obtain v w'' where v: "VerifyCaseChain L c w' = (Inr v, w'')"
    using VerifyCaseChain_returns [OF assms(3)] by blast
  have "custody_chained L [] (case_events c w')"
    by (rule custody_run_chained [OF assms(1)]) (simp add: assms(2) case_rows_def)
  with VerifyCaseChain_ok [OF v] v show ?thesis
    by (auto simp: verify_loop_chained case_rows_def)
qed

theorem custody_log_verifies_witness:
  "\<exists>w'. custody_run sample_lib sample_custody w' \<and> length (case_events 7 w') = 1 \<and>
     (\<exists>v w''. VerifyCaseChain sample_lib 7 w' = (Inr v, w'') \<and> cv_Valid v \<and> cv_Breaks v = [])"
proof -
  obtain w' where w': "custody_run sample_lib sample_custody w'" "length (case_events 7 w') = 1" "no_faults w'"
    using sample_run by blast
  with custody_log_verifies [OF w'(1) _ w'(3), of 7] show ?thesis
    by (auto simp: sample_custody_def)
qed

text \<open>
  C3: changing an entry of a verified case log that has a successor, so that the text its hash
  covers is another one, is found by the verifier unless SHA-256 collides.
\<close>

theorem custody_tamper_evident:
  assumes "VerifyCaseChain L c w = (Inr v, w1)" "cv_Valid v"
    and "VerifyCaseChain L c w' = (Inr v', w1')" "cv_Valid v'"
    and "map scan_event (case_rows c (custody_log w')) =
      (map scan_event (case_rows c (custody_log w)))[i := e']"
    and "Suc i < length (case_rows c (custody_log w))" "e = scan_event (case_rows c (custody_log w) ! i)"
    and "log_text L (ev_PreviousHash e) e' \<noteq> log_text L (ev_PreviousHash e) e"
  shows "collision (lib_sha256 L)"
proof (rule tamper_collision)
  show "custody_chained L [] (case_events c w)"
    using VerifyCaseChain_ok(1) [OF assms(1)] assms(2) by simp
  show "custody_chained L [] ((case_events c w)[i := e'])"
    using VerifyCaseChain_ok(1) [OF assms(3)] assms(4,5) by simp
  show "Suc i < length (case_events c w)"
    using assms(6) by simp
  show "log_text L (ev_PreviousHash (case_events c w ! i)) e' \<noteq>
      log_text L (ev_PreviousHash (case_events c w ! i)) (case_events c w ! i)"
    using assms(6-8) by simp
qed


text \<open>Two logs of two entries that differ in the first action and collide the sample digest.\<close>

definition tamper_first :: "string \<Rightarrow> Event" where
  "tamper_first a =
     (let e = (sample_event 1000)\<lparr>ev_ID := 1, ev_Action := a\<rparr>
      in e\<lparr>ev_HashValue := ComputeLogHash sample_lib [] e\<rparr>)"

definition tamper_second :: "string \<Rightarrow> Event" where
  "tamper_second h =
     (let e = (sample_event 2000)\<lparr>ev_ID := 2, ev_PreviousHash := h\<rparr>
      in e\<lparr>ev_HashValue := ComputeLogHash sample_lib h e\<rparr>)"

definition tamper_db :: "string \<Rightarrow> custody_db" where
  "tamper_db a = sample_custody\<lparr>custody_log :=
     map (\<lambda>e. \<lparr>row_event = e, row_evidence_null = True\<rparr>)
       [tamper_first a, tamper_second (ev_HashValue (tamper_first a))]\<rparr>"

lemma tamper_first_hash: "length a = length b \<Longrightarrow> ev_HashValue (tamper_first a) = ev_HashValue (tamper_first b)"
  by (simp add: tamper_first_def ComputeLogHash_def log_text_def sample_lib_def Let_def)

lemma tamper_case: "case_events 7 (tamper_db a) = [tamper_first a, tamper_second (ev_HashValue (tamper_first a))]"
  by (simp add: tamper_db_def case_rows_def scan_event_def tamper_first_def tamper_second_def
      sample_event_def ev_key_def Let_def)

lemma tamper_valid: "\<exists>v w'. VerifyCaseChain sample_lib 7 (tamper_db a) = (Inr v, w') \<and> cv_Valid v"
proof -
  have "no_faults (tamper_db a)"
    by (simp add: no_faults_def tamper_db_def sample_custody_def)
  then obtain v w' where v: "VerifyCaseChain sample_lib 7 (tamper_db a) = (Inr v, w')"
    using VerifyCaseChain_returns by blast
  have "ev_PreviousHash (sample_event t) = []" for t
    by (simp add: sample_event_def)
  then have "custody_chained sample_lib [] (case_events 7 (tamper_db a))"
    unfolding tamper_case by (simp add: tamper_first_def tamper_second_def Let_def)
  with VerifyCaseChain_ok(1) [OF v] v show ?thesis by blast
qed

theorem custody_tamper_evident_witness:
  "\<exists>v w1 v' w1'. VerifyCaseChain sample_lib 7 (tamper_db ''aa'') = (Inr v, w1) \<and> cv_Valid v \<and>
     VerifyCaseChain sample_lib 7 (tamper_db ''bb'') = (Inr v', w1') \<and> cv_Valid v' \<and>
     collision (lib_sha256 sample_lib)"
proof -
  obtain v w1 v' w1' where v: "VerifyCaseChain sample_lib 7 (tamper_db ''aa'') = (Inr v, w1)" "cv_Valid v"
    "VerifyCaseChain sample_lib 7 (tamper_db ''bb'') = (Inr v', w1')" "cv_Valid v'"
    using tamper_valid by metis
  let ?e = "scan_event (case_rows 7 (custody_log (tamper_db ''aa'')) ! 0)"
  have len: "Suc 0 < length (case_rows 7 (custody_log (tamper_db ''aa'')))"
    using arg_cong [OF tamper_case [of "''aa''"], of length] by simp
  then have e: "?e = tamper_first ''aa''"
    using tamper_case [of "''aa''"] by (metis nth_Cons_0 nth_map Suc_lessD)
  have "map scan_event (case_rows 7 (custody_log (tamper_db ''bb''))) =
      (map scan_event (case_rows 7 (custody_log (tamper_db ''aa''))))[0 := tamper_first ''bb'']"
    unfolding tamper_case by (simp add: tamper_first_hash [of "''bb''" "''aa''"])
  moreover have "log_text sample_lib (ev_PreviousHash ?e) (tamper_first ''bb'') \<noteq>
      log_text sample_lib (ev_PreviousHash ?e) ?e"
    unfolding e by (simp add: log_text_def tamper_first_def Let_def sample_event_def)
  ultimately have "collision (lib_sha256 sample_lib)"
    by (intro custody_tamper_evident [OF v _ len refl])
  with v show ?thesis by blast
qed

text \<open>
  Two verified logs of a case with the same number of entries and the same last hash hash the
  same texts, position by position, unless SHA-256 collides: the last hash pins the whole log.
\<close>

theorem custody_head_pins_log:
  assumes "VerifyCaseChain L c w = (Inr v, w1)" "cv_Valid v"
    and "VerifyCaseChain L c w' = (Inr v', w1')" "cv_Valid v'"
    and "cv_TotalEntries v = cv_TotalEntries v'"
    and "last_hash c (custody_log w) = last_hash c (custody_log w')"
  shows "collision (lib_sha256 L) \<or>
    chain_texts ev_HashValue (log_text L) [] (map scan_event (case_rows c (custody_log w))) =
      chain_texts ev_HashValue (log_text L) [] (map scan_event (case_rows c (custody_log w')))"
proof -
  let ?d = "\<lambda>t. hex_encode (lib_sha256 L t)"
  have ch: "chained ev_PreviousHash ev_HashValue (\<lambda>h e. ?d (log_text L h e)) [] (case_events c w)"
      "chained ev_PreviousHash ev_HashValue (\<lambda>h e. ?d (log_text L h e)) [] (case_events c w')"
    using VerifyCaseChain_ok(1) [OF assms(1)] VerifyCaseChain_ok(1) [OF assms(3)] assms(2,4)
    by (simp_all add: ComputeLogHash_def [abs_def])
  have "length (case_events c w) = length (case_events c w')"
    using VerifyCaseChain_ok(3) [OF assms(1)] VerifyCaseChain_ok(3) [OF assms(3)] assms(5) by simp
  moreover have "chain_head ev_HashValue [] (case_events c w) = chain_head ev_HashValue [] (case_events c w')"
    using assms(6) by (simp only: last_hash_head)
  ultimately have "collision ?d \<or>
      chain_texts ev_HashValue (log_text L) [] (case_events c w) =
        chain_texts ev_HashValue (log_text L) [] (case_events c w') \<and>
      map ev_HashValue (case_events c w) = map ev_HashValue (case_events c w')"
    by (intro chain_pinned [where good = "\<lambda>h. CHR ''|'' \<notin> set h" and digest = "?d"
          and tx = "log_text L" and prev = ev_PreviousHash, OF ch(1) ch(2)])
      (auto simp: hex_encode_no_bar intro: log_text_prev_inj)
  then show ?thesis using hex_collision by blast
qed

theorem custody_head_pins_log_witness:
  "\<exists>v w1. VerifyCaseChain sample_lib 7 (tamper_db ''aa'') = (Inr v, w1) \<and> cv_Valid v \<and>
     (collision (lib_sha256 sample_lib) \<or>
      chain_texts ev_HashValue (log_text sample_lib) [] (case_events 7 (tamper_db ''aa'')) =
        chain_texts ev_HashValue (log_text sample_lib) [] (case_events 7 (tamper_db ''aa'')))"
proof -
  obtain v w1 where "VerifyCaseChain sample_lib 7 (tamper_db ''aa'') = (Inr v, w1)" "cv_Valid v"
    using tamper_valid by blast
  with custody_head_pins_log [OF this this refl refl] show ?thesis by blast
qed

text \<open>
  \<open>Insert\<close> is append-only and atomic: when it returns an error the table is as it was, and
  when it succeeds the table is the old one with one more row at the end, which carries the case,
  evidence, action and detail of the event, the hash of the latest row of the case as its previous
  hash, and as its hash the digest of what is written.
\<close>

theorem custody_insert_appends:
  "case custody_Insert L e0 w of
     (Some err, w') \<Rightarrow> custody_log w' = custody_log w
   | (None, w') \<Rightarrow>
       (\<exists>e actor. custody_log w' = custody_log w @ [stored_row L e actor] \<and>
          ev_CaseID e = ev_CaseID e0 \<and> ev_EvidenceID e = ev_EvidenceID e0 \<and>
          ev_Action e = ev_Action e0 \<and> ev_Detail e = ev_Detail e0 \<and>
          ev_Timestamp e = ev_Timestamp e0 \<and> ev_ActorUserID e = ev_ActorUserID e0 \<and>
          ev_ID e \<notin> set (map (ev_ID \<circ> row_event) (custody_log w)) \<and>
          ev_PreviousHash e = last_hash (ev_CaseID e0) (custody_log w) \<and>
          ev_HashValue e = ComputeLogHash L (ev_PreviousHash e) e \<and>
          lib_col_uuid L (ev_ActorUserID e0) = Some actor)"
proof (cases "custody_Insert L e0 w")
  case (Pair r w')
  show ?thesis
  proof (cases r)
    case None
    with Pair have "custody_Insert L e0 w = (None, w')" by simp
    from custody_Insert_ok [OF this] obtain e actor n
      where "inserted L e0 (custody_log w) e actor"
        "w' = w\<lparr>w_tick := n, custody_log := custody_log w @ [stored_row L e actor]\<rparr>"
      by blast
    with Pair None inserted_sel [OF this(1)] show ?thesis
      by (auto intro!: exI [of _ e] exI [of _ actor])
  next
    case (Some err)
    with Pair show ?thesis
      using custody_Insert_fail only_ticks_custody_log by fastforce
  qed
qed

text \<open>
  An insert into a verified case log whose timestamp lies before that of an entry already
  there (two requests whose clocks were read in one order and whose transactions ran in the other)
  leaves a log that the verifier reports as broken although nobody touched it, unless the hash has
  a fixed point.
\<close>

theorem custody_out_of_order_breaks:
  assumes "custody_Insert L e w = (None, w')" "ev_CaseID e = c"
    and "r \<in> set (custody_log w)" "ev_CaseID (row_event r) = c"
    and "lib_col_time L (ev_Timestamp e) < ev_Timestamp (row_event r)"
    and "VerifyCaseChain L c w = (Inr v0, w0)" "cv_Valid v0"
    and "VerifyCaseChain L c w' = (Inr v, w'')"
  shows "\<not> cv_Valid v \<or> (\<exists>p e. ComputeLogHash L p e = p)"
proof -
  obtain A B e' where AB: "case_events c w = A @ B" "case_events c w' = A @ e' # B"
    and e': "ev_Timestamp e' = lib_col_time L (ev_Timestamp e)" "\<forall>a \<in> set A. ev_key a \<le> ev_key e'"
      "ev_PreviousHash e' = last_hash c (custody_log w)"
    using insert_splits_case [OF assms(1,2)] by blast
  have "scan_event r \<in> set (A @ B)"
    unfolding AB(1) [symmetric] using assms(3,4) by (auto simp: case_rows_def)
  moreover have "\<not> ev_key (scan_event r) \<le> ev_key e'"
    using e'(1) assms(5) by (simp add: ev_key_def [of e'] ev_key_def [of "row_event r"])
  then have "scan_event r \<notin> set A"
    using e'(2) by blast
  ultimately have "B \<noteq> []" by auto
  moreover have "custody_chained L [] (A @ B)"
    using VerifyCaseChain_ok(1) [OF assms(6)] assms(7) AB(1) by simp
  moreover have "custody_chained L [] (A @ e' # B)" if "cv_Valid v"
    using VerifyCaseChain_ok(1) [OF assms(8)] that AB(2) by simp
  ultimately show ?thesis
    using out_of_order_fixpoint [of L A B e'] e'(3) last_hash_head [of c w] AB(1) by metis
qed


lemma tamper_insert:
  "\<exists>w'. custody_Insert sample_lib (sample_event ts) (tamper_db ''aa'') = (None, w') \<and> no_faults w'"
proof -
  have "\<exists>w'. custody_Insert sample_lib (sample_event ts) (tamper_db ''aa'') = (None, w')"
    by (rule custody_Insert_succeeds)
      (simp_all add: tamper_db_def tamper_first_def tamper_second_def Let_def sample_custody_def
        sample_event_def sample_lib_def no_faults_def)
  then show ?thesis
    using custody_Insert_ok by (fastforce simp: tamper_db_def sample_custody_def no_faults_def)
qed

theorem custody_out_of_order_breaks_witness:
  "\<exists>w' v w''. custody_Insert sample_lib (sample_event 0) (tamper_db ''aa'') = (None, w') \<and>
     VerifyCaseChain sample_lib 7 w' = (Inr v, w'') \<and>
     (\<not> cv_Valid v \<or> (\<exists>p e. ComputeLogHash sample_lib p e = p))"
proof -
  obtain w' where w': "custody_Insert sample_lib (sample_event 0) (tamper_db ''aa'') = (None, w')" "no_faults w'"
    using tamper_insert by blast
  obtain v w'' where v: "VerifyCaseChain sample_lib 7 w' = (Inr v, w'')"
    using VerifyCaseChain_returns [OF w'(2)] by blast
  obtain v0 w0 where v0: "VerifyCaseChain sample_lib 7 (tamper_db ''aa'') = (Inr v0, w0)" "cv_Valid v0"
    using tamper_valid by blast
  let ?r = "\<lparr>row_event = tamper_first ''aa'', row_evidence_null = True\<rparr>"
  have "?r \<in> set (custody_log (tamper_db ''aa''))" "ev_CaseID (sample_event 0) = 7"
      "ev_CaseID (row_event ?r) = 7"
      "lib_col_time sample_lib (ev_Timestamp (sample_event 0)) < ev_Timestamp (row_event ?r)"
    by (simp_all add: tamper_db_def tamper_first_def Let_def sample_event_def sample_lib_def)
  with custody_out_of_order_breaks [OF w'(1) _ _ _ _ v0 v] w' v show ?thesis by blast
qed

text \<open>
  An event whose timestamp is finer than the column keeps, so that what is read back formats
  differently, is hashed with one timestamp and verified with another: once it is the latest entry
  of its case, the verifier reports a break, unless SHA-256 collides.
\<close>

theorem custody_coarse_column_breaks:
  assumes "custody_Insert L e w = (None, w')" "ev_CaseID e = c"
    and "\<forall>r \<in> set (custody_log w). ev_CaseID (row_event r) = c \<longrightarrow>
      ev_Timestamp (row_event r) < lib_col_time L (ev_Timestamp e)"
    and "lib_col_uuid L (ev_ActorUserID e) = Some (ev_ActorUserID e)"
    and "lib_format L RFC3339Nano (lib_col_time L (ev_Timestamp e)) \<noteq>
      lib_format L RFC3339Nano (ev_Timestamp e)"
    and "VerifyCaseChain L c w' = (Inr v, w'')"
  shows "\<not> cv_Valid v \<or> collision (lib_sha256 L)"
proof -
  obtain A B e' e1 where AB: "case_events c w = A @ B" "case_events c w' = A @ e' # B"
    and e': "ev_Timestamp e' = lib_col_time L (ev_Timestamp e)" "\<forall>b \<in> set B. ev_key e' < ev_key b"
    and e1: "ev_HashValue e' = ComputeLogHash L (last_hash c (custody_log w)) e1"
      "ev_Timestamp e1 = ev_Timestamp e" "ev_ActorUserID e1 = ev_ActorUserID e"
      "e' = e1\<lparr>ev_ActorUserID := ev_ActorUserID e, ev_Timestamp := lib_col_time L (ev_Timestamp e)\<rparr>"
    using insert_splits_case [OF assms(1,2)] assms(4) by (metis option.inject)
  have "B = []"
  proof (rule ccontr)
    assume "B \<noteq> []"
    then obtain b where "b \<in> set B" by (cases B) auto
    with AB(1) have "b \<in> set (case_events c w)" by simp
    then obtain r where "r \<in> set (custody_log w)" "ev_CaseID (row_event r) = c"
        "ev_key b = ev_key (row_event r)"
      by (auto simp: case_rows_def)
    with assms(3) e' \<open>b \<in> set B\<close> show False by (fastforce simp: ev_key_def)
  qed
  then have h: "last_hash c (custody_log w) = chain_head ev_HashValue [] A"
    unfolding last_hash_head AB(1) by simp
  have "log_text L p e1 \<noteq> log_text L p e'" for p
    using e1 assms(5) by (simp add: log_text_def)
  then show ?thesis
    using VerifyCaseChain_ok(1) [OF assms(6)] e1(1) h AB(2) \<open>B = []\<close>
      ComputeLogHash_eq_collision chained_snoc by metis
qed

theorem custody_coarse_column_breaks_witness:
  "\<exists>w' v w''. custody_Insert sample_lib (sample_event 5001) sample_custody = (None, w') \<and>
     VerifyCaseChain sample_lib 7 w' = (Inr v, w'') \<and>
     (\<not> cv_Valid v \<or> collision (lib_sha256 sample_lib))"
proof -
  obtain w' where w': "custody_Insert sample_lib (sample_event 5001) sample_custody = (None, w')"
    using sample_insert by blast
  have "no_faults w'"
    using custody_Insert_ok [OF w'] by (auto simp: sample_custody_def no_faults_def)
  then obtain v w'' where v: "VerifyCaseChain sample_lib 7 w' = (Inr v, w'')"
    using VerifyCaseChain_returns by blast
  have "ev_CaseID (sample_event 5001) = 7"
      "\<forall>r \<in> set (custody_log sample_custody). ev_CaseID (row_event r) = 7 \<longrightarrow>
        ev_Timestamp (row_event r) < lib_col_time sample_lib (ev_Timestamp (sample_event 5001))"
      "lib_col_uuid sample_lib (ev_ActorUserID (sample_event 5001)) =
        Some (ev_ActorUserID (sample_event 5001))"
      "lib_format sample_lib RFC3339Nano (lib_col_time sample_lib (ev_Timestamp (sample_event 5001))) \<noteq>
        lib_format sample_lib RFC3339Nano (ev_Timestamp (sample_event 5001))"
    using nat_digits_inj [of 5000 5001]
    by (auto simp: sample_custody_def sample_event_def sample_lib_def itoa_def)
  from custody_coarse_column_breaks [OF w' this v] w' v show ?thesis by blast
qed

section \<open>Pages\<close>

lemma custody_list_ok:
  assumes "custody_list L col u limit cursor w = (Inr (events, tot), w')"
  shows "\<exists>cursorID. (if cursor = [] then cursorID = None
        else \<exists>c. custody_decode_cursor L cursor = Inr c \<and> cursorID = Some c) \<and>
    events = map scan_event (page_rows col u cursorID (custody_limit limit) (custody_log w)) \<and>
    tot = int (length (filter (matches_col col u) (custody_log w)))"
proof -
  let ?n = "custody_limit limit"
  have "0 \<le> ?n" by (simp add: custody_limit_def Let_def)
  then have cut: "take (nat ?n) (map scan_event (page_rows col u c (?n + 1) rows)) =
      map scan_event (page_rows col u c ?n rows)" for c rows
    by (simp add: page_rows_def take_map min_def)
  have whole: "(if int (length es) > ?n then take (nat ?n) es else es) = take (nat ?n) es"
    for es :: "Event list"
    by auto
  have inr: "map_sum id Some x = Inr y \<longleftrightarrow> (\<exists>c. x = Inr c \<and> y = Some c)"
    for x :: "go_error + uuid" and y
    by (cases x) auto
  obtain cid where cid: "(if cursor = [] then Inr None else map_sum id Some (custody_decode_cursor L cursor)) = Inr cid"
    using assms by (auto simp: custody_list_def Let_def split: if_splits sum.splits)
  then have "events = map scan_event (page_rows col u cid ?n (custody_log w)) \<and>
      tot = int (length (filter (matches_col col u) (custody_log w)))"
  proof -
    have col: "\<not> (col \<noteq> ''case_id'' \<and> col \<noteq> ''evidence_id'')"
      using assms unfolding custody_list_def by force
    show ?thesis
      using assms cid unfolding custody_list_def if_not_P [OF col] whole Let_def
      by (auto simp: pg_call_def cut split: prod.splits option.splits sum.splits
          dest!: query_rows_ok)
  qed
  moreover have "if cursor = [] then cid = None
      else \<exists>c. custody_decode_cursor L cursor = Inr c \<and> cid = Some c"
    using cid by (simp add: inr split: if_splits)
  ultimately show ?thesis by blast
qed

lemma custody_list_no_faults:
  assumes "no_faults w" "col = ''case_id'' \<or> col = ''evidence_id''"
    and "cursor = [] \<or> (\<exists>c. custody_decode_cursor L cursor = Inr c)"
  shows "\<exists>p. fst (custody_list L col u limit cursor w) = Inr p"
proof -
  have q: "fst (query_rows fq fs fi rows (tick w)) = Inr rows" for fq fs fi and rows :: "Event list"
    by (rule query_rows_no_faults) (simp add: assms(1))
  show ?thesis
    using assms(2,3) pg_call_no_faults [OF assms(1)]
    by (auto simp: custody_list_def Let_def split: prod.splits sum.splits)
      (metis fst_conv q sum.distinct(1))+
qed

text \<open>
  Without a cursor, a listing of a case's log returns the newest entries first, at most as many
  as the clamped limit, which is between 1 and 200, and the number of all entries of the case.
\<close>

theorem custody_first_page:
  assumes "ListByCase L c limit [] w = (Inr (events, tot), w')"
  shows "events = take (nat (custody_limit limit)) (rev (map scan_event (case_rows c (custody_log w)))) \<and>
    tot = int (length (case_rows c (custody_log w))) \<and>
    1 \<le> custody_limit limit \<and> custody_limit limit \<le> 200"
  using custody_list_ok [OF assms [unfolded ListByCase_def]]
  by (auto simp: page_rows_def case_rows_def matches_col_def [abs_def] rev_map take_map
      custody_limit_def Let_def)


theorem custody_first_page_witness:
  "\<exists>events tot w'. ListByCase sample_lib 7 0 [] (tamper_db ''aa'') = (Inr (events, tot), w') \<and>
     tot = int (length (case_rows 7 (custody_log (tamper_db ''aa'')))) \<and> custody_limit 0 = 50"
proof -
  have "no_faults (tamper_db ''aa'')"
    by (simp add: no_faults_def tamper_db_def sample_custody_def)
  then have "\<exists>p. fst (ListByCase sample_lib 7 0 [] (tamper_db ''aa'')) = Inr p"
    unfolding ListByCase_def by (rule custody_list_no_faults) simp_all
  then obtain events tot w' where l: "ListByCase sample_lib 7 0 [] (tamper_db ''aa'') = (Inr (events, tot), w')"
    by (metis prod.collapse)
  with custody_first_page [OF l] show ?thesis
    by (auto simp: custody_limit_def)
qed

definition skip_event :: "uuid \<Rightarrow> time \<Rightarrow> Event" where
  "skip_event u ts = (sample_event ts)\<lparr>ev_ID := u\<rparr>"

definition skip_db :: custody_db where
  "skip_db = sample_custody\<lparr>custody_log :=
     map (\<lambda>e. \<lparr>row_event = e, row_evidence_null = True\<rparr>)
       [skip_event 3 1000, skip_event 1 2000, skip_event 2 3000]\<rparr>"

definition page_cursor :: "go_lib \<Rightarrow> Event \<Rightarrow> string" where
  \<comment> \<open>the cursor that \<open>list\<close> decodes to the ID of the entry\<close>
  "page_cursor L e = b64_encode (lib_uuid_string L (ev_ID e))"

lemma page_cursor_decode:
  "uuid_lib_ok L \<Longrightarrow> custody_decode_cursor L (page_cursor L e) = Inr (ev_ID e) \<and> page_cursor L e \<noteq> []"
  by (simp add: uuid_lib_ok_def page_cursor_def custody_decode_cursor_def b64_encode_ne)

lemma skip_no_faults: "no_faults skip_db"
  by (simp add: skip_db_def sample_custody_def no_faults_def)

lemma skip_page:
  assumes "uuid_lib_ok L" "cursor = [] \<and> cid = None \<or> cursor = page_cursor L e \<and> cid = Some (ev_ID e)"
  shows "fst (ListByCase L 7 1 cursor skip_db) =
    Inr (map scan_event (page_rows ''case_id'' 7 cid 1 (custody_log skip_db)), 3)"
proof -
  note cur = page_cursor_decode [OF assms(1), of e]
  have "\<exists>p. fst (custody_list L ''case_id'' 7 1 cursor skip_db) = Inr p"
    using assms(2) cur by (intro custody_list_no_faults skip_no_faults) auto
  then obtain events n w' where l: "custody_list L ''case_id'' 7 1 cursor skip_db = (Inr (events, n), w')"
    by (metis prod.collapse)
  have "int (length (filter (matches_col ''case_id'' 7) (custody_log skip_db))) = 3"
    by (simp add: skip_db_def skip_event_def sample_event_def matches_col_def)
  with custody_list_ok [OF l] l assms(2) cur show ?thesis
    by (auto simp: ListByCase_def custody_limit_def)
qed

text \<open>
  The cursor of a listing is an entry's ID, but the entries are listed by timestamp: following
  the cursors of a log of three entries page by page shows two of them and then an empty page, and
  the third is never listed although it is counted on every page.
\<close>

theorem custody_cursor_skips:
  assumes "uuid_lib_ok L"
  shows "fst (ListByCase L 7 1 [] skip_db) = Inr ([scan_event \<lparr>row_event = skip_event 2 3000, row_evidence_null = True\<rparr>], 3)
    \<and> fst (ListByCase L 7 1 (page_cursor L (skip_event 2 3000)) skip_db) =
        Inr ([scan_event \<lparr>row_event = skip_event 1 2000, row_evidence_null = True\<rparr>], 3)
    \<and> fst (ListByCase L 7 1 (page_cursor L (skip_event 1 2000)) skip_db) = Inr ([], 3)"
proof -
  have "custody_log skip_db = map (\<lambda>e. \<lparr>row_event = e, row_evidence_null = True\<rparr>)
      [skip_event 3 1000, skip_event 1 2000, skip_event 2 3000]"
    by (simp add: skip_db_def)
  then show ?thesis
    using skip_page [OF assms, of "[]" None]
      skip_page [OF assms, of "page_cursor L (skip_event 2 3000)" "Some 2" "skip_event 2 3000"]
      skip_page [OF assms, of "page_cursor L (skip_event 1 2000)" "Some 1" "skip_event 1 2000"]
    by (simp add: page_rows_def matches_col_def skip_event_def sample_event_def ev_key_def
        word_less_nat_alt)
qed

theorem custody_cursor_skips_witness:
  "uuid_lib_ok sample_lib \<and> fst (ListByCase sample_lib 7 1 (page_cursor sample_lib (skip_event 1 2000)) skip_db) = Inr ([], 3)"
  using custody_cursor_skips [OF uuid_lib_ok_sample] uuid_lib_ok_sample by blast

end
