(* ===== verification/Cases_Repo.thy ===== *)
theory Cases_Repo
  imports Custody_Chain
begin

text \<open>
  \<open>internal/cases/models.go\<close> and \<open>repository.go\<close>: the data of cases and the statements over the
  table \<open>cases\<close>. The state extends the custody log by the tables \<open>cases\<close> and \<open>case_roles\<close>, each a
  list of rows in the order of their inserts. The constraints of the schema
  (\<open>migrations/001_initial_schema.up.sql\<close>) are part of the statements: the primary key and the
  unique reference code, the check on the status, the columns of type \<open>uuid\<close>.
\<close>

section \<open>Data\<close>

record Case =
  c_ID :: uuid
  c_ReferenceCode :: string
  c_Title :: string
  c_Description :: string
  c_Jurisdiction :: string
  c_Status :: string
  c_LegalHold :: bool
  c_CreatedBy :: string
  c_CreatedByName :: string
  c_CreatedAt :: time
  c_UpdatedAt :: time

record CaseFilter =
  cf_UserID :: string
  cf_SystemAdmin :: bool
  cf_Status :: "string list"
  cf_Jurisdiction :: string
  cf_SearchQuery :: string

record CreateCaseInput =
  ci_ReferenceCode :: string
  ci_Title :: string
  ci_Description :: string
  ci_Jurisdiction :: string

record UpdateCaseInput =
  ui_Title :: "string option"
  ui_Description :: "string option"
  ui_Jurisdiction :: "string option"
  ui_Status :: "string option"

record Pagination =
  pg_Limit :: int
  pg_Cursor :: string

record 'a PaginatedResult =
  pr_Items :: "'a list"
  pr_TotalCount :: int
  pr_NextCursor :: string
  pr_HasMore :: bool

text \<open>The struct \<open>CaseRole\<close>, a row of the table \<open>case_roles\<close>.\<close>

record CaseRoleRow =
  cr_ID :: uuid
  cr_CaseID :: uuid
  cr_UserID :: string
  cr_Role :: string
  cr_GrantedBy :: string
  cr_GrantedAt :: time

record AssignRoleInput =
  ai_UserID :: string
  ai_Role :: string

definition StatusActive :: string where "StatusActive = ''active''"
definition StatusClosed :: string where "StatusClosed = ''closed''"
definition StatusArchived :: string where "StatusArchived = ''archived''"

lemmas status_defs = StatusActive_def StatusClosed_def StatusArchived_def

lemma status_distinct [simp]:
  "StatusActive \<noteq> StatusClosed" "StatusActive \<noteq> StatusArchived" "StatusClosed \<noteq> StatusArchived"
  "StatusClosed \<noteq> StatusActive" "StatusArchived \<noteq> StatusActive" "StatusArchived \<noteq> StatusClosed"
  by (simp_all add: status_defs)

definition MaxTitleLength :: nat where "MaxTitleLength = 500"
definition MaxDescriptionLength :: nat where "MaxDescriptionLength = 10000"
definition MaxJurisdictionLen :: nat where "MaxJurisdictionLen = 200"
definition MaxBodySize :: nat where "MaxBodySize = 1048576"
definition DefaultPageLimit :: int where "DefaultPageLimit = 50"
definition MaxPageLimit :: int where "MaxPageLimit = 200"

definition ValidCaseRoles :: "string list" where
  \<comment> \<open>the keys of the map, all of value \<open>true\<close>\<close>
  "ValidCaseRoles = [''investigator'', ''prosecutor'', ''defence'', ''judge'', ''observer'',
     ''victim_representative'']"

definition validStatusTransitions :: "(string \<times> string) list" where
  "validStatusTransitions = [(StatusActive, StatusClosed), (StatusClosed, StatusArchived)]"

definition IsValidStatusTransition :: "string \<Rightarrow> string \<Rightarrow> bool" where
  "IsValidStatusTransition from_status to_status \<longleftrightarrow>
     (case map_of validStatusTransitions from_status of None \<Rightarrow> False | Some allowed \<Rightarrow> allowed = to_status)"

definition ClampPagination :: "Pagination \<Rightarrow> Pagination" where
  "ClampPagination p0 =
     (let p1 = (if pg_Limit p0 \<le> 0 then p0\<lparr>pg_Limit := DefaultPageLimit\<rparr> else p0) in
      if pg_Limit p1 > MaxPageLimit then p1\<lparr>pg_Limit := MaxPageLimit\<rparr> else p1)"

section \<open>State and parameters\<close>

record cases_db = custody_db +
  cases_table :: "Case list"
  case_roles :: "CaseRoleRow list"

text \<open>
  What the package is deployed with: the library, PostgreSQL's \<open>ILIKE\<close> on a text and a pattern, the
  row that a \<open>LIMIT 1\<close> without an order picks at a tick, the compiled regular expression for
  reference codes, and whether a custody recorder is configured.
\<close>

record cases_env =
  ce_lib :: go_lib
  ce_ilike :: "string \<Rightarrow> string \<Rightarrow> bool"
  ce_pick :: "nat \<Rightarrow> nat"
  ce_ref_match :: "string \<Rightarrow> bool"
  ce_custody :: bool

definition ErrNotFound :: go_error where "ErrNotFound = ErrSentinel ''case not found''"

definition unique_violation :: go_error where
  \<comment> \<open>SQLSTATE 23505\<close>
  "unique_violation = ErrNew ''duplicate key value violates unique constraint''"

definition uuid_syntax :: go_error where
  \<comment> \<open>SQLSTATE 22P02\<close>
  "uuid_syntax = ErrNew ''invalid input syntax for type uuid''"

definition check_violation :: go_error where
  \<comment> \<open>SQLSTATE 23514\<close>
  "check_violation = ErrNew ''new row violates check constraint''"

definition fk_violation :: go_error where
  \<comment> \<open>SQLSTATE 23503\<close>
  "fk_violation = ErrNew ''insert or update violates foreign key constraint''"

section \<open>The cursor\<close>

definition EncodeCursor :: "go_lib \<Rightarrow> uuid \<Rightarrow> string" where
  "EncodeCursor L u = b64_encode (lib_uuid_string L u)"

definition decodeCursor :: "go_lib \<Rightarrow> string \<Rightarrow> go_error + uuid" where
  "decodeCursor L cursor =
     (case b64_decode cursor of
        Inl err \<Rightarrow> Inl (wrapf ''decode cursor base64'' err)
      | Inr decoded \<Rightarrow>
          (case lib_uuid_parse L decoded of
             Inl err \<Rightarrow> Inl (wrapf ''parse cursor UUID'' err)
           | Inr u \<Rightarrow> Inr u))"

section \<open>Statements\<close>

definition insert_case_error :: "go_error \<Rightarrow> go_error" where
  "insert_case_error err =
     (if contains (err_text err) ''duplicate key'' \<or> contains (err_text err) ''unique constraint''
      then wrapf ''reference code already exists'' err else wrapf ''insert case'' err)"

definition repo_Create ::
  "cases_env \<Rightarrow> Case \<Rightarrow> 'a cases_db_scheme \<Rightarrow> (go_error + Case) \<times> 'a cases_db_scheme" where
  "repo_Create E c w =
     (case fault w of
        Some err \<Rightarrow> (Inl (insert_case_error err), tick w)
      | None \<Rightarrow>
          (case lib_col_uuid (ce_lib E) (c_CreatedBy c) of
             None \<Rightarrow> (Inl (insert_case_error uuid_syntax), tick w)
           | Some creator \<Rightarrow>
               if c_Status c \<notin> set [StatusActive, StatusClosed, StatusArchived] then
                 (Inl (insert_case_error check_violation), tick w)
               else if new_uuid w \<in> set (map c_ID (cases_table w)) \<or>
                 c_ReferenceCode c \<in> set (map c_ReferenceCode (cases_table w)) then
                 (Inl (insert_case_error unique_violation), tick w)
               else
                 let t = lib_col_time (ce_lib E) (now w);
                     row = c\<lparr>c_ID := new_uuid w, c_CreatedBy := creator, c_CreatedAt := t, c_UpdatedAt := t\<rparr>
                 in (Inr row, (tick w)\<lparr>cases_table := cases_table w @ [row]\<rparr>)))"

definition find_case :: "uuid \<Rightarrow> Case list \<Rightarrow> Case option" where
  \<comment> \<open>\<open>SELECT ... FROM cases WHERE id = $1\<close>\<close>
  "find_case caseID rows = find (\<lambda>c. c_ID c = caseID) rows"

definition repo_FindByID ::
  "uuid \<Rightarrow> 'a cases_db_scheme \<Rightarrow> (go_error + Case) \<times> 'a cases_db_scheme" where
  "repo_FindByID caseID w =
     (case fault w of
        Some err \<Rightarrow> (Inl (wrapf ''find case by id'' err), tick w)
      | None \<Rightarrow>
          (case find_case caseID (cases_table w) of
             None \<Rightarrow> (Inl ErrNotFound, tick w)
           | Some c \<Rightarrow> (Inr c, tick w)))"

definition case_matches :: "cases_env \<Rightarrow> CaseFilter \<Rightarrow> CaseRoleRow list \<Rightarrow> Case \<Rightarrow> bool" where
  \<comment> \<open>the conditions that \<open>FindAll\<close> collects before the cursor's\<close>
  "case_matches E f roles c \<longleftrightarrow>
     (\<not> cf_SystemAdmin f \<and> cf_UserID f \<noteq> [] \<longrightarrow>
        (\<exists>r \<in> set roles. cr_CaseID r = c_ID c \<and>
           lib_col_uuid (ce_lib E) (cf_UserID f) = Some (cr_UserID r))) \<and>
     (cf_Status f \<noteq> [] \<longrightarrow> c_Status c \<in> set (cf_Status f)) \<and>
     (cf_Jurisdiction f \<noteq> [] \<longrightarrow> c_Jurisdiction c = cf_Jurisdiction f) \<and>
     (cf_SearchQuery f \<noteq> [] \<longrightarrow>
        (let pat = ''%'' @ cf_SearchQuery f @ ''%'' in
         ce_ilike E (c_Title c) pat \<or> ce_ilike E (c_ReferenceCode c) pat \<or> ce_ilike E (c_Description c) pat))"

definition filter_arg_error :: "cases_env \<Rightarrow> CaseFilter \<Rightarrow> go_error option" where
  \<comment> \<open>the user identifier is compared with a column of type \<open>uuid\<close>\<close>
  "filter_arg_error E f =
     (if \<not> cf_SystemAdmin f \<and> cf_UserID f \<noteq> [] \<and> lib_col_uuid (ce_lib E) (cf_UserID f) = None
      then Some uuid_syntax else None)"

definition case_page :: "(Case \<Rightarrow> bool) \<Rightarrow> uuid option \<Rightarrow> int \<Rightarrow> Case list \<Rightarrow> Case list" where
  \<comment> \<open>\<open>SELECT ... WHERE ... [AND c.id < $n] ORDER BY c.id DESC LIMIT n\<close>\<close>
  "case_page P cursorID n rows =
     take (nat n) (rev (sort_key c_ID
       (filter (\<lambda>c. P c \<and> (case cursorID of None \<Rightarrow> True | Some u \<Rightarrow> c_ID c < u)) rows)))"

definition repo_FindAll ::
  "cases_env \<Rightarrow> CaseFilter \<Rightarrow> Pagination \<Rightarrow> 'a cases_db_scheme
     \<Rightarrow> (go_error + Case list \<times> int) \<times> 'a cases_db_scheme" where
  "repo_FindAll E f page0 w =
     (let page = ClampPagination page0 in
      case (if pg_Cursor page = [] then Inr None
            else map_sum id Some (decodeCursor (ce_lib E) (pg_Cursor page))) of
        Inl err \<Rightarrow> (Inl (wrapf ''invalid cursor'' err), w)
      | Inr cursorID \<Rightarrow>
          (case (case fault w of Some err \<Rightarrow> Some err | None \<Rightarrow> filter_arg_error E f) of
             Some err \<Rightarrow> (Inl (wrapf ''count cases'' err), tick w)
           | None \<Rightarrow>
               let P = case_matches E f (case_roles w);
                   total_count = int (length (filter P (cases_table w)))
               in
               (case query_rows (wrapf ''query cases'') (wrapf ''scan case'') (wrapf ''iterate cases'')
                  (case_page P cursorID (pg_Limit page + 1) (cases_table w)) (tick w)
                of (Inl err, w2) \<Rightarrow> (Inl err, w2)
                 | (Inr cs, w2) \<Rightarrow>
                     (Inr (if int (length cs) > pg_Limit page then take (nat (pg_Limit page)) cs else cs,
                           total_count), w2))))"

definition set_columns :: "UpdateCaseInput \<Rightarrow> time \<Rightarrow> Case \<Rightarrow> Case" where
  \<comment> \<open>\<open>SET title = ..., updated_at = now()\<close> for the fields that are present\<close>
  "set_columns u t c =
     c\<lparr>c_Title := (case ui_Title u of Some v \<Rightarrow> v | None \<Rightarrow> c_Title c),
       c_Description := (case ui_Description u of Some v \<Rightarrow> v | None \<Rightarrow> c_Description c),
       c_Jurisdiction := (case ui_Jurisdiction u of Some v \<Rightarrow> v | None \<Rightarrow> c_Jurisdiction c),
       c_Status := (case ui_Status u of Some v \<Rightarrow> v | None \<Rightarrow> c_Status c),
       c_UpdatedAt := t\<rparr>"

definition update_case_where :: "uuid \<Rightarrow> (Case \<Rightarrow> Case) \<Rightarrow> Case list \<Rightarrow> Case list" where
  \<comment> \<open>\<open>UPDATE cases SET ... WHERE id = $n\<close>\<close>
  "update_case_where caseID g rows = map (\<lambda>c. if c_ID c = caseID then g c else c) rows"

definition repo_Update ::
  "cases_env \<Rightarrow> uuid \<Rightarrow> UpdateCaseInput \<Rightarrow> 'a cases_db_scheme \<Rightarrow> (go_error + Case) \<times> 'a cases_db_scheme" where
  "repo_Update E caseID u w =
     (if ui_Title u = None \<and> ui_Description u = None \<and> ui_Jurisdiction u = None \<and> ui_Status u = None
      then repo_FindByID caseID w
      else
        case fault w of
          Some err \<Rightarrow> (Inl (wrapf ''update case'' err), tick w)
        | None \<Rightarrow>
            let g = set_columns u (lib_col_time (ce_lib E) (now w)) in
            (case find_case caseID (cases_table w) of
               None \<Rightarrow> (Inl ErrNotFound, tick w)
             | Some c \<Rightarrow>
                 if c_Status (g c) \<notin> set [StatusActive, StatusClosed, StatusArchived] then
                   (Inl (wrapf ''update case'' check_violation), tick w)
                 else
                   (Inr (g c), (tick w)\<lparr>cases_table := update_case_where caseID g (cases_table w)\<rparr>)))"

definition repo_Archive ::
  "cases_env \<Rightarrow> uuid \<Rightarrow> 'a cases_db_scheme \<Rightarrow> go_error option \<times> 'a cases_db_scheme" where
  "repo_Archive E caseID w =
     (case fault w of
        Some err \<Rightarrow> (Some (wrapf ''archive case'' err), tick w)
      | None \<Rightarrow>
          let t = lib_col_time (ce_lib E) (now w);
              w' = (tick w)\<lparr>cases_table := update_case_where caseID
                      (\<lambda>c. c\<lparr>c_Status := ''archived'', c_UpdatedAt := t\<rparr>) (cases_table w)\<rparr>
          in (if find_case caseID (cases_table w) = None then Some ErrNotFound else None, w'))"

definition repo_SetLegalHold ::
  "cases_env \<Rightarrow> uuid \<Rightarrow> bool \<Rightarrow> 'a cases_db_scheme \<Rightarrow> go_error option \<times> 'a cases_db_scheme" where
  "repo_SetLegalHold E caseID hold w =
     (case fault w of
        Some err \<Rightarrow> (Some (wrapf ''set legal hold'' err), tick w)
      | None \<Rightarrow>
          let t = lib_col_time (ce_lib E) (now w);
              w' = (tick w)\<lparr>cases_table := update_case_where caseID
                      (\<lambda>c. c\<lparr>c_LegalHold := hold, c_UpdatedAt := t\<rparr>) (cases_table w)\<rparr>
          in (if find_case caseID (cases_table w) = None then Some ErrNotFound else None, w'))"

end
