(* ===== verification/Cases_Service.thy ===== *)
theory Cases_Service
  imports Cases_Repo
begin

text \<open>
  \<open>internal/cases/service.go\<close>: the validation and the operations on cases, each the whole method
  with the calls it makes to the repository and to the custody recorder in their order.
\<close>

definition NewService ::
  "(string \<Rightarrow> go_error + (string \<Rightarrow> bool)) \<Rightarrow> go_lib \<Rightarrow> (string \<Rightarrow> string \<Rightarrow> bool) \<Rightarrow> (nat \<Rightarrow> nat) \<Rightarrow> bool
     \<Rightarrow> string \<Rightarrow> go_error + cases_env" where
  \<comment> \<open>\<open>compile_re\<close> is \<open>regexp.Compile\<close>\<close>
  "NewService compile_re L ilike pick custody referenceCodeRegex =
     (case compile_re referenceCodeRegex of
        Inl err \<Rightarrow> Inl (wrapf ''compile reference code regex'' err)
      | Inr expr \<Rightarrow> Inr \<lparr>ce_lib = L, ce_ilike = ilike, ce_pick = pick, ce_ref_match = expr, ce_custody = custody\<rparr>)"

section \<open>Validation\<close>

definition validateCreateInput :: "cases_env \<Rightarrow> CreateCaseInput \<Rightarrow> go_error option" where
  "validateCreateInput E input =
     (let title = trim_space (ci_Title input); ref = trim_space (ci_ReferenceCode input) in
      if title = [] then Some (ValidationError ''title'' ''title is required'')
      else if length title > MaxTitleLength then
        Some (ValidationError ''title'' (''title must not exceed '' @ itoa (int MaxTitleLength) @ '' characters''))
      else if length (trim_space (ci_Description input)) > MaxDescriptionLength then
        Some (ValidationError ''description''
          (''description must not exceed '' @ itoa (int MaxDescriptionLength) @ '' characters''))
      else if length (trim_space (ci_Jurisdiction input)) > MaxJurisdictionLen then
        Some (ValidationError ''jurisdiction''
          (''jurisdiction must not exceed '' @ itoa (int MaxJurisdictionLen) @ '' characters''))
      else if ref = [] then Some (ValidationError ''reference_code'' ''reference code is required'')
      else if \<not> ce_ref_match E ref then
        Some (ValidationError ''reference_code'' ''reference code must be 3-100 characters using letters, digits, hyphens, slashes, dots, or underscores (e.g. ICC-01/04-01/06, KSC-BC-2020-06)'')
      else None)"

definition validate_update_texts :: "UpdateCaseInput \<Rightarrow> go_error option" where
  \<comment> \<open>the part of \<open>validateUpdateInput\<close> that reads only the input\<close>
  "validate_update_texts u =
     (if \<exists>v \<in> set_option (ui_Title u). trim_space v = [] then
        Some (ValidationError ''title'' ''title cannot be empty'')
      else if \<exists>v \<in> set_option (ui_Title u). length (trim_space v) > MaxTitleLength then
        Some (ValidationError ''title'' (''title must not exceed '' @ itoa (int MaxTitleLength) @ '' characters''))
      else if \<exists>v \<in> set_option (ui_Description u). length (trim_space v) > MaxDescriptionLength then
        Some (ValidationError ''description''
          (''description must not exceed '' @ itoa (int MaxDescriptionLength) @ '' characters''))
      else if \<exists>v \<in> set_option (ui_Jurisdiction u). length (trim_space v) > MaxJurisdictionLen then
        Some (ValidationError ''jurisdiction''
          (''jurisdiction must not exceed '' @ itoa (int MaxJurisdictionLen) @ '' characters''))
      else None)"

definition transition_error :: "string \<Rightarrow> string \<Rightarrow> go_error" where
  "transition_error from_status to_status =
     ValidationError ''status'' (''cannot transition from '' @ from_status @ '' to '' @ to_status)"

definition validateUpdateInput ::
  "uuid \<Rightarrow> UpdateCaseInput \<Rightarrow> 'a cases_db_scheme \<Rightarrow> go_error option \<times> 'a cases_db_scheme" where
  "validateUpdateInput caseID u w =
     (case validate_update_texts u of
        Some err \<Rightarrow> (Some err, w)
      | None \<Rightarrow>
          (case ui_Status u of
             None \<Rightarrow> (None, w)
           | Some st \<Rightarrow>
               (case repo_FindByID caseID w of
                  (Inl err, w1) \<Rightarrow> (Some err, w1)
                | (Inr current, w1) \<Rightarrow>
                    (if \<not> IsValidStatusTransition (c_Status current) st then
                       Some (transition_error (c_Status current) st) else None, w1))))"

section \<open>Custody\<close>

definition record_case_event ::
  "cases_env \<Rightarrow> uuid \<Rightarrow> string \<Rightarrow> string \<Rightarrow> (string \<times> string) list \<Rightarrow> 'a cases_db_scheme \<Rightarrow> 'a cases_db_scheme" where
  \<comment> \<open>\<open>if s.custody != nil { _ = s.custody.RecordCaseEvent(...) }\<close>: the error is dropped\<close>
  "record_case_event E caseID action actor detail w =
     (if ce_custody E then snd (RecordCaseEvent (ce_lib E) caseID action actor detail w) else w)"

section \<open>Operations\<close>

definition sanitize :: "string \<Rightarrow> string" where
  "sanitize s = html_escape (trim_space s)"

definition CreateCase ::
  "cases_env \<Rightarrow> CreateCaseInput \<Rightarrow> string \<Rightarrow> string \<Rightarrow> 'a cases_db_scheme
     \<Rightarrow> (go_error + Case) \<times> 'a cases_db_scheme" where
  "CreateCase E input createdBy createdByName w =
     (case validateCreateInput E input of
        Some err \<Rightarrow> (Inl err, w)
      | None \<Rightarrow>
          let c = \<lparr>c_ID = uuid_Nil, c_ReferenceCode = trim_space (ci_ReferenceCode input),
                   c_Title = sanitize (ci_Title input), c_Description = sanitize (ci_Description input),
                   c_Jurisdiction = sanitize (ci_Jurisdiction input), c_Status = StatusActive,
                   c_LegalHold = False, c_CreatedBy = createdBy, c_CreatedByName = createdByName,
                   c_CreatedAt = 0, c_UpdatedAt = 0\<rparr>
          in
          (case repo_Create E c w of
             (Inl err, w1) \<Rightarrow> (Inl err, w1)
           | (Inr result, w1) \<Rightarrow>
               (Inr result, record_case_event E (c_ID result) ''case_created'' createdBy
                  [(''reference_code'', c_ReferenceCode result), (''title'', c_Title result)] w1)))"

definition GetCase :: "uuid \<Rightarrow> 'a cases_db_scheme \<Rightarrow> (go_error + Case) \<times> 'a cases_db_scheme" where
  "GetCase caseID w = repo_FindByID caseID w"

definition ListCases ::
  "cases_env \<Rightarrow> CaseFilter \<Rightarrow> Pagination \<Rightarrow> 'a cases_db_scheme
     \<Rightarrow> (go_error + Case PaginatedResult) \<times> 'a cases_db_scheme" where
  "ListCases E f page0 w =
     (case repo_FindAll E f page0 w of
        (Inl err, w1) \<Rightarrow> (Inl err, w1)
      | (Inr (cs, total_count), w1) \<Rightarrow>
          let page = ClampPagination page0;
              hasMore = (int (length cs) = pg_Limit page \<and> total_count > pg_Limit page);
              nextCursor = (if hasMore \<and> cs \<noteq> [] then EncodeCursor (ce_lib E) (c_ID (last cs)) else [])
          in (Inr \<lparr>pr_Items = cs, pr_TotalCount = total_count, pr_NextCursor = nextCursor,
                   pr_HasMore = hasMore\<rparr>, w1))"

definition sanitize_update :: "UpdateCaseInput \<Rightarrow> UpdateCaseInput" where
  "sanitize_update u =
     u\<lparr>ui_Title := map_option sanitize (ui_Title u),
       ui_Description := map_option sanitize (ui_Description u),
       ui_Jurisdiction := map_option sanitize (ui_Jurisdiction u)\<rparr>"

definition changed_fields :: "UpdateCaseInput \<Rightarrow> (string \<times> string) list" where
  "changed_fields u =
     (case ui_Title u of Some v \<Rightarrow> [(''title'', v)] | None \<Rightarrow> []) @
     (case ui_Description u of Some v \<Rightarrow> [(''description'', ''updated'')] | None \<Rightarrow> []) @
     (case ui_Jurisdiction u of Some v \<Rightarrow> [(''jurisdiction'', v)] | None \<Rightarrow> []) @
     (case ui_Status u of Some v \<Rightarrow> [(''status'', v)] | None \<Rightarrow> [])"

definition UpdateCase ::
  "cases_env \<Rightarrow> uuid \<Rightarrow> UpdateCaseInput \<Rightarrow> string \<Rightarrow> 'a cases_db_scheme
     \<Rightarrow> (go_error + Case) \<times> 'a cases_db_scheme" where
  "UpdateCase E caseID input updatedBy w =
     (case repo_FindByID caseID w of
        (Inl err, w1) \<Rightarrow> (Inl err, w1)
      | (Inr current, w1) \<Rightarrow>
          if c_Status current = StatusArchived then
            (Inl (ValidationError ''status'' ''cannot update an archived case''), w1)
          else
            (case validateUpdateInput caseID input w1 of
               (Some err, w2) \<Rightarrow> (Inl err, w2)
             | (None, w2) \<Rightarrow>
                 let u = sanitize_update input in
                 (case repo_Update E caseID u w2 of
                    (Inl err, w3) \<Rightarrow> (Inl err, w3)
                  | (Inr result, w3) \<Rightarrow>
                      (Inr result, record_case_event E caseID ''case_updated'' updatedBy (changed_fields u) w3))))"

definition ArchiveCase ::
  "cases_env \<Rightarrow> uuid \<Rightarrow> string \<Rightarrow> 'a cases_db_scheme \<Rightarrow> go_error option \<times> 'a cases_db_scheme" where
  "ArchiveCase E caseID archivedBy w =
     (case repo_FindByID caseID w of
        (Inl err, w1) \<Rightarrow> (Some err, w1)
      | (Inr c, w1) \<Rightarrow>
          if c_LegalHold c then
            (Some (ValidationError ''legal_hold'' ''cannot archive a case with active legal hold''), w1)
          else if c_Status c = StatusArchived then (None, w1)
          else if \<not> IsValidStatusTransition (c_Status c) StatusArchived then
            (Some (transition_error (c_Status c) ''archived''), w1)
          else
            (case repo_Archive E caseID w1 of
               (Some err, w2) \<Rightarrow> (Some err, w2)
             | (None, w2) \<Rightarrow> (None, record_case_event E caseID ''case_archived'' archivedBy [] w2)))"

definition SetLegalHold ::
  "cases_env \<Rightarrow> uuid \<Rightarrow> bool \<Rightarrow> string \<Rightarrow> 'a cases_db_scheme \<Rightarrow> go_error option \<times> 'a cases_db_scheme" where
  "SetLegalHold E caseID hold setBy w =
     (case repo_FindByID caseID w of
        (Inl err, w1) \<Rightarrow> (Some err, w1)
      | (Inr c, w1) \<Rightarrow>
          if c_Status c = StatusArchived then
            (Some (ValidationError ''status'' ''cannot change legal hold on an archived case''), w1)
          else if c_LegalHold c = hold then (None, w1)
          else
            (case repo_SetLegalHold E caseID hold w1 of
               (Some err, w2) \<Rightarrow> (Some err, w2)
             | (None, w2) \<Rightarrow>
                 (None, record_case_event E caseID (if hold then ''legal_hold_set'' else ''legal_hold_released'')
                    setBy [(''previous_value'', fmt_bool (c_LegalHold c))] w2)))"

section \<open>What an operation does to the tables\<close>

lemma cases_tick [simp]:
  "cases_table (tick w) = cases_table w" "case_roles (tick w) = case_roles w"
  by (simp_all add: tick_def)

lemma cases_table_update [simp]:
  "custody_log (w\<lparr>cases_table := cs\<rparr>) = custody_log w"
  by simp

lemma cases_only_ticks:
  assumes "only_ticks w (w' :: 'a cases_db_scheme)"
  shows "cases_table w' = cases_table w" "case_roles w' = case_roles w" "custody_log w' = custody_log w"
proof -
  obtain n where "w' = w\<lparr>w_tick := n\<rparr>" using assms unfolding only_ticks_def by blast
  then show "cases_table w' = cases_table w" "case_roles w' = case_roles w" "custody_log w' = custody_log w"
    by simp_all
qed

lemma RecordCaseEvent_frame:
  assumes "RecordCaseEvent L caseID action actor detail (w :: 'a cases_db_scheme) = (r, w')"
  shows "cases_table w' = cases_table w" "case_roles w' = case_roles w"
proof -
  have "cases_table w' = cases_table w \<and> case_roles w' = case_roles w"
  proof (cases r)
    case None
    with assms custody_Insert_ok [of L _ "tick w" w'] show ?thesis
      by (fastforce simp: RecordCaseEvent_def)
  next
    case (Some err)
    with assms have "only_ticks (tick w) w'"
      unfolding RecordCaseEvent_def by (metis custody_Insert_fail)
    then show ?thesis using cases_only_ticks by fastforce
  qed
  then show "cases_table w' = cases_table w" "case_roles w' = case_roles w" by simp_all
qed

lemma record_case_event_frame [simp]:
  "cases_table (record_case_event E caseID action actor detail w) = cases_table w"
  "case_roles (record_case_event E caseID action actor detail w) = case_roles w"
  using RecordCaseEvent_frame [of "ce_lib E" caseID action actor detail w]
  by (cases "RecordCaseEvent (ce_lib E) caseID action actor detail w", simp add: record_case_event_def)+

lemma repo_FindByID_ok:
  "repo_FindByID caseID w = (Inr c, w') \<Longrightarrow> w' = tick w \<and> find_case caseID (cases_table w) = Some c"
  by (auto simp: repo_FindByID_def split: option.splits)

lemma repo_FindByID_state: "repo_FindByID caseID w = (r, w') \<Longrightarrow> w' = tick w"
  by (auto simp: repo_FindByID_def split: option.splits)

lemma find_case_Some: "find_case caseID rows = Some c \<Longrightarrow> c \<in> set rows \<and> c_ID c = caseID"
  by (auto simp: find_case_def find_Some_iff)

lemma find_case_None: "find_case caseID rows = None \<longleftrightarrow> caseID \<notin> c_ID ` set rows"
  by (auto simp: find_case_def find_None_iff)

lemma find_case_update:
  "(\<And>c. c_ID (g c) = c_ID c) \<Longrightarrow>
     find_case k (update_case_where caseID g rows) =
       (if k = caseID then map_option g (find_case caseID rows) else find_case k rows)"
  by (induction rows) (auto simp: find_case_def update_case_where_def)

lemma set_columns_sel [simp]:
  "c_ID (set_columns u t c) = c_ID c" "c_ReferenceCode (set_columns u t c) = c_ReferenceCode c"
  "c_LegalHold (set_columns u t c) = c_LegalHold c"
  by (simp_all add: set_columns_def)

lemma update_case_where_absent:
  "find_case caseID rows = None \<Longrightarrow> update_case_where caseID g rows = rows"
  by (induction rows) (auto simp: update_case_where_def find_case_def)

end
