(* ===== verification/Cases_Api.thy ===== *)
theory Cases_Api
  imports Cases_Service Auth_Roles
begin

text \<open>
  \<open>internal/cases/roles.go\<close> and \<open>handler.go\<close>: the table of case roles, and the HTTP handlers of
  cases and of case roles with the system-role gates their routes are mounted under.
\<close>

section \<open>The repository of case roles\<close>

definition assign_role_error :: "go_error \<Rightarrow> go_error" where
  "assign_role_error err =
     (if contains (err_text err) ''duplicate key'' \<or> contains (err_text err) ''unique constraint''
      then wrapf ''role already assigned'' err else wrapf ''assign case role'' err)"

definition role_Assign ::
  "cases_env \<Rightarrow> uuid \<Rightarrow> string \<Rightarrow> string \<Rightarrow> string \<Rightarrow> 'a cases_db_scheme
     \<Rightarrow> (go_error + CaseRoleRow) \<times> 'a cases_db_scheme" where
  "role_Assign E caseID userID role grantedBy w =
     (case fault w of
        Some err \<Rightarrow> (Inl (assign_role_error err), tick w)
      | None \<Rightarrow>
          (case (lib_col_uuid (ce_lib E) userID, lib_col_uuid (ce_lib E) grantedBy) of
             (Some user, Some granter) \<Rightarrow>
               if role \<notin> set ValidCaseRoles then (Inl (assign_role_error check_violation), tick w)
               else if new_uuid w \<in> set (map cr_ID (case_roles w)) \<or>
                 (caseID, user, role) \<in> set (map (\<lambda>r. (cr_CaseID r, cr_UserID r, cr_Role r)) (case_roles w)) then
                 (Inl (assign_role_error unique_violation), tick w)
               else if find_case caseID (cases_table w) = None then
                 (Inl (assign_role_error fk_violation), tick w)
               else
                 let row = \<lparr>cr_ID = new_uuid w, cr_CaseID = caseID, cr_UserID = user, cr_Role = role,
                            cr_GrantedBy = granter, cr_GrantedAt = lib_col_time (ce_lib E) (now w)\<rparr>
                 in (Inr row, (tick w)\<lparr>case_roles := case_roles w @ [row]\<rparr>)
           | _ \<Rightarrow> (Inl (assign_role_error uuid_syntax), tick w)))"

definition role_Revoke ::
  "cases_env \<Rightarrow> uuid \<Rightarrow> string \<Rightarrow> 'a cases_db_scheme \<Rightarrow> go_error option \<times> 'a cases_db_scheme" where
  "role_Revoke E caseID userID w =
     (case (case fault w of Some err \<Rightarrow> Inl err
            | None \<Rightarrow> (case lib_col_uuid (ce_lib E) userID of None \<Rightarrow> Inl uuid_syntax | Some user \<Rightarrow> Inr user)) of
        Inl err \<Rightarrow> (Some (wrapf ''revoke case role'' err), tick w)
      | Inr user \<Rightarrow>
          let hit = (\<lambda>r. cr_CaseID r = caseID \<and> cr_UserID r = user) in
          (if filter hit (case_roles w) = [] then Some ErrNotFound else None,
           (tick w)\<lparr>case_roles := filter (\<lambda>r. \<not> hit r) (case_roles w)\<rparr>))"

definition role_ListByCaseID ::
  "uuid \<Rightarrow> 'a cases_db_scheme \<Rightarrow> (go_error + CaseRoleRow list) \<times> 'a cases_db_scheme" where
  "role_ListByCaseID caseID w =
     query_rows (wrapf ''list case roles'') (wrapf ''scan case role'') id
       (sort_key cr_GrantedAt (filter (\<lambda>r. cr_CaseID r = caseID) (case_roles w))) w"

definition LoadCaseRole ::
  "cases_env \<Rightarrow> string \<Rightarrow> string \<Rightarrow> 'a cases_db_scheme \<Rightarrow> (go_error + CaseRole) \<times> 'a cases_db_scheme" where
  \<comment> \<open>\<open>SELECT role ... LIMIT 1\<close> has no \<open>ORDER BY\<close>: any of the rows may come back\<close>
  "LoadCaseRole E caseID userID w =
     (case lib_uuid_parse (ce_lib E) caseID of
        Inl err \<Rightarrow> (Inl (wrapf ''parse case ID'' err), w)
      | Inr cid \<Rightarrow>
          (case (case fault w of Some err \<Rightarrow> Inl err
                 | None \<Rightarrow> (case lib_col_uuid (ce_lib E) userID of None \<Rightarrow> Inl uuid_syntax | Some user \<Rightarrow> Inr user)) of
             Inl err \<Rightarrow> (Inl (wrapf ''load case role'' err), tick w)
           | Inr user \<Rightarrow>
               let rows = filter (\<lambda>r. cr_CaseID r = cid \<and> cr_UserID r = user) (case_roles w) in
               if rows = [] then (Inl ErrNoCaseRole, tick w)
               else (Inr (cr_Role (rows ! (ce_pick E (w_tick w) mod length rows))), tick w)))"

section \<open>Request bodies, parameters and errors\<close>

text \<open>
  A decoder for one type of body: \<open>json.Decoder.Decode\<close> gives the value and the unread rest,
  \<open>More\<close> tells whether another value starts there, and \<open>dec_extra\<close> whether it decodes.
\<close>

record 'v body_decoder =
  dec_decode :: "string \<Rightarrow> go_error + 'v \<times> string"
  dec_more :: "string \<Rightarrow> bool"
  dec_extra :: "string \<Rightarrow> bool"

definition ErrUnexpectedEOF :: go_error where "ErrUnexpectedEOF = ErrSentinel ''unexpected EOF''"

definition decodeBody :: "'v body_decoder \<Rightarrow> request \<Rightarrow> go_error + 'v" where
  "decodeBody D r =
     (case dec_decode D (take (MaxBodySize + 1) (req_body r)) of
        Inl err \<Rightarrow>
          if errors_is err ErrUnexpectedEOF \<or> contains (err_text err) ''unexpected end''
          then Inl (ValidationError ''body'' ''request body too large'')
          else Inl (ValidationError ''body'' ''invalid JSON'')
      | Inr (v, rest) \<Rightarrow>
          if dec_more D rest \<and> dec_extra D rest
          then Inl (ValidationError ''body'' ''request body too large'')
          else Inr v)"

definition parseUUID :: "go_lib \<Rightarrow> request \<Rightarrow> string \<Rightarrow> go_error + uuid" where
  "parseUUID L r param = lib_uuid_parse L (req_param r param)"

definition wrap64 :: "int \<Rightarrow> int" where
  \<comment> \<open>the value of an \<open>int\<close> of 64 bits\<close>
  "wrap64 i = (i + 2 ^ 63) mod 2 ^ 64 - 2 ^ 63"

definition is_digit :: "char \<Rightarrow> bool" where
  "is_digit c \<longleftrightarrow> (48::nat) \<le> of_char c \<and> of_char c \<le> (57::nat)"

fun limit_digits :: "int \<Rightarrow> int \<Rightarrow> string \<Rightarrow> int" where
  \<comment> \<open>the loop over the runes of the parameter; a rune that is not a digit ends it\<close>
  "limit_digits dflt limit [] = limit"
| "limit_digits dflt limit (c # cs) =
     (if is_digit c then limit_digits dflt (wrap64 (limit * 10 + int (of_char c - 48))) cs else dflt)"

definition parsePagination :: "request \<Rightarrow> Pagination" where
  "parsePagination r =
     \<lparr>pg_Limit = (let l = req_query r ''limit'' in
                   if l \<noteq> [] then limit_digits DefaultPageLimit 0 l else 0),
      pg_Cursor = req_query r ''cursor''\<rparr>"

definition respondServiceError :: "go_error \<Rightarrow> 'b http_response" where
  "respondServiceError err =
     (if as_validation err \<noteq> None then RespondError 400 (err_text err)
      else if errors_is err ErrNotFound then RespondError 404 ''not found''
      else if contains (err_text err) ''reference code already exists''
        then RespondError 409 ''reference code already exists''
      else RespondError 500 ''internal error'')"

datatype case_body =
    BodyCase Case
  | BodyCases "Case list"
  | BodyRole CaseRoleRow
  | BodyRoles "CaseRoleRow list"
  | BodyFields "(string \<times> string) list"

section \<open>Handlers of cases\<close>

definition Handler_Create ::
  "cases_env \<Rightarrow> CreateCaseInput body_decoder \<Rightarrow> ctx \<Rightarrow> request \<Rightarrow> 'a cases_db_scheme
     \<Rightarrow> case_body http_response \<times> 'a cases_db_scheme" where
  "Handler_Create E D c r w =
     (case GetAuthContext c of
        None \<Rightarrow> (RespondError 500 ''internal error'', w)
      | Some ac \<Rightarrow>
          (case decodeBody D r of
             Inl err \<Rightarrow> (RespondError 400 (err_text err), w)
           | Inr input \<Rightarrow>
               (case CreateCase E input (UserID ac) (Username ac) w of
                  (Inl err, w1) \<Rightarrow> (respondServiceError err, w1)
                | (Inr result, w1) \<Rightarrow> (RespondJSON 201 (BodyCase result), w1))))"

definition list_filter :: "AuthContext \<Rightarrow> request \<Rightarrow> CaseFilter" where
  "list_filter ac r =
     \<lparr>cf_UserID = UserID ac, cf_SystemAdmin = (SystemRole ac \<ge> RoleSystemAdmin),
      cf_Status = (let s = req_query r ''status'' in if s \<noteq> [] then split_byte (CHR '','') s else []),
      cf_Jurisdiction = req_query r ''jurisdiction'', cf_SearchQuery = req_query r ''q''\<rparr>"

definition Handler_List ::
  "cases_env \<Rightarrow> ctx \<Rightarrow> request \<Rightarrow> 'a cases_db_scheme \<Rightarrow> case_body http_response \<times> 'a cases_db_scheme" where
  "Handler_List E c r w =
     (case GetAuthContext c of
        None \<Rightarrow> (RespondError 500 ''internal error'', w)
      | Some ac \<Rightarrow>
          (case ListCases E (list_filter ac r) (parsePagination r) w of
             (Inl err, w1) \<Rightarrow> (respondServiceError err, w1)
           | (Inr res, w1) \<Rightarrow>
               (RespondPaginated 200 (BodyCases (pr_Items res)) (pr_TotalCount res) (pr_NextCursor res)
                  (pr_HasMore res), w1)))"

definition Handler_Get ::
  "cases_env \<Rightarrow> ctx \<Rightarrow> request \<Rightarrow> 'a cases_db_scheme \<Rightarrow> case_body http_response \<times> 'a cases_db_scheme" where
  "Handler_Get E c r w =
     (case parseUUID (ce_lib E) r ''id'' of
        Inl err \<Rightarrow> (RespondError 400 ''invalid case ID'', w)
      | Inr caseID \<Rightarrow>
          (case GetCase caseID w of
             (Inl err, w1) \<Rightarrow> (respondServiceError err, w1)
           | (Inr cs, w1) \<Rightarrow> (RespondJSON 200 (BodyCase cs), w1)))"

definition Handler_Update ::
  "cases_env \<Rightarrow> UpdateCaseInput body_decoder \<Rightarrow> ctx \<Rightarrow> request \<Rightarrow> 'a cases_db_scheme
     \<Rightarrow> case_body http_response \<times> 'a cases_db_scheme" where
  "Handler_Update E D c r w =
     (case GetAuthContext c of
        None \<Rightarrow> (RespondError 500 ''internal error'', w)
      | Some ac \<Rightarrow>
          (case parseUUID (ce_lib E) r ''id'' of
             Inl err \<Rightarrow> (RespondError 400 ''invalid case ID'', w)
           | Inr caseID \<Rightarrow>
               (case decodeBody D r of
                  Inl err \<Rightarrow> (RespondError 400 (err_text err), w)
                | Inr input \<Rightarrow>
                    (case UpdateCase E caseID input (UserID ac) w of
                       (Inl err, w1) \<Rightarrow> (respondServiceError err, w1)
                     | (Inr result, w1) \<Rightarrow> (RespondJSON 200 (BodyCase result), w1)))))"

definition Handler_Archive ::
  "cases_env \<Rightarrow> ctx \<Rightarrow> request \<Rightarrow> 'a cases_db_scheme \<Rightarrow> case_body http_response \<times> 'a cases_db_scheme" where
  "Handler_Archive E c r w =
     (case GetAuthContext c of
        None \<Rightarrow> (RespondError 500 ''internal error'', w)
      | Some ac \<Rightarrow>
          (case parseUUID (ce_lib E) r ''id'' of
             Inl err \<Rightarrow> (RespondError 400 ''invalid case ID'', w)
           | Inr caseID \<Rightarrow>
               (case ArchiveCase E caseID (UserID ac) w of
                  (Some err, w1) \<Rightarrow> (respondServiceError err, w1)
                | (None, w1) \<Rightarrow> (RespondJSON 200 (BodyFields [(''status'', ''archived'')]), w1))))"

definition Handler_SetLegalHold ::
  "cases_env \<Rightarrow> bool body_decoder \<Rightarrow> ctx \<Rightarrow> request \<Rightarrow> 'a cases_db_scheme
     \<Rightarrow> case_body http_response \<times> 'a cases_db_scheme" where
  "Handler_SetLegalHold E D c r w =
     (case GetAuthContext c of
        None \<Rightarrow> (RespondError 500 ''internal error'', w)
      | Some ac \<Rightarrow>
          (case parseUUID (ce_lib E) r ''id'' of
             Inl err \<Rightarrow> (RespondError 400 ''invalid case ID'', w)
           | Inr caseID \<Rightarrow>
               (case decodeBody D r of
                  Inl err \<Rightarrow> (RespondError 400 (err_text err), w)
                | Inr hold \<Rightarrow>
                    (case SetLegalHold E caseID hold (UserID ac) w of
                       (Some err, w1) \<Rightarrow> (respondServiceError err, w1)
                     | (None, w1) \<Rightarrow>
                         (RespondJSON 200 (BodyFields [(''legal_hold'', fmt_bool hold)]), w1)))))"

section \<open>Handlers of case roles\<close>

definition RoleHandler_Assign ::
  "cases_env \<Rightarrow> AssignRoleInput body_decoder \<Rightarrow> ctx \<Rightarrow> request \<Rightarrow> 'a cases_db_scheme
     \<Rightarrow> case_body http_response \<times> 'a cases_db_scheme" where
  "RoleHandler_Assign E D c r w =
     (case GetAuthContext c of
        None \<Rightarrow> (RespondError 500 ''internal error'', w)
      | Some ac \<Rightarrow>
          (case lib_uuid_parse (ce_lib E) (req_param r ''id'') of
             Inl err \<Rightarrow> (RespondError 400 ''invalid case ID'', w)
           | Inr caseID \<Rightarrow>
               (case decodeBody D r of
                  Inl err \<Rightarrow> (RespondError 400 ''invalid JSON'', w)
                | Inr input \<Rightarrow>
                    if ai_Role input \<notin> set ValidCaseRoles then (RespondError 400 ''invalid role'', w)
                    else if ai_UserID input = [] then (RespondError 400 ''user_id is required'', w)
                    else
                      (case role_Assign E caseID (ai_UserID input) (ai_Role input) (UserID ac) w of
                         (Inl err, w1) \<Rightarrow>
                           (if contains (err_text err) ''role already assigned''
                            then RespondError 409 ''role already assigned''
                            else RespondError 500 ''internal error'', w1)
                       | (Inr cr, w1) \<Rightarrow>
                           (RespondJSON 201 (BodyRole cr),
                            record_case_event E caseID ''role_granted'' (UserID ac)
                              [(''user_id'', ai_UserID input), (''role'', ai_Role input),
                               (''granted_by'', UserID ac)] w1)))))"

definition RoleHandler_Revoke ::
  "cases_env \<Rightarrow> ctx \<Rightarrow> request \<Rightarrow> 'a cases_db_scheme \<Rightarrow> case_body http_response \<times> 'a cases_db_scheme" where
  "RoleHandler_Revoke E c r w =
     (case GetAuthContext c of
        None \<Rightarrow> (RespondError 500 ''internal error'', w)
      | Some ac \<Rightarrow>
          (case lib_uuid_parse (ce_lib E) (req_param r ''id'') of
             Inl err \<Rightarrow> (RespondError 400 ''invalid case ID'', w)
           | Inr caseID \<Rightarrow>
               let targetUserID = req_param r ''userId'' in
               if targetUserID = UserID ac then (RespondError 403 ''cannot remove your own role'', w)
               else
                 (case role_ListByCaseID caseID w of
                    (Inl err, w1) \<Rightarrow> (RespondError 500 ''internal error'', w1)
                  | (Inr roles, w1) \<Rightarrow>
                      let revokedRole = (case find (\<lambda>cr. cr_UserID cr = targetUserID) roles of
                            Some cr \<Rightarrow> cr_Role cr | None \<Rightarrow> []) in
                      (case role_Revoke E caseID targetUserID w1 of
                         (Some err, w2) \<Rightarrow>
                           (if err = ErrNotFound then RespondError 404 ''role assignment not found''
                            else RespondError 500 ''internal error'', w2)
                       | (None, w2) \<Rightarrow>
                           (RespondJSON 200 (BodyFields [(''status'', ''revoked'')]),
                            record_case_event E caseID ''role_revoked'' (UserID ac)
                              [(''user_id'', targetUserID), (''role'', revokedRole),
                               (''revoked_by'', UserID ac)] w2)))))"

definition RoleHandler_List ::
  "cases_env \<Rightarrow> request \<Rightarrow> 'a cases_db_scheme \<Rightarrow> case_body http_response \<times> 'a cases_db_scheme" where
  "RoleHandler_List E r w =
     (case lib_uuid_parse (ce_lib E) (req_param r ''id'') of
        Inl err \<Rightarrow> (RespondError 400 ''invalid case ID'', w)
      | Inr caseID \<Rightarrow>
          (case role_ListByCaseID caseID w of
             (Inl err, w1) \<Rightarrow> (RespondError 500 ''internal error'', w1)
           | (Inr roles, w1) \<Rightarrow> (RespondJSON 200 (BodyRoles roles), w1)))"

section \<open>Routes\<close>

text \<open>
  The routes of \<open>RegisterRoutes\<close> of both handlers, and the system role that the route's
  \<open>RequireSystemRole\<close> asks for, if it has one.
\<close>

datatype case_route = PostCase | ListCase | GetOneCase | PatchCase | PostArchive | PostLegalHold

datatype role_route = PostRole | DeleteRole | ListRole

fun case_route_gate :: "case_route \<Rightarrow> SystemRole option" where
  "case_route_gate PostCase = Some RoleCaseAdmin"
| "case_route_gate ListCase = None"
| "case_route_gate GetOneCase = None"
| "case_route_gate PatchCase = Some RoleCaseAdmin"
| "case_route_gate PostArchive = Some RoleCaseAdmin"
| "case_route_gate PostLegalHold = Some RoleCaseAdmin"

fun role_route_gate :: "role_route \<Rightarrow> SystemRole option" where
  "role_route_gate PostRole = Some RoleCaseAdmin"
| "role_route_gate DeleteRole = Some RoleCaseAdmin"
| "role_route_gate ListRole = None"

record case_decoders =
  cd_create :: "CreateCaseInput body_decoder"
  cd_update :: "UpdateCaseInput body_decoder"
  cd_hold :: "bool body_decoder"
  cd_role :: "AssignRoleInput body_decoder"

definition gated ::
  "SystemRole option \<Rightarrow> ctx \<Rightarrow> request \<Rightarrow> (ctx \<Rightarrow> 's \<Rightarrow> 'b http_response \<times> 's) \<Rightarrow> 's
     \<Rightarrow> ('b http_response \<times> access_denied list) \<times> 's" where
  \<comment> \<open>\<open>r.With(auth.RequireSystemRole(min, audit))\<close> in front of a handler, or nothing\<close>
  "gated gate c r h w =
     (case gate of
        None \<Rightarrow> (case h c w of (resp, w') \<Rightarrow> ((resp, []), w'))
      | Some minimum \<Rightarrow>
          (case RequireSystemRole minimum True c r of
             (Answered status msg, log) \<Rightarrow> ((RespondError status msg, log), w)
           | (Passed c', log) \<Rightarrow> (case h c' w of (resp, w') \<Rightarrow> ((resp, log), w'))))"

fun case_handler ::
  "cases_env \<Rightarrow> case_decoders \<Rightarrow> case_route \<Rightarrow> request \<Rightarrow> ctx \<Rightarrow> 'a cases_db_scheme
     \<Rightarrow> case_body http_response \<times> 'a cases_db_scheme" where
  "case_handler E D PostCase r c w = Handler_Create E (cd_create D) c r w"
| "case_handler E D ListCase r c w = Handler_List E c r w"
| "case_handler E D GetOneCase r c w = Handler_Get E c r w"
| "case_handler E D PatchCase r c w = Handler_Update E (cd_update D) c r w"
| "case_handler E D PostArchive r c w = Handler_Archive E c r w"
| "case_handler E D PostLegalHold r c w = Handler_SetLegalHold E (cd_hold D) c r w"

fun role_handler ::
  "cases_env \<Rightarrow> case_decoders \<Rightarrow> role_route \<Rightarrow> request \<Rightarrow> ctx \<Rightarrow> 'a cases_db_scheme
     \<Rightarrow> case_body http_response \<times> 'a cases_db_scheme" where
  "role_handler E D PostRole r c w = RoleHandler_Assign E (cd_role D) c r w"
| "role_handler E D DeleteRole r c w = RoleHandler_Revoke E c r w"
| "role_handler E D ListRole r c w = RoleHandler_List E r w"

definition serve_case ::
  "cases_env \<Rightarrow> case_decoders \<Rightarrow> case_route \<Rightarrow> request \<Rightarrow> ctx \<Rightarrow> 'a cases_db_scheme
     \<Rightarrow> (case_body http_response \<times> access_denied list) \<times> 'a cases_db_scheme" where
  "serve_case E D rt r c w = gated (case_route_gate rt) c r (case_handler E D rt r) w"

definition serve_role ::
  "cases_env \<Rightarrow> case_decoders \<Rightarrow> role_route \<Rightarrow> request \<Rightarrow> ctx \<Rightarrow> 'a cases_db_scheme
     \<Rightarrow> (case_body http_response \<times> access_denied list) \<times> 'a cases_db_scheme" where
  "serve_role E D rt r c w = gated (role_route_gate rt) c r (role_handler E D rt r) w"

end
