(* ===== verification/Cases_Life.thy ===== *)
theory Cases_Life
  imports Cases_Api
begin

text \<open>
  The life of a case. The relation \<open>case_change\<close> is the abstract specification: what one operation
  may do to the table \<open>cases\<close>. Every operation of the service refines it, and the invariants of the
  table are proved once, by induction over runs of such changes.
\<close>

section \<open>The specification\<close>

definition html_safe :: "string \<Rightarrow> bool" where
  "html_safe s \<longleftrightarrow> set s \<inter> {CHR ''<'', CHR ''>'', CHR 0x22, CHR 0x27} = {}"

definition case_wf :: "cases_env \<Rightarrow> Case \<Rightarrow> bool" where
  "case_wf E c \<longleftrightarrow>
     c_Title c \<noteq> [] \<and> html_safe (c_Title c) \<and> html_safe (c_Description c) \<and> html_safe (c_Jurisdiction c) \<and>
     ce_ref_match E (c_ReferenceCode c) \<and> c_Status c \<in> {StatusActive, StatusClosed, StatusArchived}"

definition update_wf :: "UpdateCaseInput \<Rightarrow> bool" where
  "update_wf u \<longleftrightarrow>
     (\<forall>v \<in> set_option (ui_Title u). v \<noteq> [] \<and> html_safe v) \<and>
     (\<forall>v \<in> set_option (ui_Description u). html_safe v) \<and>
     (\<forall>v \<in> set_option (ui_Jurisdiction u). html_safe v)"

inductive case_change :: "cases_env \<Rightarrow> Case list \<Rightarrow> Case list \<Rightarrow> bool" for E rows where
  unchanged: "case_change E rows rows"
| created: "c_ID row \<notin> c_ID ` set rows \<Longrightarrow> c_ReferenceCode row \<notin> c_ReferenceCode ` set rows \<Longrightarrow>
    case_wf E row \<Longrightarrow> c_Status row = StatusActive \<Longrightarrow> \<not> c_LegalHold row \<Longrightarrow>
    case_change E rows (rows @ [row])"
| edited: "find_case k rows = Some c \<Longrightarrow> c_Status c \<noteq> StatusArchived \<Longrightarrow> update_wf u \<Longrightarrow>
    (\<forall>st \<in> set_option (ui_Status u). IsValidStatusTransition (c_Status c) st) \<Longrightarrow>
    case_change E rows (update_case_where k (set_columns u t) rows)"
| archived: "find_case k rows = Some c \<Longrightarrow> c_Status c = StatusClosed \<Longrightarrow> \<not> c_LegalHold c \<Longrightarrow>
    case_change E rows (update_case_where k (\<lambda>c. c\<lparr>c_Status := StatusArchived, c_UpdatedAt := t\<rparr>) rows)"
| held: "find_case k rows = Some c \<Longrightarrow> c_Status c \<noteq> StatusArchived \<Longrightarrow> c_LegalHold c \<noteq> hold \<Longrightarrow>
    case_change E rows (update_case_where k (\<lambda>c. c\<lparr>c_LegalHold := hold, c_UpdatedAt := t\<rparr>) rows)"

section \<open>The operations refine it\<close>

lemma transition_iff:
  "IsValidStatusTransition a b \<longleftrightarrow> a = StatusActive \<and> b = StatusClosed \<or> a = StatusClosed \<and> b = StatusArchived"
  by (auto simp: IsValidStatusTransition_def validStatusTransitions_def status_defs)

lemma sanitize_safe [simp]: "html_safe (sanitize s)"
  using html_escape_safe [of "trim_space s"] by (auto simp: html_safe_def sanitize_def)

lemma html_escape_ne [simp]: "html_escape s = [] \<longleftrightarrow> s = []"
  by (cases s) (auto simp: html_escape_def html_escape_char_def)

lemma sanitize_empty [simp]: "sanitize s = [] \<longleftrightarrow> trim_space s = []"
  by (simp add: sanitize_def)

lemma validateCreateInput_ok:
  "validateCreateInput E input = None \<Longrightarrow>
     trim_space (ci_Title input) \<noteq> [] \<and> ce_ref_match E (trim_space (ci_ReferenceCode input)) \<and>
     length (trim_space (ci_Title input)) \<le> MaxTitleLength \<and>
     length (trim_space (ci_Description input)) \<le> MaxDescriptionLength \<and>
     length (trim_space (ci_Jurisdiction input)) \<le> MaxJurisdictionLen"
  by (auto simp: validateCreateInput_def Let_def not_less split: if_splits)

lemma repo_Create_ok:
  assumes "repo_Create E c w = (Inr row, w')"
  shows "cases_table w' = cases_table w @ [row] \<and> case_roles w' = case_roles w \<and>
    c_ID row \<notin> c_ID ` set (cases_table w) \<and>
    c_ReferenceCode row \<notin> c_ReferenceCode ` set (cases_table w) \<and>
    (\<exists>creator t. lib_col_uuid (ce_lib E) (c_CreatedBy c) = Some creator \<and>
       row = c\<lparr>c_ID := new_uuid w, c_CreatedBy := creator, c_CreatedAt := t, c_UpdatedAt := t\<rparr>)"
  using assms by (auto simp: repo_Create_def Let_def split: option.splits if_splits)

lemma repo_Create_fail:
  "repo_Create E c w = (Inl err, w') \<Longrightarrow> w' = tick w"
  by (auto simp: repo_Create_def Let_def split: option.splits if_splits)

lemma CreateCase_change:
  assumes "CreateCase E input by name w = (r, w')"
  shows "case_change E (cases_table w) (cases_table w')"
proof (cases "validateCreateInput E input")
  case (Some err)
  with assms show ?thesis by (simp add: CreateCase_def case_change.unchanged)
next
  case None
  define c where "c = \<lparr>c_ID = uuid_Nil, c_ReferenceCode = trim_space (ci_ReferenceCode input),
     c_Title = sanitize (ci_Title input), c_Description = sanitize (ci_Description input),
     c_Jurisdiction = sanitize (ci_Jurisdiction input), c_Status = StatusActive, c_LegalHold = False,
     c_CreatedBy = by, c_CreatedByName = name, c_CreatedAt = 0, c_UpdatedAt = 0\<rparr>"
  obtain s w1 where p: "repo_Create E c w = (s, w1)" by fastforce
  show ?thesis
  proof (cases s)
    case (Inl err)
    with p None assms show ?thesis
      by (auto simp: CreateCase_def Let_def c_def [symmetric] case_change.unchanged dest: repo_Create_fail)
  next
    case (Inr row)
    from repo_Create_ok [OF p [unfolded Inr]] obtain creator t where
      row: "cases_table w1 = cases_table w @ [row]" "c_ID row \<notin> c_ID ` set (cases_table w)"
        "c_ReferenceCode row \<notin> c_ReferenceCode ` set (cases_table w)"
        "row = c\<lparr>c_ID := new_uuid w, c_CreatedBy := creator, c_CreatedAt := t, c_UpdatedAt := t\<rparr>"
      by blast
    have "case_wf E row" "c_Status row = StatusActive" "\<not> c_LegalHold row"
      using validateCreateInput_ok [OF None] by (simp_all add: row(4) c_def case_wf_def)
    moreover have "cases_table w' = cases_table w1"
      using assms p Inr None by (auto simp: CreateCase_def Let_def c_def [symmetric])
    ultimately show ?thesis
      using row(1-3) by (simp add: case_change.created)
  qed
qed

lemma validate_update_texts_ok:
  "validate_update_texts u = None \<Longrightarrow> update_wf (sanitize_update u)"
  by (auto simp: validate_update_texts_def update_wf_def sanitize_update_def split: if_splits)

lemma validateUpdateInput_ok:
  assumes "validateUpdateInput k u w = (None, w')"
  shows "only_ticks w w'" "update_wf (sanitize_update u)"
    "\<forall>st \<in> set_option (ui_Status u). \<exists>c. find_case k (cases_table w) = Some c \<and>
       IsValidStatusTransition (c_Status c) st"
  using assms
  by (auto simp: validateUpdateInput_def validate_update_texts_ok split: option.splits prod.splits sum.splits
      if_splits dest!: repo_FindByID_ok)

lemma validateUpdateInput_state: "validateUpdateInput k u w = (r, w') \<Longrightarrow> only_ticks w w'"
  by (auto simp: validateUpdateInput_def split: option.splits prod.splits sum.splits
      dest!: repo_FindByID_state)

lemma repo_Update_effect:
  assumes "repo_Update E k u w = (r, w')"
  shows "cases_table w' = cases_table w \<or>
    (\<exists>c t. find_case k (cases_table w) = Some c \<and> r = Inr (set_columns u t c) \<and>
       cases_table w' = update_case_where k (set_columns u t) (cases_table w))"
  using assms
  by (auto simp: repo_Update_def Let_def split: option.splits if_splits dest!: repo_FindByID_state)

lemma repo_FindByID_fail: "repo_FindByID k w = (Inl err, w') \<Longrightarrow> w' = tick w"
  by (rule repo_FindByID_state)

lemma UpdateCase_change:
  assumes "UpdateCase E k input by w = (r, w')"
  shows "case_change E (cases_table w) (cases_table w')"
proof (cases "cases_table w' = cases_table w")
  case True
  then show ?thesis by (simp add: case_change.unchanged)
next
  case False
  obtain s1 w1 where f: "repo_FindByID k w = (s1, w1)" by fastforce
  have w1: "cases_table w1 = cases_table w" using repo_FindByID_state [OF f] by simp
  obtain c where c: "s1 = Inr c" "c_Status c \<noteq> StatusArchived"
    using assms f False w1 by (cases s1) (auto simp: UpdateCase_def split: if_splits)
  have fc: "find_case k (cases_table w) = Some c" using f c repo_FindByID_ok by blast
  obtain s2 w2 where v: "validateUpdateInput k input w1 = (s2, w2)" by fastforce
  have w2: "cases_table w2 = cases_table w"
    using validateUpdateInput_state [OF v] w1 by (simp add: cases_only_ticks)
  have s2: "s2 = None"
    using assms f c v False w2 by (cases s2) (auto simp: UpdateCase_def)
  note ok = validateUpdateInput_ok [OF v [unfolded s2]]
  obtain s3 w3 where u: "repo_Update E k (sanitize_update input) w2 = (s3, w3)" by fastforce
  have w3: "cases_table w' = cases_table w3"
    using assms f c v s2 u by (cases s3) (auto simp: UpdateCase_def Let_def)
  obtain t where "cases_table w' = update_case_where k (set_columns (sanitize_update input) t) (cases_table w)"
    using repo_Update_effect [OF u] False w2 w3 by auto
  moreover have "\<forall>st \<in> set_option (ui_Status (sanitize_update input)). IsValidStatusTransition (c_Status c) st"
    using ok(3) fc w1 by (auto simp: sanitize_update_def)
  ultimately show ?thesis
    using case_change.edited [OF fc c(2) ok(2)] by simp
qed

lemma repo_Archive_effect:
  assumes "repo_Archive E k w = (r, w')"
  shows "r \<noteq> None \<and> cases_table w' = cases_table w \<or>
    r = None \<and> (\<exists>c t. find_case k (cases_table w) = Some c \<and>
      cases_table w' = update_case_where k (\<lambda>c. c\<lparr>c_Status := StatusArchived, c_UpdatedAt := t\<rparr>) (cases_table w))"
  using assms
  by (auto simp: repo_Archive_def Let_def StatusArchived_def update_case_where_absent
      split: option.splits if_splits)

lemma repo_SetLegalHold_effect:
  assumes "repo_SetLegalHold E k hold w = (r, w')"
  shows "r \<noteq> None \<and> cases_table w' = cases_table w \<or>
    r = None \<and> (\<exists>c t. find_case k (cases_table w) = Some c \<and>
      cases_table w' = update_case_where k (\<lambda>c. c\<lparr>c_LegalHold := hold, c_UpdatedAt := t\<rparr>) (cases_table w))"
  using assms
  by (auto simp: repo_SetLegalHold_def Let_def update_case_where_absent
      split: option.splits if_splits)

lemma ArchiveCase_effect:
  assumes "ArchiveCase E k by w = (r, w')"
  shows "cases_table w' = cases_table w \<and>
      (r = None \<longrightarrow> (\<exists>c. find_case k (cases_table w) = Some c \<and> c_Status c = StatusArchived \<and> \<not> c_LegalHold c)) \<or>
    r = None \<and> (\<exists>c t. find_case k (cases_table w) = Some c \<and> c_Status c = StatusClosed \<and> \<not> c_LegalHold c \<and>
      cases_table w' = update_case_where k (\<lambda>c. c\<lparr>c_Status := StatusArchived, c_UpdatedAt := t\<rparr>) (cases_table w))"
proof -
  obtain s1 w1 where f: "repo_FindByID k w = (s1, w1)" by fastforce
  have w1: "cases_table w1 = cases_table w" using repo_FindByID_state [OF f] by simp
  obtain s2 w2 where a: "repo_Archive E k w1 = (s2, w2)" by fastforce
  show ?thesis
    using assms f a w1 repo_Archive_effect [OF a] repo_FindByID_ok [of k w _ w1]
    by (cases s1) (auto simp: ArchiveCase_def transition_iff split: if_splits option.splits)
qed

lemma ArchiveCase_change:
  "ArchiveCase E k by w = (r, w') \<Longrightarrow> case_change E (cases_table w) (cases_table w')"
  by (drule ArchiveCase_effect) (auto intro: case_change.unchanged case_change.archived)

lemma SetLegalHold_change:
  assumes "SetLegalHold E k hold by w = (r, w')"
  shows "case_change E (cases_table w) (cases_table w')"
proof -
  obtain s1 w1 where f: "repo_FindByID k w = (s1, w1)" by fastforce
  have w1: "cases_table w1 = cases_table w" using repo_FindByID_state [OF f] by simp
  obtain s2 w2 where a: "repo_SetLegalHold E k hold w1 = (s2, w2)" by fastforce
  have "cases_table w' = cases_table w \<or> (\<exists>c t. find_case k (cases_table w) = Some c \<and>
      c_Status c \<noteq> StatusArchived \<and> c_LegalHold c \<noteq> hold \<and>
      cases_table w' = update_case_where k (\<lambda>c. c\<lparr>c_LegalHold := hold, c_UpdatedAt := t\<rparr>) (cases_table w))"
    using assms f a w1 repo_SetLegalHold_effect [OF a] repo_FindByID_ok [of k w _ w1]
    by (cases s1) (auto simp: SetLegalHold_def split: if_splits option.splits)
  then show ?thesis by (auto intro: case_change.unchanged case_change.held)
qed

section \<open>Runs\<close>

text \<open>One operation on cases, or anything else that leaves the table alone.\<close>

inductive cases_op :: "cases_env \<Rightarrow> 'a cases_db_scheme \<Rightarrow> 'a cases_db_scheme \<Rightarrow> bool" for E w w' where
  op_create: "CreateCase E input by name w = (r, w') \<Longrightarrow> cases_op E w w'"
| op_update: "UpdateCase E k u by w = (r', w') \<Longrightarrow> cases_op E w w'"
| op_archive: "ArchiveCase E k by w = (r'', w') \<Longrightarrow> cases_op E w w'"
| op_hold: "SetLegalHold E k hold by w = (r'', w') \<Longrightarrow> cases_op E w w'"
| op_other: "cases_table w' = cases_table w \<Longrightarrow> cases_op E w w'"

lemma cases_op_change: "cases_op E w w' \<Longrightarrow> case_change E (cases_table w) (cases_table w')"
  by (induction rule: cases_op.induct)
    (auto intro: CreateCase_change UpdateCase_change ArchiveCase_change SetLegalHold_change
      case_change.unchanged)

definition cases_inv :: "cases_env \<Rightarrow> Case list \<Rightarrow> bool" where
  "cases_inv E rows \<longleftrightarrow>
     distinct (map c_ID rows) \<and> distinct (map c_ReferenceCode rows) \<and> (\<forall>c \<in> set rows. case_wf E c)"

lemma map_update_case_where:
  "(\<And>c. f (g c) = f c) \<Longrightarrow> map f (update_case_where k g rows) = map f rows"
  by (simp add: update_case_where_def)

lemma update_case_where_all:
  assumes "\<forall>c \<in> set rows. P c" and "\<And>c. c \<in> set rows \<Longrightarrow> c_ID c = k \<Longrightarrow> P (g c)"
  shows "\<forall>c \<in> set (update_case_where k g rows). P c"
  using assms by (auto simp: update_case_where_def)

lemma cases_inv_update:
  assumes "cases_inv E rows" "\<And>c. c_ID (g c) = c_ID c" "\<And>c. c_ReferenceCode (g c) = c_ReferenceCode c"
    and "\<And>c. c \<in> set rows \<Longrightarrow> c_ID c = k \<Longrightarrow> case_wf E c \<Longrightarrow> case_wf E (g c)"
  shows "cases_inv E (update_case_where k g rows)"
proof -
  have "\<forall>c \<in> set (update_case_where k g rows). case_wf E c"
    using assms by (intro update_case_where_all) (simp_all add: cases_inv_def)
  with assms show ?thesis by (simp add: cases_inv_def map_update_case_where)
qed

lemma find_case_unique:
  "distinct (map c_ID rows) \<Longrightarrow> find_case k rows = Some c \<Longrightarrow> c' \<in> set rows \<Longrightarrow> c_ID c' = k \<Longrightarrow> c' = c"
  using find_case_Some by (metis (no_types) distinct_map inj_on_eq_iff)

lemma case_change_inv:
  assumes "case_change E rows rows'" "cases_inv E rows"
  shows "cases_inv E rows'"
  using assms
proof (cases rule: case_change.cases)
  case (edited k c u t)
  have c: "c' = c" if "c' \<in> set rows" "c_ID c' = k" for c'
    using that edited(2) assms(2) find_case_unique unfolding cases_inv_def by blast
  have "case_wf E (set_columns u t c')" if "c' \<in> set rows" "c_ID c' = k" for c'
    using c [OF that] that edited(4,5) assms(2)
    by (auto simp: cases_inv_def case_wf_def update_wf_def set_columns_def transition_iff split: option.splits)
  then show ?thesis
    unfolding edited(1) by (intro cases_inv_update [OF assms(2)]) simp_all
next
  case (archived k c t)
  then show ?thesis by (auto simp: case_wf_def intro!: cases_inv_update [OF assms(2)])
next
  case (held k c hold t)
  then show ?thesis by (auto simp: case_wf_def intro!: cases_inv_update [OF assms(2)])
qed (auto simp: cases_inv_def)

text \<open>How a row may evolve: its identity is fixed, its status only advances, and archived is final.\<close>

fun status_rank :: "string \<Rightarrow> nat" where
  "status_rank s = (if s = StatusActive then 0 else if s = StatusClosed then 1 else 2)"

definition case_evolves :: "Case \<Rightarrow> Case \<Rightarrow> bool" where
  "case_evolves c c' \<longleftrightarrow>
     c_ID c' = c_ID c \<and> c_ReferenceCode c' = c_ReferenceCode c \<and> c_CreatedBy c' = c_CreatedBy c \<and>
     c_CreatedByName c' = c_CreatedByName c \<and> c_CreatedAt c' = c_CreatedAt c \<and>
     status_rank (c_Status c) \<le> status_rank (c_Status c') \<and> (c_Status c = StatusArchived \<longrightarrow> c' = c)"

lemma case_evolves_refl [simp]: "case_evolves c c"
  by (simp add: case_evolves_def)

lemma case_evolves_trans: "case_evolves a b \<Longrightarrow> case_evolves b c \<Longrightarrow> case_evolves a c"
  unfolding case_evolves_def by (metis order_trans)

lemma find_case_append:
  "find_case k (rows @ [row]) =
     (case find_case k rows of Some c \<Rightarrow> Some c | None \<Rightarrow> if c_ID row = k then Some row else None)"
  by (induction rows) (auto simp: find_case_def)

lemma case_change_evolves:
  assumes "case_change E rows rows'" "find_case k rows = Some c"
  shows "\<exists>c'. find_case k rows' = Some c' \<and> case_evolves c c'"
  using assms(1)
proof (cases rule: case_change.cases)
  case unchanged
  with assms(2) show ?thesis by simp
next
  case (created row)
  with assms(2) show ?thesis by (simp add: find_case_append)
next
  case (edited k' c0 u t)
  have "case_evolves c0 (set_columns u t c0)"
    using edited(3,5) by (auto simp: case_evolves_def set_columns_def transition_iff split: option.splits)
  with edited assms(2) show ?thesis by (auto simp: find_case_update)
next
  case (archived k' c0 t)
  have "case_evolves c0 (c0\<lparr>c_Status := StatusArchived, c_UpdatedAt := t\<rparr>)"
    using archived(3) by (auto simp: case_evolves_def status_defs)
  with archived assms(2) show ?thesis by (auto simp: find_case_update)
next
  case (held k' c0 hold t)
  have "case_evolves c0 (c0\<lparr>c_LegalHold := hold, c_UpdatedAt := t\<rparr>)"
    using held(3) by (auto simp: case_evolves_def)
  with held assms(2) show ?thesis by (auto simp: find_case_update)
qed

lemma cases_run_evolves:
  assumes "(cases_op E)\<^sup>*\<^sup>* w w'" "find_case k (cases_table w) = Some c"
  shows "\<exists>c'. find_case k (cases_table w') = Some c' \<and> case_evolves c c'"
  using assms
proof (induction rule: rtranclp_induct)
  case (step u v)
  then obtain c1 where c1: "find_case k (cases_table u) = Some c1" "case_evolves c c1" by blast
  then show ?case
    using case_change_evolves [OF cases_op_change [OF step(2)] c1(1)] case_evolves_trans by blast
qed simp

lemma cases_run_inv:
  "(cases_op E)\<^sup>*\<^sup>* w w' \<Longrightarrow> cases_inv E (cases_table w) \<Longrightarrow> cases_inv E (cases_table w')"
  by (induction rule: rtranclp_induct) (auto intro: case_change_inv cases_op_change)

end
