(* ===== verification/Keyset.thy ===== *)
theory Keyset
  imports VK_Prelude "HOL-Library.Sublist"
begin

text \<open>
  Paging by key: a client asks for the rows whose key is below a cursor, greatest first, and takes
  the key of the last row of a page as its next cursor. The locale \<open>keyset_pages\<close> is the contract
  of a statement that serves such pages; \<open>key_cursor\<close> and \<open>text_cursor\<close> that of the text a cursor
  travels as, the first for the keys that have a text, the second where every key has one.
\<close>

section \<open>Cursors as text\<close>

locale key_cursor =
  fixes ok :: "'l \<Rightarrow> bool" and good :: "'k \<Rightarrow> bool" and enc :: "'l \<Rightarrow> 'k \<Rightarrow> string"
    and dec :: "'l \<Rightarrow> string \<Rightarrow> go_error + 'k"
  assumes dec_enc: "ok L \<Longrightarrow> good k \<Longrightarrow> dec L (enc L k) = Inr k"
    and enc_ne: "ok L \<Longrightarrow> good k \<Longrightarrow> enc L k \<noteq> []"
begin

lemma enc_inj: "ok L \<Longrightarrow> good j \<Longrightarrow> good k \<Longrightarrow> enc L j = enc L k \<Longrightarrow> j = k"
  using dec_enc by (metis sum.inject(2))

lemma cursor_of_key:
  "ok L \<Longrightarrow> good k \<Longrightarrow>
     (if enc L k = [] then Inr None else map_sum id Some (dec L (enc L k))) = Inr (Some k)"
  by (simp add: dec_enc enc_ne)

end

locale text_cursor =
  fixes ok :: "'l \<Rightarrow> bool" and enc :: "'l \<Rightarrow> 'k \<Rightarrow> string" and dec :: "'l \<Rightarrow> string \<Rightarrow> go_error + 'k"
  assumes dec_enc_any: "ok L \<Longrightarrow> dec L (enc L k) = Inr k"
    and enc_ne_any: "ok L \<Longrightarrow> enc L k \<noteq> []"

sublocale text_cursor \<subseteq> key_cursor ok "\<lambda>k. True" enc dec
  by unfold_locales (simp_all add: dec_enc_any enc_ne_any)

section \<open>Pages\<close>

fun keyset_walk ::
  "('k option \<Rightarrow> nat \<Rightarrow> 'r list) \<Rightarrow> ('r \<Rightarrow> 'k) \<Rightarrow> nat \<Rightarrow> nat \<Rightarrow> nat \<Rightarrow> 'k option \<Rightarrow> 'r list" where
  \<comment> \<open>a client that goes on while the server reports that there is more, which it does when a page
    is full and the total exceeds the limit\<close>
  "keyset_walk page key total_count lim 0 cur = []"
| "keyset_walk page key total_count lim (Suc n) cur =
     (let p = page cur lim in
      if length p = lim \<and> total_count > lim \<and> p \<noteq> [] then p @ keyset_walk page key total_count lim n (Some (key (last p)))
      else p)"

fun keyset_follow ::
  "('k option \<Rightarrow> nat \<Rightarrow> 'r list) \<Rightarrow> ('r \<Rightarrow> 'k) \<Rightarrow> nat \<Rightarrow> nat \<Rightarrow> 'k option \<Rightarrow> 'r list option" where
  \<comment> \<open>a client that goes on after every full page; \<open>None\<close> when it gives up before it is done\<close>
  "keyset_follow page key lim 0 cur = None"
| "keyset_follow page key lim (Suc n) cur =
     (let p = page cur lim in
      if length p = lim \<and> p \<noteq> [] then map_option ((@) p) (keyset_follow page key lim n (Some (key (last p))))
      else Some p)"

locale keyset_pages =
  fixes key :: "'r \<Rightarrow> 'k::linorder" and page :: "'k option \<Rightarrow> nat \<Rightarrow> 'r list" and everything :: "'r list"
  assumes descending: "sorted_wrt (\<lambda>a b. key b \<le> key a) everything"
    and page_law: "page cur n =
      take n (filter (\<lambda>r. case cur of None \<Rightarrow> True | Some k \<Rightarrow> key r < k) everything)"
begin

abbreviation after :: "'k option \<Rightarrow> 'r list" where
  "after cur \<equiv> filter (\<lambda>r. case cur of None \<Rightarrow> True | Some k \<Rightarrow> key r < k) everything"

lemma after_next:
  assumes "distinct (map key everything)" "page cur n \<noteq> []"
  shows "after (Some (key (last (page cur n)))) = drop n (after cur)"
proof -
  let ?A = "after cur" and ?p = "page cur n"
  have p: "?p = take n ?A" by (rule page_law)
  have last_in: "last ?p \<in> set ?A" using assms(2) p in_set_takeD last_in_set by metis
  have sub: "after (Some (key (last ?p))) = filter (\<lambda>r. key r < key (last ?p)) ?A"
    using last_in by (auto intro!: filter_cong split: option.splits)
  have "sorted_wrt (\<lambda>a b. key b < key a) everything"
    using descending assms(1) by (induction everything) (auto simp: less_le image_iff)
  then have "sorted_wrt (\<lambda>a b. key b < key a) ?A" by (rule sorted_wrt_filter)
  then have s: "sorted_wrt (\<lambda>a b. key b < key a) (take n ?A @ drop n ?A)" by simp
  obtain ps l where ps: "take n ?A = ps @ [l]"
    using assms(2) p by (metis rev_exhaust)
  have "filter (\<lambda>r. key r < key l) (take n ?A @ drop n ?A) = drop n ?A"
    using s unfolding ps by (auto simp: sorted_wrt_append filter_empty_conv filter_id_conv not_less less_imp_le)
  then have "filter (\<lambda>r. key r < key l) ?A = drop n ?A"
    unfolding append_take_drop_id .
  moreover have "last ?p = l" using p ps by simp
  ultimately show ?thesis using sub by (simp only:)
qed

lemma walk_rest:
  assumes "distinct (map key everything)" "0 < lim" "length (after cur) < n"
  shows "keyset_walk page key (length everything) lim n cur = after cur"
  using assms(3)
proof (induction n arbitrary: cur)
  case (Suc n)
  let ?p = "page cur lim"
  have p: "?p = take lim (after cur)" by (rule page_law)
  show ?case
  proof (cases "length ?p = lim \<and> length everything > lim \<and> ?p \<noteq> []")
    case True
    note nxt = after_next [OF assms(1), of cur lim] 
    have "length (drop lim (after cur)) < n"
      using Suc.prems True assms(2) p by auto
    with nxt True Suc.IH [of "Some (key (last ?p))"]
    have "keyset_walk page key (length everything) lim n (Some (key (last ?p))) = drop lim (after cur)"
      by simp
    with True p show ?thesis by (simp add: Let_def)
  next
    case False
    have "length (after cur) \<le> length everything" by (rule length_filter_le)
    with False p have "?p = after cur" using assms(2) by (auto intro: le_trans [OF length_filter_le])
    with False show ?thesis by (auto simp: Let_def)
  qed
qed simp

lemma walk_complete:
  assumes "distinct (map key everything)" "0 < lim" "length everything < n"
  shows "keyset_walk page key (length everything) lim n None = everything"
  using walk_rest [OF assms(1,2), of None n] assms(3) by simp

text \<open>A client that goes on after every full page gets everything and stops.\<close>

lemma follow_rest:
  assumes "distinct (map key everything)" "0 < lim" "length (after cur) < n"
  shows "keyset_follow page key lim n cur = Some (after cur)"
  using assms(3)
proof (induction n arbitrary: cur)
  case (Suc n)
  let ?p = "page cur lim"
  have p: "?p = take lim (after cur)" by (rule page_law)
  show ?case
  proof (cases "length ?p = lim \<and> ?p \<noteq> []")
    case True
    note nxt = after_next [OF assms(1), of cur lim]
    have "length (drop lim (after cur)) < n"
      using Suc.prems True assms(2) p by auto
    with nxt True Suc.IH [of "Some (key (last ?p))"]
    have "keyset_follow page key lim n (Some (key (last ?p))) = Some (drop lim (after cur))"
      by simp
    with True p show ?thesis by (simp add: Let_def)
  next
    case False
    with p have "?p = after cur" using assms(2) by auto
    with False show ?thesis by (auto simp: Let_def)
  qed
qed simp

lemma follow_complete:
  assumes "distinct (map key everything)" "0 < lim" "length everything < n"
  shows "keyset_follow page key lim n None = Some everything"
  using follow_rest [OF assms(1,2), of None n] assms(3) by simp

end

end
