(* ===== verification/Cases_List.thy ===== *)
theory Cases_List
  imports Cases_Life Keyset
begin

text \<open>
  Listing cases page by page: the cursor codec and the statement behind \<open>FindAll\<close> meet the contracts
  of \<open>Keyset\<close>, and a client that follows \<open>next_cursor\<close> while \<open>has_more\<close> is set gets every case.
\<close>

lemma decode_encode_cursor: "uuid_lib_ok L \<Longrightarrow> decodeCursor L (EncodeCursor L u) = Inr u"
  by (simp add: decodeCursor_def EncodeCursor_def uuid_lib_ok_def)

interpretation case_cursor: text_cursor uuid_lib_ok EncodeCursor decodeCursor
proof unfold_locales
  fix L :: go_lib and k :: uuid
  assume L: "uuid_lib_ok L"
  then show "decodeCursor L (EncodeCursor L k) = Inr k" by (rule decode_encode_cursor)
  from L show "EncodeCursor L k \<noteq> []"
    by (simp add: EncodeCursor_def b64_encode_ne uuid_lib_ok_def)
qed

definition all_matching :: "(Case \<Rightarrow> bool) \<Rightarrow> Case list \<Rightarrow> Case list" where
  "all_matching P rows = rev (sort_key c_ID (filter P rows))"

lemma sorted_wrt_rev_sort_key: "sorted_wrt (\<lambda>a b. k b \<le> k a) (rev (sort_key k xs))"
  using sorted_sort_key [of k xs] by (simp add: sorted_wrt_rev sorted_map)

lemma case_page_after:
  "case_page P cur (int n) rows =
     take n (filter (\<lambda>c. case cur of None \<Rightarrow> True | Some k \<Rightarrow> c_ID c < k) (all_matching P rows))"
  by (cases cur) (simp_all add: case_page_def all_matching_def rev_filter [symmetric] filter_sort conj_commute)

interpretation case_pages: keyset_pages c_ID "\<lambda>cur n. case_page P cur (int n) rows" "all_matching P rows"
  for P :: "Case \<Rightarrow> bool" and rows :: "Case list"
  by unfold_locales (simp_all add: case_page_after all_matching_def sorted_wrt_rev_sort_key)

lemma clamp_limit:
  "pg_Limit (ClampPagination p) =
     (if pg_Limit p \<le> 0 then 50 else if pg_Limit p > 200 then 200 else pg_Limit p)"
  "pg_Cursor (ClampPagination p) = pg_Cursor p"
  by (simp_all add: ClampPagination_def DefaultPageLimit_def MaxPageLimit_def Let_def)

lemma clamp_bounds: "1 \<le> pg_Limit (ClampPagination p) \<and> pg_Limit (ClampPagination p) \<le> 200"
  by (simp add: clamp_limit)

lemma take_page: "0 \<le> l \<Longrightarrow> xs = case_page P cur (l + 1) rows \<Longrightarrow>
    (if int (length xs) > l then take (nat l) xs else xs) = case_page P cur (int (nat l)) rows"
  by (auto simp: case_page_def min_def nat_add_distrib)

definition page_result ::
  "cases_env \<Rightarrow> CaseFilter \<Rightarrow> int \<Rightarrow> uuid option \<Rightarrow> 'a cases_db_scheme \<Rightarrow> Case PaginatedResult" where
  "page_result E f lim cur w =
     (let P = case_matches E f (case_roles w); cs = case_page P cur lim (cases_table w);
          n = int (length (filter P (cases_table w)));
          hasMore = (int (length cs) = lim \<and> n > lim)
      in \<lparr>pr_Items = cs, pr_TotalCount = n,
          pr_NextCursor = (if hasMore \<and> cs \<noteq> [] then EncodeCursor (ce_lib E) (c_ID (last cs)) else []),
          pr_HasMore = hasMore\<rparr>)"

lemma ListCases_page:
  assumes "no_faults w" "filter_arg_error E f = None"
    and "(if pg_Cursor p = [] then Inr None else map_sum id Some (decodeCursor (ce_lib E) (pg_Cursor p))) = Inr cur"
  shows "\<exists>w'. ListCases E f p w = (Inr (page_result E f (pg_Limit (ClampPagination p)) cur w), w') \<and>
    only_ticks w w'"
proof -
  let ?l = "pg_Limit (ClampPagination p)"
  let ?xs = "case_page (case_matches E f (case_roles w)) cur (?l + 1) (cases_table w)"
  obtain w' where q: "query_rows (wrapf ''query cases'') (wrapf ''scan case'') (wrapf ''iterate cases'') ?xs (tick w) =
      (Inr ?xs, w')"
    using query_rows_no_faults [of "tick w"] assms(1) by (metis no_faults_tick prod.collapse)
  have t: "only_ticks w w'" using query_rows_ticks [OF q] by (rule only_ticks_from_tick)
  have l: "0 \<le> ?l" using clamp_bounds [of p] by simp
  have "repo_FindAll E f p w =
      (Inr (case_page (case_matches E f (case_roles w)) cur ?l (cases_table w),
            int (length (filter (case_matches E f (case_roles w)) (cases_table w)))), w')"
    unfolding repo_FindAll_def Let_def clamp_limit(2) assms(3)
    using q assms(2) take_page [OF l refl] l by (simp add: fault_none [OF assms(1)])
  with t show ?thesis by (simp add: ListCases_def page_result_def Let_def)
qed

text \<open>A client that follows the cursors.\<close>

fun list_all_pages ::
  "nat \<Rightarrow> cases_env \<Rightarrow> CaseFilter \<Rightarrow> int \<Rightarrow> string \<Rightarrow> 'a cases_db_scheme
     \<Rightarrow> (go_error + Case list) \<times> 'a cases_db_scheme" where
  "list_all_pages 0 E f limit cursor w = (Inr [], w)"
| "list_all_pages (Suc n) E f limit cursor w =
     (case ListCases E f \<lparr>pg_Limit = limit, pg_Cursor = cursor\<rparr> w of
        (Inl err, w1) \<Rightarrow> (Inl err, w1)
      | (Inr res, w1) \<Rightarrow>
          if pr_HasMore res then
            (case list_all_pages n E f limit (pr_NextCursor res) w1 of
               (Inl err, w2) \<Rightarrow> (Inl err, w2)
             | (Inr cs, w2) \<Rightarrow> (Inr (pr_Items res @ cs), w2))
          else (Inr (pr_Items res), w1))"

lemma list_all_pages_walk:
  assumes "no_faults w" "filter_arg_error E f = None" "uuid_lib_ok (ce_lib E)"
    and "lim = nat (pg_Limit (ClampPagination \<lparr>pg_Limit = limit, pg_Cursor = []\<rparr>))"
    and "P = case_matches E f (case_roles w)" "rows = cases_table w"
    and "(if cursor = [] then Inr None else map_sum id Some (decodeCursor (ce_lib E) cursor)) = Inr cur"
  shows "\<exists>w'. list_all_pages n E f limit cursor w =
    (Inr (keyset_walk (\<lambda>cur n. case_page P cur (int n) rows) c_ID (length (filter P rows)) lim n cur), w')"
  using assms(1,5,6,7)
proof (induction n arbitrary: w cursor cur)
  case (Suc n)
  let ?p = "\<lparr>pg_Limit = limit, pg_Cursor = cursor\<rparr>"
  have lim: "pg_Limit (ClampPagination ?p) = int lim" "0 < lim"
    unfolding assms(4) by (simp_all add: clamp_limit)
  have pre: "(if pg_Cursor ?p = [] then Inr None else map_sum id Some (decodeCursor (ce_lib E) (pg_Cursor ?p))) = Inr cur"
    using Suc.prems(4) by (simp only: Pagination.select_convs)
  obtain w1 where l: "ListCases E f ?p w = (Inr (page_result E f (int lim) cur w), w1)" "only_ticks w w1"
    using ListCases_page [OF Suc.prems(1) assms(2) pre] unfolding lim(1) by blast
  let ?cs = "case_page P cur (int lim) rows"
  have r: "pr_Items (page_result E f (int lim) cur w) = ?cs"
      "pr_HasMore (page_result E f (int lim) cur w) \<longleftrightarrow> length ?cs = lim \<and> length (filter P rows) > lim"
      "?cs \<noteq> [] \<Longrightarrow> pr_HasMore (page_result E f (int lim) cur w) \<Longrightarrow>
        pr_NextCursor (page_result E f (int lim) cur w) = EncodeCursor (ce_lib E) (c_ID (last ?cs))"
    by (auto simp: page_result_def Let_def Suc.prems)
  have w1: "no_faults w1" "P = case_matches E f (case_roles w1)" "rows = cases_table w1"
    using l(2) Suc.prems cases_only_ticks [OF l(2)] by (simp_all add: only_ticks_no_faults)
  show ?case
  proof (cases "length ?cs = lim \<and> length (filter P rows) > lim")
    case True
    with lim have ne: "?cs \<noteq> []" by auto
    from Suc.IH [OF w1 case_cursor.cursor_of_key [OF assms(3) TrueI], of "c_ID (last ?cs)"]
    show ?thesis using l r True ne by (auto simp: Let_def)
  next
    case False
    with l r show ?thesis by (auto simp: Let_def)
  qed
qed simp

lemma length_all_matching [simp]: "length (all_matching P rows) = length (filter P rows)"
  by (simp add: all_matching_def)

lemma distinct_all_matching: "distinct (map c_ID rows) \<Longrightarrow> distinct (map c_ID (all_matching P rows))"
  by (auto simp: all_matching_def rev_map [symmetric] distinct_map inj_on_def)

end
