(* ===== verification/Cases_Props.thy ===== *)
theory Cases_Props
  imports Cases_List
begin

text \<open>
  The properties of cases and case roles: the life cycle, legal holds, listing, conflicts, who may
  see a case, and what revoking a role does.
\<close>

section \<open>A concrete deployment\<close>

definition sample_cases_env :: "(nat \<Rightarrow> nat) \<Rightarrow> cases_env" where
  "sample_cases_env pick =
     \<lparr>ce_lib = sample_lib, ce_ilike = (\<lambda>t p. t = p), ce_pick = pick, ce_ref_match = (\<lambda>s. 3 \<le> length s),
      ce_custody = True\<rparr>"

definition sample_case :: "uuid \<Rightarrow> string \<Rightarrow> string \<Rightarrow> bool \<Rightarrow> Case" where
  "sample_case k ref status hold =
     \<lparr>c_ID = k, c_ReferenceCode = ref, c_Title = ''T'', c_Description = [], c_Jurisdiction = [],
      c_Status = status, c_LegalHold = hold, c_CreatedBy = ''u1'', c_CreatedByName = ''U'',
      c_CreatedAt = 0, c_UpdatedAt = 0\<rparr>"

definition sample_case_role :: "uuid \<Rightarrow> string \<Rightarrow> string \<Rightarrow> CaseRoleRow" where
  "sample_case_role k user role =
     \<lparr>cr_ID = 1, cr_CaseID = k, cr_UserID = user, cr_Role = role, cr_GrantedBy = ''a1'', cr_GrantedAt = 0\<rparr>"

definition sample_cases_db :: "(nat \<Rightarrow> string option) \<Rightarrow> Case list \<Rightarrow> CaseRoleRow list \<Rightarrow> cases_db" where
  "sample_cases_db faults cs rs =
     \<lparr>w_tick = 0, w_fault = faults, w_now = (\<lambda>n. 1000 * int n), w_uuid = (\<lambda>n. of_nat n + 100),
      custody_log = [], cases_table = cs, case_roles = rs\<rparr>"

lemma sample_cases_sel [simp]:
  "cases_table (sample_cases_db fs cs rs) = cs" "case_roles (sample_cases_db fs cs rs) = rs"
  "w_fault (sample_cases_db fs cs rs) = fs" "w_tick (sample_cases_db fs cs rs) = 0"
  "custody_log (sample_cases_db fs cs rs) = []"
  by (simp_all add: sample_cases_db_def)

lemma sample_case_sel [simp]:
  "c_ID (sample_case k ref st h) = k" "c_ReferenceCode (sample_case k ref st h) = ref"
  "c_Status (sample_case k ref st h) = st" "c_LegalHold (sample_case k ref st h) = h"
  by (simp_all add: sample_case_def)

lemma sample_no_faults [simp]: "no_faults (sample_cases_db (\<lambda>n. None) cs rs)"
  by (simp add: no_faults_def)

lemma sample_env_sel [simp]:
  "ce_lib (sample_cases_env p) = sample_lib" "ce_pick (sample_cases_env p) = p"
  "ce_custody (sample_cases_env p)"
  by (simp_all add: sample_cases_env_def)

section \<open>Life cycle\<close>



text \<open>
  C21: Over every such run the table keeps its invariant: identifiers and reference codes are
  unique, every reference code matches the configured expression, every title is non-empty, the
  texts have none of the characters that can open a tag or an attribute in HTML, and every status
  is one of the three.
\<close>

theorem cases_table_invariant:
  assumes "(cases_op E)\<^sup>*\<^sup>* w w'" and "cases_inv E (cases_table w)"
  shows "distinct (map c_ID (cases_table w')) \<and> distinct (map c_ReferenceCode (cases_table w')) \<and>
    (\<forall>c \<in> set (cases_table w').
       c_Title c \<noteq> [] \<and> html_safe (c_Title c) \<and> html_safe (c_Description c) \<and>
       html_safe (c_Jurisdiction c) \<and> ce_ref_match E (c_ReferenceCode c) \<and>
       c_Status c \<in> {StatusActive, StatusClosed, StatusArchived})"
  using cases_run_inv [OF assms] unfolding cases_inv_def case_wf_def by blast

theorem cases_table_invariant_witness:
  "\<exists>w'. CreateCase (sample_cases_env id) \<lparr>ci_ReferenceCode = ''ICC-1'', ci_Title = ''<b>'',
        ci_Description = [], ci_Jurisdiction = []\<rparr> ''u1'' ''U'' (sample_cases_db (\<lambda>n. None) [] []) =
       (Inr (the (find_case 100 (cases_table w'))), w') \<and>
     (\<forall>c \<in> set (cases_table w'). html_safe (c_Title c)) \<and> length (cases_table w') = 1"
proof -
  let ?w = "sample_cases_db (\<lambda>n. None) [] []"
  let ?i = "\<lparr>ci_ReferenceCode = ''ICC-1'', ci_Title = ''<b>'', ci_Description = [], ci_Jurisdiction = []\<rparr>"
  have t: "trim_space ''ICC-1'' = ''ICC-1''" "trim_space ''<b>'' = ''<b>''" "trim_space [] = []"
    by code_simp+
  obtain row w' where c: "CreateCase (sample_cases_env id) ?i ''u1'' ''U'' ?w = (Inr row, w')"
      "cases_table w' = [row]" "c_ID row = 100"
    by (simp add: CreateCase_def validateCreateInput_def t sample_cases_env_def MaxTitleLength_def
        MaxDescriptionLength_def MaxJurisdictionLen_def repo_Create_def fault_def sample_lib_def Let_def
        new_uuid_def sample_cases_db_def)
  have "(cases_op (sample_cases_env id))\<^sup>*\<^sup>* ?w w'"
    using c(1) by (intro r_into_rtranclp) (rule cases_op.op_create)
  from cases_table_invariant [OF this] c show ?thesis
    by (auto simp: cases_inv_def find_case_def)
qed

text \<open>
  When \<open>ArchiveCase\<close> reports success the case was closed without a legal hold and is archived
  now, or it was archived already; when it reports an error the table is as it was.
\<close>

theorem archive_needs_closed_without_hold:
  assumes "ArchiveCase E k by w = (r, w')"
  shows "if r = None then
      (\<exists>c c'. find_case k (cases_table w) = Some c \<and> find_case k (cases_table w') = Some c' \<and>
         \<not> c_LegalHold c \<and> c_Status c \<in> {StatusClosed, StatusArchived} \<and> c_Status c' = StatusArchived \<and>
         (\<forall>j. j \<noteq> k \<longrightarrow> find_case j (cases_table w') = find_case j (cases_table w)))
    else cases_table w' = cases_table w"
  using ArchiveCase_effect [OF assms] by (auto simp: find_case_update)

theorem archive_needs_closed_without_hold_witness:
  "\<exists>w' c'. ArchiveCase (sample_cases_env id) 7 ''u1''
       (sample_cases_db (\<lambda>n. None) [sample_case 7 ''ICC-1'' StatusClosed False] []) = (None, w') \<and>
     find_case 7 (cases_table w') = Some c' \<and> c_Status c' = StatusArchived"
proof -
  let ?w = "sample_cases_db (\<lambda>n. None) [sample_case 7 ''ICC-1'' StatusClosed False] []"
  obtain r w' where a: "ArchiveCase (sample_cases_env id) 7 ''u1'' ?w = (r, w')" by fastforce
  then have "r = None"
    by (auto simp: ArchiveCase_def repo_FindByID_def repo_Archive_def fault_def find_case_def transition_iff Let_def)
  with archive_needs_closed_without_hold [OF a] a show ?thesis by auto
qed

text \<open>
  C38: \<open>UpdateCase\<close> does not look at the legal hold: a closed case under hold, which \<open>ArchiveCase\<close>
  refuses to archive, is archived by an update of its status, and the hold stays set on a case
  that from then on cannot be changed.
\<close>

theorem update_archives_held_case:
  assumes "no_faults w" "find_case k (cases_table w) = Some c"
    and "c_Status c = StatusClosed" "c_LegalHold c"
    and "u = \<lparr>ui_Title = None, ui_Description = None, ui_Jurisdiction = None, ui_Status = Some StatusArchived\<rparr>"
  shows "(\<exists>err w'. ArchiveCase E k by w = (Some err, w') \<and> cases_table w' = cases_table w) \<and>
    (\<exists>c' w'. UpdateCase E k u by w = (Inr c', w') \<and> find_case k (cases_table w') = Some c' \<and>
       c_Status c' = StatusArchived \<and> c_LegalHold c')"
proof -
  have "\<exists>err w'. ArchiveCase E k by w = (Some err, w') \<and> cases_table w' = cases_table w"
    using assms(1,2,4) by (simp add: ArchiveCase_def repo_FindByID_def fault_none)
  moreover have v: "validate_update_texts u = None" "ui_Status u = Some StatusArchived"
    by (simp_all add: validate_update_texts_def assms(5))
  moreover have s: "sanitize_update u = u" by (simp add: sanitize_update_def assms(5))
  define g where "g = set_columns u (lib_col_time (ce_lib E) (now (tick (tick w))))"
  have st: "c_Status (g c) = StatusArchived" by (simp add: g_def set_columns_def assms(5))
  have "repo_Update E k u (tick (tick w)) =
      (Inr (g c), (tick (tick (tick w)))\<lparr>cases_table := update_case_where k g (cases_table w)\<rparr>)"
    using assms(1,2) st v(2)
    by (simp add: repo_Update_def fault_none g_def [symmetric] Let_def)
  then have "\<exists>w'. UpdateCase E k u by w = (Inr (g c), w') \<and> cases_table w' = update_case_where k g (cases_table w)"
    using assms(1-3) v s
    by (simp add: UpdateCase_def repo_FindByID_def fault_none validateUpdateInput_def transition_iff Let_def)
  moreover have "c_ID (g c') = c_ID c'" "c_LegalHold (g c) = c_LegalHold c" for c'
    by (simp_all add: g_def)
  ultimately show ?thesis
    using st assms(2,4) by (auto simp: find_case_update)
qed

theorem update_archives_held_case_witness:
  "\<exists>c' w'. UpdateCase (sample_cases_env id) 7 \<lparr>ui_Title = None, ui_Description = None,
        ui_Jurisdiction = None, ui_Status = Some StatusArchived\<rparr> ''u1''
       (sample_cases_db (\<lambda>n. None) [sample_case 7 ''ICC-1'' StatusClosed True] []) = (Inr c', w') \<and>
     c_Status c' = StatusArchived \<and> c_LegalHold c'"
  using update_archives_held_case [of "sample_cases_db (\<lambda>n. None) [sample_case 7 ''ICC-1'' StatusClosed True] []" 7
      "sample_case 7 ''ICC-1'' StatusClosed True" _ "sample_cases_env id" "''u1''"]
  by (auto simp: find_case_def)

text \<open>
  An archival is reported as done even when its custody event could not be written: the recorder's
  error is dropped, so the custody log has no trace of it.
\<close>

theorem archive_without_custody_trace:
  assumes "w_fault w (w_tick w) = None" "w_fault w (w_tick w + 1) = None" "w_fault w (w_tick w + 3) = Some msg"
    and "find_case k (cases_table w) = Some c" "c_Status c = StatusClosed" "\<not> c_LegalHold c" "ce_custody E"
  shows "\<exists>w' c'. ArchiveCase E k by w = (None, w') \<and> find_case k (cases_table w') = Some c' \<and>
    c_Status c' = StatusArchived \<and> custody_log w' = custody_log w"
proof -
  let ?t = "lib_col_time (ce_lib E) (now (tick w))"
  let ?g = "\<lambda>c. c\<lparr>c_Status := ''archived'', c_UpdatedAt := ?t\<rparr>"
  let ?w2 = "(tick (tick w))\<lparr>cases_table := update_case_where k ?g (cases_table w)\<rparr>"
  have "ArchiveCase E k by w = (None, record_case_event E k ''case_archived'' by [] ?w2)"
    using assms by (simp add: ArchiveCase_def repo_FindByID_def fault_def transition_iff repo_Archive_def Let_def)
  moreover have "custody_log (record_case_event E k ''case_archived'' by [] ?w2) = custody_log w"
    using assms(3,7)
    by (simp add: record_case_event_def RecordCaseEvent_def custody_Insert_def pg_call_def fault_def tick_def
        eval_nat_numeral)
  ultimately show ?thesis
    using assms(4) by (simp add: find_case_update StatusArchived_def)
qed

theorem archive_without_custody_trace_witness:
  "\<exists>w' c'. ArchiveCase (sample_cases_env id) 7 ''u1''
      (sample_cases_db (\<lambda>n. if n = 3 then Some ''connection reset'' else None)
         [sample_case 7 ''ICC-1'' StatusClosed False] []) = (None, w') \<and>
     find_case 7 (cases_table w') = Some c' \<and> c_Status c' = StatusArchived \<and> custody_log w' = []"
  using archive_without_custody_trace [of "sample_cases_db (\<lambda>n. if n = 3 then Some ''connection reset'' else None)
      [sample_case 7 ''ICC-1'' StatusClosed False] []" "''connection reset''" 7
      "sample_case 7 ''ICC-1'' StatusClosed False" "sample_cases_env id" "''u1''"]
  by (simp add: find_case_def)

end
