(* ===== verification/Cases_Access.thy ===== *)
theory Cases_Access
  imports Cases_Props
begin

text \<open>
  Who sees which case: listing with its pages and its filter by case role, reading one case,
  revoking a role, and the role that is loaded for a user who has several.
\<close>

section \<open>Listing\<close>

text \<open>
  C36: a client that starts without a cursor and follows \<open>next_cursor\<close> while \<open>has_more\<close> is set
  receives every matching case exactly once, in descending order of the identifier, whatever limit
  it asks for, after at most one request more than there are matching cases.
\<close>

theorem list_pages_complete:
  assumes "no_faults w" "filter_arg_error E f = None" "uuid_lib_ok (ce_lib E)"
    and "distinct (map c_ID (cases_table w))"
    and "length (filter (case_matches E f (case_roles w)) (cases_table w)) < n"
  shows "\<exists>w'. list_all_pages n E f limit [] w =
    (Inr (rev (sort_key c_ID (filter (case_matches E f (case_roles w)) (cases_table w)))), w')"
proof -
  let ?P = "case_matches E f (case_roles w)" and ?rows = "cases_table w"
  let ?lim = "nat (pg_Limit (ClampPagination \<lparr>pg_Limit = limit, pg_Cursor = []\<rparr>))"
  have "0 < ?lim" using clamp_bounds [of "\<lparr>pg_Limit = limit, pg_Cursor = []\<rparr>"] by simp
  then have "keyset_walk (\<lambda>cur n. case_page ?P cur (int n) ?rows) c_ID (length (filter ?P ?rows)) ?lim n None =
      all_matching ?P ?rows"
    using case_pages.walk_complete [OF distinct_all_matching [OF assms(4)], of ?lim ?P n] assms(5) by simp
  with list_all_pages_walk [OF assms(1-3) refl refl refl, where cursor = "[]" and cur = None and limit = limit and n = n] show ?thesis
    by (simp add: all_matching_def)
qed

definition sample_case_filter :: CaseFilter where
  "sample_case_filter =
     \<lparr>cf_UserID = [], cf_SystemAdmin = True, cf_Status = [], cf_Jurisdiction = [], cf_SearchQuery = []\<rparr>"

theorem list_pages_complete_witness:
  "\<exists>w'. list_all_pages 4 (sample_cases_env id) sample_case_filter 1 []
       (sample_cases_db (\<lambda>n. None)
          [sample_case 7 ''ICC-1'' StatusActive False, sample_case 9 ''ICC-2'' StatusClosed True,
           sample_case 8 ''ICC-3'' StatusActive False] []) =
     (Inr [sample_case 9 ''ICC-2'' StatusClosed True, sample_case 8 ''ICC-3'' StatusActive False,
           sample_case 7 ''ICC-1'' StatusActive False], w')"
proof -
  let ?cs = "[sample_case 7 ''ICC-1'' StatusActive False, sample_case 9 ''ICC-2'' StatusClosed True,
      sample_case 8 ''ICC-3'' StatusActive False]"
  have m: "case_matches (sample_cases_env id) sample_case_filter [] = (\<lambda>c. True)"
    by (rule ext) (simp add: case_matches_def sample_case_filter_def)
  have a: "filter_arg_error (sample_cases_env id) sample_case_filter = None"
    by (simp add: filter_arg_error_def sample_case_filter_def)
  show ?thesis
    using list_pages_complete [of "sample_cases_db (\<lambda>n. None) ?cs []" "sample_cases_env id" sample_case_filter 4 1]
    by (simp add: m a uuid_lib_ok_sample)
qed

text \<open>
  Whatever a caller who is not a system administrator asks the list for, every case it is sent
  is one in which they have a role.
\<close>

theorem list_shows_only_own_cases:
  assumes "serve_case E D ListCase r c w = ((RespondPaginated s (BodyCases cs) n cur hm, log), w')"
    and "GetAuthContext c = Some ac" "SystemRole ac \<noteq> RoleSystemAdmin" "UserID ac \<noteq> []"
    and "x \<in> set cs"
  shows "\<exists>role \<in> set (case_roles w). cr_CaseID role = c_ID x \<and>
    lib_col_uuid (ce_lib E) (UserID ac) = Some (cr_UserID role)"
proof -
  let ?f = "list_filter ac r" and ?p = "parsePagination r"
  have h: "Handler_List E c r w = (RespondPaginated s (BodyCases cs) n cur hm, w')"
    using assms(1) by (auto simp: serve_case_def gated_def split: prod.splits)
  then obtain res w1 where l: "ListCases E ?f ?p w = (Inr res, w1)" and cs: "cs = pr_Items res"
    using assms(2) by (auto simp: Handler_List_def respondServiceError_def split: prod.splits sum.splits if_splits)
  obtain total_count w2 where fa: "repo_FindAll E ?f ?p w = (Inr (cs, total_count), w2)"
    using l cs by (auto simp: ListCases_def Let_def split: prod.splits sum.splits)
  have sub: "set cs \<subseteq> {c \<in> set (cases_table w). case_matches E ?f (case_roles w) c}"
    using fa by (auto simp: repo_FindAll_def Let_def case_page_def
        split: prod.splits sum.splits option.splits if_splits dest!: query_rows_ok in_set_takeD)
  moreover have "\<not> cf_SystemAdmin ?f" "cf_UserID ?f = UserID ac"
    using assms(3) by (simp_all add: list_filter_def)
  ultimately show ?thesis
    using assms(4,5) by (auto simp: case_matches_def)
qed

definition sample_case_decoders :: case_decoders where
  "sample_case_decoders =
      \<lparr>cd_create = \<lparr>dec_decode = (\<lambda>s. Inr (\<lparr>ci_ReferenceCode = ''ICC-1'', ci_Title = ''T'', ci_Description = [],
           ci_Jurisdiction = []\<rparr>, [])), dec_more = (\<lambda>s. False), dec_extra = (\<lambda>s. False)\<rparr>,
       cd_update = \<lparr>dec_decode = (\<lambda>s. Inl ErrUnexpectedEOF), dec_more = (\<lambda>s. False), dec_extra = (\<lambda>s. False)\<rparr>,
       cd_hold = \<lparr>dec_decode = (\<lambda>s. Inr (True, [])), dec_more = (\<lambda>s. False), dec_extra = (\<lambda>s. False)\<rparr>,
       cd_role = \<lparr>dec_decode = (\<lambda>s. Inl ErrUnexpectedEOF), dec_more = (\<lambda>s. False), dec_extra = (\<lambda>s. False)\<rparr>\<rparr>"

definition sample_ctx :: "string \<Rightarrow> SystemRole \<Rightarrow> ctx" where
  "sample_ctx user role =
     \<lparr>authContextKey = Some \<lparr>UserID = user, Email = [], Username = ''U'', SystemRole = role,
        TokenExpiry = 100, SessionID = [], IPAddress = ''10.0.0.1''\<rparr>, caseRoleKey = None\<rparr>"

definition sample_case_request :: "string \<Rightarrow> string \<Rightarrow> request" where
  "sample_case_request k user =
     \<lparr>req_method = ''GET'', req_path = ''/api/cases'', req_header = (\<lambda>h. []), req_query = (\<lambda>q. []),
      req_param = (\<lambda>p. if p = ''id'' then k else if p = ''userId'' then user else []),
      req_remote_addr = [], req_body = []\<rparr>"

lemma sample_ctx_sel [simp]:
  "GetAuthContext (sample_ctx user role) = Some \<lparr>UserID = user, Email = [], Username = ''U'',
     SystemRole = role, TokenExpiry = 100, SessionID = [], IPAddress = ''10.0.0.1''\<rparr>"
  by (simp add: sample_ctx_def GetAuthContext_def)

lemma sample_request_sel [simp]:
  "req_param (sample_case_request k user) ''id'' = k"
  "req_param (sample_case_request k user) ''userId'' = user"
  "req_query (sample_case_request k user) q = []" "req_body (sample_case_request k user) = []"
  by (simp_all add: sample_case_request_def)

theorem list_shows_only_own_cases_witness:
  "\<exists>s n cur hm log w' role.
     serve_case (sample_cases_env id) sample_case_decoders ListCase (sample_case_request [] []) (sample_ctx ''u1'' RoleUser)
       (sample_cases_db (\<lambda>n. None) [sample_case 7 ''ICC-1'' StatusActive False, sample_case 8 ''ICC-2'' StatusActive False]
          [sample_case_role 8 ''u1'' ''judge'']) =
       ((RespondPaginated s (BodyCases [sample_case 8 ''ICC-2'' StatusActive False]) n cur hm, log), w') \<and>
     cr_CaseID (role :: CaseRoleRow) = 8 \<and> cr_UserID role = ''u1''"
proof -
  let ?w = "sample_cases_db (\<lambda>n. None) [sample_case 7 ''ICC-1'' StatusActive False, sample_case 8 ''ICC-2'' StatusActive False]
      [sample_case_role 8 ''u1'' ''judge'']"
  let ?ac = "\<lparr>UserID = ''u1'', Email = [], Username = ''U'', SystemRole = RoleUser, TokenExpiry = 100,
      SessionID = [], IPAddress = ''10.0.0.1''\<rparr>"
  let ?r = "sample_case_request [] []" and ?c = "sample_ctx ''u1'' RoleUser"
  have m: "case_matches (sample_cases_env id) (list_filter ?ac ?r) [sample_case_role 8 ''u1'' ''judge''] = (\<lambda>c. c_ID c = 8)"
    by (rule ext) (auto simp: case_matches_def list_filter_def sample_lib_def sample_case_role_def)
  obtain w' where l: "ListCases (sample_cases_env id) (list_filter ?ac ?r) (parsePagination ?r) ?w =
      (Inr (page_result (sample_cases_env id) (list_filter ?ac ?r) (pg_Limit (ClampPagination (parsePagination ?r))) None ?w), w')"
    using ListCases_page [of ?w "sample_cases_env id" "list_filter ?ac ?r" "parsePagination ?r" None]
    by (auto simp: filter_arg_error_def list_filter_def sample_lib_def parsePagination_def)
  have items: "pr_Items (page_result (sample_cases_env id) (list_filter ?ac ?r) (pg_Limit (ClampPagination (parsePagination ?r))) None ?w) =
      [sample_case 8 ''ICC-2'' StatusActive False]"
    by (simp add: page_result_def m case_page_def clamp_limit parsePagination_def Let_def)
  have "\<exists>n cur hm. serve_case (sample_cases_env id) sample_case_decoders ListCase ?r ?c ?w =
      ((RespondPaginated 200 (BodyCases [sample_case 8 ''ICC-2'' StatusActive False]) n cur hm, []), w')"
    using l items by (simp add: serve_case_def gated_def Handler_List_def)
  then obtain n cur hm where sv: "serve_case (sample_cases_env id) sample_case_decoders ListCase ?r ?c ?w =
      ((RespondPaginated 200 (BodyCases [sample_case 8 ''ICC-2'' StatusActive False]) n cur hm, []), w')" by blast
  from list_shows_only_own_cases [OF sv, of ?ac "sample_case 8 ''ICC-2'' StatusActive False"]
  have "\<exists>role :: CaseRoleRow. cr_CaseID role = 8 \<and> cr_UserID role = ''u1''"
    by (auto simp: sample_lib_def)
  with sv show ?thesis by blast
qed

section \<open>Reading one case\<close>

text \<open>
  Reading one case by its identifier asks for nothing but an authentication: the answer to a
  caller of any system role is the case, whatever roles the case has been given, so a caller whom
  the list shows nothing can read every case whose identifier they know.
\<close>

theorem get_case_ignores_roles:
  assumes "no_faults w" "lib_uuid_parse (ce_lib E) (req_param r ''id'') = Inr k"
    and "find_case k (cases_table w) = Some x"
  shows "fst (serve_case E D GetOneCase r c (w\<lparr>case_roles := roles\<rparr>)) = (RespondJSON 200 (BodyCase x), [])"
  using assms by (simp add: serve_case_def gated_def Handler_Get_def parseUUID_def GetCase_def
      repo_FindByID_def fault_def no_faults_def)

theorem get_case_ignores_roles_witness:
  "fst (serve_case (sample_cases_env id) sample_case_decoders GetOneCase (sample_case_request (nat_digits 7) [])
      (sample_ctx ''u2'' RoleAPIService)
      ((sample_cases_db (\<lambda>n. None) [sample_case 7 ''ICC-1'' StatusActive False] [])\<lparr>case_roles := []\<rparr>)) =
     (RespondJSON 200 (BodyCase (sample_case 7 ''ICC-1'' StatusActive False)), [])"
proof (rule get_case_ignores_roles [where k = 7])
  show "lib_uuid_parse (ce_lib (sample_cases_env id)) (req_param (sample_case_request (nat_digits 7) []) ''id'') = Inr 7"
    using uuid_lib_ok_sample [unfolded uuid_lib_ok_def, THEN spec, of 7] by (simp add: sample_lib_def)
qed (simp_all add: find_case_def)

section \<open>Case roles\<close>

lemma role_Revoke_ok:
  assumes "role_Revoke E k u w = (None, w')"
  shows "\<exists>user. lib_col_uuid (ce_lib E) u = Some user \<and>
    case_roles w' = filter (\<lambda>r. \<not> (cr_CaseID r = k \<and> cr_UserID r = user)) (case_roles w)"
  using assms by (auto simp: role_Revoke_def Let_def split: option.splits if_splits)

lemma role_ListByCaseID_state: "role_ListByCaseID k w = (r, w') \<Longrightarrow> only_ticks w w'"
  unfolding role_ListByCaseID_def by (rule query_rows_ticks)

lemma Revoke_ok:
  assumes "RoleHandler_Revoke E c r w = (RespondJSON 200 b, w')"
  shows "\<exists>k user. lib_uuid_parse (ce_lib E) (req_param r ''id'') = Inr k \<and>
    lib_col_uuid (ce_lib E) (req_param r ''userId'') = Some user \<and>
    case_roles w' = filter (\<lambda>r. \<not> (cr_CaseID r = k \<and> cr_UserID r = user)) (case_roles w)"
  using assms
  by (auto simp: RoleHandler_Revoke_def Let_def split: option.splits sum.splits prod.splits if_splits
      dest!: role_ListByCaseID_state role_Revoke_ok simp: cases_only_ticks)

text \<open>
  C38: after a revocation was answered with success, the revoked user, under any spelling of their
  identifier, has no role in the case left: loading their role gives \<open>ErrNoCaseRole\<close>, so a gate for
  case roles turns them away with 403 for every list of roles, unless they are a system
  administrator.
\<close>

theorem revoke_removes_access:
  assumes "RoleHandler_Revoke E c r w = (RespondJSON 200 b, w')" "no_faults w'"
    and "GetAuthContext c2 = Some ac" "SystemRole ac \<noteq> RoleSystemAdmin"
    and "lib_col_uuid (ce_lib E) (UserID ac) = lib_col_uuid (ce_lib E) (req_param r ''userId'')"
    and "req_param r2 ''id'' = req_param r ''id''" "req_param r2 ''id'' \<noteq> []"
  shows "fst (RequireCaseRole (\<lambda>k u. fst (LoadCaseRole E k u w')) True allowed c2 r2) =
    Answered 403 ''insufficient permissions''"
proof -
  obtain k user where k: "lib_uuid_parse (ce_lib E) (req_param r ''id'') = Inr k"
      "lib_col_uuid (ce_lib E) (req_param r ''userId'') = Some user"
      "case_roles w' = filter (\<lambda>r. \<not> (cr_CaseID r = k \<and> cr_UserID r = user)) (case_roles w)"
    using Revoke_ok [OF assms(1)] by blast
  then have "filter (\<lambda>r. cr_CaseID r = k \<and> cr_UserID r = user) (case_roles w') = []"
    by (auto simp: filter_empty_conv)
  then have "fst (LoadCaseRole E (req_param r2 ''id'') (UserID ac) w') = Inl ErrNoCaseRole"
    using k assms(2,5,6) by (simp add: LoadCaseRole_def fault_none Let_def)
  with assms(3,4,7) show ?thesis by (simp add: RequireCaseRole_def Let_def)
qed

lemma sample_parse [simp]: "lib_uuid_parse sample_lib (nat_digits 7) = Inr 7"
  using uuid_lib_ok_sample [unfolded uuid_lib_ok_def, THEN spec, of 7] by (simp add: sample_lib_def)

lemma sample_col_uuid [simp]: "lib_col_uuid sample_lib ''u1'' = Some ''u1''"
  by (simp add: sample_lib_def)

lemma record_case_event_no_faults [simp]:
  "no_faults (record_case_event E k a u d (w :: 'a cases_db_scheme)) = no_faults w"
proof (cases "RecordCaseEvent (ce_lib E) k a u d w")
  case (Pair r w')
  have "w_fault w' = w_fault w"
  proof (cases r)
    case None
    with Pair custody_Insert_ok [of "ce_lib E" _ "tick w" w'] show ?thesis
      by (fastforce simp: RecordCaseEvent_def)
  next
    case (Some err)
    with Pair have "only_ticks (tick w) w'"
      unfolding RecordCaseEvent_def by (metis custody_Insert_fail)
    then show ?thesis using only_ticks_sel(1) by fastforce
  qed
  with Pair show ?thesis by (simp add: record_case_event_def no_faults_def)
qed

theorem revoke_removes_access_witness:
  "\<exists>w' b. RoleHandler_Revoke (sample_cases_env id) (sample_ctx ''a1'' RoleCaseAdmin)
       (sample_case_request (nat_digits 7) ''u1'')
       (sample_cases_db (\<lambda>n. None) [sample_case 7 ''ICC-1'' StatusActive False] [sample_case_role 7 ''u1'' ''judge'']) =
       (RespondJSON 200 b, w') \<and>
     fst (RequireCaseRole (\<lambda>k u. fst (LoadCaseRole (sample_cases_env id) k u w')) True [''judge'']
       (sample_ctx ''u1'' RoleUser) (sample_case_request (nat_digits 7) [])) = Answered 403 ''insufficient permissions''"
proof -
  let ?w = "sample_cases_db (\<lambda>n. None) [sample_case 7 ''ICC-1'' StatusActive False] [sample_case_role 7 ''u1'' ''judge'']"
  let ?r = "sample_case_request (nat_digits 7) ''u1''"
  let ?rs = "sort_key cr_GrantedAt (filter (\<lambda>r. cr_CaseID r = 7) (case_roles ?w))"
  obtain w1 where l: "role_ListByCaseID 7 ?w = (Inr ?rs, w1)"
    using query_rows_no_faults [of ?w] unfolding role_ListByCaseID_def by (metis sample_no_faults prod.collapse)
  note t = role_ListByCaseID_state [OF l]
  have w1: "no_faults w1" "case_roles w1 = [sample_case_role 7 ''u1'' ''judge'']"
    using only_ticks_no_faults [OF t] cases_only_ticks [OF t] by simp_all
  then obtain w2 where rv: "role_Revoke (sample_cases_env id) 7 ''u1'' w1 = (None, w2)" "no_faults w2"
    by (simp add: role_Revoke_def fault_none Let_def sample_case_role_def no_faults_def)
  have "\<exists>b w'. RoleHandler_Revoke (sample_cases_env id) (sample_ctx ''a1'' RoleCaseAdmin) ?r ?w = (RespondJSON 200 b, w') \<and>
      no_faults w'"
    using l rv by (simp add: RoleHandler_Revoke_def Let_def)
  then obtain b w' where sv: "RoleHandler_Revoke (sample_cases_env id) (sample_ctx ''a1'' RoleCaseAdmin) ?r ?w = (RespondJSON 200 b, w')"
      "no_faults w'" by blast
  from revoke_removes_access [OF sv, of "sample_ctx ''u1'' RoleUser" _ "sample_case_request (nat_digits 7) []" "[''judge'']"]
  have "fst (RequireCaseRole (\<lambda>k u. fst (LoadCaseRole (sample_cases_env id) k u w')) True [''judge'']
       (sample_ctx ''u1'' RoleUser) (sample_case_request (nat_digits 7) [])) = Answered 403 ''insufficient permissions''"
    by simp
  with sv show ?thesis by blast
qed

text \<open>
  A user may hold several roles in a case, and the role that counts is whichever of them the
  database returns first: with one choice of the row a gate passes the user and with another it
  turns them away, for the same tables, the same request and the same list of roles.
\<close>

theorem case_role_ambiguous:
  assumes "no_faults w" "lib_uuid_parse (ce_lib E) (req_param r ''id'') = Inr k" "req_param r ''id'' \<noteq> []"
    and "GetAuthContext c = Some ac" "SystemRole ac \<noteq> RoleSystemAdmin"
    and "lib_col_uuid (ce_lib E) (UserID ac) = Some user"
    and "filter (\<lambda>r. cr_CaseID r = k \<and> cr_UserID r = user) (case_roles w) = [a, b]"
    and "cr_Role a \<in> set allowed" "cr_Role b \<notin> set allowed"
  shows "fst (RequireCaseRole (\<lambda>k u. fst (LoadCaseRole (E\<lparr>ce_pick := \<lambda>n. 0\<rparr>) k u w)) True allowed c r) =
      Passed (WithCaseRole c (cr_Role a)) \<and>
    fst (RequireCaseRole (\<lambda>k u. fst (LoadCaseRole (E\<lparr>ce_pick := \<lambda>n. 1\<rparr>) k u w)) True allowed c r) =
      Answered 403 ''insufficient permissions''"
proof -
  have l: "fst (LoadCaseRole (E\<lparr>ce_pick := \<lambda>n. i\<rparr>) (req_param r ''id'') (UserID ac) w) = Inr (cr_Role ([a, b] ! (i mod 2)))" for i
    unfolding LoadCaseRole_def using assms(1,2,6,7) by (simp add: fault_none Let_def numeral_2_eq_2)
  show ?thesis
    using l [of 0] l [of 1] assms(3-5,8,9) by (simp add: RequireCaseRole_def Let_def)
qed

theorem case_role_ambiguous_witness:
  "fst (RequireCaseRole (\<lambda>k u. fst (LoadCaseRole ((sample_cases_env id)\<lparr>ce_pick := \<lambda>n. 1\<rparr>) k u
      (sample_cases_db (\<lambda>n. None) [] [sample_case_role 7 ''u1'' ''judge'', sample_case_role 7 ''u1'' ''observer''])))
      True [''judge''] (sample_ctx ''u1'' RoleUser) (sample_case_request (nat_digits 7) [])) =
     Answered 403 ''insufficient permissions''"
  using case_role_ambiguous [of "sample_cases_db (\<lambda>n. None) [] [sample_case_role 7 ''u1'' ''judge'',
      sample_case_role 7 ''u1'' ''observer'']" "sample_cases_env id" "sample_case_request (nat_digits 7) []" 7
      "sample_ctx ''u1'' RoleUser" _ "''u1''" _ _ "[''judge'']"]
  by (simp add: sample_case_role_def)

end
