(* ===== verification/Go_Conv.thy ===== *)
theory Go_Conv
  imports Go_Http
begin

text \<open>
  The conversions of \<open>strconv\<close> that the handlers of notifications and of search and the
  configuration use.
\<close>

section \<open>strconv\<close>

definition Atoi :: "string \<Rightarrow> int option" where
  \<comment> \<open>\<open>strconv.Atoi\<close>, and \<open>strconv.ParseInt\<close> with base 10 and 64 bits: an optional sign, digits, and the range of an \<open>int\<close>\<close>
  "Atoi s =
     (let neg = (take 1 s = ''-''); ds = (if take 1 s = ''-'' \<or> take 1 s = ''+'' then drop 1 s else s) in
      if ds = [] \<or> (\<exists>c \<in> set ds. (of_char c :: nat) < 48 \<or> 57 < (of_char c :: nat)) then None
      else
        let v = (if neg then - int (digits_value ds) else int (digits_value ds)) in
        if - (2 ^ 63) \<le> v \<and> v < 2 ^ 63 then Some v else None)"

definition ParseBool :: "string \<Rightarrow> bool option" where
  "ParseBool s =
     (if s \<in> {''1'', ''t'', ''T'', ''true'', ''TRUE'', ''True''} then Some True
      else if s \<in> {''0'', ''f'', ''F'', ''false'', ''FALSE'', ''False''} then Some False
      else None)"

lemma nat_digits_no_sign: "take 1 (nat_digits n) \<noteq> ''+'' \<and> take 1 (nat_digits n) \<noteq> ''-''"
proof -
  obtain c cs where c: "nat_digits n = c # cs" using nat_digits_ne by (cases "nat_digits n") auto
  then have "48 \<le> (of_char c :: nat)" using nat_digits_chars [of c n] by simp
  then have "c \<noteq> CHR ''+''" "c \<noteq> CHR ''-''" by auto
  with c show ?thesis by simp
qed

lemma nat_digits_decimal: "\<not> (\<exists>c \<in> set (nat_digits n). (of_char c :: nat) < 48 \<or> 57 < (of_char c :: nat))"
  by (fastforce dest: nat_digits_chars)

lemma Atoi_itoa: "- (2 ^ 63) \<le> i \<Longrightarrow> i < 2 ^ 63 \<Longrightarrow> Atoi (itoa i) = Some i"
  using nat_digits_no_sign [of "nat i"] nat_digits_decimal [of "nat i"] nat_digits_decimal [of "nat (- i)"]
  by (auto simp: Atoi_def itoa_def Let_def digits_value_nat_digits nat_digits_ne)

lemma Atoi_range: "Atoi s = Some i \<Longrightarrow> - (2 ^ 63) \<le> i \<and> i < 2 ^ 63"
  by (auto simp: Atoi_def Let_def split: if_splits)

end
