(* ===== verification/Evidence_Files.thy ===== *)
theory Evidence_Files
  imports Go_Http "HOL-Library.Sublist" Go_Conv
begin

text \<open>
  The string functions of \<open>internal/evidence/models.go\<close>: \<open>SanitizeFilename\<close> with the functions of
  \<open>path/filepath\<close> and \<open>regexp\<close> it calls, and \<open>StorageObjectKey\<close>. A Go string is its bytes. The
  expression \<open>[^a-zA-Z0-9._\\- ]\<close> replaces a character of several bytes by one underscore, the model
  by one for each byte: the next step collapses both to the same text.
\<close>

section \<open>Path functions\<close>

definition trim_right_slashes :: "string \<Rightarrow> string" where
  "trim_right_slashes s = rev (dropWhile (\<lambda>c. c = CHR ''/'') (rev s))"

definition filepath_Base :: "string \<Rightarrow> string" where
  "filepath_Base path =
     (if path = [] then ''.''
      else
        let p = trim_right_slashes path;
            b = rev (takeWhile (\<lambda>c. c \<noteq> CHR ''/'') (rev p))
        in if b = [] then ''/'' else b)"

definition filepath_Ext :: "string \<Rightarrow> string" where
  \<comment> \<open>from the last dot after the last slash\<close>
  "filepath_Ext path =
     (let b = takeWhile (\<lambda>c. c \<noteq> CHR ''/'') (rev path) in
      if CHR ''.'' \<in> set b then CHR ''.'' # rev (takeWhile (\<lambda>c. c \<noteq> CHR ''.'') b) else [])"

section \<open>Cleaning a name\<close>

definition safe_char :: "char \<Rightarrow> bool" where
  "safe_char c \<longleftrightarrow>
     (let n = (of_char c :: nat) in
      97 \<le> n \<and> n \<le> 122 \<or> 65 \<le> n \<and> n \<le> 90 \<or> 48 \<le> n \<and> n \<le> 57 \<or>
      c = CHR ''.'' \<or> c = CHR ''_'' \<or> c = CHR ''-'' \<or> c = CHR '' '')"

definition replace_unsafe :: "string \<Rightarrow> string" where
  "replace_unsafe s = map (\<lambda>c. if safe_char c then c else CHR ''_'') s"

definition gap_char :: "char \<Rightarrow> bool" where
  "gap_char c \<longleftrightarrow> c = CHR ''_'' \<or> c = CHR '' ''"

function collapse_gaps :: "string \<Rightarrow> string" where
  \<comment> \<open>\<open>[_ ]{2,}\<close> replaced by an underscore\<close>
  "collapse_gaps [] = []"
| "collapse_gaps (c # cs) =
     (if gap_char c \<and> cs \<noteq> [] \<and> gap_char (hd cs)
      then CHR ''_'' # collapse_gaps (dropWhile gap_char cs)
      else c # collapse_gaps cs)"
  by pat_completeness auto
termination
  by (relation "measure length") (auto simp: le_imp_less_Suc length_dropWhile_le)

definition edge_char :: "char \<Rightarrow> bool" where
  "edge_char c \<longleftrightarrow> c = CHR ''.'' \<or> c = CHR '' ''"

definition trim_edges :: "string \<Rightarrow> string" where
  \<comment> \<open>\<open>strings.Trim(name, ". ")\<close>\<close>
  "trim_edges s = rev (dropWhile edge_char (rev (dropWhile edge_char s)))"

definition MaxFilenameLength :: nat where "MaxFilenameLength = 255"

definition clean_name :: "string \<Rightarrow> string" where
  \<comment> \<open>\<open>SanitizeFilename\<close> up to the length check\<close>
  "clean_name name =
     trim_edges (collapse_gaps (replace_unsafe (filter (\<lambda>c. c \<noteq> CHR 0x00) (filepath_Base name))))"

definition shorten_name :: "string \<Rightarrow> string option" where
  \<comment> \<open>the length check; \<open>None\<close>: the slice expression has a negative bound and panics\<close>
  "shorten_name name =
     (if length name > MaxFilenameLength then
        (let ext = filepath_Ext name in
         if length ext > MaxFilenameLength then None
         else Some (take (MaxFilenameLength - length ext) name @ ext))
      else Some name)"

definition SanitizeFilename :: "string \<Rightarrow> string option" where
  "SanitizeFilename name =
     map_option (\<lambda>n. if n = [] \<or> n = ''.'' \<or> n = ''..'' then ''unnamed'' else n)
       (shorten_name (clean_name name))"

definition StorageObjectKey :: "go_lib \<Rightarrow> uuid \<Rightarrow> uuid \<Rightarrow> int \<Rightarrow> string \<Rightarrow> string" where
  "StorageObjectKey L caseID evidenceID version filename =
     join ''/'' [''evidence'', lib_uuid_string L caseID, lib_uuid_string L evidenceID, itoa version, filename]"

definition ThumbnailKey :: "go_lib \<Rightarrow> uuid \<Rightarrow> uuid \<Rightarrow> string" where
  "ThumbnailKey L caseID evidenceID =
     join ''/'' [''thumbnails'', lib_uuid_string L caseID, lib_uuid_string L evidenceID, ''thumb.jpg'']"

section \<open>What a sanitized name is\<close>

lemma safe_replaced: "c \<in> set (replace_unsafe s) \<Longrightarrow> safe_char c"
  by (auto simp: replace_unsafe_def safe_char_def split: if_splits)

lemma set_collapse: "set (collapse_gaps s) \<subseteq> insert (CHR ''_'') (set s)"
proof (induction s rule: collapse_gaps.induct)
  case (2 c cs)
  then show ?case by (auto dest!: set_dropWhileD split: if_splits)
qed simp

lemma set_trim_edges: "set (trim_edges s) \<subseteq> set s"
  by (auto simp: trim_edges_def dest!: set_dropWhileD)

lemma safe_underscore [simp]: "safe_char (CHR ''_'')"
  by (simp add: safe_char_def)

lemma clean_name_safe: "c \<in> set (clean_name s) \<Longrightarrow> safe_char c"
  unfolding clean_name_def using set_trim_edges set_collapse safe_replaced safe_underscore by blast

lemma set_filepath_Ext: "set (filepath_Ext s) \<subseteq> set s"
proof -
  have "set (takeWhile P (rev s)) \<subseteq> set s" for P by (auto dest: set_takeWhileD)
  then show ?thesis
    by (fastforce simp: filepath_Ext_def Let_def dest: set_takeWhileD)
qed

lemma sanitize_cases:
  assumes "SanitizeFilename s = Some r"
  shows "(\<forall>c \<in> set r. safe_char c) \<and> length r \<le> MaxFilenameLength \<and> r \<noteq> [] \<and> r \<noteq> ''.'' \<and> r \<noteq> ''..''"
proof -
  let ?n = "clean_name s"
  obtain n where n: "shorten_name ?n = Some n" "r = (if n = [] \<or> n = ''.'' \<or> n = ''..'' then ''unnamed'' else n)"
    using assms by (auto simp: SanitizeFilename_def)
  then have cut: "(n = ?n \<and> length ?n \<le> MaxFilenameLength) \<or>
     (n = take (MaxFilenameLength - length (filepath_Ext ?n)) ?n @ filepath_Ext ?n \<and>
      length (filepath_Ext ?n) \<le> MaxFilenameLength)"
    by (auto simp: shorten_name_def Let_def not_less split: if_splits)
  have safe: "safe_char c" if "c \<in> set ?n" for c using clean_name_safe that by blast
  have "set n \<subseteq> set ?n"
    using cut set_filepath_Ext [of ?n] set_take_subset [of "MaxFilenameLength - length (filepath_Ext ?n)" ?n] by auto
  then have "\<forall>c \<in> set n. safe_char c" using safe by blast
  moreover have "length n \<le> MaxFilenameLength" using cut by auto
  moreover have "\<forall>c \<in> set ''unnamed''. safe_char c" by (simp add: safe_char_def)
  ultimately show ?thesis using n(2) by (auto simp: MaxFilenameLength_def)
qed

lemma safe_char_excludes:
  "safe_char c \<Longrightarrow> c \<noteq> CHR ''/'' \<and> c \<noteq> CHR 0x5C \<and> c \<noteq> CHR 0x22 \<and> c \<noteq> CHR 0x00 \<and> c \<noteq> CHR 0x0A \<and> c \<noteq> CHR 0x0D"
  by (auto simp: safe_char_def)

section \<open>Properties\<close>

text \<open>
  Whatever name a client sends, the name an upload is stored and served under is a non-empty
  file name of at most 255 letters, digits, dots, hyphens, underscores and spaces that is not a
  directory link: it has no separator, no quote, no line break and no null byte, so the storage
  key has exactly five segments and the download header cannot be broken out of.
\<close>

theorem sanitize_filename_safe:
  assumes "SanitizeFilename name = Some r" and "CHR ''/'' \<notin> set (lib_uuid_string L c)"
    and "CHR ''/'' \<notin> set (lib_uuid_string L e)" and "0 \<le> v"
  shows "r \<noteq> [] \<and> r \<noteq> ''.'' \<and> r \<noteq> ''..'' \<and> length r \<le> 255 \<and>
    set r \<inter> {CHR ''/'', CHR 0x5C, CHR 0x22, CHR 0x00, CHR 0x0A, CHR 0x0D} = {} \<and>
    split_byte (CHR ''/'') (StorageObjectKey L c e v r) =
      [''evidence'', lib_uuid_string L c, lib_uuid_string L e, itoa v, r]"
proof -
  note r = sanitize_cases [OF assms(1)]
  have bad: "set r \<inter> {CHR ''/'', CHR 0x5C, CHR 0x22, CHR 0x00, CHR 0x0A, CHR 0x0D} = {}"
    using r safe_char_excludes by blast
  have "CHR ''/'' \<notin> set (itoa v)"
    using nat_digits_chars [of "CHR ''/''"] assms(4) by (auto simp: itoa_def)
  with assms(2,3) bad have "\<forall>p \<in> set [''evidence'', lib_uuid_string L c, lib_uuid_string L e, itoa v, r].
      CHR ''/'' \<notin> set p"
    by auto
  then have "split_byte (CHR ''/'') (StorageObjectKey L c e v r) =
      [''evidence'', lib_uuid_string L c, lib_uuid_string L e, itoa v, r]"
    unfolding StorageObjectKey_def by (intro split_join_byte) simp_all
  with r bad show ?thesis by (simp add: MaxFilenameLength_def)
qed

lemma sample_uuid_no_slash: "CHR ''/'' \<notin> set (lib_uuid_string sample_lib u)"
  using nat_digits_chars [of "CHR ''/''"] by (auto simp: sample_lib_def)

lemma sanitize_sample: "SanitizeFilename ''../up/a<b> c.pdf'' = Some ''a_b_c.pdf''"
  by (simp add: SanitizeFilename_def shorten_name_def clean_name_def filepath_Base_def trim_right_slashes_def
      replace_unsafe_def safe_char_def gap_char_def trim_edges_def edge_char_def MaxFilenameLength_def Let_def)

theorem sanitize_filename_safe_witness:
  "SanitizeFilename ''../up/a<b> c.pdf'' = Some ''a_b_c.pdf'' \<and>
   split_byte (CHR ''/'') (StorageObjectKey sample_lib 1 2 1 ''a_b_c.pdf'') =
     [''evidence'', lib_uuid_string sample_lib 1, lib_uuid_string sample_lib 2, itoa 1, ''a_b_c.pdf'']"
  using sanitize_filename_safe [OF sanitize_sample sample_uuid_no_slash sample_uuid_no_slash, of 1 1 2]
    sanitize_sample by simp

text \<open>
  The shortening of a long name is not total: when its extension, with the dot, is longer than
  255 bytes the bound of the slice is negative and the call panics, as it does for \<open>a.\<close> followed by
  255 letters or more.
\<close>

theorem sanitize_filename_panics:
  assumes "255 \<le> n"
  shows "SanitizeFilename (CHR ''a'' # CHR ''.'' # replicate n (CHR ''b'')) = None"
proof -
  let ?s = "CHR ''a'' # CHR ''.'' # replicate n (CHR ''b'')"
  obtain k where k: "n = Suc k" using assms by (cases n) auto
  have t: "takeWhile (\<lambda>c. c \<noteq> CHR ''/'') (rev ?s) = rev ?s"
    by (simp add: takeWhile_eq_all_conv)
  have "dropWhile P (rev ?s) = rev ?s" if "\<not> P (CHR ''b'')" for P
    unfolding dropWhile_eq_self_iff using k that by (cases k) (simp_all add: hd_append)
  then have d: "rev (dropWhile P (rev ?s)) = ?s" if "\<not> P (CHR ''b'')" for P using that by simp
  then have tr: "trim_right_slashes ?s = ?s" by (simp add: trim_right_slashes_def)
  have base: "filepath_Base ?s = ?s"
    unfolding filepath_Base_def Let_def tr t by simp
  have coll: "collapse_gaps (replicate k (CHR ''b'')) = replicate k (CHR ''b'')" for k
    by (induction k) (simp_all add: gap_char_def)
  have clean: "clean_name ?s = ?s"
    unfolding clean_name_def base using d [of edge_char]
    by (simp add: replace_unsafe_def safe_char_def coll gap_char_def trim_edges_def edge_char_def)
  have "takeWhile (\<lambda>c. c \<noteq> CHR ''.'') (replicate n (CHR ''b'') @ ''.a'') = replicate n (CHR ''b'')"
    by (induction n) simp_all
  then have "filepath_Ext ?s = CHR ''.'' # replicate n (CHR ''b'')"
    unfolding filepath_Ext_def Let_def t by simp
  with assms clean show ?thesis
    by (simp add: SanitizeFilename_def shorten_name_def Let_def MaxFilenameLength_def)
qed

theorem sanitize_filename_panics_witness:
  "SanitizeFilename (CHR ''a'' # CHR ''.'' # replicate 300 (CHR ''b'')) = None"
  using sanitize_filename_panics [of 300] by (simp only: numeral_le_iff) simp

end
