(* ===== verification/Evidence_Repo.thy ===== *)
theory Evidence_Repo
  imports Evidence_Files Cases_Api
begin

text \<open>
  \<open>internal/evidence/models.go\<close> and \<open>repository.go\<close>: evidence items and the statements over the table
  \<open>evidence_items\<close>, the column \<open>evidence_counter\<close> of \<open>cases\<close> and the table \<open>disclosures\<close>. The state
  extends that of cases; it also holds the object store, the search index and the thumbnail jobs
  that uploads leave running.
\<close>

section \<open>Data\<close>

definition ClassificationPublic :: string where "ClassificationPublic = ''public''"
definition ClassificationRestricted :: string where "ClassificationRestricted = ''restricted''"
definition ClassificationConfidential :: string where "ClassificationConfidential = ''confidential''"
definition ClassificationExParte :: string where "ClassificationExParte = ''ex_parte''"

definition TSAStatusPending :: string where "TSAStatusPending = ''pending''"
definition TSAStatusStamped :: string where "TSAStatusStamped = ''stamped''"
definition TSAStatusFailed :: string where "TSAStatusFailed = ''failed''"
definition TSAStatusDisabled :: string where "TSAStatusDisabled = ''disabled''"

definition MaxEvidenceDescription :: nat where "MaxEvidenceDescription = 10000"
definition MaxTagLength :: nat where "MaxTagLength = 100"
definition MaxTagCount :: nat where "MaxTagCount = 50"

definition ValidClassifications :: "string list" where
  "ValidClassifications =
     [ClassificationPublic, ClassificationRestricted, ClassificationConfidential, ClassificationExParte]"

text \<open>Pointers, and byte slices that may be nil, are options.\<close>

record EvidenceItem =
  ei_ID :: uuid
  ei_CaseID :: uuid
  ei_EvidenceNumber :: "string option"
  ei_Filename :: string
  ei_OriginalName :: string
  ei_StorageKey :: "string option"
  ei_ThumbnailKey :: "string option"
  ei_MimeType :: string
  ei_SizeBytes :: int
  ei_SHA256Hash :: string
  ei_Classification :: string
  ei_Description :: string
  ei_Tags :: "string list"
  ei_UploadedBy :: string
  ei_UploadedByName :: string
  ei_IsCurrent :: bool
  ei_Version :: int
  ei_ParentID :: "uuid option"
  ei_TSAToken :: "string option"
  ei_TSAName :: "string option"
  ei_TSATimestamp :: "time option"
  ei_TSAStatus :: string
  ei_TSARetryCount :: int
  ei_TSALastRetry :: "time option"
  ei_ExifData :: "string option"
  ei_Source :: string
  ei_SourceDate :: "time option"
  ei_DestroyedAt :: "time option"
  ei_DestroyedBy :: "string option"
  ei_DestroyReason :: "string option"
  ei_CreatedAt :: time

record EvidenceFilter =
  ef_CaseID :: uuid
  ef_Classification :: string
  ef_MimeType :: string
  ef_Tags :: "string list"
  ef_CurrentOnly :: bool
  ef_IncludeDestroyed :: bool
  ef_SearchQuery :: string
  ef_UserRole :: string

record EvidenceUpdate =
  eu_Description :: "string option"
  eu_Classification :: "string option"
  eu_Tags :: "string list option"

record CreateEvidenceInput =
  cei_CaseID :: uuid
  cei_EvidenceNumber :: string
  cei_Filename :: string
  cei_OriginalName :: string
  cei_StorageKey :: string
  cei_MimeType :: string
  cei_SizeBytes :: int
  cei_SHA256Hash :: string
  cei_Classification :: string
  cei_Description :: string
  cei_Tags :: "string list"
  cei_UploadedBy :: string
  cei_UploadedByName :: string
  cei_Source :: string
  cei_SourceDate :: "time option"
  cei_TSAToken :: "string option"
  cei_TSAName :: string
  cei_TSATimestamp :: "time option"
  cei_TSAStatus :: string
  cei_ExifData :: "string option"

record DestroyInput =
  di_EvidenceID :: uuid
  di_Reason :: string
  di_ActorID :: string

record VerifiableItem =
  vi_ID :: uuid
  vi_CaseID :: uuid
  vi_StorageKey :: string
  vi_SHA256Hash :: string
  vi_TSAToken :: "string option"
  vi_TSAStatus :: string
  vi_Filename :: string

record PendingTSAItem =
  pt_ID :: uuid
  pt_CaseID :: uuid
  pt_SHA256Hash :: string
  pt_RetryCount :: int
  pt_CreatedAt :: time

section \<open>State and parameters\<close>

record thumb_job =
  tj_evidence :: uuid
  tj_case :: uuid
  tj_mime :: string
  tj_data :: string

record evidence_db = cases_db +
  evidence_items :: "EvidenceItem list"
  evidence_counter :: "uuid \<Rightarrow> int"
  disclosures :: "(uuid \<times> uuid) list"
  integrity_warnings :: "uuid list"
  session_locks :: "(int \<times> nat) list"
  pool_conn :: "nat \<Rightarrow> nat"
  objects :: "string \<Rightarrow> (string \<times> string) option"
  search_docs :: "(string \<times> (string \<times> json) list) list"
  thumb_jobs :: "thumb_job list"

text \<open>
  The answer of the time-stamping authority to a digest: an error, a token with the authority's
  name and the time, or no token when stamping is disabled.
\<close>

datatype tsa_answer = TsaError string | TsaToken string string time | TsaNone

text \<open>
  What the package is deployed with: that of cases, the time-stamping authority by tick and
  digest, \<open>http.DetectContentType\<close>, the EXIF extraction, the thumbnail generator (\<open>None\<close> for a type
  it does not support), whether a recorder and an indexer are configured, and the upload limit.
\<close>

record evidence_env =
  ee_cases :: cases_env
  ee_tsa :: "nat \<Rightarrow> string \<Rightarrow> tsa_answer"
  ee_detect :: "string \<Rightarrow> string"
  ee_exif :: "string \<Rightarrow> string \<Rightarrow> go_error + string option"
  ee_thumb :: "string \<Rightarrow> string \<Rightarrow> go_error + string option"
  ee_custody :: bool
  ee_indexer :: bool
  ee_max_upload :: int

abbreviation ee_lib :: "evidence_env \<Rightarrow> go_lib" where
  "ee_lib E \<equiv> ce_lib (ee_cases E)"

definition ErrEvidenceNotFound :: go_error where
  "ErrEvidenceNotFound = ErrSentinel ''evidence not found''"

definition ErrNoRows :: go_error where "ErrNoRows = ErrSentinel ''no rows in result set''"

definition integer_range :: go_error where
  \<comment> \<open>SQLSTATE 22003\<close>
  "integer_range = ErrNew ''integer out of range''"

definition find_item :: "uuid \<Rightarrow> EvidenceItem list \<Rightarrow> EvidenceItem option" where
  "find_item k rows = find (\<lambda>e. ei_ID e = k) rows"

definition update_items_where :: "(EvidenceItem \<Rightarrow> bool) \<Rightarrow> (EvidenceItem \<Rightarrow> EvidenceItem) \<Rightarrow> EvidenceItem list \<Rightarrow> EvidenceItem list" where
  "update_items_where P g rows = map (\<lambda>e. if P e then g e else e) rows"

section \<open>Inserting and finding\<close>

definition evidence_Create ::
  "evidence_env \<Rightarrow> CreateEvidenceInput \<Rightarrow> 'a evidence_db_scheme
     \<Rightarrow> (go_error + EvidenceItem) \<times> 'a evidence_db_scheme" where
  "evidence_Create E i w =
     (case fault w of
        Some err \<Rightarrow> (Inl err, tick w)
      | None \<Rightarrow>
          (case lib_col_uuid (ee_lib E) (cei_UploadedBy i) of
             None \<Rightarrow> (Inl uuid_syntax, tick w)
           | Some uploader \<Rightarrow>
               if cei_Classification i \<notin> set ValidClassifications \<or>
                 cei_TSAStatus i \<notin> set [TSAStatusPending, TSAStatusStamped, TSAStatusFailed, TSAStatusDisabled] then
                 (Inl check_violation, tick w)
               else if new_uuid w \<in> set (map ei_ID (evidence_items w)) then (Inl unique_violation, tick w)
               else if find_case (cei_CaseID i) (cases_table w) = None then (Inl fk_violation, tick w)
               else
                 let row = \<lparr>ei_ID = new_uuid w, ei_CaseID = cei_CaseID i,
                       ei_EvidenceNumber = Some (cei_EvidenceNumber i), ei_Filename = cei_Filename i,
                       ei_OriginalName = cei_OriginalName i, ei_StorageKey = Some (cei_StorageKey i),
                       ei_ThumbnailKey = None, ei_MimeType = cei_MimeType i, ei_SizeBytes = cei_SizeBytes i,
                       ei_SHA256Hash = cei_SHA256Hash i, ei_Classification = cei_Classification i,
                       ei_Description = cei_Description i, ei_Tags = cei_Tags i, ei_UploadedBy = uploader,
                       ei_UploadedByName = cei_UploadedByName i, ei_IsCurrent = True, ei_Version = 1,
                       ei_ParentID = None, ei_TSAToken = cei_TSAToken i, ei_TSAName = Some (cei_TSAName i),
                       ei_TSATimestamp = map_option (lib_col_time (ee_lib E)) (cei_TSATimestamp i),
                       ei_TSAStatus = cei_TSAStatus i, ei_TSARetryCount = 0, ei_TSALastRetry = None,
                       ei_ExifData = cei_ExifData i, ei_Source = cei_Source i,
                       ei_SourceDate = map_option (lib_col_time (ee_lib E)) (cei_SourceDate i),
                       ei_DestroyedAt = None, ei_DestroyedBy = None, ei_DestroyReason = None,
                       ei_CreatedAt = lib_col_time (ee_lib E) (now w)\<rparr>
                 in (Inr row, (tick w)\<lparr>evidence_items := evidence_items w @ [row]\<rparr>)))"

definition evidence_FindByID ::
  "uuid \<Rightarrow> 'a evidence_db_scheme \<Rightarrow> (go_error + EvidenceItem) \<times> 'a evidence_db_scheme" where
  "evidence_FindByID k w =
     (case fault w of
        Some err \<Rightarrow> (Inl (wrapf ''find evidence by id'' err), tick w)
      | None \<Rightarrow>
          (case find_item k (evidence_items w) of
             None \<Rightarrow> (Inl ErrEvidenceNotFound, tick w)
           | Some e \<Rightarrow> (Inr e, tick w)))"

section \<open>Listing\<close>

definition evidence_clamp :: "Pagination \<Rightarrow> Pagination" where
  \<comment> \<open>\<open>evidence.ClampPagination\<close>\<close>
  "evidence_clamp p0 =
     (let p1 = (if pg_Limit p0 \<le> 0 then p0\<lparr>pg_Limit := 50\<rparr> else p0) in
      if pg_Limit p1 > 200 then p1\<lparr>pg_Limit := 200\<rparr> else p1)"

definition encode_evidence_cursor :: "go_lib \<Rightarrow> uuid \<Rightarrow> string" where
  "encode_evidence_cursor L u = b64_encode (lib_uuid_string L u)"

definition decode_evidence_cursor :: "go_lib \<Rightarrow> string \<Rightarrow> go_error + uuid" where
  "decode_evidence_cursor L cursor =
     (case b64_decode cursor of
        Inl err \<Rightarrow> Inl (wrapf ''decode cursor base64'' err)
      | Inr decoded \<Rightarrow>
          (case lib_uuid_parse L decoded of
             Inl err \<Rightarrow> Inl (wrapf ''parse cursor UUID'' err)
           | Inr u \<Rightarrow> Inr u))"

definition item_matches :: "evidence_env \<Rightarrow> EvidenceFilter \<Rightarrow> EvidenceItem \<Rightarrow> bool" where
  \<comment> \<open>the conditions that \<open>FindByCase\<close> collects before the cursor's\<close>
  "item_matches E f e \<longleftrightarrow>
     ei_CaseID e = ef_CaseID f \<and>
     (ef_CurrentOnly f \<longrightarrow> ei_IsCurrent e) \<and>
     (\<not> ef_IncludeDestroyed f \<longrightarrow> ei_DestroyedAt e = None) \<and>
     (ef_Classification f \<noteq> [] \<longrightarrow> ei_Classification e = ef_Classification f) \<and>
     (ef_MimeType f \<noteq> [] \<longrightarrow> ce_ilike (ee_cases E) (ei_MimeType e) (ef_MimeType f @ ''%'')) \<and>
     (ef_Tags f \<noteq> [] \<longrightarrow> set (ef_Tags f) \<subseteq> set (ei_Tags e)) \<and>
     (ef_SearchQuery f \<noteq> [] \<longrightarrow>
        (let pat = ''%'' @ ef_SearchQuery f @ ''%'' in
         ce_ilike (ee_cases E) (ei_Filename e) pat \<or> ce_ilike (ee_cases E) (ei_OriginalName e) pat \<or>
         ce_ilike (ee_cases E) (ei_Description e) pat))"

definition disclosed :: "string \<Rightarrow> (uuid \<times> uuid) list \<Rightarrow> EvidenceItem \<Rightarrow> bool" where
  \<comment> \<open>the join with \<open>disclosures\<close>, for the role \<open>defence\<close> only\<close>
  "disclosed userRole ds e \<longleftrightarrow> userRole = ''defence'' \<longrightarrow> (ei_CaseID e, ei_ID e) \<in> set ds"

definition item_page ::
  "(EvidenceItem \<Rightarrow> bool) \<Rightarrow> uuid option \<Rightarrow> int \<Rightarrow> EvidenceItem list \<Rightarrow> EvidenceItem list" where
  \<comment> \<open>\<open>SELECT DISTINCT ... [AND e.id < $n] ORDER BY e.created_at DESC, e.id DESC LIMIT n\<close>\<close>
  "item_page P cursorID n rows =
     take (nat n) (rev (sort_key (\<lambda>e. (ei_CreatedAt e, ei_ID e))
       (filter (\<lambda>e. P e \<and> (case cursorID of None \<Rightarrow> True | Some u \<Rightarrow> ei_ID e < u)) rows)))"

definition evidence_FindByCase ::
  "evidence_env \<Rightarrow> EvidenceFilter \<Rightarrow> Pagination \<Rightarrow> 'a evidence_db_scheme
     \<Rightarrow> (go_error + EvidenceItem list \<times> int) \<times> 'a evidence_db_scheme" where
  "evidence_FindByCase E f page0 w =
     (let page = evidence_clamp page0 in
      case (if pg_Cursor page = [] then Inr None
            else map_sum id Some (decode_evidence_cursor (ee_lib E) (pg_Cursor page))) of
        Inl err \<Rightarrow> (Inl (wrapf ''invalid cursor'' err), w)
      | Inr cursorID \<Rightarrow>
          let P = (\<lambda>e. item_matches E f e \<and> disclosed (ef_UserRole f) (disclosures w) e) in
          (case pg_call (wrapf ''count evidence'') w of
             (Some err, w1) \<Rightarrow> (Inl err, w1)
           | (None, w1) \<Rightarrow>
               let total_count = int (length (filter P (evidence_items w))) in
               (case query_rows (wrapf ''query evidence'') (wrapf ''scan evidence row'') id
                  (item_page P cursorID (pg_Limit page + 1) (evidence_items w)) w1
                of (Inl err, w2) \<Rightarrow> (Inl err, w2)
                 | (Inr es, w2) \<Rightarrow>
                     (Inr (if int (length es) > pg_Limit page then take (nat (pg_Limit page)) es else es,
                           total_count), w2))))"

section \<open>Updates\<close>

definition set_item_columns :: "EvidenceUpdate \<Rightarrow> EvidenceItem \<Rightarrow> EvidenceItem" where
  "set_item_columns u e =
     e\<lparr>ei_Description := (case eu_Description u of Some v \<Rightarrow> v | None \<Rightarrow> ei_Description e),
       ei_Classification := (case eu_Classification u of Some v \<Rightarrow> v | None \<Rightarrow> ei_Classification e),
       ei_Tags := (case eu_Tags u of Some v \<Rightarrow> v | None \<Rightarrow> ei_Tags e)\<rparr>"

definition evidence_Update ::
  "uuid \<Rightarrow> EvidenceUpdate \<Rightarrow> 'a evidence_db_scheme \<Rightarrow> (go_error + EvidenceItem) \<times> 'a evidence_db_scheme" where
  "evidence_Update k u w =
     (if eu_Description u = None \<and> eu_Classification u = None \<and> eu_Tags u = None then evidence_FindByID k w
      else
        case fault w of
          Some err \<Rightarrow> (Inl (wrapf ''update evidence'' err), tick w)
        | None \<Rightarrow>
            (case find_item k (evidence_items w) of
               None \<Rightarrow> (Inl ErrEvidenceNotFound, tick w)
             | Some e \<Rightarrow>
                 if ei_DestroyedAt e \<noteq> None then (Inl ErrEvidenceNotFound, tick w)
                 else if ei_Classification (set_item_columns u e) \<notin> set ValidClassifications then
                   (Inl (wrapf ''update evidence'' check_violation), tick w)
                 else
                   (Inr (set_item_columns u e), (tick w)\<lparr>evidence_items :=
                      update_items_where (\<lambda>e. ei_ID e = k) (set_item_columns u) (evidence_items w)\<rparr>)))"

definition exec_update ::
  "(go_error \<Rightarrow> go_error) \<Rightarrow> (EvidenceItem \<Rightarrow> bool) \<Rightarrow> (EvidenceItem \<Rightarrow> EvidenceItem) \<Rightarrow> 'a evidence_db_scheme
     \<Rightarrow> go_error option \<times> 'a evidence_db_scheme" where
  \<comment> \<open>\<open>pool.Exec\<close> of an \<open>UPDATE evidence_items SET ... WHERE ...\<close>, the number of rows not looked at\<close>
  "exec_update f P g w =
     (case fault w of
        Some err \<Rightarrow> (Some (f err), tick w)
      | None \<Rightarrow> (None, (tick w)\<lparr>evidence_items := update_items_where P g (evidence_items w)\<rparr>))"

definition evidence_MarkDestroyed ::
  "evidence_env \<Rightarrow> uuid \<Rightarrow> string \<Rightarrow> string \<Rightarrow> 'a evidence_db_scheme
     \<Rightarrow> go_error option \<times> 'a evidence_db_scheme" where
  "evidence_MarkDestroyed E k reason destroyedBy w =
     (let hit = (\<lambda>e. ei_ID e = k \<and> ei_DestroyedAt e = None);
          t = lib_col_time (ee_lib E) (now w) in
      case exec_update (wrapf ''mark evidence destroyed'') hit
        (\<lambda>e. e\<lparr>ei_DestroyedAt := Some t, ei_DestroyedBy := Some destroyedBy, ei_DestroyReason := Some reason\<rparr>) w of
        (Some err, w1) \<Rightarrow> (Some err, w1)
      | (None, w1) \<Rightarrow> (if filter hit (evidence_items w) = [] then Some ErrEvidenceNotFound else None, w1))"

definition evidence_FindByHash ::
  "uuid \<Rightarrow> string \<Rightarrow> 'a evidence_db_scheme \<Rightarrow> (go_error + EvidenceItem list) \<times> 'a evidence_db_scheme" where
  "evidence_FindByHash caseID hash w =
     query_rows (wrapf ''find evidence by hash'') (wrapf ''scan evidence row'') id
       (filter (\<lambda>e. ei_CaseID e = caseID \<and> ei_SHA256Hash e = hash \<and> ei_DestroyedAt e = None) (evidence_items w)) w"

definition hours24 :: time where "hours24 = 24 * 3600 * 1000000000"

definition evidence_FindPendingTSA ::
  "int \<Rightarrow> 'a evidence_db_scheme \<Rightarrow> (go_error + PendingTSAItem list) \<times> 'a evidence_db_scheme" where
  "evidence_FindPendingTSA limit w =
     query_rows (wrapf ''find pending TSA items'') (wrapf ''scan pending TSA item'') id
       (map (\<lambda>e. \<lparr>pt_ID = ei_ID e, pt_CaseID = ei_CaseID e, pt_SHA256Hash = ei_SHA256Hash e,
               pt_RetryCount = ei_TSARetryCount e, pt_CreatedAt = ei_CreatedAt e\<rparr>)
         (take (nat limit) (sort_key ei_CreatedAt
           (filter (\<lambda>e. ei_TSAStatus e = ''pending'' \<and> ei_DestroyedAt e = None \<and>
              ei_CreatedAt e > now w - hours24) (evidence_items w))))) w"

definition evidence_UpdateTSAResult ::
  "evidence_env \<Rightarrow> uuid \<Rightarrow> string option \<Rightarrow> string \<Rightarrow> time \<Rightarrow> 'a evidence_db_scheme
     \<Rightarrow> go_error option \<times> 'a evidence_db_scheme" where
  \<comment> \<open>a \<open>nil\<close> token is stored as \<open>NULL\<close>\<close>
  "evidence_UpdateTSAResult E k token tsaName tsTime w =
     exec_update (wrapf ''update TSA result'') (\<lambda>e. ei_ID e = k)
       (\<lambda>e. e\<lparr>ei_TSAToken := token, ei_TSAName := Some tsaName,
              ei_TSATimestamp := Some (lib_col_time (ee_lib E) tsTime), ei_TSAStatus := ''stamped''\<rparr>) w"

definition evidence_IncrementTSARetry ::
  "evidence_env \<Rightarrow> uuid \<Rightarrow> 'a evidence_db_scheme \<Rightarrow> go_error option \<times> 'a evidence_db_scheme" where
  "evidence_IncrementTSARetry E k w =
     (let t = lib_col_time (ee_lib E) (now w) in
      exec_update (wrapf ''increment TSA retry'') (\<lambda>e. ei_ID e = k)
        (\<lambda>e. e\<lparr>ei_TSARetryCount := ei_TSARetryCount e + 1, ei_TSALastRetry := Some t\<rparr>) w)"

definition evidence_MarkTSAFailed ::
  "uuid \<Rightarrow> 'a evidence_db_scheme \<Rightarrow> go_error option \<times> 'a evidence_db_scheme" where
  "evidence_MarkTSAFailed k w =
     exec_update (wrapf ''mark TSA failed'') (\<lambda>e. ei_ID e = k) (\<lambda>e. e\<lparr>ei_TSAStatus := ''failed''\<rparr>) w"

definition evidence_lock_id :: "uuid \<Rightarrow> 64 word" where
  \<comment> \<open>the first eight bytes of the case, \<open>^ 0x45564944\<close>\<close>
  "evidence_lock_id u = xor (advisory_lock_id u) 0x45564944"

definition IncrementEvidenceCounter ::
  "uuid \<Rightarrow> 'a evidence_db_scheme \<Rightarrow> (go_error + int) \<times> 'a evidence_db_scheme" where
  \<comment> \<open>one transaction under the advisory lock \<open>evidence_lock_id\<close> of the case\<close>
  "IncrementEvidenceCounter caseID w0 =
     (case pg_call (wrapf ''begin evidence counter tx'') w0 of (Some err, w1) \<Rightarrow> (Inl err, w1) | (None, w1) \<Rightarrow>
     (case pg_call (wrapf ''lock evidence counter'') w1 of (Some err, w2) \<Rightarrow> (Inl err, w2) | (None, w2) \<Rightarrow>
     (case pg_call (wrapf ''increment evidence counter'') w2 of (Some err, w3) \<Rightarrow> (Inl err, w3) | (None, w3) \<Rightarrow>
     let counter = evidence_counter w3 caseID + 1 in
     if find_case caseID (cases_table w3) = None then (Inl (wrapf ''increment evidence counter'' ErrNoRows), w3)
     else if counter > 2147483647 then (Inl (wrapf ''increment evidence counter'' integer_range), w3)
     else
     (case pg_call (wrapf ''commit evidence counter'') w3 of (Some err, w4) \<Rightarrow> (Inl err, w4) | (None, w4) \<Rightarrow>
       (Inr counter, w4\<lparr>evidence_counter := (evidence_counter w4)(caseID := counter)\<rparr>)))))"

definition UpdateThumbnailKey ::
  "uuid \<Rightarrow> string \<Rightarrow> 'a evidence_db_scheme \<Rightarrow> go_error option \<times> 'a evidence_db_scheme" where
  "UpdateThumbnailKey k key w =
     exec_update (wrapf ''update thumbnail key'') (\<lambda>e. ei_ID e = k) (\<lambda>e. e\<lparr>ei_ThumbnailKey := Some key\<rparr>) w"

section \<open>Versions\<close>

definition FindVersionHistory ::
  "uuid \<Rightarrow> 'a evidence_db_scheme \<Rightarrow> (go_error + EvidenceItem list) \<times> 'a evidence_db_scheme" where
  "FindVersionHistory evidenceID w =
     (case evidence_FindByID evidenceID w of
        (Inl err, w1) \<Rightarrow> (Inl err, w1)
      | (Inr e, w1) \<Rightarrow>
          let rootID = (case ei_ParentID e of None \<Rightarrow> ei_ID e | Some p \<Rightarrow> p) in
          query_rows (wrapf ''find version history'') (wrapf ''scan evidence row'') id
            (sort_key ei_Version
              (filter (\<lambda>e. ei_ID e = rootID \<or> ei_ParentID e = Some rootID) (evidence_items w1))) w1)"

definition UpdateVersionFields ::
  "uuid \<Rightarrow> uuid \<Rightarrow> int \<Rightarrow> 'a evidence_db_scheme \<Rightarrow> go_error option \<times> 'a evidence_db_scheme" where
  "UpdateVersionFields k parentID version w =
     exec_update (wrapf ''update version fields'') (\<lambda>e. ei_ID e = k)
       (\<lambda>e. e\<lparr>ei_ParentID := Some parentID, ei_Version := version, ei_IsCurrent := True\<rparr>) w"

definition MarkPreviousVersions ::
  "uuid \<Rightarrow> 'a evidence_db_scheme \<Rightarrow> go_error option \<times> 'a evidence_db_scheme" where
  "MarkPreviousVersions parentID w =
     exec_update (wrapf ''mark previous versions'') (\<lambda>e. ei_ID e = parentID \<or> ei_ParentID e = Some parentID)
       (\<lambda>e. e\<lparr>ei_IsCurrent := False\<rparr>) w"

section \<open>Export, verification, locks\<close>

definition ListByCaseForExport ::
  "uuid \<Rightarrow> string \<Rightarrow> 'a evidence_db_scheme \<Rightarrow> (go_error + EvidenceItem list) \<times> 'a evidence_db_scheme" where
  "ListByCaseForExport caseID userRole w =
     query_rows (wrapf ''list evidence for export'') (wrapf ''scan evidence row'') id
       (sort_key ei_CreatedAt (filter (\<lambda>e. ei_CaseID e = caseID \<and> ei_IsCurrent e \<and> ei_DestroyedAt e = None \<and>
          disclosed userRole (disclosures w) e) (evidence_items w))) w"

definition ListForVerification ::
  "uuid \<Rightarrow> 'a evidence_db_scheme \<Rightarrow> (go_error + VerifiableItem list) \<times> 'a evidence_db_scheme" where
  "ListForVerification caseID w =
     query_rows (wrapf ''list evidence for verification'') (wrapf ''scan evidence for verification'') id
       (map (\<lambda>e. \<lparr>vi_ID = ei_ID e, vi_CaseID = ei_CaseID e,
               vi_StorageKey = (case ei_StorageKey e of None \<Rightarrow> [] | Some k \<Rightarrow> k),
               vi_SHA256Hash = ei_SHA256Hash e, vi_TSAToken = ei_TSAToken e, vi_TSAStatus = ei_TSAStatus e,
               vi_Filename = ei_Filename e\<rparr>)
         (sort_key ei_CreatedAt
           (filter (\<lambda>e. ei_CaseID e = caseID \<and> ei_IsCurrent e \<and> ei_DestroyedAt e = None) (evidence_items w)))) w"

definition FlagIntegrityWarning ::
  "uuid \<Rightarrow> 'a evidence_db_scheme \<Rightarrow> go_error option \<times> 'a evidence_db_scheme" where
  "FlagIntegrityWarning k w =
     (case fault w of
        Some err \<Rightarrow> (Some (wrapf ''flag integrity warning'' err), tick w)
      | None \<Rightarrow>
          (None, (tick w)\<lparr>integrity_warnings :=
             (if find_item k (evidence_items w) = None then integrity_warnings w
              else List.insert k (integrity_warnings w))\<rparr>))"

text \<open>
  A session lock belongs to the connection that took it. \<open>pool_conn\<close> is the connection that the
  pool hands out at a tick, and \<open>session_locks\<close> lists the locks with their owners.
\<close>

definition TryAdvisoryLock ::
  "int \<Rightarrow> 'a evidence_db_scheme \<Rightarrow> (go_error + bool) \<times> 'a evidence_db_scheme" where
  "TryAdvisoryLock lockID w =
     (let conn = pool_conn w (w_tick w) in
      case fault w of
        Some err \<Rightarrow> (Inl (wrapf ''try advisory lock'' err), tick w)
      | None \<Rightarrow>
          if \<exists>lc \<in> set (session_locks w). fst lc = lockID \<and> snd lc \<noteq> conn then (Inr False, tick w)
          else (Inr True, (tick w)\<lparr>session_locks := (lockID, conn) # session_locks w\<rparr>))"

definition ReleaseAdvisoryLock ::
  "int \<Rightarrow> 'a evidence_db_scheme \<Rightarrow> go_error option \<times> 'a evidence_db_scheme" where
  \<comment> \<open>\<open>pg_advisory_unlock\<close> of a lock that the connection does not hold is a warning, not an error\<close>
  "ReleaseAdvisoryLock lockID w =
     (case fault w of
        Some err \<Rightarrow> (Some (wrapf ''release advisory lock'' err), tick w)
      | None \<Rightarrow>
          (None, (tick w)\<lparr>session_locks := remove1 (lockID, pool_conn w (w_tick w)) (session_locks w)\<rparr>))"

end
