(* ===== verification/Evidence_Store.thy ===== *)
theory Evidence_Store
  imports Evidence_Repo
begin

text \<open>
  \<open>internal/evidence/storage.go\<close> and \<open>case_adapter.go\<close>: the object store and the look-up of cases.
  The store's client takes one tick for each request, which fails when the fault script says so;
  a request that fails has no effect. The contracts that the evidence service relies on are the
  locales \<open>object_reader\<close>, \<open>object_store\<close> and \<open>case_lookup\<close>, both met by the definitions below.
\<close>

section \<open>Contracts\<close>

locale object_reader =
  fixes store :: "'s \<Rightarrow> string \<Rightarrow> 'o option"
    and get :: "string \<Rightarrow> 's \<Rightarrow> (go_error + 'o) \<times> 's"
  assumes get_ok: "get k s = (Inr x, s') \<Longrightarrow> store s k = Some x"
    and get_keeps: "get k s = (r, s') \<Longrightarrow> store s' = store s"
begin

lemma get_twice: "get k s = (Inr x, s1) \<Longrightarrow> get k s1 = (Inr y, s2) \<Longrightarrow> y = x"
  using get_ok get_keeps by (metis option.inject)

end

locale object_store = object_reader store get
  for store :: "'s \<Rightarrow> string \<Rightarrow> 'o option" and get :: "string \<Rightarrow> 's \<Rightarrow> (go_error + 'o) \<times> 's" +
  fixes put :: "string \<Rightarrow> 'o \<Rightarrow> 's \<Rightarrow> go_error option \<times> 's"
    and delete :: "string \<Rightarrow> 's \<Rightarrow> go_error option \<times> 's"
  assumes put_ok: "put k x s = (None, s') \<Longrightarrow> store s' = (store s)(k \<mapsto> x)"
    and put_fail: "put k x s = (Some e, s') \<Longrightarrow> store s' = store s"
    and delete_ok: "delete k s = (None, s') \<Longrightarrow> store s' = (store s)(k := None)"
    and delete_fail: "delete k s = (Some e, s') \<Longrightarrow> store s' = store s"
begin

lemma get_after_put:
  "put k x s = (None, s1) \<Longrightarrow> store s2 k = store s1 k \<Longrightarrow> get k s2 = (Inr y, s3) \<Longrightarrow> y = x"
  using put_ok get_ok by fastforce

lemma put_other: "put k x s = (r, s') \<Longrightarrow> j \<noteq> k \<Longrightarrow> store s' j = store s j"
  using put_ok put_fail by (cases r) (auto dest: fun_cong [of _ _ j])

lemma delete_other: "delete k s = (r, s') \<Longrightarrow> j \<noteq> k \<Longrightarrow> store s' j = store s j"
  using delete_ok delete_fail by (cases r) (auto dest: fun_cong [of _ _ j])

lemma get_deleted: "delete k s = (None, s') \<Longrightarrow> get k s' \<noteq> (Inr x, s'')"
  using delete_ok get_ok by fastforce

end

locale case_lookup =
  fixes row :: "uuid \<Rightarrow> 's \<Rightarrow> Case option"
    and hold :: "uuid \<Rightarrow> 's \<Rightarrow> (go_error + bool) \<times> 's"
    and status :: "uuid \<Rightarrow> 's \<Rightarrow> (go_error + string) \<times> 's"
    and reference :: "uuid \<Rightarrow> 's \<Rightarrow> (go_error + string) \<times> 's"
  assumes hold_ok: "hold k s = (Inr h, s') \<Longrightarrow> \<exists>c. row k s = Some c \<and> c_LegalHold c = h"
    and status_ok: "status k s = (Inr st, s') \<Longrightarrow> \<exists>c. row k s = Some c \<and> c_Status c = st"
    and reference_ok: "reference k s = (Inr ref, s') \<Longrightarrow> \<exists>c. row k s = Some c \<and> c_ReferenceCode c = ref"
    and hold_keeps: "hold k s = (r, s') \<Longrightarrow> row j s' = row j s"
    and status_keeps: "status k s = (r', s') \<Longrightarrow> row j s' = row j s"
    and reference_keeps: "reference k s = (r', s') \<Longrightarrow> row j s' = row j s"
begin

lemma status_then_hold:
  "status k s = (Inr st, s1) \<Longrightarrow> hold k s1 = (Inr h, s2) \<Longrightarrow>
     \<exists>c. row k s = Some c \<and> c_Status c = st \<and> c_LegalHold c = h"
  using status_ok hold_ok status_keeps by fastforce

end

section \<open>The object store\<close>

text \<open>\<open>MinIOStorage\<close>: the bucket and whether server-side encryption is on.\<close>

record MinIOStorage =
  ms_bucket :: string
  ms_sse :: bool

fun put_attempts ::
  "nat \<Rightarrow> string \<Rightarrow> string \<times> string \<Rightarrow> go_error \<Rightarrow> 'a evidence_db_scheme \<Rightarrow> go_error option \<times> 'a evidence_db_scheme" where
  \<comment> \<open>the loop of \<open>PutObject\<close> with that many attempts left; \<open>lastErr\<close> is the error of the one before\<close>
  "put_attempts 0 key x lastErr w =
     (Some (wrapf (''put object '' @ key @ '' after retries'') lastErr), w)"
| "put_attempts (Suc n) key x lastErr w =
     (case fault w of
        None \<Rightarrow> (None, (tick w)\<lparr>objects := (objects w)(key \<mapsto> x)\<rparr>)
      | Some err \<Rightarrow> put_attempts n key x err (tick w))"

definition PutObject ::
  "string \<Rightarrow> string \<Rightarrow> string \<Rightarrow> 'a evidence_db_scheme \<Rightarrow> go_error option \<times> 'a evidence_db_scheme" where
  "PutObject key data contentType w = put_attempts 3 key (data, contentType) (ErrNew []) w"

definition GetObject ::
  "string \<Rightarrow> 'a evidence_db_scheme \<Rightarrow> (go_error + string \<times> string) \<times> 'a evidence_db_scheme" where
  \<comment> \<open>\<open>client.GetObject\<close> and then \<open>client.StatObject\<close>, which fails for a missing key\<close>
  "GetObject key w =
     (case pg_call (wrapf (''get object '' @ key)) w of
        (Some err, w1) \<Rightarrow> (Inl err, w1)
      | (None, w1) \<Rightarrow>
          (case pg_call (wrapf (''stat object '' @ key)) w1 of
             (Some err, w2) \<Rightarrow> (Inl err, w2)
           | (None, w2) \<Rightarrow>
               (case objects w2 key of
                  None \<Rightarrow> (Inl (wrapf (''stat object '' @ key) (ErrNew ''The specified key does not exist.'')), w2)
                | Some x \<Rightarrow> (Inr x, w2))))"

definition DeleteObject ::
  "string \<Rightarrow> 'a evidence_db_scheme \<Rightarrow> go_error option \<times> 'a evidence_db_scheme" where
  \<comment> \<open>removing a missing key succeeds\<close>
  "DeleteObject key w =
     (case fault w of
        Some err \<Rightarrow> (Some (wrapf (''delete object '' @ key) err), tick w)
      | None \<Rightarrow> (None, (tick w)\<lparr>objects := (objects w)(key := None)\<rparr>))"

definition ListObjects ::
  "string list \<Rightarrow> string \<Rightarrow> 'a evidence_db_scheme \<Rightarrow> (go_error + string list) \<times> 'a evidence_db_scheme" where
  \<comment> \<open>\<open>keys\<close>: the keys of the bucket in the order the server lists them\<close>
  "ListObjects keys pre w =
     (case scan_rows (wrapf ''list objects'')
        (filter (\<lambda>k. take (length pre) k = pre \<and> objects w k \<noteq> None) keys) w of (r, w') \<Rightarrow> (r, w'))"

definition StatObject ::
  "string \<Rightarrow> 'a evidence_db_scheme \<Rightarrow> (go_error + int) \<times> 'a evidence_db_scheme" where
  "StatObject key w =
     (case pg_call (wrapf (''stat object '' @ key)) w of
        (Some err, w1) \<Rightarrow> (Inl err, w1)
      | (None, w1) \<Rightarrow>
          (case objects w1 key of
             None \<Rightarrow> (Inl (wrapf (''stat object '' @ key) (ErrNew ''The specified key does not exist.'')), w1)
           | Some (data, contentType) \<Rightarrow> (Inr (int (length data)), w1)))"

section \<open>Looking up a case\<close>

definition case_column ::
  "(go_error \<Rightarrow> go_error) \<Rightarrow> (Case \<Rightarrow> 'v) \<Rightarrow> uuid \<Rightarrow> 'a evidence_db_scheme
     \<Rightarrow> (go_error + 'v) \<times> 'a evidence_db_scheme" where
  \<comment> \<open>\<open>SELECT <column> FROM cases WHERE id = $1\<close>\<close>
  "case_column f col caseID w =
     (case fault w of
        Some err \<Rightarrow> (Inl (f err), tick w)
      | None \<Rightarrow>
          (case find_case caseID (cases_table w) of
             None \<Rightarrow> (Inl (f ErrNoRows), tick w)
           | Some c \<Rightarrow> (Inr (col c), tick w)))"

definition GetLegalHold :: "uuid \<Rightarrow> 'a evidence_db_scheme \<Rightarrow> (go_error + bool) \<times> 'a evidence_db_scheme" where
  "GetLegalHold caseID w = case_column (wrapf ''get legal hold status'') c_LegalHold caseID w"

definition GetStatus :: "uuid \<Rightarrow> 'a evidence_db_scheme \<Rightarrow> (go_error + string) \<times> 'a evidence_db_scheme" where
  "GetStatus caseID w = case_column (wrapf ''get case status'') c_Status caseID w"

definition GetReferenceCode :: "uuid \<Rightarrow> 'a evidence_db_scheme \<Rightarrow> (go_error + string) \<times> 'a evidence_db_scheme" where
  "GetReferenceCode caseID w = case_column (wrapf ''get case reference code'') c_ReferenceCode caseID w"

section \<open>The contracts hold\<close>

lemma evidence_tick [simp]:
  "evidence_items (tick w) = evidence_items w" "evidence_counter (tick w) = evidence_counter w"
  "disclosures (tick w) = disclosures w" "objects (tick w) = objects w" "thumb_jobs (tick w) = thumb_jobs w"
  "session_locks (tick w) = session_locks w" "integrity_warnings (tick w) = integrity_warnings w"
  "search_docs (tick w) = search_docs w" "pool_conn (tick w) = pool_conn w"
  by (simp_all add: tick_def)

lemma case_column_ok:
  "case_column f col k w = (Inr v, w') \<Longrightarrow> \<exists>c. find_case k (cases_table w) = Some c \<and> col c = v"
  by (auto simp: case_column_def split: option.splits)

lemma case_column_state: "case_column f col k w = (r, w') \<Longrightarrow> w' = tick w"
  by (auto simp: case_column_def split: option.splits)

interpretation lookup: case_lookup "\<lambda>k w. find_case k (cases_table w)" GetLegalHold GetStatus GetReferenceCode
  by unfold_locales
    (auto simp: GetLegalHold_def GetStatus_def GetReferenceCode_def dest: case_column_ok case_column_state)

lemma put_attempts_ok:
  "put_attempts n key x e w = (None, w') \<Longrightarrow>
     \<exists>m. w_tick w \<le> m \<and> w' = w\<lparr>w_tick := m, objects := (objects w)(key \<mapsto> x)\<rparr>"
proof (induction n key x e w rule: put_attempts.induct)
  case (2 n key x e w)
  show ?case
  proof (cases "fault w")
    case None
    with 2(2) have "w' = (tick w)\<lparr>objects := (objects w)(key \<mapsto> x)\<rparr>" by simp
    then show ?thesis by (intro exI [of _ "Suc (w_tick w)"]) (simp add: tick_def fun_upd_def)
  next
    case (Some err)
    with 2 obtain m where "w_tick (tick w) \<le> m" "w' = (tick w)\<lparr>w_tick := m, objects := (objects (tick w))(key \<mapsto> x)\<rparr>"
      by (auto simp: fun_upd_def)
    then show ?thesis by (intro exI [of _ m]) (simp add: tick_def fun_upd_def)
  qed
qed simp

lemma put_attempts_fail: "put_attempts n key x e w = (Some err, w') \<Longrightarrow> only_ticks w w'"
  by (induction n key x e w rule: put_attempts.induct) (auto split: option.splits intro: only_ticks_from_tick)

lemma evidence_only_ticks:
  assumes "only_ticks w (w' :: 'a evidence_db_scheme)"
  shows "evidence_items w' = evidence_items w" "objects w' = objects w" "evidence_counter w' = evidence_counter w"
    "cases_table w' = cases_table w" "thumb_jobs w' = thumb_jobs w" "custody_log w' = custody_log w"
    "disclosures w' = disclosures w" "session_locks w' = session_locks w" "pool_conn w' = pool_conn w"
    "integrity_warnings w' = integrity_warnings w" "search_docs w' = search_docs w"
proof -
  obtain n where "w' = w\<lparr>w_tick := n\<rparr>" using assms unfolding only_ticks_def by blast
  then show "evidence_items w' = evidence_items w" "objects w' = objects w" "evidence_counter w' = evidence_counter w"
    "cases_table w' = cases_table w" "thumb_jobs w' = thumb_jobs w" "custody_log w' = custody_log w"
    "disclosures w' = disclosures w" "session_locks w' = session_locks w" "pool_conn w' = pool_conn w"
    "integrity_warnings w' = integrity_warnings w" "search_docs w' = search_docs w"
    by simp_all
qed

lemma PutObject_ok:
  "PutObject key d ct w = (None, w') \<Longrightarrow>
     \<exists>m. w_tick w \<le> m \<and> w' = w\<lparr>w_tick := m, objects := (objects w)(key \<mapsto> (d, ct))\<rparr>"
  unfolding PutObject_def by (rule put_attempts_ok)

lemma PutObject_fail: "PutObject key d ct w = (Some err, w') \<Longrightarrow> only_ticks w w'"
  unfolding PutObject_def by (rule put_attempts_fail)

lemma GetObject_ticks: "GetObject key w = (r, w') \<Longrightarrow> only_ticks w w'"
  by (auto simp: GetObject_def pg_call_def split: option.splits prod.splits
      intro: only_ticks_from_tick)

lemma GetObject_ok: "GetObject key w = (Inr x, w') \<Longrightarrow> objects w key = Some x"
  by (auto simp: GetObject_def pg_call_def split: option.splits prod.splits)

interpretation minio: object_store objects GetObject "\<lambda>k x w. PutObject k (fst x) (snd x) w" DeleteObject
proof unfold_locales
  fix k x and s s' :: "'a evidence_db_scheme" and e
  show "PutObject k (fst x) (snd x) s = (None, s') \<Longrightarrow> objects s' = (objects s)(k \<mapsto> x)"
    using PutObject_ok [of k "fst x" "snd x" s s'] by auto
  show "PutObject k (fst x) (snd x) s = (Some e, s') \<Longrightarrow> objects s' = objects s"
    using PutObject_fail evidence_only_ticks(2) by blast
next
  fix k x and s s' :: "'a evidence_db_scheme" and r
  show "GetObject k s = (Inr x, s') \<Longrightarrow> objects s k = Some x" by (rule GetObject_ok)
  show "GetObject k s = (r, s') \<Longrightarrow> objects s' = objects s"
    using GetObject_ticks evidence_only_ticks(2) by blast
next
  fix k and s s' :: "'a evidence_db_scheme" and e
  show "DeleteObject k s = (None, s') \<Longrightarrow> objects s' = (objects s)(k := None)"
    by (auto simp: DeleteObject_def split: option.splits)
  show "DeleteObject k s = (Some e, s') \<Longrightarrow> objects s' = objects s"
    by (auto simp: DeleteObject_def split: option.splits)
qed

lemma PutObject_no_faults: "no_faults w \<Longrightarrow> \<exists>w'. PutObject key d ct w = (None, w') \<and> no_faults w'"
  by (simp add: PutObject_def eval_nat_numeral fault_none no_faults_def fault_def)

lemma less_three: "(\<exists>i < 3. P i) \<longleftrightarrow> P 0 \<or> P 1 \<or> P (2 :: nat)"
  unfolding numeral_3_eq_3 numeral_2_eq_2 One_nat_def less_Suc_eq by blast

text \<open>
  Storing an object survives any two failing requests: it fails only when all three attempts
  fail, and in that case the store is as it was; when it succeeds exactly this key has changed, and
  fetching it, as long as nobody writes it, gives the same bytes and content type.
\<close>

theorem put_object_retries:
  "(fst (PutObject key d ct (w :: 'a evidence_db_scheme)) = None \<longleftrightarrow> (\<exists>i < 3. w_fault w (w_tick w + i) = None)) \<and>
   (case PutObject key d ct w of
      (None, w') \<Rightarrow> objects w' = (objects w)(key \<mapsto> (d, ct)) \<and>
        (\<forall>(u :: 'a evidence_db_scheme) x u'. objects u key = objects w' key \<longrightarrow> GetObject key u = (Inr x, u') \<longrightarrow> x = (d, ct))
    | (Some err, w') \<Rightarrow> objects w' = objects w \<and> evidence_items w' = evidence_items w)"
proof -
  have "fst (PutObject key d ct w) = None \<longleftrightarrow>
      w_fault w (w_tick w) = None \<or> w_fault w (w_tick w + 1) = None \<or> w_fault w (w_tick w + 2) = None"
    by (auto simp: PutObject_def eval_nat_numeral fault_def split: option.splits)
  moreover have "(\<exists>i < 3. w_fault w (w_tick w + i) = None) \<longleftrightarrow>
      w_fault w (w_tick w) = None \<or> w_fault w (w_tick w + 1) = None \<or> w_fault w (w_tick w + 2) = None"
    using less_three [of "\<lambda>i. w_fault w (w_tick w + i) = None"] by simp
  moreover have "case PutObject key d ct w of
      (None, w') \<Rightarrow> objects w' = (objects w)(key \<mapsto> (d, ct)) \<and>
        (\<forall>(u :: 'a evidence_db_scheme) x u'. objects u key = objects w' key \<longrightarrow> GetObject key u = (Inr x, u') \<longrightarrow> x = (d, ct))
    | (Some err, w') \<Rightarrow> objects w' = objects w \<and> evidence_items w' = evidence_items w"
  proof (cases "PutObject key d ct w")
    case (Pair r w')
    show ?thesis
    proof (cases r)
      case None
      with Pair have o: "objects w' = (objects w)(key \<mapsto> (d, ct))"
        using minio.put_ok [of key "(d, ct)" w w'] by simp
      have "x = (d, ct)" if "objects u key = objects w' key" "GetObject key u = (Inr x, u')"
        for u :: "'a evidence_db_scheme" and x u'
        using minio.get_ok [OF that(2)] that(1) o by simp
      with o Pair None show ?thesis by auto
    next
      case (Some err)
      with Pair PutObject_fail [of key d ct w err w'] show ?thesis by (simp add: evidence_only_ticks)
    qed
  qed
  ultimately show ?thesis by (intro conjI) simp_all
qed

definition sample_evidence_db :: "(nat \<Rightarrow> string option) \<Rightarrow> Case list \<Rightarrow> EvidenceItem list \<Rightarrow> evidence_db" where
  "sample_evidence_db faults cs es =
     \<lparr>w_tick = 0, w_fault = faults, w_now = (\<lambda>n. 1000 * int n), w_uuid = (\<lambda>n. of_nat n + 100),
      custody_log = [], cases_table = cs, case_roles = [], evidence_items = es,
      evidence_counter = (\<lambda>k. 0), disclosures = [], integrity_warnings = [], session_locks = [],
      pool_conn = (\<lambda>n. n), objects = Map.empty, search_docs = [], thumb_jobs = []\<rparr>"

lemma sample_evidence_sel [simp]:
  "cases_table (sample_evidence_db fs cs es) = cs" "evidence_items (sample_evidence_db fs cs es) = es"
  "w_fault (sample_evidence_db fs cs es) = fs" "w_tick (sample_evidence_db fs cs es) = 0"
  "custody_log (sample_evidence_db fs cs es) = []" "objects (sample_evidence_db fs cs es) = Map.empty"
  "evidence_counter (sample_evidence_db fs cs es) k = 0" "pool_conn (sample_evidence_db fs cs es) n = n"
  "session_locks (sample_evidence_db fs cs es) = []" "disclosures (sample_evidence_db fs cs es) = []"
  "thumb_jobs (sample_evidence_db fs cs es) = []"
  by (simp_all add: sample_evidence_db_def)

lemma sample_evidence_no_faults [simp]: "no_faults (sample_evidence_db (\<lambda>n. None) cs es)"
  by (simp add: no_faults_def)

theorem put_object_retries_witness:
  "fst (PutObject ''k'' ''d'' ''ct'' (sample_evidence_db (\<lambda>n. if n < 2 then Some ''timeout'' else None) [] [])) = None \<and>
   fst (PutObject ''k'' ''d'' ''ct'' (sample_evidence_db (\<lambda>n. Some ''timeout'') [] [])) \<noteq> None"
proof -
  have "\<exists>i < 3. w_fault (sample_evidence_db (\<lambda>n. if n < 2 then Some ''timeout'' else None) [] [])
      (w_tick (sample_evidence_db (\<lambda>n. if n < 2 then Some ''timeout'' else None) [] []) + i) = None"
    by (intro exI [of _ 2]) simp
  then show ?thesis
    using put_object_retries [of "''k''" "''d''" "''ct''"
        "sample_evidence_db (\<lambda>n. if n < 2 then Some ''timeout'' else None) [] []", THEN conjunct1]
      put_object_retries [of "''k''" "''d''" "''ct''" "sample_evidence_db (\<lambda>n. Some ''timeout'') [] []", THEN conjunct1]
    by auto
qed

end
