(* ===== verification/Evidence_Service.thy ===== *)
theory Evidence_Service
  imports Evidence_Store
begin

text \<open>
  \<open>internal/evidence/service.go\<close>: the upload pipeline and the other operations on evidence, each the
  whole method with its calls to the look-up of cases, the repository, the object store, the
  recorder of custody events and the indexer in their order. The goroutine that makes a thumbnail
  is a job that \<open>Upload\<close> leaves in the state and that \<open>generateThumbnail\<close> runs at any later time.
\<close>

text \<open>
  \<open>up_File\<close> is \<open>None\<close> for a nil reader; otherwise what reading it to the end gives.
\<close>

record UploadInput =
  up_CaseID :: uuid
  up_File :: "(go_error + string) option"
  up_Filename :: string
  up_SizeBytes :: int
  up_Classification :: string
  up_Description :: string
  up_Tags :: "string list option"
  up_UploadedBy :: string
  up_UploadedByName :: string
  up_Source :: string
  up_SourceDate :: "time option"

definition slice_panic :: go_error where
  \<comment> \<open>not an error value: the call panics and the server's recovery middleware answers 500\<close>
  "slice_panic = ErrSentinel ''runtime error: slice bounds out of range''"

section \<open>Validation\<close>

definition validate_tags :: "string list \<Rightarrow> go_error option" where
  "validate_tags tags =
     (if length tags > MaxTagCount then Some (ValidationError ''tags'' ''too many tags'')
      else if \<exists>tag \<in> set tags. length tag > MaxTagLength then Some (ValidationError ''tags'' ''tag too long'')
      else None)"

definition nonNilTags :: "string list option \<Rightarrow> string list" where
  "nonNilTags tags = (case tags of None \<Rightarrow> [] | Some ts \<Rightarrow> ts)"

definition derefStr :: "string option \<Rightarrow> string" where
  "derefStr s = (case s of None \<Rightarrow> [] | Some v \<Rightarrow> v)"

definition validateUploadInput :: "UploadInput \<Rightarrow> go_error option" where
  \<comment> \<open>the input is passed by value: the default for an empty classification is only checked here\<close>
  "validateUploadInput i =
     (if up_CaseID i = uuid_Nil then Some (ValidationError ''case_id'' ''case ID is required'')
      else if trim_space (up_Filename i) = [] then Some (ValidationError ''filename'' ''filename is required'')
      else if up_File i = None then Some (ValidationError ''file'' ''file is required'')
      else
        let classification = (if up_Classification i = [] then ClassificationRestricted else up_Classification i) in
        if classification \<notin> set ValidClassifications then
          Some (ValidationError ''classification'' ''invalid classification'')
        else if length (up_Description i) > MaxEvidenceDescription then
          Some (ValidationError ''description'' ''description too long'')
        else validate_tags (nonNilTags (up_Tags i)))"

definition validateEvidenceUpdate :: "EvidenceUpdate \<Rightarrow> go_error option" where
  "validateEvidenceUpdate u =
     (if \<exists>d \<in> set_option (eu_Description u). length d > MaxEvidenceDescription then
        Some (ValidationError ''description'' ''description too long'')
      else if \<exists>c \<in> set_option (eu_Classification u). c \<notin> set ValidClassifications then
        Some (ValidationError ''classification'' ''invalid classification'')
      else (case eu_Tags u of None \<Rightarrow> None | Some ts \<Rightarrow> validate_tags ts))"

section \<open>Custody, index, thumbnails\<close>

definition recordCustodyEvent ::
  "evidence_env \<Rightarrow> uuid \<Rightarrow> uuid \<Rightarrow> string \<Rightarrow> string \<Rightarrow> (string \<times> string) list \<Rightarrow> 'a evidence_db_scheme
     \<Rightarrow> 'a evidence_db_scheme" where
  \<comment> \<open>the recorder's error is only logged\<close>
  "recordCustodyEvent E caseID evidenceID action actorID detail w =
     (if ee_custody E then snd (RecordEvidenceEvent (ee_lib E) caseID evidenceID action actorID detail w) else w)"

definition RFC3339 :: string where "RFC3339 = ''2006-01-02T15:04:05Z07:00''"

definition index_document :: "go_lib \<Rightarrow> EvidenceItem \<Rightarrow> string \<times> (string \<times> json) list" where
  "index_document L e =
     (lib_uuid_string L (ei_ID e),
      [(''case_id'', JString (lib_uuid_string L (ei_CaseID e))),
       (''evidence_number'', JString (derefStr (ei_EvidenceNumber e))),
       (''filename'', JString (ei_Filename e)), (''original_name'', JString (ei_OriginalName e)),
       (''mime_type'', JString (ei_MimeType e)), (''classification'', JString (ei_Classification e)),
       (''description'', JString (ei_Description e)), (''tags'', JArray (map JString (ei_Tags e))),
       (''uploaded_by'', JString (ei_UploadedBy e)), (''sha256_hash'', JString (ei_SHA256Hash e)),
       (''created_at'', JString (lib_format L RFC3339 (ei_CreatedAt e)))])"

definition indexEvidence :: "evidence_env \<Rightarrow> EvidenceItem \<Rightarrow> 'a evidence_db_scheme \<Rightarrow> 'a evidence_db_scheme" where
  \<comment> \<open>the indexer's error is only logged\<close>
  "indexEvidence E e w =
     (if \<not> ee_indexer E then w
      else case fault w of
        Some err \<Rightarrow> tick w
      | None \<Rightarrow> (tick w)\<lparr>search_docs := search_docs w @ [index_document (ee_lib E) e]\<rparr>)"

definition generateThumbnail :: "evidence_env \<Rightarrow> thumb_job \<Rightarrow> 'a evidence_db_scheme \<Rightarrow> 'a evidence_db_scheme" where
  "generateThumbnail E j w =
     (case ee_thumb E (tj_data j) (tj_mime j) of
        Inl err \<Rightarrow> w
      | Inr None \<Rightarrow> w
      | Inr (Some thumbData) \<Rightarrow>
          let thumbKey = ThumbnailKey (ee_lib E) (tj_case j) (tj_evidence j) in
          (case PutObject thumbKey thumbData ''image/jpeg'' w of
             (Some err, w1) \<Rightarrow> w1
           | (None, w1) \<Rightarrow> snd (UpdateThumbnailKey (tj_evidence j) thumbKey w1)))"

section \<open>Upload\<close>

definition stamp_digest ::
  "evidence_env \<Rightarrow> string \<Rightarrow> 'a evidence_db_scheme
     \<Rightarrow> (string option \<times> string \<times> time option \<times> string) \<times> 'a evidence_db_scheme" where
  \<comment> \<open>the token, the authority's name, its time and the status after \<open>IssueTimestamp\<close>\<close>
  "stamp_digest E digest w =
     ((case ee_tsa E (w_tick w) digest of
         TsaError msg \<Rightarrow> (None, [], None, TSAStatusPending)
       | TsaToken token name ts \<Rightarrow> (Some token, name, Some ts, TSAStatusStamped)
       | TsaNone \<Rightarrow> (None, [], None, TSAStatusDisabled)), tick w)"

definition upload_record ::
  "evidence_env \<Rightarrow> UploadInput \<Rightarrow> string \<Rightarrow> string \<Rightarrow> string \<Rightarrow> string
     \<Rightarrow> string option \<times> string \<times> time option \<times> string \<Rightarrow> CreateEvidenceInput" where
  "upload_record E i data name number key stamp =
     (case stamp of (token, tsaName, ts, status) \<Rightarrow>
        \<lparr>cei_CaseID = up_CaseID i, cei_EvidenceNumber = number, cei_Filename = name,
         cei_OriginalName = up_Filename i, cei_StorageKey = key, cei_MimeType = ee_detect E data,
         cei_SizeBytes = int (length data), cei_SHA256Hash = hex_encode (lib_sha256 (ee_lib E) data),
         cei_Classification = up_Classification i,
         cei_Description = html_escape (trim_space (up_Description i)), cei_Tags = nonNilTags (up_Tags i),
         cei_UploadedBy = up_UploadedBy i, cei_UploadedByName = up_UploadedByName i,
         cei_Source = up_Source i, cei_SourceDate = up_SourceDate i, cei_TSAToken = token,
         cei_TSAName = tsaName, cei_TSATimestamp = ts, cei_TSAStatus = status,
         cei_ExifData = (case ee_exif E data (ee_detect E data) of Inl err \<Rightarrow> None | Inr x \<Rightarrow> x)\<rparr>)"

definition upload_checks ::
  "evidence_env \<Rightarrow> UploadInput \<Rightarrow> 'a evidence_db_scheme
     \<Rightarrow> (go_error + string \<times> string) \<times> 'a evidence_db_scheme" where
  \<comment> \<open>\<open>Upload\<close> up to the size check: the sanitized name and the data\<close>
  "upload_checks E i w =
     (case validateUploadInput i of Some err \<Rightarrow> (Inl err, w) | None \<Rightarrow>
     (case GetStatus (up_CaseID i) w of
        (Inl err, w1) \<Rightarrow> (Inl (wrapf ''check case status'' err), w1)
      | (Inr caseStatus, w1) \<Rightarrow>
          if caseStatus \<noteq> ''active'' then
            (Inl (ValidationError ''case'' (''cannot upload evidence to a '' @ caseStatus @ '' case'')), w1)
          else
            (case SanitizeFilename (up_Filename i) of
               None \<Rightarrow> (Inl slice_panic, w1)
             | Some sanitizedName \<Rightarrow>
                 (case up_File i of
                    None \<Rightarrow> (Inl (ValidationError ''file'' ''file is required''), w1)
                  | Some (Inl err) \<Rightarrow> (Inl (wrapf ''read upload data'' err), w1)
                  | Some (Inr content) \<Rightarrow>
                      let data = take (nat (ee_max_upload E + 1)) content in
                      if int (length data) > ee_max_upload E then
                        (Inl (ValidationError ''file'' ''file exceeds maximum upload size''), w1)
                      else (Inr (sanitizedName, data), w1)))))"

definition evidence_number :: "string \<Rightarrow> int \<Rightarrow> string" where
  "evidence_number caseRef counter = caseRef @ ''-'' @ zero_pad 5 counter"

definition upload_store ::
  "evidence_env \<Rightarrow> UploadInput \<Rightarrow> string \<Rightarrow> string \<Rightarrow> 'a evidence_db_scheme
     \<Rightarrow> (go_error + EvidenceItem) \<times> 'a evidence_db_scheme" where
  \<comment> \<open>from the time stamp to the row: number, object, record, and the clean-up when that fails\<close>
  "upload_store E i name data w0 =
     (case stamp_digest E (lib_sha256 (ee_lib E) data) w0 of (stamp, w1) \<Rightarrow>
     (case GetReferenceCode (up_CaseID i) w1 of
        (Inl err, w2) \<Rightarrow> (Inl (wrapf ''get case reference code'' err), w2)
      | (Inr caseRef, w2) \<Rightarrow>
     (case IncrementEvidenceCounter (up_CaseID i) w2 of
        (Inl err, w3) \<Rightarrow> (Inl (wrapf ''generate evidence number'' err), w3)
      | (Inr counter, w3) \<Rightarrow>
          let storageKey = StorageObjectKey (ee_lib E) (up_CaseID i) (new_uuid w3) 1 name; w4 = tick w3 in
     (case PutObject storageKey data (ee_detect E data) w4 of
        (Some err, w5) \<Rightarrow> (Inl (wrapf ''store evidence file'' err), w5)
      | (None, w5) \<Rightarrow>
     (case evidence_Create E (upload_record E i data name (evidence_number caseRef counter) storageKey stamp) w5 of
        (Inl err, w6) \<Rightarrow> (Inl (wrapf ''create evidence record'' err), snd (DeleteObject storageKey w6))
      | (Inr e, w6) \<Rightarrow> (Inr e, w6))))))"

definition Upload ::
  "evidence_env \<Rightarrow> UploadInput \<Rightarrow> 'a evidence_db_scheme \<Rightarrow> (go_error + EvidenceItem) \<times> 'a evidence_db_scheme" where
  "Upload E i w =
     (case upload_checks E i w of
        (Inl err, w1) \<Rightarrow> (Inl err, w1)
      | (Inr (name, data), w1) \<Rightarrow>
          (case upload_store E i name data w1 of
             (Inl err, w2) \<Rightarrow> (Inl err, w2)
           | (Inr e, w2) \<Rightarrow>
               let w3 = w2\<lparr>thumb_jobs := \<lparr>tj_evidence = ei_ID e, tj_case = up_CaseID i,
                                tj_mime = ee_detect E data, tj_data = data\<rparr> # thumb_jobs w2\<rparr>;
                   w4 = recordCustodyEvent E (up_CaseID i) (ei_ID e) ''evidence_uploaded'' (up_UploadedBy i)
                          [(''evidence_number'', derefStr (ei_EvidenceNumber e)), (''filename'', name),
                           (''sha256'', hex_encode (lib_sha256 (ee_lib E) data)),
                           (''size_bytes'', itoa (int (length data))), (''mime_type'', ee_detect E data)] w3
               in (Inr e, indexEvidence E e w4)))"

section \<open>The other operations\<close>

definition evidence_List ::
  "evidence_env \<Rightarrow> EvidenceFilter \<Rightarrow> Pagination \<Rightarrow> 'a evidence_db_scheme
     \<Rightarrow> (go_error + EvidenceItem PaginatedResult) \<times> 'a evidence_db_scheme" where
  "evidence_List E f page0 w =
     (case evidence_FindByCase E f page0 w of
        (Inl err, w1) \<Rightarrow> (Inl err, w1)
      | (Inr (es, total_count), w1) \<Rightarrow>
          let page = evidence_clamp page0;
              hasMore = (int (length es) = pg_Limit page \<and> total_count > pg_Limit page)
          in (Inr \<lparr>pr_Items = es, pr_TotalCount = total_count,
                   pr_NextCursor = (if hasMore \<and> es \<noteq> [] then
                      encode_evidence_cursor (ee_lib E) (ei_ID (last es)) else []),
                   pr_HasMore = hasMore\<rparr>, w1))"

definition update_detail :: "go_lib \<Rightarrow> EvidenceUpdate \<Rightarrow> (string \<times> string) list" where
  "update_detail L u =
     (case eu_Description u of Some v \<Rightarrow> [(''description'', ''updated'')] | None \<Rightarrow> []) @
     (case eu_Classification u of Some v \<Rightarrow> [(''classification'', v)] | None \<Rightarrow> []) @
     (case eu_Tags u of
        Some ts \<Rightarrow> [(''tags'', derefStr (lib_json_print L (JArray (map JString ts))))]
      | None \<Rightarrow> [])"

definition UpdateMetadata ::
  "evidence_env \<Rightarrow> uuid \<Rightarrow> EvidenceUpdate \<Rightarrow> string \<Rightarrow> 'a evidence_db_scheme
     \<Rightarrow> (go_error + EvidenceItem) \<times> 'a evidence_db_scheme" where
  "UpdateMetadata E k u0 actorID w =
     (case validateEvidenceUpdate u0 of
        Some err \<Rightarrow> (Inl err, w)
      | None \<Rightarrow>
          let u = u0\<lparr>eu_Description := map_option (\<lambda>d. html_escape (trim_space d)) (eu_Description u0)\<rparr> in
          (case evidence_Update k u w of
             (Inl err, w1) \<Rightarrow> (Inl err, w1)
           | (Inr e, w1) \<Rightarrow>
               (Inr e, indexEvidence E e
                  (recordCustodyEvent E (ei_CaseID e) (ei_ID e) ''metadata_updated'' actorID
                     (update_detail (ee_lib E) u) w1))))"

definition Download ::
  "evidence_env \<Rightarrow> uuid \<Rightarrow> string \<Rightarrow> 'a evidence_db_scheme
     \<Rightarrow> (go_error + (string \<times> string) \<times> string) \<times> 'a evidence_db_scheme" where
  \<comment> \<open>the bytes with their content type, and the file name\<close>
  "Download E k actorID w =
     (case evidence_FindByID k w of
        (Inl err, w1) \<Rightarrow> (Inl err, w1)
      | (Inr e, w1) \<Rightarrow>
          if ei_DestroyedAt e \<noteq> None then
            (Inl (ValidationError ''evidence'' ''evidence has been destroyed''), w1)
          else
            (case GetObject (derefStr (ei_StorageKey e)) w1 of
               (Inl err, w2) \<Rightarrow> (Inl (wrapf ''download evidence file'' err), w2)
             | (Inr x, w2) \<Rightarrow>
                 (Inr (x, ei_Filename e),
                  recordCustodyEvent E (ei_CaseID e) (ei_ID e) ''evidence_downloaded'' actorID
                    [(''filename'', ei_Filename e)] w2)))"

definition GetThumbnail ::
  "uuid \<Rightarrow> 'a evidence_db_scheme \<Rightarrow> (go_error + string) \<times> 'a evidence_db_scheme" where
  "GetThumbnail k w =
     (case evidence_FindByID k w of
        (Inl err, w1) \<Rightarrow> (Inl err, w1)
      | (Inr e, w1) \<Rightarrow>
          if derefStr (ei_ThumbnailKey e) = [] then
            (Inl (ValidationError ''thumbnail'' ''no thumbnail available''), w1)
          else
            (case GetObject (derefStr (ei_ThumbnailKey e)) w1 of
               (Inl err, w2) \<Rightarrow> (Inl (wrapf ''get thumbnail'' err), w2)
             | (Inr x, w2) \<Rightarrow> (Inr (fst x), w2)))"

definition destroy_checks ::
  "DestroyInput \<Rightarrow> EvidenceItem \<Rightarrow> 'a evidence_db_scheme \<Rightarrow> go_error option \<times> 'a evidence_db_scheme" where
  \<comment> \<open>the guards of \<open>Destroy\<close> for an item that is not destroyed yet\<close>
  "destroy_checks i e w =
     (case GetStatus (ei_CaseID e) w of
        (Inl err, w1) \<Rightarrow> (Some (wrapf ''check case status'' err), w1)
      | (Inr caseStatus, w1) \<Rightarrow>
          if caseStatus = ''archived'' then
            (Some (ValidationError ''case'' ''cannot destroy evidence in an archived case''), w1)
          else
            (case GetLegalHold (ei_CaseID e) w1 of
               (Inl err, w2) \<Rightarrow> (Some (wrapf ''check legal hold'' err), w2)
             | (Inr isHeld, w2) \<Rightarrow>
                 (if isHeld then Some (ValidationError ''legal_hold'' ''cannot destroy evidence under legal hold'')
                  else if trim_space (di_Reason i) = [] then
                    Some (ValidationError ''reason'' ''destruction reason is required'')
                  else None, w2)))"

definition Destroy ::
  "evidence_env \<Rightarrow> DestroyInput \<Rightarrow> 'a evidence_db_scheme \<Rightarrow> go_error option \<times> 'a evidence_db_scheme" where
  "Destroy E i w =
     (case evidence_FindByID (di_EvidenceID i) w of
        (Inl err, w1) \<Rightarrow> (Some err, w1)
      | (Inr e, w1) \<Rightarrow>
          if ei_DestroyedAt e \<noteq> None then (None, w1)
          else
            (case destroy_checks i e w1 of
               (Some err, w2) \<Rightarrow> (Some err, w2)
             | (None, w2) \<Rightarrow>
                 (case evidence_MarkDestroyed E (di_EvidenceID i) (di_Reason i) (di_ActorID i) w2 of
                    (Some err, w3) \<Rightarrow> (Some err, w3)
                  | (None, w3) \<Rightarrow>
                      let w4 = snd (DeleteObject (derefStr (ei_StorageKey e)) w3);
                          w5 = (if derefStr (ei_ThumbnailKey e) \<noteq> [] then
                                  snd (DeleteObject (derefStr (ei_ThumbnailKey e)) w4) else w4)
                      in (None, recordCustodyEvent E (ei_CaseID e) (ei_ID e) ''evidence_destroyed'' (di_ActorID i)
                            [(''reason'', di_Reason i), (''filename'', ei_Filename e),
                             (''sha256'', ei_SHA256Hash e)] w5))))"

definition UploadNewVersion ::
  "evidence_env \<Rightarrow> uuid \<Rightarrow> UploadInput \<Rightarrow> 'a evidence_db_scheme
     \<Rightarrow> (go_error + EvidenceItem) \<times> 'a evidence_db_scheme" where
  "UploadNewVersion E parentID i w =
     (case evidence_FindByID parentID w of
        (Inl err, w1) \<Rightarrow> (Inl err, w1)
      | (Inr parent, w1) \<Rightarrow>
          if ei_DestroyedAt parent \<noteq> None then
            (Inl (ValidationError ''evidence'' ''cannot version destroyed evidence''), w1)
          else
            (case Upload E (i\<lparr>up_CaseID := ei_CaseID parent\<rparr>) w1 of
               (Inl err, w2) \<Rightarrow> (Inl err, w2)
             | (Inr e, w2) \<Rightarrow>
                 let rootID = (case ei_ParentID parent of None \<Rightarrow> ei_ID parent | Some p \<Rightarrow> p);
                     w3 = snd (MarkPreviousVersions rootID w2);
                     newVersion = ei_Version parent + 1;
                     w4 = snd (UpdateVersionFields (ei_ID e) rootID newVersion w3);
                     w5 = recordCustodyEvent E (ei_CaseID parent) (ei_ID e) ''new_version_uploaded'' (up_UploadedBy i)
                            [(''parent_id'', lib_uuid_string (ee_lib E) (ei_ID parent)),
                             (''previous_version'', itoa (ei_Version parent)),
                             (''new_version'', itoa newVersion)] w4
                 in evidence_FindByID (ei_ID e) w5))"

definition evidence_GetVersionHistory ::
  "uuid \<Rightarrow> 'a evidence_db_scheme \<Rightarrow> (go_error + EvidenceItem list) \<times> 'a evidence_db_scheme" where
  "evidence_GetVersionHistory evidenceID w = FindVersionHistory evidenceID w"

definition evidence_Get ::
  "uuid \<Rightarrow> 'a evidence_db_scheme \<Rightarrow> (go_error + EvidenceItem) \<times> 'a evidence_db_scheme" where
  "evidence_Get k w = evidence_FindByID k w"

end
