(* ===== verification/Evidence_Api.thy ===== *)
theory Evidence_Api
  imports Evidence_Service
begin

text \<open>
  \<open>internal/evidence/handler.go\<close>: the HTTP handlers of evidence and their routes, none of which is
  mounted under a permission middleware. The multipart reader and the JSON decoder of the tags are
  parameters.
\<close>

text \<open>
  A parsed form: the part \<open>file\<close>, if there is one, as what reading it gives, its name and its size,
  and the other fields.
\<close>

record upload_form =
  uf_file :: "((go_error + string) \<times> string \<times> int) option"
  uf_value :: "string \<Rightarrow> string"

record form_lib =
  fl_parse :: "request \<Rightarrow> go_error + upload_form"
  fl_tags :: "string \<Rightarrow> go_error + string list option"

record custodyJSON =
  cj_ID :: string
  cj_CaseID :: string
  cj_EvidenceID :: string
  cj_Action :: string
  cj_ActorUserID :: string
  cj_Detail :: string
  cj_HashValue :: string
  cj_PreviousHash :: string
  cj_Timestamp :: string

text \<open>\<open>EFile\<close> is a streamed file with its content type, file name and length.\<close>

datatype evidence_body =
    EItem EvidenceItem
  | EItems "EvidenceItem list"
  | EFile string string string int
  | EThumb string
  | ECustody "custodyJSON list"
  | EFields "(string \<times> string) list"

section \<open>Helpers\<close>

definition evidence_decodeBody :: "'v body_decoder \<Rightarrow> request \<Rightarrow> go_error + 'v" where
  "evidence_decodeBody D r =
     (case dec_decode D (take (MaxBodySize + 1) (req_body r)) of
        Inl err \<Rightarrow>
          if errors_is err ErrUnexpectedEOF \<or> contains (err_text err) ''unexpected end''
          then Inl (ValidationError ''body'' ''request body too large'')
          else Inl (ValidationError ''body'' ''invalid JSON'')
      | Inr (v, rest) \<Rightarrow> Inr v)"

definition evidence_parsePagination :: "request \<Rightarrow> Pagination" where
  "evidence_parsePagination r =
     \<lparr>pg_Limit = (let l = req_query r ''limit'' in
                   if l \<noteq> [] then (case Atoi l of Some n \<Rightarrow> if n > 0 then n else 0 | None \<Rightarrow> 0) else 0),
      pg_Cursor = req_query r ''cursor''\<rparr>"

definition splitTags :: "string \<Rightarrow> string list" where
  "splitTags s = filter (\<lambda>t. t \<noteq> []) (map trim_space (split_byte (CHR '','') s))"

definition evidence_respondServiceError :: "go_error \<Rightarrow> 'b http_response" where
  \<comment> \<open>a panic does not come here: the recovery middleware answers it with an empty 500\<close>
  "evidence_respondServiceError err =
     (if err = slice_panic then RespondError 500 []
      else if as_validation err \<noteq> None then RespondError 400 (err_text err)
      else if errors_is err ErrEvidenceNotFound then RespondError 404 ''not found''
      else RespondError 500 ''internal error'')"

section \<open>Handlers\<close>

definition form_source_date :: "go_lib \<Rightarrow> upload_form \<Rightarrow> time option" where
  "form_source_date L F =
     (let sd = uf_value F ''source_date'' in
      if sd = [] then None
      else (case lib_parse_time L RFC3339 sd of
              Inr t \<Rightarrow> Some t
            | Inl err \<Rightarrow> (case lib_parse_time L ''2006-01-02'' sd of Inr t \<Rightarrow> Some t | Inl err \<Rightarrow> None)))"

definition form_tags :: "form_lib \<Rightarrow> upload_form \<Rightarrow> string list option" where
  "form_tags M F =
     (let tagsStr = uf_value F ''tags'' in
      if tagsStr = [] then None
      else (case fl_tags M tagsStr of Inr tags \<Rightarrow> tags | Inl err \<Rightarrow> Some (splitTags tagsStr)))"

definition Handler_Upload ::
  "evidence_env \<Rightarrow> form_lib \<Rightarrow> ctx \<Rightarrow> request \<Rightarrow> 'a evidence_db_scheme
     \<Rightarrow> evidence_body http_response \<times> 'a evidence_db_scheme" where
  "Handler_Upload E M c r w =
     (case GetAuthContext c of
        None \<Rightarrow> (RespondError 500 ''internal error'', w)
      | Some ac \<Rightarrow>
          (case lib_uuid_parse (ee_lib E) (req_param r ''caseID'') of
             Inl err \<Rightarrow> (RespondError 400 ''invalid case ID'', w)
           | Inr caseID \<Rightarrow>
               (case fl_parse M r of
                  Inl err \<Rightarrow> (RespondError 400 ''invalid multipart form'', w)
                | Inr F \<Rightarrow>
                    (case uf_file F of
                       None \<Rightarrow> (RespondError 400 ''file field is required'', w)
                     | Some (content, filename, size_bytes) \<Rightarrow>
                         let classification = (if uf_value F ''classification'' = [] then ClassificationRestricted
                                               else uf_value F ''classification'');
                             input = \<lparr>up_CaseID = caseID, up_File = Some content, up_Filename = filename,
                               up_SizeBytes = size_bytes, up_Classification = classification,
                               up_Description = uf_value F ''description'', up_Tags = form_tags M F,
                               up_UploadedBy = UserID ac, up_UploadedByName = Username ac,
                               up_Source = uf_value F ''source'',
                               up_SourceDate = form_source_date (ee_lib E) F\<rparr>
                         in (case Upload E input w of
                               (Inl err, w1) \<Rightarrow> (evidence_respondServiceError err, w1)
                             | (Inr e, w1) \<Rightarrow> (RespondJSON 201 (EItem e), w1))))))"

definition evidence_filter :: "request \<Rightarrow> uuid \<Rightarrow> EvidenceFilter" where
  \<comment> \<open>\<open>UserRole\<close> is left empty\<close>
  "evidence_filter r caseID =
     \<lparr>ef_CaseID = caseID, ef_Classification = req_query r ''classification'',
      ef_MimeType = req_query r ''mime_type'',
      ef_Tags = (let t = req_query r ''tags'' in if t \<noteq> [] then split_byte (CHR '','') t else []),
      ef_CurrentOnly = (req_query r ''current_only'' = ''true''), ef_IncludeDestroyed = False,
      ef_SearchQuery = req_query r ''q'', ef_UserRole = []\<rparr>"

definition Handler_ListByCase ::
  "evidence_env \<Rightarrow> request \<Rightarrow> 'a evidence_db_scheme \<Rightarrow> evidence_body http_response \<times> 'a evidence_db_scheme" where
  "Handler_ListByCase E r w =
     (case lib_uuid_parse (ee_lib E) (req_param r ''caseID'') of
        Inl err \<Rightarrow> (RespondError 400 ''invalid case ID'', w)
      | Inr caseID \<Rightarrow>
          (case evidence_List E (evidence_filter r caseID) (evidence_parsePagination r) w of
             (Inl err, w1) \<Rightarrow> (evidence_respondServiceError err, w1)
           | (Inr res, w1) \<Rightarrow>
               (RespondPaginated 200 (EItems (pr_Items res)) (pr_TotalCount res) (pr_NextCursor res)
                  (pr_HasMore res), w1)))"

definition Handler_GetEvidence ::
  "evidence_env \<Rightarrow> request \<Rightarrow> 'a evidence_db_scheme \<Rightarrow> evidence_body http_response \<times> 'a evidence_db_scheme" where
  "Handler_GetEvidence E r w =
     (case lib_uuid_parse (ee_lib E) (req_param r ''id'') of
        Inl err \<Rightarrow> (RespondError 400 ''invalid evidence ID'', w)
      | Inr k \<Rightarrow>
          (case evidence_Get k w of
             (Inl err, w1) \<Rightarrow> (evidence_respondServiceError err, w1)
           | (Inr e, w1) \<Rightarrow> (RespondJSON 200 (EItem e), w1)))"

definition Handler_Download ::
  "evidence_env \<Rightarrow> ctx \<Rightarrow> request \<Rightarrow> 'a evidence_db_scheme \<Rightarrow> evidence_body http_response \<times> 'a evidence_db_scheme" where
  "Handler_Download E c r w =
     (case GetAuthContext c of
        None \<Rightarrow> (RespondError 500 ''internal error'', w)
      | Some ac \<Rightarrow>
          (case lib_uuid_parse (ee_lib E) (req_param r ''id'') of
             Inl err \<Rightarrow> (RespondError 400 ''invalid evidence ID'', w)
           | Inr k \<Rightarrow>
               (case Download E k (UserID ac) w of
                  (Inl err, w1) \<Rightarrow> (evidence_respondServiceError err, w1)
                | (Inr ((data, contentType), filename), w1) \<Rightarrow>
                    (RespondJSON 200 (EFile data contentType filename (int (length data))), w1))))"

definition Handler_GetThumbnail ::
  "evidence_env \<Rightarrow> request \<Rightarrow> 'a evidence_db_scheme \<Rightarrow> evidence_body http_response \<times> 'a evidence_db_scheme" where
  "Handler_GetThumbnail E r w =
     (case lib_uuid_parse (ee_lib E) (req_param r ''id'') of
        Inl err \<Rightarrow> (RespondError 400 ''invalid evidence ID'', w)
      | Inr k \<Rightarrow>
          (case GetThumbnail k w of
             (Inl err, w1) \<Rightarrow> (evidence_respondServiceError err, w1)
           | (Inr data, w1) \<Rightarrow> (RespondJSON 200 (EThumb data), w1)))"

definition Handler_GetVersionHistory ::
  "evidence_env \<Rightarrow> request \<Rightarrow> 'a evidence_db_scheme \<Rightarrow> evidence_body http_response \<times> 'a evidence_db_scheme" where
  "Handler_GetVersionHistory E r w =
     (case lib_uuid_parse (ee_lib E) (req_param r ''id'') of
        Inl err \<Rightarrow> (RespondError 400 ''invalid evidence ID'', w)
      | Inr k \<Rightarrow>
          (case evidence_GetVersionHistory k w of
             (Inl err, w1) \<Rightarrow> (evidence_respondServiceError err, w1)
           | (Inr versions, w1) \<Rightarrow> (RespondJSON 200 (EItems versions), w1)))"

definition custody_json :: "go_lib \<Rightarrow> Event \<Rightarrow> custodyJSON" where
  "custody_json L e =
     \<lparr>cj_ID = lib_uuid_string L (ev_ID e), cj_CaseID = lib_uuid_string L (ev_CaseID e),
      cj_EvidenceID = lib_uuid_string L (ev_EvidenceID e), cj_Action = ev_Action e,
      cj_ActorUserID = ev_ActorUserID e, cj_Detail = ev_Detail e, cj_HashValue = ev_HashValue e,
      cj_PreviousHash = ev_PreviousHash e, cj_Timestamp = lib_format L RFC3339 (ev_Timestamp e)\<rparr>"

definition custody_log_limit :: "request \<Rightarrow> int" where
  "custody_log_limit r =
     (let l = req_query r ''limit'' in
      if l = [] then 50
      else (case Atoi l of Some parsed \<Rightarrow> if parsed > 0 \<and> parsed \<le> 200 then parsed else 50 | None \<Rightarrow> 50))"

definition Handler_GetCustodyLog ::
  "evidence_env \<Rightarrow> request \<Rightarrow> 'a evidence_db_scheme \<Rightarrow> evidence_body http_response \<times> 'a evidence_db_scheme" where
  "Handler_GetCustodyLog E r w =
     (case lib_uuid_parse (ee_lib E) (req_param r ''id'') of
        Inl err \<Rightarrow> (RespondError 400 ''invalid evidence ID'', w)
      | Inr k \<Rightarrow>
          let limit = custody_log_limit r in
          (case ListByEvidence (ee_lib E) k limit (req_query r ''cursor'') w of
             (Inl err, w1) \<Rightarrow> (RespondError 500 ''failed to load custody log'', w1)
           | (Inr (events, total_count), w1) \<Rightarrow>
               (RespondPaginated 200 (ECustody (map (custody_json (ee_lib E)) events)) total_count []
                  (int (length events) = limit), w1)))"

definition Handler_UpdateMetadata ::
  "evidence_env \<Rightarrow> EvidenceUpdate body_decoder \<Rightarrow> ctx \<Rightarrow> request \<Rightarrow> 'a evidence_db_scheme
     \<Rightarrow> evidence_body http_response \<times> 'a evidence_db_scheme" where
  "Handler_UpdateMetadata E D c r w =
     (case GetAuthContext c of
        None \<Rightarrow> (RespondError 500 ''internal error'', w)
      | Some ac \<Rightarrow>
          (case lib_uuid_parse (ee_lib E) (req_param r ''id'') of
             Inl err \<Rightarrow> (RespondError 400 ''invalid evidence ID'', w)
           | Inr k \<Rightarrow>
               (case evidence_decodeBody D r of
                  Inl err \<Rightarrow> (RespondError 400 (err_text err), w)
                | Inr u \<Rightarrow>
                    (case UpdateMetadata E k u (UserID ac) w of
                       (Inl err, w1) \<Rightarrow> (evidence_respondServiceError err, w1)
                     | (Inr e, w1) \<Rightarrow> (RespondJSON 200 (EItem e), w1)))))"

definition Handler_Destroy ::
  "evidence_env \<Rightarrow> string body_decoder \<Rightarrow> ctx \<Rightarrow> request \<Rightarrow> 'a evidence_db_scheme
     \<Rightarrow> evidence_body http_response \<times> 'a evidence_db_scheme" where
  "Handler_Destroy E D c r w =
     (case GetAuthContext c of
        None \<Rightarrow> (RespondError 500 ''internal error'', w)
      | Some ac \<Rightarrow>
          (case lib_uuid_parse (ee_lib E) (req_param r ''id'') of
             Inl err \<Rightarrow> (RespondError 400 ''invalid evidence ID'', w)
           | Inr k \<Rightarrow>
               (case evidence_decodeBody D r of
                  Inl err \<Rightarrow> (RespondError 400 (err_text err), w)
                | Inr reason \<Rightarrow>
                    (case Destroy E \<lparr>di_EvidenceID = k, di_Reason = reason, di_ActorID = UserID ac\<rparr> w of
                       (Some err, w1) \<Rightarrow> (evidence_respondServiceError err, w1)
                     | (None, w1) \<Rightarrow> (RespondJSON 200 (EFields [(''status'', ''destroyed'')]), w1)))))"

section \<open>Routes\<close>

datatype evidence_route =
    PostEvidence | ListEvidence | GetOneEvidence | GetDownload | GetThumb | GetVersions | GetCustody
  | PatchEvidence | DeleteEvidence

record evidence_decoders =
  ed_form :: form_lib
  ed_update :: "EvidenceUpdate body_decoder"
  ed_destroy :: "string body_decoder"

fun serve_evidence ::
  "evidence_env \<Rightarrow> evidence_decoders \<Rightarrow> evidence_route \<Rightarrow> request \<Rightarrow> ctx \<Rightarrow> 'a evidence_db_scheme
     \<Rightarrow> evidence_body http_response \<times> 'a evidence_db_scheme" where
  "serve_evidence E D PostEvidence r c w = Handler_Upload E (ed_form D) c r w"
| "serve_evidence E D ListEvidence r c w = Handler_ListByCase E r w"
| "serve_evidence E D GetOneEvidence r c w = Handler_GetEvidence E r w"
| "serve_evidence E D GetDownload r c w = Handler_Download E c r w"
| "serve_evidence E D GetThumb r c w = Handler_GetThumbnail E r w"
| "serve_evidence E D GetVersions r c w = Handler_GetVersionHistory E r w"
| "serve_evidence E D GetCustody r c w = Handler_GetCustodyLog E r w"
| "serve_evidence E D PatchEvidence r c w = Handler_UpdateMetadata E (ed_update D) c r w"
| "serve_evidence E D DeleteEvidence r c w = Handler_Destroy E (ed_destroy D) c r w"

end
