(* ===== verification/Evidence_Life.thy ===== *)
theory Evidence_Life
  imports Evidence_Api
begin

text \<open>
  What each operation on evidence does to the table, the object store and the counters, and the
  invariants of their runs: the bytes in the store are those whose digest the row holds, until the
  item is destroyed, and evidence numbers are not used twice.
\<close>

section \<open>What the recorder and the indexer leave alone\<close>

definition evidence_steps :: "'a evidence_db_scheme \<Rightarrow> 'a evidence_db_scheme \<Rightarrow> bool" where
  \<comment> \<open>time passes and UUIDs are drawn\<close>
  "evidence_steps w w' \<longleftrightarrow> w_tick w \<le> w_tick w' \<and> w_uuid w' = w_uuid w \<and> w_fault w' = w_fault w"

lemma evidence_steps_refl [simp]: "evidence_steps w w"
  by (simp add: evidence_steps_def)

lemma evidence_steps_trans: "evidence_steps u v \<Longrightarrow> evidence_steps v w \<Longrightarrow> evidence_steps u w"
  by (simp add: evidence_steps_def)

lemma evidence_steps_tick [simp]: "evidence_steps w (tick w)"
  by (simp add: evidence_steps_def)

lemma only_ticks_steps: "only_ticks w w' \<Longrightarrow> evidence_steps w w'"
  using only_ticks_sel by (fastforce simp: evidence_steps_def)

definition same_evidence :: "'a evidence_db_scheme \<Rightarrow> 'a evidence_db_scheme \<Rightarrow> bool" where
  "same_evidence w w' \<longleftrightarrow>
     evidence_items w' = evidence_items w \<and> objects w' = objects w \<and> evidence_counter w' = evidence_counter w \<and>
     cases_table w' = cases_table w \<and> disclosures w' = disclosures w \<and> evidence_steps w w'"

lemma same_evidence_refl [simp]: "same_evidence w w"
  by (simp add: same_evidence_def)

lemma same_evidence_trans: "same_evidence u v \<Longrightarrow> same_evidence v w \<Longrightarrow> same_evidence u w"
  unfolding same_evidence_def using evidence_steps_trans by metis

lemma same_evidence_ticks: "only_ticks w w' \<Longrightarrow> same_evidence w w'"
  by (simp add: same_evidence_def evidence_only_ticks only_ticks_steps)

lemma same_evidence_tick [simp]: "same_evidence w (tick w)"
  by (rule same_evidence_ticks) simp

lemma RecordEvidenceEvent_same:
  assumes "RecordEvidenceEvent L c k action actor detail (w :: 'a evidence_db_scheme) = (r, w')"
  shows "same_evidence w w' \<and> thumb_jobs w' = thumb_jobs w"
proof (cases r)
  case None
  with assms custody_Insert_ok [of L _ "tick w" w'] show ?thesis
    by (fastforce simp: RecordEvidenceEvent_def same_evidence_def evidence_steps_def)
next
  case (Some err)
  with assms have "only_ticks (tick w) w'"
    unfolding RecordEvidenceEvent_def by (metis custody_Insert_fail)
  then have "only_ticks w w'" by (rule only_ticks_from_tick)
  then show ?thesis by (simp add: same_evidence_ticks evidence_only_ticks)
qed

lemma recordCustodyEvent_same [simp]:
  "same_evidence w (recordCustodyEvent E c k action actor detail w)"
  "thumb_jobs (recordCustodyEvent E c k action actor detail w) = thumb_jobs w"
  using RecordEvidenceEvent_same [of "ee_lib E" c k action actor detail w]
  by (cases "RecordEvidenceEvent (ee_lib E) c k action actor detail w", simp add: recordCustodyEvent_def)+

lemma indexEvidence_same [simp]:
  "same_evidence w (indexEvidence E e w)" "thumb_jobs (indexEvidence E e w) = thumb_jobs w"
  by (auto simp: indexEvidence_def same_evidence_def evidence_steps_def split: option.splits)

lemma evidence_FindByID_ok:
  "evidence_FindByID k w = (Inr e, w') \<Longrightarrow> w' = tick w \<and> find_item k (evidence_items w) = Some e"
  by (auto simp: evidence_FindByID_def split: option.splits)

lemma evidence_FindByID_state: "evidence_FindByID k w = (r, w') \<Longrightarrow> w' = tick w"
  by (auto simp: evidence_FindByID_def split: option.splits)

lemma find_item_Some: "find_item k rows = Some e \<Longrightarrow> e \<in> set rows \<and> ei_ID e = k"
  by (auto simp: find_item_def find_Some_iff)

lemma find_item_update:
  "(\<And>e. ei_ID (g e) = ei_ID e) \<Longrightarrow> find_item k (update_items_where P g rows) =
     map_option (\<lambda>e. if P e then g e else e) (find_item k rows)"
  by (induction rows) (auto simp: find_item_def update_items_where_def)

lemma find_item_append:
  "find_item k (rows @ [row]) =
     (case find_item k rows of Some e \<Rightarrow> Some e | None \<Rightarrow> if ei_ID row = k then Some row else None)"
  by (induction rows) (auto simp: find_item_def)

lemma find_item_in: "distinct (map ei_ID rows) \<Longrightarrow> e \<in> set rows \<Longrightarrow> find_item (ei_ID e) rows = Some e"
  by (induction rows) (auto simp: find_item_def image_iff)

section \<open>Upload\<close>

lemma IncrementEvidenceCounter_ok:
  assumes "IncrementEvidenceCounter c w = (Inr n, w')"
  shows "n = evidence_counter w c + 1 \<and> (\<exists>m. w_tick w \<le> m \<and>
    w' = w\<lparr>w_tick := m, evidence_counter := (evidence_counter w)(c := n)\<rparr>)"
proof -
  have n: "n = evidence_counter w c + 1" and
    w': "w' = (tick (tick (tick (tick w))))\<lparr>evidence_counter := (evidence_counter w)(c := n)\<rparr>"
    using assms by (auto simp: IncrementEvidenceCounter_def pg_call_def Let_def split: option.splits if_splits)
  show ?thesis
    using n unfolding w' by (intro conjI exI [of _ "w_tick w + 4"]) (simp_all add: tick_def fun_upd_def)
qed

lemma IncrementEvidenceCounter_fail: "IncrementEvidenceCounter c w = (Inl err, w') \<Longrightarrow> only_ticks w w'"
  by (auto simp: IncrementEvidenceCounter_def pg_call_def Let_def only_ticks_def tick_def
      split: option.splits if_splits)

lemma evidence_Create_ok:
  assumes "evidence_Create E i w = (Inr e, w')"
  shows "w' = (tick w)\<lparr>evidence_items := evidence_items w @ [e]\<rparr> \<and>
    ei_ID e = new_uuid w \<and> ei_ID e \<notin> ei_ID ` set (evidence_items w) \<and> ei_CaseID e = cei_CaseID i \<and>
    ei_EvidenceNumber e = Some (cei_EvidenceNumber i) \<and> ei_Filename e = cei_Filename i \<and>
    ei_StorageKey e = Some (cei_StorageKey i) \<and> ei_ThumbnailKey e = None \<and> ei_SHA256Hash e = cei_SHA256Hash i \<and>
    ei_SizeBytes e = cei_SizeBytes i \<and> ei_MimeType e = cei_MimeType i \<and> ei_DestroyedAt e = None \<and>
    ei_IsCurrent e \<and> ei_Version e = 1 \<and> ei_ParentID e = None \<and> ei_TSAStatus e = cei_TSAStatus i \<and>
    (\<exists>c. find_case (cei_CaseID i) (cases_table w) = Some c)"
  using assms by (auto simp: evidence_Create_def Let_def split: option.splits if_splits)

lemma evidence_Create_fail: "evidence_Create E i w = (Inl err, w') \<Longrightarrow> w' = tick w"
  by (auto simp: evidence_Create_def Let_def split: option.splits if_splits)

lemma DeleteObject_effect:
  "snd (DeleteObject key w) = (tick w)\<lparr>objects := (if fault w = None then (objects w)(key := None) else objects w)\<rparr>"
  by (auto simp: DeleteObject_def tick_def fault_def split: option.splits)

definition upload_key :: "evidence_env \<Rightarrow> uuid \<Rightarrow> uuid \<Rightarrow> string \<Rightarrow> string" where
  "upload_key E c u name = StorageObjectKey (ee_lib E) c u 1 name"

lemma upload_checks_ok:
  assumes "upload_checks E i w = (Inr (name, data), w')"
  shows "w' = tick w \<and> up_File i = Some (Inr data) \<and> SanitizeFilename (up_Filename i) = Some name \<and>
    int (length data) \<le> ee_max_upload E \<and> validateUploadInput i = None \<and>
    (\<exists>c. find_case (up_CaseID i) (cases_table w) = Some c \<and> c_Status c = ''active'')"
proof -
  obtain content where c: "up_File i = Some (Inr content)" "data = take (nat (ee_max_upload E + 1)) content"
      "int (length data) \<le> ee_max_upload E" "SanitizeFilename (up_Filename i) = Some name"
      "validateUploadInput i = None" "GetStatus (up_CaseID i) w = (Inr ''active'', w')"
    using assms by (auto simp: upload_checks_def Let_def not_less split: option.splits prod.splits sum.splits if_splits)
  then have "data = content" by (auto simp: min_def split: if_splits)
  moreover have "w' = tick w" using c(6) by (auto simp: GetStatus_def dest: case_column_state)
  ultimately show ?thesis using c lookup.status_ok [OF c(6)] by auto
qed

lemma upload_checks_state: "upload_checks E i w = (Inl err, w') \<Longrightarrow> only_ticks w w'"
  by (auto simp: upload_checks_def Let_def GetStatus_def split: option.splits prod.splits sum.splits if_splits
      dest!: case_column_state)

definition uploaded ::
  "evidence_env \<Rightarrow> UploadInput \<Rightarrow> string \<Rightarrow> string \<Rightarrow> 'a evidence_db_scheme \<Rightarrow> EvidenceItem \<Rightarrow> 'a evidence_db_scheme \<Rightarrow> bool" where
  "uploaded E i name data w e w' \<longleftrightarrow>
     (\<exists>c n. find_case (up_CaseID i) (cases_table w) = Some c \<and> w_tick w \<le> n \<and> n < w_tick w' \<and>
        evidence_items w' = evidence_items w @ [e] \<and> ei_ID e \<notin> ei_ID ` set (evidence_items w) \<and>
        (\<exists>m. w_tick w \<le> m \<and> m < w_tick w' \<and> ei_ID e = w_uuid w m) \<and>
        ei_StorageKey e = Some (upload_key E (up_CaseID i) (w_uuid w n) name) \<and>
        objects w' = (objects w)(upload_key E (up_CaseID i) (w_uuid w n) name \<mapsto> (data, ee_detect E data)) \<and>
        evidence_counter w' = (evidence_counter w)(up_CaseID i := evidence_counter w (up_CaseID i) + 1) \<and>
        ei_EvidenceNumber e = Some (evidence_number (c_ReferenceCode c) (evidence_counter w (up_CaseID i) + 1)) \<and>
        ei_CaseID e = up_CaseID i \<and> ei_Filename e = name \<and> ei_SHA256Hash e = hex_encode (lib_sha256 (ee_lib E) data) \<and>
        ei_SizeBytes e = int (length data) \<and> ei_DestroyedAt e = None \<and> ei_ThumbnailKey e = None \<and>
        ei_IsCurrent e \<and> ei_Version e = 1 \<and> ei_ParentID e = None \<and>
        cases_table w' = cases_table w \<and> disclosures w' = disclosures w \<and> evidence_steps w w')"

lemma upload_store_ok:
  assumes "upload_store E i name data w = (Inr e, w')"
  shows "uploaded E i name data w e w' \<and> thumb_jobs w' = thumb_jobs w"
proof -
  let ?w1 = "tick w"
  obtain ref w2 where r: "GetReferenceCode (up_CaseID i) ?w1 = (Inr ref, w2)"
    using assms by (auto simp: upload_store_def stamp_digest_def split: prod.splits sum.splits)
  have w2: "w2 = tick ?w1" using r by (auto simp: GetReferenceCode_def dest: case_column_state)
  obtain c where c: "find_case (up_CaseID i) (cases_table w) = Some c" "c_ReferenceCode c = ref"
    using lookup.reference_ok [OF r] by auto
  obtain n w3 where k: "IncrementEvidenceCounter (up_CaseID i) w2 = (Inr n, w3)"
    using assms r by (auto simp: upload_store_def stamp_digest_def split: prod.splits sum.splits)
  obtain m3 where w3: "n = evidence_counter w (up_CaseID i) + 1" "w_tick w2 \<le> m3"
      "w3 = w2\<lparr>w_tick := m3, evidence_counter := (evidence_counter w2)(up_CaseID i := n)\<rparr>"
    using IncrementEvidenceCounter_ok [OF k] w2 by auto
  define key where "key = upload_key E (up_CaseID i) (w_uuid w m3) name"
  have key: "StorageObjectKey (ee_lib E) (up_CaseID i) (new_uuid w3) 1 name = key"
    using w2 w3 by (simp add: key_def upload_key_def new_uuid_def)
  obtain w5 where p: "PutObject key data (ee_detect E data) (tick w3) = (None, w5)"
    using assms r k key by (auto simp: upload_store_def stamp_digest_def Let_def split: prod.splits sum.splits option.splits)
  obtain m5 where w5: "w_tick (tick w3) \<le> m5"
      "w5 = (tick w3)\<lparr>w_tick := m5, objects := (objects (tick w3))(key \<mapsto> (data, ee_detect E data))\<rparr>"
    using PutObject_ok [OF p] by auto
  obtain s where s: "evidence_Create E (upload_record E i data name (evidence_number ref n) key s) w5 = (Inr e, w')"
    using assms r k key p by (auto simp: upload_store_def stamp_digest_def Let_def split: prod.splits sum.splits option.splits)
  have rec: "cei_CaseID (upload_record E i data name (evidence_number ref n) key s) = up_CaseID i"
      "cei_EvidenceNumber (upload_record E i data name (evidence_number ref n) key s) = evidence_number ref n"
      "cei_Filename (upload_record E i data name (evidence_number ref n) key s) = name"
      "cei_StorageKey (upload_record E i data name (evidence_number ref n) key s) = key"
      "cei_SHA256Hash (upload_record E i data name (evidence_number ref n) key s) = hex_encode (lib_sha256 (ee_lib E) data)"
      "cei_SizeBytes (upload_record E i data name (evidence_number ref n) key s) = int (length data)"
    by (simp_all add: upload_record_def split: prod.split)
  note e = evidence_Create_ok [OF s, unfolded rec]
  have "evidence_items w5 = evidence_items w" "objects w5 = (objects w)(key \<mapsto> (data, ee_detect E data))"
      "evidence_counter w5 = (evidence_counter w)(up_CaseID i := n)" "cases_table w5 = cases_table w"
      "disclosures w5 = disclosures w" "w_uuid w5 = w_uuid w" "w_fault w5 = w_fault w"
      "w_tick w \<le> m3" "m3 < w_tick w5" "thumb_jobs w5 = thumb_jobs w"
    using w5 w3 w2 by simp_all
  then show ?thesis
    unfolding uploaded_def using e c w3(1) key_def
    by (intro conjI exI [of _ c] exI [of _ m3] exI [of _ "w_tick w5"]) (auto simp: evidence_steps_def new_uuid_def)
qed

lemma uploaded_later:
  assumes "uploaded E i name data w e w1" "same_evidence w1 w'"
  shows "uploaded E i name data w e w'"
proof -
  obtain c n m where u: "find_case (up_CaseID i) (cases_table w) = Some c" "w_tick w \<le> n" "n < w_tick w1"
      "w_tick w \<le> m" "m < w_tick w1" "ei_ID e = w_uuid w m"
      "objects w1 = (objects w)(upload_key E (up_CaseID i) (w_uuid w n) name \<mapsto> (data, ee_detect E data))"
      "ei_StorageKey e = Some (upload_key E (up_CaseID i) (w_uuid w n) name)"
      "ei_EvidenceNumber e = Some (evidence_number (c_ReferenceCode c) (evidence_counter w (up_CaseID i) + 1))"
    using assms(1) unfolding uploaded_def by blast
  with assms show ?thesis
    unfolding uploaded_def
    by (intro exI [of _ c] exI [of _ n] conjI exI [of _ m]) (auto simp: same_evidence_def evidence_steps_def)
qed

lemma uploaded_from_tick:
  assumes "uploaded E i name data (tick w) e w'"
  shows "uploaded E i name data w e w'"
proof -
  obtain c n m where "find_case (up_CaseID i) (cases_table w) = Some c" "Suc (w_tick w) \<le> n" "n < w_tick w'"
      "Suc (w_tick w) \<le> m" "m < w_tick w'" "ei_ID e = w_uuid w m"
      "objects w' = (objects w)(upload_key E (up_CaseID i) (w_uuid w n) name \<mapsto> (data, ee_detect E data))"
      "ei_StorageKey e = Some (upload_key E (up_CaseID i) (w_uuid w n) name)"
      "ei_EvidenceNumber e = Some (evidence_number (c_ReferenceCode c) (evidence_counter w (up_CaseID i) + 1))"
    using assms unfolding uploaded_def by auto
  with assms show ?thesis
    unfolding uploaded_def
    by (intro exI [of _ c] exI [of _ n] conjI exI [of _ m]) (auto simp: evidence_steps_def)
qed

lemma Upload_ok:
  assumes "Upload E i w = (Inr e, w')"
  shows "\<exists>name data. up_File i = Some (Inr data) \<and> SanitizeFilename (up_Filename i) = Some name \<and>
    int (length data) \<le> ee_max_upload E \<and> validateUploadInput i = None \<and>
    (\<exists>c. find_case (up_CaseID i) (cases_table w) = Some c \<and> c_Status c = ''active'') \<and>
    uploaded E i name data w e w' \<and>
    thumb_jobs w' = \<lparr>tj_evidence = ei_ID e, tj_case = up_CaseID i, tj_mime = ee_detect E data, tj_data = data\<rparr> # thumb_jobs w"
proof -
  obtain name data w1 where c: "upload_checks E i w = (Inr (name, data), w1)"
    using assms by (auto simp: Upload_def split: prod.splits sum.splits)
  note ok = upload_checks_ok [OF c]
  obtain w2 where s: "upload_store E i name data w1 = (Inr e, w2)"
    using assms c by (auto simp: Upload_def Let_def split: prod.splits sum.splits)
  note up = upload_store_ok [OF s]
  define w3 where "w3 = w2\<lparr>thumb_jobs := \<lparr>tj_evidence = ei_ID e, tj_case = up_CaseID i,
    tj_mime = ee_detect E data, tj_data = data\<rparr> # thumb_jobs w2\<rparr>"
  obtain d where w': "w' = indexEvidence E e (recordCustodyEvent E (up_CaseID i) (ei_ID e) ''evidence_uploaded''
      (up_UploadedBy i) d w3)"
    using assms c s by (auto simp: Upload_def Let_def w3_def)
  have "same_evidence w2 w3" by (simp add: same_evidence_def evidence_steps_def w3_def)
  then have "same_evidence w2 w'"
    unfolding w' by (meson same_evidence_trans recordCustodyEvent_same(1) indexEvidence_same(1))
  then have "uploaded E i name data w e w'"
    using up ok uploaded_later uploaded_from_tick by blast
  moreover have "thumb_jobs w' = \<lparr>tj_evidence = ei_ID e, tj_case = up_CaseID i, tj_mime = ee_detect E data,
      tj_data = data\<rparr> # thumb_jobs w"
    using up ok by (simp add: w' w3_def)
  ultimately show ?thesis using ok by blast
qed

text \<open>An upload that fails changes no row, and in the store at most the key it drew.\<close>

lemma upload_store_fail:
  assumes "upload_store E i name data w = (Inl err, w')"
  shows "evidence_items w' = evidence_items w \<and> cases_table w' = cases_table w \<and> disclosures w' = disclosures w \<and>
    thumb_jobs w' = thumb_jobs w \<and> evidence_steps w w' \<and>
    (evidence_counter w' = evidence_counter w \<or>
     evidence_counter w' = (evidence_counter w)(up_CaseID i := evidence_counter w (up_CaseID i) + 1)) \<and>
    (objects w' = objects w \<or>
     (\<exists>n x. w_tick w \<le> n \<and> n < w_tick w' \<and> x \<in> {None, Some (data, ee_detect E data)} \<and>
        objects w' = (objects w)(upload_key E (up_CaseID i) (w_uuid w n) name := x)))"
proof -
  let ?w1 = "tick w"
  obtain r w2 where r: "GetReferenceCode (up_CaseID i) ?w1 = (r, w2)" by fastforce
  have w2: "w2 = tick ?w1" using r by (auto simp: GetReferenceCode_def dest: case_column_state)
  show ?thesis
  proof (cases r)
    case (Inl e)
    with assms r w2 show ?thesis by (auto simp: upload_store_def stamp_digest_def evidence_steps_def)
  next
    case ref: (Inr ref)
    obtain k w3 where k: "IncrementEvidenceCounter (up_CaseID i) w2 = (k, w3)" by fastforce
    show ?thesis
    proof (cases k)
      case (Inl e)
      then have "w' = w3" using assms r ref k by (auto simp: upload_store_def stamp_digest_def)
      moreover have "only_ticks w w3"
        using IncrementEvidenceCounter_fail [OF k [unfolded Inl]] w2 by (simp add: only_ticks_from_tick)
      ultimately show ?thesis by (simp add: evidence_only_ticks only_ticks_steps)
    next
      case n: (Inr n)
      obtain m3 where w3: "n = evidence_counter w (up_CaseID i) + 1" "w_tick w2 \<le> m3"
          "w3 = w2\<lparr>w_tick := m3, evidence_counter := (evidence_counter w2)(up_CaseID i := n)\<rparr>"
        using IncrementEvidenceCounter_ok [OF k [unfolded n]] w2 by auto
      define key where "key = upload_key E (up_CaseID i) (w_uuid w m3) name"
      have key: "StorageObjectKey (ee_lib E) (up_CaseID i) (new_uuid w3) 1 name = key"
        using w2 w3 by (simp add: key_def upload_key_def new_uuid_def)
      obtain p w5 where p: "PutObject key data (ee_detect E data) (tick w3) = (p, w5)" by fastforce
      show ?thesis
      proof (cases p)
        case (Some e)
        then have "w' = w5"
          using assms r ref k n key p by (auto simp: upload_store_def stamp_digest_def Let_def)
        moreover have "only_ticks w3 w5"
          using PutObject_fail [OF p [unfolded Some]] by (rule only_ticks_from_tick)
        ultimately show ?thesis
          using w3 w2 evidence_only_ticks [of w3 w5] only_ticks_sel [of w3 w5] by (auto simp: evidence_steps_def)
      next
        case None
        obtain m5 where w5: "w_tick (tick w3) \<le> m5"
            "w5 = (tick w3)\<lparr>w_tick := m5, objects := (objects (tick w3))(key \<mapsto> (data, ee_detect E data))\<rparr>"
          using PutObject_ok [OF p [unfolded None]] by auto
        obtain ci w6 e where "evidence_Create E ci w5 = (Inl e, w6)" "w' = snd (DeleteObject key w6)"
          using assms r ref k n key p None
          by (auto simp: upload_store_def stamp_digest_def Let_def split: prod.splits sum.splits)
        then have w': "w' = snd (DeleteObject key (tick w5))" using evidence_Create_fail by blast
        have o: "objects w' = (objects w)(key := (if fault (tick w5) = None then None else Some (data, ee_detect E data)))"
          unfolding w' DeleteObject_effect using w5 w3 w2 by (auto simp: fun_upd_def)
        have "evidence_items w' = evidence_items w" "evidence_counter w' = (evidence_counter w)(up_CaseID i := n)"
            "cases_table w' = cases_table w" "disclosures w' = disclosures w" "thumb_jobs w' = thumb_jobs w"
            "evidence_steps w w'" "w_tick w \<le> m3" "m3 < w_tick w'"
          unfolding w' DeleteObject_effect using w5 w3 w2 by (simp_all add: evidence_steps_def)
        with o w3(1) show ?thesis
          unfolding key_def by (intro conjI disjI2 exI [of _ m3]) auto
      qed
    qed
  qed
qed

end
