(* ===== verification/Evidence_Runs.thy ===== *)
theory Evidence_Runs
  imports Evidence_Life Cases_Life
begin

text \<open>
  Runs of operations on evidence. Every operation is a sequence of three kinds of effect: a row is
  added with its object, a row is destroyed, or rows keep what identifies and protects them. The
  invariants are proved for the effects. They need that the UUIDs that are drawn differ from one
  another and that their text has no slash.
\<close>

section \<open>Keys\<close>

definition key_env :: "evidence_env \<Rightarrow> 'a evidence_db_scheme \<Rightarrow> bool" where
  \<comment> \<open>of the state at the end of a run: no UUID was drawn twice so far\<close>
  "key_env E w \<longleftrightarrow>
     inj_on (w_uuid w) {..<w_tick w} \<and> uuid_lib_ok (ee_lib E) \<and>
     (\<forall>u. CHR ''/'' \<notin> set (lib_uuid_string (ee_lib E) u))"

definition key_from :: "evidence_env \<Rightarrow> 'a evidence_db_scheme \<Rightarrow> EvidenceItem \<Rightarrow> bool" where
  \<comment> \<open>the storage key was drawn in the past, and a thumbnail key has the form of one\<close>
  "key_from E w e \<longleftrightarrow>
     (\<exists>n name. n < w_tick w \<and> CHR ''/'' \<notin> set name \<and>
        ei_StorageKey e = Some (upload_key E (ei_CaseID e) (w_uuid w n) name)) \<and>
     (\<forall>k. ei_ThumbnailKey e = Some k \<longrightarrow> (\<exists>c u. k = ThumbnailKey (ee_lib E) c u))"

lemma uuid_string_inj: "uuid_lib_ok L \<Longrightarrow> lib_uuid_string L u = lib_uuid_string L v \<Longrightarrow> u = v"
  unfolding uuid_lib_ok_def by (metis sum.inject(2))

lemma itoa_no_slash: "0 \<le> v \<Longrightarrow> CHR ''/'' \<notin> set (itoa v)"
  using nat_digits_chars [of "CHR ''/''"] by (auto simp: itoa_def)

lemma upload_key_inj:
  assumes "key_env E w" "CHR ''/'' \<notin> set name" "CHR ''/'' \<notin> set name'"
    and "upload_key E c u name = upload_key E c' u' name'"
  shows "c = c' \<and> u = u' \<and> name = name'"
proof -
  let ?s = "lib_uuid_string (ee_lib E)"
  have p: "split_byte (CHR ''/'') (upload_key E a b n) = [''evidence'', ?s a, ?s b, itoa 1, n]"
    if "CHR ''/'' \<notin> set n" for a b n
    unfolding upload_key_def StorageObjectKey_def using assms(1) that itoa_no_slash [of 1]
    by (intro split_join_byte) (auto simp: key_env_def)
  from p [OF assms(2), of c u] p [OF assms(3), of c' u'] assms(4)
  have "?s c = ?s c'" "?s u = ?s u'" "name = name'" by simp_all
  with assms(1) show ?thesis by (auto simp: key_env_def dest: uuid_string_inj)
qed

lemma thumb_key_other: "ThumbnailKey L c u \<noteq> upload_key E c' u' name"
  by (simp add: ThumbnailKey_def upload_key_def StorageObjectKey_def)

lemma fresh_key:
  assumes "key_env E w'" "key_from E w e" "w_tick w \<le> n" "CHR ''/'' \<notin> set name"
    and "n < w_tick w'" "evidence_steps w w'"
  shows "ei_StorageKey e \<noteq> Some (upload_key E c (w_uuid w n) name)"
proof
  assume k: "ei_StorageKey e = Some (upload_key E c (w_uuid w n) name)"
  from assms(2) obtain m name' where m: "m < w_tick w" "CHR ''/'' \<notin> set name'"
      "ei_StorageKey e = Some (upload_key E (ei_CaseID e) (w_uuid w m) name')"
    unfolding key_from_def by blast
  with k have "upload_key E (ei_CaseID e) (w_uuid w m) name' = upload_key E c (w_uuid w n) name" by simp
  then have "w_uuid w m = w_uuid w n" using upload_key_inj [OF assms(1) m(2) assms(4)] by blast
  then have "w_uuid w' m = w_uuid w' n" using assms(6) by (simp add: evidence_steps_def)
  then have "m = n" using assms(1,3,5) m(1) by (auto simp: key_env_def dest: inj_onD)
  with m(1) assms(3) show False by simp
qed

lemma sanitized_no_slash: "SanitizeFilename s = Some name \<Longrightarrow> CHR ''/'' \<notin> set name"
  using sanitize_cases safe_char_excludes by blast

section \<open>Effects\<close>

definition kept :: "evidence_env \<Rightarrow> EvidenceItem \<Rightarrow> EvidenceItem \<Rightarrow> bool" where
  "kept E e e' \<longleftrightarrow>
     ei_ID e' = ei_ID e \<and> ei_CaseID e' = ei_CaseID e \<and> ei_EvidenceNumber e' = ei_EvidenceNumber e \<and>
     ei_Filename e' = ei_Filename e \<and> ei_StorageKey e' = ei_StorageKey e \<and> ei_SHA256Hash e' = ei_SHA256Hash e \<and>
     ei_DestroyedAt e' = ei_DestroyedAt e \<and> ei_DestroyedBy e' = ei_DestroyedBy e \<and>
     ei_DestroyReason e' = ei_DestroyReason e \<and>
     (ei_ThumbnailKey e' = ei_ThumbnailKey e \<or> (\<exists>c u. ei_ThumbnailKey e' = Some (ThumbnailKey (ee_lib E) c u)))"

lemma kept_refl [simp]: "kept E e e"
  by (simp add: kept_def)

definition refs_kept :: "Case list \<Rightarrow> Case list \<Rightarrow> bool" where
  "refs_kept rows rows' \<longleftrightarrow>
     (\<forall>k c. find_case k rows = Some c \<longrightarrow>
        (\<exists>c'. find_case k rows' = Some c' \<and> c_ReferenceCode c' = c_ReferenceCode c))"

lemma case_change_refs: "case_change E rows rows' \<Longrightarrow> refs_kept rows rows'"
  unfolding refs_kept_def by (meson case_change_evolves case_evolves_def)

lemma case_change_refl [simp]: "case_change E rows rows"
  by (rule case_change.unchanged)

definition mark_destroyed :: "time \<Rightarrow> string \<Rightarrow> string \<Rightarrow> EvidenceItem \<Rightarrow> EvidenceItem" where
  "mark_destroyed t by reason e =
     e\<lparr>ei_DestroyedAt := Some t, ei_DestroyedBy := Some by, ei_DestroyReason := Some reason\<rparr>"

inductive evidence_effect :: "evidence_env \<Rightarrow> bool \<Rightarrow> 'a evidence_db_scheme \<Rightarrow> 'a evidence_db_scheme \<Rightarrow> bool" for E D w w' where
  \<comment> \<open>\<open>D\<close>: whether a destruction is allowed\<close>
  eff_keep: "evidence_items w' = map g (evidence_items w) \<Longrightarrow> (\<And>e. kept E e (g e)) \<Longrightarrow>
    (\<And>e k. key_env E w' \<Longrightarrow> key_from E w e \<Longrightarrow> ei_StorageKey e = Some k \<Longrightarrow> objects w' k = objects w k) \<Longrightarrow>
    (\<And>c. evidence_counter w c \<le> evidence_counter w' c) \<Longrightarrow> case_change (ee_cases E) (cases_table w) (cases_table w') \<Longrightarrow>
    evidence_steps w w' \<Longrightarrow> evidence_effect E D w w'"
| eff_add: "uploaded E i name data w e w' \<Longrightarrow> CHR ''/'' \<notin> set name \<Longrightarrow> evidence_effect E D w w'"
| eff_destroy: "D \<Longrightarrow> find_item k (evidence_items w) = Some e \<Longrightarrow> ei_DestroyedAt e = None \<Longrightarrow>
    evidence_items w' = update_items_where (\<lambda>e. ei_ID e = k \<and> ei_DestroyedAt e = None) (mark_destroyed t by reason) (evidence_items w) \<Longrightarrow>
    (\<And>e' k'. key_env E w' \<Longrightarrow> key_from E w e \<Longrightarrow> key_from E w e' \<Longrightarrow> ei_StorageKey e' = Some k' \<Longrightarrow>
       ei_StorageKey e' \<noteq> ei_StorageKey e \<Longrightarrow> objects w' k' = objects w k') \<Longrightarrow>
    evidence_counter w' = evidence_counter w \<Longrightarrow> cases_table w' = cases_table w \<Longrightarrow>
    evidence_steps w w' \<Longrightarrow> evidence_effect E D w w'"

abbreviation evidence_effects :: "evidence_env \<Rightarrow> bool \<Rightarrow> 'a evidence_db_scheme \<Rightarrow> 'a evidence_db_scheme \<Rightarrow> bool" where
  "evidence_effects E D \<equiv> (evidence_effect E D)\<^sup>*\<^sup>*"

lemma same_effect: "same_evidence w w' \<Longrightarrow> evidence_effect E D w w'"
  by (rule eff_keep [where g = "\<lambda>e. e"]) (simp_all add: same_evidence_def)

lemma effect_same: "evidence_effects E D u v \<Longrightarrow> same_evidence v w \<Longrightarrow> evidence_effects E D u w"
  by (meson same_effect rtranclp.rtrancl_into_rtrancl)

lemma exec_update_effect:
  assumes "exec_update f P g w = (r, w')" "\<And>e. kept E e (g e)"
  shows "evidence_effect E D w w'"
proof (cases r)
  case None
  with assms have w': "w' = (tick w)\<lparr>evidence_items := update_items_where P g (evidence_items w)\<rparr>"
    by (auto simp: exec_update_def split: option.splits)
  show ?thesis
    unfolding w' using assms(2)
    by (intro eff_keep [where g = "\<lambda>e. if P e then g e else e"])
      (auto simp: update_items_where_def evidence_steps_def)
next
  case (Some err)
  with assms have "w' = tick w" by (auto simp: exec_update_def split: option.splits)
  then show ?thesis by (simp add: same_effect)
qed

lemma put_thumb_effect:
  assumes "PutObject (ThumbnailKey (ee_lib E) c u) d ct w = (r, w')"
  shows "evidence_effect E D w w'"
proof (cases r)
  case None
  then obtain m where "w' = w\<lparr>w_tick := m, objects := (objects w)(ThumbnailKey (ee_lib E) c u \<mapsto> (d, ct))\<rparr>"
      "w_tick w \<le> m"
    using PutObject_ok assms by blast
  then show ?thesis
    by (intro eff_keep [where g = "\<lambda>e. e"])
      (auto simp: evidence_steps_def key_from_def thumb_key_other [symmetric] thumb_key_other)
next
  case (Some err)
  with assms PutObject_fail [of _ d ct w err w'] show ?thesis
    by (auto intro: same_effect same_evidence_ticks)
qed

section \<open>The operations are effects\<close>

lemma Upload_effect:
  assumes "Upload E i w = (r, w')"
  shows "evidence_effect E D w w'"
proof (cases r)
  case (Inr e)
  from Upload_ok [OF assms [unfolded Inr]] obtain name data
    where "SanitizeFilename (up_Filename i) = Some name" "uploaded E i name data w e w'" by blast
  then show ?thesis using eff_add sanitized_no_slash by blast
next
  case (Inl err)
  show ?thesis
  proof (cases "upload_checks E i w")
    case (Pair s w1)
    show ?thesis
    proof (cases s)
      case (Inl err')
      with Pair assms have "only_ticks w w'" by (auto simp: Upload_def dest: upload_checks_state)
      then show ?thesis by (intro same_effect same_evidence_ticks)
    next
      case (Inr nd)
      obtain name data where nd: "nd = (name, data)" by fastforce
      note ok = upload_checks_ok [OF Pair [unfolded Inr nd]]
      have st: "upload_store E i name data (tick w) = (Inl err, w')"
        using assms Pair Inr nd Inl ok by (auto simp: Upload_def Let_def split: prod.splits sum.splits)
      note f = upload_store_fail [OF st]
      have "objects w' k = objects w k"
        if k: "key_env E w'" "key_from E w e" "ei_StorageKey e = Some k" for e k
      proof -
        from ok have "CHR ''/'' \<notin> set name" using sanitized_no_slash by blast
        moreover have "evidence_steps w w'" using f by (simp add: evidence_steps_def)
        ultimately have "k \<noteq> upload_key E (up_CaseID i) (w_uuid w n) name" if "w_tick w \<le> n" "n < w_tick w'" for n
          using fresh_key [OF k(1,2) that(1) _ that(2)] k(3) by auto
        then show ?thesis using f by auto
      qed
      then show ?thesis
        using f by (intro eff_keep [where g = "\<lambda>e. e"]) (auto simp: evidence_steps_def)
    qed
  qed
qed

lemma UpdateMetadata_effect:
  assumes "UpdateMetadata E k u by w = (r, w')"
  shows "evidence_effects E D w w'"
proof -
  define u' where "u' = u\<lparr>eu_Description := map_option (\<lambda>d. html_escape (trim_space d)) (eu_Description u)\<rparr>"
  obtain s w1 where s: "evidence_Update k u' w = (s, w1)" by fastforce
  have g: "kept E e (set_item_columns v e)" for v e by (simp add: kept_def set_item_columns_def)
  have "w1 = tick w \<or> w1 = (tick w)\<lparr>evidence_items :=
      update_items_where (\<lambda>e. ei_ID e = k) (set_item_columns u') (evidence_items w)\<rparr>"
    using s by (auto simp: evidence_Update_def split: option.splits if_splits dest: evidence_FindByID_state)
  moreover have "evidence_effect E D w ((tick w)\<lparr>evidence_items :=
      update_items_where (\<lambda>e. ei_ID e = k) (set_item_columns u') (evidence_items w)\<rparr>)"
    using g by (intro eff_keep [where g = "\<lambda>e. if ei_ID e = k then set_item_columns u' e else e"])
      (auto simp: update_items_where_def evidence_steps_def)
  ultimately have 1: "evidence_effect E D w w1" using same_effect same_evidence_tick by blast
  have "w' = w \<or> same_evidence w1 w'"
    using assms s
    by (cases s) (auto simp: UpdateMetadata_def Let_def u'_def [symmetric] split: option.splits
      intro: same_evidence_trans [OF recordCustodyEvent_same(1) indexEvidence_same(1)])
  with 1 show ?thesis by (auto intro: effect_same)
qed

lemma Download_effect:
  assumes "Download E k by w = (r, w')"
  shows "same_evidence w w'"
proof -
  obtain s w1 where f: "evidence_FindByID k w = (s, w1)" by fastforce
  have w1: "same_evidence w w1" using evidence_FindByID_state [OF f] by simp
  show ?thesis
  proof (cases s)
    case (Inl err)
    with assms f w1 show ?thesis by (simp add: Download_def)
  next
    case (Inr e)
    obtain x w2 where g: "GetObject (derefStr (ei_StorageKey e)) w1 = (x, w2)" by fastforce
    have w2: "same_evidence w w2"
      using w1 same_evidence_ticks [OF GetObject_ticks [OF g]] by (rule same_evidence_trans)
    show ?thesis
    proof (cases "ei_DestroyedAt e")
      case None
      with assms f Inr g w2 show ?thesis
        by (cases x) (auto simp: Download_def intro: same_evidence_trans [OF w2 recordCustodyEvent_same(1)])
    next
      case (Some t)
      with assms f Inr w1 show ?thesis by (simp add: Download_def)
    qed
  qed
qed

lemma UpdateThumbnailKey_effect:
  "evidence_effect E D w (snd (UpdateThumbnailKey k (ThumbnailKey (ee_lib E) c u) w))"
proof -
  have kept: "kept E e (e\<lparr>ei_ThumbnailKey := Some (ThumbnailKey (ee_lib E) c u)\<rparr>)" for e
    unfolding kept_def by auto
  show ?thesis
    by (cases "UpdateThumbnailKey k (ThumbnailKey (ee_lib E) c u) w")
      (auto simp: UpdateThumbnailKey_def kept intro: exec_update_effect)
qed

lemma generateThumbnail_effect: "evidence_effects E D w (generateThumbnail E j w)"
proof (cases "ee_thumb E (tj_data j) (tj_mime j)")
  case (Inr x)
  show ?thesis
  proof (cases x)
    case (Some d)
    let ?k = "ThumbnailKey (ee_lib E) (tj_case j) (tj_evidence j)"
    obtain s w1 where p: "PutObject ?k d ''image/jpeg'' w = (s, w1)" by fastforce
    have 1: "evidence_effect E D w w1" using put_thumb_effect p by blast
    moreover have "generateThumbnail E j w = w1 \<or>
        generateThumbnail E j w = snd (UpdateThumbnailKey (tj_evidence j) ?k w1)"
      using p Inr Some by (auto simp: generateThumbnail_def Let_def split: option.splits)
    ultimately show ?thesis
      using UpdateThumbnailKey_effect by (metis r_into_rtranclp rtranclp.rtrancl_into_rtrancl)
  qed (simp add: generateThumbnail_def Inr)
qed (simp add: generateThumbnail_def)

lemma version_effect:
  "evidence_effect E D w (snd (MarkPreviousVersions root w))"
  "evidence_effect E D w (snd (UpdateVersionFields k root v w))"
proof -
  have a: "kept E e (e\<lparr>ei_IsCurrent := False\<rparr>)" for e by (simp add: kept_def)
  have b: "kept E e (e\<lparr>ei_ParentID := Some root, ei_Version := v, ei_IsCurrent := True\<rparr>)" for e
    by (simp add: kept_def)
  show "evidence_effect E D w (snd (MarkPreviousVersions root w))"
    by (cases "MarkPreviousVersions root w") (auto simp: MarkPreviousVersions_def a intro: exec_update_effect)
  show "evidence_effect E D w (snd (UpdateVersionFields k root v w))"
    by (cases "UpdateVersionFields k root v w") (auto simp: UpdateVersionFields_def b intro: exec_update_effect)
qed

lemma tsa_effect:
  "evidence_effect E D w (snd (evidence_UpdateTSAResult E k token name t w))"
  "evidence_effect E D w (snd (evidence_IncrementTSARetry E k w))"
  "evidence_effect E D w (snd (evidence_MarkTSAFailed k w))"
proof -
  show "evidence_effect E D w (snd (evidence_UpdateTSAResult E k token name t w))"
    unfolding evidence_UpdateTSAResult_def
    by (rule exec_update_effect [OF prod.collapse [symmetric]]) (simp add: kept_def)
  show "evidence_effect E D w (snd (evidence_IncrementTSARetry E k w))"
    unfolding evidence_IncrementTSARetry_def Let_def
    by (rule exec_update_effect [OF prod.collapse [symmetric]]) (simp add: kept_def)
  show "evidence_effect E D w (snd (evidence_MarkTSAFailed k w))"
    unfolding evidence_MarkTSAFailed_def
    by (rule exec_update_effect [OF prod.collapse [symmetric]]) (simp add: kept_def)
qed

lemma UploadNewVersion_effect:
  assumes "UploadNewVersion E p i w = (r, w')"
  shows "evidence_effects E D w w'"
proof -
  obtain s w1 where f: "evidence_FindByID p w = (s, w1)" by fastforce
  have w1: "evidence_effects E D w w1"
    using evidence_FindByID_state [OF f] effect_same [OF rtranclp.rtrancl_refl same_evidence_tick] by simp
  show ?thesis
  proof (cases s)
    case (Inl err)
    with assms f w1 show ?thesis by (simp add: UploadNewVersion_def)
  next
    case (Inr e)
    obtain x w2 where u: "Upload E (i\<lparr>up_CaseID := ei_CaseID e\<rparr>) w1 = (x, w2)" by fastforce
    have w2: "evidence_effects E D w w2"
      using w1 Upload_effect [OF u] by (rule rtranclp.rtrancl_into_rtrancl)
    show ?thesis
    proof (cases x)
      case (Inl err)
      with assms f Inr u w1 w2 show ?thesis by (auto simp: UploadNewVersion_def split: if_splits)
    next
      case x: (Inr e')
      show ?thesis
      proof (cases "ei_DestroyedAt e")
        case None
        define root where "root = (case ei_ParentID e of None \<Rightarrow> ei_ID e | Some p \<Rightarrow> p)"
        define w4 where "w4 = snd (UpdateVersionFields (ei_ID e') root (ei_Version e + 1) (snd (MarkPreviousVersions root w2)))"
        have w4: "evidence_effects E D w w4"
          unfolding w4_def using w2 version_effect by (meson rtranclp.rtrancl_into_rtrancl)
        obtain c k a b d where "evidence_FindByID (ei_ID e') (recordCustodyEvent E c k a b d w4) = (r, w')"
          using assms f Inr u x None
          by (auto simp: UploadNewVersion_def Let_def root_def [symmetric] w4_def [symmetric])
        then have "w' = tick (recordCustodyEvent E c k a b d w4)" by (rule evidence_FindByID_state)
        then have "same_evidence w4 w'"
          using same_evidence_trans [OF recordCustodyEvent_same(1) same_evidence_tick] by blast
        with w4 show ?thesis by (rule effect_same)
      next
        case (Some t)
        with assms f Inr w1 show ?thesis by (simp add: UploadNewVersion_def)
      qed
    qed
  qed
qed

text \<open>A destruction that is reported as done.\<close>

lemma find_item_case: "find_item k rows = Some e \<Longrightarrow> filter (\<lambda>e. ei_ID e = k) rows \<noteq> []"
  by (auto simp: find_item_def find_Some_iff filter_empty_conv)

lemma destroy_checks_state: "destroy_checks i e w = (x, w') \<Longrightarrow> only_ticks w w'"
  by (auto simp: destroy_checks_def GetStatus_def GetLegalHold_def split: prod.splits sum.splits if_splits
      dest!: case_column_state intro: only_ticks_from_tick)

lemma destroy_checks_ok:
  assumes "destroy_checks i e w = (None, w')"
  shows "trim_space (di_Reason i) \<noteq> [] \<and>
    (\<exists>c. find_case (ei_CaseID e) (cases_table w) = Some c \<and> c_Status c \<noteq> ''archived'' \<and> \<not> c_LegalHold c)"
proof -
  obtain st w1 w2 where h: "GetStatus (ei_CaseID e) w = (Inr st, w1)" "st \<noteq> ''archived''"
      "GetLegalHold (ei_CaseID e) w1 = (Inr False, w2)" "trim_space (di_Reason i) \<noteq> []"
    using assms by (auto simp: destroy_checks_def split: prod.splits sum.splits if_splits)
  then show ?thesis using lookup.status_then_hold [OF h(1) h(3)] by auto
qed

text \<open>The keys that \<open>Destroy\<close> asks the store to remove.\<close>

definition item_keys :: "EvidenceItem \<Rightarrow> string set" where
  "item_keys e = insert (derefStr (ei_StorageKey e)) (set_option (ei_ThumbnailKey e))"

lemma delete_objects_other: "k \<noteq> key \<Longrightarrow> objects (snd (DeleteObject key w)) k = objects w k"
  by (simp add: DeleteObject_effect)

lemma delete_frame [simp]:
  "evidence_items (snd (DeleteObject key w)) = evidence_items w"
  "evidence_counter (snd (DeleteObject key w)) = evidence_counter w"
  "cases_table (snd (DeleteObject key w)) = cases_table w" "disclosures (snd (DeleteObject key w)) = disclosures w"
  "evidence_steps w (snd (DeleteObject key w))"
  by (simp_all add: DeleteObject_effect evidence_steps_def)

lemma Destroy_ok:
  assumes "Destroy E i w = (None, w')"
  shows "\<exists>e. find_item (di_EvidenceID i) (evidence_items w) = Some e \<and>
    (ei_DestroyedAt e \<noteq> None \<and> w' = tick w \<or>
     ei_DestroyedAt e = None \<and> trim_space (di_Reason i) \<noteq> [] \<and>
     (\<exists>c. find_case (ei_CaseID e) (cases_table w) = Some c \<and> c_Status c \<noteq> ''archived'' \<and> \<not> c_LegalHold c) \<and>
     (\<exists>t. evidence_items w' = update_items_where (\<lambda>e. ei_ID e = di_EvidenceID i \<and> ei_DestroyedAt e = None)
        (mark_destroyed t (di_ActorID i) (di_Reason i)) (evidence_items w)) \<and>
     (\<forall>k. k \<notin> item_keys e \<longrightarrow> objects w' k = objects w k) \<and>
     evidence_counter w' = evidence_counter w \<and> cases_table w' = cases_table w \<and> evidence_steps w w')"
proof -
  let ?k = "di_EvidenceID i"
  obtain e where f: "evidence_FindByID ?k w = (Inr e, tick w)" "find_item ?k (evidence_items w) = Some e"
    using assms evidence_FindByID_ok
    by (cases "evidence_FindByID ?k w") (auto simp: Destroy_def split: sum.splits)
  show ?thesis
  proof (cases "ei_DestroyedAt e")
    case (Some t)
    with assms f show ?thesis by (simp add: Destroy_def)
  next
    case None
    obtain w2 where c: "destroy_checks i e (tick w) = (None, w2)"
      using assms f None by (auto simp: Destroy_def split: prod.splits option.splits)
    have w2: "evidence_items w2 = evidence_items w" "objects w2 = objects w" "cases_table w2 = cases_table w"
        "evidence_counter w2 = evidence_counter w" "evidence_steps w w2"
      using destroy_checks_state [OF c] evidence_only_ticks [of w w2] only_ticks_steps [of w w2] only_ticks_from_tick
      by blast+
    obtain w3 where m: "evidence_MarkDestroyed E ?k (di_Reason i) (di_ActorID i) w2 = (None, w3)"
      using assms f None c by (auto simp: Destroy_def split: prod.splits option.splits)
    define t where "t = lib_col_time (ee_lib E) (now w2)"
    have w3: "w3 = (tick w2)\<lparr>evidence_items := update_items_where
        (\<lambda>e. ei_ID e = ?k \<and> ei_DestroyedAt e = None) (mark_destroyed t (di_ActorID i) (di_Reason i)) (evidence_items w2)\<rparr>"
      using m by (auto simp: evidence_MarkDestroyed_def exec_update_def Let_def mark_destroyed_def [abs_def] t_def
          split: option.splits if_splits)
    define w4 where "w4 = snd (DeleteObject (derefStr (ei_StorageKey e)) w3)"
    define w5 where "w5 = (if derefStr (ei_ThumbnailKey e) \<noteq> [] then snd (DeleteObject (derefStr (ei_ThumbnailKey e)) w4) else w4)"
    have w': "w' = recordCustodyEvent E (ei_CaseID e) (ei_ID e) ''evidence_destroyed'' (di_ActorID i)
        [(''reason'', di_Reason i), (''filename'', ei_Filename e), (''sha256'', ei_SHA256Hash e)] w5"
      using assms f None c m by (auto simp: Destroy_def Let_def w4_def w5_def)
    have s: "same_evidence w5 w'" unfolding w' by simp
    have w5: "evidence_items w5 = evidence_items w3" "evidence_counter w5 = evidence_counter w3"
        "cases_table w5 = cases_table w3" "evidence_steps w3 w5"
      unfolding w5_def w4_def by (auto intro: evidence_steps_trans [OF delete_frame(5) delete_frame(5)])
    have "objects w5 k = objects w3 k" if "k \<notin> item_keys e" for k
    proof -
      from that have "k \<noteq> derefStr (ei_StorageKey e)" by (simp add: item_keys_def)
      moreover from that have "derefStr (ei_ThumbnailKey e) \<noteq> [] \<Longrightarrow> k \<noteq> derefStr (ei_ThumbnailKey e)"
        by (cases "ei_ThumbnailKey e") (auto simp: item_keys_def derefStr_def)
      ultimately show ?thesis by (auto simp: w5_def w4_def delete_objects_other)
    qed
    then have o: "\<forall>k. k \<notin> item_keys e \<longrightarrow> objects w' k = objects w k"
      using s w2 w3 by (simp add: same_evidence_def)
    have "evidence_steps w2 w3" unfolding w3 by (simp add: evidence_steps_def)
    then have "evidence_steps w w'"
      using w2(5) w5(4) s evidence_steps_trans unfolding same_evidence_def by blast
    with o s w2 w3 w5 destroy_checks_ok [OF c] f None show ?thesis
      by (auto simp: same_evidence_def)
  qed
qed

lemma Destroy_fail:
  assumes "Destroy E i w = (Some err, w')"
  shows "only_ticks w w'"
proof -
  obtain s w1 where f: "evidence_FindByID (di_EvidenceID i) w = (s, w1)" by fastforce
  have w1: "w1 = tick w" using evidence_FindByID_state [OF f] .
  show ?thesis
  proof (cases s)
    case (Inl err')
    with assms f w1 show ?thesis by (auto simp: Destroy_def)
  next
    case (Inr e)
    with f have e: "find_item (di_EvidenceID i) (evidence_items w) = Some e" using evidence_FindByID_ok by blast
    have d: "ei_DestroyedAt e = None"
      using assms f Inr by (cases "ei_DestroyedAt e") (simp_all add: Destroy_def)
    obtain x w2 where c: "destroy_checks i e w1 = (x, w2)" by fastforce
    have w2: "only_ticks w w2" using destroy_checks_state [OF c] w1 only_ticks_from_tick by blast
    show ?thesis
    proof (cases x)
      case (Some err')
      with assms f Inr d c w2 show ?thesis by (simp add: Destroy_def)
    next
      case None
      have "evidence_items w2 = evidence_items w" using w2 by (simp add: evidence_only_ticks)
      moreover have "e \<in> set (evidence_items w)" "ei_ID e = di_EvidenceID i" using find_item_Some [OF e] by simp_all
      ultimately have "filter (\<lambda>e. ei_ID e = di_EvidenceID i \<and> ei_DestroyedAt e = None) (evidence_items w2) \<noteq> []"
        using d by (auto simp: filter_empty_conv)
      then have "w' = tick w2"
        using assms f Inr d c None
        by (auto simp: Destroy_def evidence_MarkDestroyed_def exec_update_def Let_def split: option.splits if_splits)
      with w2 show ?thesis using only_ticks_trans only_ticks_tick by blast
    qed
  qed
qed

lemma Destroy_effect:
  assumes "Destroy E i w = (r, w')"
  shows "evidence_effect E True w w'"
proof (cases r)
  case (Some err)
  with assms Destroy_fail show ?thesis by (blast intro: same_effect same_evidence_ticks)
next
  case None
  obtain e where e: "find_item (di_EvidenceID i) (evidence_items w) = Some e" and
    d: "ei_DestroyedAt e \<noteq> None \<and> w' = tick w \<or> ei_DestroyedAt e = None \<and>
     (\<exists>t. evidence_items w' = update_items_where (\<lambda>e. ei_ID e = di_EvidenceID i \<and> ei_DestroyedAt e = None)
        (mark_destroyed t (di_ActorID i) (di_Reason i)) (evidence_items w)) \<and>
     (\<forall>k. k \<notin> item_keys e \<longrightarrow> objects w' k = objects w k) \<and>
     evidence_counter w' = evidence_counter w \<and> cases_table w' = cases_table w \<and> evidence_steps w w'"
    using Destroy_ok [OF assms [unfolded None]] by blast
  show ?thesis
  proof (cases "ei_DestroyedAt e")
    case (Some t)
    with d show ?thesis by (simp add: same_effect)
  next
    case None
    have keys: "k' \<notin> item_keys e"
      if "key_from E w e" "key_from E w e'" "ei_StorageKey e' = Some k'" "ei_StorageKey e' \<noteq> ei_StorageKey e" for e' k'
      using that thumb_key_other [symmetric]
      by (auto simp: item_keys_def key_from_def derefStr_def split: option.splits)
    with d None obtain t where t: "evidence_items w' = update_items_where
        (\<lambda>e. ei_ID e = di_EvidenceID i \<and> ei_DestroyedAt e = None) (mark_destroyed t (di_ActorID i) (di_Reason i)) (evidence_items w)"
        "\<forall>k. k \<notin> item_keys e \<longrightarrow> objects w' k = objects w k" "evidence_counter w' = evidence_counter w"
        "cases_table w' = cases_table w" "evidence_steps w w'" by blast
    show ?thesis
      by (rule eff_destroy [OF TrueI e None t(1) _ t(3-5)]) (use keys t(2) in blast)
  qed
qed

end
