(* ===== verification/Evidence_Inv.thy ===== *)
theory Evidence_Inv
  imports Evidence_Runs
begin

text \<open>
  The invariants of runs of operations on evidence and cases, proved for the three effects and
  so for every sequence of operations, whatever fails in between.
\<close>

section \<open>Runs\<close>

text \<open>
  One operation: a method of the service, a thumbnail job, what the time-stamp job writes, an
  operation on cases, or anything else that leaves evidence, objects, cases and counters alone.
\<close>

inductive evidence_op :: "evidence_env \<Rightarrow> 'a evidence_db_scheme \<Rightarrow> 'a evidence_db_scheme \<Rightarrow> bool" for E w w' where
  op_upload: "Upload E i w = (r, w') \<Longrightarrow> evidence_op E w w'"
| op_version: "UploadNewVersion E p i w = (r, w') \<Longrightarrow> evidence_op E w w'"
| op_metadata: "UpdateMetadata E k u by w = (r, w') \<Longrightarrow> evidence_op E w w'"
| op_destroy: "Destroy E d w = (x, w') \<Longrightarrow> evidence_op E w w'"
| op_download: "Download E k by w = (y, w') \<Longrightarrow> evidence_op E w w'"
| op_thumbnail: "w' = generateThumbnail E j w \<Longrightarrow> evidence_op E w w'"
| op_stamped: "evidence_UpdateTSAResult E k token name t w = (x, w') \<Longrightarrow> evidence_op E w w'"
| op_retry: "evidence_IncrementTSARetry E k w = (x, w') \<Longrightarrow> evidence_op E w w'"
| op_unstamped: "evidence_MarkTSAFailed k w = (x, w') \<Longrightarrow> evidence_op E w w'"
| op_read: "same_evidence w w' \<Longrightarrow> evidence_op E w w'"
| op_case: "case_change (ee_cases E) (cases_table w) (cases_table w') \<Longrightarrow> evidence_items w' = evidence_items w \<Longrightarrow>
    objects w' = objects w \<Longrightarrow> evidence_counter w' = evidence_counter w \<Longrightarrow> evidence_steps w w' \<Longrightarrow>
    evidence_op E w w'"

lemma evidence_op_cases:
  \<comment> \<open>only \<open>Destroy\<close> needs the effect that destroys\<close>
  assumes "evidence_op E w w'"
  shows "evidence_effects E False w w' \<or> (\<exists>d x. Destroy E d w = (x, w'))"
  using assms
proof (cases rule: evidence_op.cases)
  case (op_upload i r)
  then show ?thesis using Upload_effect by blast
next
  case (op_version p i r)
  then show ?thesis using UploadNewVersion_effect by blast
next
  case (op_metadata k u actor r)
  then show ?thesis using UpdateMetadata_effect by blast
next
  case (op_download k actor y)
  then show ?thesis using Download_effect same_effect by blast
next
  case (op_thumbnail j)
  then show ?thesis using generateThumbnail_effect by blast
next
  case (op_stamped k token name t x)
  with tsa_effect(1) [of E False w k token name t] show ?thesis by auto
next
  case (op_retry k x)
  with tsa_effect(2) [of E False w k] show ?thesis by auto
next
  case (op_unstamped k x)
  with tsa_effect(3) [of E False w k] show ?thesis by auto
next
  case op_read
  then show ?thesis using same_effect by blast
next
  case op_case
  then have "evidence_effect E False w w'"
    by (intro eff_keep [where g = "\<lambda>e. e"]) simp_all
  then show ?thesis by blast
qed blast

lemma effect_mono: "evidence_effect E False w w' \<Longrightarrow> evidence_effect E True w w'"
  by (erule evidence_effect.cases) (auto intro: eff_keep eff_add)

lemma effects_mono: "evidence_effects E False w w' \<Longrightarrow> evidence_effects E True w w'"
  by (induction rule: rtranclp_induct) (auto intro: rtranclp.rtrancl_into_rtrancl effect_mono)

lemma evidence_op_effects: "evidence_op E w w' \<Longrightarrow> evidence_effects E True w w'"
  using evidence_op_cases effects_mono Destroy_effect by blast

section \<open>The invariant\<close>

definition numbered :: "'a evidence_db_scheme \<Rightarrow> EvidenceItem \<Rightarrow> bool" where
  "numbered w e \<longleftrightarrow>
     (\<exists>c n. find_case (ei_CaseID e) (cases_table w) = Some c \<and> 1 \<le> n \<and> n \<le> evidence_counter w (ei_CaseID e) \<and>
        ei_EvidenceNumber e = Some (evidence_number (c_ReferenceCode c) n))"

definition stored :: "evidence_env \<Rightarrow> 'a evidence_db_scheme \<Rightarrow> EvidenceItem \<Rightarrow> bool" where
  "stored E w e \<longleftrightarrow>
     (\<exists>k d ct. ei_StorageKey e = Some k \<and> objects w k = Some (d, ct) \<and>
        hex_encode (lib_sha256 (ee_lib E) d) = ei_SHA256Hash e)"

definition evidence_inv :: "evidence_env \<Rightarrow> 'a evidence_db_scheme \<Rightarrow> bool" where
  "evidence_inv E w \<longleftrightarrow>
     distinct (map ei_ID (evidence_items w)) \<and> distinct (map ei_StorageKey (evidence_items w)) \<and>
     distinct (map (\<lambda>e. (ei_CaseID e, ei_EvidenceNumber e)) (evidence_items w)) \<and>
     (\<forall>c. 0 \<le> evidence_counter w c) \<and>
     (\<forall>e \<in> set (evidence_items w). key_from E w e \<and> numbered w e \<and> (ei_DestroyedAt e = None \<longrightarrow> stored E w e))"

lemma key_from_later: "key_from E w e \<Longrightarrow> evidence_steps w w' \<Longrightarrow> kept E e e' \<Longrightarrow> key_from E w' e'"
  unfolding key_from_def kept_def evidence_steps_def by (auto 0 4 intro: order_less_le_trans)

lemma numbered_later:
  assumes "numbered w e" "refs_kept (cases_table w) (cases_table w')"
    and "evidence_counter w (ei_CaseID e) \<le> evidence_counter w' (ei_CaseID e)" "kept E e e'"
  shows "numbered w' e'"
proof -
  from assms(1) obtain c n where c: "find_case (ei_CaseID e) (cases_table w) = Some c" "1 \<le> n"
      "n \<le> evidence_counter w (ei_CaseID e)" "ei_EvidenceNumber e = Some (evidence_number (c_ReferenceCode c) n)"
    unfolding numbered_def by blast
  with assms(2) obtain c' where "find_case (ei_CaseID e) (cases_table w') = Some c'" "c_ReferenceCode c' = c_ReferenceCode c"
    unfolding refs_kept_def by blast
  with c assms(3,4) show ?thesis
    unfolding numbered_def kept_def by (intro exI [of _ c'] exI [of _ n]) auto
qed

lemma stored_later:
  assumes "stored E w e" "kept E e e'" "\<And>k. ei_StorageKey e = Some k \<Longrightarrow> objects w' k = objects w k"
  shows "stored E w' e'"
  using assms unfolding stored_def kept_def by auto

lemma mark_destroyed_sel [simp]:
  "ei_ID (mark_destroyed t by r e) = ei_ID e" "ei_CaseID (mark_destroyed t by r e) = ei_CaseID e"
  "ei_EvidenceNumber (mark_destroyed t by r e) = ei_EvidenceNumber e"
  "ei_StorageKey (mark_destroyed t by r e) = ei_StorageKey e"
  "ei_SHA256Hash (mark_destroyed t by r e) = ei_SHA256Hash e"
  "ei_ThumbnailKey (mark_destroyed t by r e) = ei_ThumbnailKey e"
  "ei_DestroyedAt (mark_destroyed t by r e) = Some t"
  by (simp_all add: mark_destroyed_def)

lemma inv_keep:
  assumes inv: "evidence_inv E w" and E: "key_env E w'"
    and g: "evidence_items w' = map g (evidence_items w)" "\<And>e. kept E e (g e)"
    and o: "\<And>e k. key_env E w' \<Longrightarrow> key_from E w e \<Longrightarrow> ei_StorageKey e = Some k \<Longrightarrow> objects w' k = objects w k"
    and c: "\<And>c. evidence_counter w c \<le> evidence_counter w' c" "case_change (ee_cases E) (cases_table w) (cases_table w')"
    and s: "evidence_steps w w'"
  shows "evidence_inv E w'"
proof -
  have m: "map ei_ID (evidence_items w') = map ei_ID (evidence_items w)"
      "map ei_StorageKey (evidence_items w') = map ei_StorageKey (evidence_items w)"
      "map (\<lambda>e. (ei_CaseID e, ei_EvidenceNumber e)) (evidence_items w') =
       map (\<lambda>e. (ei_CaseID e, ei_EvidenceNumber e)) (evidence_items w)"
    using g(2) by (simp_all add: g(1) kept_def)
  have "key_from E w' e' \<and> numbered w' e' \<and> (ei_DestroyedAt e' = None \<longrightarrow> stored E w' e')"
    if "e' \<in> set (evidence_items w')" for e'
  proof -
    from that g(1) obtain e where e: "e \<in> set (evidence_items w)" "e' = g e" by auto
    with inv have i: "key_from E w e" "numbered w e" "ei_DestroyedAt e = None \<Longrightarrow> stored E w e"
      by (simp_all add: evidence_inv_def)
    have k: "kept E e e'" using g(2) e by simp
    moreover have "ei_DestroyedAt e' = ei_DestroyedAt e" using k by (simp add: kept_def)
    moreover have "stored E w' e'" if "ei_DestroyedAt e = None"
      using i(3) [OF that] k o [OF E i(1)] by (rule stored_later)
    ultimately show ?thesis
      using key_from_later [OF i(1) s k] numbered_later [OF i(2) case_change_refs [OF c(2)] c(1) k] by simp
  qed
  moreover have "0 \<le> evidence_counter w' c" for c
    using inv c(1) [of c] by (auto simp: evidence_inv_def intro: order_trans)
  ultimately show ?thesis
    using inv m by (simp add: evidence_inv_def)
qed

lemma inv_add:
  assumes inv: "evidence_inv E w" and E: "key_env E w'" and u: "uploaded E i name data w e w'"
    and name: "CHR ''/'' \<notin> set name"
  shows "evidence_inv E w'"
proof -
  let ?c = "up_CaseID i"
  obtain c n where u: "find_case ?c (cases_table w) = Some c" "w_tick w \<le> n" "n < w_tick w'"
      "evidence_items w' = evidence_items w @ [e]" "ei_ID e \<notin> ei_ID ` set (evidence_items w)"
      "ei_StorageKey e = Some (upload_key E ?c (w_uuid w n) name)"
      "objects w' = (objects w)(upload_key E ?c (w_uuid w n) name \<mapsto> (data, ee_detect E data))"
      "evidence_counter w' = (evidence_counter w)(?c := evidence_counter w ?c + 1)"
      "ei_EvidenceNumber e = Some (evidence_number (c_ReferenceCode c) (evidence_counter w ?c + 1))"
      "ei_CaseID e = ?c" "ei_SHA256Hash e = hex_encode (lib_sha256 (ee_lib E) data)"
      "ei_ThumbnailKey e = None" "cases_table w' = cases_table w" "evidence_steps w w'"
    using u unfolding uploaded_def by blast
  have old: "key_from E w x" "numbered w x" "ei_DestroyedAt x = None \<Longrightarrow> stored E w x"
    if "x \<in> set (evidence_items w)" for x
    using inv that by (simp_all add: evidence_inv_def)
  have pos: "0 \<le> evidence_counter w k" for k using inv by (simp add: evidence_inv_def)
  have fresh: "ei_StorageKey x \<noteq> Some (upload_key E ?c (w_uuid w n) name)" if "x \<in> set (evidence_items w)" for x
    using fresh_key [OF E old(1) [OF that] u(2) name u(3,14)] .
  have new_number: "(ei_CaseID x, ei_EvidenceNumber x) \<noteq> (ei_CaseID e, ei_EvidenceNumber e)"
    if "x \<in> set (evidence_items w)" for x
  proof
    assume a: "(ei_CaseID x, ei_EvidenceNumber x) = (ei_CaseID e, ei_EvidenceNumber e)"
    from old(2) [OF that] obtain m where m: "1 \<le> m" "m \<le> evidence_counter w ?c"
        "ei_EvidenceNumber x = Some (evidence_number (c_ReferenceCode c) m)"
      using a u(1,10) unfolding numbered_def by auto
    with a u(9) have "zero_pad 5 m = zero_pad 5 (evidence_counter w ?c + 1)" by (simp add: evidence_number_def)
    then have "m = evidence_counter w ?c + 1" using m(1) pos [of ?c] by (intro zero_pad_inj) simp_all
    with m(2) show False by simp
  qed
  have "key_from E w' x \<and> numbered w' x \<and> (ei_DestroyedAt x = None \<longrightarrow> stored E w' x)"
    if "x \<in> set (evidence_items w)" for x
  proof -
    have "objects w' k = objects w k" if "ei_StorageKey x = Some k" for k
      using fresh [OF \<open>x \<in> set (evidence_items w)\<close>] that u(7) by auto
    then have "ei_DestroyedAt x = None \<Longrightarrow> stored E w' x"
      using old(3) [OF that] stored_later [OF _ kept_refl] by blast
    moreover have "numbered w' x"
      by (rule numbered_later [OF old(2) [OF that] _ _ kept_refl]) (simp_all add: u(8,13) case_change_refs)
    ultimately show ?thesis
      using key_from_later [OF old(1) [OF that] u(14) kept_refl] by blast
  qed
  moreover have "key_from E w' e"
    using u(3,6,10,12,14) name unfolding key_from_def evidence_steps_def by auto
  moreover have "numbered w' e"
    using u(1,8,9,10,13) pos [of ?c] unfolding numbered_def
    by (intro exI [of _ c] exI [of _ "evidence_counter w ?c + 1"]) simp
  moreover have "stored E w' e" using u(6,7,11) unfolding stored_def by auto
  moreover have "ei_StorageKey e \<notin> ei_StorageKey ` set (evidence_items w)" using fresh u(6) by (metis (no_types, lifting) imageE)
  moreover have "(ei_CaseID e, ei_EvidenceNumber e) \<notin> (\<lambda>e. (ei_CaseID e, ei_EvidenceNumber e)) ` set (evidence_items w)"
    using new_number by fastforce
  moreover have "0 \<le> evidence_counter w' k" for k using pos [of k] pos [of ?c] u(8) by simp
  ultimately show ?thesis using inv u(4,5) by (auto simp: evidence_inv_def)
qed

lemma inv_destroy:
  assumes inv: "evidence_inv E w" and E: "key_env E w'"
    and e: "find_item k (evidence_items w) = Some e" "ei_DestroyedAt e = None"
    and items: "evidence_items w' =
      update_items_where (\<lambda>e. ei_ID e = k \<and> ei_DestroyedAt e = None) (mark_destroyed t by reason) (evidence_items w)"
    and o: "\<And>e' k'. key_env E w' \<Longrightarrow> key_from E w e \<Longrightarrow> key_from E w e' \<Longrightarrow> ei_StorageKey e' = Some k' \<Longrightarrow>
       ei_StorageKey e' \<noteq> ei_StorageKey e \<Longrightarrow> objects w' k' = objects w k'"
    and c: "evidence_counter w' = evidence_counter w" "cases_table w' = cases_table w" and s: "evidence_steps w w'"
  shows "evidence_inv E w'"
proof -
  have m: "map ei_ID (evidence_items w') = map ei_ID (evidence_items w)"
      "map ei_StorageKey (evidence_items w') = map ei_StorageKey (evidence_items w)"
      "map (\<lambda>e. (ei_CaseID e, ei_EvidenceNumber e)) (evidence_items w') =
       map (\<lambda>e. (ei_CaseID e, ei_EvidenceNumber e)) (evidence_items w)"
    by (simp_all add: items update_items_where_def)
  have in_e: "e \<in> set (evidence_items w)" "ei_ID e = k" using find_item_Some [OF e(1)] by simp_all
  have old: "key_from E w x" "numbered w x" "ei_DestroyedAt x = None \<Longrightarrow> stored E w x"
    if "x \<in> set (evidence_items w)" for x
    using inv that by (simp_all add: evidence_inv_def)
  have later: "key_from E w' x" "numbered w' x" if "x \<in> set (evidence_items w)" for x
    using key_from_later [OF old(1) [OF that] s kept_refl] numbered_later [OF old(2) [OF that] _ _ kept_refl, of w'] c
    by (auto simp: case_change_refs)
  have "key_from E w' x' \<and> numbered w' x' \<and> (ei_DestroyedAt x' = None \<longrightarrow> stored E w' x')"
    if "x' \<in> set (evidence_items w')" for x'
  proof -
    from that items obtain x where x: "x \<in> set (evidence_items w)"
        "x' = (if ei_ID x = k \<and> ei_DestroyedAt x = None then mark_destroyed t by reason x else x)"
      by (auto simp: update_items_where_def)
    show ?thesis
    proof (cases "ei_ID x = k \<and> ei_DestroyedAt x = None")
      case True
      with x later [OF x(1)] show ?thesis by (simp add: key_from_def numbered_def)
    next
      case False
      have "stored E w' x" if d: "ei_DestroyedAt x = None"
      proof (rule stored_later [OF old(3) [OF x(1) d] kept_refl])
        fix k' assume k': "ei_StorageKey x = Some k'"
        have "x \<noteq> e" using False d in_e by auto
        then have "ei_StorageKey x \<noteq> ei_StorageKey e"
          using inv x(1) in_e(1) by (auto simp: evidence_inv_def distinct_map dest: inj_onD)
        with k' show "objects w' k' = objects w k'" using o E old(1) x(1) in_e(1) by blast
      qed
      with x(2) False later [OF x(1)] show ?thesis by auto
    qed
  qed
  with inv m c show ?thesis by (simp add: evidence_inv_def)
qed

lemma effect_inv: "evidence_effect E D w w' \<Longrightarrow> key_env E w' \<Longrightarrow> evidence_inv E w \<Longrightarrow> evidence_inv E w'"
  by (erule evidence_effect.cases) (auto intro: inv_keep inv_add inv_destroy)

lemma key_env_before: "key_env E w' \<Longrightarrow> evidence_steps w w' \<Longrightarrow> key_env E w"
  by (auto simp: key_env_def evidence_steps_def intro: inj_on_subset)

lemma effect_steps: "evidence_effect E D w w' \<Longrightarrow> evidence_steps w w'"
  by (erule evidence_effect.cases) (auto simp: uploaded_def)

lemma effects_steps: "evidence_effects E D w w' \<Longrightarrow> evidence_steps w w'"
  by (induction rule: rtranclp_induct) (auto intro: evidence_steps_trans effect_steps)

lemma effects_inv: "evidence_effects E D w w' \<Longrightarrow> key_env E w' \<Longrightarrow> evidence_inv E w \<Longrightarrow> evidence_inv E w'"
  by (induction rule: rtranclp_induct) (auto intro: effect_inv dest: key_env_before effect_steps)

abbreviation evidence_run :: "evidence_env \<Rightarrow> 'a evidence_db_scheme \<Rightarrow> 'a evidence_db_scheme \<Rightarrow> bool" where
  "evidence_run E \<equiv> (evidence_op E)\<^sup>*\<^sup>*"

lemma run_effects: "evidence_run E w w' \<Longrightarrow> evidence_effects E True w w'"
  by (induction rule: rtranclp_induct) (auto dest: evidence_op_effects)

lemma run_inv: "evidence_run E w w' \<Longrightarrow> key_env E w' \<Longrightarrow> evidence_inv E w \<Longrightarrow> evidence_inv E w'"
  using effects_inv run_effects by blast

lemma evidence_inv_start: "evidence_items w = [] \<Longrightarrow> (\<And>c. 0 \<le> evidence_counter w c) \<Longrightarrow> evidence_inv E w"
  by (simp add: evidence_inv_def)

end
