(* ===== verification/Evidence_Props.thy ===== *)
theory Evidence_Props
  imports Evidence_Inv Cases_Props
begin

text \<open>
  The properties of evidence over runs: what is stored is what was uploaded and what the digest
  says, destruction is guarded and final, evidence numbers are unique.
\<close>

section \<open>A concrete deployment\<close>

definition sample_evidence_env :: evidence_env where
  "sample_evidence_env =
     \<lparr>ee_cases = sample_cases_env (\<lambda>n. n), ee_tsa = (\<lambda>n d. TsaNone), ee_detect = (\<lambda>d. ''image/png''),
      ee_exif = (\<lambda>d m. Inr None), ee_thumb = (\<lambda>d m. Inr (Some ''thumb'')), ee_custody = True,
      ee_indexer = False, ee_max_upload = 1000\<rparr>"

lemma sample_evidence_env_sel [simp]:
  "ee_cases sample_evidence_env = sample_cases_env (\<lambda>n. n)" "ee_tsa sample_evidence_env n d = TsaNone"
  "ee_detect sample_evidence_env d = ''image/png''" "ee_exif sample_evidence_env d m = Inr None"
  "ee_thumb sample_evidence_env d m = Inr (Some ''thumb'')" "ee_custody sample_evidence_env"
  "\<not> ee_indexer sample_evidence_env" "ee_max_upload sample_evidence_env = 1000"
  by (simp_all add: sample_evidence_env_def)

definition sample_upload :: "uuid \<Rightarrow> string \<Rightarrow> UploadInput" where
  "sample_upload c d =
     \<lparr>up_CaseID = c, up_File = Some (Inr d), up_Filename = ''a.txt'', up_SizeBytes = int (length d),
      up_Classification = ''restricted'', up_Description = [], up_Tags = None, up_UploadedBy = ''u1'',
      up_UploadedByName = ''U'', up_Source = [], up_SourceDate = None\<rparr>"

section \<open>An upload succeeds when nothing fails\<close>

definition calm :: "'a world_scheme \<Rightarrow> bool" where
  "calm w \<longleftrightarrow> (\<forall>n \<ge> w_tick w. w_fault w n = None)"

lemma calm_fault [simp]: "calm w \<Longrightarrow> fault w = None"
  by (simp add: calm_def fault_def)

lemma calm_tick [simp]: "calm w \<Longrightarrow> calm (tick w)"
  by (auto simp: calm_def)

lemma calm_steps: "calm w \<Longrightarrow> evidence_steps w w' \<Longrightarrow> calm w'"
  by (auto simp: calm_def evidence_steps_def)

lemma calm_pg [simp]: "calm w \<Longrightarrow> pg_call f w = (None, tick w)"
  by (simp add: pg_call_def)

definition upload_valid :: "evidence_env \<Rightarrow> UploadInput \<Rightarrow> string \<Rightarrow> string \<Rightarrow> bool" where
  \<comment> \<open>what makes the service and the table accept an upload\<close>
  "upload_valid E i name data \<longleftrightarrow>
     validateUploadInput i = None \<and> up_File i = Some (Inr data) \<and> SanitizeFilename (up_Filename i) = Some name \<and>
     int (length data) \<le> ee_max_upload E \<and> up_Classification i \<in> set ValidClassifications \<and>
     lib_col_uuid (ee_lib E) (up_UploadedBy i) \<noteq> None"

definition counter_room :: "'a evidence_db_scheme \<Rightarrow> uuid \<Rightarrow> bool" where
  "counter_room w c \<longleftrightarrow> evidence_counter w c < 2147483647"

lemma upload_checks_calm:
  assumes "upload_valid E i name data" "calm w" "find_case (up_CaseID i) (cases_table w) = Some c" "c_Status c = ''active''"
  shows "upload_checks E i w = (Inr (name, data), tick w)"
  using assms
  by (auto simp: upload_checks_def upload_valid_def GetStatus_def case_column_def Let_def)

lemma upload_store_calm:
  assumes v: "upload_valid E i name data" and w: "calm w"
    and c: "find_case (up_CaseID i) (cases_table w) = Some c" and room: "counter_room w (up_CaseID i)"
    and fresh: "\<And>n. w_tick w \<le> n \<Longrightarrow> n \<le> w_tick w + 12 \<Longrightarrow> w_uuid w n \<notin> ei_ID ` set (evidence_items w)"
  shows "\<exists>e w'. upload_store E i name data w = (Inr e, w') \<and> w_tick w' \<le> w_tick w + 12"
proof -
  obtain w1 stamp where s: "stamp_digest E (lib_sha256 (ee_lib E) data) w = (stamp, w1)" "w1 = tick w"
    by (auto simp: stamp_digest_def)
  have st: "cei_TSAStatus (upload_record E i data name x y stamp) \<in> {TSAStatusPending, TSAStatusStamped, TSAStatusFailed, TSAStatusDisabled}"
    for x y using s(1) by (auto simp: stamp_digest_def upload_record_def split: tsa_answer.splits)
  have r: "GetReferenceCode (up_CaseID i) w1 = (Inr (c_ReferenceCode c), tick w1)"
    using w c s by (simp add: GetReferenceCode_def case_column_def)
  let ?n = "evidence_counter w (up_CaseID i) + 1"
  obtain w3 where k: "IncrementEvidenceCounter (up_CaseID i) (tick w1) = (Inr ?n, w3)"
      "evidence_steps w w3" "evidence_items w3 = evidence_items w" "cases_table w3 = cases_table w"
      "w_tick w3 \<le> w_tick w + 6"
    using w c s room by (auto simp: IncrementEvidenceCounter_def counter_room_def Let_def evidence_steps_def)
  let ?key = "StorageObjectKey (ee_lib E) (up_CaseID i) (new_uuid w3) 1 name"
  have w3: "calm w3" using calm_steps [OF w k(2)] .
  then have p: "PutObject ?key data (ee_detect E data) (tick w3) =
      (None, (tick (tick w3))\<lparr>objects := (objects (tick w3))(?key \<mapsto> (data, ee_detect E data))\<rparr>)"
    by (simp add: PutObject_def eval_nat_numeral)
  define w5 where "w5 = (tick (tick w3))\<lparr>objects := (objects (tick w3))(?key \<mapsto> (data, ee_detect E data))\<rparr>"
  have w5: "calm w5" using w3 by (auto simp: w5_def calm_def)
  have "new_uuid w5 \<notin> ei_ID ` set (evidence_items w)"
    using fresh [of "w_tick w5"] k(2,5) by (simp add: w5_def new_uuid_def evidence_steps_def)
  then obtain e w' where "evidence_Create E (upload_record E i data name (evidence_number (c_ReferenceCode c) ?n) ?key stamp) w5 = (Inr e, w')"
    using calm_fault [OF w5] v st c k(3,4)
    by (fastforce simp: evidence_Create_def upload_valid_def w5_def upload_record_def Let_def split: prod.splits)
  moreover from this have "w_tick w' \<le> w_tick w + 12"
    using k(5) evidence_Create_ok by (fastforce simp: w5_def)
  ultimately show ?thesis using s r k(1) p by (simp add: upload_store_def w5_def Let_def)
qed

lemma event_ticks: "w_tick (recordCustodyEvent E c k a b d w) \<le> w_tick w + 8"
  by (auto simp: recordCustodyEvent_def RecordEvidenceEvent_def custody_Insert_def pg_call_def Let_def
      split: prod.splits option.splits)

lemma index_ticks: "w_tick (indexEvidence E e w) \<le> w_tick w + 1"
  by (auto simp: indexEvidence_def split: option.splits)

lemma upload_calm:
  assumes "upload_valid E i name data" "calm w" "find_case (up_CaseID i) (cases_table w) = Some c" "c_Status c = ''active''"
    and "counter_room w (up_CaseID i)" "\<And>n. w_tick w \<le> n \<Longrightarrow> n \<le> w_tick w + 20 \<Longrightarrow> w_uuid w n \<notin> ei_ID ` set (evidence_items w)"
  shows "\<exists>e w'. Upload E i w = (Inr e, w') \<and> w_tick w' \<le> w_tick w + 30"
proof -
  obtain e w' where u: "upload_store E i name data (tick w) = (Inr e, w')" "w_tick w' \<le> w_tick w + 13"
    using upload_store_calm [of E i name data "tick w" c] assms by (auto simp: counter_room_def Suc_le_eq)
  define w3 where "w3 = w'\<lparr>thumb_jobs := \<lparr>tj_evidence = ei_ID e, tj_case = up_CaseID i,
    tj_mime = ee_detect E data, tj_data = data\<rparr> # thumb_jobs w'\<rparr>"
  obtain x d where "Upload E i w = (Inr e, indexEvidence E e (recordCustodyEvent E (up_CaseID i) (ei_ID e) x (up_UploadedBy i) d w3))"
    using u upload_checks_calm [OF assms(1-4)] by (simp add: Upload_def Let_def w3_def)
  moreover have "w_tick w3 = w_tick w'" by (simp add: w3_def)
  moreover note event_ticks [of E "up_CaseID i" "ei_ID e" x "up_UploadedBy i" d w3]
    index_ticks [of E e "recordCustodyEvent E (up_CaseID i) (ei_ID e) x (up_UploadedBy i) d w3"]
  ultimately show ?thesis using u(2) by (intro exI [of _ e]) auto
qed

abbreviation start_db :: "'a evidence_db_scheme \<Rightarrow> bool" where
  \<comment> \<open>a deployment before its first upload\<close>
  "start_db w \<equiv> evidence_items w = [] \<and> (\<forall>c. 0 \<le> evidence_counter w c)"

lemma start_inv: "start_db w0 \<Longrightarrow> evidence_run E w0 w \<Longrightarrow> key_env E w \<Longrightarrow> evidence_inv E w"
  using run_inv evidence_inv_start by blast

text \<open>The deployment with one active case after one upload.\<close>

definition sample_start :: evidence_db where
  "sample_start = sample_evidence_db (\<lambda>n. None) [sample_case 7 ''ICC-1'' ''active'' False] []"

definition sample_after :: "string \<Rightarrow> evidence_db \<Rightarrow> evidence_db" where
  "sample_after d w = snd (Upload sample_evidence_env (sample_upload 7 d) w)"

lemma sample_start_db [simp]: "start_db sample_start"
  by (simp add: sample_start_def)

lemma sample_start_case: "find_case 7 (cases_table sample_start) = Some (sample_case 7 ''ICC-1'' ''active'' False)"
  by (simp add: sample_start_def find_case_def)

lemma sample_start_calm: "calm sample_start"
  by (simp add: sample_start_def calm_def)

lemma sanitize_atxt: "SanitizeFilename ''a.txt'' = Some ''a.txt''"
  by (simp add: SanitizeFilename_def shorten_name_def clean_name_def filepath_Base_def trim_right_slashes_def
      replace_unsafe_def safe_char_def gap_char_def trim_edges_def edge_char_def MaxFilenameLength_def Let_def)

lemma sample_upload_valid:
  assumes "length d \<le> 1000"
  shows "upload_valid sample_evidence_env (sample_upload 7 d) ''a.txt'' d"
proof -
  have "trim_space ''a.txt'' \<noteq> []" by code_simp
  with assms sanitize_atxt show ?thesis
    by (simp add: upload_valid_def validateUploadInput_def sample_upload_def validate_tags_def nonNilTags_def
        ValidClassifications_def ClassificationRestricted_def MaxEvidenceDescription_def MaxTagCount_def
        sample_lib_def Let_def)
qed

lemma sample_first:
  obtains e w where "Upload sample_evidence_env (sample_upload 7 ''data'') sample_start = (Inr e, w)" "w_tick w \<le> 30"
proof -
  have "\<exists>e w'. Upload sample_evidence_env (sample_upload 7 ''data'') sample_start = (Inr e, w') \<and>
      w_tick w' \<le> w_tick sample_start + 30"
    by (rule upload_calm [OF sample_upload_valid sample_start_calm, where c = "sample_case 7 ''ICC-1'' ''active'' False"])
      (use sample_start_case in \<open>simp_all add: sample_upload_def counter_room_def sample_start_def\<close>)
  then show ?thesis using that by (auto simp: sample_start_def)
qed

lemma sample_uuid_inj: "inj_on (\<lambda>n. of_nat n + 100 :: uuid) {..<m}" if "m \<le> 1000"
proof (rule inj_onI)
  fix a b assume ab: "a \<in> {..<m}" "b \<in> {..<m}" "(of_nat a :: uuid) + 100 = of_nat b + 100"
  then have "(of_nat a :: uuid) = of_nat b" by simp
  moreover have "a < 2 ^ LENGTH(128)" "b < 2 ^ LENGTH(128)" using ab(1,2) that by simp_all
  ultimately show "a = b" by (simp add: word_of_nat_eq_iff take_bit_nat_eq_self)
qed

lemma sample_key_env:
  assumes "w_uuid w = w_uuid sample_start" "w_tick w \<le> 1000"
  shows "key_env sample_evidence_env w"
proof -
  have "w_uuid sample_start = (\<lambda>n. of_nat n + 100)" by (simp add: sample_start_def sample_evidence_db_def)
  with assms sample_uuid_inj sample_uuid_no_slash uuid_lib_ok_sample show ?thesis by (simp add: key_env_def)
qed

section \<open>Integrity\<close>

lemma Download_ok:
  assumes "Download E k actor w = (Inr (x, name), w')"
  shows "\<exists>e. find_item k (evidence_items w) = Some e \<and> ei_DestroyedAt e = None \<and>
    objects w (derefStr (ei_StorageKey e)) = Some x \<and> name = ei_Filename e"
proof -
  obtain e where f: "evidence_FindByID k w = (Inr e, tick w)" "find_item k (evidence_items w) = Some e"
    using assms evidence_FindByID_ok by (cases "evidence_FindByID k w") (auto simp: Download_def split: sum.splits)
  moreover have d: "ei_DestroyedAt e = None"
    using assms f by (cases "ei_DestroyedAt e") (simp_all add: Download_def)
  ultimately obtain w2 where "GetObject (derefStr (ei_StorageKey e)) (tick w) = (Inr x, w2)" "name = ei_Filename e"
    using assms by (auto simp: Download_def split: prod.splits sum.splits)
  then show ?thesis using f d GetObject_ok by fastforce
qed

lemma Download_calm:
  assumes "calm w" "find_item k (evidence_items w) = Some e" "ei_DestroyedAt e = None"
    and "objects w (derefStr (ei_StorageKey e)) = Some x"
  shows "fst (Download E k actor w) = Inr (x, ei_Filename e)"
  using assms by (simp add: Download_def evidence_FindByID_def GetObject_def)

lemma Download_destroyed:
  assumes "find_item k (evidence_items w) = Some e" "ei_DestroyedAt e \<noteq> None"
  shows "isl (fst (Download E k actor w))"
  using assms by (auto simp: Download_def evidence_FindByID_def split: option.splits)

text \<open>
  C6: however uploads, new versions, edits, destructions, thumbnail jobs, time-stamp updates and
  operations on cases follow each other, and whichever of their requests fail, the bytes that a
  download hands out are bytes whose SHA-256 is the digest in the item's row, under its file name,
  and the item is not destroyed; and when the download's own requests do not fail, it succeeds for
  every item that is not destroyed. This assumes that no UUID is drawn twice and that the text of a
  UUID has no slash.
\<close>

theorem evidence_integrity:
  assumes "start_db w0" "evidence_run E w0 w" "key_env E w" "e \<in> set (evidence_items w)"
  shows "(\<forall>d ct name w'. Download E (ei_ID e) actor w = (Inr ((d, ct), name), w') \<longrightarrow>
      hex_encode (lib_sha256 (ee_lib E) d) = ei_SHA256Hash e \<and> name = ei_Filename e \<and> ei_DestroyedAt e = None) \<and>
    (calm w \<longrightarrow> (isl (fst (Download E (ei_ID e) actor w)) \<longleftrightarrow> ei_DestroyedAt e \<noteq> None))"
proof -
  have inv: "evidence_inv E w" using start_inv assms(1-3) by blast
  then have f: "find_item (ei_ID e) (evidence_items w) = Some e"
    using assms(4) by (intro find_item_in) (simp_all add: evidence_inv_def)
  have st: "\<exists>k d ct. ei_StorageKey e = Some k \<and> objects w k = Some (d, ct) \<and>
      hex_encode (lib_sha256 (ee_lib E) d) = ei_SHA256Hash e" if "ei_DestroyedAt e = None"
    using inv assms(4) that by (auto simp: evidence_inv_def stored_def)
  have "hex_encode (lib_sha256 (ee_lib E) d) = ei_SHA256Hash e \<and> name = ei_Filename e \<and> ei_DestroyedAt e = None"
    if "Download E (ei_ID e) actor w = (Inr ((d, ct), name), w')" for d ct name w'
    using Download_ok [OF that] f st by (auto simp: derefStr_def)
  moreover have "isl (fst (Download E (ei_ID e) actor w)) \<longleftrightarrow> ei_DestroyedAt e \<noteq> None" if c: "calm w"
  proof (cases "ei_DestroyedAt e")
    case None
    then obtain k x where "ei_StorageKey e = Some k" "objects w k = Some x" using st by blast
    then have "fst (Download E (ei_ID e) actor w) = Inr (x, ei_Filename e)"
      by (intro Download_calm [OF c f None]) (simp add: derefStr_def)
    with None show ?thesis by simp
  next
    case (Some t)
    with Download_destroyed [OF f] show ?thesis by simp
  qed
  ultimately show ?thesis by blast
qed

lemma uploaded_object:
  assumes "uploaded E i name d w e w'"
  obtains key where "ei_StorageKey e = Some key" "objects w' key = Some (d, ee_detect E d)"
    "e \<in> set (evidence_items w')" "ei_Filename e = name" "ei_DestroyedAt e = None"
  using assms unfolding uploaded_def by (elim exE conjE) simp

lemma upload_run: "Upload E i w = (r, w') \<Longrightarrow> evidence_run E w w'"
  by (rule r_into_rtranclp) (rule op_upload)

lemma Upload_steps: "Upload E i w = (r, w') \<Longrightarrow> evidence_steps w w'"
  using effect_steps Upload_effect by blast

theorem evidence_integrity_witness:
  "\<exists>e w. Upload sample_evidence_env (sample_upload 7 ''data'') sample_start = (Inr e, w) \<and>
     \<not> isl (fst (Download sample_evidence_env (ei_ID e) ''u1'' w))"
proof -
  obtain e w where u: "Upload sample_evidence_env (sample_upload 7 ''data'') sample_start = (Inr e, w)" "w_tick w \<le> 30"
    by (rule sample_first)
  have s: "evidence_steps sample_start w" using Upload_steps [OF u(1)] .
  have k: "key_env sample_evidence_env w"
    using s u(2) by (intro sample_key_env) (simp_all add: evidence_steps_def)
  have "e \<in> set (evidence_items w)" "ei_DestroyedAt e = None"
    using Upload_ok [OF u(1)] by (auto simp: uploaded_def)
  then show ?thesis
    using evidence_integrity [OF sample_start_db upload_run [OF u(1)] k] calm_steps [OF sample_start_calm s] u(1)
    by blast
qed

text \<open>A file stays what it is.\<close>

definition keeps_file :: "uuid \<Rightarrow> string \<Rightarrow> string \<Rightarrow> string \<times> string \<Rightarrow> 'a evidence_db_scheme \<Rightarrow> bool" where
  "keeps_file k key name x w \<longleftrightarrow>
     (\<exists>e. find_item k (evidence_items w) = Some e \<and> ei_StorageKey e = Some key \<and> ei_Filename e = name \<and>
        (ei_DestroyedAt e = None \<longrightarrow> objects w key = Some x))"

lemma find_item_map:
  "(\<And>e. ei_ID (g e) = ei_ID e) \<Longrightarrow> find_item k (map g rows) = map_option g (find_item k rows)"
  by (induction rows) (auto simp: find_item_def)

lemma effect_keeps_file:
  assumes "evidence_effect E D w w'" "key_env E w'" "evidence_inv E w" "keeps_file k key name x w"
  shows "keeps_file k key name x w'"
proof -
  obtain e where e: "find_item k (evidence_items w) = Some e" "ei_StorageKey e = Some key" "ei_Filename e = name"
      "ei_DestroyedAt e = None \<longrightarrow> objects w key = Some x"
    using assms(4) unfolding keeps_file_def by (elim exE conjE)
  have in_e: "e \<in> set (evidence_items w)" using find_item_Some [OF e(1)] by simp
  have kf: "key_from E w y" if "y \<in> set (evidence_items w)" for y
    using assms(3) that unfolding evidence_inv_def by blast
  have keys: "distinct (map ei_StorageKey (evidence_items w))"
    using assms(3) unfolding evidence_inv_def by blast
  show ?thesis
    using assms(1)
  proof (cases rule: evidence_effect.cases)
    case (eff_keep g)
    have id: "ei_ID (g y) = ei_ID y" for y using eff_keep(2) [of y] by (simp add: kept_def)
    have "find_item k (evidence_items w') = Some (g e)"
      unfolding eff_keep(1) find_item_map [OF id] e(1) by simp
    moreover have "objects w' key = objects w key" using eff_keep(3) [OF assms(2) kf [OF in_e] e(2)] .
    ultimately show ?thesis using e eff_keep(2) [of e] by (simp add: keeps_file_def kept_def)
  next
    case (eff_add i nm data e')
    then obtain n where n: "w_tick w \<le> n" "n < w_tick w'" "evidence_items w' = evidence_items w @ [e']"
        "objects w' = (objects w)(upload_key E (up_CaseID i) (w_uuid w n) nm \<mapsto> (data, ee_detect E data))"
        "evidence_steps w w'"
      unfolding uploaded_def by blast
    then have "key \<noteq> upload_key E (up_CaseID i) (w_uuid w n) nm"
      using fresh_key [OF assms(2) kf [OF in_e] n(1) eff_add(2) n(2,5)] e(2) by auto
    with n e show ?thesis by (simp add: keeps_file_def find_item_append)
  next
    case (eff_destroy kd ed t who why)
    let ?P = "\<lambda>e. ei_ID e = kd \<and> ei_DestroyedAt e = None"
    have f: "find_item k (evidence_items w') = Some (if ?P e then mark_destroyed t who why e else e)"
      unfolding eff_destroy(4) by (subst find_item_update) (simp_all add: e(1))
    show ?thesis
    proof (cases "?P e")
      case True
      then show ?thesis using f e by (simp add: keeps_file_def mark_destroyed_def)
    next
      case False
      have d: "ed \<in> set (evidence_items w)" "ei_ID ed = kd" using find_item_Some [OF eff_destroy(2)] by simp_all
      have "objects w' key = objects w key" if "ei_DestroyedAt e = None"
      proof -
        have "e \<noteq> ed" using False d that by auto
        then have "ei_StorageKey e \<noteq> ei_StorageKey ed"
          using keys in_e d(1) by (auto simp: distinct_map dest: inj_onD)
        then show ?thesis
          using eff_destroy(5) [OF assms(2) kf [OF d(1)] kf [OF in_e] e(2)] by simp
      qed
      then show ?thesis using f e False by (auto simp: keeps_file_def)
    qed
  qed
qed

lemma effects_keep_file:
  "evidence_effects E D w w' \<Longrightarrow> key_env E w' \<Longrightarrow> evidence_inv E w \<Longrightarrow> keeps_file k key name x w \<Longrightarrow>
     keeps_file k key name x w'"
proof (induction rule: rtranclp_induct)
  case (step u v)
  then have "key_env E u" using key_env_before effect_steps by blast
  with step show ?case using effect_keeps_file effects_inv by blast
qed

text \<open>
  C7: a download of an uploaded item, any number of operations later, returns exactly the bytes that
  were uploaded, with the content type detected for them and the sanitized file name: no other
  upload, version, thumbnail or failed clean-up overwrites or removes its object.
\<close>

theorem upload_download_roundtrip:
  assumes "start_db w0" "evidence_run E w0 w" "Upload E i w = (Inr e, w1)" "evidence_run E w1 w2" "key_env E w2"
    and "Download E (ei_ID e) actor w2 = (Inr (x, name), w3)"
  shows "\<exists>d. up_File i = Some (Inr d) \<and> x = (d, ee_detect E d) \<and> SanitizeFilename (up_Filename i) = Some name"
proof -
  obtain nm d where u: "up_File i = Some (Inr d)" "SanitizeFilename (up_Filename i) = Some nm" "uploaded E i nm d w e w1"
    using Upload_ok [OF assms(3)] by blast
  have k1: "key_env E w1" using key_env_before [OF assms(5)] effects_steps [OF run_effects [OF assms(4)]] by blast
  have run: "evidence_run E w0 w1" using assms(2) upload_run [OF assms(3)] by (rule rtranclp_trans)
  have inv: "evidence_inv E w1" using start_inv [OF assms(1) run k1] .
  obtain key where key: "ei_StorageKey e = Some key" "objects w1 key = Some (d, ee_detect E d)"
      "e \<in> set (evidence_items w1)" "ei_Filename e = nm"
    using u(3) by (rule uploaded_object)
  have "keeps_file (ei_ID e) key nm (d, ee_detect E d) w1"
    using find_item_in [OF _ key(3)] inv key by (auto simp: keeps_file_def evidence_inv_def)
  then have "keeps_file (ei_ID e) key nm (d, ee_detect E d) w2"
    using effects_keep_file [OF run_effects [OF assms(4)] assms(5) inv] by blast
  with Download_ok [OF assms(6)] u show ?thesis by (auto simp: keeps_file_def derefStr_def)
qed

theorem upload_download_roundtrip_witness:
  "\<exists>e w name w'. Upload sample_evidence_env (sample_upload 7 ''data'') sample_start = (Inr e, w) \<and>
     Download sample_evidence_env (ei_ID e) ''u1'' w = (Inr ((''data'', ''image/png''), name), w')"
proof -
  obtain e w where u: "Upload sample_evidence_env (sample_upload 7 ''data'') sample_start = (Inr e, w)" "w_tick w \<le> 30"
    by (rule sample_first)
  have s: "evidence_steps sample_start w" using Upload_steps [OF u(1)] .
  have k: "key_env sample_evidence_env w"
    using s u(2) by (intro sample_key_env) (simp_all add: evidence_steps_def)
  have inv: "evidence_inv sample_evidence_env w" using start_inv [OF sample_start_db upload_run [OF u(1)] k] .
  obtain key y where key: "ei_StorageKey e = Some key" "objects w key = Some y" "e \<in> set (evidence_items w)"
      "ei_DestroyedAt e = None"
    using Upload_ok [OF u(1)] by (meson uploaded_object)
  have f: "find_item (ei_ID e) (evidence_items w) = Some e"
    using inv key(3) by (intro find_item_in) (simp_all add: evidence_inv_def)
  obtain w' where d: "Download sample_evidence_env (ei_ID e) ''u1'' w = (Inr (y, ei_Filename e), w')"
    using Download_calm [OF calm_steps [OF sample_start_calm s] f key(4), of y sample_evidence_env "''u1''"] key(1,2)
    by (cases "Download sample_evidence_env (ei_ID e) ''u1'' w") (auto simp: derefStr_def)
  have "y = (''data'', ''image/png'')"
    using upload_download_roundtrip [OF sample_start_db rtranclp.rtrancl_refl u(1) rtranclp.rtrancl_refl k d]
    by (simp add: sample_upload_def)
  with u d show ?thesis by blast
qed

end
