(* ===== verification/Evidence_Destroy.thy ===== *)
theory Evidence_Destroy
  imports Evidence_Props
begin

text \<open>
  Destruction over runs: an item is only ever destroyed by \<open>Destroy\<close>, at a moment when its case was
  neither archived nor on legal hold, and it stays destroyed. Evidence numbers are not used twice.
\<close>

section \<open>What the effects do to one item\<close>

lemma quiet_effect_item:
  assumes "evidence_effect E False w w'" "find_item k (evidence_items w) = Some e"
  shows "\<exists>e'. find_item k (evidence_items w') = Some e' \<and> kept E e e'"
  using assms(1)
proof (cases rule: evidence_effect.cases)
  case (eff_keep g)
  have "ei_ID (g y) = ei_ID y" for y using eff_keep(2) [of y] by (simp add: kept_def)
  then have "find_item k (evidence_items w') = Some (g e)"
    unfolding eff_keep(1) by (simp add: find_item_map assms(2))
  with eff_keep(2) show ?thesis by blast
next
  case (eff_add i nm data e')
  then have "evidence_items w' = evidence_items w @ [e']" unfolding uploaded_def by blast
  with assms(2) show ?thesis by (simp add: find_item_append)
qed simp

lemma kept_trans: "kept E a b \<Longrightarrow> kept E b c \<Longrightarrow> kept E a c"
  unfolding kept_def by (elim conjE, intro conjI) (simp_all, metis)

lemma quiet_effects_item:
  assumes "evidence_effects E False w w'" "find_item k (evidence_items w) = Some e"
  shows "\<exists>e'. find_item k (evidence_items w') = Some e' \<and> kept E e e'"
  using assms
proof (induction rule: rtranclp_induct)
  case (step u v)
  then obtain e1 where "find_item k (evidence_items u) = Some e1" "kept E e e1" by blast
  then show ?case using quiet_effect_item [OF step(2)] kept_trans by blast
qed auto

lemma destroyed_effect_item:
  assumes "evidence_effect E D w w'" "find_item k (evidence_items w) = Some e" "ei_DestroyedAt e \<noteq> None"
  shows "\<exists>e'. find_item k (evidence_items w') = Some e' \<and> kept E e e'"
proof (cases "evidence_effect E False w w'")
  case True
  then show ?thesis using quiet_effect_item assms(2) by blast
next
  case False
  then obtain kd t who why where "evidence_items w' = update_items_where
      (\<lambda>e. ei_ID e = kd \<and> ei_DestroyedAt e = None) (mark_destroyed t who why) (evidence_items w)"
    using assms(1) by (auto elim!: evidence_effect.cases intro: eff_keep eff_add)
  then show ?thesis using assms(2,3) by (auto simp: find_item_update)
qed

lemma destroyed_effects_item:
  assumes "evidence_effects E D w w'" "find_item k (evidence_items w) = Some e" "ei_DestroyedAt e \<noteq> None"
  shows "\<exists>e'. find_item k (evidence_items w') = Some e' \<and> kept E e e'"
  using assms
proof (induction rule: rtranclp_induct)
  case (step u v)
  then obtain e1 where e1: "find_item k (evidence_items u) = Some e1" "kept E e e1" by blast
  then have "ei_DestroyedAt e1 \<noteq> None" using step(5) by (simp add: kept_def)
  then show ?case using destroyed_effect_item [OF step(2) e1(1)] e1(2) kept_trans by blast
qed auto

section \<open>Destruction is guarded\<close>

definition lawful_destruction :: "DestroyInput \<Rightarrow> EvidenceItem \<Rightarrow> 'a evidence_db_scheme \<Rightarrow> bool" where
  "lawful_destruction d e u \<longleftrightarrow>
     find_item (di_EvidenceID d) (evidence_items u) = Some e \<and> ei_DestroyedAt e = None \<and>
     trim_space (di_Reason d) \<noteq> [] \<and>
     (\<exists>c. find_case (ei_CaseID e) (cases_table u) = Some c \<and> c_Status c \<noteq> ''archived'' \<and> \<not> c_LegalHold c)"

lemma find_item_destroy:
  assumes "evidence_items w' = update_items_where (\<lambda>e. ei_ID e = kd \<and> ei_DestroyedAt e = None)
      (mark_destroyed t who why) (evidence_items w)"
    and "find_item k (evidence_items w) = Some e" "ei_DestroyedAt e = None"
  shows "find_item k (evidence_items w') = Some (if k = kd then mark_destroyed t who why e else e)"
  using assms find_item_Some [OF assms(2)] by (simp add: find_item_update)

lemma op_destroys:
  assumes "evidence_op E w w'" "find_item k (evidence_items w) = Some e" "ei_DestroyedAt e = None"
  shows "\<exists>e'. find_item k (evidence_items w') = Some e' \<and>
    (ei_DestroyedAt e' = None \<or>
     (\<exists>d. Destroy E d w = (None, w') \<and> di_EvidenceID d = k \<and> lawful_destruction d e w \<and>
        (\<exists>t. e' = mark_destroyed t (di_ActorID d) (di_Reason d) e)))"
proof (cases "evidence_effects E False w w'")
  case True
  then obtain e' where "find_item k (evidence_items w') = Some e'" "kept E e e'"
    using quiet_effects_item assms(2) by blast
  with assms(3) show ?thesis by (simp add: kept_def)
next
  case False
  then obtain d x where d: "Destroy E d w = (x, w')" using evidence_op_cases [OF assms(1)] by blast
  show ?thesis
  proof (cases x)
    case (Some err)
    then have "evidence_items w' = evidence_items w"
      using Destroy_fail d evidence_only_ticks(1) by blast
    with assms(2,3) show ?thesis by simp
  next
    case None
    note ok = Destroy_ok [OF d [unfolded None]]
    then obtain e0 where e0: "find_item (di_EvidenceID d) (evidence_items w) = Some e0" by blast
    show ?thesis
    proof (cases "ei_DestroyedAt e0 = None \<and> di_EvidenceID d = k")
      case True
      with e0 assms(2) have [simp]: "e0 = e" by simp
      from ok True e0 obtain t where t: "evidence_items w' = update_items_where (\<lambda>e. ei_ID e = k \<and> ei_DestroyedAt e = None)
          (mark_destroyed t (di_ActorID d) (di_Reason d)) (evidence_items w)" by auto
      have "lawful_destruction d e w" using ok True e0 by (auto simp: lawful_destruction_def)
      then show ?thesis using find_item_destroy [OF t assms(2,3)] True d None by auto
    next
      case False
      have "find_item k (evidence_items w') = Some e"
      proof (cases "ei_DestroyedAt e0")
        case None
        with ok e0 obtain t where t: "evidence_items w' = update_items_where
            (\<lambda>e. ei_ID e = di_EvidenceID d \<and> ei_DestroyedAt e = None)
            (mark_destroyed t (di_ActorID d) (di_Reason d)) (evidence_items w)" by auto
        with find_item_destroy [OF t assms(2,3)] False None show ?thesis by simp
      next
        case (Some t)
        with ok e0 have "w' = tick w" by auto
        with assms(2) show ?thesis by simp
      qed
      with assms(3) show ?thesis by simp
    qed
  qed
qed


lemma Destroy_calm:
  assumes "calm w" "lawful_destruction d e w"
  shows "\<exists>w'. Destroy E d w = (None, w')"
proof -
  let ?k = "di_EvidenceID d"
  have e: "find_item ?k (evidence_items w) = Some e" "ei_DestroyedAt e = None" "trim_space (di_Reason d) \<noteq> []"
    and c: "\<exists>c. find_case (ei_CaseID e) (cases_table w) = Some c \<and> c_Status c \<noteq> ''archived'' \<and> \<not> c_LegalHold c"
    using assms(2) by (simp_all add: lawful_destruction_def)
  have f: "evidence_FindByID ?k w = (Inr e, tick w)" using assms(1) e by (simp add: evidence_FindByID_def)
  have k: "destroy_checks d e (tick w) = (None, tick (tick (tick w)))"
    using assms(1) e c by (auto simp: destroy_checks_def GetStatus_def GetLegalHold_def case_column_def)
  have "filter (\<lambda>e. ei_ID e = ?k \<and> ei_DestroyedAt e = None) (evidence_items w) \<noteq> []"
    using find_item_Some [OF e(1)] e(2) by (auto simp: filter_empty_conv)
  then obtain w3 where m: "evidence_MarkDestroyed E ?k (di_Reason d) (di_ActorID d) (tick (tick (tick w))) = (None, w3)"
    using assms(1) by (simp add: evidence_MarkDestroyed_def exec_update_def Let_def)
  show ?thesis using f k m e(2) by (simp add: Destroy_def Let_def)
qed

definition sample_destroy :: "uuid \<Rightarrow> DestroyInput" where
  "sample_destroy k = \<lparr>di_EvidenceID = k, di_Reason = ''order'', di_ActorID = ''u1''\<rparr>"

lemma uploaded_cases: "uploaded E i name d w e w' \<Longrightarrow> cases_table w' = cases_table w \<and> ei_CaseID e = up_CaseID i"
  unfolding uploaded_def by blast

text \<open>The sample after an upload and the destruction of what was uploaded.\<close>

lemma sample_destroyed:
  obtains e w w' e' where "Upload sample_evidence_env (sample_upload 7 ''data'') sample_start = (Inr e, w)"
    "Destroy sample_evidence_env (sample_destroy (ei_ID e)) w = (None, w')" "w_tick w \<le> 30"
    "find_item (ei_ID e) (evidence_items w) = Some e" "ei_DestroyedAt e = None"
    "find_item (ei_ID e) (evidence_items w') = Some e'" "ei_DestroyedAt e' \<noteq> None"
    "evidence_steps sample_start w"
proof -
  obtain e w where u: "Upload sample_evidence_env (sample_upload 7 ''data'') sample_start = (Inr e, w)" "w_tick w \<le> 30"
    by (rule sample_first)
  have s: "evidence_steps sample_start w" using Upload_steps [OF u(1)] .
  have k: "key_env sample_evidence_env w"
    using s u(2) by (intro sample_key_env) (simp_all add: evidence_steps_def)
  have inv: "evidence_inv sample_evidence_env w" using start_inv [OF sample_start_db upload_run [OF u(1)] k] .
  obtain nm d where up: "uploaded sample_evidence_env (sample_upload 7 ''data'') nm d sample_start e w"
    using Upload_ok [OF u(1)] by blast
  have e: "e \<in> set (evidence_items w)" "ei_DestroyedAt e = None" using up by (auto elim: uploaded_object)
  have f: "find_item (ei_ID e) (evidence_items w) = Some e"
    using inv e(1) by (intro find_item_in) (simp_all add: evidence_inv_def)
  have "trim_space ''order'' \<noteq> []" by code_simp
  then have l: "lawful_destruction (sample_destroy (ei_ID e)) e w"
    using f e(2) uploaded_cases [OF up] sample_start_case
    by (auto simp: lawful_destruction_def sample_destroy_def sample_upload_def)
  obtain w' where d: "Destroy sample_evidence_env (sample_destroy (ei_ID e)) w = (None, w')"
    using Destroy_calm [OF calm_steps [OF sample_start_calm s] l] by blast
  obtain t where "evidence_items w' = update_items_where (\<lambda>x. ei_ID x = ei_ID e \<and> ei_DestroyedAt x = None)
      (mark_destroyed t ''u1'' ''order'') (evidence_items w)"
    using Destroy_ok [OF d] f e(2) by (auto simp: sample_destroy_def)
  from find_item_destroy [OF this f e(2)] show ?thesis using that [OF u(1) d u(2) f e(2) _ _ s] by simp
qed


text \<open>
  C27: destruction is final: through any later operations the row of a destroyed item stays, with the
  time, the actor and the reason of its destruction; it cannot be downloaded or given a new
  version, and changing its metadata is refused and changes nothing.
\<close>

theorem destroyed_is_final:
  assumes "evidence_run E w w'" "find_item k (evidence_items w) = Some e" "ei_DestroyedAt e \<noteq> None"
    and "eu_Description u \<noteq> None \<or> eu_Classification u \<noteq> None \<or> eu_Tags u \<noteq> None"
  shows "(\<exists>e'. find_item k (evidence_items w') = Some e' \<and> ei_DestroyedAt e' = ei_DestroyedAt e \<and>
      ei_DestroyedBy e' = ei_DestroyedBy e \<and> ei_DestroyReason e' = ei_DestroyReason e) \<and>
    isl (fst (Download E k actor w')) \<and> isl (fst (UploadNewVersion E k i w')) \<and>
    isl (fst (UpdateMetadata E k u actor w')) \<and>
    evidence_items (snd (UpdateMetadata E k u actor w')) = evidence_items w'"
proof -
  obtain e' where e': "find_item k (evidence_items w') = Some e'" "kept E e e'"
    using destroyed_effects_item [OF run_effects [OF assms(1)] assms(2,3)] by blast
  then have d: "ei_DestroyedAt e' \<noteq> None" using assms(3) by (simp add: kept_def)
  have "isl (fst (UploadNewVersion E k i w'))"
    using e'(1) d by (auto simp: UploadNewVersion_def evidence_FindByID_def split: option.splits)
  moreover have "isl (fst (UpdateMetadata E k u actor w')) \<and>
      evidence_items (snd (UpdateMetadata E k u actor w')) = evidence_items w'"
    using e'(1) d assms(4)
    by (auto simp: UpdateMetadata_def evidence_Update_def evidence_FindByID_def Let_def split: option.splits)
  ultimately show ?thesis
    using e' Download_destroyed [OF e'(1) d] by (auto simp: kept_def)
qed

theorem destroyed_is_final_witness:
  "\<exists>(e :: EvidenceItem) w (w' :: evidence_db) r w''. Destroy sample_evidence_env (sample_destroy (ei_ID e)) w = (None, w') \<and>
     Upload sample_evidence_env (sample_upload 7 ''new'') w' = (r, w'') \<and>
     isl (fst (Download sample_evidence_env (ei_ID e) ''u1'' w''))"
proof -
  obtain e w w' e' where s: "Upload sample_evidence_env (sample_upload 7 ''data'') sample_start = (Inr e, w)"
      "Destroy sample_evidence_env (sample_destroy (ei_ID e)) w = (None, w')" "w_tick w \<le> 30"
      "find_item (ei_ID e) (evidence_items w) = Some e" "ei_DestroyedAt e = None"
      "find_item (ei_ID e) (evidence_items w') = Some e'" "ei_DestroyedAt e' \<noteq> None"
    by (rule sample_destroyed)
  obtain r w'' where u: "Upload sample_evidence_env (sample_upload 7 ''new'') w' = (r, w'')" by fastforce
  have "isl (fst (Download sample_evidence_env (ei_ID e) ''u1'' w''))"
    using destroyed_is_final [OF upload_run [OF u] s(6,7),
        where u = "\<lparr>eu_Description = Some [], eu_Classification = None, eu_Tags = None\<rparr>"] by simp
  with s(2) u show ?thesis by blast
qed

section \<open>Evidence numbers\<close>

lemma nat_digits_no_dash: "CHR ''-'' \<notin> set (nat_digits n)"
  using nat_digits_chars [of "CHR ''-''" n] by auto

lemma zero_pad_no_dash: "0 \<le> n \<Longrightarrow> CHR ''-'' \<notin> set (zero_pad k n)"
  using nat_digits_no_dash by (auto simp: zero_pad_def pad_left_def)

lemma last_part:
  assumes "CHR ''-'' \<notin> set s"
  shows "rev (takeWhile (\<lambda>c. c \<noteq> CHR ''-'') (rev (r @ ''-'' @ s))) = s"
proof -
  have "takeWhile (\<lambda>c. c \<noteq> CHR ''-'') (rev s @ CHR ''-'' # rev r) = rev s"
    using assms by (subst takeWhile_append2) auto
  then show ?thesis by simp
qed

lemma evidence_number_inj:
  assumes "evidence_number r m = evidence_number r' n" "0 \<le> m" "0 \<le> n"
  shows "r = r' \<and> m = n"
proof -
  have eq: "r @ ''-'' @ zero_pad 5 m = r' @ ''-'' @ zero_pad 5 n"
    using assms(1) by (simp add: evidence_number_def)
  have "zero_pad 5 m = zero_pad 5 n"
    using arg_cong [OF eq, of "\<lambda>s. rev (takeWhile (\<lambda>c. c \<noteq> CHR ''-'') (rev s))"]
    by (simp only: last_part zero_pad_no_dash assms(2,3) not_False_eq_True)
  with eq zero_pad_inj [OF assms(2,3)] show ?thesis by simp
qed

lemma effects_cases_inv:
  "evidence_effects E D w w' \<Longrightarrow> cases_inv (ee_cases E) (cases_table w) \<Longrightarrow> cases_inv (ee_cases E) (cases_table w')"
proof (induction rule: rtranclp_induct)
  case (step u v)
  from step(2) have "case_change (ee_cases E) (cases_table u) (cases_table v)"
    by (cases rule: evidence_effect.cases) (auto simp: uploaded_def)
  with step show ?case using case_change_inv by blast
qed

text \<open>
  C22: an evidence number identifies an item in the whole deployment, not only in its case: in every
  run from an empty evidence table, with whatever failures, two items with the same number are the
  same item, and the number is the reference code of the item's case with a counter value that has
  been given out.
\<close>

theorem evidence_numbers_unique:
  assumes "start_db w0" "cases_inv (ee_cases E) (cases_table w0)" "evidence_run E w0 w" "key_env E w"
    and "e1 \<in> set (evidence_items w)" "e2 \<in> set (evidence_items w)" "ei_EvidenceNumber e1 = ei_EvidenceNumber e2"
  shows "e1 = e2 \<and> (\<exists>c n. find_case (ei_CaseID e1) (cases_table w) = Some c \<and> 1 \<le> n \<and>
    n \<le> evidence_counter w (ei_CaseID e1) \<and> ei_EvidenceNumber e1 = Some (evidence_number (c_ReferenceCode c) n))"
proof -
  have inv: "evidence_inv E w" using start_inv assms(1,3,4) by blast
  have cs: "cases_inv (ee_cases E) (cases_table w)" using effects_cases_inv [OF run_effects [OF assms(3)] assms(2)] .
  have num: "numbered w e" if "e \<in> set (evidence_items w)" for e
    using inv that unfolding evidence_inv_def by blast
  obtain c1 n1 where 1: "find_case (ei_CaseID e1) (cases_table w) = Some c1" "1 \<le> n1"
      "n1 \<le> evidence_counter w (ei_CaseID e1)" "ei_EvidenceNumber e1 = Some (evidence_number (c_ReferenceCode c1) n1)"
    using num [OF assms(5)] unfolding numbered_def by blast
  obtain c2 n2 where 2: "find_case (ei_CaseID e2) (cases_table w) = Some c2" "1 \<le> n2"
      "ei_EvidenceNumber e2 = Some (evidence_number (c_ReferenceCode c2) n2)"
    using num [OF assms(6)] unfolding numbered_def by blast
  have "c_ReferenceCode c1 = c_ReferenceCode c2"
    using 1 2 assms(7) evidence_number_inj [of "c_ReferenceCode c1" n1 "c_ReferenceCode c2" n2] by simp
  moreover have "c1 \<in> set (cases_table w)" "c2 \<in> set (cases_table w)"
    using find_case_Some [OF 1(1)] find_case_Some [OF 2(1)] by simp_all
  ultimately have "c1 = c2"
    using cs unfolding cases_inv_def distinct_map by (blast dest: inj_onD)
  then have "ei_CaseID e1 = ei_CaseID e2"
    using find_case_Some [OF 1(1)] find_case_Some [OF 2(1)] by simp
  moreover have "inj_on (\<lambda>e. (ei_CaseID e, ei_EvidenceNumber e)) (set (evidence_items w))"
    using inv unfolding evidence_inv_def distinct_map by blast
  ultimately have "e1 = e2" using assms(5-7) by (auto dest: inj_onD)
  with 1 show ?thesis by blast
qed

theorem evidence_numbers_unique_witness:
  "\<exists>e w n. Upload sample_evidence_env (sample_upload 7 ''data'') sample_start = (Inr e, w) \<and>
     ei_EvidenceNumber e = Some (evidence_number ''ICC-1'' n)"
proof -
  obtain e w w' e' where s: "Upload sample_evidence_env (sample_upload 7 ''data'') sample_start = (Inr e, w)"
      "w_tick w \<le> 30" "find_item (ei_ID e) (evidence_items w) = Some e" "evidence_steps sample_start w"
    by (rule sample_destroyed)
  have k: "key_env sample_evidence_env w"
    using s(2,4) by (intro sample_key_env) (simp_all add: evidence_steps_def)
  have c: "cases_inv (ee_cases sample_evidence_env) (cases_table sample_start)"
    by (simp add: cases_inv_def sample_start_def case_wf_def sample_case_def sample_cases_env_def html_safe_def StatusActive_def)
  obtain nm d where up: "uploaded sample_evidence_env (sample_upload 7 ''data'') nm d sample_start e w"
    using Upload_ok [OF s(1)] by blast
  have e: "e \<in> set (evidence_items w)" using find_item_Some [OF s(3)] by simp
  obtain c n where "find_case (ei_CaseID e) (cases_table w) = Some c"
      "ei_EvidenceNumber e = Some (evidence_number (c_ReferenceCode c) n)"
    using evidence_numbers_unique [OF sample_start_db c upload_run [OF s(1)] k e e refl] by blast
  then show ?thesis
    using s(1) uploaded_cases [OF up] sample_start_case by (auto simp: sample_upload_def)
qed

end
