(* ===== verification/Evidence_Limits.thy ===== *)
theory Evidence_Limits
  imports Evidence_Destroy
begin

text \<open>
  Versions, and what the evidence service does not do: numbers are lost when an upload fails,
  version numbers repeat, disclosures do not restrict the list, a thumbnail outlives its item, and a
  session lock can outlive its holder.
\<close>

section \<open>Versions\<close>

definition version_root :: "EvidenceItem \<Rightarrow> uuid" where
  "version_root e = (case ei_ParentID e of None \<Rightarrow> ei_ID e | Some p \<Rightarrow> p)"

definition in_chain :: "uuid \<Rightarrow> EvidenceItem \<Rightarrow> bool" where
  "in_chain root e \<longleftrightarrow> ei_ID e = root \<or> ei_ParentID e = Some root"

lemma exec_update_calm:
  "calm w \<Longrightarrow> exec_update f P g w = (None, (tick w)\<lparr>evidence_items := update_items_where P g (evidence_items w)\<rparr>)"
  by (simp add: exec_update_def)

lemma UploadNewVersion_calm:
  assumes "UploadNewVersion E p i w = (Inr e', w')" "calm w"
  shows "\<exists>parent e. find_item p (evidence_items w) = Some parent \<and> ei_ID e \<notin> ei_ID ` set (evidence_items w) \<and>
    e' = e\<lparr>ei_ParentID := Some (version_root parent), ei_Version := ei_Version parent + 1, ei_IsCurrent := True\<rparr> \<and>
    evidence_items w' = map (\<lambda>x. if in_chain (version_root parent) x then x\<lparr>ei_IsCurrent := False\<rparr> else x)
      (evidence_items w) @ [e'] \<and> calm w'"
proof -
  obtain parent where f: "evidence_FindByID p w = (Inr parent, tick w)" "find_item p (evidence_items w) = Some parent"
    using assms(1) evidence_FindByID_ok
    by (cases "evidence_FindByID p w") (auto simp: UploadNewVersion_def split: sum.splits)
  have d: "ei_DestroyedAt parent = None"
    using assms(1) f by (cases "ei_DestroyedAt parent") (simp_all add: UploadNewVersion_def)
  let ?i = "i\<lparr>up_CaseID := ei_CaseID parent\<rparr>" and ?root = "version_root parent" and ?v = "ei_Version parent + 1"
  obtain e w2 where u: "Upload E ?i (tick w) = (Inr e, w2)"
    using assms(1) f d by (cases "Upload E ?i (tick w)") (auto simp: UploadNewVersion_def split: sum.splits)
  then obtain nm dt where "uploaded E ?i nm dt (tick w) e w2" using Upload_ok by blast
  then have w2: "evidence_items w2 = evidence_items w @ [e]" "ei_ID e \<notin> ei_ID ` set (evidence_items w)"
      "ei_ParentID e = None" unfolding uploaded_def by auto
  have c2: "calm w2" using calm_steps [OF _ Upload_steps [OF u]] assms(2) by simp
  define w3 where "w3 = snd (MarkPreviousVersions ?root w2)"
  define w4 where "w4 = snd (UpdateVersionFields (ei_ID e) ?root ?v w3)"
  have w3: "evidence_items w3 = update_items_where (\<lambda>x. ei_ID x = ?root \<or> ei_ParentID x = Some ?root)
      (\<lambda>x. x\<lparr>ei_IsCurrent := False\<rparr>) (evidence_items w2)" "calm w3"
    using c2 by (simp_all add: w3_def MarkPreviousVersions_def exec_update_calm calm_def)
  have w4: "evidence_items w4 = update_items_where (\<lambda>x. ei_ID x = ei_ID e)
      (\<lambda>x. x\<lparr>ei_ParentID := Some ?root, ei_Version := ?v, ei_IsCurrent := True\<rparr>) (evidence_items w3)" "calm w4"
    using w3(2) by (simp_all add: w4_def UpdateVersionFields_def exec_update_calm calm_def)
  let ?e = "e\<lparr>ei_ParentID := Some ?root, ei_Version := ?v, ei_IsCurrent := True\<rparr>"
  let ?mark = "\<lambda>x. if in_chain ?root x then x\<lparr>ei_IsCurrent := False\<rparr> else x"
  have old: "ei_ID x \<noteq> ei_ID e" if "x \<in> set (evidence_items w)" for x using w2(2) that by (metis image_eqI)
  have items: "evidence_items w4 = map ?mark (evidence_items w) @ [?e]"
    using old unfolding w4(1) w3(1) w2(1) by (auto simp: update_items_where_def in_chain_def)
  obtain a b c k x where r: "evidence_FindByID (ei_ID e) (recordCustodyEvent E a b c k x w4) = (Inr e', w')"
    using assms(1) f d u by (auto simp: UploadNewVersion_def Let_def version_root_def w3_def w4_def)
  have s: "same_evidence w4 (recordCustodyEvent E a b c k x w4)" by simp
  have w': "w' = tick (recordCustodyEvent E a b c k x w4)" using evidence_FindByID_state [OF r] .
  have items': "evidence_items w' = map ?mark (evidence_items w) @ [?e]"
    using items s unfolding w' by (simp add: same_evidence_def)
  have "find_item (ei_ID e) (map ?mark (evidence_items w)) = None"
    using old by (auto simp: find_item_def find_None_iff)
  then have "find_item (ei_ID e) (evidence_items w') = Some ?e"
    unfolding items' by (simp add: find_item_append)
  then have "e' = ?e" using evidence_FindByID_ok [OF r] w' by simp
  moreover have "calm w'" using calm_steps [OF w4(2)] s unfolding w' same_evidence_def by (intro calm_tick) blast
  ultimately show ?thesis using f(2) w2(2) items' by blast
qed

text \<open>
  When nothing fails, a new version of an item is the only current member of its version chain,
  belongs to the root of the chain, has the version after its parent's, and nothing but the mark of
  the older members changes.
\<close>

theorem new_version_is_current:
  assumes "UploadNewVersion E p i w = (Inr e, w')" "calm w"
  shows "\<exists>parent. find_item p (evidence_items w) = Some parent \<and> ei_Version e = ei_Version parent + 1 \<and>
    ei_ParentID e = Some (version_root parent) \<and> e \<in> set (evidence_items w') \<and>
    (\<forall>x \<in> set (evidence_items w'). in_chain (version_root parent) x \<and> ei_IsCurrent x \<longleftrightarrow> x = e) \<and>
    map (\<lambda>x. x\<lparr>ei_IsCurrent := True\<rparr>) (evidence_items w') =
      map (\<lambda>x. x\<lparr>ei_IsCurrent := True\<rparr>) (evidence_items w) @ [e]"
proof -
  obtain parent y where p: "find_item p (evidence_items w) = Some parent" "ei_ID y \<notin> ei_ID ` set (evidence_items w)"
      "e = y\<lparr>ei_ParentID := Some (version_root parent), ei_Version := ei_Version parent + 1, ei_IsCurrent := True\<rparr>"
      "evidence_items w' = map (\<lambda>x. if in_chain (version_root parent) x then x\<lparr>ei_IsCurrent := False\<rparr> else x)
        (evidence_items w) @ [e]"
    using UploadNewVersion_calm [OF assms] by blast
  have "in_chain (version_root parent) x \<and> ei_IsCurrent x \<longleftrightarrow> x = e" if "x \<in> set (evidence_items w')" for x
  proof -
    have "ei_ID e = ei_ID y" using p(3) by simp
    then have ids: "ei_ID z \<noteq> ei_ID e" if "z \<in> set (evidence_items w)" for z using p(2) that by (metis image_eqI)
    have ne: "z \<noteq> e" "z\<lparr>ei_IsCurrent := False\<rparr> \<noteq> e" if "z \<in> set (evidence_items w)" for z
      using ids [OF that] by (auto dest: arg_cong [where f = ei_ID])
    have "in_chain (version_root parent) e" "ei_IsCurrent e" using p(3) by (simp_all add: in_chain_def)
    then show ?thesis using that ne unfolding p(4) by (auto simp: in_chain_def)
  qed
  then show ?thesis using p by (intro exI [of _ parent]) (auto simp: o_def)
qed

text \<open>
  Version numbers are not unique in a chain: when an item already has a next version, another new
  version of the same item gets the same number, without any failure.
\<close>

theorem version_numbers_repeat:
  assumes "UploadNewVersion E p i w = (Inr b, w')" "calm w" "find_item p (evidence_items w) = Some parent"
    and "a \<in> set (evidence_items w)" "ei_ParentID a = Some (version_root parent)" "ei_Version a = ei_Version parent + 1"
  shows "\<exists>a' \<in> set (evidence_items w'). ei_ID a' = ei_ID a \<and> ei_ID b \<noteq> ei_ID a \<and>
    ei_ParentID a' = ei_ParentID b \<and> ei_Version a' = ei_Version b"
proof -
  obtain y where p: "ei_ID y \<notin> ei_ID ` set (evidence_items w)"
      "b = y\<lparr>ei_ParentID := Some (version_root parent), ei_Version := ei_Version parent + 1, ei_IsCurrent := True\<rparr>"
      "evidence_items w' = map (\<lambda>x. if in_chain (version_root parent) x then x\<lparr>ei_IsCurrent := False\<rparr> else x)
        (evidence_items w) @ [b]"
    using UploadNewVersion_calm [OF assms(1,2)] assms(3) by auto
  have "ei_ID b = ei_ID y" using p(2) by simp
  then have "ei_ID b \<noteq> ei_ID a" using p(1) assms(4) by (metis image_eqI)
  moreover have "a\<lparr>ei_IsCurrent := False\<rparr> \<in> set (evidence_items w')"
    using assms(4,5) unfolding p(3) by (auto simp: in_chain_def image_iff intro!: bexI [of _ a])
  ultimately show ?thesis
    using p(2) assms(5,6) by (intro bexI [of _ "a\<lparr>ei_IsCurrent := False\<rparr>"]) simp_all
qed

lemma update_items_ids:
  assumes "\<And>x. ei_ID (g x) = ei_ID x"
  shows "ei_ID ` set (update_items_where P g rows) = ei_ID ` set rows"
proof -
  have "map ei_ID (update_items_where P g rows) = map ei_ID rows"
    using assms by (simp add: update_items_where_def)
  then show ?thesis by (metis set_map)
qed

lemma UploadNewVersion_succeeds:
  assumes "find_item p (evidence_items w) = Some parent" "ei_DestroyedAt parent = None" "calm w"
    and "upload_valid E (i\<lparr>up_CaseID := ei_CaseID parent\<rparr>) name data"
    and "find_case (ei_CaseID parent) (cases_table w) = Some c" "c_Status c = ''active''"
    and "counter_room w (ei_CaseID parent)"
    and fresh: "\<And>n. w_tick w \<le> n \<Longrightarrow> n \<le> w_tick w + 21 \<Longrightarrow> w_uuid w n \<notin> ei_ID ` set (evidence_items w)"
  shows "\<exists>e w'. UploadNewVersion E p i w = (Inr e, w')"
proof -
  let ?i = "i\<lparr>up_CaseID := ei_CaseID parent\<rparr>"
  have f: "evidence_FindByID p w = (Inr parent, tick w)" using assms(1,3) by (simp add: evidence_FindByID_def)
  have fr: "w_uuid (tick w) n \<notin> ei_ID ` set (evidence_items (tick w))"
    if "w_tick (tick w) \<le> n" "n \<le> w_tick (tick w) + 20" for n
    using fresh [of n] that by simp
  have "\<exists>e w'. Upload E ?i (tick w) = (Inr e, w') \<and> w_tick w' \<le> w_tick (tick w) + 30"
  proof (rule upload_calm [OF assms(4) calm_tick [OF assms(3)] _ assms(6)])
    show "find_case (up_CaseID ?i) (cases_table (tick w)) = Some c" using assms(5) by simp
    show "counter_room (tick w) (up_CaseID ?i)" using assms(7) by (simp add: counter_room_def)
  qed (rule fr)
  then obtain e w2 where u: "Upload E ?i (tick w) = (Inr e, w2)" by blast
  let ?root = "version_root parent" and ?v = "ei_Version parent + 1"
  define w3 where "w3 = snd (MarkPreviousVersions ?root w2)"
  define w4 where "w4 = snd (UpdateVersionFields (ei_ID e) ?root ?v w3)"
  have c2: "calm w2" using calm_steps [OF _ Upload_steps [OF u]] assms(3) by simp
  have c3: "calm w3" "ei_ID ` set (evidence_items w3) = ei_ID ` set (evidence_items w2)"
    using c2 by (simp_all add: w3_def MarkPreviousVersions_def exec_update_calm calm_def update_items_ids)
  have c4: "calm w4" "ei_ID ` set (evidence_items w4) = ei_ID ` set (evidence_items w3)"
    using c3(1) by (simp_all add: w4_def UpdateVersionFields_def exec_update_calm calm_def update_items_ids)
  obtain nm dt where "uploaded E ?i nm dt (tick w) e w2" using Upload_ok [OF u] by blast
  then have "e \<in> set (evidence_items w2)" by (rule uploaded_object)
  then have "ei_ID e \<in> ei_ID ` set (evidence_items w4)" using c3(2) c4(2) by simp
  then have ex: "find_item (ei_ID e) (evidence_items w4) \<noteq> None"
    by (auto simp: find_item_def find_None_iff)
  obtain a b c' k x where r: "UploadNewVersion E p i w = evidence_FindByID (ei_ID e) (recordCustodyEvent E a b c' k x w4)"
    using f u assms(2) by (simp add: UploadNewVersion_def Let_def version_root_def w3_def w4_def)
  have "same_evidence w4 (recordCustodyEvent E a b c' k x w4)" by simp
  then have "calm (recordCustodyEvent E a b c' k x w4)"
      "find_item (ei_ID e) (evidence_items (recordCustodyEvent E a b c' k x w4)) \<noteq> None"
    using calm_steps [OF c4(1)] ex by (simp_all add: same_evidence_def)
  then show ?thesis unfolding r by (auto simp: evidence_FindByID_def)
qed

definition sample_item :: "uuid \<Rightarrow> uuid option \<Rightarrow> int \<Rightarrow> time option \<Rightarrow> EvidenceItem" where
  "sample_item k parent version destroyed =
     \<lparr>ei_ID = k, ei_CaseID = 7, ei_EvidenceNumber = Some ''ICC-1-00001'', ei_Filename = ''a.txt'',
      ei_OriginalName = ''a.txt'', ei_StorageKey = Some ''k'', ei_ThumbnailKey = None,
      ei_MimeType = ''image/png'', ei_SizeBytes = 4, ei_SHA256Hash = ''00'', ei_Classification = ''restricted'',
      ei_Description = [], ei_Tags = [], ei_UploadedBy = ''u1'', ei_UploadedByName = ''U'',
      ei_IsCurrent = (parent \<noteq> None), ei_Version = version, ei_ParentID = parent, ei_TSAToken = None, ei_TSAName = None,
      ei_TSATimestamp = None, ei_TSAStatus = ''disabled'', ei_TSARetryCount = 0, ei_TSALastRetry = None,
      ei_ExifData = None, ei_Source = [], ei_SourceDate = None, ei_DestroyedAt = destroyed,
      ei_DestroyedBy = None, ei_DestroyReason = None, ei_CreatedAt = 0\<rparr>"

definition sample_chain_db :: evidence_db where
  \<comment> \<open>an item and its next version\<close>
  "sample_chain_db = sample_evidence_db (\<lambda>n. None) [sample_case 7 ''ICC-1'' ''active'' False]
     [sample_item 1 None 1 None, sample_item 2 (Some 1) 2 None]"

lemma sample_uuid_large:
  assumes "n \<le> 1000" "k < 100"
  shows "of_nat n + 100 \<noteq> (of_nat k :: uuid)"
proof
  assume "of_nat n + 100 = (of_nat k :: uuid)"
  then have "of_nat (n + 100) = (of_nat k :: uuid)" by (simp add: algebra_simps)
  moreover have "n + 100 < 2 ^ LENGTH(128)" "k < 2 ^ LENGTH(128)" using assms by simp_all
  ultimately have "n + 100 = k" by (simp only: word_of_nat_eq_iff take_bit_nat_eq_self)
  with assms show False by simp
qed

lemma sample_new_version:
  obtains b w' where "UploadNewVersion sample_evidence_env 1 (sample_upload 7 ''v3'') sample_chain_db = (Inr b, w')"
    "calm sample_chain_db" "find_item 1 (evidence_items sample_chain_db) = Some (sample_item 1 None 1 None)"
proof -
  have f: "find_item 1 (evidence_items sample_chain_db) = Some (sample_item 1 None 1 None)"
    by (simp add: sample_chain_db_def find_item_def sample_item_def)
  have c: "calm sample_chain_db" by (simp add: sample_chain_db_def calm_def)
  have v: "upload_valid sample_evidence_env ((sample_upload 7 ''v3'')\<lparr>up_CaseID := ei_CaseID (sample_item 1 None 1 None)\<rparr>) ''a.txt'' ''v3''"
    using sample_upload_valid [of "''v3''"] by (simp add: sample_upload_def sample_item_def)
  have fresh: "w_uuid sample_chain_db n \<notin> ei_ID ` set (evidence_items sample_chain_db)"
    if "n \<le> w_tick sample_chain_db + 21" for n
  proof -
    have "w_uuid sample_chain_db n = of_nat n + 100" "n \<le> 1000"
      using that by (simp_all add: sample_chain_db_def sample_evidence_db_def)
    then show ?thesis
      using sample_uuid_large [of n 1] sample_uuid_large [of n 2]
      by (simp add: sample_chain_db_def sample_item_def)
  qed
  have "\<exists>b w'. UploadNewVersion sample_evidence_env 1 (sample_upload 7 ''v3'') sample_chain_db = (Inr b, w')"
  proof (rule UploadNewVersion_succeeds [OF f _ c v])
    show "find_case (ei_CaseID (sample_item 1 None 1 None)) (cases_table sample_chain_db) =
        Some (sample_case 7 ''ICC-1'' ''active'' False)"
      by (simp add: sample_item_def sample_chain_db_def find_case_def)
    show "counter_room sample_chain_db (ei_CaseID (sample_item 1 None 1 None))"
      by (simp add: counter_room_def sample_chain_db_def)
  qed (use fresh in \<open>simp_all add: sample_item_def\<close>)
  then show ?thesis using that c f by blast
qed

theorem new_version_is_current_witness:
  "\<exists>b w'. UploadNewVersion sample_evidence_env 1 (sample_upload 7 ''v3'') sample_chain_db = (Inr b, w') \<and>
     ei_Version b = 2 \<and> ei_ParentID b = Some 1"
proof -
  obtain b w' where u: "UploadNewVersion sample_evidence_env 1 (sample_upload 7 ''v3'') sample_chain_db = (Inr b, w')"
      "calm sample_chain_db" "find_item 1 (evidence_items sample_chain_db) = Some (sample_item 1 None 1 None)"
    by (rule sample_new_version)
  have "ei_Version b = ei_Version (sample_item 1 None 1 None) + 1" "ei_ParentID b = Some (version_root (sample_item 1 None 1 None))"
    using new_version_is_current [OF u(1,2)] u(3) by auto
  with u(1) show ?thesis by (auto simp: version_root_def sample_item_def)
qed

theorem version_numbers_repeat_witness:
  "\<exists>b w'. UploadNewVersion sample_evidence_env 1 (sample_upload 7 ''v3'') sample_chain_db = (Inr b, w') \<and>
     (\<exists>a \<in> set (evidence_items w'). ei_ID a = 2 \<and> ei_Version a = ei_Version b)"
proof -
  obtain b w' where u: "UploadNewVersion sample_evidence_env 1 (sample_upload 7 ''v3'') sample_chain_db = (Inr b, w')"
      "calm sample_chain_db" "find_item 1 (evidence_items sample_chain_db) = Some (sample_item 1 None 1 None)"
    by (rule sample_new_version)
  have "sample_item 2 (Some 1) 2 None \<in> set (evidence_items sample_chain_db)"
      "ei_ParentID (sample_item 2 (Some 1) 2 None) = Some (version_root (sample_item 1 None 1 None))"
      "ei_Version (sample_item 2 (Some 1) 2 None) = ei_Version (sample_item 1 None 1 None) + 1"
    by (simp_all add: sample_chain_db_def sample_item_def version_root_def)
  from version_numbers_repeat [OF u this] u(1) show ?thesis by (auto simp: sample_item_def)
qed

section \<open>Disclosures\<close>

lemma scan_rows_world:
  assumes "w_tick u = w_tick v" "w_fault u = w_fault v"
  shows "fst (scan_rows f rs u) = fst (scan_rows f rs v) \<and> w_tick (snd (scan_rows f rs u)) = w_tick (snd (scan_rows f rs v))"
  using assms
proof (induction rs arbitrary: u v)
  case (Cons r rs)
  have "fst (scan_rows f rs (tick u)) = fst (scan_rows f rs (tick v)) \<and>
      w_tick (snd (scan_rows f rs (tick u))) = w_tick (snd (scan_rows f rs (tick v)))"
    using Cons by simp
  with Cons.prems show ?case
    by (cases "scan_rows f rs (tick u)"; cases "scan_rows f rs (tick v)")
      (auto simp: fault_def split: option.splits sum.splits)
qed simp

lemma query_rows_world:
  assumes "w_tick u = w_tick v" "w_fault u = w_fault v"
  shows "fst (query_rows a b c rs u) = fst (query_rows a b c rs v)"
proof -
  obtain r u' where u: "scan_rows b rs (tick u) = (r, u')" by fastforce
  obtain s v' where v: "scan_rows b rs (tick v) = (s, v')" by fastforce
  have "r = s" "w_tick u' = w_tick v'" using scan_rows_world [of "tick u" "tick v" b rs] u v assms by simp_all
  moreover have "w_fault u' = w_fault v'"
    using only_ticks_sel(1) [OF scan_rows_ticks [OF u]] only_ticks_sel(1) [OF scan_rows_ticks [OF v]] assms by simp
  ultimately show ?thesis
    using assms u v by (auto simp: query_rows_def fault_def split: option.splits sum.splits)
qed

lemma FindByCase_result:
  "fst (evidence_FindByCase E f page0 w) =
     (let page = evidence_clamp page0; P = (\<lambda>e. item_matches E f e \<and> disclosed (ef_UserRole f) (disclosures w) e) in
      case (if pg_Cursor page = [] then Inr None
            else map_sum id Some (decode_evidence_cursor (ee_lib E) (pg_Cursor page))) of
        Inl err \<Rightarrow> Inl (wrapf ''invalid cursor'' err)
      | Inr cursorID \<Rightarrow>
          (case fault w of
             Some err \<Rightarrow> Inl (wrapf ''count evidence'' err)
           | None \<Rightarrow>
               map_sum id (\<lambda>es. (if int (length es) > pg_Limit page then take (nat (pg_Limit page)) es else es,
                   int (length (filter P (evidence_items w)))))
                 (fst (query_rows (wrapf ''query evidence'') (wrapf ''scan evidence row'') id
                   (item_page P cursorID (pg_Limit page + 1) (evidence_items w)) (tick w)))))"
  by (simp add: evidence_FindByCase_def Let_def pg_call_def split: sum.splits option.splits prod.splits)

lemma FindByCase_disclosures:
  assumes "ef_UserRole f \<noteq> ''defence''"
  shows "fst (evidence_FindByCase E f p (w\<lparr>disclosures := ds\<rparr>)) = fst (evidence_FindByCase E f p w)"
proof -
  let ?u = "w\<lparr>disclosures := ds\<rparr>"
  have q: "fst (query_rows a b c rs (tick ?u)) = fst (query_rows a b c rs (tick w))" for a b c and rs :: "EvidenceItem list"
    by (rule query_rows_world) simp_all
  have e: "fault ?u = fault w" "evidence_items ?u = evidence_items w" by (simp_all add: fault_def)
  have d: "disclosed (ef_UserRole f) x e \<longleftrightarrow> True" for x e using assms by (simp add: disclosed_def)
  show ?thesis
    unfolding FindByCase_result q d e by (rule refl)
qed

lemma FindByCase_items:
  assumes "fst (evidence_FindByCase E f p w) = Inr (es, n)"
  shows "\<forall>e \<in> set es. item_matches E f e \<and> disclosed (ef_UserRole f) (disclosures w) e"
proof -
  let ?P = "\<lambda>e. item_matches E f e \<and> disclosed (ef_UserRole f) (disclosures w) e"
  let ?q = "\<lambda>c m. query_rows (wrapf ''query evidence'') (wrapf ''scan evidence row'') id
    (item_page ?P c m (evidence_items w)) (tick w)"
  let ?page = "evidence_clamp p"
  obtain c where c: "(if pg_Cursor ?page = [] then Inr None
      else map_sum id Some (decode_evidence_cursor (ee_lib E) (pg_Cursor ?page))) = Inr c"
    using assms unfolding FindByCase_result Let_def by (simp split: sum.splits)
  have ft: "fault w = None"
    using assms c unfolding FindByCase_result Let_def by (simp split: option.splits)
  define m where "m = pg_Limit ?page + 1"
  obtain ys where q: "fst (?q c m) = Inr ys"
    using assms unfolding FindByCase_result Let_def c m_def by (cases "fst (?q c m)") (simp_all add: ft m_def)
  then have "es = (if int (length ys) > pg_Limit ?page then take (nat (pg_Limit ?page)) ys else ys)"
    using assms unfolding FindByCase_result Let_def c by (simp add: ft m_def)
  then have sub: "set es \<subseteq> set ys" by (auto dest: in_set_takeD)
  obtain w' where "?q c m = (Inr ys, w')" using q by (cases "?q c m") simp
  then have "ys = item_page ?P c m (evidence_items w)" by (rule query_rows_ok)
  then show ?thesis using sub by (auto simp: item_page_def dest!: in_set_takeD)
qed

text \<open>
  Disclosures have no effect on the route that lists the evidence of a case, although the
  repository restricts a defence user to disclosed items when the filter carries the role: for every
  request the answer is the same whatever was disclosed, since the handler leaves the role empty.
\<close>

theorem list_ignores_disclosures:
  "fst (Handler_ListByCase E r (w\<lparr>disclosures := ds\<rparr>)) = fst (Handler_ListByCase E r w) \<and>
   (case fst (evidence_FindByCase E (f\<lparr>ef_UserRole := ''defence''\<rparr>) p w) of
      Inl err \<Rightarrow> True
    | Inr (es, n) \<Rightarrow> (\<lambda>e. (ei_CaseID e, ei_ID e)) ` set es \<subseteq> set (disclosures w))"
proof
  have role: "ef_UserRole (evidence_filter r c) \<noteq> ''defence''" for c by (simp add: evidence_filter_def)
  have l: "fst (evidence_List E g page (w\<lparr>disclosures := ds\<rparr>)) = fst (evidence_List E g page w)"
    if "ef_UserRole g \<noteq> ''defence''" for g page
    using FindByCase_disclosures [OF that, where E = E and p = page and w = w and ds = ds]
    by (auto simp: evidence_List_def Let_def split: prod.splits sum.splits)
  show "fst (Handler_ListByCase E r (w\<lparr>disclosures := ds\<rparr>)) = fst (Handler_ListByCase E r w)"
  proof (cases "lib_uuid_parse (ee_lib E) (req_param r ''caseID'')")
    case (Inr c)
    let ?l = "evidence_List E (evidence_filter r c) (evidence_parsePagination r)"
    from l [OF role [of c], of "evidence_parsePagination r"] Inr show ?thesis
      by (cases "?l w"; cases "?l (w\<lparr>disclosures := ds\<rparr>)") (simp add: Handler_ListByCase_def split: sum.splits)
  qed (simp add: Handler_ListByCase_def)
  show "case fst (evidence_FindByCase E (f\<lparr>ef_UserRole := ''defence''\<rparr>) p w) of
      Inl err \<Rightarrow> True
    | Inr (es, n) \<Rightarrow> (\<lambda>e. (ei_CaseID e, ei_ID e)) ` set es \<subseteq> set (disclosures w)"
    using FindByCase_items [of E "f\<lparr>ef_UserRole := ''defence''\<rparr>" p w]
    by (auto simp: disclosed_def split: sum.splits)
qed

section \<open>Thumbnails\<close>

text \<open>
  Destroying an item does not withdraw its thumbnail for good: the job that the upload left
  running may finish after the destruction, and then the thumbnail of the destroyed item is stored
  and served.
\<close>

theorem thumbnail_after_destruction:
  assumes "find_item k (evidence_items w) = Some e" "ei_DestroyedAt e \<noteq> None" "calm w"
    and "tj_evidence j = k" "ee_thumb E (tj_data j) (tj_mime j) = Inr (Some img)"
  shows "fst (GetThumbnail k (generateThumbnail E j w)) = Inr img \<and>
    isl (fst (Download E k actor (generateThumbnail E j w)))"
proof -
  let ?key = "ThumbnailKey (ee_lib E) (tj_case j) k"
  let ?w1 = "(tick w)\<lparr>objects := (objects w)(?key \<mapsto> (img, ''image/jpeg''))\<rparr>"
  have c1: "calm ?w1" using assms(3) by (simp add: calm_def)
  have p: "PutObject ?key img ''image/jpeg'' w = (None, ?w1)"
    using assms(3) by (simp add: PutObject_def eval_nat_numeral)
  let ?w2 = "(tick ?w1)\<lparr>evidence_items :=
    update_items_where (\<lambda>e. ei_ID e = k) (\<lambda>e. e\<lparr>ei_ThumbnailKey := Some ?key\<rparr>) (evidence_items w)\<rparr>"
  have g: "generateThumbnail E j w = ?w2"
    using p assms(4,5) c1 by (simp add: generateThumbnail_def UpdateThumbnailKey_def exec_update_calm Let_def)
  have c2: "calm ?w2" using c1 by (simp add: calm_def)
  let ?e = "e\<lparr>ei_ThumbnailKey := Some ?key\<rparr>"
  have f: "find_item k (evidence_items ?w2) = Some ?e"
    using find_item_Some [OF assms(1)] by (simp add: find_item_update assms(1))
  have o: "objects ?w2 ?key = Some (img, ''image/jpeg'')" by simp
  have ne: "?key \<noteq> []" by (simp add: ThumbnailKey_def)
  have "fst (GetThumbnail k w') = Inr img"
    if "calm w'" "find_item k (evidence_items w') = Some ?e" "objects w' ?key = Some (img, ''image/jpeg'')"
    for w' :: "'a evidence_db_scheme"
    using that ne by (simp add: GetThumbnail_def evidence_FindByID_def derefStr_def GetObject_def)
  then have "fst (GetThumbnail k ?w2) = Inr img" using c2 f o by blast
  moreover have "isl (fst (Download E k actor ?w2))"
    using f assms(2) by (intro Download_destroyed [OF f]) simp
  ultimately show ?thesis unfolding g by blast
qed

theorem thumbnail_after_destruction_witness:
  "fst (GetThumbnail 1 (generateThumbnail sample_evidence_env \<lparr>tj_evidence = 1, tj_case = 7, tj_mime = ''image/png'', tj_data = ''data''\<rparr>
     (sample_evidence_db (\<lambda>n. None) [] [sample_item 1 None 1 (Some 5)]))) = Inr ''thumb''"
  by (rule thumbnail_after_destruction [where e = "sample_item 1 None 1 (Some 5)", THEN conjunct1])
    (simp_all add: find_item_def sample_item_def calm_def)

section \<open>Session locks\<close>

text \<open>
  The session lock that guards the verification of a case is released by the call that asks for
  it only when the pool serves both calls with the same connection; otherwise the release reports
  success, the lock stays, and another connection cannot take it any more.
\<close>

theorem session_lock_release:
  assumes "TryAdvisoryLock k w = (Inr True, w1)" "ReleaseAdvisoryLock k w1 = (None, w2)" "session_locks w = []"
  shows "(session_locks w2 = [] \<longleftrightarrow> pool_conn w (w_tick w) = pool_conn w (Suc (w_tick w))) \<and>
    (session_locks w2 \<noteq> [] \<longrightarrow> calm w2 \<longrightarrow> pool_conn w (w_tick w2) \<noteq> pool_conn w (w_tick w) \<longrightarrow>
       fst (TryAdvisoryLock k w2) = Inr False)"
proof -
  let ?c = "pool_conn w (w_tick w)"
  have w1: "w1 = (tick w)\<lparr>session_locks := [(k, ?c)]\<rparr>"
    using assms(1,3) by (auto simp: TryAdvisoryLock_def Let_def split: option.splits if_splits)
  have w2: "w2 = (tick w1)\<lparr>session_locks := remove1 (k, pool_conn w1 (w_tick w1)) (session_locks w1)\<rparr>"
    using assms(2) by (auto simp: ReleaseAdvisoryLock_def split: option.splits)
  have s2: "session_locks w2 = remove1 (k, pool_conn w (Suc (w_tick w))) [(k, ?c)]" "pool_conn w2 = pool_conn w"
    unfolding w2 w1 by simp_all
  then have "session_locks w2 \<noteq> [] \<Longrightarrow> session_locks w2 = [(k, ?c)]" by (auto split: if_splits)
  moreover have "fst (TryAdvisoryLock k w2) = Inr False"
    if "session_locks w2 = [(k, ?c)]" "calm w2" "pool_conn w (w_tick w2) \<noteq> ?c"
    using that s2(2) by (auto simp: TryAdvisoryLock_def Let_def)
  moreover have "session_locks w2 = [] \<longleftrightarrow> ?c = pool_conn w (Suc (w_tick w))" using s2(1) by auto
  ultimately show ?thesis by blast
qed

theorem session_lock_release_witness:
  "\<exists>w1 w2. TryAdvisoryLock 5 (sample_evidence_db (\<lambda>n. None) [] []) = (Inr True, w1) \<and>
     ReleaseAdvisoryLock 5 w1 = (None, w2) \<and> session_locks w2 \<noteq> []"
proof -
  let ?w = "sample_evidence_db (\<lambda>n. None) [] []"
  obtain w1 where t: "TryAdvisoryLock 5 ?w = (Inr True, w1)" "w_fault w1 = w_fault ?w"
    by (simp add: TryAdvisoryLock_def fault_def)
  obtain w2 where r: "ReleaseAdvisoryLock 5 w1 = (None, w2)"
    using t(2) by (simp add: ReleaseAdvisoryLock_def fault_def)
  have "session_locks w2 \<noteq> []"
    using session_lock_release [OF t(1) r, THEN conjunct1] by simp
  with t(1) r show ?thesis by blast
qed

section \<open>Numbers\<close>

text \<open>
  The numbers of a case have gaps: an upload that fails after it has taken a number does not give
  it back, and the next upload takes the number after it, so that no item ever gets the lost one.
\<close>

theorem evidence_number_gap:
  assumes "Upload E i w = (Inl err, w1)" "evidence_counter w1 c \<noteq> evidence_counter w c"
    and "Upload E j w1 = (Inr e, w2)" "up_CaseID j = c" "evidence_inv E w" "key_env E w2"
  shows "(\<exists>row. find_case c (cases_table w2) = Some row \<and>
      ei_EvidenceNumber e = Some (evidence_number (c_ReferenceCode row) (evidence_counter w c + 2))) \<and>
    (\<forall>x \<in> set (evidence_items w2). ei_CaseID x = c \<longrightarrow>
      (\<forall>ref. ei_EvidenceNumber x \<noteq> Some (evidence_number ref (evidence_counter w c + 1))))"
proof -
  have f: "evidence_items w1 = evidence_items w \<and> cases_table w1 = cases_table w \<and>
      evidence_counter w1 c = evidence_counter w c + 1"
  proof (cases "upload_checks E i w")
    case (Pair s v)
    show ?thesis
    proof (cases s)
      case (Inl err')
      with Pair assms(1) have "only_ticks w w1" by (auto simp: Upload_def dest: upload_checks_state)
      with assms(2) show ?thesis by (simp add: evidence_only_ticks)
    next
      case (Inr nd)
      obtain name data where nd: "nd = (name, data)" by fastforce
      note ok = upload_checks_ok [OF Pair [unfolded Inr nd]]
      have "upload_store E i name data (tick w) = (Inl err, w1)"
        using assms(1) Pair Inr nd ok by (auto simp: Upload_def Let_def split: prod.splits sum.splits)
      from upload_store_fail [OF this] assms(2) show ?thesis by (auto split: if_splits)
    qed
  qed
  obtain row nm dt where u: "uploaded E j nm dt w1 e w2" using Upload_ok [OF assms(3)] by blast
  then obtain row where u: "find_case c (cases_table w1) = Some row" "evidence_items w2 = evidence_items w1 @ [e]"
      "ei_EvidenceNumber e = Some (evidence_number (c_ReferenceCode row) (evidence_counter w1 c + 1))"
      "cases_table w2 = cases_table w1"
    unfolding uploaded_def assms(4) by blast
  have pos: "0 \<le> evidence_counter w c" using assms(5) unfolding evidence_inv_def by blast
  have "ei_EvidenceNumber x \<noteq> Some (evidence_number ref (evidence_counter w c + 1))"
    if x: "x \<in> set (evidence_items w2)" "ei_CaseID x = c" for x ref
  proof (cases "x = e")
    case True
    then show ?thesis
      using u(3) f pos evidence_number_inj [of "c_ReferenceCode row" "evidence_counter w c + 2" ref "evidence_counter w c + 1"]
      by (auto simp: add.assoc)
  next
    case False
    with x u(2) f have "x \<in> set (evidence_items w)" by auto
    then have "numbered w x" using assms(5) unfolding evidence_inv_def by blast
    then obtain r n where n: "1 \<le> n" "n \<le> evidence_counter w c" "ei_EvidenceNumber x = Some (evidence_number r n)"
      unfolding numbered_def x(2) by blast
    then show ?thesis using evidence_number_inj [of r n ref "evidence_counter w c + 1"] by auto
  qed
  then show ?thesis using u f by (auto simp: add.assoc)
qed

definition sample_gap_db :: evidence_db where
  \<comment> \<open>the three attempts of the first upload to store its object fail\<close>
  "sample_gap_db = sample_evidence_db (\<lambda>n. if n \<in> {8, 9, 10} then Some ''timeout'' else None)
     [sample_case 7 ''ICC-1'' ''active'' False] []"

lemma sample_gap_first:
  obtains err w where "Upload sample_evidence_env (sample_upload 7 ''data'') sample_gap_db = (Inl err, w)"
    "evidence_counter w 7 = 1" "w_tick w = 11" "evidence_items w = []"
    "cases_table w = cases_table sample_gap_db" "w_fault w = w_fault sample_gap_db" "w_uuid w = w_uuid sample_start"
proof -
  let ?i = "sample_upload 7 ''data''" and ?E = sample_evidence_env
  have c: "find_case 7 (cases_table sample_gap_db) = Some (sample_case 7 ''ICC-1'' ''active'' False)"
    by (simp add: sample_gap_db_def find_case_def)
  have t: "w_tick sample_gap_db = 0" "w_fault sample_gap_db = (\<lambda>n. if n \<in> {8, 9, 10} then Some ''timeout'' else None)"
      "evidence_counter sample_gap_db 7 = 0"
    by (simp_all add: sample_gap_db_def)
  have k: "upload_checks ?E ?i sample_gap_db = (Inr (''a.txt'', ''data''), tick sample_gap_db)"
    using sample_upload_valid [of "''data''"] c t
    by (auto simp: upload_checks_def upload_valid_def GetStatus_def case_column_def Let_def fault_def sample_upload_def)
  obtain err w where u: "upload_store ?E ?i ''a.txt'' ''data'' (tick sample_gap_db) = (Inl err, w)"
      "evidence_counter w 7 = 1" "w_tick w = 11"
    using c t by (simp add: upload_store_def stamp_digest_def GetReferenceCode_def case_column_def fault_def
        IncrementEvidenceCounter_def pg_call_def sample_upload_def PutObject_def eval_nat_numeral Let_def)
  moreover have "Upload ?E ?i sample_gap_db = (Inl err, w)" using k u(1) by (simp add: Upload_def)
  moreover have "evidence_items w = []" "cases_table w = cases_table sample_gap_db" "evidence_steps sample_gap_db w"
    using upload_store_fail [OF u(1)] by (auto simp: sample_gap_db_def evidence_steps_def)
  moreover have "w_uuid sample_gap_db = w_uuid sample_start"
    by (simp add: sample_gap_db_def sample_start_def sample_evidence_db_def)
  ultimately show ?thesis using that by (simp add: evidence_steps_def)
qed

theorem evidence_number_gap_witness:
  "\<exists>err w1 e w2. Upload sample_evidence_env (sample_upload 7 ''data'') sample_gap_db = (Inl err, w1) \<and>
     Upload sample_evidence_env (sample_upload 7 ''data'') w1 = (Inr e, w2) \<and>
     ei_EvidenceNumber e = Some (evidence_number ''ICC-1'' 2)"
proof -
  obtain err w where g: "Upload sample_evidence_env (sample_upload 7 ''data'') sample_gap_db = (Inl err, w)"
    "evidence_counter w 7 = 1" "w_tick w = 11" "evidence_items w = []"
    "cases_table w = cases_table sample_gap_db" "w_fault w = w_fault sample_gap_db" "w_uuid w = w_uuid sample_start"
    by (rule sample_gap_first)
  have c: "find_case 7 (cases_table sample_gap_db) = Some (sample_case 7 ''ICC-1'' ''active'' False)"
    by (simp add: sample_gap_db_def find_case_def)
  have "calm w" using g(3,6) by (auto simp: calm_def sample_gap_db_def)
  moreover have "find_case (up_CaseID (sample_upload 7 ''data'')) (cases_table w) = Some (sample_case 7 ''ICC-1'' ''active'' False)"
    using c g(5) by (simp add: sample_upload_def)
  ultimately have "\<exists>e w'. Upload sample_evidence_env (sample_upload 7 ''data'') w = (Inr e, w') \<and> w_tick w' \<le> w_tick w + 30"
    using sample_upload_valid [of "''data''"] g(2,4)
    by (intro upload_calm [where c = "sample_case 7 ''ICC-1'' ''active'' False"])
      (simp_all add: counter_room_def sample_upload_def)
  then obtain e w2 where u: "Upload sample_evidence_env (sample_upload 7 ''data'') w = (Inr e, w2)" "w_tick w2 \<le> 41"
    using g(3) by auto
  have k: "key_env sample_evidence_env w2"
    using Upload_steps [OF u(1)] u(2) g(7) by (intro sample_key_env) (simp_all add: evidence_steps_def)
  have inv: "evidence_inv sample_evidence_env sample_gap_db"
    by (rule evidence_inv_start) (simp_all add: sample_gap_db_def)
  have cnt: "evidence_counter sample_gap_db 7 = 0" by (simp add: sample_gap_db_def)
  then have ne: "evidence_counter w 7 \<noteq> evidence_counter sample_gap_db 7" using g(2) by simp
  obtain row where "find_case 7 (cases_table w2) = Some row"
      "ei_EvidenceNumber e = Some (evidence_number (c_ReferenceCode row) 2)"
    using evidence_number_gap [OF g(1) ne u(1) _ inv k] cnt by (auto simp: sample_upload_def)
  moreover obtain nm dt where "uploaded sample_evidence_env (sample_upload 7 ''data'') nm dt w e w2"
    using Upload_ok [OF u(1)] by blast
  ultimately show ?thesis using g(1) u(1) uploaded_cases c g(5) by fastforce
qed

end
