(* ===== verification/Integrity_Tsa.thy ===== *)
theory Integrity_Tsa
  imports Evidence_Inv
begin

text \<open>
  \<open>internal/integrity/tsa.go\<close> and \<open>tsa_retry.go\<close>: the client of a time-stamping authority and the job
  that stamps pending evidence. The package that encodes and parses RFC 3161 messages and the HTTP
  client are parameters; \<open>ctx\<close> is never cancelled.
\<close>

section \<open>Hexadecimal digests\<close>

definition hexVal :: "char \<Rightarrow> nat \<times> bool" where
  "hexVal c =
     (let n = of_char c in
      if 48 \<le> n \<and> n \<le> 57 then (n - 48, True)
      else if 97 \<le> n \<and> n \<le> 102 then (n - 97 + 10, True)
      else if 65 \<le> n \<and> n \<le> 70 then (n - 65 + 10, True)
      else (0, False))"

definition errInvalidHex :: go_error where "errInvalidHex = ErrSentinel ''invalid hex string''"

fun hex_pairs :: "string \<Rightarrow> go_error + string" where
  \<comment> \<open>the loop of \<open>hexToBytes\<close>\<close>
  "hex_pairs (a # b # s) =
     (case (hexVal a, hexVal b) of
        ((hi, True), (lo, True)) \<Rightarrow> map_sum id (\<lambda>bs. char_of (16 * hi + lo) # bs) (hex_pairs s)
      | _ \<Rightarrow> Inl errInvalidHex)"
| "hex_pairs s = Inr []"

definition hexToBytes :: "string \<Rightarrow> go_error + string" where
  "hexToBytes hex = (if length hex mod 2 \<noteq> 0 then Inl errInvalidHex else hex_pairs hex)"

section \<open>The client\<close>

text \<open>A parsed response of the authority, and what a request to it comes back with.\<close>

record tsa_info =
  tr_HashedMessage :: string
  tr_Certificates :: "string list"
  tr_Time :: time

datatype tsa_http = TsaHttpFails string | TsaHttpAnswer nat "go_error + string"

text \<open>
  \<open>tc_marshal\<close> is \<open>timestamp.Request.Marshal\<close> for a SHA-256 digest, \<open>tc_parse\<close> is
  \<open>timestamp.ParseResponse\<close>, \<open>tc_http\<close> the answer to a request at a tick. The certificates are their
  subjects' common names.
\<close>

record tsa_client =
  tc_marshal :: "string \<Rightarrow> go_error + string"
  tc_http :: "nat \<Rightarrow> string \<Rightarrow> tsa_http"
  tc_parse :: "string \<Rightarrow> go_error + tsa_info"

definition maxRetries :: nat where "maxRetries = 3"

definition doRequest ::
  "tsa_client \<Rightarrow> string \<Rightarrow> string \<Rightarrow> 'a world_scheme \<Rightarrow> (go_error + string \<times> string \<times> time) \<times> 'a world_scheme" where
  "doRequest C tsReq digest w =
     ((case tc_http C (w_tick w) tsReq of
         TsaHttpFails msg \<Rightarrow> Inl (wrapf ''send TSA request'' (ErrNew msg))
       | TsaHttpAnswer status answer \<Rightarrow>
           if status \<noteq> 200 then Inl (ErrNew (''TSA returned status '' @ itoa (int status)))
           else
             (case answer of
                Inl err \<Rightarrow> Inl (wrapf ''read TSA response'' err)
              | Inr body \<Rightarrow>
                  (case tc_parse C body of
                     Inl err \<Rightarrow> Inl (wrapf ''parse TSA response'' err)
                   | Inr ts \<Rightarrow>
                       if tr_HashedMessage ts \<noteq> digest then Inl (ErrNew ''TSA response digest mismatch'')
                       else Inr (body, (case tr_Certificates ts of [] \<Rightarrow> [] | cn # cns \<Rightarrow> cn), tr_Time ts)))), tick w)"

fun issue_attempts ::
  "nat \<Rightarrow> tsa_client \<Rightarrow> string \<Rightarrow> string \<Rightarrow> go_error \<Rightarrow> 'a world_scheme
     \<Rightarrow> (go_error + string \<times> string \<times> time) \<times> 'a world_scheme" where
  \<comment> \<open>the loop of \<open>IssueTimestamp\<close> with that many attempts left\<close>
  "issue_attempts 0 C tsReq digest lastErr w =
     (Inl (wrapf (''TSA request failed after '' @ itoa (int maxRetries) @ '' retries'') lastErr), w)"
| "issue_attempts (Suc n) C tsReq digest lastErr w =
     (case doRequest C tsReq digest w of
        (Inr x, w1) \<Rightarrow> (Inr x, w1)
      | (Inl err, w1) \<Rightarrow> issue_attempts n C tsReq digest err w1)"

text \<open>
  The two implementations of \<open>TimestampAuthority\<close>. A token is \<open>None\<close> for \<open>nil\<close>; \<open>zero_time\<close> is \<open>time.Time{}\<close>,
  the first instant of the year 1.
\<close>

datatype authority = RFC3161Client tsa_client | NoopTimestampAuthority

definition zero_time :: time where "zero_time = - 62135596800000000000"

fun IssueTimestamp ::
  "authority \<Rightarrow> string \<Rightarrow> 'a world_scheme \<Rightarrow> (go_error + string option \<times> string \<times> time) \<times> 'a world_scheme" where
  "IssueTimestamp (RFC3161Client C) digest w =
     (case tc_marshal C digest of
        Inl err \<Rightarrow> (Inl (wrapf ''create TSA request'' err), w)
      | Inr tsReq \<Rightarrow>
          (case issue_attempts maxRetries C tsReq digest (ErrNew []) w of
             (Inl err, w1) \<Rightarrow> (Inl err, w1)
           | (Inr (token, name, ts), w1) \<Rightarrow> (Inr (Some token, name, ts), w1)))"
| "IssueTimestamp NoopTimestampAuthority digest w = (Inr (None, [], zero_time), w)"

fun VerifyTimestamp :: "authority \<Rightarrow> string \<Rightarrow> string \<Rightarrow> go_error option" where
  "VerifyTimestamp (RFC3161Client C) token digest =
     (case tc_parse C token of
        Inl err \<Rightarrow> Some (wrapf ''parse TSA token'' err)
      | Inr ts \<Rightarrow> if tr_HashedMessage ts \<noteq> digest then Some (ErrNew ''TSA token digest mismatch'') else None)"
| "VerifyTimestamp NoopTimestampAuthority token digest = None"

section \<open>The job\<close>

record tsa_job =
  rj_evidence :: evidence_env
  rj_tsa :: authority
  rj_custody :: bool

definition tsaMaxAge :: time where "tsaMaxAge = 24 * 3600 * 1000000000"
definition tsaRetryLockID :: int where "tsaRetryLockID = 0x5453415F52455452"
definition tsaRetryBatch :: int where "tsaRetryBatch = 50"

definition tsa_recordCustodyEvent ::
  "tsa_job \<Rightarrow> uuid \<Rightarrow> uuid \<Rightarrow> string \<Rightarrow> (string \<times> string) list \<Rightarrow> 'a evidence_db_scheme \<Rightarrow> 'a evidence_db_scheme" where
  "tsa_recordCustodyEvent J caseID evidenceID action detail w =
     (if \<not> rj_custody J then w
      else snd (RecordEvidenceEvent (ee_lib (rj_evidence J)) caseID evidenceID action ''system'' detail w))"

definition retry_item :: "tsa_job \<Rightarrow> PendingTSAItem \<Rightarrow> 'a evidence_db_scheme \<Rightarrow> 'a evidence_db_scheme" where
  \<comment> \<open>one turn of the loop of \<open>runOnce\<close>\<close>
  "retry_item J item w0 =
     (let w = tick w0 in
      if now w0 - pt_CreatedAt item > tsaMaxAge then
        tsa_recordCustodyEvent J (pt_CaseID item) (pt_ID item) ''tsa_permanently_failed''
          [(''reason'', ''exceeded 24 hour retry window'')] (snd (evidence_MarkTSAFailed (pt_ID item) w))
      else
        (case hexToBytes (pt_SHA256Hash item) of
           Inl err \<Rightarrow> snd (evidence_MarkTSAFailed (pt_ID item) w)
         | Inr digest \<Rightarrow>
             (case IssueTimestamp (rj_tsa J) digest w of
                (Inl err, w1) \<Rightarrow> snd (evidence_IncrementTSARetry (rj_evidence J) (pt_ID item) w1)
              | (Inr (token, tsaName, tsTime), w1) \<Rightarrow>
                  (case evidence_UpdateTSAResult (rj_evidence J) (pt_ID item) token tsaName tsTime w1 of
                     (Some err, w2) \<Rightarrow> w2
                   | (None, w2) \<Rightarrow>
                       tsa_recordCustodyEvent J (pt_CaseID item) (pt_ID item) ''tsa_retry_succeeded''
                         [(''attempt'', itoa (pt_RetryCount item + 1)), (''tsa_name'', tsaName)] w2))))"

definition runOnce :: "tsa_job \<Rightarrow> 'a evidence_db_scheme \<Rightarrow> 'a evidence_db_scheme" where
  "runOnce J w =
     (case TryAdvisoryLock tsaRetryLockID w of
        (Inl err, w1) \<Rightarrow> w1
      | (Inr False, w1) \<Rightarrow> w1
      | (Inr True, w1) \<Rightarrow>
          (case evidence_FindPendingTSA tsaRetryBatch w1 of
             (Inl err, w2) \<Rightarrow> snd (ReleaseAdvisoryLock tsaRetryLockID w2)
           | (Inr items, w2) \<Rightarrow> snd (ReleaseAdvisoryLock tsaRetryLockID (fold (retry_item J) items w2))))"

fun tsa_job_loop :: "tsa_job \<Rightarrow> nat \<Rightarrow> 'a evidence_db_scheme \<Rightarrow> 'a evidence_db_scheme" where
  \<comment> \<open>\<open>startWithInterval\<close> until \<open>ctx\<close> is done, after that many ticks of the ticker\<close>
  "tsa_job_loop J 0 w = w"
| "tsa_job_loop J (Suc n) w = tsa_job_loop J n (runOnce J w)"

section \<open>Hexadecimal digests round trip\<close>

lemma hexVal_digit: "n < 16 \<Longrightarrow> hexVal (hex_digit n) = (n, True)"
  by (auto simp: hexVal_def hex_digit_def Let_def)

lemma hex_encode_Cons: "hex_encode (c # s) = hex_digit (of_char c div 16) # hex_digit (of_char c mod 16) # hex_encode s"
  by (simp add: hex_encode_def)

lemma char_div_16: "(of_char c :: nat) div 16 < 16"
  using nat_of_char_less_256 [of c] by (simp add: less_mult_imp_div_less)

lemma hexToBytes_encode: "hexToBytes (hex_encode bs) = Inr bs"
proof -
  have "hex_pairs (hex_encode bs) = Inr bs"
  proof (induction bs)
    case (Cons c bs)
    then show ?case
      using hexVal_digit [OF char_div_16] hexVal_digit [of "of_char c mod 16"]
      by (simp add: hex_encode_Cons)
  qed (simp add: hex_encode_def)
  then show ?thesis by (simp add: hexToBytes_def length_hex_encode)
qed

text \<open>The accepted texts are exactly those of an even number of digits, upper or lower case.\<close>

definition hex_lower :: "char \<Rightarrow> char" where
  "hex_lower c = (if 65 \<le> (of_char c :: nat) \<and> (of_char c :: nat) \<le> 70 then char_of (of_char c + 32 :: nat) else c)"

lemma hexVal_lower: "hexVal c = (n, True) \<Longrightarrow> n < 16 \<and> hex_digit n = hex_lower c"
  by (auto simp: hexVal_def hex_digit_def hex_lower_def Let_def split: if_splits)

lemma hex_pairs_lower: "hex_pairs s = Inr bs \<Longrightarrow> even (length s) \<Longrightarrow> hex_encode bs = map hex_lower s"
proof (induction s arbitrary: bs rule: hex_pairs.induct)
  case (1 a b s)
  obtain hi lo bs' where h: "hexVal a = (hi, True)" "hexVal b = (lo, True)" "hex_pairs s = Inr bs'"
      "bs = char_of (16 * hi + lo) # bs'"
    using "1.prems"(1) by (auto split: prod.splits bool.splits sum.splits simp: map_sum_def)
  have n: "hi < 16" "hex_digit hi = hex_lower a" "lo < 16" "hex_digit lo = hex_lower b"
    using hexVal_lower h(1,2) by auto
  then have "(of_char (char_of (16 * hi + lo) :: char) :: nat) = 16 * hi + lo" by simp
  moreover have "hex_encode bs' = map hex_lower s" using "1.IH" h "1.prems"(2) by auto
  ultimately show ?case using h n by (simp add: hex_encode_Cons)
qed (auto simp: hex_encode_def)

section \<open>What a stamp says\<close>

lemma doRequest_ok:
  "doRequest C tsReq digest w = (Inr (token, name, ts), w') \<Longrightarrow> \<exists>i. tc_parse C token = Inr i \<and> tr_HashedMessage i = digest"
  by (auto simp: doRequest_def split: tsa_http.splits if_splits sum.splits)

lemma issue_attempts_ok:
  "issue_attempts n C tsReq digest err w = (Inr (token, name, ts), w') \<Longrightarrow>
     \<exists>i. tc_parse C token = Inr i \<and> tr_HashedMessage i = digest"
proof (induction n C tsReq digest err w rule: issue_attempts.induct)
  case (2 n C tsReq digest lastErr w)
  then show ?case by (auto split: prod.splits sum.splits dest: doRequest_ok)
qed simp

lemma issue_attempts_ticks: "issue_attempts n C tsReq digest err w = (r, w') \<Longrightarrow> only_ticks w w'"
proof (induction n C tsReq digest err w arbitrary: r rule: issue_attempts.induct)
  case (2 n C tsReq digest lastErr w)
  obtain x where "doRequest C tsReq digest w = (x, tick w)" by (simp add: doRequest_def)
  then show ?case using 2 by (cases x) (auto intro: only_ticks_from_tick)
qed simp

lemma IssueTimestamp_ticks: "IssueTimestamp A digest w = (r, w') \<Longrightarrow> only_ticks w w'"
  by (cases A) (auto split: sum.splits prod.splits dest: issue_attempts_ticks)

lemma IssueTimestamp_verifies:
  assumes "IssueTimestamp A digest w = (Inr (Some t, name, ts), w')"
  shows "VerifyTimestamp A t digest = None"
proof (cases A)
  case (RFC3161Client C)
  then obtain tsReq w1 where "issue_attempts maxRetries C tsReq digest (ErrNew []) w = (Inr (t, name, ts), w1)"
    using assms by (auto split: sum.splits prod.splits)
  then show ?thesis using RFC3161Client issue_attempts_ok [of maxRetries C tsReq digest "ErrNew []" w t name ts w1] by auto
qed simp

text \<open>The contract of \<open>TimestampAuthority\<close> that both implementations keep.\<close>

locale timestamp_authority =
  fixes issue :: "string \<Rightarrow> 'a world_scheme \<Rightarrow> (go_error + string option \<times> string \<times> time) \<times> 'a world_scheme"
    and verify :: "string \<Rightarrow> string \<Rightarrow> go_error option"
  assumes issue_verifies: "issue digest w = (Inr (Some token, name, ts), w') \<Longrightarrow> verify token digest = None"
    and issue_ticks: "issue digest w = (r, w') \<Longrightarrow> only_ticks w w'"
begin

lemma issued_other_digest:
  "issue digest w = (Inr (Some token, name, ts), w') \<Longrightarrow> verify token digest' \<noteq> None \<Longrightarrow> digest' \<noteq> digest"
  using issue_verifies by metis

end

interpretation tsa: timestamp_authority "IssueTimestamp A" "VerifyTimestamp A"
  for A :: authority
  by unfold_locales (blast intro: IssueTimestamp_verifies IssueTimestamp_ticks)+

lemma real_token: "IssueTimestamp (RFC3161Client C) digest w = (Inr (token, name, ts), w') \<Longrightarrow> token \<noteq> None"
  by (auto split: sum.splits prod.splits)

lemma issue_attempts_retry:
  assumes "j < n" "doRequest C tsReq digest ((tick ^^ j) w) = (Inr x, w')"
  shows "\<exists>y. fst (issue_attempts n C tsReq digest err w) = Inr y"
  using assms
proof (induction n arbitrary: j err w)
  case (Suc n)
  obtain r where r: "doRequest C tsReq digest w = (r, tick w)" by (simp add: doRequest_def)
  show ?case
  proof (cases r)
    case (Inr y)
    then show ?thesis using r by (cases y) simp
  next
    case (Inl e)
    then obtain i where i: "j = Suc i" using Suc.prems r by (cases j) auto
    have "(tick ^^ j) w = (tick ^^ i) (tick w)" unfolding i funpow_Suc_right by simp
    then show ?thesis using Suc.IH [of i "tick w" e] Suc.prems i r Inl by simp
  qed
qed simp

section \<open>Effect of the job on the items\<close>

text \<open>
  The job never touches the log of custody: its actor \<open>system\<close> is no UUID, and the column rejects it.
\<close>

lemma custody_Insert_actor:
  "custody_Insert L e w = (None, w') \<Longrightarrow> lib_col_uuid L (ev_ActorUserID e) \<noteq> None"
  by (auto simp: custody_Insert_def Let_def split: prod.splits option.splits if_splits)

lemma tsa_record_rejected:
  assumes "lib_col_uuid (ee_lib (rj_evidence J)) ''system'' = None"
  shows "custody_log (tsa_recordCustodyEvent J c k action detail w) = custody_log w"
proof -
  obtain r w' where r: "RecordEvidenceEvent (ee_lib (rj_evidence J)) c k action ''system'' detail w = (r, w')"
    by fastforce
  then have "r \<noteq> None" using custody_Insert_actor assms by (fastforce simp: RecordEvidenceEvent_def)
  then have "only_ticks (tick w) w'" using r custody_Insert_fail unfolding RecordEvidenceEvent_def by blast
  then have "custody_log w' = custody_log (tick w)" by (rule only_ticks_custody_log)
  then show ?thesis using r by (simp add: tsa_recordCustodyEvent_def tick_def)
qed

lemma tsa_record_items [simp]:
  "evidence_items (tsa_recordCustodyEvent J c k action detail w) = evidence_items w"
  using RecordEvidenceEvent_same [of "ee_lib (rj_evidence J)" c k action "''system''" detail w]
  by (cases "RecordEvidenceEvent (ee_lib (rj_evidence J)) c k action ''system'' detail w")
    (simp add: tsa_recordCustodyEvent_def same_evidence_def)

text \<open>What one turn of the loop may do to a row that it finds by its identifier.\<close>

definition token_verifies :: "authority \<Rightarrow> EvidenceItem \<Rightarrow> bool" where
  "token_verifies A e \<longleftrightarrow>
     (\<exists>token digest. ei_TSAToken e = Some token \<and> hexToBytes (ei_SHA256Hash e) = Inr digest \<and>
        VerifyTimestamp A token digest = None)"

definition tsa_change :: "authority \<Rightarrow> EvidenceItem \<Rightarrow> EvidenceItem \<Rightarrow> bool" where
  "tsa_change A e e' \<longleftrightarrow>
     ei_ID e' = ei_ID e \<and> ei_SHA256Hash e' = ei_SHA256Hash e \<and>
     (ei_TSAStatus e' \<noteq> ''stamped'' \<or> (ei_TSAStatus e' = ei_TSAStatus e \<and> ei_TSAToken e' = ei_TSAToken e) \<or>
      (A \<noteq> NoopTimestampAuthority \<longrightarrow> token_verifies A e'))"

lemma tsa_change_refl [simp]: "tsa_change A e e"
  by (simp add: tsa_change_def)

lemma tsa_change_trans: "tsa_change A d e \<Longrightarrow> tsa_change A e f \<Longrightarrow> tsa_change A d f"
  by (auto simp: tsa_change_def token_verifies_def)

text \<open>The rows with the identifier of \<open>item\<close> have its digest.\<close>

definition pending_of :: "EvidenceItem list \<Rightarrow> PendingTSAItem \<Rightarrow> bool" where
  "pending_of rows item \<longleftrightarrow> (\<forall>e \<in> set rows. ei_ID e = pt_ID item \<longrightarrow> ei_SHA256Hash e = pt_SHA256Hash item)"

definition tsa_changes :: "authority \<Rightarrow> uuid set \<Rightarrow> EvidenceItem list \<Rightarrow> EvidenceItem list \<Rightarrow> bool" where
  \<comment> \<open>only rows with an identifier of the set change, each as \<open>tsa_change\<close> says\<close>
  "tsa_changes A K rows rows' \<longleftrightarrow>
     list_all2 (\<lambda>e e'. tsa_change A e e' \<and> (ei_ID e \<notin> K \<longrightarrow> e' = e)) rows rows'"

lemma tsa_changes_refl [simp]: "tsa_changes A K rows rows"
  by (simp add: tsa_changes_def list_all2_same)

lemma tsa_changes_mono: "tsa_changes A K rows rows' \<Longrightarrow> K \<subseteq> K' \<Longrightarrow> tsa_changes A K' rows rows'"
  unfolding tsa_changes_def by (erule list_all2_mono) auto

lemma tsa_changes_trans: "tsa_changes A K r1 r2 \<Longrightarrow> tsa_changes A K r2 r3 \<Longrightarrow> tsa_changes A K r1 r3"
  unfolding tsa_changes_def
  using list_all2_trans [where ?P1.0 = "\<lambda>e e'. tsa_change A e e' \<and> (ei_ID e \<notin> K \<longrightarrow> e' = e)"
      and ?P2.0 = "\<lambda>e e'. tsa_change A e e' \<and> (ei_ID e \<notin> K \<longrightarrow> e' = e)"
      and ?P3.0 = "\<lambda>e e'. tsa_change A e e' \<and> (ei_ID e \<notin> K \<longrightarrow> e' = e)"] tsa_change_trans
  by (metis (no_types, lifting))

lemma tsa_changes_pending: "tsa_changes A K rows rows' \<Longrightarrow> pending_of rows item \<Longrightarrow> pending_of rows' item"
  by (fastforce simp: tsa_changes_def pending_of_def tsa_change_def list_all2_conv_all_nth in_set_conv_nth)

lemma tsa_changes_ids: "tsa_changes A K rows rows' \<Longrightarrow> map ei_ID rows' = map ei_ID rows"
  unfolding tsa_changes_def by (induction rule: list_all2_induct) (auto simp: tsa_change_def)

lemma tsa_changes_update:
  assumes "\<And>e. e \<in> set rows \<Longrightarrow> ei_ID e = k \<Longrightarrow> tsa_change A e (g e)"
  shows "tsa_changes A {k} rows (update_items_where (\<lambda>e. ei_ID e = k) g rows)"
  using assms by (auto simp: tsa_changes_def update_items_where_def list_all2_conv_all_nth)

lemma exec_update_items:
  "exec_update f P g w = (r, w') \<Longrightarrow>
     evidence_items w' = evidence_items w \<or> evidence_items w' = update_items_where P g (evidence_items w)"
  by (auto simp: exec_update_def split: option.splits)

lemma exec_update_custody: "exec_update f P g w = (r, w') \<Longrightarrow> custody_log w' = custody_log w"
  by (auto simp: exec_update_def tick_def split: option.splits)

lemma tsa_update_changes:
  assumes "exec_update f (\<lambda>e. ei_ID e = k) g w = (r, w')"
    and "\<And>e. e \<in> set (evidence_items w) \<Longrightarrow> ei_ID e = k \<Longrightarrow> tsa_change A e (g e)"
  shows "tsa_changes A {k} (evidence_items w) (evidence_items w')"
  using exec_update_items [OF assms(1)] tsa_changes_update [of "evidence_items w" k A g] assms(2) by auto

lemma only_ticks_items: "only_ticks w w' \<Longrightarrow> evidence_items w' = evidence_items w"
  by (simp add: evidence_only_ticks)

lemma job_tick [simp]: "evidence_items (tick w) = evidence_items w" "custody_log (tick v) = custody_log v"
  by (simp_all add: tick_def)

lemma failed_changes:
  "tsa_changes A {k} (evidence_items w) (evidence_items (snd (evidence_MarkTSAFailed k w)))"
  "custody_log (snd (evidence_MarkTSAFailed k w)) = custody_log w"
proof -
  obtain r w' where u: "evidence_MarkTSAFailed k w = (r, w')" by fastforce
  show "tsa_changes A {k} (evidence_items w) (evidence_items (snd (evidence_MarkTSAFailed k w)))"
    using u tsa_update_changes by (fastforce simp: evidence_MarkTSAFailed_def tsa_change_def)
  show "custody_log (snd (evidence_MarkTSAFailed k w)) = custody_log w"
    using u exec_update_custody unfolding evidence_MarkTSAFailed_def by fastforce
qed

lemma retried_changes:
  "tsa_changes A {k} (evidence_items w) (evidence_items (snd (evidence_IncrementTSARetry E k w)))"
  "custody_log (snd (evidence_IncrementTSARetry E k w)) = custody_log w"
proof -
  obtain r w' where u: "evidence_IncrementTSARetry E k w = (r, w')" by fastforce
  show "tsa_changes A {k} (evidence_items w) (evidence_items (snd (evidence_IncrementTSARetry E k w)))"
    using u tsa_update_changes by (fastforce simp: evidence_IncrementTSARetry_def Let_def tsa_change_def)
  show "custody_log (snd (evidence_IncrementTSARetry E k w)) = custody_log w"
    using u exec_update_custody unfolding evidence_IncrementTSARetry_def Let_def by fastforce
qed

lemma stamped_changes:
  assumes "IssueTimestamp A digest v = (Inr (token, name, ts), w)" "hexToBytes (pt_SHA256Hash item) = Inr digest"
    and "pending_of (evidence_items w) item" "evidence_UpdateTSAResult E (pt_ID item) token name ts w = (r, w')"
  shows "tsa_changes A {pt_ID item} (evidence_items w) (evidence_items w')" "custody_log w' = custody_log w"
proof -
  let ?g = "\<lambda>e. e\<lparr>ei_TSAToken := token, ei_TSAName := Some name,
              ei_TSATimestamp := Some (lib_col_time (ee_lib E) ts), ei_TSAStatus := ''stamped''\<rparr>"
  have u: "exec_update (wrapf ''update TSA result'') (\<lambda>e. ei_ID e = pt_ID item) ?g w = (r, w')"
    using assms(4) unfolding evidence_UpdateTSAResult_def .
  have "tsa_change A e (?g e)" if e: "e \<in> set (evidence_items w)" "ei_ID e = pt_ID item" for e
  proof (cases A)
    case (RFC3161Client C)
    then obtain t where "token = Some t" using real_token assms(1) by blast
    then have "token = Some t" "VerifyTimestamp A t digest = None" using tsa.issue_verifies assms(1) by blast+
    moreover have "hexToBytes (ei_SHA256Hash e) = Inr digest"
      using assms(2,3) e by (simp add: pending_of_def)
    ultimately show ?thesis by (simp add: tsa_change_def token_verifies_def)
  next
    case NoopTimestampAuthority
    then show ?thesis by (simp add: tsa_change_def)
  qed
  then show "tsa_changes A {pt_ID item} (evidence_items w) (evidence_items w')" by (rule tsa_update_changes [OF u])
  show "custody_log w' = custody_log w" by (rule exec_update_custody [OF u])
qed

lemma retry_item_changes:
  assumes "pending_of (evidence_items w) item"
  shows "tsa_changes (rj_tsa J) {pt_ID item} (evidence_items w) (evidence_items (retry_item J item w))"
    and "lib_col_uuid (ee_lib (rj_evidence J)) ''system'' = None \<Longrightarrow> custody_log (retry_item J item w) = custody_log w"
proof -
  have "tsa_changes (rj_tsa J) {pt_ID item} (evidence_items w) (evidence_items (retry_item J item w)) \<and>
    (lib_col_uuid (ee_lib (rj_evidence J)) ''system'' = None \<longrightarrow> custody_log (retry_item J item w) = custody_log w)"
  proof (cases "now w - pt_CreatedAt item > tsaMaxAge \<or> isl (hexToBytes (pt_SHA256Hash item))")
    case True
    then show ?thesis
      using failed_changes(1) [of "rj_tsa J" "pt_ID item" "tick w"] failed_changes(2) [of "pt_ID item" "tick w"]
      by (auto simp: retry_item_def Let_def tsa_record_rejected split: sum.splits)
  next
    case False
    then obtain digest where d: "hexToBytes (pt_SHA256Hash item) = Inr digest"
      by (cases "hexToBytes (pt_SHA256Hash item)") auto
    obtain r w1 where i: "IssueTimestamp (rj_tsa J) digest (tick w) = (r, w1)" by fastforce
    have w1: "evidence_items w1 = evidence_items w" "custody_log w1 = custody_log w"
      using only_ticks_items [OF tsa.issue_ticks [OF i]] only_ticks_custody_log [OF tsa.issue_ticks [OF i]]
      by simp_all
    show ?thesis
    proof (cases r)
      case (Inl err)
      then show ?thesis
        using False d i retried_changes(1) [of "rj_tsa J" "pt_ID item" w1 "rj_evidence J"]
            retried_changes(2) [of "rj_evidence J" "pt_ID item" w1] w1
        by (simp add: retry_item_def Let_def)
    next
      case (Inr x)
      obtain token name ts where x: "x = (token, name, ts)" by (cases x)
      obtain u w2 where u: "evidence_UpdateTSAResult (rj_evidence J) (pt_ID item) token name ts w1 = (u, w2)" by fastforce
      note c = stamped_changes [OF i [unfolded Inr x] d _ u]
      show ?thesis
        using False d i Inr x u c assms w1
        by (auto simp: retry_item_def Let_def tsa_record_rejected split: option.splits)
    qed
  qed
  then show "tsa_changes (rj_tsa J) {pt_ID item} (evidence_items w) (evidence_items (retry_item J item w))"
    and "lib_col_uuid (ee_lib (rj_evidence J)) ''system'' = None \<Longrightarrow> custody_log (retry_item J item w) = custody_log w"
    by blast+
qed

lemma retry_items_changes:
  assumes "\<forall>item \<in> set items. pending_of (evidence_items w) item \<and> pt_ID item \<in> K"
  shows "tsa_changes (rj_tsa J) K (evidence_items w) (evidence_items (fold (retry_item J) items w)) \<and>
    (lib_col_uuid (ee_lib (rj_evidence J)) ''system'' = None \<longrightarrow>
       custody_log (fold (retry_item J) items w) = custody_log w)"
  using assms
proof (induction items arbitrary: w)
  case (Cons item items)
  have p: "pending_of (evidence_items w) item" using Cons.prems by simp
  note c = retry_item_changes [OF p, of J]
  have k: "tsa_changes (rj_tsa J) K (evidence_items w) (evidence_items (retry_item J item w))"
    using tsa_changes_mono [OF c(1)] Cons.prems by simp
  have "\<forall>i \<in> set items. pending_of (evidence_items (retry_item J item w)) i \<and> pt_ID i \<in> K"
    using Cons.prems tsa_changes_pending [OF k] by simp
  from Cons.IH [OF this] show ?case using k c(2) tsa_changes_trans by fastforce
qed simp

section \<open>Runs of the job\<close>

text \<open>The clock is the same one, read later.\<close>

definition clock_kept :: "'a evidence_db_scheme \<Rightarrow> 'a evidence_db_scheme \<Rightarrow> bool" where
  "clock_kept w w' \<longleftrightarrow> w_now w' = w_now w \<and> w_tick w \<le> w_tick w'"

lemma clock_kept_refl [simp]: "clock_kept w w"
  by (simp add: clock_kept_def)

lemma clock_kept_trans: "clock_kept u v \<Longrightarrow> clock_kept v w \<Longrightarrow> clock_kept u w"
  by (simp add: clock_kept_def)

lemma clock_tick [simp]: "clock_kept w (tick w)"
  by (simp add: clock_kept_def)

lemma clock_ticks: "only_ticks w w' \<Longrightarrow> clock_kept w w'"
  by (simp add: clock_kept_def only_ticks_sel)

lemma clock_update: "exec_update f P g w = (r, w') \<Longrightarrow> clock_kept w w'"
  by (auto simp: exec_update_def clock_kept_def split: option.splits)

lemma clock_failed: "clock_kept w (snd (evidence_MarkTSAFailed k w))"
  by (cases "evidence_MarkTSAFailed k w") (auto simp: evidence_MarkTSAFailed_def dest: clock_update)

lemma clock_retried: "clock_kept w (snd (evidence_IncrementTSARetry E k w))"
  by (cases "evidence_IncrementTSARetry E k w") (auto simp: evidence_IncrementTSARetry_def Let_def dest: clock_update)

lemma clock_stamped: "evidence_UpdateTSAResult E k token name ts w = (r, w') \<Longrightarrow> clock_kept w w'"
  unfolding evidence_UpdateTSAResult_def by (rule clock_update)

lemma clock_record: "clock_kept w (tsa_recordCustodyEvent J c k action detail w)"
proof -
  obtain r w' where r: "RecordEvidenceEvent (ee_lib (rj_evidence J)) c k action ''system'' detail w = (r, w')"
    by fastforce
  have "clock_kept (tick w) w'"
    using r custody_Insert_ok custody_Insert_fail clock_ticks unfolding RecordEvidenceEvent_def
    by (cases r) (fastforce simp: clock_kept_def)+
  then have "clock_kept w w'" by (rule clock_kept_trans [OF clock_tick])
  then show ?thesis using r by (simp add: tsa_recordCustodyEvent_def)
qed

lemma clock_retry_item: "clock_kept w (retry_item J item w)"
proof (cases "hexToBytes (pt_SHA256Hash item)")
  case (Inl err)
  then show ?thesis
    by (auto simp: retry_item_def Let_def intro: clock_kept_trans [OF clock_tick clock_failed] clock_kept_trans [OF _ clock_record])
next
  case (Inr digest)
  obtain r w1 where i: "IssueTimestamp (rj_tsa J) digest (tick w) = (r, w1)" by fastforce
  have w1: "clock_kept w w1" using clock_kept_trans [OF clock_tick clock_ticks [OF tsa.issue_ticks [OF i]]] .
  have late: "clock_kept w (tsa_recordCustodyEvent J c k a d (snd (evidence_MarkTSAFailed i (tick w))))" for c k a d i
    using clock_kept_trans [OF clock_kept_trans [OF clock_tick clock_failed] clock_record] .
  have err: "clock_kept w (snd (evidence_IncrementTSARetry (rj_evidence J) (pt_ID item) w1))"
    using clock_kept_trans [OF w1 clock_retried] .
  have ok: "clock_kept w w2 \<and> clock_kept w (tsa_recordCustodyEvent J c k a d w2)"
    if "evidence_UpdateTSAResult (rj_evidence J) (pt_ID item) token name ts w1 = (u, w2)" for token name ts u w2 c k a d
    using clock_kept_trans [OF w1 clock_stamped [OF that]] clock_kept_trans [OF _ clock_record] by blast
  show ?thesis
    using Inr i late err ok by (auto simp: retry_item_def Let_def split: sum.splits prod.splits option.splits)
qed

lemma clock_retry_items: "clock_kept w (fold (retry_item J) items w)"
  by (induction items arbitrary: w) (auto intro: clock_kept_trans clock_retry_item)

definition findable :: "'a evidence_db_scheme \<Rightarrow> EvidenceItem \<Rightarrow> bool" where
  \<comment> \<open>the conditions of \<open>FindPendingTSA\<close> at some reading of the clock from now on\<close>
  "findable w e \<longleftrightarrow> ei_TSAStatus e = ''pending'' \<and> ei_DestroyedAt e = None \<and>
     (\<exists>n \<ge> w_tick w. ei_CreatedAt e > w_now w n - hours24)"

lemma FindPendingTSA_items:
  assumes "evidence_FindPendingTSA limit w = (Inr items, w')" "item \<in> set items"
  shows "\<exists>e \<in> set (evidence_items w). findable w e \<and> pt_ID item = ei_ID e \<and> pt_SHA256Hash item = ei_SHA256Hash e"
  using assms unfolding evidence_FindPendingTSA_def
  by (auto dest!: query_rows_ok in_set_takeD simp: findable_def now_def) (metis order_refl)

lemma FindPendingTSA_ticks: "evidence_FindPendingTSA limit w = (r, w') \<Longrightarrow> only_ticks w w'"
  unfolding evidence_FindPendingTSA_def by (rule query_rows_ticks)

lemma lock_frame:
  "TryAdvisoryLock l w = (r, w') \<Longrightarrow> evidence_items w' = evidence_items w \<and> custody_log w' = custody_log w \<and> clock_kept w w'"
  "evidence_items (snd (ReleaseAdvisoryLock l w)) = evidence_items w"
  "custody_log (snd (ReleaseAdvisoryLock l w)) = custody_log w" "clock_kept w (snd (ReleaseAdvisoryLock l w))"
  by (auto simp: TryAdvisoryLock_def ReleaseAdvisoryLock_def Let_def clock_kept_def split: option.splits if_splits)

lemma runOnce_changes:
  assumes "distinct (map ei_ID (evidence_items w))"
  shows "tsa_changes (rj_tsa J) (ei_ID ` {e \<in> set (evidence_items w). findable w e})
      (evidence_items w) (evidence_items (runOnce J w))"
    and "clock_kept w (runOnce J w)"
    and "lib_col_uuid (ee_lib (rj_evidence J)) ''system'' = None \<Longrightarrow> custody_log (runOnce J w) = custody_log w"
proof -
  let ?K = "ei_ID ` {e \<in> set (evidence_items w). findable w e}"
  obtain l w1 where l: "TryAdvisoryLock tsaRetryLockID w = (l, w1)" by fastforce
  note f1 = lock_frame(1) [OF l]
  have "tsa_changes (rj_tsa J) ?K (evidence_items w) (evidence_items (runOnce J w)) \<and> clock_kept w (runOnce J w) \<and>
    (lib_col_uuid (ee_lib (rj_evidence J)) ''system'' = None \<longrightarrow> custody_log (runOnce J w) = custody_log w)"
  proof (cases "l = Inr True")
    case False
    then show ?thesis using l f1 by (auto simp: runOnce_def split: sum.splits bool.splits)
  next
    case True
    obtain r w2 where r: "evidence_FindPendingTSA tsaRetryBatch w1 = (r, w2)" by fastforce
    note t = FindPendingTSA_ticks [OF r]
    have w2: "evidence_items w2 = evidence_items w" "custody_log w2 = custody_log w" "clock_kept w w2"
      using f1 only_ticks_items [OF t] only_ticks_custody_log [OF t] clock_kept_trans clock_ticks [OF t] by metis+
    show ?thesis
    proof (cases r)
      case (Inl err)
      then show ?thesis
        using l True r w2 clock_kept_trans [OF w2(3) lock_frame(4)]
        by (simp add: runOnce_def lock_frame(2,3))
    next
      case (Inr items)
      have "pending_of (evidence_items w2) item \<and> pt_ID item \<in> ?K" if i: "item \<in> set items" for item
      proof -
        obtain e where e: "e \<in> set (evidence_items w)" "findable w1 e" "pt_ID item = ei_ID e" "pt_SHA256Hash item = ei_SHA256Hash e"
          using FindPendingTSA_items [OF r [unfolded Inr] i] f1 by auto
        have "findable w e" using e(2) f1 unfolding findable_def clock_kept_def by (metis order_trans)
        moreover have "pending_of (evidence_items w) item"
          using e assms by (auto simp: pending_of_def distinct_map inj_on_def)
        ultimately show ?thesis using e w2(1) by auto
      qed
      then have c: "tsa_changes (rj_tsa J) ?K (evidence_items w2) (evidence_items (fold (retry_item J) items w2)) \<and>
          (lib_col_uuid (ee_lib (rj_evidence J)) ''system'' = None \<longrightarrow>
             custody_log (fold (retry_item J) items w2) = custody_log w2)"
        by (intro retry_items_changes) blast
      have k: "clock_kept w (snd (ReleaseAdvisoryLock tsaRetryLockID (fold (retry_item J) items w2)))"
        using clock_kept_trans [OF clock_kept_trans [OF w2(3) clock_retry_items] lock_frame(4)] .
      show ?thesis using l True r Inr w2(1,2) c k by (simp add: runOnce_def lock_frame(2,3))
    qed
  qed
  then show "tsa_changes (rj_tsa J) ?K (evidence_items w) (evidence_items (runOnce J w))" "clock_kept w (runOnce J w)"
    "lib_col_uuid (ee_lib (rj_evidence J)) ''system'' = None \<Longrightarrow> custody_log (runOnce J w) = custody_log w"
    by blast+
qed

lemma tsa_loop_step:
  assumes "distinct (map ei_ID (evidence_items w))"
  shows "distinct (map ei_ID (evidence_items (runOnce J w)))"
  using tsa_changes_ids [OF runOnce_changes(1) [OF assms]] assms by simp

lemma tsa_loop_changes:
  assumes "distinct (map ei_ID (evidence_items w))"
  shows "tsa_changes (rj_tsa J) UNIV (evidence_items w) (evidence_items (tsa_job_loop J n w)) \<and>
    (lib_col_uuid (ee_lib (rj_evidence J)) ''system'' = None \<longrightarrow> custody_log (tsa_job_loop J n w) = custody_log w)"
  using assms
proof (induction n arbitrary: w)
  case (Suc n)
  have "tsa_changes (rj_tsa J) UNIV (evidence_items w) (evidence_items (runOnce J w))"
    using tsa_changes_mono [OF runOnce_changes(1) [OF Suc.prems]] by simp
  then show ?case
    using Suc.IH [OF tsa_loop_step [OF Suc.prems]] runOnce_changes(3) [OF Suc.prems] tsa_changes_trans by fastforce
qed simp

text \<open>
  C35: whatever the network does, an item that is stamped after runs of the job was either stamped with the same token before, or has a
  token that verifies against the recorded digest of its file, when the job talks to a real authority.
\<close>

theorem job_stamps_verify:
  assumes "distinct (map ei_ID (evidence_items w))" "rj_tsa J = RFC3161Client C"
    and "i < length (evidence_items w)" "e = evidence_items w ! i" "e' = evidence_items (tsa_job_loop J n w) ! i"
    and "ei_TSAStatus e' = ''stamped''"
  shows "ei_ID e' = ei_ID e \<and> ei_SHA256Hash e' = ei_SHA256Hash e \<and>
    ((ei_TSAStatus e = ''stamped'' \<and> ei_TSAToken e' = ei_TSAToken e) \<or>
     (\<exists>token digest. ei_TSAToken e' = Some token \<and> hexToBytes (ei_SHA256Hash e) = Inr digest \<and>
        VerifyTimestamp (RFC3161Client C) token digest = None))"
proof -
  have "tsa_change (RFC3161Client C) e e'"
    using tsa_loop_changes [OF assms(1), of J n] assms(2-5)
    by (auto simp: tsa_changes_def dest: list_all2_nthD)
  then show ?thesis using assms(6) by (auto simp: tsa_change_def token_verifies_def)
qed

text \<open>
  An item that is pending for more than 24 hours stays as it is for ever, however often the job runs:
  the query that finds work leaves such items out, so that the job never marks them as failed.
\<close>

theorem expired_items_stay_pending:
  assumes "distinct (map ei_ID (evidence_items w))" "e \<in> set (evidence_items w)"
    and "\<And>n. w_tick w \<le> n \<Longrightarrow> ei_CreatedAt e + tsaMaxAge \<le> w_now w n"
  shows "e \<in> set (evidence_items (tsa_job_loop J n w))"
  using assms
proof (induction n arbitrary: w)
  case (Suc n)
  let ?w = "runOnce J w"
  obtain i where i: "i < length (evidence_items w)" "evidence_items w ! i = e"
    using Suc.prems(2) by (meson in_set_conv_nth)
  have "ei_ID e \<notin> ei_ID ` {e \<in> set (evidence_items w). findable w e}"
  proof
    assume "ei_ID e \<in> ei_ID ` {e \<in> set (evidence_items w). findable w e}"
    then have "findable w e" using Suc.prems(1,2) by (auto simp: distinct_map inj_on_def)
    then show False using Suc.prems(3) unfolding findable_def tsaMaxAge_def hours24_def by force
  qed
  then have "evidence_items ?w ! i = e" "i < length (evidence_items ?w)"
    using runOnce_changes(1) [OF Suc.prems(1), of J] i unfolding tsa_changes_def
    by (auto dest: list_all2_nthD list_all2_lengthD)
  then have e: "e \<in> set (evidence_items ?w)" using nth_mem by blast
  have clock: "ei_CreatedAt e + tsaMaxAge \<le> w_now ?w n" if "w_tick ?w \<le> n" for n
    using runOnce_changes(2) [OF Suc.prems(1), of J] Suc.prems(3) that unfolding clock_kept_def by (metis order_trans)
  have "e \<in> set (evidence_items (tsa_job_loop J n ?w))"
    by (rule Suc.IH [OF tsa_loop_step [OF Suc.prems(1)] e clock])
  then show ?case by simp
qed simp

text \<open>
  The job leaves no trace in the log of custody, although it asks for an entry after every stamp and every
  final failure: its actor is the text \<open>system\<close>, which the column of type \<open>uuid\<close> rejects.
\<close>

theorem job_never_in_custody_log:
  assumes "distinct (map ei_ID (evidence_items w))" "lib_col_uuid (ee_lib (rj_evidence J)) ''system'' = None"
  shows "custody_log (tsa_job_loop J n w) = custody_log w"
  using tsa_loop_changes [OF assms(1)] assms(2) by blast

text \<open>With time-stamping switched off the job marks pending items as stamped, with no token at all.\<close>

lemma noop_stamps_without_token:
  assumes "rj_tsa J = NoopTimestampAuthority" "no_faults w" "e \<in> set (evidence_items (retry_item J item w))"
    and "ei_ID e = pt_ID item" "now w - pt_CreatedAt item \<le> tsaMaxAge" "hexToBytes (pt_SHA256Hash item) = Inr digest"
  shows "ei_TSAStatus e = ''stamped'' \<and> ei_TSAToken e = None \<and>
    ei_TSATimestamp e = Some (lib_col_time (ee_lib (rj_evidence J)) zero_time)"
  using assms by (auto simp: retry_item_def Let_def evidence_UpdateTSAResult_def exec_update_def fault_none
      update_items_where_def split: if_splits)

end
