(* ===== verification/Integrity_Verify.thy ===== *)
theory Integrity_Verify
  imports Integrity_Tsa Cases_Api
begin

text \<open>
  \<open>internal/integrity/verifier.go\<close>, \<open>adapters.go\<close> and \<open>handler.go\<close>: the check of one file against its
  recorded digest, and the asynchronous check of all evidence of a case with its two endpoints.
  Writing to the program's log is not modelled.
\<close>

section \<open>Data\<close>

record VerificationJob =
  vj_ID :: string
  vj_CaseID :: uuid
  vj_Status :: string
  vj_Total :: int
  vj_Verified :: int
  vj_Mismatches :: int
  vj_Missing :: int
  vj_StartedAt :: time
  vj_Error :: string

record NotificationEvent =
  ne_Type :: string
  ne_CaseID :: uuid
  ne_Title :: string
  ne_Body :: string

text \<open>
  \<open>verify_jobs\<close> is the map of jobs by the text of the case, \<open>verify_tasks\<close> the goroutines that were started
  and have not run, with the user that started them, and \<open>notices\<close> what was passed to the notifier.
\<close>

record integrity_db = evidence_db +
  verify_jobs :: "string \<Rightarrow> VerificationJob option"
  verify_tasks :: "(VerificationJob \<times> string) list"
  notices :: "NotificationEvent list"

text \<open>\<open>ie_quote\<close> is the verb \<open>%q\<close>.\<close>

record integrity_env =
  ie_evidence :: evidence_env
  ie_tsa :: authority
  ie_quote :: "string \<Rightarrow> string"

abbreviation ie_lib :: "integrity_env \<Rightarrow> go_lib" where
  "ie_lib E \<equiv> ee_lib (ie_evidence E)"

section \<open>One file\<close>

definition StorageFileReader_GetObject ::
  "string \<Rightarrow> 'a evidence_db_scheme \<Rightarrow> (go_error + string) \<times> 'a evidence_db_scheme" where
  \<comment> \<open>the adapter drops the size and the content type\<close>
  "StorageFileReader_GetObject key w =
     (case GetObject key w of (Inl err, w1) \<Rightarrow> (Inl err, w1) | (Inr (data, contentType), w1) \<Rightarrow> (Inr data, w1))"

interpretation file_reader: object_reader "\<lambda>w k. map_option fst (objects w k)" StorageFileReader_GetObject
proof unfold_locales
  fix k x r and w w' :: "'a evidence_db_scheme"
  show "StorageFileReader_GetObject k w = (Inr x, w') \<Longrightarrow> map_option fst (objects w k) = Some x"
    by (auto simp: StorageFileReader_GetObject_def split: prod.splits sum.splits dest: minio.get_ok)
  show "StorageFileReader_GetObject k w = (r, w') \<Longrightarrow> (\<lambda>k. map_option fst (objects w' k)) = (\<lambda>k. map_option fst (objects w k))"
    by (auto simp: StorageFileReader_GetObject_def split: prod.splits sum.splits dest: minio.get_keeps)
qed

definition ComputeSHA256 ::
  "go_lib \<Rightarrow> string \<Rightarrow> 'a evidence_db_scheme \<Rightarrow> (go_error + string) \<times> 'a evidence_db_scheme" where
  "ComputeSHA256 L data w =
     (case pg_call (wrapf ''compute SHA-256'') w of
        (Some err, w1) \<Rightarrow> (Inl err, w1)
      | (None, w1) \<Rightarrow> (Inr (hex_encode (lib_sha256 L data)), w1))"

definition VerifyFileHash ::
  "integrity_env \<Rightarrow> string \<Rightarrow> string \<Rightarrow> 'a evidence_db_scheme \<Rightarrow> (string \<times> go_error option) \<times> 'a evidence_db_scheme" where
  "VerifyFileHash E storageKey expectedHash w =
     (case StorageFileReader_GetObject storageKey w of
        (Inl err, w1) \<Rightarrow> (([], Some (wrapf (''read object '' @ ie_quote E storageKey) err)), w1)
      | (Inr data, w1) \<Rightarrow>
          (case ComputeSHA256 (ie_lib E) data w1 of
             (Inl err, w2) \<Rightarrow> (([], Some (wrapf (''hash object '' @ ie_quote E storageKey) err)), w2)
           | (Inr computed, w2) \<Rightarrow>
               if computed \<noteq> expectedHash then
                 ((computed, Some (ErrNew (''hash mismatch for '' @ ie_quote E storageKey @ '': expected '' @ expectedHash @
                                           '', got '' @ computed))), w2)
               else ((computed, None), w2)))"

section \<open>One item\<close>

definition Notify :: "NotificationEvent \<Rightarrow> 'a integrity_db_scheme \<Rightarrow> go_error option \<times> 'a integrity_db_scheme" where
  \<comment> \<open>\<open>NotificationAdapter\<close>: the event is passed on to the function it holds\<close>
  "Notify event w = (fault w, (tick w)\<lparr>notices := event # notices w\<rparr>)"

definition alert_action :: "string \<Rightarrow> string" where
  \<comment> \<open>the text with a long dash, three bytes in UTF-8\<close>
  "alert_action what = ''INTEGRITY ALERT '' @ [CHR 0xE2, CHR 0x80, CHR 0x94] @ '' '' @ what"

definition raise_alert ::
  "integrity_env \<Rightarrow> VerifiableItem \<Rightarrow> string \<Rightarrow> string \<Rightarrow> (string \<times> string) list \<Rightarrow> NotificationEvent
     \<Rightarrow> 'a integrity_db_scheme \<Rightarrow> 'a integrity_db_scheme" where
  \<comment> \<open>what both handlers do after counting: flag, record, notify; every error is only logged\<close>
  "raise_alert E item action actorUserID detail event w =
     (let w1 = snd (FlagIntegrityWarning (vi_ID item) w);
          w2 = snd (RecordEvidenceEvent (ie_lib E) (vi_CaseID item) (vi_ID item) action actorUserID detail w1)
      in snd (Notify event w2))"

definition handleMismatch ::
  "integrity_env \<Rightarrow> VerificationJob \<Rightarrow> VerifiableItem \<Rightarrow> string \<Rightarrow> string \<Rightarrow> 'a integrity_db_scheme
     \<Rightarrow> VerificationJob \<times> 'a integrity_db_scheme" where
  "handleMismatch E job item actorUserID computedHash w =
     (job\<lparr>vj_Mismatches := vj_Mismatches job + 1\<rparr>,
      raise_alert E item (alert_action ''stored hash does not match computed hash'') actorUserID
        [(''computed_hash'', computedHash), (''expected_hash'', vi_SHA256Hash item), (''filename'', vi_Filename item),
         (''storage_key'', vi_StorageKey item)]
        \<lparr>ne_Type = ''integrity_warning'', ne_CaseID = vi_CaseID item, ne_Title = ''Evidence Integrity Alert'',
         ne_Body = ''Hash mismatch detected for evidence '' @ ie_quote E (vi_Filename item) @ '' (ID: '' @
           lib_uuid_string (ie_lib E) (vi_ID item) @ ''). Expected '' @ vi_SHA256Hash item @ '', computed '' @ computedHash @ ''.''\<rparr>
        w)"

definition handleMissing ::
  "integrity_env \<Rightarrow> VerificationJob \<Rightarrow> VerifiableItem \<Rightarrow> string \<Rightarrow> go_error \<Rightarrow> 'a integrity_db_scheme
     \<Rightarrow> VerificationJob \<times> 'a integrity_db_scheme" where
  "handleMissing E job item actorUserID readErr w =
     (job\<lparr>vj_Missing := vj_Missing job + 1\<rparr>,
      raise_alert E item (alert_action ''evidence file missing or unreadable'') actorUserID
        [(''error'', err_text readErr), (''filename'', vi_Filename item), (''storage_key'', vi_StorageKey item)]
        \<lparr>ne_Type = ''integrity_warning'', ne_CaseID = vi_CaseID item, ne_Title = ''Evidence File Missing'',
         ne_Body = ''Evidence file '' @ ie_quote E (vi_Filename item) @ '' (ID: '' @
           lib_uuid_string (ie_lib E) (vi_ID item) @ '') is missing or unreadable: '' @ err_text readErr\<rparr>
        w)"

definition tsa_check :: "integrity_env \<Rightarrow> VerifiableItem \<Rightarrow> go_error option" where
  \<comment> \<open>the check of the token of an item whose hash is verified\<close>
  "tsa_check E item =
     (case vi_TSAToken item of
        None \<Rightarrow> None
      | Some token \<Rightarrow>
          if token = [] then None
          else
            (case hexToBytes (vi_SHA256Hash item) of
               Inl err \<Rightarrow> Some err
             | Inr digest \<Rightarrow> VerifyTimestamp (ie_tsa E) token digest))"

definition verifyItem ::
  "integrity_env \<Rightarrow> string \<Rightarrow> VerifiableItem \<Rightarrow> VerificationJob \<times> 'a integrity_db_scheme
     \<Rightarrow> VerificationJob \<times> 'a integrity_db_scheme" where
  \<comment> \<open>the error of \<open>tsa_check\<close> is only logged\<close>
  "verifyItem E actorUserID item jw =
     (case jw of (job, w) \<Rightarrow>
        (case VerifyFileHash E (vi_StorageKey item) (vi_SHA256Hash item) w of
           ((computed, Some err), w1) \<Rightarrow>
             if computed \<noteq> [] then handleMismatch E job item actorUserID computed w1
             else handleMissing E job item actorUserID err w1
         | ((computed, None), w1) \<Rightarrow>
             (let tsaErr = tsa_check E item in (job\<lparr>vj_Verified := vj_Verified job + 1\<rparr>, w1))))"

section \<open>One case\<close>

definition ListByCaseForVerification ::
  "uuid \<Rightarrow> 'a evidence_db_scheme \<Rightarrow> (go_error + VerifiableItem list) \<times> 'a evidence_db_scheme" where
  \<comment> \<open>the adapter copies the items field by field\<close>
  "ListByCaseForVerification caseID w =
     (case ListForVerification caseID w of
        (Inl err, w1) \<Rightarrow> (Inl err, w1)
      | (Inr items, w1) \<Rightarrow>
          (Inr (map (\<lambda>i. \<lparr>vi_ID = vi_ID i, vi_CaseID = vi_CaseID i, vi_StorageKey = vi_StorageKey i,
                          vi_SHA256Hash = vi_SHA256Hash i, vi_TSAToken = vi_TSAToken i, vi_TSAStatus = vi_TSAStatus i,
                          vi_Filename = vi_Filename i\<rparr>) items), w1))"

definition setJobFailed :: "string \<Rightarrow> VerificationJob \<Rightarrow> VerificationJob" where
  "setJobFailed msg job = job\<lparr>vj_Status := ''failed'', vj_Error := msg\<rparr>"

definition runVerification ::
  "integrity_env \<Rightarrow> VerificationJob \<Rightarrow> string \<Rightarrow> 'a integrity_db_scheme \<Rightarrow> VerificationJob \<times> 'a integrity_db_scheme" where
  "runVerification E job actorUserID w =
     (case ListByCaseForVerification (vj_CaseID job) w of
        (Inl err, w1) \<Rightarrow> (setJobFailed (''load evidence: '' @ err_text err) job, w1)
      | (Inr items, w1) \<Rightarrow>
          (case fold (verifyItem E actorUserID) items (job\<lparr>vj_Total := int (length items)\<rparr>, w1) of
             (job', w2) \<Rightarrow> ((if vj_Status job' = ''running'' then job'\<lparr>vj_Status := ''completed''\<rparr> else job'), w2)))"

section \<open>Endpoints\<close>

datatype verify_body = BodyJobID string | BodyJob VerificationJob

definition job_running :: "string \<Rightarrow> 'a integrity_db_scheme \<Rightarrow> bool" where
  "job_running caseKey w \<longleftrightarrow> (case verify_jobs w caseKey of None \<Rightarrow> False | Some job \<Rightarrow> vj_Status job = ''running'')"

definition launch_job ::
  "integrity_env \<Rightarrow> uuid \<Rightarrow> string \<Rightarrow> 'a integrity_db_scheme \<Rightarrow> verify_body http_response \<times> 'a integrity_db_scheme" where
  \<comment> \<open>\<open>StartVerification\<close> from the new job on\<close>
  "launch_job E caseID userID w =
     (let jobID = lib_uuid_string (ie_lib E) (new_uuid w);
          job = \<lparr>vj_ID = jobID, vj_CaseID = caseID, vj_Status = ''running'', vj_Total = 0, vj_Verified = 0,
                 vj_Mismatches = 0, vj_Missing = 0, vj_StartedAt = now w, vj_Error = []\<rparr>
      in (RespondJSON 202 (BodyJobID jobID),
          (tick w)\<lparr>verify_jobs := (verify_jobs w)(lib_uuid_string (ie_lib E) caseID \<mapsto> job),
                   verify_tasks := verify_tasks w @ [(job, userID)]\<rparr>))"

definition StartVerification ::
  "integrity_env \<Rightarrow> ctx \<Rightarrow> request \<Rightarrow> 'a integrity_db_scheme \<Rightarrow> verify_body http_response \<times> 'a integrity_db_scheme" where
  "StartVerification E c r w =
     (case lib_uuid_parse (ie_lib E) (req_param r ''id'') of
        Inl err \<Rightarrow> (RespondError 400 ''invalid case ID'', w)
      | Inr caseID \<Rightarrow>
          (case GetAuthContext c of
             None \<Rightarrow> (RespondError 500 ''internal error'', w)
           | Some ac \<Rightarrow>
               if job_running (lib_uuid_string (ie_lib E) caseID) w then
                 (RespondError 409 ''verification already running for this case'', w)
               else launch_job E caseID (UserID ac) w))"

definition run_verify_task :: "integrity_env \<Rightarrow> nat \<Rightarrow> 'a integrity_db_scheme \<Rightarrow> 'a integrity_db_scheme" where
  \<comment> \<open>the \<open>i\<close>-th goroutine runs; the map holds a pointer to its job unless the entry was replaced\<close>
  "run_verify_task E i w =
     (if i < length (verify_tasks w) then
        (case verify_tasks w ! i of (job, actorUserID) \<Rightarrow>
           (case runVerification E job actorUserID w of
              (job', w1) \<Rightarrow>
                w1\<lparr>verify_tasks := take i (verify_tasks w1) @ drop (Suc i) (verify_tasks w1),
                   verify_jobs := (\<lambda>k. map_option (\<lambda>j. if vj_ID j = vj_ID job then job' else j) (verify_jobs w1 k))\<rparr>))
      else w)"

definition Handler_GetVerification ::
  "integrity_env \<Rightarrow> request \<Rightarrow> 'a integrity_db_scheme \<Rightarrow> verify_body http_response \<times> 'a integrity_db_scheme" where
  "Handler_GetVerification E r w =
     (case lib_uuid_parse (ie_lib E) (req_param r ''id'') of
        Inl err \<Rightarrow> (RespondError 400 ''invalid case ID'', w)
      | Inr caseID \<Rightarrow>
          (case verify_jobs w (lib_uuid_string (ie_lib E) caseID) of
             None \<Rightarrow> (RespondError 404 ''no verification job found for this case'', w)
           | Some job \<Rightarrow> (RespondJSON 200 (BodyJob job), w)))"

text \<open>Both routes ask for a system administrator.\<close>

datatype verify_route = PostVerify | GetVerifyStatus

fun verify_handler ::
  "integrity_env \<Rightarrow> verify_route \<Rightarrow> request \<Rightarrow> ctx \<Rightarrow> 'a integrity_db_scheme
     \<Rightarrow> verify_body http_response \<times> 'a integrity_db_scheme" where
  "verify_handler E PostVerify r c w = StartVerification E c r w"
| "verify_handler E GetVerifyStatus r c w = Handler_GetVerification E r w"

definition serve_verify ::
  "integrity_env \<Rightarrow> verify_route \<Rightarrow> request \<Rightarrow> ctx \<Rightarrow> 'a integrity_db_scheme
     \<Rightarrow> (verify_body http_response \<times> access_denied list) \<times> 'a integrity_db_scheme" where
  "serve_verify E rt r c w = gated (Some RoleSystemAdmin) c r (verify_handler E rt r) w"

end
