(* ===== verification/Integrity_Props.thy ===== *)
theory Integrity_Props
  imports Integrity_Verify Evidence_Limits
begin

text \<open>
  The properties of the integrity check: what a run counts, flags and announces, that a store nobody
  touched passes it, and samples for the properties of the time-stamping job.
\<close>

section \<open>One item without faults\<close>

definition file_intact :: "go_lib \<Rightarrow> (string \<Rightarrow> (string \<times> string) option) \<Rightarrow> VerifiableItem \<Rightarrow> bool" where
  \<comment> \<open>the stored bytes have the recorded digest\<close>
  "file_intact L objs v \<longleftrightarrow>
     (\<exists>d ct. objs (vi_StorageKey v) = Some (d, ct) \<and> hex_encode (lib_sha256 L d) = vi_SHA256Hash v)"

definition file_absent :: "(string \<Rightarrow> (string \<times> string) option) \<Rightarrow> VerifiableItem \<Rightarrow> bool" where
  "file_absent objs v \<longleftrightarrow> objs (vi_StorageKey v) = None"

lemma RecordEvidenceEvent_frame:
  assumes "RecordEvidenceEvent L c k a actor d w = (r, w')"
  shows "\<exists>n log. w' = w\<lparr>w_tick := n, custody_log := log\<rparr>"
proof (cases r)
  case None
  then obtain e x n where "w' = (tick w)\<lparr>w_tick := n, custody_log := custody_log (tick w) @ [stored_row L e x]\<rparr>"
    using assms custody_Insert_ok unfolding RecordEvidenceEvent_def by blast
  then show ?thesis by (auto simp: tick_def)
next
  case (Some err)
  then have "only_ticks (tick w) w'" using assms custody_Insert_fail unfolding RecordEvidenceEvent_def by blast
  then obtain n where "w' = (tick w)\<lparr>w_tick := n\<rparr>" unfolding only_ticks_def by blast
  then show ?thesis by (intro exI [of _ n] exI [of _ "custody_log w"]) (simp add: tick_def)
qed

lemma integrity_tick [simp]:
  "integrity_warnings (tick w) = integrity_warnings w" "notices (tick v) = notices v" "verify_jobs (tick u) = verify_jobs u"
  "verify_tasks (tick u) = verify_tasks u" "objects (tick x) = objects x"
  by (simp_all add: tick_def)

lemma raise_alert_effect:
  assumes "w' = raise_alert E v a actor d ev w"
  shows "objects w' = objects w" "evidence_items w' = evidence_items w" "w_fault w' = w_fault w"
    "notices w' = ev # notices w"
    "no_faults w \<Longrightarrow> integrity_warnings w' =
       (if find_item (vi_ID v) (evidence_items w) = None then integrity_warnings w
        else List.insert (vi_ID v) (integrity_warnings w))"
proof -
  let ?w1 = "snd (FlagIntegrityWarning (vi_ID v) w)"
  obtain r w2 where r: "RecordEvidenceEvent (ie_lib E) (vi_CaseID v) (vi_ID v) a actor d ?w1 = (r, w2)" by fastforce
  then obtain n log where w2: "w2 = ?w1\<lparr>w_tick := n, custody_log := log\<rparr>" using RecordEvidenceEvent_frame by blast
  have w': "w' = (tick w2)\<lparr>notices := ev # notices w2\<rparr>" using assms r by (simp add: raise_alert_def Let_def Notify_def)
  show "objects w' = objects w" "evidence_items w' = evidence_items w" "w_fault w' = w_fault w" "notices w' = ev # notices w"
    unfolding w' w2 by (simp_all add: FlagIntegrityWarning_def tick_def split: option.splits)
  show "integrity_warnings w' = (if find_item (vi_ID v) (evidence_items w) = None then integrity_warnings w
        else List.insert (vi_ID v) (integrity_warnings w))" if "no_faults w"
    using that unfolding w' w2 by (simp add: FlagIntegrityWarning_def fault_none)
qed

lemma VerifyFileHash_quiet:
  assumes "no_faults w"
  shows "only_ticks w (snd (VerifyFileHash E k h w))"
    "objects w k = None \<Longrightarrow> \<exists>err. fst (VerifyFileHash E k h w) = ([], Some err)"
    "objects w k = Some (d, ct) \<Longrightarrow> \<exists>err. fst (VerifyFileHash E k h w) =
       (hex_encode (lib_sha256 (ie_lib E) d), if hex_encode (lib_sha256 (ie_lib E) d) \<noteq> h then Some err else None)"
proof -
  have t: "only_ticks w (tick (tick w))" "only_ticks w (tick (tick (tick w)))"
    using only_ticks_trans only_ticks_tick by blast+
  show "only_ticks w (snd (VerifyFileHash E k h w))"
  proof (cases "objects w k")
    case None
    then show ?thesis
      using assms t by (simp add: VerifyFileHash_def StorageFileReader_GetObject_def GetObject_def pg_call_no_faults)
  next
    case (Some x)
    then show ?thesis
      using assms t by (cases x) (simp add: VerifyFileHash_def StorageFileReader_GetObject_def GetObject_def
          ComputeSHA256_def pg_call_no_faults)
  qed
  show "\<exists>err. fst (VerifyFileHash E k h w) = ([], Some err)" if "objects w k = None"
    using that assms by (simp add: VerifyFileHash_def StorageFileReader_GetObject_def GetObject_def pg_call_no_faults)
  show "\<exists>err. fst (VerifyFileHash E k h w) =
       (hex_encode (lib_sha256 (ie_lib E) d), if hex_encode (lib_sha256 (ie_lib E) d) \<noteq> h then Some err else None)"
    if "objects w k = Some (d, ct)"
    using that assms by (simp add: VerifyFileHash_def StorageFileReader_GetObject_def GetObject_def ComputeSHA256_def
        pg_call_no_faults)
qed

lemma handle_alerts:
  "\<exists>a d ev. handleMissing E job v actor err w = (job\<lparr>vj_Missing := vj_Missing job + 1\<rparr>, raise_alert E v a actor d ev w)"
  "\<exists>a d ev. handleMismatch E job v actor c w = (job\<lparr>vj_Mismatches := vj_Mismatches job + 1\<rparr>, raise_alert E v a actor d ev w)"
  unfolding handleMissing_def handleMismatch_def by blast+

lemma verifyItem_quiet:
  assumes "no_faults w" "\<And>d. lib_sha256 (ie_lib E) d \<noteq> []" "verifyItem E actor v (job, w) = (job', w')"
  shows "vj_Verified job' = vj_Verified job + of_bool (file_intact (ie_lib E) (objects w) v)"
    "vj_Missing job' = vj_Missing job + of_bool (file_absent (objects w) v)"
    "vj_Mismatches job' = vj_Mismatches job +
       of_bool (\<not> file_intact (ie_lib E) (objects w) v \<and> \<not> file_absent (objects w) v)"
    "vj_Total job' = vj_Total job" "vj_Status job' = vj_Status job"
    "no_faults w'" "objects w' = objects w" "evidence_items w' = evidence_items w"
    "length (notices w') = length (notices w) + of_bool (\<not> file_intact (ie_lib E) (objects w) v)"
    "set (integrity_warnings w') = set (integrity_warnings w) \<union>
       (if file_intact (ie_lib E) (objects w) v \<or> find_item (vi_ID v) (evidence_items w) = None then {} else {vi_ID v})"
proof -
  obtain r w1 where f: "VerifyFileHash E (vi_StorageKey v) (vi_SHA256Hash v) w = (r, w1)" by fastforce
  note q = VerifyFileHash_quiet [OF assms(1), where E = E and k = "vi_StorageKey v" and h = "vi_SHA256Hash v",
      unfolded f fst_conv snd_conv]
  have t: "only_ticks w w1" using q(1) .
  obtain m where w1: "w1 = w\<lparr>w_tick := m\<rparr>" using t unfolding only_ticks_def by blast
  have nf: "no_faults w1" using assms(1) w1 by (simp add: no_faults_def)
  have ne: "hex_encode (lib_sha256 (ie_lib E) d) \<noteq> []" for d
    using assms(2) length_hex_encode [of "lib_sha256 (ie_lib E) d"] by fastforce
  have "vj_Verified job' = vj_Verified job + of_bool (file_intact (ie_lib E) (objects w) v) \<and>
    vj_Missing job' = vj_Missing job + of_bool (file_absent (objects w) v) \<and>
    vj_Mismatches job' = vj_Mismatches job +
       of_bool (\<not> file_intact (ie_lib E) (objects w) v \<and> \<not> file_absent (objects w) v) \<and>
    vj_Total job' = vj_Total job \<and> vj_Status job' = vj_Status job \<and>
    no_faults w' \<and> objects w' = objects w \<and> evidence_items w' = evidence_items w \<and>
    length (notices w') = length (notices w) + of_bool (\<not> file_intact (ie_lib E) (objects w) v) \<and>
    set (integrity_warnings w') = set (integrity_warnings w) \<union>
       (if file_intact (ie_lib E) (objects w) v \<or> find_item (vi_ID v) (evidence_items w) = None then {} else {vi_ID v})"
  proof (cases "objects w (vi_StorageKey v)")
    case None
    then obtain err where "r = ([], Some err)" using q(2) by blast
    then have "(job', w') = handleMissing E job v actor err w1"
      using assms(3) f by (simp add: verifyItem_def)
    then obtain a d ev where a: "job' = job\<lparr>vj_Missing := vj_Missing job + 1\<rparr>" "w' = raise_alert E v a actor d ev w1"
      using handle_alerts(1) [of E job v actor err w1] by auto
    note r = raise_alert_effect [OF a(2)]
    have "\<not> file_intact (ie_lib E) (objects w) v" "file_absent (objects w) v"
      using None by (simp_all add: file_intact_def file_absent_def)
    then show ?thesis using a(1) r(1-4) r(5) [OF nf] nf w1 by (simp add: no_faults_def)
  next
    case (Some x)
    obtain d0 ct where x: "x = (d0, ct)" by (cases x)
    have absent: "\<not> file_absent (objects w) v" using Some by (simp add: file_absent_def)
    show ?thesis
    proof (cases "hex_encode (lib_sha256 (ie_lib E) d0) = vi_SHA256Hash v")
      case True
      then have "job' = job\<lparr>vj_Verified := vj_Verified job + 1\<rparr>" "w' = w1"
        using assms(3) f q(3) [OF Some [unfolded x]] by (auto simp: verifyItem_def Let_def)
      moreover have "file_intact (ie_lib E) (objects w) v" using True Some x by (simp add: file_intact_def)
      ultimately show ?thesis using absent nf w1 by simp
    next
      case False
      then obtain c err where "r = (c, Some err)" "c \<noteq> []" using q(3) [OF Some [unfolded x]] ne by auto
      then have "(job', w') = handleMismatch E job v actor c w1"
        using assms(3) f by (simp add: verifyItem_def)
      then obtain a d ev where a: "job' = job\<lparr>vj_Mismatches := vj_Mismatches job + 1\<rparr>" "w' = raise_alert E v a actor d ev w1"
        using handle_alerts(2) [of E job v actor c w1] by auto
      note r = raise_alert_effect [OF a(2)]
      have "\<not> file_intact (ie_lib E) (objects w) v" using False Some x by (simp add: file_intact_def)
      then show ?thesis using a(1) r(1-4) r(5) [OF nf] nf w1 absent by (simp add: no_faults_def)
    qed
  qed
  then show "vj_Verified job' = vj_Verified job + of_bool (file_intact (ie_lib E) (objects w) v)"
    "vj_Missing job' = vj_Missing job + of_bool (file_absent (objects w) v)"
    "vj_Mismatches job' = vj_Mismatches job +
       of_bool (\<not> file_intact (ie_lib E) (objects w) v \<and> \<not> file_absent (objects w) v)"
    "vj_Total job' = vj_Total job" "vj_Status job' = vj_Status job"
    "no_faults w'" "objects w' = objects w" "evidence_items w' = evidence_items w"
    "length (notices w') = length (notices w) + of_bool (\<not> file_intact (ie_lib E) (objects w) v)"
    "set (integrity_warnings w') = set (integrity_warnings w) \<union>
       (if file_intact (ie_lib E) (objects w) v \<or> find_item (vi_ID v) (evidence_items w) = None then {} else {vi_ID v})"
    by blast+
qed

section \<open>All items of a case\<close>

lemma image_filter_Cons:
  "f ` {x \<in> set (v # vs). P x} = (if P v then {f v} else {}) \<union> f ` {x \<in> set vs. P x}"
  by auto

lemma verify_fold_quiet:
  assumes "no_faults w" "\<And>d. lib_sha256 (ie_lib E) d \<noteq> []" "fold (verifyItem E actor) vs (job, w) = (job', w')"
  shows "vj_Verified job' = vj_Verified job + int (length (filter (file_intact (ie_lib E) (objects w)) vs)) \<and>
    vj_Missing job' = vj_Missing job + int (length (filter (file_absent (objects w)) vs)) \<and>
    vj_Mismatches job' = vj_Mismatches job +
      int (length (filter (\<lambda>v. \<not> file_intact (ie_lib E) (objects w) v \<and> \<not> file_absent (objects w) v) vs)) \<and>
    vj_Total job' = vj_Total job \<and> vj_Status job' = vj_Status job \<and>
    objects w' = objects w \<and> evidence_items w' = evidence_items w \<and>
    length (notices w') = length (notices w) + length (filter (\<lambda>v. \<not> file_intact (ie_lib E) (objects w) v) vs) \<and>
    set (integrity_warnings w') = set (integrity_warnings w) \<union>
      vi_ID ` {v \<in> set vs. \<not> file_intact (ie_lib E) (objects w) v \<and> find_item (vi_ID v) (evidence_items w) \<noteq> None}"
  using assms(1,3)
proof (induction vs arbitrary: job w)
  case (Cons v vs)
  obtain job1 w1 where v: "verifyItem E actor v (job, w) = (job1, w1)" by fastforce
  note q = verifyItem_quiet [OF Cons.prems(1) assms(2) v]
  have "fold (verifyItem E actor) vs (job1, w1) = (job', w')" using Cons.prems(2) v by simp
  from Cons.IH [OF q(6) this] q show ?case unfolding image_filter_Cons by (simp add: Un_assoc)
qed simp

lemma sum_of_counts:
  assumes "\<And>v. P v \<Longrightarrow> \<not> Q v"
  shows "int (length (filter P vs)) + int (length (filter (\<lambda>v. \<not> P v \<and> \<not> Q v) vs)) + int (length (filter Q vs)) = int (length vs)"
  by (induction vs) (use assms in auto)

lemma intact_not_absent: "file_intact L objs v \<Longrightarrow> \<not> file_absent objs v"
  by (auto simp: file_intact_def file_absent_def)

lemma listed_items:
  assumes "ListByCaseForVerification c w = (Inr items, w')" "v \<in> set items"
  shows "\<exists>e \<in> set (evidence_items w). ei_ID e = vi_ID v \<and> ei_CaseID e = c \<and> ei_DestroyedAt e = None \<and>
    vi_StorageKey v = (case ei_StorageKey e of None \<Rightarrow> [] | Some k \<Rightarrow> k) \<and> vi_SHA256Hash v = ei_SHA256Hash e"
  using assms unfolding ListByCaseForVerification_def ListForVerification_def
  by (auto split: prod.splits sum.splits dest!: query_rows_ok) blast

lemma ListByCaseForVerification_quiet:
  assumes "no_faults w"
  obtains items w1 where "ListByCaseForVerification c w = (Inr items, w1)" "only_ticks w w1"
proof -
  obtain r w1 where l: "ListForVerification c w = (r, w1)" by fastforce
  have "\<exists>items. fst (ListForVerification c w) = Inr items"
    unfolding ListForVerification_def query_rows_no_faults [OF assms] by blast
  then obtain items where "r = Inr items" using l by auto
  moreover have "only_ticks w w1" using l unfolding ListForVerification_def by (rule query_rows_ticks)
  ultimately show ?thesis using l that by (simp add: ListByCaseForVerification_def)
qed

text \<open>A job as \<open>StartVerification\<close> creates it.\<close>

definition fresh_job :: "VerificationJob \<Rightarrow> bool" where
  "fresh_job job \<longleftrightarrow> vj_Status job = ''running'' \<and> vj_Verified job = 0 \<and> vj_Mismatches job = 0 \<and> vj_Missing job = 0"

lemma find_item_known: "e \<in> set rows \<Longrightarrow> find_item (ei_ID e) rows \<noteq> None"
  unfolding find_item_def find_None_iff by blast

lemma verification_quiet:
  assumes "no_faults w" "\<And>d. lib_sha256 (ie_lib E) d \<noteq> []" "fresh_job job"
    and run: "runVerification E job actor w = (job', w')"
  shows "\<exists>items. fst (ListByCaseForVerification (vj_CaseID job) w) = Inr items \<and>
    vj_Status job' = ''completed'' \<and> vj_Total job' = int (length items) \<and>
    vj_Verified job' = int (length (filter (file_intact (ie_lib E) (objects w)) items)) \<and>
    vj_Missing job' = int (length (filter (file_absent (objects w)) items)) \<and>
    vj_Verified job' + vj_Mismatches job' + vj_Missing job' = vj_Total job' \<and>
    set (integrity_warnings w') = set (integrity_warnings w) \<union> vi_ID ` {v \<in> set items. \<not> file_intact (ie_lib E) (objects w) v} \<and>
    length (notices w') = length (notices w) + length (filter (\<lambda>v. \<not> file_intact (ie_lib E) (objects w) v) items) \<and>
    objects w' = objects w \<and> evidence_items w' = evidence_items w"
proof -
  obtain items w1 where l: "ListByCaseForVerification (vj_CaseID job) w = (Inr items, w1)" "only_ticks w w1"
    using ListByCaseForVerification_quiet [OF assms(1)] .
  obtain m where w1: "w1 = w\<lparr>w_tick := m\<rparr>" using l(2) unfolding only_ticks_def by blast
  have nf: "no_faults w1" using assms(1) w1 by (simp add: no_faults_def)
  obtain job2 w2 where f: "fold (verifyItem E actor) items (job\<lparr>vj_Total := int (length items)\<rparr>, w1) = (job2, w2)"
    by fastforce
  note q = verify_fold_quiet [OF nf assms(2) f]
  have known: "find_item (vi_ID v) (evidence_items w) \<noteq> None" if "v \<in> set items" for v
    using listed_items [OF l(1) that] find_item_known by metis
  have run': "job' = job2\<lparr>vj_Status := ''completed''\<rparr>" "w' = w2"
    using run l(1) f q assms(3) by (auto simp: runVerification_def fresh_job_def)
  have "{v \<in> set items. \<not> file_intact (ie_lib E) (objects w) v \<and> find_item (vi_ID v) (evidence_items w) \<noteq> None} =
      {v \<in> set items. \<not> file_intact (ie_lib E) (objects w) v}"
    using known by blast
  then show ?thesis
    using l(1) q run' w1 assms(3) sum_of_counts [of "file_intact (ie_lib E) (objects w)" "file_absent (objects w)" items]
      intact_not_absent [of "ie_lib E" "objects w"]
    by (simp add: fresh_job_def)
qed

text \<open>A deployment, its state with one active case, and a job as it starts.\<close>

definition sample_integrity_env :: integrity_env where
  "sample_integrity_env = \<lparr>ie_evidence = sample_evidence_env, ie_tsa = NoopTimestampAuthority, ie_quote = (\<lambda>s. s)\<rparr>"

definition sample_integrity_db :: "EvidenceItem list \<Rightarrow> (string \<Rightarrow> (string \<times> string) option) \<Rightarrow> integrity_db" where
  "sample_integrity_db es objs =
     \<lparr>w_tick = 0, w_fault = (\<lambda>n. None), w_now = (\<lambda>n. 1000 * int n), w_uuid = (\<lambda>n. of_nat n + 100),
      custody_log = [], cases_table = [sample_case 7 ''ICC-1'' ''active'' False], case_roles = [], evidence_items = es,
      evidence_counter = (\<lambda>k. 0), disclosures = [], integrity_warnings = [], session_locks = [],
      pool_conn = (\<lambda>n. n), objects = objs, search_docs = [], thumb_jobs = [],
      verify_jobs = Map.empty, verify_tasks = [], notices = []\<rparr>"

definition sample_job :: VerificationJob where
  "sample_job = \<lparr>vj_ID = ''j'', vj_CaseID = 7, vj_Status = ''running'', vj_Total = 0, vj_Verified = 0,
                 vj_Mismatches = 0, vj_Missing = 0, vj_StartedAt = 0, vj_Error = []\<rparr>"

lemma sample_integrity_sel [simp]:
  "evidence_items (sample_integrity_db es objs) = es" "objects (sample_integrity_db es objs) = objs"
  "no_faults (sample_integrity_db es objs)" "w_tick (sample_integrity_db es objs) = 0"
  "integrity_warnings (sample_integrity_db es objs) = []" "custody_log (sample_integrity_db es objs) = []"
  "lib_sha256 sample_lib d = [char_of (length d)]" "ie_evidence sample_integrity_env = sample_evidence_env"
  by (simp_all add: sample_integrity_db_def no_faults_def sample_integrity_env_def sample_lib_def)

lemma sample_job_fresh: "fresh_job sample_job" "vj_CaseID sample_job = 7"
  by (simp_all add: fresh_job_def sample_job_def)

text \<open>One item whose recorded digest is that of the empty file, and other bytes in the store.\<close>

definition sample_listed_item :: VerifiableItem where
  "sample_listed_item = \<lparr>vi_ID = 1, vi_CaseID = 7, vi_StorageKey = ''k'', vi_SHA256Hash = ''00'', vi_TSAToken = None,
     vi_TSAStatus = ''disabled'', vi_Filename = ''a.txt''\<rparr>"

definition sample_damaged_db :: integrity_db where
  "sample_damaged_db = sample_integrity_db [sample_item 1 (Some 1) 1 None] [''k'' \<mapsto> (''x'', ''image/png'')]"

lemma sample_damaged:
  "fst (ListByCaseForVerification 7 sample_damaged_db) = Inr [sample_listed_item]"
  "\<not> file_intact (ie_lib sample_integrity_env) (objects sample_damaged_db) sample_listed_item"
  "\<not> file_absent (objects sample_damaged_db) sample_listed_item"
  "no_faults sample_damaged_db" "integrity_warnings sample_damaged_db = []" "notices sample_damaged_db = []"
proof -
  show f: "no_faults sample_damaged_db" "integrity_warnings sample_damaged_db = []" "notices sample_damaged_db = []"
    by (simp_all add: sample_damaged_db_def) (simp add: sample_integrity_db_def)
  obtain items w1 where i: "ListByCaseForVerification 7 sample_damaged_db = (Inr items, w1)"
    using ListByCaseForVerification_quiet [OF f(1), of 7] by metis
  then have "items = [sample_listed_item]"
    unfolding ListByCaseForVerification_def ListForVerification_def sample_damaged_db_def sample_listed_item_def
    by (auto split: prod.splits sum.splits dest!: query_rows_ok simp: sample_item_def)
  then show "fst (ListByCaseForVerification 7 sample_damaged_db) = Inr [sample_listed_item]" using i by simp
  have h: "hex_encode [char_of (Suc 0)] = ''01''" by code_simp
  show "\<not> file_intact (ie_lib sample_integrity_env) (objects sample_damaged_db) sample_listed_item"
    "\<not> file_absent (objects sample_damaged_db) sample_listed_item"
    by (simp_all add: file_intact_def file_absent_def h sample_damaged_db_def sample_listed_item_def)
qed



text \<open>
  C12: the check raises no false alarm: after any run of the operations on evidence and cases, whichever of
  their requests failed, a check of any case whose own requests do not fail finds every item verified, flags nothing and announces nothing.
\<close>

theorem no_false_alarm:
  assumes "start_db w0" "evidence_run (ie_evidence E) w0 w" "key_env (ie_evidence E) w" "no_faults w"
    and "\<And>d. lib_sha256 (ie_lib E) d \<noteq> []" "fresh_job job" "runVerification E job actor w = (job', w')"
  shows "vj_Status job' = ''completed'' \<and> vj_Verified job' = vj_Total job' \<and> vj_Mismatches job' = 0 \<and> vj_Missing job' = 0 \<and>
    set (integrity_warnings w') = set (integrity_warnings w) \<and> length (notices w') = length (notices w)"
proof -
  have inv: "evidence_inv (ie_evidence E) w" by (rule start_inv [OF assms(1-3)])
  obtain items where q: "fst (ListByCaseForVerification (vj_CaseID job) w) = Inr items"
      "vj_Status job' = ''completed''" "vj_Total job' = int (length items)"
      "vj_Verified job' = int (length (filter (file_intact (ie_lib E) (objects w)) items))"
      "vj_Missing job' = int (length (filter (file_absent (objects w)) items))"
      "vj_Verified job' + vj_Mismatches job' + vj_Missing job' = vj_Total job'"
      "set (integrity_warnings w') = set (integrity_warnings w) \<union> vi_ID ` {v \<in> set items. \<not> file_intact (ie_lib E) (objects w) v}"
      "length (notices w') = length (notices w) + length (filter (\<lambda>v. \<not> file_intact (ie_lib E) (objects w) v) items)"
    using verification_quiet [OF assms(4-7)] by blast
  obtain w1 where l: "ListByCaseForVerification (vj_CaseID job) w = (Inr items, w1)" using q(1) by (metis prod.collapse)
  have intact: "file_intact (ie_lib E) (objects w) v" if v: "v \<in> set items" for v
  proof -
    obtain e where "e \<in> set (evidence_items w)" "ei_DestroyedAt e = None" "vi_SHA256Hash v = ei_SHA256Hash e"
        "vi_StorageKey v = (case ei_StorageKey e of None \<Rightarrow> [] | Some k \<Rightarrow> k)"
      using listed_items [OF l v] by blast
    then show ?thesis using inv by (fastforce simp: evidence_inv_def stored_def file_intact_def)
  qed
  have f: "filter (file_intact (ie_lib E) (objects w)) items = items" "filter (file_absent (objects w)) items = []"
      "filter (\<lambda>v. \<not> file_intact (ie_lib E) (objects w) v) items = []"
      "{v \<in> set items. \<not> file_intact (ie_lib E) (objects w) v} = {}"
    using intact intact_not_absent by (fastforce simp: filter_id_conv filter_empty_conv)+
  show ?thesis using q(2,3,6) q(4) [unfolded f(1)] q(5) [unfolded f(2)] q(7) [unfolded f(4)] q(8) [unfolded f(3)] by simp
qed

lemma sample_integrity_upload:
  obtains e w where "Upload sample_evidence_env (sample_upload 7 ''data'') (sample_integrity_db [] Map.empty) = (Inr e, w)"
    "w_tick w \<le> 30"
proof -
  have c: "calm (sample_integrity_db [] Map.empty)" by (simp add: calm_def sample_integrity_db_def)
  have "\<exists>e w'. Upload sample_evidence_env (sample_upload 7 ''data'') (sample_integrity_db [] Map.empty) = (Inr e, w') \<and>
      w_tick w' \<le> w_tick (sample_integrity_db [] Map.empty) + 30"
    by (rule upload_calm [OF sample_upload_valid c, where c = "sample_case 7 ''ICC-1'' ''active'' False"])
      (simp_all add: sample_upload_def counter_room_def sample_integrity_db_def find_case_def)
  then show ?thesis using that by auto
qed

theorem no_false_alarm_witness:
  "\<exists>e w job' w'. Upload sample_evidence_env (sample_upload 7 ''data'') (sample_integrity_db [] Map.empty) = (Inr e, w) \<and>
     runVerification sample_integrity_env sample_job ''u1'' w = (job', w') \<and> vj_Mismatches job' = 0 \<and> vj_Missing job' = 0"
proof -
  obtain e w where u: "Upload sample_evidence_env (sample_upload 7 ''data'') (sample_integrity_db [] Map.empty) = (Inr e, w)"
      "w_tick w \<le> 30"
    using sample_integrity_upload .
  obtain job' w' where r: "runVerification sample_integrity_env sample_job ''u1'' w = (job', w')" by fastforce
  have s: "w_uuid w = w_uuid sample_start" "no_faults w"
    using Upload_steps [OF u(1)]
    by (simp_all add: evidence_steps_def sample_integrity_db_def sample_start_def sample_evidence_db_def no_faults_def)
  have "start_db (sample_integrity_db [] Map.empty)" by (simp add: sample_integrity_db_def)
  moreover have "evidence_run (ie_evidence sample_integrity_env) (sample_integrity_db [] Map.empty) w"
    using upload_run [OF u(1)] by simp
  moreover have "key_env (ie_evidence sample_integrity_env) w"
    using sample_key_env [OF s(1)] u(2) by simp
  moreover have "lib_sha256 (ie_lib sample_integrity_env) d \<noteq> []" for d by simp
  ultimately have "vj_Mismatches job' = 0 \<and> vj_Missing job' = 0"
    using no_false_alarm [of "sample_integrity_db [] Map.empty" sample_integrity_env w, OF _ _ _ s(2) _ sample_job_fresh(1) r] by blast
  then show ?thesis using u r by blast
qed

section \<open>The time-stamping job on samples\<close>

definition sample_tsa :: tsa_client where
  \<comment> \<open>an authority whose token is the digest itself\<close>
  "sample_tsa =
     \<lparr>tc_marshal = Inr, tc_http = (\<lambda>n req. TsaHttpAnswer 200 (Inr req)),
      tc_parse = (\<lambda>b. Inr \<lparr>tr_HashedMessage = b, tr_Certificates = [''TSA''], tr_Time = 5\<rparr>)\<rparr>"

definition sample_tsa_job :: tsa_job where
  "sample_tsa_job = \<lparr>rj_evidence = sample_evidence_env, rj_tsa = RFC3161Client sample_tsa, rj_custody = True\<rparr>"

definition sample_pending :: EvidenceItem where
  "sample_pending = (sample_item 1 (Some 1) 1 None)\<lparr>ei_TSAStatus := ''pending''\<rparr>"

definition sample_pending_db :: integrity_db where
  "sample_pending_db = (sample_integrity_db [sample_pending] Map.empty)\<lparr>w_now := (\<lambda>n. 0)\<rparr>"

lemma sample_pending_sel [simp]:
  "evidence_items sample_pending_db = [sample_pending]" "no_faults sample_pending_db" "w_now sample_pending_db = (\<lambda>n. 0)"
  "custody_log sample_pending_db = []" "session_locks sample_pending_db = []"
  by (simp_all add: sample_pending_db_def sample_integrity_db_def no_faults_def)

lemma hex_zeros: "hexToBytes ''00'' = Inr [CHR 0x00]"
  by (simp add: hexToBytes_def hexVal_def Let_def) code_simp

lemma sample_retry:
  assumes "no_faults w" "evidence_items w = [sample_pending]" "w_now w = (\<lambda>n. 0)" "pt_ID i = 1" "pt_CreatedAt i = 0"
    and "pt_SHA256Hash i = ''00''"
  shows "ei_TSAStatus (evidence_items (retry_item sample_tsa_job i w) ! 0) = ''stamped''"
proof -
  have "IssueTimestamp (RFC3161Client sample_tsa) [CHR 0x00] (tick w) = (Inr (Some [CHR 0x00], ''TSA'', 5), tick (tick w))"
    by (simp add: sample_tsa_def maxRetries_def numeral_3_eq_3 doRequest_def)
  then show ?thesis
    using assms by (simp add: retry_item_def now_def tsaMaxAge_def hex_zeros sample_tsa_job_def evidence_UpdateTSAResult_def
        exec_update_def fault_none update_items_where_def sample_pending_def sample_item_def Let_def)
qed

lemma sample_stamped:
  "ei_TSAStatus (evidence_items (tsa_job_loop sample_tsa_job 1 sample_pending_db) ! 0) = ''stamped''"
proof -
  let ?i = "\<lparr>pt_ID = 1, pt_CaseID = 7, pt_SHA256Hash = ''00'', pt_RetryCount = 0, pt_CreatedAt = 0\<rparr>"
  obtain l w1 where l: "TryAdvisoryLock tsaRetryLockID sample_pending_db = (l, w1)" by fastforce
  have w1: "l = Inr True" "no_faults w1" "evidence_items w1 = [sample_pending]" "w_now w1 = (\<lambda>n. 0)"
    using l fault_none [OF sample_pending_sel(2)] sample_pending_sel(2)
    by (auto simp: TryAdvisoryLock_def Let_def no_faults_def)
  obtain r w2 where f: "evidence_FindPendingTSA tsaRetryBatch w1 = (r, w2)" by fastforce
  have "fst (evidence_FindPendingTSA tsaRetryBatch w1) = Inr [?i]"
    unfolding evidence_FindPendingTSA_def query_rows_no_faults [OF w1(2)]
    by (simp add: w1(3,4) now_def sample_pending_def sample_item_def hours24_def tsaRetryBatch_def)
  then have r: "r = Inr [?i]" using f by simp
  obtain m where w2: "w2 = w1\<lparr>w_tick := m\<rparr>" using FindPendingTSA_ticks [OF f] unfolding only_ticks_def by blast
  have "ei_TSAStatus (evidence_items (retry_item sample_tsa_job ?i w2) ! 0) = ''stamped''"
    using w1 by (intro sample_retry) (simp_all add: w2 no_faults_def)
  then show ?thesis using l w1(1) f r by (simp add: runOnce_def lock_frame(2))
qed

theorem job_stamps_verify_witness:
  "\<exists>token digest. ei_TSAToken (evidence_items (tsa_job_loop sample_tsa_job 1 sample_pending_db) ! 0) = Some token \<and>
     hexToBytes (ei_SHA256Hash sample_pending) = Inr digest \<and> VerifyTimestamp (RFC3161Client sample_tsa) token digest = None"
proof -
  have "distinct (map ei_ID (evidence_items sample_pending_db))" "rj_tsa sample_tsa_job = RFC3161Client sample_tsa"
      "0 < length (evidence_items sample_pending_db)" "sample_pending = evidence_items sample_pending_db ! 0"
      "ei_TSAStatus sample_pending \<noteq> ''stamped''"
    by (simp_all add: sample_tsa_job_def) (simp add: sample_pending_def)
  then show ?thesis using job_stamps_verify [OF _ _ _ _ refl sample_stamped] by blast
qed

theorem expired_items_stay_pending_witness:
  "sample_pending \<in> set (evidence_items (tsa_job_loop sample_tsa_job 3 (sample_pending_db\<lparr>w_now := (\<lambda>n. tsaMaxAge)\<rparr>)))"
  by (rule expired_items_stay_pending) (simp_all add: sample_pending_def sample_item_def)

theorem job_never_in_custody_log_witness:
  "custody_log (tsa_job_loop sample_tsa_job 1 sample_pending_db) = []"
  using job_never_in_custody_log [of sample_pending_db sample_tsa_job 1] by (simp add: sample_tsa_job_def sample_lib_def)

section \<open>What the check does not tell\<close>

text \<open>
  The token of an item does not influence the result: an item whose token does not verify is counted
  as verified. A file that the store refuses to hand out counts as missing, and is flagged, although it is intact.
\<close>

lemma token_ignored: "verifyItem E actor (v\<lparr>vi_TSAToken := t\<rparr>) jw = verifyItem E actor v jw"
  by (cases jw) (simp add: verifyItem_def handleMismatch_def handleMissing_def raise_alert_def Let_def split: prod.splits option.splits)

lemma outage_counts_missing:
  assumes "fault w \<noteq> None" "verifyItem E actor v (job, w) = (job', w')"
  shows "vj_Missing job' = vj_Missing job + 1 \<and> vj_Verified job' = vj_Verified job"
proof -
  obtain e where "fault w = Some e" using assms(1) by auto
  then obtain err w1 where "VerifyFileHash E (vi_StorageKey v) (vi_SHA256Hash v) w = (([], Some err), w1)"
    by (simp add: VerifyFileHash_def StorageFileReader_GetObject_def GetObject_def pg_call_def)
  then show ?thesis using assms(2) by (auto simp: verifyItem_def handleMissing_def)
qed

section \<open>Starting a check\<close>

text \<open>
  While a check of a case runs no second one is started through the endpoint; but looking up the running
  job and storing the new one are two steps, and two requests whose steps interleave both start a check.
\<close>

theorem verification_start_race:
  assumes "lib_uuid_parse (ie_lib E) (req_param r ''id'') = Inr c" "GetAuthContext ctx = Some ac"
    and "StartVerification E ctx r w = (resp, w')"
  shows "(job_running (lib_uuid_string (ie_lib E) c) w \<longrightarrow> w' = w \<and> resp_status resp = Some 409) \<and>
    (\<not> job_running (lib_uuid_string (ie_lib E) c) w \<longrightarrow>
       resp_status resp = Some 202 \<and> job_running (lib_uuid_string (ie_lib E) c) w' \<and>
       (let w2 = snd (launch_job E c u w') in
          length (verify_tasks w2) = length (verify_tasks w) + 2 \<and>
          (\<forall>t \<in> set (drop (length (verify_tasks w)) (verify_tasks w2)). vj_CaseID (fst t) = c \<and> fresh_job (fst t))))"
  using assms by (auto simp: StartVerification_def launch_job_def job_running_def fresh_job_def Let_def split: if_splits)

end
