(* ===== verification/Backup_Crypt.thy ===== *)
theory Backup_Crypt
  imports Pg_Calls
begin

text \<open>
  \<open>internal/backup/encrypt.go\<close>: the format of an encrypted backup, a header of 49 bytes and then
  chunks, each a big-endian length of four bytes, a nonce and the sealed text. A reader is the bytes
  it still gives and the error after them, \<open>io_EOF\<close> at a regular end. PBKDF2, AES-GCM and the source of
  randomness are parameters.
\<close>

section \<open>Readers\<close>

type_synonym stream = "string \<times> go_error"

definition io_EOF :: go_error where "io_EOF = ErrSentinel ''EOF''"
definition io_ErrUnexpectedEOF :: go_error where "io_ErrUnexpectedEOF = ErrSentinel ''unexpected EOF''"

definition read_full :: "nat \<Rightarrow> stream \<Rightarrow> (string \<times> go_error option) \<times> stream" where
  \<comment> \<open>\<open>io.ReadFull\<close> into a buffer of \<open>n\<close> bytes\<close>
  "read_full n r =
     (case r of (xs, e) \<Rightarrow>
        if n \<le> length xs then ((take n xs, None), (drop n xs, e))
        else ((xs, Some (if e = io_EOF \<and> xs \<noteq> [] then io_ErrUnexpectedEOF else e)), ([], e)))"

definition at_end :: "go_error \<Rightarrow> bool" where
  "at_end e \<longleftrightarrow> errors_is e io_EOF \<or> errors_is e io_ErrUnexpectedEOF"

section \<open>Parameters and constants\<close>

text \<open>
  \<open>cl_derive\<close> is PBKDF2 with the iterations, the length and the hash of \<open>deriveKey\<close>; \<open>cl_seal\<close> and
  \<open>cl_open\<close> are AES-256-GCM under a key and a nonce with no additional data; \<open>cl_rand i n\<close> is the
  \<open>i\<close>-th read of \<open>n\<close> bytes of randomness.
\<close>

record crypt_lib =
  cl_derive :: "string \<Rightarrow> string \<Rightarrow> string"
  cl_seal :: "string \<Rightarrow> string \<Rightarrow> string \<Rightarrow> string"
  cl_open :: "string \<Rightarrow> string \<Rightarrow> string \<Rightarrow> string option"
  cl_rand :: "nat \<Rightarrow> nat \<Rightarrow> go_error + string"

definition headerMagic :: string where "headerMagic = ''VKBK''"
definition headerVersion :: nat where "headerVersion = 1"
definition algorithmAES256GCM :: string where "algorithmAES256GCM = ''AES-256-GCM''"
definition saltLen :: nat where "saltLen = 32"
definition nonceLen :: nat where "nonceLen = 12"
definition chunkSize :: nat where "chunkSize = 64 * 1024"
definition maxChunkLen :: nat where "maxChunkLen = 2 ^ 20"

lemma chunkSize_pos [simp]: "0 < chunkSize" "chunkSize \<noteq> 0"
  by (simp_all add: chunkSize_def)

section \<open>The header\<close>

record backup_header =
  h_Magic :: string
  h_Version :: nat
  h_Algorithm :: string
  h_Salt :: string

definition fixed_copy :: "nat \<Rightarrow> string \<Rightarrow> string" where
  \<comment> \<open>\<open>copy\<close> into a zeroed array of \<open>n\<close> bytes\<close>
  "fixed_copy n s = take n s @ replicate (n - length s) (CHR 0x00)"

definition writeHeader :: "string \<Rightarrow> string" where
  \<comment> \<open>\<open>binary.Write\<close> of the struct: the fields one after the other\<close>
  "writeHeader salt =
     fixed_copy 4 headerMagic @ [char_of headerVersion] @ fixed_copy 12 algorithmAES256GCM @ fixed_copy 32 salt"

definition readHeader :: "stream \<Rightarrow> (go_error + backup_header) \<times> stream" where
  "readHeader r =
     (case read_full 49 r of ((b, err), r') \<Rightarrow>
        (case err of
           Some e \<Rightarrow> Inl (wrapf ''read backup header'' e)
         | None \<Rightarrow>
             let h = \<lparr>h_Magic = take 4 b, h_Version = of_char (b ! 4), h_Algorithm = take 12 (drop 5 b),
                      h_Salt = drop 17 b\<rparr>
             in if h_Magic h \<noteq> headerMagic then Inl (ErrNew ''invalid backup file: bad magic bytes'')
                else if h_Version h \<noteq> headerVersion then
                  Inl (ErrNew (''unsupported backup version: '' @ itoa (int (h_Version h))))
                else Inr h, r'))"

section \<open>Encrypting\<close>

definition be32 :: "nat \<Rightarrow> string" where
  \<comment> \<open>\<open>binary.BigEndian.PutUint32\<close> of \<open>uint32(n)\<close>, which drops what does not fit\<close>
  "be32 n = map (\<lambda>i. char_of (n div 256 ^ i mod 256)) [3, 2, 1, 0]"

definition from_be32 :: "string \<Rightarrow> nat" where
  \<comment> \<open>\<open>binary.BigEndian.Uint32\<close> of four bytes\<close>
  "from_be32 b = foldl (\<lambda>a c. 256 * a + of_char c) 0 b"

definition seal_chunk :: "crypt_lib \<Rightarrow> string \<Rightarrow> string \<Rightarrow> string \<Rightarrow> string" where
  \<comment> \<open>what one turn of the loop writes: \<open>uint32(len(sealed))\<close> and the nonce with the sealed chunk\<close>
  "seal_chunk C derived nonce chunk =
     (let sealed = nonce @ cl_seal C derived nonce chunk in be32 (length sealed) @ sealed)"

function encrypt_loop :: "crypt_lib \<Rightarrow> string \<Rightarrow> nat \<Rightarrow> stream \<Rightarrow> go_error + string" where
  \<comment> \<open>\<open>i\<close>: how many times randomness was read\<close>
  "encrypt_loop C derived i (xs, e) =
     (case read_full chunkSize (xs, e) of ((chunk, readErr), r') \<Rightarrow>
        (case (if chunk \<noteq> [] then map_sum id (\<lambda>nonce. seal_chunk C derived nonce chunk) (cl_rand C i nonceLen)
               else Inr []) of
           Inl err \<Rightarrow> Inl (wrapf ''generate nonce'' err)
         | Inr out \<Rightarrow>
             (case readErr of
                Some err \<Rightarrow> if at_end err then Inr out else Inl (wrapf ''read plaintext'' err)
              | None \<Rightarrow>
                  (case encrypt_loop C derived (if chunk \<noteq> [] then Suc i else i) r' of
                     Inl err \<Rightarrow> Inl err
                   | Inr rest \<Rightarrow> Inr (out @ rest)))))"
  by pat_completeness auto
termination
  by (relation "measure (\<lambda>(C, derived, i, r). length (fst r))") (auto simp: read_full_def split: if_splits)

definition Encrypt :: "crypt_lib \<Rightarrow> stream \<Rightarrow> string \<Rightarrow> go_error + string" where
  "Encrypt C r key =
     (if key = [] then Inl (ErrNew ''encryption key must not be empty'')
      else case cl_rand C 0 saltLen of
        Inl err \<Rightarrow> Inl (wrapf ''generate salt'' err)
      | Inr salt \<Rightarrow> map_sum id (\<lambda>out. writeHeader salt @ out) (encrypt_loop C (cl_derive C key salt) 1 r))"

section \<open>Decrypting\<close>

function decrypt_loop :: "crypt_lib \<Rightarrow> string \<Rightarrow> stream \<Rightarrow> go_error + string" where
  "decrypt_loop C derived (xs, e) =
     (case read_full 4 (xs, e) of ((lenBuf, err), r1) \<Rightarrow>
        (case err of
           Some err \<Rightarrow> if at_end err then Inr [] else Inl (wrapf ''read chunk length'' err)
         | None \<Rightarrow>
             let chunkLen = from_be32 lenBuf in
             if chunkLen > maxChunkLen then
               Inl (ErrNew (''encrypted chunk length '' @ itoa (int chunkLen) @ '' exceeds maximum '' @ itoa (int maxChunkLen)))
             else
               (case read_full chunkLen r1 of ((sealed, err), r2) \<Rightarrow>
                  (case err of
                     Some err \<Rightarrow> Inl (wrapf ''read encrypted chunk'' err)
                   | None \<Rightarrow>
                       if length sealed < nonceLen then Inl (ErrNew ''encrypted chunk too short for nonce'')
                       else
                         (case cl_open C derived (take nonceLen sealed) (drop nonceLen sealed) of
                            None \<Rightarrow> Inl (wrapf ''decrypt chunk'' (ErrNew ''cipher: message authentication failed''))
                          | Some decrypted \<Rightarrow>
                              (case decrypt_loop C derived r2 of
                                 Inl err \<Rightarrow> Inl err
                               | Inr rest \<Rightarrow> Inr (decrypted @ rest)))))))"
  by pat_completeness auto
termination
  by (relation "measure (\<lambda>(C, derived, r). length (fst r))") (auto simp: read_full_def Let_def split: if_splits)

declare encrypt_loop.simps [simp del] decrypt_loop.simps [simp del]

definition Decrypt :: "crypt_lib \<Rightarrow> stream \<Rightarrow> string \<Rightarrow> go_error + string" where
  "Decrypt C r key =
     (if key = [] then Inl (ErrNew ''decryption key must not be empty'')
      else case readHeader r of
        (Inl err, r') \<Rightarrow> Inl err
      | (Inr h, r') \<Rightarrow> decrypt_loop C (cl_derive C key (h_Salt h)) r')"

section \<open>Round trip\<close>

text \<open>
  What is relied on: opening what was sealed with the same key and nonce gives the text, which
  sealing makes longer by the tag of 16 bytes; a read of randomness succeeds with the bytes asked for.
\<close>

definition crypt_ok :: "crypt_lib \<Rightarrow> bool" where
  "crypt_ok C \<longleftrightarrow>
     (\<forall>k n p. cl_open C k n (cl_seal C k n p) = Some p \<and> length (cl_seal C k n p) = length p + 16) \<and>
     (\<forall>i n. \<exists>b. cl_rand C i n = Inr b \<and> length b = n)"

lemma from_be32_append: "from_be32 [a, b, c, d] =
    256 * (256 * (256 * of_char a + of_char b) + of_char c) + (of_char d :: nat)"
  by (simp add: from_be32_def)

lemma digits_256: "n < 256 ^ 4 \<Longrightarrow>
    256 * (256 * (256 * (n div 256 ^ 3 mod 256) + n div 256 ^ 2 mod 256) + n div 256 mod 256) + n mod 256 = (n :: nat)"
proof -
  assume n: "n < 256 ^ 4"
  have q: "n div 256 ^ 2 = n div 256 div 256" "n div 256 ^ 3 = n div 256 div 256 div 256"
    by (simp_all add: div_mult2_eq [symmetric] power_numeral_reduce)
  have "n div 256 div 256 div 256 < 256" using n by (simp add: div_mult2_eq [symmetric] less_mult_imp_div_less)
  then have "n div 256 div 256 div 256 mod 256 = n div 256 div 256 div 256" by simp
  then show ?thesis unfolding q by (metis add.commute mult.commute mod_mult_div_eq)
qed

lemma be32_sel [simp]: "length (be32 n) = 4"
  by (simp add: be32_def)

lemma from_be32_be32: "n < 256 ^ 4 \<Longrightarrow> from_be32 (be32 n) = n"
  using digits_256 [of n] by (simp add: be32_def from_be32_append)

section \<open>One chunk\<close>

definition prepend :: "string \<Rightarrow> go_error + string \<Rightarrow> go_error + string" where
  "prepend a r = map_sum id ((@) a) r"

lemma prepend_simps [simp]:
  "prepend a (Inr x) = Inr (a @ x)" "prepend a (Inl err) = Inl err" "prepend [] r = r"
  "prepend a (prepend b r) = prepend (a @ b) r"
  unfolding prepend_def by (cases r; simp)+

lemma decrypt_short: "length t < 4 \<Longrightarrow> decrypt_loop C k (t, io_EOF) = Inr []"
  by (subst decrypt_loop.simps) (auto simp: read_full_def at_end_def)

lemma decrypt_chunk:
  assumes "nonceLen \<le> length s" "length s \<le> maxChunkLen"
    and "cl_open C k (take nonceLen s) (drop nonceLen s) = Some p"
  shows "decrypt_loop C k ((be32 (length s) @ s) @ rest, e) = prepend p (decrypt_loop C k (rest, e))"
proof -
  have n: "length s < 256 ^ 4" using assms(2) by (simp add: maxChunkLen_def)
  have 1: "read_full 4 ((be32 (length s) @ s) @ rest, e) = ((be32 (length s), None), (s @ rest, e))"
    by (simp add: read_full_def)
  have 2: "read_full (length s) (s @ rest, e) = ((s, None), (rest, e))" by (simp add: read_full_def)
  show ?thesis
    using assms 1 2 from_be32_be32 [OF n]
    by (subst decrypt_loop.simps) (simp add: Let_def prepend_def split: sum.splits)
qed

lemma decrypt_seal_chunk:
  assumes "crypt_ok C" "length nonce = nonceLen" "length chunk \<le> chunkSize"
  shows "decrypt_loop C k (seal_chunk C k nonce chunk @ rest, e) = prepend chunk (decrypt_loop C k (rest, e))"
proof -
  let ?s = "nonce @ cl_seal C k nonce chunk"
  have "length (cl_seal C k nonce chunk) = length chunk + 16" using assms(1) by (simp add: crypt_ok_def)
  then have "nonceLen \<le> length ?s" "length ?s \<le> maxChunkLen"
    using assms(2,3) by (simp_all add: chunkSize_def maxChunkLen_def nonceLen_def)
  moreover have "cl_open C k (take nonceLen ?s) (drop nonceLen ?s) = Some chunk"
    using assms(1,2) by (simp add: crypt_ok_def)
  ultimately show ?thesis using decrypt_chunk [of ?s C k chunk rest e] by (simp add: seal_chunk_def Let_def)
qed

lemma seal_chunk_length:
  "crypt_ok C \<Longrightarrow> length nonce = nonceLen \<Longrightarrow> length (seal_chunk C k nonce chunk) = length chunk + 32"
  by (simp add: seal_chunk_def crypt_ok_def nonceLen_def Let_def)

section \<open>All chunks\<close>

lemma encrypt_step:
  assumes "crypt_ok C" "chunkSize \<le> length xs"
  shows "\<exists>nonce. cl_rand C i nonceLen = Inr nonce \<and> length nonce = nonceLen \<and> encrypt_loop C k i (xs, e) =
    prepend (seal_chunk C k nonce (take chunkSize xs)) (encrypt_loop C k (Suc i) (drop chunkSize xs, e))"
proof -
  obtain nonce where n: "cl_rand C i nonceLen = Inr nonce" "length nonce = nonceLen"
    using assms(1) unfolding crypt_ok_def by blast
  have "xs \<noteq> []" using assms(2) by auto
  then show ?thesis
    using assms(2) n
    by (intro exI [of _ nonce]) (subst encrypt_loop.simps, simp add: read_full_def prepend_def split: sum.splits)
qed

lemma encrypt_last:
  assumes "crypt_ok C" "length xs < chunkSize" "xs \<noteq> []"
  shows "\<exists>nonce. length nonce = nonceLen \<and> encrypt_loop C k i (xs, io_EOF) = Inr (seal_chunk C k nonce xs)"
proof -
  obtain nonce where n: "cl_rand C i nonceLen = Inr nonce" "length nonce = nonceLen"
    using assms(1) unfolding crypt_ok_def by blast
  then show ?thesis
    using assms by (intro exI [of _ nonce]) (subst encrypt_loop.simps, simp add: read_full_def at_end_def)
qed

lemma encrypt_empty: "encrypt_loop C k i ([], io_EOF) = Inr []"
  by (subst encrypt_loop.simps) (simp add: read_full_def at_end_def)

definition chunks_of :: "nat \<Rightarrow> nat" where
  \<comment> \<open>how many chunks a text of that length takes\<close>
  "chunks_of n = (n + (chunkSize - 1)) div chunkSize"

lemma chunks_of_small: "0 < n \<Longrightarrow> n < chunkSize \<Longrightarrow> chunks_of n = 1"
  by (simp add: chunks_of_def chunkSize_def)

lemma chunks_of_step: "chunkSize \<le> n \<Longrightarrow> chunks_of n = Suc (chunks_of (n - chunkSize))"
proof -
  assume "chunkSize \<le> n"
  then have "n + (chunkSize - 1) = (n - chunkSize + (chunkSize - 1)) + chunkSize" by simp
  then show ?thesis unfolding chunks_of_def by (metis div_add_self2 chunkSize_pos(2) Suc_eq_plus1)
qed

lemma encrypt_then_decrypt:
  assumes "crypt_ok C"
  shows "\<exists>out. encrypt_loop C k i (xs, io_EOF) = Inr out \<and> length out = length xs + 32 * chunks_of (length xs) \<and>
    (\<forall>rest e. decrypt_loop C k (out @ rest, e) = prepend xs (decrypt_loop C k (rest, e)))"
proof (induction "length xs" arbitrary: xs i rule: less_induct)
  case less
  consider "xs = []" | "xs \<noteq> []" "length xs < chunkSize" | "chunkSize \<le> length xs" by linarith
  then show ?case
  proof cases
    case 1
    then show ?thesis by (simp add: encrypt_empty chunks_of_def chunkSize_def)
  next
    case 2
    then obtain nonce where n: "length nonce = nonceLen" "encrypt_loop C k i (xs, io_EOF) = Inr (seal_chunk C k nonce xs)"
      using encrypt_last [OF assms] by blast
    then show ?thesis
      using 2 decrypt_seal_chunk [OF assms n(1)] seal_chunk_length [OF assms n(1)] chunks_of_small [of "length xs"] by simp
  next
    case 3
    let ?c = "take chunkSize xs" and ?xs = "drop chunkSize xs"
    obtain nonce where n: "length nonce = nonceLen" "encrypt_loop C k i (xs, io_EOF) =
        prepend (seal_chunk C k nonce ?c) (encrypt_loop C k (Suc i) (?xs, io_EOF))"
      using encrypt_step [OF assms 3, where k = k and i = i and e = io_EOF] by blast
    have "length ?xs < length xs" using 3 chunkSize_pos(1) unfolding length_drop by linarith
    from less [OF this, of "Suc i"] obtain out where o: "encrypt_loop C k (Suc i) (?xs, io_EOF) = Inr out"
        "length out = length ?xs + 32 * chunks_of (length ?xs)"
        "\<And>rest e. decrypt_loop C k (out @ rest, e) = prepend ?xs (decrypt_loop C k (rest, e))" by blast
    have "decrypt_loop C k ((seal_chunk C k nonce ?c @ out) @ rest, e) = prepend xs (decrypt_loop C k (rest, e))" for rest e
      using decrypt_seal_chunk [OF assms n(1), of ?c k "out @ rest" e] 3 by (simp add: o(3))
    moreover have "length (seal_chunk C k nonce ?c @ out) = length xs + 32 * chunks_of (length xs)"
      using 3 seal_chunk_length [OF assms n(1), of k ?c] o(2) chunks_of_step [OF 3] by simp
    ultimately show ?thesis
      using n(2) o(1) by (intro exI [of _ "seal_chunk C k nonce ?c @ out"]) simp
  qed
qed

section \<open>Whole files\<close>

lemma header_length: "length (writeHeader salt) = 49"
  by (simp add: writeHeader_def fixed_copy_def headerMagic_def algorithmAES256GCM_def)

lemma header_fields:
  assumes "length M = 4" "length A = 12"
  shows "take 4 (M @ [c] @ A @ s) = M" "(M @ [c] @ A @ s) ! 4 = c"
    "take 12 (drop 5 (M @ [c] @ A @ s)) = A" "drop 17 (M @ [c] @ A @ s) = s"
  using assms by (simp_all add: nth_append)

lemma read_written:
  assumes "length salt = saltLen"
  shows "readHeader (writeHeader salt @ rest, e) =
    (Inr \<lparr>h_Magic = headerMagic, h_Version = headerVersion, h_Algorithm = fixed_copy 12 algorithmAES256GCM, h_Salt = salt\<rparr>,
     (rest, e))"
proof -
  have r: "read_full 49 (writeHeader salt @ rest, e) = ((writeHeader salt, None), (rest, e))"
    using header_length [of salt] by (simp add: read_full_def)
  have s: "fixed_copy 32 salt = salt" using assms by (simp add: fixed_copy_def saltLen_def)
  have "take 4 (writeHeader salt) = headerMagic" "of_char (writeHeader salt ! 4) = headerVersion"
      "take 12 (drop 5 (writeHeader salt)) = fixed_copy 12 algorithmAES256GCM" "drop 17 (writeHeader salt) = salt"
    using header_fields [of "fixed_copy 4 headerMagic" "fixed_copy 12 algorithmAES256GCM" "char_of headerVersion" salt]
    unfolding writeHeader_def s
    by (simp_all add: fixed_copy_def headerMagic_def algorithmAES256GCM_def headerVersion_def)
  then show ?thesis by (simp add: readHeader_def r Let_def)
qed

lemma encrypt_file:
  assumes "crypt_ok C" "key \<noteq> []"
  obtains salt where "length salt = saltLen"
    "\<And>r. Encrypt C r key = prepend (writeHeader salt) (encrypt_loop C (cl_derive C key salt) 1 r)"
    "\<And>body e. Decrypt C (writeHeader salt @ body, e) key = decrypt_loop C (cl_derive C key salt) (body, e)"
proof -
  obtain salt where s: "cl_rand C 0 saltLen = Inr salt" "length salt = saltLen"
    using assms(1) unfolding crypt_ok_def by blast
  show ?thesis
  proof (rule that [OF s(2)])
    show "Encrypt C r key = prepend (writeHeader salt) (encrypt_loop C (cl_derive C key salt) 1 r)" for r
      using assms(2) s(1) by (simp add: Encrypt_def prepend_def comp_def)
    show "Decrypt C (writeHeader salt @ body, e) key = decrypt_loop C (cl_derive C key salt) (body, e)" for body e
      using assms(2) read_written [OF s(2)] by (simp add: Decrypt_def)
  qed
qed

text \<open>A concrete library for the witnesses: the key is the passphrase, sealing prefixes a tag.\<close>

definition sample_crypt :: crypt_lib where
  "sample_crypt =
     \<lparr>cl_derive = (\<lambda>key salt. key), cl_seal = (\<lambda>k n p. replicate 16 (CHR ''t'') @ p),
      cl_open = (\<lambda>k n c. if take 16 c = replicate 16 (CHR ''t'') then Some (drop 16 c) else None),
      cl_rand = (\<lambda>i n. Inr (replicate n (char_of i)))\<rparr>"

lemma sample_crypt_ok: "crypt_ok sample_crypt"
  by (simp add: crypt_ok_def sample_crypt_def)

lemma backup_crypt_total:
  assumes "crypt_ok C" "key \<noteq> []"
  shows "\<exists>c. Encrypt C (xs, io_EOF) key = Inr c \<and> Decrypt C (c, io_EOF) key = Inr xs \<and>
    length c = 49 + length xs + 32 * ((length xs + (chunkSize - 1)) div chunkSize)"
proof -
  obtain salt where s: "\<And>r. Encrypt C r key = prepend (writeHeader salt) (encrypt_loop C (cl_derive C key salt) 1 r)"
      "\<And>body e. Decrypt C (writeHeader salt @ body, e) key = decrypt_loop C (cl_derive C key salt) (body, e)"
    using encrypt_file [OF assms] by metis
  obtain out where o: "encrypt_loop C (cl_derive C key salt) 1 (xs, io_EOF) = Inr out"
      "length out = length xs + 32 * chunks_of (length xs)"
      "\<And>rest e. decrypt_loop C (cl_derive C key salt) (out @ rest, e) =
         prepend xs (decrypt_loop C (cl_derive C key salt) (rest, e))"
    using encrypt_then_decrypt [OF assms(1)] by blast
  have "Decrypt C (writeHeader salt @ out, io_EOF) key = Inr xs"
    using o(3) [of "[]" io_EOF] by (simp add: s(2) decrypt_short)
  then show ?thesis
    using s(1) o(1,2) header_length [of salt] unfolding chunks_of_def by (intro exI [of _ "writeHeader salt @ out"]) simp
qed

text \<open>
  C25: with a passphrase that is not empty every text, of any length, can be encrypted, and decrypting
  the result with the same passphrase gives the text back; the file is longer by the header and by
  32 bytes for each chunk begun, so that no chunk meets the limit that decryption puts on a chunk.
\<close>

theorem backup_crypt_roundtrip:
  assumes "crypt_ok C" "key \<noteq> []"
  shows "\<exists>c. Encrypt C (xs, io_EOF) key = Inr c \<and> Decrypt C (c, io_EOF) key = Inr xs \<and>
    length c = 49 + length xs + 32 * ((length xs + (chunkSize - 1)) div chunkSize)"
  by (rule backup_crypt_total [OF assms])

theorem backup_crypt_roundtrip_witness:
  "\<exists>c. Encrypt sample_crypt (''dump'', io_EOF) ''secret'' = Inr c \<and> Decrypt sample_crypt (c, io_EOF) ''secret'' = Inr ''dump'' \<and>
     length c = 85"
  using backup_crypt_roundtrip [OF sample_crypt_ok, of "''secret''" "''dump''"] by (simp add: chunkSize_def)

lemma encrypt_blocks:
  assumes "crypt_ok C" "length xs = m * chunkSize"
  shows "\<exists>out. (\<forall>ys. \<exists>j. encrypt_loop C k i (xs @ ys, io_EOF) = prepend out (encrypt_loop C k j (ys, io_EOF))) \<and>
    (\<forall>rest e. decrypt_loop C k (out @ rest, e) = prepend xs (decrypt_loop C k (rest, e)))"
  using assms(2)
proof (induction m arbitrary: xs i)
  case 0
  then show ?case by (intro exI [of _ "[]"] conjI allI exI [of _ i]) simp_all
next
  case (Suc m)
  let ?c = "take chunkSize xs" and ?xs = "drop chunkSize xs"
  have len: "chunkSize \<le> length xs" "length ?xs = m * chunkSize" using Suc.prems by simp_all
  obtain nonce where n: "cl_rand C i nonceLen = Inr nonce" "length nonce = nonceLen"
    using assms(1) unfolding crypt_ok_def by blast
  from Suc.IH [OF len(2), of "Suc i"] obtain out where o:
      "\<And>ys. \<exists>j. encrypt_loop C k (Suc i) (?xs @ ys, io_EOF) = prepend out (encrypt_loop C k j (ys, io_EOF))"
      "\<And>rest e. decrypt_loop C k (out @ rest, e) = prepend ?xs (decrypt_loop C k (rest, e))" by blast
  have "\<exists>j. encrypt_loop C k i (xs @ ys, io_EOF) =
      prepend (seal_chunk C k nonce ?c @ out) (encrypt_loop C k j (ys, io_EOF))" for ys
  proof -
    have "chunkSize \<le> length (xs @ ys)" using len(1) by simp
    from encrypt_step [OF assms(1) this, where k = k and i = i and e = io_EOF] n
    have n': "encrypt_loop C k i (xs @ ys, io_EOF) = prepend (seal_chunk C k nonce (take chunkSize (xs @ ys)))
        (encrypt_loop C k (Suc i) (drop chunkSize (xs @ ys), io_EOF))" by auto
    obtain j where "encrypt_loop C k (Suc i) (?xs @ ys, io_EOF) = prepend out (encrypt_loop C k j (ys, io_EOF))"
      using o(1) by blast
    with n' len(1) show ?thesis by (intro exI [of _ j]) simp
  qed
  moreover have "decrypt_loop C k ((seal_chunk C k nonce ?c @ out) @ rest, e) = prepend xs (decrypt_loop C k (rest, e))" for rest e
    using decrypt_seal_chunk [OF assms(1) n(2), of ?c k "out @ rest" e] len(1) by (simp add: o(2))
  ultimately show ?case by blast
qed

end
