(* ===== verification/Go_Path.thy ===== *)
theory Go_Path
  imports Go_Strings
begin

text \<open>
  What the program takes from \<open>path/filepath\<close> on a system whose separator is \<open>/\<close>: \<open>Clean\<close>, \<open>Join\<close>
  and \<open>Dir\<close>, all three purely lexical. A lexical path is the list of its elements, the last first.
\<close>

fun clean_push :: "bool \<Rightarrow> string \<Rightarrow> string list \<Rightarrow> string list" where
  \<comment> \<open>one element of the path put on those already clean\<close>
  "clean_push rooted x out =
     (if x = [] \<or> x = ''.'' then out
      else if x = ''..'' then
        (case out of
           [] \<Rightarrow> if rooted then [] else [''..'']
         | o' # os \<Rightarrow> if o' = ''..'' then ''..'' # out else os)
      else x # out)"

definition clean_elements :: "bool \<Rightarrow> string list \<Rightarrow> string list" where
  "clean_elements rooted xs = fold (clean_push rooted) xs []"

definition filepath_Clean :: "string \<Rightarrow> string" where
  "filepath_Clean p =
     (let rooted = (take 1 p = ''/''); out = join ''/'' (rev (clean_elements rooted (split_byte (CHR ''/'') p)))
      in if rooted then CHR ''/'' # out else if out = [] then ''.'' else out)"

definition filepath_Join :: "string list \<Rightarrow> string" where
  "filepath_Join es =
     (let es' = filter (\<lambda>e. e \<noteq> []) es in if es' = [] then [] else filepath_Clean (join ''/'' es'))"

definition filepath_Dir :: "string \<Rightarrow> string" where
  "filepath_Dir p = filepath_Clean (rev (dropWhile (\<lambda>c. c \<noteq> CHR ''/'') (rev p)))"

section \<open>Joining a directory and a plain name\<close>

definition plain_name :: "string \<Rightarrow> bool" where
  "plain_name n \<longleftrightarrow> n \<noteq> [] \<and> n \<noteq> ''.'' \<and> n \<noteq> ''..'' \<and> CHR ''/'' \<notin> set n"

lemma split_byte_snoc: "c \<notin> set n \<Longrightarrow> split_byte c (d @ c # n) = split_byte c d @ [n]"
proof (induction d)
  case Nil
  then show ?case by (simp add: split_byte_no_sep)
next
  case (Cons x d)
  then show ?case by (cases "split_byte c d") auto
qed

lemma join_snoc: "join sep (xs @ [n]) = (if xs = [] then n else join sep xs @ sep @ n)"
  by (induction sep xs rule: join.induct) auto

lemma clean_elements_snoc:
  "plain_name n \<Longrightarrow> clean_elements rooted (xs @ [n]) = n # clean_elements rooted xs"
  by (simp add: clean_elements_def plain_name_def)

text \<open>The name is the last element of the result, behind a prefix that only the directory decides.\<close>

lemma filepath_Join_name: "\<exists>pre. \<forall>n. plain_name n \<longrightarrow> filepath_Join [d, n] = pre @ n"
proof (cases "d = []")
  case True
  have "filepath_Join [d, n] = n" if "plain_name n" for n
  proof -
    have "take 1 n \<noteq> ''/''" using that by (cases n) (auto simp: plain_name_def)
    then show ?thesis
      using that True by (auto simp: filepath_Join_def filepath_Clean_def clean_elements_def plain_name_def split_byte_no_sep Let_def)
  qed
  then show ?thesis by (intro exI [of _ "[]"]) simp
next
  case False
  let ?r = "take 1 d = ''/''"
  let ?e = "rev (clean_elements ?r (split_byte (CHR ''/'') d))"
  let ?p = "if ?e = [] then [] else join ''/'' ?e @ ''/''"
  have "filepath_Join [d, n] = (if ?r then ''/'' else []) @ ?p @ n" if n: "plain_name n" for n
  proof -
    have r: "(take 1 (d @ CHR ''/'' # n) = ''/'') = ?r" using False by (cases d) auto
    have e: "rev (clean_elements ?r (split_byte (CHR ''/'') (d @ CHR ''/'' # n))) = ?e @ [n]"
      using n by (simp add: split_byte_snoc clean_elements_snoc plain_name_def)
    have "n \<noteq> []" using n by (simp add: plain_name_def)
    then have "filepath_Join [d, n] = filepath_Clean (d @ CHR ''/'' # n)"
      using False by (simp add: filepath_Join_def)
    also have "\<dots> = (if ?r then ''/'' else []) @ ?p @ n"
      unfolding filepath_Clean_def Let_def r e join_snoc using \<open>n \<noteq> []\<close> by auto
    finally show ?thesis .
  qed
  then show ?thesis by (intro exI [of _ "(if ?r then ''/'' else []) @ ?p"]) simp
qed

lemma filepath_Join_inj:
  assumes "plain_name m" "plain_name n" "filepath_Join [d, m] = filepath_Join [d, n]"
  shows "m = n"
  using filepath_Join_name [of d] assms by force

end
