(* ===== verification/Backup_Runner.thy ===== *)
theory Backup_Runner
  imports Backup_Crypt Evidence_Store Go_Path
begin

text \<open>
  \<open>internal/backup/runner.go\<close>: a backup run (dump, snapshot of the evidence bucket, archive,
  encryption, file), its log in the table \<open>backup_log\<close>, the alert after failures, the daily schedule
  and the check of a backup file. The destination is a map from paths to contents; directories,
  permissions and \<open>ctx\<close> are not modelled.
\<close>

section \<open>Data\<close>

record BackupResult =
  bres_ID :: uuid
  bres_Status :: string
  bres_StartedAt :: time
  bres_CompletedAt :: "time option"
  bres_FileCount :: int
  bres_TotalSize :: int
  bres_ErrorMessage :: string

text \<open>A row of the table \<open>backup_log\<close>; \<open>BackupInfo\<close> is the row with \<open>NULL\<close> for no error as the empty text.\<close>

record backup_row =
  bk_ID :: uuid
  bk_StartedAt :: time
  bk_CompletedAt :: "time option"
  bk_Status :: string
  bk_SizeBytes :: "int option"
  bk_Destination :: string
  bk_ErrorMessage :: "string option"

record BackupInfo =
  bi_ID :: uuid
  bi_StartedAt :: time
  bi_CompletedAt :: "time option"
  bi_Status :: string
  bi_SizeBytes :: "int option"
  bi_Destination :: string
  bi_Error :: string

text \<open>
  The state beside that of the evidence service: the table, the files at the destination, the
  counter of the runner, and the errors passed to the notifier, the newest first.
\<close>

record backup_db = evidence_db +
  backup_log :: "backup_row list"
  backup_files :: "string \<Rightarrow> string option"
  consecutiveFailures :: nat
  backup_alerts :: "go_error list"

record conn_config =
  cc_Host :: string
  cc_Port :: nat
  cc_User :: string
  cc_Database :: string
  cc_Password :: string

text \<open>
  What a runner is deployed with: the library, the cryptography and the randomness of the run at a
  tick, \<open>exec\<close> (the error, the output and the error output of a command with arguments and environment),
  whether a storage and a notifier are configured, \<open>tar\<close> with \<open>gzip\<close>, the order in which Go ranges over
  a map at a tick, the keys of the bucket as the server lists them, and how much of a file a failing
  copy wrote.
\<close>

record backup_env =
  be_lib :: go_lib
  be_crypt :: crypt_lib
  be_rand :: "nat \<Rightarrow> nat \<Rightarrow> nat \<Rightarrow> go_error + string"
  be_conn :: conn_config
  be_environ :: "string list"
  be_exec :: "nat \<Rightarrow> string \<Rightarrow> string list \<Rightarrow> string list \<Rightarrow> go_error option \<times> string \<times> string"
  be_key :: string
  be_destination :: string
  be_storage :: bool
  be_notifier :: bool
  be_targz :: "(string \<times> time \<times> string) list \<Rightarrow> string"
  be_range :: "nat \<Rightarrow> (string \<times> string) list \<Rightarrow> (string \<times> string) list"
  be_listing :: "nat \<Rightarrow> string list"
  be_partial :: "nat \<Rightarrow> nat"

lemma backup_tick [simp]:
  "backup_log (tick w) = backup_log w" "backup_files (tick w) = backup_files w"
  "consecutiveFailures (tick w) = consecutiveFailures w" "backup_alerts (tick w) = backup_alerts w"
  "objects (tick w) = objects w"
  by (simp_all add: tick_def)

section \<open>The database dump\<close>

definition defaultCommandRunner ::
  "backup_env \<Rightarrow> string \<Rightarrow> string list \<Rightarrow> string list \<Rightarrow> 'a backup_db_scheme \<Rightarrow> (go_error + string) \<times> 'a backup_db_scheme" where
  "defaultCommandRunner E name args env w =
     (case be_exec E (w_tick w) name args (be_environ E @ env) of
        (Some err, stdout, stderr) \<Rightarrow> (Inl (ErrWrap (err_text err @ '': '' @ stderr) [err]), tick w)
      | (None, stdout, stderr) \<Rightarrow> (Inr stdout, tick w))"

definition DumpPostgres :: "backup_env \<Rightarrow> 'a backup_db_scheme \<Rightarrow> (go_error + string) \<times> 'a backup_db_scheme" where
  "DumpPostgres E w =
     (let cc = be_conn E in
      defaultCommandRunner E ''pg_dump''
        [''--host'', cc_Host cc, ''--port'', itoa (int (cc_Port cc)), ''--username'', cc_User cc,
         ''--dbname'', cc_Database cc, ''--format'', ''custom'', ''--no-password'']
        [''PGPASSWORD='' @ cc_Password cc] w)"

section \<open>The log\<close>

definition insertLog ::
  "backup_env \<Rightarrow> uuid \<Rightarrow> time \<Rightarrow> 'a backup_db_scheme \<Rightarrow> go_error option \<times> 'a backup_db_scheme" where
  "insertLog E i startedAt w =
     (case fault w of
        Some err \<Rightarrow> (Some err, tick w)
      | None \<Rightarrow>
          if i \<in> bk_ID ` set (backup_log w) then (Some (ErrNew ''duplicate key value violates unique constraint''), tick w)
          else
            (None, (tick w)\<lparr>backup_log := backup_log w @
               [\<lparr>bk_ID = i, bk_StartedAt = lib_col_time (be_lib E) startedAt, bk_CompletedAt = None, bk_Status = ''started'',
                 bk_SizeBytes = None, bk_Destination = be_destination E, bk_ErrorMessage = None\<rparr>]\<rparr>))"

definition update_rows :: "uuid \<Rightarrow> (backup_row \<Rightarrow> backup_row) \<Rightarrow> backup_row list \<Rightarrow> backup_row list" where
  \<comment> \<open>\<open>UPDATE backup_log SET ... WHERE id = i\<close>\<close>
  "update_rows i f rows = map (\<lambda>b. if bk_ID b = i then f b else b) rows"

definition updateLogCompleted ::
  "backup_env \<Rightarrow> uuid \<Rightarrow> time \<Rightarrow> int \<Rightarrow> int \<Rightarrow> 'a backup_db_scheme \<Rightarrow> go_error option \<times> 'a backup_db_scheme" where
  "updateLogCompleted E i completedAt fileCount totalSize w =
     (case fault w of
        Some err \<Rightarrow> (Some err, tick w)
      | None \<Rightarrow>
          (None, (tick w)\<lparr>backup_log :=
             update_rows i (\<lambda>b. b\<lparr>bk_CompletedAt := Some (lib_col_time (be_lib E) completedAt),
                                   bk_Status := ''completed'', bk_SizeBytes := Some totalSize\<rparr>) (backup_log w)\<rparr>))"

definition updateLogFailed ::
  "backup_env \<Rightarrow> uuid \<Rightarrow> string \<Rightarrow> 'a backup_db_scheme \<Rightarrow> go_error option \<times> 'a backup_db_scheme" where
  "updateLogFailed E i msg w =
     (case fault w of
        Some err \<Rightarrow> (Some err, tick w)
      | None \<Rightarrow>
          (None, (tick w)\<lparr>backup_log :=
             update_rows i (\<lambda>b. b\<lparr>bk_CompletedAt := Some (lib_col_time (be_lib E) (now w)),
                                   bk_Status := ''failed'', bk_ErrorMessage := Some msg\<rparr>) (backup_log w)\<rparr>))"

definition NotifyBackupFailed :: "go_error \<Rightarrow> 'a backup_db_scheme \<Rightarrow> go_error option \<times> 'a backup_db_scheme" where
  \<comment> \<open>\<open>NotificationBridge\<close>: the error is passed on to the function it holds\<close>
  "NotifyBackupFailed err w = (fault w, (tick w)\<lparr>backup_alerts := err # backup_alerts w\<rparr>)"

definition alert_error :: "backup_env \<Rightarrow> uuid \<Rightarrow> nat \<Rightarrow> go_error \<Rightarrow> go_error" where
  "alert_error E i failures err =
     (let level = (if failures \<ge> 3 then ''CRITICAL'' else ''WARNING'') in
      wrapf (''['' @ level @ ''] backup '' @ lib_uuid_string (be_lib E) i @ '' failed (consecutive: '' @
             itoa (int failures) @ '')'') err)"

definition failBackup ::
  "backup_env \<Rightarrow> uuid \<Rightarrow> BackupResult \<Rightarrow> go_error \<Rightarrow> 'a backup_db_scheme
     \<Rightarrow> (BackupResult \<times> go_error option) \<times> 'a backup_db_scheme" where
  "failBackup E i res err w =
     (let res = res\<lparr>bres_Status := ''failed'', bres_ErrorMessage := err_text err\<rparr>;
          w1 = snd (updateLogFailed E i (err_text err) w);
          w2 = w1\<lparr>consecutiveFailures := Suc (consecutiveFailures w1)\<rparr>;
          w3 = (if be_notifier E then snd (NotifyBackupFailed (alert_error E i (consecutiveFailures w2) err) w2) else w2)
      in ((res, Some err), w3))"

section \<open>The archive\<close>

definition map_put :: "string \<Rightarrow> string \<Rightarrow> (string \<times> string) list \<Rightarrow> (string \<times> string) list" where
  \<comment> \<open>assignment to a key of a Go map, kept as the list of its pairs\<close>
  "map_put k v m = filter (\<lambda>p. fst p \<noteq> k) m @ [(k, v)]"

fun snapshot_objects ::
  "string list \<Rightarrow> (string \<times> string) list \<Rightarrow> 'a backup_db_scheme
     \<Rightarrow> (go_error + (string \<times> string) list) \<times> 'a backup_db_scheme" where
  "snapshot_objects [] objs w = (Inr objs, w)"
| "snapshot_objects (key # keys) objs w =
     (case GetObject key w of
        (Inl err, w1) \<Rightarrow> (Inl (wrapf (''get object '' @ key) err), w1)
      | (Inr (data, contentType), w1) \<Rightarrow>
          (case pg_call (wrapf (''read object '' @ key)) w1 of
             (Some err, w2) \<Rightarrow> (Inl err, w2)
           | (None, w2) \<Rightarrow> snapshot_objects keys (map_put key data objs) w2))"

definition snapshotMinIO ::
  "backup_env \<Rightarrow> 'a backup_db_scheme \<Rightarrow> (go_error + (string \<times> string) list) \<times> 'a backup_db_scheme" where
  "snapshotMinIO E w =
     (case ListObjects (be_listing E (w_tick w)) [] w of
        (Inl err, w1) \<Rightarrow> (Inl (wrapf ''list storage objects'' err), w1)
      | (Inr keys, w1) \<Rightarrow>
          if keys = [] then (Inr [], w1)
          else
            (let manifest = (case lib_json_print (be_lib E) (JArray (map JString keys)) of Some s \<Rightarrow> s | None \<Rightarrow> [])
             in snapshot_objects keys [(''_manifest.json'', manifest)] w1))"

fun archive_entries ::
  "(string \<times> string) list \<Rightarrow> 'a backup_db_scheme \<Rightarrow> (string \<times> time \<times> string) list \<times> 'a backup_db_scheme" where
  \<comment> \<open>the headers and contents in the order they are written, each with the time it was written\<close>
  "archive_entries [] w = ([], w)"
| "archive_entries ((name, data) # es) w =
     (case archive_entries es (tick w) of (rest, w') \<Rightarrow> ((name, now w, data) # rest, w'))"

definition createArchive ::
  "backup_env \<Rightarrow> string \<Rightarrow> (string \<times> string) list \<Rightarrow> 'a backup_db_scheme \<Rightarrow> string \<times> 'a backup_db_scheme" where
  "createArchive E pgDump storageObjects w =
     (case archive_entries
             ((''database.dump'', pgDump) #
              map (\<lambda>(key, data). (filepath_Join [''evidence'', key], data)) (be_range E (w_tick w) storageObjects)) w of
        (es, w') \<Rightarrow> (be_targz E es, w'))"

section \<open>The file\<close>

definition backup_name :: "backup_env \<Rightarrow> uuid \<Rightarrow> string" where
  "backup_name E i = ''backup-'' @ lib_uuid_string (be_lib E) i @ ''.vkbk''"

definition backup_path :: "backup_env \<Rightarrow> uuid \<Rightarrow> string" where
  "backup_path E i = filepath_Join [be_destination E, backup_name E i]"

definition writeToFile ::
  "backup_env \<Rightarrow> string \<Rightarrow> string \<Rightarrow> 'a backup_db_scheme \<Rightarrow> (int \<times> go_error option) \<times> 'a backup_db_scheme" where
  \<comment> \<open>\<open>MkdirAll\<close>, \<open>OpenFile\<close> (which empties the file), \<open>io.Copy\<close> and \<open>Sync\<close>\<close>
  "writeToFile E path data w =
     (case pg_call (wrapf ''create destination directory'') w of
        (Some err, w1) \<Rightarrow> ((0, Some err), w1)
      | (None, w1) \<Rightarrow>
          (case pg_call (wrapf ''open file'') w1 of
             (Some err, w2) \<Rightarrow> ((0, Some err), w2)
           | (None, w2) \<Rightarrow>
               (case fault w2 of
                  Some err \<Rightarrow>
                    ((0, Some (wrapf ''write file'' err)),
                     (tick w2)\<lparr>backup_files := (backup_files w2)(path \<mapsto> take (be_partial E (w_tick w2)) data)\<rparr>)
                | None \<Rightarrow>
                    (let w3 = (tick w2)\<lparr>backup_files := (backup_files w2)(path \<mapsto> data)\<rparr> in
                     case pg_call (wrapf ''sync file'') w3 of
                       (Some err, w4) \<Rightarrow> ((int (length data), Some err), w4)
                     | (None, w4) \<Rightarrow> ((int (length data), None), w4)))))"

section \<open>A run\<close>

definition run_crypt :: "backup_env \<Rightarrow> nat \<Rightarrow> crypt_lib" where
  \<comment> \<open>the cryptography with the randomness of the run at that tick\<close>
  "run_crypt E n = (be_crypt E)\<lparr>cl_rand := be_rand E n\<rparr>"

definition storage_snapshot :: "backup_env \<Rightarrow> 'a backup_db_scheme \<Rightarrow> (string \<times> string) list \<times> 'a backup_db_scheme" where
  \<comment> \<open>the step 3 of \<open>RunBackup\<close>: a failing snapshot leaves the map \<open>nil\<close>\<close>
  "storage_snapshot E w =
     (if be_storage E then (case snapshotMinIO E w of (Inl err, w1) \<Rightarrow> ([], w1) | (Inr m, w1) \<Rightarrow> (m, w1))
      else ([], w))"

definition produce_backup ::
  "backup_env \<Rightarrow> uuid \<Rightarrow> 'a backup_db_scheme \<Rightarrow> (go_error + int) \<times> 'a backup_db_scheme" where
  \<comment> \<open>the steps 2 to 6 of \<open>RunBackup\<close>; every error of theirs is passed to \<open>failBackup\<close>\<close>
  "produce_backup E i w =
     (case DumpPostgres E w of
        (Inl err, w1) \<Rightarrow> (Inl (wrapf ''pg_dump'' err), w1)
      | (Inr pgDump, w1) \<Rightarrow>
          (case storage_snapshot E w1 of
             (storageObjects, w2) \<Rightarrow>
               (case createArchive E pgDump storageObjects w2 of
                  (archive, w3) \<Rightarrow>
                    (case Encrypt (run_crypt E (w_tick w3)) (archive, io_EOF) (be_key E) of
                       Inl err \<Rightarrow> (Inl (wrapf ''encrypt'' err), tick w3)
                     | Inr encrypted \<Rightarrow>
                         (case writeToFile E (backup_path E i) encrypted (tick w3) of
                            ((written, Some err), w4) \<Rightarrow> (Inl (wrapf ''write backup file'' err), w4)
                          | ((written, None), w4) \<Rightarrow> (Inr written, w4))))))"

definition RunBackup ::
  "backup_env \<Rightarrow> 'a backup_db_scheme \<Rightarrow> (BackupResult \<times> go_error option) \<times> 'a backup_db_scheme" where
  "RunBackup E w =
     (let i = new_uuid w; startedAt = now w;
          res = \<lparr>bres_ID = i, bres_Status = ''started'', bres_StartedAt = startedAt, bres_CompletedAt = None,
                 bres_FileCount = 0, bres_TotalSize = 0, bres_ErrorMessage = []\<rparr>
      in
      case insertLog E i startedAt (tick w) of
        (Some err, w1) \<Rightarrow> ((res, Some (wrapf ''insert backup log'' err)), w1)
      | (None, w1) \<Rightarrow>
          (case produce_backup E i w1 of
             (Inl err, w2) \<Rightarrow> failBackup E i res err w2
           | (Inr written, w2) \<Rightarrow>
               (let completedAt = now w2;
                    res = res\<lparr>bres_Status := ''completed'', bres_CompletedAt := Some completedAt,
                              bres_FileCount := 1, bres_TotalSize := written\<rparr>;
                    w3 = snd (updateLogCompleted E i completedAt (bres_FileCount res) written (tick w2))
                in ((res, None), w3\<lparr>consecutiveFailures := 0\<rparr>))))"

section \<open>Reading the log\<close>

definition backup_info :: "backup_row \<Rightarrow> BackupInfo" where
  "backup_info b =
     \<lparr>bi_ID = bk_ID b, bi_StartedAt = bk_StartedAt b, bi_CompletedAt = bk_CompletedAt b, bi_Status = bk_Status b,
      bi_SizeBytes = bk_SizeBytes b, bi_Destination = bk_Destination b,
      bi_Error = (case bk_ErrorMessage b of Some m \<Rightarrow> m | None \<Rightarrow> [])\<rparr>"

definition by_started :: "backup_row list \<Rightarrow> backup_row list" where
  \<comment> \<open>\<open>ORDER BY started_at DESC\<close>\<close>
  "by_started rows = sort_key (\<lambda>b. - bk_StartedAt b) rows"

definition ListBackups :: "'a backup_db_scheme \<Rightarrow> (go_error + BackupInfo list) \<times> 'a backup_db_scheme" where
  "ListBackups w =
     (case query_rows (wrapf ''query backup_log'') (wrapf ''scan backup_log row'') (wrapf ''iterate backup_log rows'')
             (by_started (backup_log w)) w of
        (Inl err, w') \<Rightarrow> (Inl err, w')
      | (Inr rows, w') \<Rightarrow> (Inr (map backup_info rows), w'))"

definition GetLastBackupInfo :: "'a backup_db_scheme \<Rightarrow> (go_error + time \<times> string) \<times> 'a backup_db_scheme" where
  "GetLastBackupInfo w =
     (case fault w of
        Some err \<Rightarrow> (Inl (wrapf ''query last backup info'' err), tick w)
      | None \<Rightarrow>
          (case by_started (backup_log w) of
             [] \<Rightarrow> (Inl (wrapf ''query last backup info'' (ErrSentinel ''no rows in result set'')), tick w)
           | b # bs \<Rightarrow>
               (Inr ((case bk_CompletedAt b of Some t \<Rightarrow> t | None \<Rightarrow> bk_StartedAt b), bk_Status b), tick w)))"

definition VerifyBackup :: "backup_env \<Rightarrow> uuid \<Rightarrow> 'a backup_db_scheme \<Rightarrow> go_error option \<times> 'a backup_db_scheme" where
  "VerifyBackup E backupID w =
     (let u = lib_uuid_string (be_lib E) backupID in
      case pg_call (wrapf (''lookup backup '' @ u)) w of
        (Some err, w1) \<Rightarrow> (Some err, w1)
      | (None, w1) \<Rightarrow>
          (case find (\<lambda>b. bk_ID b = backupID) (backup_log w) of
             None \<Rightarrow> (Some (wrapf (''lookup backup '' @ u) (ErrSentinel ''no rows in result set'')), w1)
           | Some b \<Rightarrow>
               if bk_Status b \<noteq> ''completed'' then
                 (Some (ErrNew (''backup '' @ u @ '' has status \"'' @ bk_Status b @ ''\", expected \"completed\"'')), w1)
               else
                 (case pg_call (wrapf ''backup file not found'') w1 of
                    (Some err, w2) \<Rightarrow> (Some err, w2)
                  | (None, w2) \<Rightarrow>
                      (case backup_files w2 (backup_path E backupID) of
                         None \<Rightarrow> (Some (wrapf ''backup file not found'' (ErrNew ''no such file or directory'')), w2)
                       | Some s \<Rightarrow>
                           if bk_SizeBytes b \<noteq> None \<and> int (length s) \<noteq> the (bk_SizeBytes b) then
                             (Some (ErrNew (''backup file size mismatch: expected '' @ itoa (the (bk_SizeBytes b)) @
                                            '', got '' @ itoa (int (length s)))), w2)
                           else
                             (case pg_call (wrapf ''open backup file'') w2 of
                                (Some err, w3) \<Rightarrow> (Some err, w3)
                              | (None, w3) \<Rightarrow>
                                  (case pg_call (wrapf ''compute checksum'') w3 of
                                     (Some err, w4) \<Rightarrow> (Some err, w4)
                                   | (None, w4) \<Rightarrow> (None, w4)))))))"

section \<open>The schedule\<close>

definition nsec_minute :: int where "nsec_minute = 60 * 1000000000"
definition nsec_day :: int where "nsec_day = 24 * 60 * nsec_minute"

definition next_run :: "int \<Rightarrow> int \<Rightarrow> time \<Rightarrow> time" where
  \<comment> \<open>the next time of day \<open>hour:minute\<close> in UTC, where every day has 24 hours\<close>
  "next_run hour minute t =
     (let next = t div nsec_day * nsec_day + (60 * hour + minute) * nsec_minute
      in if \<not> t < next then next + nsec_day else next)"

fun StartScheduler ::
  "backup_env \<Rightarrow> int \<Rightarrow> int \<Rightarrow> nat \<Rightarrow> 'a backup_db_scheme \<Rightarrow> time list \<times> 'a backup_db_scheme" where
  \<comment> \<open>the loop until \<open>ctx\<close> is done, after that many firings of the timer; the result is the times it was set to\<close>
  "StartScheduler E hour minute 0 w = ([next_run hour minute (now w)], tick w)"
| "StartScheduler E hour minute (Suc n) w =
     (let next = next_run hour minute (now w) in
      case RunBackup E (tick w) of
        (res, w1) \<Rightarrow> (case StartScheduler E hour minute n w1 of (ts, w2) \<Rightarrow> (next # ts, w2)))"

end
