(* ===== verification/Backup_Format.thy ===== *)
theory Backup_Format
  imports Backup_Crypt
begin

text \<open>
  The format that \<open>Decrypt\<close> accepts, as a reference definition, and what the format does not bind:
  the number of the chunks and their order.
\<close>

section \<open>What decryption accepts\<close>

definition framed :: "string list \<Rightarrow> string" where
  "framed chunks = concat (map (\<lambda>s. be32 (length s) @ s) chunks)"

definition opened :: "crypt_lib \<Rightarrow> string \<Rightarrow> string \<Rightarrow> string option" where
  \<comment> \<open>what a stored chunk of an admissible length opens to\<close>
  "opened C derived s =
     (if nonceLen \<le> length s \<and> length s \<le> maxChunkLen
      then cl_open C derived (take nonceLen s) (drop nonceLen s) else None)"

definition backup_format :: "crypt_lib \<Rightarrow> string \<Rightarrow> string \<Rightarrow> string \<Rightarrow> bool" where
  \<comment> \<open>\<open>file\<close> is a backup of \<open>text\<close> under \<open>key\<close>; fewer than four bytes at the end are ignored\<close>
  "backup_format C key file text \<longleftrightarrow>
     (\<exists>head chunks tail. file = head @ framed chunks @ tail \<and> length head = 49 \<and> length tail < 4 \<and>
        take 4 head = headerMagic \<and> of_char (head ! 4) = headerVersion \<and>
        (\<forall>s \<in> set chunks. opened C (cl_derive C key (drop 17 head)) s \<noteq> None) \<and>
        text = concat (map (\<lambda>s. the (opened C (cl_derive C key (drop 17 head)) s)) chunks))"

lemma be32_from_be32:
  assumes "length b = 4"
  shows "be32 (from_be32 b) = b"
proof -
  obtain x y z t where b: "b = [x, y, z, t]"
    using assms by (auto simp: numeral_eq_Suc length_Suc_conv)
  have c: "of_char c < (256 :: nat)" for c
  proof -
    have "of_char c mod 256 < (256 :: nat)" by (rule mod_less_divisor) simp
    then show ?thesis by (simp only: of_char_mod_256)
  qed
  have d: "(256 * m + of_char c) div 256 = (m :: nat)" "(256 * m + of_char c) mod 256 = (of_char c :: nat)" for m c
    using c [of c] by simp_all
  have p: "n div 256 ^ 3 = n div 256 div 256 div 256" "n div 256 ^ 2 = n div 256 div 256" for n :: nat
    by (simp_all add: div_mult2_eq [symmetric] power_numeral_reduce)
  have q: "n div 256 ^ 1 = n div 256" "n div 256 ^ 0 = n" for n :: nat by simp_all
  show ?thesis
    unfolding b be32_def from_be32_append list.map p q d by (simp only: mod_less [OF c] char_of_char)
qed

lemma decrypt_framed:
  assumes "\<forall>s \<in> set chunks. opened C k s \<noteq> None"
  shows "decrypt_loop C k (framed chunks @ rest, e) =
    prepend (concat (map (\<lambda>s. the (opened C k s)) chunks)) (decrypt_loop C k (rest, e))"
  using assms
proof (induction chunks)
  case (Cons s chunks)
  then obtain p where p: "opened C k s = Some p" by auto
  then have "nonceLen \<le> length s" "length s \<le> maxChunkLen" "cl_open C k (take nonceLen s) (drop nonceLen s) = Some p"
    by (simp_all add: opened_def split: if_splits)
  from decrypt_chunk [OF this, of "framed chunks @ rest" e] Cons p show ?case by (simp add: framed_def)
qed (simp add: framed_def)

lemma decrypt_unfold:
  assumes "read_full 4 (xs, e) = ((b, None), r1)" "from_be32 b \<le> maxChunkLen"
    and "read_full (from_be32 b) r1 = ((s, None), r2)" "nonceLen \<le> length s"
  shows "decrypt_loop C k (xs, e) =
    (case cl_open C k (take nonceLen s) (drop nonceLen s) of
       None \<Rightarrow> Inl (wrapf ''decrypt chunk'' (ErrNew ''cipher: message authentication failed''))
     | Some d \<Rightarrow> prepend d (decrypt_loop C k r2))"
  using assms by (subst decrypt_loop.simps) (simp add: Let_def prepend_def split: option.split sum.split)

lemma decrypt_loop_ok:
  "decrypt_loop C k (xs, io_EOF) = Inr p \<Longrightarrow>
     \<exists>chunks tail. xs = framed chunks @ tail \<and> length tail < 4 \<and> (\<forall>s \<in> set chunks. opened C k s \<noteq> None) \<and>
       p = concat (map (\<lambda>s. the (opened C k s)) chunks)"
proof (induction "length xs" arbitrary: xs p rule: less_induct)
  case less
  show ?case
  proof (cases "length xs < 4")
    case True
    with less.prems decrypt_short [OF True, of C k] show ?thesis
      by (intro exI [of _ "[]"] exI [of _ xs]) (simp add: framed_def)
  next
    case False
    let ?n = "from_be32 (take 4 xs)" and ?ys = "drop 4 xs"
    have 1: "read_full 4 (xs, io_EOF) = ((take 4 xs, None), (?ys, io_EOF))" using False by (simp add: read_full_def)
    have n: "?n \<le> maxChunkLen" "?n \<le> length ?ys" "nonceLen \<le> ?n"
      using less.prems 1 by (auto simp: decrypt_loop.simps Let_def read_full_def split: if_splits)
    have 2: "read_full ?n (?ys, io_EOF) = ((take ?n ?ys, None), (drop ?n ?ys, io_EOF))"
      using n(2) by (simp add: read_full_def)
    obtain d q where d: "cl_open C k (take nonceLen (take ?n ?ys)) (drop nonceLen (take ?n ?ys)) = Some d"
        "decrypt_loop C k (drop ?n ?ys, io_EOF) = Inr q" "p = d @ q"
    proof -
      have "nonceLen \<le> length (take ?n ?ys)" using n by simp
      with less.prems decrypt_unfold [OF 1 n(1) 2] show ?thesis
        by (cases "cl_open C k (take nonceLen (take ?n ?ys)) (drop nonceLen (take ?n ?ys))";
            cases "decrypt_loop C k (drop ?n ?ys, io_EOF)") (simp_all add: that)
    qed
    have "length (drop ?n ?ys) < length xs" using False by simp
    from less.hyps [OF this d(2)] obtain chunks tail where c: "drop ?n ?ys = framed chunks @ tail" "length tail < 4"
        "\<forall>s \<in> set chunks. opened C k s \<noteq> None" "q = concat (map (\<lambda>s. the (opened C k s)) chunks)" by blast
    let ?s = "take ?n ?ys"
    have s: "length ?s = ?n" using n(2) by simp
    have o: "opened C k ?s = Some d" unfolding opened_def s using n d(1) by simp
    have "be32 ?n = take 4 xs" using be32_from_be32 [of "take 4 xs"] False by simp
    moreover have "xs = take 4 xs @ ?s @ drop ?n ?ys" by (simp only: append_take_drop_id)
    ultimately have "xs = be32 ?n @ ?s @ framed chunks @ tail" using c(1) by simp
    moreover have "framed (?s # chunks) = be32 ?n @ ?s @ framed chunks" using s by (simp add: framed_def)
    ultimately have "xs = framed (?s # chunks) @ tail" by simp
    then show ?thesis
      using c(2-4) o d(3) by (intro exI [of _ "?s # chunks"] exI [of _ tail]) simp
  qed
qed

text \<open>
  C23: decryption of a complete file succeeds exactly when the file has the format: the header with
  its magic bytes and version, then chunks that all authenticate under the derived key and whose
  lengths are between the nonce's and the limit, then fewer than four bytes; and the result is the
  concatenation of what the chunks open to. The algorithm field of the header is not looked at.
\<close>

theorem decrypt_iff_format:
  assumes "key \<noteq> []"
  shows "Decrypt C (file, io_EOF) key = Inr text \<longleftrightarrow> backup_format C key file text"
proof
  assume d: "Decrypt C (file, io_EOF) key = Inr text"
  define head where "head = take 49 file"
  let ?k = "cl_derive C key (drop 17 head)"
  have l: "49 \<le> length file" using d assms by (auto simp: Decrypt_def readHeader_def read_full_def split: if_splits)
  then have rd: "read_full 49 (file, io_EOF) = ((head, None), (drop 49 file, io_EOF))"
    by (simp add: read_full_def head_def)
  have h: "take 4 head = headerMagic" "of_char (head ! 4) = headerVersion"
      "decrypt_loop C ?k (drop 49 file, io_EOF) = Inr text"
    using d assms by (simp_all add: Decrypt_def readHeader_def rd Let_def split: if_splits)
  obtain chunks tail where c: "drop 49 file = framed chunks @ tail" "length tail < 4"
      "\<forall>s \<in> set chunks. opened C ?k s \<noteq> None" "text = concat (map (\<lambda>s. the (opened C ?k s)) chunks)"
    using decrypt_loop_ok [OF h(3)] by blast
  have "file = head @ framed chunks @ tail" unfolding head_def using c(1) by (metis append_take_drop_id)
  moreover have "length head = 49" using l by (simp add: head_def)
  ultimately show "backup_format C key file text"
    unfolding backup_format_def using h(1,2) c(2-4) by blast
next
  assume "backup_format C key file text"
  then obtain head chunks tail where f: "file = head @ framed chunks @ tail" "length head = 49" "length tail < 4"
      "take 4 head = headerMagic" "of_char (head ! 4) = headerVersion"
      "\<forall>s \<in> set chunks. opened C (cl_derive C key (drop 17 head)) s \<noteq> None"
      "text = concat (map (\<lambda>s. the (opened C (cl_derive C key (drop 17 head)) s)) chunks)"
    unfolding backup_format_def by blast
  have "read_full 49 (file, io_EOF) = ((head, None), (framed chunks @ tail, io_EOF))"
    using f(1,2) by (simp add: read_full_def)
  then have "Decrypt C (file, io_EOF) key = decrypt_loop C (cl_derive C key (drop 17 head)) (framed chunks @ tail, io_EOF)"
    using assms f(4,5) by (simp add: Decrypt_def readHeader_def Let_def)
  then show "Decrypt C (file, io_EOF) key = Inr text"
    using decrypt_framed [OF f(6)] decrypt_short [OF f(3)] f(7) by simp
qed

theorem decrypt_iff_format_witness:
  "\<forall>t. \<not> backup_format sample_crypt ''secret'' ''not a backup'' t \<and>
    Decrypt sample_crypt (''not a backup'', io_EOF) ''secret'' \<noteq> Inr t"
proof (rule allI)
  fix t
  have "Decrypt sample_crypt (''not a backup'', io_EOF) ''secret'' \<noteq> Inr t"
    by (simp add: Decrypt_def readHeader_def read_full_def)
  then show "\<not> backup_format sample_crypt ''secret'' ''not a backup'' t \<and>
      Decrypt sample_crypt (''not a backup'', io_EOF) ''secret'' \<noteq> Inr t"
    using decrypt_iff_format [of "''secret''" sample_crypt "''not a backup''" t] by simp
qed

section \<open>What the format does not bind\<close>

text \<open>
  The chunks of a backup are authenticated one by one but neither their number nor their order
  is: for a text that is cut at a multiple of the chunk size the file without the second part
  decrypts without an error to the first part, also with up to three bytes left over, and the file
  with the two parts exchanged decrypts to the exchanged text.
\<close>

theorem backup_chunks_not_bound:
  assumes "crypt_ok C" "key \<noteq> []" "length xs = m * chunkSize" "length ys = n * chunkSize"
  shows "\<exists>h c d. Encrypt C (xs @ ys, io_EOF) key = Inr (h @ c @ d) \<and> (ys \<noteq> [] \<longrightarrow> d \<noteq> []) \<and>
    (\<forall>t. length t < 4 \<longrightarrow> Decrypt C (h @ c @ t, io_EOF) key = Inr xs) \<and>
    Decrypt C (h @ d @ c, io_EOF) key = Inr (ys @ xs)"
proof -
  obtain salt where e: "\<And>r. Encrypt C r key = prepend (writeHeader salt) (encrypt_loop C (cl_derive C key salt) 1 r)"
      and D: "\<And>body e. Decrypt C (writeHeader salt @ body, e) key = decrypt_loop C (cl_derive C key salt) (body, e)"
    using encrypt_file [OF assms(1,2)] by metis
  let ?k = "cl_derive C key salt"
  obtain c where c: "\<And>zs. \<exists>j. encrypt_loop C ?k 1 (xs @ zs, io_EOF) = prepend c (encrypt_loop C ?k j (zs, io_EOF))"
      "\<And>rest e. decrypt_loop C ?k (c @ rest, e) = prepend xs (decrypt_loop C ?k (rest, e))"
    using encrypt_blocks [OF assms(1,3), where k = ?k and i = 1] by blast
  obtain j where j: "encrypt_loop C ?k 1 (xs @ ys, io_EOF) = prepend c (encrypt_loop C ?k j (ys, io_EOF))"
    using c(1) by blast
  obtain d where d: "encrypt_loop C ?k j (ys, io_EOF) = Inr d" "length d = length ys + 32 * chunks_of (length ys)"
      "\<And>rest e. decrypt_loop C ?k (d @ rest, e) = prepend ys (decrypt_loop C ?k (rest, e))"
    using encrypt_then_decrypt [OF assms(1), of ?k j ys] by blast
  have "Encrypt C (xs @ ys, io_EOF) key = Inr (writeHeader salt @ c @ d)" by (simp only: e j d(1) prepend_simps)
  moreover have "Decrypt C (writeHeader salt @ c @ t, io_EOF) key = Inr xs" if "length t < 4" for t
    using decrypt_short [OF that] by (simp add: D c(2))
  moreover have "Decrypt C (writeHeader salt @ d @ c, io_EOF) key = Inr (ys @ xs)"
    using c(2) [of "[]" io_EOF] d(3) [of c io_EOF] decrypt_short [of "[]" C ?k] by (simp add: D)
  moreover have "ys \<noteq> [] \<longrightarrow> d \<noteq> []" using d(2) by auto
  ultimately show ?thesis by blast
qed

theorem backup_chunks_not_bound_witness:
  "\<exists>h c d. Encrypt sample_crypt (replicate chunkSize (CHR ''a'') @ replicate chunkSize (CHR ''b''), io_EOF) ''secret'' =
       Inr (h @ c @ d) \<and> d \<noteq> [] \<and> Decrypt sample_crypt (h @ c, io_EOF) ''secret'' = Inr (replicate chunkSize (CHR ''a''))"
proof -
  obtain h c d where f: "Encrypt sample_crypt (replicate chunkSize (CHR ''a'') @ replicate chunkSize (CHR ''b''), io_EOF) ''secret'' =
       Inr (h @ c @ d)" "replicate chunkSize (CHR ''b'') \<noteq> [] \<longrightarrow> d \<noteq> []"
      "\<forall>t. length t < 4 \<longrightarrow> Decrypt sample_crypt (h @ c @ t, io_EOF) ''secret'' = Inr (replicate chunkSize (CHR ''a''))"
    using backup_chunks_not_bound [OF sample_crypt_ok, of "''secret''" "replicate chunkSize (CHR ''a'')" 1
        "replicate chunkSize (CHR ''b'')" 1] by auto
  from f(3) have "Decrypt sample_crypt (h @ c @ [], io_EOF) ''secret'' = Inr (replicate chunkSize (CHR ''a''))"
    by (rule allE [where x = "[]"]) simp
  with f(1,2) show ?thesis by (intro exI [of _ h] exI [of _ c] exI [of _ d]) simp
qed

end
