(* ===== verification/Backup_Props.thy ===== *)
theory Backup_Props
  imports Backup_Runner Backup_Format
begin

text \<open>
  The properties of backup runs: what a completed run leaves on disk and in the log, what a failed
  one does, and when the scheduler fires.
\<close>

section \<open>Frames\<close>

lemma only_ticks_backup:
  assumes "only_ticks w w'"
  shows "backup_log w' = backup_log w" "backup_files w' = backup_files w" "backup_alerts w' = backup_alerts w"
    "consecutiveFailures w' = consecutiveFailures w" "objects w' = objects w"
    "no_faults w' = no_faults w"
proof -
  obtain n where "w' = w\<lparr>w_tick := n\<rparr>" using assms unfolding only_ticks_def by blast
  then show "backup_log w' = backup_log w" "backup_files w' = backup_files w" "backup_alerts w' = backup_alerts w"
    "consecutiveFailures w' = consecutiveFailures w" "objects w' = objects w" "no_faults w' = no_faults w"
    by (simp_all add: no_faults_def)
qed

lemma DumpPostgres_ticks: "DumpPostgres E w = (r, w') \<Longrightarrow> w' = tick w"
  by (auto simp: DumpPostgres_def defaultCommandRunner_def Let_def split: prod.splits option.splits)

lemma pg_call_ticks: "pg_call f w = (r, w') \<Longrightarrow> w' = tick w"
  by (simp add: pg_call_def)

lemma only_ticks_then_tick: "only_ticks w v \<Longrightarrow> only_ticks (tick v) w' \<Longrightarrow> only_ticks w w'"
  using only_ticks_trans only_ticks_from_tick by blast

lemma snapshot_objects_ticks: "snapshot_objects keys objs w = (r, w') \<Longrightarrow> only_ticks w w'"
proof (induction keys objs w arbitrary: r rule: snapshot_objects.induct)
  case (2 key keys objs w)
  then show ?case
    by (auto split: prod.splits sum.splits option.splits dest!: pg_call_ticks GetObject_ticks
        intro: only_ticks_trans [OF _ only_ticks_tick] only_ticks_then_tick)
qed simp

lemma ListObjects_ticks: "ListObjects keys pre w = (r, w') \<Longrightarrow> only_ticks w w'"
  by (auto simp: ListObjects_def split: prod.splits dest: scan_rows_ticks)

lemma snapshotMinIO_ticks: "snapshotMinIO E w = (r, w') \<Longrightarrow> only_ticks w w'"
  by (auto simp: snapshotMinIO_def Let_def split: prod.splits sum.splits if_splits
      dest!: ListObjects_ticks snapshot_objects_ticks intro: only_ticks_trans)

lemma storage_snapshot_ticks: "storage_snapshot E w = (r, w') \<Longrightarrow> only_ticks w w'"
  by (auto simp: storage_snapshot_def split: prod.splits sum.splits if_splits dest!: snapshotMinIO_ticks)

lemma archive_entries_ticks: "archive_entries es w = (r, w') \<Longrightarrow> only_ticks w w'"
proof (induction es w arbitrary: r rule: archive_entries.induct)
  case (2 name data es w)
  then show ?case by (auto split: prod.splits intro: only_ticks_from_tick)
qed simp

lemma createArchive_ticks: "createArchive E d m w = (r, w') \<Longrightarrow> only_ticks w w'"
  by (auto simp: createArchive_def split: prod.splits dest!: archive_entries_ticks intro: only_ticks_from_tick)

section \<open>The archive\<close>

lemma archive_entries_set:
  "archive_entries es w = (r, w') \<Longrightarrow> (name, d) \<in> set es \<Longrightarrow> \<exists>t. (name, t, d) \<in> set r"
proof (induction es w arbitrary: r rule: archive_entries.induct)
  case (2 name' data es w)
  then show ?case by (auto split: prod.splits)
qed simp

lemma snapshot_objects_set:
  "snapshot_objects keys objs w = (Inr m, w') \<Longrightarrow>
     (k, d) \<in> set m \<longleftrightarrow>
       (if k \<in> set keys then (\<exists>ct. objects w k = Some (d, ct)) else (k, d) \<in> set objs)"
proof (induction keys objs w arbitrary: m rule: snapshot_objects.induct)
  case (2 key keys objs w)
  then obtain data ct w1 w2 where g: "GetObject key w = (Inr (data, ct), w1)"
      "pg_call (wrapf (''read object '' @ key)) w1 = (None, w2)"
      "snapshot_objects keys (map_put key data objs) w2 = (Inr m, w')"
    by (auto split: prod.splits sum.splits option.splits)
  have o: "objects w2 = objects w"
    using only_ticks_backup(5) [OF GetObject_ticks [OF g(1)]] pg_call_ticks [OF g(2)] by simp
  have "objects w key = Some (data, ct)"
    by (rule minio.get_ok [OF g(1)])
  moreover have "(k, d) \<in> set m \<longleftrightarrow>
      (if k \<in> set keys then (\<exists>ct. objects w k = Some (d, ct)) else (k, d) \<in> set (map_put key data objs))"
    using "2.IH" [OF g(1) [symmetric] refl refl g(2) [symmetric] refl g(3)] o by simp
  ultimately show ?case by (auto simp: map_put_def)
qed simp

text \<open>
  What a run relies on: the cryptography of every run, that the text of a UUID decides the UUID and
  has no \<open>/\<close>, and that ranging over a map visits all its pairs.
\<close>

definition backup_env_ok :: "backup_env \<Rightarrow> bool" where
  "backup_env_ok E \<longleftrightarrow>
     (\<forall>n. crypt_ok (run_crypt E n)) \<and> inj (lib_uuid_string (be_lib E)) \<and>
     (\<forall>u. CHR ''/'' \<notin> set (lib_uuid_string (be_lib E) u)) \<and> (\<forall>n m. set (be_range E n m) = set m)"

lemma backup_path_inj:
  assumes "backup_env_ok E" "backup_path E i = backup_path E j"
  shows "i = j"
proof -
  have "plain_name (backup_name E u)" for u
    using assms(1) by (auto simp: plain_name_def backup_name_def backup_env_ok_def)
  then have "backup_name E i = backup_name E j"
    using assms(2) unfolding backup_path_def by (blast intro: filepath_Join_inj)
  then show ?thesis using assms(1) by (auto simp: backup_name_def backup_env_ok_def dest: injD)
qed

lemma decrypt_loop_rand: "decrypt_loop (C\<lparr>cl_rand := r\<rparr>) k s = decrypt_loop C k s"
proof (induction "length (fst s)" arbitrary: s rule: less_induct)
  case less
  obtain xs e where s: "s = (xs, e)" by (cases s)
  have "decrypt_loop (C\<lparr>cl_rand := r\<rparr>) k r2 = decrypt_loop C k r2" if "length (fst r2) < length xs" for r2
    using less [of r2] that s by simp
  then show ?case
    unfolding s by (subst (1 2) decrypt_loop.simps) (auto simp: read_full_def Let_def split: if_splits option.splits)
qed

lemma Decrypt_rand: "Decrypt (C\<lparr>cl_rand := r\<rparr>) s k = Decrypt C s k"
  by (simp add: Decrypt_def decrypt_loop_rand split: prod.splits sum.splits)

text \<open>A backup file of that text: decrypting it gives an archive whose first entry is the dump.\<close>

definition holds_backup :: "backup_env \<Rightarrow> string \<Rightarrow> string \<Rightarrow> (string \<times> time \<times> string) list \<Rightarrow> bool" where
  "holds_backup E s dump es \<longleftrightarrow>
     (\<exists>t. Decrypt (be_crypt E) (s, io_EOF) (be_key E) = Inr (be_targz E ((''database.dump'', t, dump) # es)))"

lemma encrypt_holds:
  assumes "backup_env_ok E" "Encrypt (run_crypt E n) (a, io_EOF) (be_key E) = Inr s"
  shows "Decrypt (be_crypt E) (s, io_EOF) (be_key E) = Inr a"
proof -
  have "be_key E \<noteq> []" using assms(2) by (auto simp: Encrypt_def)
  moreover have "crypt_ok (run_crypt E n)" using assms(1) by (simp add: backup_env_ok_def)
  ultimately have "Decrypt (run_crypt E n) (s, io_EOF) (be_key E) = Inr a"
    using backup_crypt_total [of "run_crypt E n" "be_key E" a] assms(2) by auto
  then show ?thesis by (simp add: run_crypt_def Decrypt_rand)
qed

section \<open>One run\<close>

text \<open>
  A run touches only the file of its own path, and the log only through the three statements.
\<close>

lemma writeToFile_frame:
  assumes "writeToFile E path data w = (r, w')"
  shows "backup_log w' = backup_log w" "consecutiveFailures w' = consecutiveFailures w"
    "backup_alerts w' = backup_alerts w" "objects w' = objects w" "p \<noteq> path \<Longrightarrow> backup_files w' p = backup_files w p"
    "r = (n, None) \<Longrightarrow> n = int (length data) \<and> backup_files w' = (backup_files w)(path \<mapsto> data)"
  using assms by (auto simp: writeToFile_def Let_def split: prod.splits option.splits dest!: pg_call_ticks)

lemma produce_backup_frame:
  assumes "produce_backup E i w = (r, w')"
  shows "backup_log w' = backup_log w" "consecutiveFailures w' = consecutiveFailures w"
    "backup_alerts w' = backup_alerts w" "objects w' = objects w"
    "p \<noteq> backup_path E i \<Longrightarrow> backup_files w' p = backup_files w p"
proof -
  obtain dr w1 where d: "DumpPostgres E w = (dr, w1)" by (cases "DumpPostgres E w")
  obtain sr w2 where s: "storage_snapshot E w1 = (sr, w2)" by (cases "storage_snapshot E w1")
  have w2: "only_ticks w w2"
    using storage_snapshot_ticks [OF s] DumpPostgres_ticks [OF d] only_ticks_from_tick by blast
  have "(\<exists>w3. only_ticks w w3 \<and> w' = w3) \<or>
      (\<exists>w3 data q. only_ticks w w3 \<and> writeToFile E (backup_path E i) data w3 = (q, w'))"
  proof (cases dr)
    case (Inl e)
    then show ?thesis using assms d DumpPostgres_ticks [OF d] by (auto simp: produce_backup_def)
  next
    case (Inr dump)
    obtain a w3 where c: "createArchive E dump sr w2 = (a, w3)" by (cases "createArchive E dump sr w2")
    have w3: "only_ticks w (tick w3)"
      using only_ticks_trans [OF w2 createArchive_ticks [OF c]] only_ticks_trans only_ticks_tick by blast
    show ?thesis
    proof (cases "Encrypt (run_crypt E (w_tick w3)) (a, io_EOF) (be_key E)")
      case (Inl e)
      then show ?thesis using assms d s c Inr w3 by (auto simp: produce_backup_def)
    next
      case (Inr enc)
      obtain q w4 where "writeToFile E (backup_path E i) enc (tick w3) = (q, w4)"
        by (cases "writeToFile E (backup_path E i) enc (tick w3)")
      then show ?thesis
        using assms d s c Inr \<open>dr = Inr dump\<close> w3
        by (intro disjI2) (auto simp: produce_backup_def split: prod.splits option.splits)
    qed
  qed
  then show "backup_log w' = backup_log w" "consecutiveFailures w' = consecutiveFailures w"
    "backup_alerts w' = backup_alerts w" "objects w' = objects w"
    "p \<noteq> backup_path E i \<Longrightarrow> backup_files w' p = backup_files w p"
    by (metis only_ticks_backup(1-5) writeToFile_frame(1-5))+
qed

definition complete_snapshot ::
  "backup_env \<Rightarrow> (string \<Rightarrow> (string \<times> string) option) \<Rightarrow> (string \<times> time \<times> string) list \<Rightarrow> bool" where
  \<comment> \<open>every object of the bucket is an entry under \<open>evidence\<close>\<close>
  "complete_snapshot E objs es \<longleftrightarrow>
     (\<forall>k d ct. objs k = Some (d, ct) \<longrightarrow> (\<exists>t. (filepath_Join [''evidence'', k], t, d) \<in> set es))"

text \<open>The server's listing has every key of the bucket.\<close>

definition lists_all :: "backup_env \<Rightarrow> (string \<Rightarrow> 'o option) \<Rightarrow> bool" where
  "lists_all E objs \<longleftrightarrow> (\<forall>n. dom objs \<subseteq> set (be_listing E n))"

lemma snapshotMinIO_set:
  assumes "snapshotMinIO E w = (Inr m, w')" "lists_all E (objects w)" "objects w k = Some (d, ct)"
  shows "(k, d) \<in> set m"
proof -
  obtain keys w1 where l: "ListObjects (be_listing E (w_tick w)) [] w = (Inr keys, w1)"
    using assms(1) by (auto simp: snapshotMinIO_def split: prod.splits sum.splits)
  have k: "k \<in> set (be_listing E (w_tick w))" using assms(2,3) unfolding lists_all_def by blast
  have "k \<in> set keys"
    using l k assms(3) by (auto simp: ListObjects_def split: prod.splits dest!: scan_rows_ok)
  moreover have "objects w1 = objects w" using only_ticks_backup(5) [OF ListObjects_ticks [OF l]] .
  moreover obtain objs where "snapshot_objects keys objs w1 = (Inr m, w')"
    using assms(1) l \<open>k \<in> set keys\<close> by (auto simp: snapshotMinIO_def Let_def split: if_splits)
  ultimately show ?thesis using snapshot_objects_set [of keys objs w1 m w' k d] assms(3) by simp
qed

lemma snapshot_objects_succeeds:
  "no_faults w \<Longrightarrow> \<forall>k \<in> set keys. objects w k \<noteq> None \<Longrightarrow> \<exists>m. fst (snapshot_objects keys objs w) = Inr m"
proof (induction keys objs w rule: snapshot_objects.induct)
  case (2 key keys objs w)
  obtain d ct where o: "objects w key = Some (d, ct)" using "2.prems" by auto
  have g: "GetObject key w = (Inr (d, ct), tick (tick w))"
    using "2.prems"(1) o by (simp add: GetObject_def pg_call_no_faults)
  have "\<exists>m. fst (snapshot_objects keys (map_put key d objs) (tick (tick (tick w)))) = Inr m"
    using "2.IH" [OF g [symmetric] refl refl, of None "tick (tick (tick w))"] "2.prems"
    by (simp add: pg_call_no_faults)
  then show ?case using g "2.prems"(1) by (simp add: pg_call_no_faults)
qed simp

lemma snapshot_succeeds:
  assumes "no_faults w"
  shows "\<exists>m. fst (snapshotMinIO E w) = Inr m"
proof -
  obtain r w1 where l: "ListObjects (be_listing E (w_tick w)) [] w = (r, w1)"
    by (cases "ListObjects (be_listing E (w_tick w)) [] w")
  then obtain sr where "r = sr" "scan_rows (wrapf ''list objects'')
      (filter (\<lambda>k. objects w k \<noteq> None) (be_listing E (w_tick w))) w = (sr, w1)"
    by (auto simp: ListObjects_def split: prod.splits)
  then have keys: "r = Inr (filter (\<lambda>k. objects w k \<noteq> None) (be_listing E (w_tick w)))"
    using scan_rows_no_faults [OF assms] by (metis fst_conv)
  have w1: "no_faults w1" "objects w1 = objects w"
    using only_ticks_backup(5,6) [OF ListObjects_ticks [OF l]] assms by simp_all
  have "\<exists>m. fst (snapshot_objects (filter (\<lambda>k. objects w k \<noteq> None) (be_listing E (w_tick w))) objs w1) = Inr m" for objs
    using w1 by (intro snapshot_objects_succeeds) auto
  then show ?thesis using l keys by (auto simp: snapshotMinIO_def Let_def)
qed

lemma createArchive_entries:
  assumes "backup_env_ok E" "createArchive E dump m w = (a, w')"
  obtains t es where "a = be_targz E ((''database.dump'', t, dump) # es)"
    "\<And>k d. (k, d) \<in> set m \<Longrightarrow> \<exists>t. (filepath_Join [''evidence'', k], t, d) \<in> set es"
    "m = [] \<Longrightarrow> es = []"
proof -
  let ?m = "map (\<lambda>(key, data). (filepath_Join [''evidence'', key], data)) (be_range E (w_tick w) m)"
  obtain es w1 where e: "archive_entries ?m (tick w) = (es, w1)" by (cases "archive_entries ?m (tick w)")
  have r: "set (be_range E (w_tick w) m) = set m" using assms(1) by (simp add: backup_env_ok_def)
  show ?thesis
  proof (rule that [of "now w" es])
    show "a = be_targz E ((''database.dump'', now w, dump) # es)"
      using assms(2) e by (simp add: createArchive_def)
    show "\<exists>t. (filepath_Join [''evidence'', k], t, d) \<in> set es" if "(k, d) \<in> set m" for k d
    proof (rule archive_entries_set [OF e])
      show "(filepath_Join [''evidence'', k], d) \<in> set ?m" using that r by force
    qed
    show "es = []" if "m = []"
      using e r that by simp
  qed
qed

lemma produce_backup_ok:
  assumes ok: "backup_env_ok E" and p: "produce_backup E i w = (Inr n, w')"
  obtains s dump es where "backup_files w' = (backup_files w)(backup_path E i \<mapsto> s)" "n = int (length s)"
    "holds_backup E s dump es" "fst (DumpPostgres E w) = Inr dump"
    "lists_all E (objects w) \<Longrightarrow> es = [] \<or> complete_snapshot E (objects w) es"
    "lists_all E (objects w) \<Longrightarrow> no_faults w \<Longrightarrow> be_storage E \<Longrightarrow> complete_snapshot E (objects w) es"
proof -
  obtain dump w1 where d: "DumpPostgres E w = (Inr dump, w1)"
    using p by (auto simp: produce_backup_def split: prod.splits sum.splits)
  obtain m w2 where m: "storage_snapshot E w1 = (m, w2)" by (cases "storage_snapshot E w1")
  obtain a w3 where c: "createArchive E dump m w2 = (a, w3)" by (cases "createArchive E dump m w2")
  obtain enc where e: "Encrypt (run_crypt E (w_tick w3)) (a, io_EOF) (be_key E) = Inr enc"
    using p d m c by (auto simp: produce_backup_def split: sum.splits)
  have f: "writeToFile E (backup_path E i) enc (tick w3) = ((n, None), w')"
    using p d m c e by (auto simp: produce_backup_def split: prod.splits option.splits)
  obtain t es where es: "a = be_targz E ((''database.dump'', t, dump) # es)"
      "\<And>k d. (k, d) \<in> set m \<Longrightarrow> \<exists>t. (filepath_Join [''evidence'', k], t, d) \<in> set es" "m = [] \<Longrightarrow> es = []"
    using createArchive_entries [OF ok c] by metis
  have w1: "w1 = tick w" using DumpPostgres_ticks [OF d] .
  have "only_ticks w w2" using storage_snapshot_ticks [OF m] w1 only_ticks_from_tick by blast
  then have w3: "only_ticks w w3" using only_ticks_trans createArchive_ticks [OF c] by blast
  have n: "n = int (length enc)" "backup_files w' = (backup_files w)(backup_path E i \<mapsto> enc)"
    using writeToFile_frame(6) [OF f refl] only_ticks_backup(2) [OF w3] by auto
  have full: "complete_snapshot E (objects w) es"
    if l: "lists_all E (objects w)" and s: "snapshotMinIO E w1 = (Inr m, w2)"
  proof -
    have "(k, d) \<in> set m" if "objects w k = Some (d, ct)" for k d ct
      using snapshotMinIO_set [OF s, of k d ct] l that w1 by simp
    then show ?thesis unfolding complete_snapshot_def using es(2) by blast
  qed
  show ?thesis
  proof (rule that [OF n(2,1)])
    show "holds_backup E enc dump es" using encrypt_holds [OF ok e] es(1) by (auto simp: holds_backup_def)
    show "fst (DumpPostgres E w) = Inr dump" using d by simp
    show "es = [] \<or> complete_snapshot E (objects w) es" if l: "lists_all E (objects w)"
    proof (cases "m = []")
      case True
      then show ?thesis using es(3) by simp
    next
      case False
      then have "snapshotMinIO E w1 = (Inr m, w2)"
        using m by (auto simp: storage_snapshot_def split: if_splits prod.splits sum.splits)
      then show ?thesis using full l by blast
    qed
    show "complete_snapshot E (objects w) es"
      if l: "lists_all E (objects w)" and nf: "no_faults w" and st: "be_storage E"
    proof -
      obtain m' where "fst (snapshotMinIO E w1) = Inr m'"
        using snapshot_succeeds [of w1 E] nf w1 by auto
      then have "snapshotMinIO E w1 = (Inr m, w2)"
        using m st by (auto simp: storage_snapshot_def split: prod.splits)
      then show ?thesis using full l by blast
    qed
  qed
qed

lemma insertLog_effect:
  assumes "insertLog E i t w = (r, w')"
  shows "backup_files w' = backup_files w" "objects w' = objects w" "consecutiveFailures w' = consecutiveFailures w"
    "backup_alerts w' = backup_alerts w" "w_fault w' = w_fault w"
    "r = Some e \<Longrightarrow> backup_log w' = backup_log w"
    "r = None \<Longrightarrow> i \<notin> bk_ID ` set (backup_log w) \<and> (\<exists>b. bk_ID b = i \<and> bk_Status b = ''started'' \<and>
       bk_SizeBytes b = None \<and> backup_log w' = backup_log w @ [b])"
  using assms by (auto simp: insertLog_def split: option.splits if_splits)

text \<open>How a run ends: refused at once, failed after the log row, or completed.\<close>

lemma RunBackup_cases:
  assumes "RunBackup E w = ((res, err), w')"
  obtains (refused) e where "insertLog E (new_uuid w) (now w) (tick w) = (Some e, w')"
      "err = Some (wrapf ''insert backup log'' e)" "bres_Status res = ''started''" "bres_ErrorMessage res = []"
  | (failed) e w1 w2 r0 where "insertLog E (new_uuid w) (now w) (tick w) = (None, w1)"
      "produce_backup E (new_uuid w) w1 = (Inl e, w2)" "failBackup E (new_uuid w) r0 e w2 = ((res, err), w')"
  | (completed) n w1 w2 t where "insertLog E (new_uuid w) (now w) (tick w) = (None, w1)"
      "produce_backup E (new_uuid w) w1 = (Inr n, w2)" "err = None" "bres_ID res = new_uuid w" "bres_StartedAt res = now w"
      "bres_Status res = ''completed''" "bres_TotalSize res = n"
      "w' = (snd (updateLogCompleted E (new_uuid w) t 1 n (tick w2)))\<lparr>consecutiveFailures := 0\<rparr>"
  using assms by (auto simp: RunBackup_def Let_def split: prod.splits option.splits sum.splits)

lemma failBackup_effect:
  assumes "failBackup E i r0 e w = ((res, err), w')"
  shows "err = Some e" "bres_Status res = ''failed''" "bres_ErrorMessage res = err_text e"
    "consecutiveFailures w' = Suc (consecutiveFailures w)"
    "backup_alerts w' = (if be_notifier E then [alert_error E i (Suc (consecutiveFailures w)) e] else []) @ backup_alerts w"
    "backup_files w' = backup_files w" "objects w' = objects w"
    "\<exists>t. backup_log w' = backup_log w \<or>
       backup_log w' = update_rows i (\<lambda>b. b\<lparr>bk_CompletedAt := Some t, bk_Status := ''failed'', bk_ErrorMessage := Some (err_text e)\<rparr>) (backup_log w)"
  using assms by (auto simp: failBackup_def Let_def updateLogFailed_def NotifyBackupFailed_def split: option.splits)

lemma updateLogCompleted_effect:
  assumes "w' = snd (updateLogCompleted E i t c n w)"
  shows "backup_files w' = backup_files w" "objects w' = objects w" "backup_alerts w' = backup_alerts w"
    "consecutiveFailures w' = consecutiveFailures w"
    "\<exists>t. backup_log w' = backup_log w \<or>
       backup_log w' = update_rows i (\<lambda>b. b\<lparr>bk_CompletedAt := Some t, bk_Status := ''completed'', bk_SizeBytes := Some n\<rparr>) (backup_log w)"
  using assms by (auto simp: updateLogCompleted_def split: option.splits)

lemma writeToFile_succeeds:
  "no_faults w \<Longrightarrow> \<exists>n w'. writeToFile E path data w = ((n, None), w') \<and> no_faults w'"
  by (simp add: writeToFile_def Let_def pg_call_no_faults fault_none no_faults_def)

lemma DumpPostgres_succeeds:
  assumes "\<And>n name args env. fst (be_exec E n name args env) = None"
  shows "\<exists>d. DumpPostgres E w = (Inr d, tick w)"
proof -
  have "\<exists>d. defaultCommandRunner E name args env w = (Inr d, tick w)" for name args env
    using assms [of "w_tick w" name args "be_environ E @ env"]
    by (cases "be_exec E (w_tick w) name args (be_environ E @ env)") (auto simp: defaultCommandRunner_def)
  then show ?thesis by (simp add: DumpPostgres_def Let_def)
qed

lemma produce_succeeds:
  assumes ok: "backup_env_ok E" and nf: "no_faults w" and key: "be_key E \<noteq> []"
    and dump: "\<And>n name args env. fst (be_exec E n name args env) = None"
  shows "\<exists>n w'. produce_backup E i w = (Inr n, w') \<and> no_faults w'"
proof -
  obtain d where d: "DumpPostgres E w = (Inr d, tick w)"
    using DumpPostgres_succeeds [OF dump] by blast
  obtain m w2 where m: "storage_snapshot E (tick w) = (m, w2)" by (cases "storage_snapshot E (tick w)")
  obtain a w3 where c: "createArchive E d m w2 = (a, w3)" by (cases "createArchive E d m w2")
  have w3: "no_faults w3"
    using only_ticks_backup(6) [OF storage_snapshot_ticks [OF m]] only_ticks_backup(6) [OF createArchive_ticks [OF c]] nf by simp
  have "crypt_ok (run_crypt E (w_tick w3))" using ok by (simp add: backup_env_ok_def)
  then obtain enc where e: "Encrypt (run_crypt E (w_tick w3)) (a, io_EOF) (be_key E) = Inr enc"
    using backup_crypt_total [of _ "be_key E" a] key by blast
  obtain n w4 where "writeToFile E (backup_path E i) enc (tick w3) = ((n, None), w4)" "no_faults w4"
    using writeToFile_succeeds [of "tick w3" E "backup_path E i" enc] w3 by auto
  then show ?thesis using d m c e by (simp add: produce_backup_def)
qed

section \<open>The log tells the truth\<close>

text \<open>
  The runs of the program as far as backups are concerned: backup runs, and steps of everything else,
  which leave the log and the files alone.
\<close>

inductive backup_run :: "backup_env \<Rightarrow> 'a backup_db_scheme \<Rightarrow> 'a backup_db_scheme \<Rightarrow> bool" for E w0 where
  backup_start: "backup_run E w0 w0"
| backup_once: "backup_run E w0 w \<Longrightarrow> RunBackup E w = (r, w') \<Longrightarrow> backup_run E w0 w'"
| backup_other: "backup_run E w0 w \<Longrightarrow> backup_log w' = backup_log w \<Longrightarrow> backup_files w' = backup_files w \<Longrightarrow>
    backup_run E w0 w'"

definition row_backed :: "backup_env \<Rightarrow> (string \<Rightarrow> string option) \<Rightarrow> backup_row \<Rightarrow> bool" where
  "row_backed E files b \<longleftrightarrow> (bk_Status b = ''completed'' \<longrightarrow>
     (\<exists>s dump es. files (backup_path E (bk_ID b)) = Some s \<and> bk_SizeBytes b = Some (int (length s)) \<and> holds_backup E s dump es))"

definition backup_inv :: "backup_env \<Rightarrow> 'a backup_db_scheme \<Rightarrow> bool" where
  "backup_inv E w \<longleftrightarrow> distinct (map bk_ID (backup_log w)) \<and> (\<forall>b \<in> set (backup_log w). row_backed E (backup_files w) b)"

lemma update_rows_ids [simp]: "(\<And>b. bk_ID (f b) = bk_ID b) \<Longrightarrow> map bk_ID (update_rows i f rows) = map bk_ID rows"
  by (induction rows) (auto simp: update_rows_def)

lemma update_rows_same: "i \<notin> bk_ID ` set rows \<Longrightarrow> update_rows i f rows = rows"
  by (induction rows) (auto simp: update_rows_def)

lemma update_rows_append: "update_rows i f (xs @ ys) = update_rows i f xs @ update_rows i f ys"
  by (simp add: update_rows_def)

lemma update_rows_one [simp]: "update_rows i f [b] = [if bk_ID b = i then f b else b]"
  by (simp add: update_rows_def)

lemma inv_new_row:
  assumes ok: "backup_env_ok E" and inv: "backup_inv E w" and new: "i \<notin> bk_ID ` set (backup_log w)"
    and log: "backup_log w' = backup_log w @ [b]" "bk_ID b = i" "row_backed E (backup_files w') b"
    and files: "\<And>p. p \<noteq> backup_path E i \<Longrightarrow> backup_files w' p = backup_files w p"
  shows "backup_inv E w'"
proof -
  have "row_backed E (backup_files w') r" if r: "r \<in> set (backup_log w)" for r
  proof -
    have "bk_ID r \<noteq> i" using new r by auto
    then have "backup_files w' (backup_path E (bk_ID r)) = backup_files w (backup_path E (bk_ID r))"
      using files backup_path_inj [OF ok] by blast
    then show ?thesis using inv r by (simp add: backup_inv_def row_backed_def)
  qed
  then show ?thesis using inv new log by (auto simp: backup_inv_def)
qed

lemma RunBackup_inv:
  assumes ok: "backup_env_ok E" and inv: "backup_inv E w" and run: "RunBackup E w = ((res, err), w')"
  shows "backup_inv E w'"
  using run
proof (cases rule: RunBackup_cases)
  case (refused e)
  then show ?thesis using inv insertLog_effect(1,6) [OF refused(1)] by (simp add: backup_inv_def)
next
  case (failed e w1 w2 r0)
  obtain b where b: "new_uuid w \<notin> bk_ID ` set (backup_log w)" "bk_ID b = new_uuid w" "bk_Status b = ''started''"
      "backup_log w1 = backup_log w @ [b]"
    using insertLog_effect(7) [OF failed(1) refl] by auto
  have files: "backup_files w' p = backup_files w p" if "p \<noteq> backup_path E (new_uuid w)" for p
    using failBackup_effect(6) [OF failed(3)] produce_backup_frame(5) [OF failed(2) that]
      insertLog_effect(1) [OF failed(1)] by simp
  have log: "backup_log w2 = backup_log w @ [b]" using produce_backup_frame(1) [OF failed(2)] b(4) by simp
  obtain b' where "backup_log w' = backup_log w @ [b']" "bk_ID b' = new_uuid w" "bk_Status b' \<noteq> ''completed''"
    using failBackup_effect(8) [OF failed(3)] b log by (auto simp: update_rows_append update_rows_same)
  then show ?thesis
    using inv_new_row [OF ok inv b(1), where w' = w' and b = b'] files by (simp add: row_backed_def)
next
  case (completed n w1 w2 t)
  obtain b where b: "new_uuid w \<notin> bk_ID ` set (backup_log w)" "bk_ID b = new_uuid w" "bk_Status b = ''started''"
      "backup_log w1 = backup_log w @ [b]"
    using insertLog_effect(7) [OF completed(1) refl] by auto
  obtain s dump es where p: "backup_files w2 = (backup_files w1)(backup_path E (new_uuid w) \<mapsto> s)" "n = int (length s)"
      "holds_backup E s dump es"
    using produce_backup_ok [OF ok completed(2)] by metis
  define w3 where "w3 = snd (updateLogCompleted E (new_uuid w) t 1 n (tick w2))"
  note u = updateLogCompleted_effect [OF w3_def]
  have files: "backup_files w' = (backup_files w)(backup_path E (new_uuid w) \<mapsto> s)"
    using completed(8) u(1) p(1) insertLog_effect(1) [OF completed(1)] by (simp add: w3_def)
  have log: "backup_log (tick w2) = backup_log w @ [b]" using produce_backup_frame(1) [OF completed(2)] b(4) by simp
  obtain b' where "backup_log w3 = backup_log w @ [b']" "bk_ID b' = new_uuid w"
      "bk_Status b' = ''completed'' \<longrightarrow> bk_SizeBytes b' = Some n"
    using u(5) b(1-3) log by (auto simp: update_rows_append update_rows_same)
  then show ?thesis
    using inv_new_row [OF ok inv b(1), where w' = w' and b = b'] files p completed(8)
    by (auto simp: row_backed_def w3_def)
qed

lemma backup_run_inv:
  assumes "backup_run E w0 w" "backup_env_ok E" "backup_log w0 = []"
  shows "backup_inv E w"
  using assms(1)
proof induction
  case backup_start
  then show ?case using assms(3) by (simp add: backup_inv_def)
next
  case (backup_once w r w')
  then show ?case using RunBackup_inv [OF assms(2)] by (metis prod.collapse)
next
  case (backup_other w w')
  then show ?case by (simp add: backup_inv_def)
qed

lemma verify_quiet:
  assumes "no_faults w"
  shows "fst (VerifyBackup E i w) = None \<longleftrightarrow>
    (\<exists>b s. find (\<lambda>b. bk_ID b = i) (backup_log w) = Some b \<and> bk_Status b = ''completed'' \<and>
       backup_files w (backup_path E i) = Some s \<and> (\<forall>n. bk_SizeBytes b = Some n \<longrightarrow> int (length s) = n))"
  using assms by (auto simp: VerifyBackup_def Let_def pg_call_no_faults split: option.splits)

lemma find_row_append: "find P (xs @ ys) = (case find P xs of None \<Rightarrow> find P ys | Some b \<Rightarrow> Some b)"
  by (induction xs) auto

lemma find_row:
  assumes "distinct (map bk_ID rows)" "b \<in> set rows"
  shows "find (\<lambda>r. bk_ID r = bk_ID b) rows = Some b"
  using assms by (induction rows) auto

section \<open>A sample deployment\<close>

definition sample_backup_env :: backup_env where
  "sample_backup_env =
     \<lparr>be_lib = sample_lib, be_crypt = sample_crypt, be_rand = (\<lambda>n. cl_rand sample_crypt),
      be_conn = \<lparr>cc_Host = ''db'', cc_Port = 5432, cc_User = ''vk'', cc_Database = ''vk'', cc_Password = ''pw''\<rparr>,
      be_environ = [], be_exec = (\<lambda>n name args env. (None, ''DUMP'', [])), be_key = ''secret'',
      be_destination = ''/backups'', be_storage = True, be_notifier = True,
      be_targz = (\<lambda>es. concat (map (\<lambda>(name, t, d). name @ d) es)), be_range = (\<lambda>n m. m),
      be_listing = (\<lambda>n. [''k'']), be_partial = (\<lambda>n. 0)\<rparr>"

lemma sample_backup_env_ok: "backup_env_ok sample_backup_env"
proof -
  have "crypt_ok (run_crypt sample_backup_env n)" for n
    using sample_crypt_ok by (simp add: run_crypt_def sample_backup_env_def crypt_ok_def)
  moreover have "inj (lib_uuid_string sample_lib)"
    by (rule injI) (auto simp: sample_lib_def dest!: nat_digits_inj intro: unsigned_word_eqI)
  moreover have "CHR ''/'' \<notin> set (lib_uuid_string sample_lib u)" for u
    using nat_digits_chars [of "CHR ''/''"] by (auto simp: sample_lib_def)
  ultimately show ?thesis by (simp add: backup_env_ok_def sample_backup_env_def)
qed

definition sample_backup_db :: "(nat \<Rightarrow> string option) \<Rightarrow> nat \<Rightarrow> backup_db" where
  "sample_backup_db faults failures =
     \<lparr>w_tick = 0, w_fault = faults, w_now = int, w_uuid = word_of_nat, custody_log = [], cases_table = [], case_roles = [],
      evidence_items = [], evidence_counter = (\<lambda>c. 0), disclosures = [], integrity_warnings = [], session_locks = [],
      pool_conn = (\<lambda>n. 0), objects = [''k'' \<mapsto> (''data'', ''text/plain'')], search_docs = [], thumb_jobs = [],
      backup_log = [], backup_files = (\<lambda>p. None), consecutiveFailures = failures, backup_alerts = []\<rparr>"

lemma sample_backup_db_sel [simp]:
  "w_tick (sample_backup_db fs n) = 0" "w_fault (sample_backup_db fs n) = fs" "backup_log (sample_backup_db fs n) = []"
  "objects (sample_backup_db fs n) = [''k'' \<mapsto> (''data'', ''text/plain'')]"
  "consecutiveFailures (sample_backup_db fs n) = n" "backup_alerts (sample_backup_db fs n) = []"
  "w_uuid (sample_backup_db fs n) = word_of_nat"
  by (simp_all add: sample_backup_db_def)

section \<open>Properties\<close>

lemma completed_run_calm:
  assumes "backup_env_ok E" "RunBackup E w = ((res, None), w')"
  shows "\<exists>s dump es. bres_Status res = ''completed'' \<and>
    backup_files w' = (backup_files w)(backup_path E (bres_ID res) \<mapsto> s) \<and> bres_TotalSize res = int (length s) \<and>
    holds_backup E s dump es \<and>
    fst (DumpPostgres E (snd (insertLog E (bres_ID res) (bres_StartedAt res) (tick w)))) = Inr dump \<and>
    (lists_all E (objects w) \<longrightarrow> es = [] \<or> complete_snapshot E (objects w) es) \<and>
    (lists_all E (objects w) \<and> no_faults w \<and> be_storage E \<longrightarrow> complete_snapshot E (objects w) es) \<and> consecutiveFailures w' = 0"
  using assms(2)
proof (cases rule: RunBackup_cases)
  case (failed e w1 w2 r0)
  then show ?thesis using failBackup_effect(1) [OF failed(3)] by simp
next
  case (completed n w1 w2 t)
  obtain s dump es where p: "backup_files w2 = (backup_files w1)(backup_path E (new_uuid w) \<mapsto> s)" "n = int (length s)"
      "holds_backup E s dump es" "fst (DumpPostgres E w1) = Inr dump"
      "lists_all E (objects w1) \<Longrightarrow> es = [] \<or> complete_snapshot E (objects w1) es"
      "lists_all E (objects w1) \<Longrightarrow> no_faults w1 \<Longrightarrow> be_storage E \<Longrightarrow> complete_snapshot E (objects w1) es"
    using produce_backup_ok [OF assms(1) completed(2)] by metis
  define w3 where "w3 = snd (updateLogCompleted E (new_uuid w) t 1 n (tick w2))"
  have files: "backup_files w' = (backup_files w)(backup_path E (new_uuid w) \<mapsto> s)"
    using completed(8) updateLogCompleted_effect(1) [OF w3_def] p(1) insertLog_effect(1) [OF completed(1)]
    by (simp add: w3_def)
  have o: "objects w1 = objects w" using insertLog_effect(2) [OF completed(1)] by simp
  have "no_faults w \<Longrightarrow> no_faults w1" using insertLog_effect(5) [OF completed(1)] by (simp add: no_faults_def)
  moreover have "consecutiveFailures w' = 0" using completed(8) by simp
  ultimately show ?thesis
    using completed(1,4-7) files p(2-6) unfolding o
    by (intro exI [of _ s] exI [of _ dump] exI [of _ es]) simp
qed simp

lemma completed_run:
  assumes "backup_env_ok E" "RunBackup E w = ((res, None), w')"
  shows "\<exists>s dump es. bres_Status res = ''completed'' \<and>
    backup_files w' = (backup_files w)(backup_path E (bres_ID res) \<mapsto> s) \<and> bres_TotalSize res = int (length s) \<and>
    holds_backup E s dump es \<and>
    fst (DumpPostgres E (snd (insertLog E (bres_ID res) (bres_StartedAt res) (tick w)))) = Inr dump \<and>
    (lists_all E (objects w) \<longrightarrow> es = [] \<or> complete_snapshot E (objects w) es) \<and> consecutiveFailures w' = 0"
  using completed_run_calm [OF assms] by blast

text \<open>
  C24: A backup run that reports success has written its file, which decrypts with the deployment's key
  to an archive that starts with the dump of the database; it changed no other file, reports the size of the file
  and resets the count of failures. The archive has every object of the evidence bucket, or none at all:
  the latter also when the snapshot failed, which the result does not tell.
\<close>

theorem completed_backup_restores:
  assumes "backup_env_ok E" "RunBackup E w = ((res, None), w')"
  shows "\<exists>s dump es. bres_Status res = ''completed'' \<and>
    backup_files w' = (backup_files w)(backup_path E (bres_ID res) \<mapsto> s) \<and> bres_TotalSize res = int (length s) \<and>
    holds_backup E s dump es \<and>
    fst (DumpPostgres E (snd (insertLog E (bres_ID res) (bres_StartedAt res) (tick w)))) = Inr dump \<and>
    (lists_all E (objects w) \<longrightarrow> es = [] \<or> complete_snapshot E (objects w) es) \<and> consecutiveFailures w' = 0"
  by (rule completed_run [OF assms])

lemma quiet_backup:
  assumes "backup_env_ok E" "no_faults w" "be_key E \<noteq> []" "be_storage E"
    and "new_uuid w \<notin> bk_ID ` set (backup_log w)" "\<And>n name args env. fst (be_exec E n name args env) = None"
    and "lists_all E (objects w)"
  shows "\<exists>res w' s dump es. RunBackup E w = ((res, None), w') \<and> backup_files w' (backup_path E (bres_ID res)) = Some s \<and>
    holds_backup E s dump es \<and> complete_snapshot E (objects w) es \<and> fst (VerifyBackup E (bres_ID res) w') = None \<and> no_faults w'"
proof -
  let ?i = "new_uuid w"
  obtain w1 where i: "insertLog E ?i (now w) (tick w) = (None, w1)"
    using assms(2,5) by (auto simp: insertLog_def fault_none)
  obtain b where b: "bk_ID b = ?i" "backup_log w1 = backup_log w @ [b]" using insertLog_effect(7) [OF i refl] by auto
  have w1: "no_faults w1" "objects w1 = objects w" using insertLog_effect(2,5) [OF i] assms(2) by (simp_all add: no_faults_def)
  obtain n w2 where p: "produce_backup E ?i w1 = (Inr n, w2)" "no_faults w2"
    using produce_succeeds [OF assms(1) w1(1) assms(3,6)] by blast
  obtain s dump es where q: "backup_files w2 = (backup_files w1)(backup_path E ?i \<mapsto> s)" "n = int (length s)"
      "holds_backup E s dump es" "complete_snapshot E (objects w) es"
    using produce_backup_ok [OF assms(1) p(1)] assms(4,7) w1 by metis
  obtain res w' where run: "RunBackup E w = ((res, None), w')" "bres_ID res = ?i"
      "w' = (snd (updateLogCompleted E ?i (now w2) 1 n (tick w2)))\<lparr>consecutiveFailures := 0\<rparr>"
    using i p(1) by (simp add: RunBackup_def Let_def)
  have log: "backup_log w2 = backup_log w @ [b]" using produce_backup_frame(1) [OF p(1)] b(2) by simp
  have w': "no_faults w'" "backup_files w' = backup_files w2" "backup_log w' = backup_log w @
      [b\<lparr>bk_CompletedAt := Some (lib_col_time (be_lib E) (now w2)), bk_Status := ''completed'', bk_SizeBytes := Some n\<rparr>]"
    using run(3) p(2) log b(1) assms(5)
    by (simp_all add: updateLogCompleted_def fault_none no_faults_def update_rows_append update_rows_same)
  have "find (\<lambda>b. bk_ID b = ?i) (backup_log w) = None"
    using assms(5) unfolding find_None_iff by force
  then have "fst (VerifyBackup E ?i w') = None"
    unfolding verify_quiet [OF w'(1)] w'(2,3) using b(1) q(1,2) by (simp add: find_row_append)
  then have "RunBackup E w = ((res, None), w') \<and> backup_files w' (backup_path E (bres_ID res)) = Some s \<and>
      holds_backup E s dump es \<and> complete_snapshot E (objects w) es \<and> fst (VerifyBackup E (bres_ID res) w') = None \<and> no_faults w'"
    using run q w'(1,2) by simp
  then show ?thesis by blast
qed

text \<open>
  C9: without faults, with a key, a fresh identifier and a \<open>pg_dump\<close> that succeeds, a backup run
  succeeds; its archive has every object of the evidence bucket, and checking the backup right after it succeeds.
\<close>

theorem backup_succeeds:
  assumes "backup_env_ok E" "no_faults w" "be_key E \<noteq> []" "be_storage E"
    and "new_uuid w \<notin> bk_ID ` set (backup_log w)" "\<And>n name args env. fst (be_exec E n name args env) = None"
    and "lists_all E (objects w)"
  shows "\<exists>res w' s dump es. RunBackup E w = ((res, None), w') \<and> backup_files w' (backup_path E (bres_ID res)) = Some s \<and>
    holds_backup E s dump es \<and> complete_snapshot E (objects w) es \<and> fst (VerifyBackup E (bres_ID res) w') = None"
  using quiet_backup [OF assms(1-5) _ assms(7)] assms(6) by blast

lemma sample_quiet_db: "no_faults (sample_backup_db (\<lambda>n. None) n)"
  by (simp add: no_faults_def)

lemma sample_backup_lists: "lists_all sample_backup_env (objects (sample_backup_db fs n))"
  by (simp add: lists_all_def sample_backup_env_def)

theorem backup_succeeds_witness:
  "\<exists>res w' s dump es. RunBackup sample_backup_env (sample_backup_db (\<lambda>n. None) 0) = ((res, None), w') \<and>
     backup_files w' (backup_path sample_backup_env (bres_ID res)) = Some s \<and> holds_backup sample_backup_env s dump es \<and>
     complete_snapshot sample_backup_env [''k'' \<mapsto> (''data'', ''text/plain'')] es \<and>
     fst (VerifyBackup sample_backup_env (bres_ID res) w') = None"
  using backup_succeeds [OF sample_backup_env_ok sample_quiet_db [of 0] _ _ _ _ sample_backup_lists]
  by (simp add: sample_backup_env_def)

lemma sample_verified:
  obtains res w' where "RunBackup sample_backup_env (sample_backup_db (\<lambda>n. None) 0) = ((res, None), w')"
    "fst (VerifyBackup sample_backup_env (bres_ID res) w') = None" "no_faults w'"
proof -
  have "be_key sample_backup_env \<noteq> []" "be_storage sample_backup_env"
      "\<And>n name args env. fst (be_exec sample_backup_env n name args env) = None"
    by (simp_all add: sample_backup_env_def)
  then show ?thesis
    using quiet_backup [OF sample_backup_env_ok sample_quiet_db [of 0] _ _ _ _ sample_backup_lists] that
    by (metis empty_iff image_empty list.set(1) sample_backup_db_sel(3))
qed

theorem completed_backup_restores_witness:
  "\<exists>res w' s dump es. RunBackup sample_backup_env (sample_backup_db (\<lambda>n. None) 0) = ((res, None), w') \<and>
     backup_files w' = (backup_files (sample_backup_db (\<lambda>n. None) 0))(backup_path sample_backup_env (bres_ID res) \<mapsto> s) \<and>
     holds_backup sample_backup_env s dump es"
proof -
  obtain res w' where r: "RunBackup sample_backup_env (sample_backup_db (\<lambda>n. None) 0) = ((res, None), w')"
    using sample_verified .
  show ?thesis using completed_backup_restores [OF sample_backup_env_ok r] r by blast
qed



lemma failed_run:
  assumes "RunBackup E w = ((res, Some err), w')"
  shows "(bres_Status res = ''failed'' \<and> bres_ErrorMessage res = err_text err \<and>
      consecutiveFailures w' = Suc (consecutiveFailures w) \<and>
      (let alert = alert_error E (new_uuid w) (Suc (consecutiveFailures w)) err in
         backup_alerts w' = (if be_notifier E then [alert] else []) @ backup_alerts w \<and>
         (take 10 (err_text alert) = ''[CRITICAL]'' \<longleftrightarrow> 3 \<le> Suc (consecutiveFailures w)))) \<or>
    (bres_Status res = ''started'' \<and> fst (insertLog E (new_uuid w) (now w) (tick w)) \<noteq> None \<and>
      backup_log w' = backup_log w \<and> consecutiveFailures w' = consecutiveFailures w \<and> backup_alerts w' = backup_alerts w)"
  using assms
proof (cases rule: RunBackup_cases)
  case (refused e)
  then show ?thesis using insertLog_effect(3,4,6) [OF refused(1)] by simp
next
  case (failed e w1 w2 r0)
  note f = failBackup_effect [OF failed(3)]
  have "consecutiveFailures w2 = consecutiveFailures w" "backup_alerts w2 = backup_alerts w"
    using produce_backup_frame(2,3) [OF failed(2)] insertLog_effect(3,4) [OF failed(1)] by simp_all
  moreover have "err = e" using f(1) by simp
  ultimately show ?thesis
    using f by (simp add: Let_def alert_error_def wrapf_def)
qed simp

text \<open>
  A backup run that fails after its log row was written reports it: the status and the message of the
  result, one failure more, and one alert, \<open>CRITICAL\<close> from the third failure in a row on. When the log row
  itself cannot be written nothing is counted and nobody is alerted.
\<close>

theorem failed_backup_accounted:
  assumes "RunBackup E w = ((res, Some err), w')"
  shows "(bres_Status res = ''failed'' \<and> bres_ErrorMessage res = err_text err \<and>
      consecutiveFailures w' = Suc (consecutiveFailures w) \<and>
      (let alert = alert_error E (new_uuid w) (Suc (consecutiveFailures w)) err in
         backup_alerts w' = (if be_notifier E then [alert] else []) @ backup_alerts w \<and>
         (take 10 (err_text alert) = ''[CRITICAL]'' \<longleftrightarrow> 3 \<le> Suc (consecutiveFailures w)))) \<or>
    (bres_Status res = ''started'' \<and> fst (insertLog E (new_uuid w) (now w) (tick w)) \<noteq> None \<and>
      backup_log w' = backup_log w \<and> consecutiveFailures w' = consecutiveFailures w \<and> backup_alerts w' = backup_alerts w)"
  by (rule failed_run [OF assms])

theorem failed_backup_accounted_witness:
  "\<exists>res err w'. RunBackup (sample_backup_env\<lparr>be_exec := (\<lambda>n name args env. (Some (ErrNew ''exit status 1''), [], []))\<rparr>)
      (sample_backup_db (\<lambda>n. None) 2) = ((res, Some err), w') \<and> bres_Status res = ''failed'' \<and>
      consecutiveFailures w' = 3 \<and> length (backup_alerts w') = 1 \<and> take 10 (err_text (hd (backup_alerts w'))) = ''[CRITICAL]''"
proof -
  let ?E = "sample_backup_env\<lparr>be_exec := (\<lambda>n name args env. (Some (ErrNew ''exit status 1''), [], []))\<rparr>"
  let ?w = "sample_backup_db (\<lambda>n. None) 2"
  have "\<exists>res err w'. RunBackup ?E ?w = ((res, Some err), w') \<and> bres_Status res = ''failed''"
    by (simp add: RunBackup_def insertLog_def produce_backup_def DumpPostgres_def defaultCommandRunner_def fault_def
        failBackup_def Let_def)
  then obtain res err w' where r: "RunBackup ?E ?w = ((res, Some err), w')" "bres_Status res = ''failed''" by blast
  have "be_notifier ?E" by (simp add: sample_backup_env_def)
  then show ?thesis
    using failed_backup_accounted [OF r(1)] r
    by (intro exI [of _ res] exI [of _ err] exI [of _ w']) (simp add: Let_def)
qed

text \<open>
  In a state reached from an empty log, and without faults, the check of a backup succeeds exactly for
  the identifiers of completed runs. The check looks at the size of the file only: any other content of
  the same size passes, although the comment of \<open>VerifyBackup\<close> promises that the checksum matches.
\<close>

theorem verify_checks_size_only:
  assumes "backup_env_ok E" "backup_log w0 = []" "backup_run E w0 w" "no_faults w"
  shows "(fst (VerifyBackup E i w) = None \<longleftrightarrow> (\<exists>b \<in> set (backup_log w). bk_ID b = i \<and> bk_Status b = ''completed'')) \<and>
    (\<forall>s s'. backup_files w (backup_path E i) = Some s \<and> length s' = length s \<longrightarrow>
       fst (VerifyBackup E i (w\<lparr>backup_files := (backup_files w)(backup_path E i \<mapsto> s')\<rparr>)) = fst (VerifyBackup E i w))"
proof
  have inv: "backup_inv E w" by (rule backup_run_inv [OF assms(3,1,2)])
  show "fst (VerifyBackup E i w) = None \<longleftrightarrow> (\<exists>b \<in> set (backup_log w). bk_ID b = i \<and> bk_Status b = ''completed'')"
  proof
    assume "fst (VerifyBackup E i w) = None"
    then obtain b where "find (\<lambda>b. bk_ID b = i) (backup_log w) = Some b" "bk_Status b = ''completed''"
      unfolding verify_quiet [OF assms(4)] by blast
    then show "\<exists>b \<in> set (backup_log w). bk_ID b = i \<and> bk_Status b = ''completed''"
      unfolding find_Some_iff by (metis nth_mem)
  next
    assume "\<exists>b \<in> set (backup_log w). bk_ID b = i \<and> bk_Status b = ''completed''"
    then obtain b where b: "b \<in> set (backup_log w)" "bk_ID b = i" "bk_Status b = ''completed''" by blast
    then have "find (\<lambda>r. bk_ID r = i) (backup_log w) = Some b"
      using find_row [of "backup_log w" b] inv by (simp add: backup_inv_def)
    then show "fst (VerifyBackup E i w) = None"
      unfolding verify_quiet [OF assms(4)] using inv b by (fastforce simp: backup_inv_def row_backed_def)
  qed
  show "\<forall>s s'. backup_files w (backup_path E i) = Some s \<and> length s' = length s \<longrightarrow>
       fst (VerifyBackup E i (w\<lparr>backup_files := (backup_files w)(backup_path E i \<mapsto> s')\<rparr>)) = fst (VerifyBackup E i w)"
    using assms(4) by (auto simp: VerifyBackup_def Let_def pg_call_no_faults no_faults_def split: option.splits)
qed

theorem verify_checks_size_only_witness:
  "\<exists>(w :: backup_db) b s. b \<in> set (backup_log w) \<and> backup_files w (backup_path sample_backup_env (bk_ID b)) = Some s \<and> s \<noteq> [] \<and>
     fst (VerifyBackup sample_backup_env (bk_ID b)
       (w\<lparr>backup_files := (backup_files w)(backup_path sample_backup_env (bk_ID b) \<mapsto> replicate (length s) (CHR ''x''))\<rparr>)) = None"
proof -
  obtain res w' where r: "RunBackup sample_backup_env (sample_backup_db (\<lambda>n. None) 0) = ((res, None), w')"
      "fst (VerifyBackup sample_backup_env (bres_ID res) w') = None" "no_faults w'"
    using sample_verified by metis
  obtain b s where b: "b \<in> set (backup_log w')" "bk_ID b = bres_ID res" "backup_files w' (backup_path sample_backup_env (bk_ID b)) = Some s"
    using r(2) unfolding verify_quiet [OF r(3)] by (auto simp: find_Some_iff) (metis nth_mem)
  have run: "backup_run sample_backup_env (sample_backup_db (\<lambda>n. None) 0) w'"
    by (rule backup_once [OF backup_start r(1)])
  obtain dump es where "holds_backup sample_backup_env s dump es"
    using completed_run [OF sample_backup_env_ok r(1)] b(2,3) by auto
  then have "s \<noteq> []" by (auto simp: holds_backup_def Decrypt_def readHeader_def read_full_def split: if_splits)
  moreover have "fst (VerifyBackup sample_backup_env (bk_ID b)
       (w'\<lparr>backup_files := (backup_files w')(backup_path sample_backup_env (bk_ID b) \<mapsto> replicate (length s) (CHR ''x''))\<rparr>)) = None"
    using verify_checks_size_only [OF sample_backup_env_ok _ run r(3), of "bk_ID b"] b r(2) by simp
  ultimately show ?thesis using b by blast
qed

lemma nsec_day_pos [simp]: "0 < nsec_day"
  by (simp add: nsec_day_def nsec_minute_def)

lemma time_of_day:
  assumes "0 \<le> hour" "hour < 24" "0 \<le> minute" "minute < 60"
  shows "0 \<le> (60 * hour + minute) * nsec_minute" "(60 * hour + minute) * nsec_minute < nsec_day"
  using assms by (simp_all add: nsec_day_def nsec_minute_def)

lemma next_run_bounds:
  assumes "0 \<le> T" "T < nsec_day" "(60 * hour + minute) * nsec_minute = T"
  shows "t < next_run hour minute t" "next_run hour minute t \<le> t + nsec_day" "next_run hour minute t mod nsec_day = T"
proof -
  define q where "q = t div nsec_day * nsec_day"
  have "0 \<le> t mod nsec_day" "t mod nsec_day < nsec_day" by simp_all
  moreover have "q + t mod nsec_day = t" by (simp add: q_def)
  ultimately have q: "q \<le> t" "t < q + nsec_day" "q mod nsec_day = 0" by (linarith, linarith, simp add: q_def)
  have n: "next_run hour minute t = (if \<not> t < q + T then q + T + nsec_day else q + T)"
    using assms(3) by (simp add: next_run_def Let_def q_def)
  show "t < next_run hour minute t" "next_run hour minute t \<le> t + nsec_day" using n q assms(1,2) by auto
  have "(q + T) mod nsec_day = T" using q(3) assms(1,2) by (simp add: q_def)
  then show "next_run hour minute t mod nsec_day = T" using n by simp
qed

lemma same_time_unique:
  fixes x y :: int
  assumes "x mod D = y mod D" "t < x" "x \<le> t + D" "t < y" "y \<le> t + D"
  shows "x = y"
proof -
  have "D dvd x - y" using assms(1) by (simp add: mod_eq_dvd_iff)
  moreover have "\<bar>x - y\<bar> < D" using assms(2-5) by linarith
  ultimately show ?thesis using zdvd_imp_le [of D "\<bar>x - y\<bar>"] by (cases "x = y") auto
qed

lemma scheduler_times:
  assumes "0 \<le> T" "T < nsec_day" "(60 * hour + minute) * nsec_minute = T"
  shows "length (fst (StartScheduler E hour minute n w)) = Suc n \<and>
    (\<forall>x \<in> set (fst (StartScheduler E hour minute n w)). x mod nsec_day = T)"
proof (induction n arbitrary: w)
  case 0
  then show ?case using next_run_bounds(3) [OF assms] by simp
next
  case (Suc n)
  obtain r w1 where "RunBackup E (tick w) = (r, w1)" by (cases "RunBackup E (tick w)")
  then show ?case using Suc.IH [of w1] next_run_bounds(3) [OF assms] by (auto split: prod.splits)
qed

text \<open>
  The scheduler goes on whatever its runs do, and always sets its timer to the given time of day:
  strictly in the future, at most one day ahead, and after a run that ends within a day of its start to the same time of the next day.
\<close>

theorem scheduler_daily:
  assumes "0 \<le> hour" "hour < 24" "0 \<le> minute" "minute < 60"
  shows "length (fst (StartScheduler E hour minute n w)) = Suc n \<and>
    (\<forall>x \<in> set (fst (StartScheduler E hour minute n w)). x mod nsec_day = (60 * hour + minute) * nsec_minute) \<and>
    t < next_run hour minute t \<and> next_run hour minute t \<le> t + nsec_day \<and>
    (\<forall>t'. next_run hour minute t \<le> t' \<and> t' < next_run hour minute t + nsec_day \<longrightarrow>
      next_run hour minute t' = next_run hour minute t + nsec_day)"
proof -
  note b = next_run_bounds [OF time_of_day [OF assms] refl]
  have "next_run hour minute t' = next_run hour minute t + nsec_day"
    if "next_run hour minute t \<le> t'" "t' < next_run hour minute t + nsec_day" for t'
    using same_time_unique [of "next_run hour minute t'" nsec_day "next_run hour minute t + nsec_day" t'] b [of t'] b(3) [of t] that
    by simp
  then show ?thesis
    using scheduler_times [OF time_of_day [OF assms] refl, of E n w] b(1,2) [of t] by blast
qed

theorem scheduler_daily_witness:
  "length (fst (StartScheduler sample_backup_env 3 0 2 (sample_backup_db (\<lambda>n. None) 0))) = 3 \<and>
   0 < next_run 3 0 0 \<and> next_run 3 0 0 \<le> nsec_day"
proof -
  have h: "(0 :: int) \<le> 3" "(3 :: int) < 24" "(0 :: int) \<le> 0" "(0 :: int) < 60" by simp_all
  have "length (fst (StartScheduler sample_backup_env 3 0 2 (sample_backup_db (\<lambda>n. None) 0))) = Suc 2"
      "0 < next_run 3 0 0" "next_run 3 0 0 \<le> 0 + nsec_day"
    using scheduler_daily [OF h, of sample_backup_env 2 "sample_backup_db (\<lambda>n. None) 0" 0] by blast+
  then show ?thesis by simp
qed

end
