(* ===== verification/Backup_Api.thy ===== *)
theory Backup_Api
  imports Backup_Runner Cases_Api
begin

text \<open>\<open>internal/backup/handler.go\<close>: the admin endpoints of the backup runner and their routes.\<close>

datatype backup_body =
    BodyBackupRun BackupResult
  | BodyBackupVerified uuid
  | BodyBackups "BackupInfo list"

definition Handler_RunBackup ::
  "backup_env \<Rightarrow> ctx \<Rightarrow> 'a backup_db_scheme \<Rightarrow> backup_body http_response \<times> 'a backup_db_scheme" where
  "Handler_RunBackup E c w =
     (case GetAuthContext c of
        None \<Rightarrow> (RespondError 500 ''internal error'', w)
      | Some ac \<Rightarrow>
          (case RunBackup E w of
             ((result, Some err), w1) \<Rightarrow> (RespondError 500 ''backup failed'', w1)
           | ((result, None), w1) \<Rightarrow> (RespondJSON 200 (BodyBackupRun result), w1)))"

definition Handler_VerifyBackup ::
  "backup_env \<Rightarrow> request \<Rightarrow> 'a backup_db_scheme \<Rightarrow> backup_body http_response \<times> 'a backup_db_scheme" where
  "Handler_VerifyBackup E r w =
     (case lib_uuid_parse (be_lib E) (req_param r ''id'') of
        Inl err \<Rightarrow> (RespondError 400 ''invalid backup ID'', w)
      | Inr backupID \<Rightarrow>
          (case VerifyBackup E backupID w of
             (Some err, w1) \<Rightarrow> (RespondError 422 ''verification failed'', w1)
           | (None, w1) \<Rightarrow> (RespondJSON 200 (BodyBackupVerified backupID), w1)))"

definition Handler_ListBackups :: "'a backup_db_scheme \<Rightarrow> backup_body http_response \<times> 'a backup_db_scheme" where
  "Handler_ListBackups w =
     (case ListBackups w of
        (Inl err, w1) \<Rightarrow> (RespondError 500 ''failed to list backups'', w1)
      | (Inr backups, w1) \<Rightarrow> (RespondJSON 200 (BodyBackups backups), w1))"

text \<open>All three routes ask for a system administrator.\<close>

datatype backup_route = PostRunBackup | GetBackups | GetVerifyBackup

fun backup_handler ::
  "backup_env \<Rightarrow> backup_route \<Rightarrow> request \<Rightarrow> ctx \<Rightarrow> 'a backup_db_scheme
     \<Rightarrow> backup_body http_response \<times> 'a backup_db_scheme" where
  "backup_handler E PostRunBackup r c w = Handler_RunBackup E c w"
| "backup_handler E GetBackups r c w = Handler_ListBackups w"
| "backup_handler E GetVerifyBackup r c w = Handler_VerifyBackup E r w"

definition serve_backup ::
  "backup_env \<Rightarrow> backup_route \<Rightarrow> request \<Rightarrow> ctx \<Rightarrow> 'a backup_db_scheme
     \<Rightarrow> (backup_body http_response \<times> access_denied list) \<times> 'a backup_db_scheme" where
  "serve_backup E rt r c w = gated (Some RoleSystemAdmin) c r (backup_handler E rt r) w"

lemma backup_refused:
  assumes "RequireSystemRole RoleSystemAdmin True c r = (Answered status msg, log)"
  shows "serve_backup E rt r c w = ((RespondError status msg, log), w)"
  using assms by (simp add: serve_backup_def gated_def)

lemma backup_verified_answer:
  assumes "lib_uuid_parse (be_lib E) (req_param r ''id'') = Inr i"
  shows "resp_status (fst (Handler_VerifyBackup E r w)) = Some (if fst (VerifyBackup E i w) = None then 200 else 422)"
  using assms by (auto simp: Handler_VerifyBackup_def split: prod.splits option.splits)

end
