(* ===== verification/Notif_Repo.thy ===== *)
theory Notif_Repo
  imports Cases_Service Keyset Go_Conv
begin

text \<open>
  \<open>internal/notifications/models.go\<close> and \<open>repository.go\<close>: notifications, the statements over the
  table \<open>notifications\<close> and the cursor of its pages. The state extends the tables of cases and roles
  by the rows of that table and by what the e-mail sender holds.
\<close>

section \<open>Data\<close>

record Notification =
  nt_ID :: uuid
  nt_CaseID :: "uuid option"
  nt_UserID :: uuid
  nt_Type :: string
  nt_Title :: string
  nt_Body :: string
  nt_Read :: bool
  nt_CreatedAt :: time

text \<open>The struct \<open>NotificationEvent\<close> of this package; the integrity package has one of that name too.\<close>

record NotifEvent =
  ne_Type :: string
  ne_CaseID :: uuid
  ne_Title :: string
  ne_Body :: string
  ne_TargetUserID :: string

definition EventEvidenceUploaded :: string where "EventEvidenceUploaded = ''evidence_uploaded''"
definition EventUserAddedToCase :: string where "EventUserAddedToCase = ''user_added_to_case''"
definition EventIntegrityWarning :: string where "EventIntegrityWarning = ''integrity_warning''"
definition EventLegalHoldChanged :: string where "EventLegalHoldChanged = ''legal_hold_changed''"
definition EventRetentionExpiring :: string where "EventRetentionExpiring = ''retention_expiring''"
definition EventBackupFailed :: string where "EventBackupFailed = ''backup_failed''"

lemmas event_defs = EventEvidenceUploaded_def EventUserAddedToCase_def EventIntegrityWarning_def
  EventLegalHoldChanged_def EventRetentionExpiring_def EventBackupFailed_def

record emailMessage =
  em_To :: string
  em_Subject :: string
  em_HTMLBody :: string
  em_TextBody :: string

record notif_db = cases_db +
  notifications :: "Notification list"
  mail_queue :: "emailMessage list"

definition notif_ErrNotFound :: go_error where
  "notif_ErrNotFound = ErrSentinel ''notification not found''"

section \<open>Cursors\<close>

text \<open>
  From the epoch to the end of the year 9999, in nanoseconds: RFC 3339 has no later years. The
  library is as documented when parsing what \<open>Format(time.RFC3339Nano)\<close> printed gives the instant and
  when the text of a UUID does not contain the separator of the cursor.
\<close>

definition time_1970_9999 :: "time \<Rightarrow> bool" where
  "time_1970_9999 t \<longleftrightarrow> 0 \<le> t \<and> t < 253402300800 * 10 ^ 9"

definition cursor_lib_ok :: "go_lib \<Rightarrow> bool" where
  "cursor_lib_ok L \<longleftrightarrow> uuid_lib_ok L \<and>
     (\<forall>u. CHR ''|'' \<notin> set (lib_uuid_string L u)) \<and>
     (\<forall>t. time_1970_9999 t \<longrightarrow> lib_parse_time L RFC3339Nano (lib_format L RFC3339Nano t) = Inr t)"

lemma cursor_lib_ok_sample: "cursor_lib_ok sample_lib"
proof -
  have "CHR ''|'' \<notin> set (nat_digits n)" for n
    using nat_digits_chars [of "CHR ''|''" n] by auto
  then show ?thesis
    using uuid_lib_ok_sample
    by (auto simp: cursor_lib_ok_def sample_lib_def time_1970_9999_def itoa_def digits_value_nat_digits)
qed

definition splitCursor :: "string \<Rightarrow> string list" where
  "splitCursor s =
     (case last_index_byte s (CHR ''|'') of None \<Rightarrow> [s] | Some idx \<Rightarrow> [take idx s, drop (Suc idx) s])"

definition notif_decodeCursor :: "go_lib \<Rightarrow> string \<Rightarrow> go_error + (time \<times> uuid)" where
  "notif_decodeCursor L cursor =
     (case b64_decode cursor of
        Inl err \<Rightarrow> Inl (wrapf ''decode cursor base64'' err)
      | Inr raw \<Rightarrow>
          (case splitCursor raw of
             [p0, p1] \<Rightarrow>
               (case lib_parse_time L RFC3339Nano p0 of
                  Inl err \<Rightarrow> Inl (wrapf ''parse cursor time'' err)
                | Inr ts \<Rightarrow>
                    (case lib_uuid_parse L p1 of
                       Inl err \<Rightarrow> Inl (wrapf ''parse cursor UUID'' err)
                     | Inr u \<Rightarrow> Inr (ts, u)))
           | _ \<Rightarrow> Inl (ErrNew ''malformed cursor'')))"

definition notif_EncodeCursor :: "go_lib \<Rightarrow> time \<times> uuid \<Rightarrow> string" where
  "notif_EncodeCursor L k =
     b64_encode (lib_format L RFC3339Nano (fst k) @ ''|'' @ lib_uuid_string L (snd k))"

section \<open>Statements\<close>

definition pg_uuid :: "go_lib \<Rightarrow> string \<Rightarrow> uuid option" where
  \<comment> \<open>a text passed for a parameter of type \<open>uuid\<close>\<close>
  "pg_uuid L s =
     (case lib_col_uuid L s of
        None \<Rightarrow> None
      | Some t \<Rightarrow> (case lib_uuid_parse L t of Inl err \<Rightarrow> None | Inr u \<Rightarrow> Some u))"

definition user_arg :: "go_lib \<Rightarrow> string \<Rightarrow> 'a world_scheme \<Rightarrow> go_error + uuid" where
  \<comment> \<open>a statement whose parameter is the text of a user's identifier: what it fails with, or the user\<close>
  "user_arg L userID w =
     (case fault w of
        Some err \<Rightarrow> Inl err
      | None \<Rightarrow> (case pg_uuid L userID of None \<Rightarrow> Inl uuid_syntax | Some u \<Rightarrow> Inr u))"

definition notif_Create :: "go_lib \<Rightarrow> Notification \<Rightarrow> 'a notif_db_scheme \<Rightarrow> go_error option \<times> 'a notif_db_scheme" where
  "notif_Create L n w =
     (case fault w of
        Some err \<Rightarrow> (Some (wrapf ''insert notification'' err), tick w)
      | None \<Rightarrow>
          if nt_ID n \<in> set (map nt_ID (notifications w)) then
            (Some (wrapf ''insert notification'' unique_violation), tick w)
          else if \<exists>k \<in> set_option (nt_CaseID n). find_case k (cases_table w) = None then
            (Some (wrapf ''insert notification'' fk_violation), tick w)
          else (None, (tick w)\<lparr>notifications := notifications w @
                  [n\<lparr>nt_CreatedAt := lib_col_time L (nt_CreatedAt n)\<rparr>]\<rparr>))"

definition notif_key :: "Notification \<Rightarrow> time \<times> uuid" where
  "notif_key n = (nt_CreatedAt n, nt_ID n)"

definition notif_page :: "uuid \<Rightarrow> (time \<times> uuid) option \<Rightarrow> nat \<Rightarrow> Notification list \<Rightarrow> Notification list" where
  \<comment> \<open>\<open>WHERE user_id = $1 [AND (created_at < $2 OR (created_at = $2 AND id < $3))]
    ORDER BY created_at DESC, id DESC LIMIT n\<close>\<close>
  "notif_page user cur n rows =
     take n (rev (sort_key notif_key
       (filter (\<lambda>r. nt_UserID r = user \<and>
          (case cur of None \<Rightarrow> True
           | Some (ts, k) \<Rightarrow> nt_CreatedAt r < ts \<or> (nt_CreatedAt r = ts \<and> nt_ID r < k))) rows)))"

definition notif_limit :: "int \<Rightarrow> int" where
  "notif_limit limit0 = (let limit = (if limit0 \<le> 0 then 25 else limit0) in if limit > 100 then 100 else limit)"

definition ListByUser ::
  "go_lib \<Rightarrow> string \<Rightarrow> int \<Rightarrow> string \<Rightarrow> 'a notif_db_scheme
     \<Rightarrow> (go_error + Notification list \<times> int) \<times> 'a notif_db_scheme" where
  "ListByUser L userID limit0 cursor w =
     (let limit = notif_limit limit0 in
      case (if cursor = [] then Inr None else map_sum id Some (notif_decodeCursor L cursor)) of
        Inl err \<Rightarrow> (Inl (wrapf ''invalid cursor'' err), w)
      | Inr cur \<Rightarrow>
          (case user_arg L userID w of
             Inl err \<Rightarrow> (Inl (wrapf ''count notifications'' err), tick w)
           | Inr user \<Rightarrow>
               let total_count = int (length (filter (\<lambda>n. nt_UserID n = user) (notifications w)));
                   stmt_cur = map_option (map_prod (lib_col_time L) id) cur
               in
               (case query_rows (wrapf ''query notifications'') (wrapf ''scan notification'')
                   (wrapf ''iterate notifications'')
                   (notif_page user stmt_cur (nat (limit + 1)) (notifications w)) (tick w) of
                  (Inl err, w1) \<Rightarrow> (Inl err, w1)
                | (Inr items, w1) \<Rightarrow>
                    (Inr (if int (length items) > limit then take (nat limit) items else items, total_count), w1))))"

definition set_read :: "(Notification \<Rightarrow> bool) \<Rightarrow> Notification list \<Rightarrow> Notification list" where
  \<comment> \<open>\<open>UPDATE notifications SET read = true WHERE ...\<close>\<close>
  "set_read hit rows = map (\<lambda>n. if hit n then n\<lparr>nt_Read := True\<rparr> else n) rows"

definition notif_MarkRead ::
  "go_lib \<Rightarrow> uuid \<Rightarrow> string \<Rightarrow> 'a notif_db_scheme \<Rightarrow> go_error option \<times> 'a notif_db_scheme" where
  "notif_MarkRead L k userID w =
     (case user_arg L userID w of
        Inl err \<Rightarrow> (Some (wrapf ''mark notification read'' err), tick w)
      | Inr user \<Rightarrow>
          let hit = (\<lambda>n. nt_ID n = k \<and> nt_UserID n = user) in
          (if filter hit (notifications w) = [] then Some notif_ErrNotFound else None,
           (tick w)\<lparr>notifications := set_read hit (notifications w)\<rparr>))"

definition notif_MarkAllRead ::
  "go_lib \<Rightarrow> string \<Rightarrow> 'a notif_db_scheme \<Rightarrow> go_error option \<times> 'a notif_db_scheme" where
  "notif_MarkAllRead L userID w =
     (case user_arg L userID w of
        Inl err \<Rightarrow> (Some (wrapf ''mark all notifications read'' err), tick w)
      | Inr user \<Rightarrow>
          (None, (tick w)\<lparr>notifications :=
             set_read (\<lambda>n. nt_UserID n = user \<and> \<not> nt_Read n) (notifications w)\<rparr>))"

definition notif_GetUnreadCount ::
  "go_lib \<Rightarrow> string \<Rightarrow> 'a notif_db_scheme \<Rightarrow> (go_error + int) \<times> 'a notif_db_scheme" where
  "notif_GetUnreadCount L userID w =
     (case user_arg L userID w of
        Inl err \<Rightarrow> (Inl (wrapf ''count unread notifications'' err), tick w)
      | Inr user \<Rightarrow>
          (Inr (int (length (filter (\<lambda>n. nt_UserID n = user \<and> \<not> nt_Read n) (notifications w)))), tick w))"

definition GetCaseUserIDs ::
  "(string list \<Rightarrow> string list) \<Rightarrow> uuid \<Rightarrow> 'a notif_db_scheme \<Rightarrow> (go_error + string list) \<times> 'a notif_db_scheme" where
  \<comment> \<open>\<open>distinct_rows\<close>: the distinct values of a column in the order in which the server returns them\<close>
  "GetCaseUserIDs distinct_rows caseID w =
     query_rows (wrapf ''get case user IDs'') (wrapf ''scan case user ID'') (wrapf ''iterate case user IDs'')
       (distinct_rows (map cr_UserID (filter (\<lambda>r. cr_CaseID r = caseID) (case_roles w)))) w"

lemma notif_tick [simp]: "notifications (tick w) = notifications w" "mail_queue (tick w) = mail_queue w"
  by (simp_all add: tick_def)

lemma notif_only_ticks:
  assumes "only_ticks w (w' :: 'a notif_db_scheme)"
  shows "notifications w' = notifications w" "mail_queue w' = mail_queue w" "cases_table w' = cases_table w"
    "case_roles w' = case_roles w"
proof -
  obtain n where "w' = w\<lparr>w_tick := n\<rparr>" using assms unfolding only_ticks_def by blast
  then show "notifications w' = notifications w" "mail_queue w' = mail_queue w" "cases_table w' = cases_table w"
    "case_roles w' = case_roles w" by simp_all
qed

section \<open>The cursor travels\<close>

lemma last_index_byte_sep: "c \<notin> set b \<Longrightarrow> last_index_byte (a @ c # b) c = Some (length a)"
proof -
  assume c: "c \<notin> set b"
  have "index_byte (xs @ c # ys) c = Some (length xs)" if "c \<notin> set xs" for xs ys
    using that by (induction xs) auto
  from this [of "rev b" "rev a"] c show ?thesis by (simp add: last_index_byte_def)
qed

lemma notif_decode_encode:
  assumes "cursor_lib_ok L" "time_1970_9999 (fst k)"
  shows "notif_decodeCursor L (notif_EncodeCursor L k) = Inr k"
proof -
  have "splitCursor (lib_format L RFC3339Nano (fst k) @ ''|'' @ lib_uuid_string L (snd k)) =
      [lib_format L RFC3339Nano (fst k), lib_uuid_string L (snd k)]"
    using assms(1) by (simp add: splitCursor_def cursor_lib_ok_def last_index_byte_sep)
  with assms show ?thesis
    by (simp add: notif_decodeCursor_def notif_EncodeCursor_def cursor_lib_ok_def uuid_lib_ok_def)
qed

interpretation notif_cursor: key_cursor cursor_lib_ok "\<lambda>k. time_1970_9999 (fst k)" notif_EncodeCursor notif_decodeCursor
proof unfold_locales
  fix L :: go_lib and k :: "time \<times> uuid"
  assume "cursor_lib_ok L" "time_1970_9999 (fst k)"
  then show "notif_decodeCursor L (notif_EncodeCursor L k) = Inr k" by (rule notif_decode_encode)
  show "notif_EncodeCursor L k \<noteq> []" by (simp add: notif_EncodeCursor_def b64_encode_ne)
qed

section \<open>The pages of a user\<close>

definition user_notifications :: "uuid \<Rightarrow> Notification list \<Rightarrow> Notification list" where
  \<comment> \<open>newest first, the identifier breaking ties\<close>
  "user_notifications user rows = rev (sort_key notif_key (filter (\<lambda>n. nt_UserID n = user) rows))"

lemma notif_page_after:
  "notif_page user cur n rows =
     take n (filter (\<lambda>r. case cur of None \<Rightarrow> True | Some k \<Rightarrow> notif_key r < k) (user_notifications user rows))"
proof -
  have "(case cur of None \<Rightarrow> True
        | Some (ts, k) \<Rightarrow> nt_CreatedAt r < ts \<or> (nt_CreatedAt r = ts \<and> nt_ID r < k)) =
      (case cur of None \<Rightarrow> True | Some k \<Rightarrow> notif_key r < k)" for r
    by (cases cur) (auto simp: notif_key_def less_prod_def')
  then show ?thesis
    unfolding notif_page_def user_notifications_def
    by (simp add: rev_filter [symmetric] filter_sort conj_commute)
qed

interpretation notif_pages: keyset_pages notif_key "\<lambda>cur n. notif_page user cur n rows" "user_notifications user rows"
  for user rows
  by unfold_locales
    (simp_all add: notif_page_after user_notifications_def sorted_wrt_rev sorted_sort_key [unfolded sorted_map])

end
