(* ===== verification/Notif_Service.thy ===== *)
theory Notif_Service
  imports Notif_Repo Auth_Roles
begin

text \<open>
  \<open>internal/notifications/service.go\<close>, \<open>email.go\<close> and \<open>handler.go\<close>: the routing of events to the
  users who are told, the queue and the text of e-mails, and the HTTP handlers.
\<close>

section \<open>E-mail\<close>

definition mail_capacity :: nat where
  \<comment> \<open>the size of the channel \<open>queue\<close>\<close>
  "mail_capacity = 256"

definition enqueue :: "emailMessage \<Rightarrow> emailMessage list \<Rightarrow> go_error option \<times> emailMessage list" where
  \<comment> \<open>the \<open>select\<close> of \<open>Send\<close>: the buffer of the channel, or the default case when it is full\<close>
  "enqueue msg q =
     (if length q < mail_capacity then (None, q @ [msg]) else (Some (ErrNew ''email queue full''), q))"

definition email_Send ::
  "string \<Rightarrow> string \<Rightarrow> string \<Rightarrow> string \<Rightarrow> string \<Rightarrow> 'a notif_db_scheme \<Rightarrow> go_error option \<times> 'a notif_db_scheme" where
  "email_Send host to subject htmlBody textBody w =
     (if host = [] then (None, w)
      else
        let msg = \<lparr>em_To = to, em_Subject = subject, em_HTMLBody = htmlBody, em_TextBody = textBody\<rparr> in
        (case enqueue msg (mail_queue w) of (r, q) \<Rightarrow> (r, w\<lparr>mail_queue := q\<rparr>)))"

definition sanitizeHeader :: "string \<Rightarrow> string" where
  \<comment> \<open>\<open>strings.ReplaceAll\<close> of a one-byte text by the empty text, twice\<close>
  "sanitizeHeader s = filter (\<lambda>c. c \<noteq> CHR 0x0A) (filter (\<lambda>c. c \<noteq> CHR 0x0D) s)"

definition CRLF :: string where "CRLF = [CHR 0x0D, CHR 0x0A]"

definition email_headers :: "string \<Rightarrow> string \<Rightarrow> emailMessage \<Rightarrow> string" where
  "email_headers boundary sender msg =
     ''From: '' @ sanitizeHeader sender @ CRLF @
     ''To: '' @ sanitizeHeader (em_To msg) @ CRLF @
     ''Subject: '' @ sanitizeHeader (em_Subject msg) @ CRLF @
     ''MIME-Version: 1.0'' @ CRLF @
     ''Content-Type: multipart/alternative; boundary='' @ [CHR 0x22] @ boundary @ [CHR 0x22] @ CRLF"

definition email_text :: "string \<Rightarrow> string \<Rightarrow> emailMessage \<Rightarrow> string" where
  \<comment> \<open>what \<open>deliver\<close> hands to \<open>smtp.SendMail\<close>; \<open>boundary\<close> holds the random number\<close>
  "email_text boundary sender msg =
     email_headers boundary sender msg @ CRLF @
     ''--'' @ boundary @ CRLF @
     ''Content-Type: text/plain; charset='' @ [CHR 0x22] @ ''utf-8'' @ [CHR 0x22] @ CRLF @ CRLF @
     em_TextBody msg @ CRLF @
     ''--'' @ boundary @ CRLF @
     ''Content-Type: text/html; charset='' @ [CHR 0x22] @ ''utf-8'' @ [CHR 0x22] @ CRLF @ CRLF @
     em_HTMLBody msg @ CRLF @
     ''--'' @ boundary @ ''--'' @ CRLF"

section \<open>The service\<close>

text \<open>
  What the service is deployed with: the library, the order in which the server returns the rows of
  a \<open>DISTINCT\<close>, the administrators, the resolver of e-mail addresses when there is one, and the SMTP
  host, empty when e-mail is off.
\<close>

record notif_env =
  nv_lib :: go_lib
  nv_distinct :: "string list \<Rightarrow> string list"
  nv_admins :: "string list"
  nv_resolver :: "(string \<Rightarrow> go_error + string) option"
  nv_host :: string

fun dedup_loop :: "string set \<Rightarrow> string list \<Rightarrow> string list" where
  "dedup_loop seen [] = []"
| "dedup_loop seen (s # ss) =
     (if s \<in> seen then dedup_loop seen ss else s # dedup_loop (insert s seen) ss)"

definition deduplicateStrings :: "string list \<Rightarrow> string list" where
  "deduplicateStrings ss = dedup_loop {} ss"

definition resolveRecipients ::
  "notif_env \<Rightarrow> NotifEvent \<Rightarrow> 'a notif_db_scheme \<Rightarrow> (go_error + string list) \<times> 'a notif_db_scheme" where
  "resolveRecipients E event w =
     (if ne_Type event = EventEvidenceUploaded \<or> ne_Type event = EventLegalHoldChanged then
        GetCaseUserIDs (nv_distinct E) (ne_CaseID event) w
      else if ne_Type event = EventUserAddedToCase then
        (if ne_TargetUserID event = [] then
           (Inl (ErrNew ''user_added_to_case event missing TargetUserID''), w)
         else (Inr [ne_TargetUserID event], w))
      else if ne_Type event = EventIntegrityWarning then
        (case GetCaseUserIDs (nv_distinct E) (ne_CaseID event) w of
           (Inl err, w1) \<Rightarrow> (Inl (wrapf ''get case users for integrity warning'' err), w1)
         | (Inr caseUsers, w1) \<Rightarrow> (Inr (deduplicateStrings (nv_admins E @ caseUsers)), w1))
      else if ne_Type event = EventRetentionExpiring \<or> ne_Type event = EventBackupFailed then
        (Inr (nv_admins E), w)
      else (Inr [], w))"

definition new_notification :: "NotifEvent \<Rightarrow> uuid \<Rightarrow> 'a world_scheme \<Rightarrow> Notification" where
  "new_notification event uid w =
     \<lparr>nt_ID = new_uuid w, nt_CaseID = (if ne_CaseID event \<noteq> uuid_Nil then Some (ne_CaseID event) else None),
      nt_UserID = uid, nt_Type = ne_Type event, nt_Title = ne_Title event, nt_Body = ne_Body event,
      nt_Read = False, nt_CreatedAt = now w\<rparr>"

definition notify_email :: "notif_env \<Rightarrow> NotifEvent \<Rightarrow> string \<Rightarrow> 'a notif_db_scheme \<Rightarrow> 'a notif_db_scheme" where
  \<comment> \<open>the last part of the loop's body: the address is looked up, and errors are dropped\<close>
  "notify_email E event userID w =
     (case nv_resolver E of
        None \<Rightarrow> w
      | Some get_email \<Rightarrow>
          (case get_email userID of
             Inl err \<Rightarrow> tick w
           | Inr email \<Rightarrow> snd (email_Send (nv_host E) email (ne_Title event) (ne_Body event) (ne_Body event) (tick w))))"

definition notify_user :: "notif_env \<Rightarrow> NotifEvent \<Rightarrow> string \<Rightarrow> 'a notif_db_scheme \<Rightarrow> 'a notif_db_scheme" where
  \<comment> \<open>the body of the loop of \<open>Notify\<close>\<close>
  "notify_user E event userID w =
     (case lib_uuid_parse (nv_lib E) userID of
        Inl err \<Rightarrow> w
      | Inr uid \<Rightarrow>
          (case notif_Create (nv_lib E) (new_notification event uid w) w of
             (Some err, w1) \<Rightarrow> w1
           | (None, w1) \<Rightarrow> notify_email E event userID w1))"

definition notif_Notify ::
  "notif_env \<Rightarrow> NotifEvent \<Rightarrow> 'a notif_db_scheme \<Rightarrow> go_error option \<times> 'a notif_db_scheme" where
  "notif_Notify E event w =
     (case resolveRecipients E event w of
        (Inl err, w1) \<Rightarrow> (Some (wrapf ''resolve recipients'' err), w1)
      | (Inr recipients, w1) \<Rightarrow> (None, fold (notify_user E event) recipients w1))"

definition GetUserNotifications ::
  "notif_env \<Rightarrow> string \<Rightarrow> int \<Rightarrow> string \<Rightarrow> 'a notif_db_scheme
     \<Rightarrow> (go_error + Notification list \<times> int) \<times> 'a notif_db_scheme" where
  "GetUserNotifications E userID limit cursor w =
     (case ListByUser (nv_lib E) userID limit cursor w of
        (Inl err, w1) \<Rightarrow> (Inl (wrapf ''list user notifications'' err), w1)
      | (Inr res, w1) \<Rightarrow> (Inr res, w1))"

definition MarkRead ::
  "notif_env \<Rightarrow> uuid \<Rightarrow> string \<Rightarrow> 'a notif_db_scheme \<Rightarrow> go_error option \<times> 'a notif_db_scheme" where
  "MarkRead E k userID w =
     (case notif_MarkRead (nv_lib E) k userID w of (r, w1) \<Rightarrow> (map_option (wrapf ''mark read'') r, w1))"

definition MarkAllRead ::
  "notif_env \<Rightarrow> string \<Rightarrow> 'a notif_db_scheme \<Rightarrow> go_error option \<times> 'a notif_db_scheme" where
  "MarkAllRead E userID w =
     (case notif_MarkAllRead (nv_lib E) userID w of (r, w1) \<Rightarrow> (map_option (wrapf ''mark all read'') r, w1))"

definition GetUnreadCount ::
  "notif_env \<Rightarrow> string \<Rightarrow> 'a notif_db_scheme \<Rightarrow> (go_error + int) \<times> 'a notif_db_scheme" where
  "GetUnreadCount E userID w =
     (case notif_GetUnreadCount (nv_lib E) userID w of
        (Inl err, w1) \<Rightarrow> (Inl (wrapf ''get unread count'' err), w1)
      | (Inr n, w1) \<Rightarrow> (Inr n, w1))"

section \<open>Handlers\<close>

datatype notif_body =
    BodyNotifications "Notification list"
  | BodyUnread int
  | BodyOk

definition query_limit :: "int \<Rightarrow> request \<Rightarrow> int" where
  \<comment> \<open>the parameter \<open>limit\<close>, used when it is a positive number\<close>
  "query_limit dflt r =
     (let l = req_query r ''limit'' in
      if l \<noteq> [] then (case Atoi l of None \<Rightarrow> dflt | Some parsed \<Rightarrow> if parsed > 0 then parsed else dflt) else dflt)"

definition notif_List ::
  "notif_env \<Rightarrow> ctx \<Rightarrow> request \<Rightarrow> 'a notif_db_scheme \<Rightarrow> notif_body http_response \<times> 'a notif_db_scheme" where
  "notif_List E c r w =
     (case GetAuthContext c of
        None \<Rightarrow> (RespondError 500 ''internal error'', w)
      | Some ac \<Rightarrow>
          let limit = query_limit 25 r in
          (case GetUserNotifications E (UserID ac) limit (req_query r ''cursor'') w of
             (Inl err, w1) \<Rightarrow> (RespondError 500 ''internal error'', w1)
           | (Inr (items, total_count), w1) \<Rightarrow>
               let hasMore = (int (length items) = limit);
                   nextCursor = (if hasMore \<and> items \<noteq> [] then notif_EncodeCursor (nv_lib E) (notif_key (last items)) else [])
               in (RespondPaginated 200 (BodyNotifications items) total_count nextCursor hasMore, w1)))"

definition notif_UnreadCount ::
  "notif_env \<Rightarrow> ctx \<Rightarrow> request \<Rightarrow> 'a notif_db_scheme \<Rightarrow> notif_body http_response \<times> 'a notif_db_scheme" where
  "notif_UnreadCount E c r w =
     (case GetAuthContext c of
        None \<Rightarrow> (RespondError 500 ''internal error'', w)
      | Some ac \<Rightarrow>
          (case GetUnreadCount E (UserID ac) w of
             (Inl err, w1) \<Rightarrow> (RespondError 500 ''internal error'', w1)
           | (Inr n, w1) \<Rightarrow> (RespondJSON 200 (BodyUnread n), w1)))"

definition notif_MarkAllRead_handler ::
  "notif_env \<Rightarrow> ctx \<Rightarrow> request \<Rightarrow> 'a notif_db_scheme \<Rightarrow> notif_body http_response \<times> 'a notif_db_scheme" where
  "notif_MarkAllRead_handler E c r w =
     (case GetAuthContext c of
        None \<Rightarrow> (RespondError 500 ''internal error'', w)
      | Some ac \<Rightarrow>
          (case MarkAllRead E (UserID ac) w of
             (Some err, w1) \<Rightarrow> (RespondError 500 ''internal error'', w1)
           | (None, w1) \<Rightarrow> (RespondJSON 200 BodyOk, w1)))"

definition notif_MarkRead_handler ::
  "notif_env \<Rightarrow> ctx \<Rightarrow> request \<Rightarrow> 'a notif_db_scheme \<Rightarrow> notif_body http_response \<times> 'a notif_db_scheme" where
  "notif_MarkRead_handler E c r w =
     (case GetAuthContext c of
        None \<Rightarrow> (RespondError 500 ''internal error'', w)
      | Some ac \<Rightarrow>
          (case lib_uuid_parse (nv_lib E) (req_param r ''id'') of
             Inl err \<Rightarrow> (RespondError 400 ''invalid notification ID'', w)
           | Inr k \<Rightarrow>
               (case MarkRead E k (UserID ac) w of
                  (Some err, w1) \<Rightarrow>
                    (if errors_is err notif_ErrNotFound
                     then RespondError 403 ''notification not found or does not belong to you''
                     else RespondError 500 ''internal error'', w1)
                | (None, w1) \<Rightarrow> (RespondJSON 200 BodyOk, w1))))"

datatype notif_route = NotifList | NotifUnreadCount | NotifReadAll | NotifRead

fun serve_notifications ::
  "notif_env \<Rightarrow> notif_route \<Rightarrow> ctx \<Rightarrow> request \<Rightarrow> 'a notif_db_scheme
     \<Rightarrow> notif_body http_response \<times> 'a notif_db_scheme" where
  \<comment> \<open>\<open>RegisterRoutes\<close>: no route has a gate of its own\<close>
  "serve_notifications E NotifList c r w = notif_List E c r w"
| "serve_notifications E NotifUnreadCount c r w = notif_UnreadCount E c r w"
| "serve_notifications E NotifReadAll c r w = notif_MarkAllRead_handler E c r w"
| "serve_notifications E NotifRead c r w = notif_MarkRead_handler E c r w"

end
