(* ===== verification/Notif_Mail.thy ===== *)
theory Notif_Mail
  imports Notif_Service
begin

text \<open>
  \<open>internal/notifications/email.go\<close> as a state machine: requests that call \<open>Send\<close> run beside the
  goroutine \<open>run\<close>, which takes messages from the queue one at a time, and \<open>Stop\<close> closes a channel
  that \<open>run\<close> reads. A step is one channel operation; any interleaving of them is a run.
\<close>

section \<open>States and steps\<close>

text \<open>
  \<open>Disabled\<close>: \<open>Start\<close> returned because no host is set, or has not been called. \<open>Draining\<close>: \<open>run\<close> has
  seen the closed channel and is in the inner loop. \<open>ma_accepted\<close> and \<open>ma_delivered\<close> are the messages
  that \<open>Send\<close> has taken and those that were handed to \<open>smtp.SendMail\<close>, oldest first; \<open>ma_dropped\<close>
  counts the calls of \<open>Send\<close> that returned an error.
\<close>

datatype mail_phase = Disabled | Running | Draining | Exited

record mailer =
  ma_queue :: "emailMessage list"
  ma_phase :: mail_phase
  ma_stop :: bool
  ma_accepted :: "emailMessage list"
  ma_delivered :: "emailMessage list"
  ma_dropped :: nat

definition NewEmailSender :: mailer where
  "NewEmailSender =
     \<lparr>ma_queue = [], ma_phase = Disabled, ma_stop = False, ma_accepted = [], ma_delivered = [], ma_dropped = 0\<rparr>"

definition mail_Start :: "string \<Rightarrow> mailer \<Rightarrow> mailer" where
  "mail_Start host m = (if host = [] then m else m\<lparr>ma_phase := Running\<rparr>)"

definition mail_Send :: "string \<Rightarrow> emailMessage \<Rightarrow> mailer \<Rightarrow> go_error option \<times> mailer" where
  "mail_Send host msg m =
     (if host = [] then (None, m)
      else (case enqueue msg (ma_queue m) of
              (None, q) \<Rightarrow> (None, m\<lparr>ma_queue := q, ma_accepted := ma_accepted m @ [msg]\<rparr>)
            | (Some err, q) \<Rightarrow> (Some err, m\<lparr>ma_queue := q, ma_dropped := Suc (ma_dropped m)\<rparr>)))"

definition mail_Stop :: "mailer \<Rightarrow> mailer" where
  \<comment> \<open>\<open>close(s.stop)\<close>; the wait for the goroutine changes nothing\<close>
  "mail_Stop m = m\<lparr>ma_stop := True\<rparr>"

definition mail_receive :: "mailer \<Rightarrow> mailer option" where
  \<comment> \<open>\<open>case msg := <-s.queue: s.deliver(msg)\<close>, not enabled while the queue is empty\<close>
  "mail_receive m =
     (case ma_queue m of
        [] \<Rightarrow> None
      | msg # q \<Rightarrow> Some (m\<lparr>ma_queue := q, ma_delivered := ma_delivered m @ [msg]\<rparr>))"

inductive run_step :: "mailer \<Rightarrow> mailer \<Rightarrow> bool" where
  run_receive: "ma_phase m = Running \<Longrightarrow> mail_receive m = Some m' \<Longrightarrow> run_step m m'"
| run_stopped: "ma_phase m = Running \<Longrightarrow> ma_stop m \<Longrightarrow> run_step m (m\<lparr>ma_phase := Draining\<rparr>)"
| drain_receive: "ma_phase m = Draining \<Longrightarrow> mail_receive m = Some m' \<Longrightarrow> run_step m m'"
| drain_done: "ma_phase m = Draining \<Longrightarrow> ma_queue m = [] \<Longrightarrow> run_step m (m\<lparr>ma_phase := Exited\<rparr>)"

inductive mail_step :: "string \<Rightarrow> mailer \<Rightarrow> mailer \<Rightarrow> bool" for host where
  step_send: "mail_step host m (snd (mail_Send host msg m))"
| step_start: "ma_phase m = Disabled \<Longrightarrow> mail_step host m (mail_Start host m)"
| step_stop: "mail_step host m (mail_Stop m)"
| step_run: "run_step m m' \<Longrightarrow> mail_step host m m'"

inductive_cases run_stepE: "run_step m m'"

lemmas mail_ops = mail_Send_def mail_Start_def mail_Stop_def enqueue_def NewEmailSender_def

section \<open>What every run keeps\<close>

definition mail_inv :: "string \<Rightarrow> mailer \<Rightarrow> bool" where
  "mail_inv host m \<longleftrightarrow>
     ma_accepted m = ma_delivered m @ ma_queue m \<and> length (ma_queue m) \<le> mail_capacity \<and>
     (host = [] \<longrightarrow> ma_accepted m = [] \<and> ma_dropped m = 0) \<and> (ma_phase m = Draining \<longrightarrow> ma_stop m)"

lemma mail_receive_Some:
  "mail_receive m = Some m' \<longleftrightarrow>
     (\<exists>msg q. ma_queue m = msg # q \<and> m' = m\<lparr>ma_queue := q, ma_delivered := ma_delivered m @ [msg]\<rparr>)"
  by (auto simp: mail_receive_def split: list.splits)

lemma run_step_inv: "run_step m m' \<Longrightarrow> mail_inv host m \<Longrightarrow> mail_inv host m'"
  by (erule run_stepE) (auto simp: mail_receive_Some mail_inv_def)

lemma mail_step_inv: "mail_step host m m' \<Longrightarrow> mail_inv host m \<Longrightarrow> mail_inv host m'"
proof (induction rule: mail_step.induct)
  case (step_run m m')
  then show ?case using run_step_inv by blast
qed (auto simp: mail_ops mail_inv_def split: prod.splits)

lemma mail_run_inv: "(mail_step host)\<^sup>*\<^sup>* m m' \<Longrightarrow> mail_inv host m \<Longrightarrow> mail_inv host m'"
  by (induction rule: rtranclp_induct) (auto intro: mail_step_inv)

section \<open>The goroutine alone\<close>

fun drain_size :: "mailer \<Rightarrow> nat" where
  \<comment> \<open>how many steps the goroutine can still take when nobody calls \<open>Send\<close>\<close>
  "drain_size m = length (ma_queue m) + (case ma_phase m of Disabled \<Rightarrow> 0 | Running \<Rightarrow> 2 | Draining \<Rightarrow> 1 | Exited \<Rightarrow> 0)"

lemma run_step_decreases: "run_step m m' \<Longrightarrow> drain_size m' < drain_size m"
  by (erule run_stepE) (auto simp: mail_receive_Some)

lemma run_step_keeps: "run_step m m' \<Longrightarrow> ma_stop m' = ma_stop m \<and> ma_accepted m' = ma_accepted m"
  by (erule run_stepE) (auto simp: mail_receive_Some)

lemma run_step_exists:
  assumes "ma_phase m \<in> {Running, Draining}" "ma_stop m"
  shows "\<exists>m'. run_step m m'"
proof (cases "ma_phase m = Running")
  case True
  with assms(2) run_stopped show ?thesis by blast
next
  case False
  with assms(1) have d: "ma_phase m = Draining" by simp
  show ?thesis
  proof (cases "ma_queue m")
    case Nil
    with d drain_done show ?thesis by blast
  next
    case (Cons msg q)
    with d show ?thesis using drain_receive [OF d] mail_receive_Some [of m] by blast
  qed
qed

lemma run_phases: "run_step m m' \<Longrightarrow> ma_phase m' \<in> {Running, Draining, Exited} \<and> (ma_phase m' = Exited \<longrightarrow> ma_queue m' = [])"
  by (erule run_stepE) (auto simp: mail_receive_Some)

lemma drains:
  assumes "ma_phase m \<in> {Running, Draining}" "ma_stop m"
  shows "\<exists>m'. run_step\<^sup>*\<^sup>* m m' \<and> ma_phase m' = Exited \<and> ma_queue m' = [] \<and> ma_accepted m' = ma_accepted m"
  using assms
proof (induction "drain_size m" arbitrary: m rule: less_induct)
  case less
  obtain m1 where m1: "run_step m m1" using run_step_exists less.prems by blast
  note k = run_step_keeps [OF m1] run_phases [OF m1]
  show ?case
  proof (cases "ma_phase m1 = Exited")
    case True
    with m1 k show ?thesis by (intro exI [of _ m1]) auto
  next
    case False
    then obtain m' where "run_step\<^sup>*\<^sup>* m1 m'" "ma_phase m' = Exited" "ma_queue m' = []"
        "ma_accepted m' = ma_accepted m1"
      using less.hyps [OF run_step_decreases [OF m1]] k less.prems(2) by auto
    moreover from this(1) m1 have "run_step\<^sup>*\<^sup>* m m'" by (rule converse_rtranclp_into_rtranclp [rotated])
    ultimately show ?thesis using k by auto
  qed
qed

lemma mail_queue_facts:
  assumes "(mail_step host)\<^sup>*\<^sup>* NewEmailSender m"
  shows "ma_accepted m = ma_delivered m @ ma_queue m" "length (ma_queue m) \<le> 256"
    and "host = [] \<Longrightarrow> ma_accepted m = []"
    and "ma_phase m \<in> {Running, Draining} \<Longrightarrow> ma_stop m \<Longrightarrow>
      (\<exists>m'. run_step\<^sup>*\<^sup>* m m' \<and> ma_phase m' = Exited) \<and>
      (\<forall>m' n. (run_step ^^ n) m m' \<longrightarrow> n \<le> length (ma_queue m) + 2 \<and>
         (ma_phase m' = Exited \<longrightarrow> ma_delivered m' = ma_accepted m))"
proof -
  have i: "mail_inv host m"
    by (rule mail_run_inv [OF assms]) (simp add: mail_inv_def NewEmailSender_def)
  show "ma_accepted m = ma_delivered m @ ma_queue m" "length (ma_queue m) \<le> 256"
    using i by (simp_all add: mail_inv_def mail_capacity_def)
  show "ma_accepted m = []" if "host = []" using i that unfolding mail_inv_def by blast
  assume p: "ma_phase m \<in> {Running, Draining}" "ma_stop m"
  have steps: "n + drain_size m' \<le> drain_size m \<and> ma_accepted m' = ma_accepted m \<and> mail_inv host m' \<and>
      (ma_phase m' = Exited \<longrightarrow> ma_queue m' = [])" if "(run_step ^^ n) m m'" for n m'
    using that
  proof (induction n arbitrary: m')
    case (Suc n)
    then obtain m1 where "(run_step ^^ n) m m1" "run_step m1 m'" by auto
    with Suc.IH [of m1] show ?case
      using run_step_decreases [of m1 m'] run_step_keeps [of m1 m'] run_phases [of m1 m'] run_step_inv [of m1 m' host]
      by auto
  qed (use i p in auto)
  have "drain_size m \<le> length (ma_queue m) + 2" by (cases "ma_phase m") auto
  with steps drains [OF p] show "(\<exists>m'. run_step\<^sup>*\<^sup>* m m' \<and> ma_phase m' = Exited) \<and>
      (\<forall>m' n. (run_step ^^ n) m m' \<longrightarrow> n \<le> length (ma_queue m) + 2 \<and>
         (ma_phase m' = Exited \<longrightarrow> ma_delivered m' = ma_accepted m))"
    by (fastforce simp: mail_inv_def)
qed


definition sample_mail :: emailMessage where
  "sample_mail = \<lparr>em_To = ''a@b'', em_Subject = ''S'', em_HTMLBody = ''H'', em_TextBody = ''T''\<rparr>"


section \<open>The text of a message\<close>

lemma sanitizeHeader_no_break: "CHR 0x0D \<notin> set (sanitizeHeader s)" "CHR 0x0A \<notin> set (sanitizeHeader s)"
  by (auto simp: sanitizeHeader_def)

lemma split_lines:
  "\<forall>l \<in> set ls. CHR 0x0A \<notin> set l \<Longrightarrow>
     split_byte (CHR 0x0A) (concat (map (\<lambda>l. l @ CRLF) ls)) = map (\<lambda>l. l @ [CHR 0x0D]) ls @ [[]]"
proof (induction ls)
  case (Cons l ls)
  then show ?case
    using split_byte_append [of "CHR 0x0A" "l @ [CHR 0x0D]" "concat (map (\<lambda>l. l @ CRLF) ls)"]
    by (simp add: CRLF_def)
qed simp

text \<open>
  Whatever the recipient and the subject contain, the header of a message is five lines: no text
  of an event can add a header line or start the body.
\<close>

lemma email_header_lines:
  assumes "CHR 0x0A \<notin> set boundary"
  shows "split_byte (CHR 0x0A) (email_headers boundary sender msg) =
    [''From: '' @ sanitizeHeader sender @ [CHR 0x0D], ''To: '' @ sanitizeHeader (em_To msg) @ [CHR 0x0D],
     ''Subject: '' @ sanitizeHeader (em_Subject msg) @ [CHR 0x0D], ''MIME-Version: 1.0'' @ [CHR 0x0D],
     ''Content-Type: multipart/alternative; boundary='' @ [CHR 0x22] @ boundary @ [CHR 0x22, CHR 0x0D], []]"
  using assms split_lines [of "[''From: '' @ sanitizeHeader sender, ''To: '' @ sanitizeHeader (em_To msg),
      ''Subject: '' @ sanitizeHeader (em_Subject msg), ''MIME-Version: 1.0'',
      ''Content-Type: multipart/alternative; boundary='' @ [CHR 0x22] @ boundary @ [CHR 0x22]]"]
  by (simp add: email_headers_def sanitizeHeader_no_break)

end
