(* ===== verification/Notif_Props.thy ===== *)
theory Notif_Props
  imports Notif_Mail
begin

text \<open>
  What the notifications component guarantees: who is told about an event, what a user can read and
  change, and that a client which follows the pages of its notifications gets them all and stops.
\<close>

section \<open>Reading pages\<close>

text \<open>
  The rows of the table: their identifiers are unique and their instants are as the column returns
  them and between 1970 and 9999.
\<close>

definition notif_rows_ok :: "go_lib \<Rightarrow> Notification list \<Rightarrow> bool" where
  "notif_rows_ok L rows \<longleftrightarrow> distinct (map nt_ID rows) \<and>
     (\<forall>n \<in> set rows. time_1970_9999 (nt_CreatedAt n) \<and> lib_col_time L (nt_CreatedAt n) = nt_CreatedAt n)"

lemma notif_limit_bounds: "1 \<le> notif_limit l \<and> notif_limit l \<le> 100"
  by (simp add: notif_limit_def Let_def)

lemma take_notif_page: "0 \<le> l \<Longrightarrow> xs = notif_page u cur (nat (l + 1)) rows \<Longrightarrow>
    (if int (length xs) > l then take (nat l) xs else xs) = notif_page u cur (nat l) rows"
  by (auto simp: notif_page_def min_def nat_add_distrib)

lemma ListByUser_page:
  assumes "no_faults w" "pg_uuid L user = Some u"
    and "(if cursor = [] then Inr None else map_sum id Some (notif_decodeCursor L cursor)) = Inr cur"
    and "map_option (map_prod (lib_col_time L) id) cur = cur"
  shows "\<exists>w'. ListByUser L user limit cursor w =
      (Inr (notif_page u cur (nat (notif_limit limit)) (notifications w),
            int (length (filter (\<lambda>n. nt_UserID n = u) (notifications w)))), w') \<and> only_ticks w w'"
proof -
  let ?l = "notif_limit limit"
  let ?xs = "notif_page u cur (nat (?l + 1)) (notifications w)"
  obtain w' where q: "query_rows (wrapf ''query notifications'') (wrapf ''scan notification'')
      (wrapf ''iterate notifications'') ?xs (tick w) = (Inr ?xs, w')"
    using query_rows_no_faults [of "tick w"] assms(1) by (metis no_faults_tick prod.collapse)
  have l: "0 \<le> ?l" using notif_limit_bounds [of limit] by simp
  have "user_arg L user w = Inr u" by (simp add: user_arg_def fault_none [OF assms(1)] assms(2))
  then show ?thesis
    using q take_notif_page [OF l refl] query_rows_ticks [OF q]
    unfolding ListByUser_def Let_def assms(3) by (auto simp: assms(4) intro: only_ticks_from_tick)
qed

definition page_request :: "int \<Rightarrow> string \<Rightarrow> request" where
  \<comment> \<open>\<open>GET /api/notifications?limit=...&cursor=...\<close>\<close>
  "page_request limit cursor =
     \<lparr>req_method = ''GET'', req_path = ''/api/notifications'', req_header = (\<lambda>h. []),
      req_query = (\<lambda>q. if q = ''limit'' then itoa limit else if q = ''cursor'' then cursor else []),
      req_param = (\<lambda>p. []), req_remote_addr = [], req_body = []\<rparr>"

fun follow_notifications ::
  "nat \<Rightarrow> notif_env \<Rightarrow> ctx \<Rightarrow> int \<Rightarrow> string \<Rightarrow> 'a notif_db_scheme \<Rightarrow> Notification list option" where
  \<comment> \<open>a client that asks for the next page while the answer says \<open>has_more\<close> and gives a cursor;
    \<open>None\<close> when a request fails or the number of requests is used up\<close>
  "follow_notifications 0 E c limit cursor w = None"
| "follow_notifications (Suc n) E c limit cursor w =
     (case serve_notifications E NotifList c (page_request limit cursor) w of
        (RespondPaginated st (BodyNotifications items) total_count next_cursor more_pages, w1) \<Rightarrow>
          if more_pages \<and> next_cursor \<noteq> [] then
            map_option ((@) items) (follow_notifications n E c limit next_cursor w1)
          else Some items
      | _ \<Rightarrow> None)"

lemma page_request_limit: "0 < limit \<Longrightarrow> limit < 2 ^ 63 \<Longrightarrow> query_limit d (page_request limit cursor) = limit"
  using Atoi_itoa [of limit] by (simp add: query_limit_def page_request_def itoa_def nat_digits_ne)

lemma notif_List_page:
  assumes "no_faults w" "GetAuthContext c = Some ac" "pg_uuid (nv_lib E) (UserID ac) = Some u"
    and "0 < limit" "limit < 2 ^ 63"
    and "(if cursor = [] then Inr None else map_sum id Some (notif_decodeCursor (nv_lib E) cursor)) = Inr cur"
    and "map_option (map_prod (lib_col_time (nv_lib E)) id) cur = cur"
    and "p = notif_page u cur (nat (notif_limit limit)) (notifications w)"
  shows "\<exists>w' t. serve_notifications E NotifList c (page_request limit cursor) w =
    (RespondPaginated 200 (BodyNotifications p) t
       (if int (length p) = limit \<and> p \<noteq> [] then notif_EncodeCursor (nv_lib E) (notif_key (last p)) else [])
       (int (length p) = limit), w') \<and> only_ticks w w'"
proof -
  obtain w' where l: "ListByUser (nv_lib E) (UserID ac) limit cursor w =
      (Inr (p, int (length (filter (\<lambda>n. nt_UserID n = u) (notifications w)))), w')" "only_ticks w w'"
    using ListByUser_page [OF assms(1,3,6,7)] assms(8) by blast
  have "req_query (page_request limit cursor) ''cursor'' = cursor" by (simp add: page_request_def)
  with l assms(2) show ?thesis
    by (simp add: notif_List_def GetUserNotifications_def page_request_limit [OF assms(4,5)] Let_def)
qed

lemma page_in_table: "x \<in> set (notif_page u cur n rows) \<Longrightarrow> x \<in> set rows \<and> nt_UserID x = u"
  by (auto simp: notif_page_def dest!: in_set_takeD)

lemma follow_is_keyset:
  assumes "cursor_lib_ok (nv_lib E)" "GetAuthContext c = Some ac" "pg_uuid (nv_lib E) (UserID ac) = Some u"
    and "notif_rows_ok (nv_lib E) rows" "0 < limit" "limit \<le> 100"
    and "no_faults w" "notifications w = rows"
    and "(if cursor = [] then Inr None else map_sum id Some (notif_decodeCursor (nv_lib E) cursor)) = Inr cur"
    and "map_option (map_prod (lib_col_time (nv_lib E)) id) cur = cur"
  shows "follow_notifications n E c limit cursor w =
    keyset_follow (\<lambda>cur n. notif_page u cur n rows) notif_key (nat limit) n cur"
  using assms(7-10)
proof (induction n arbitrary: w cursor cur)
  case (Suc n)
  let ?p = "notif_page u cur (nat limit) rows"
  have lim: "notif_limit limit = limit" "limit < 2 ^ 63" using assms(5,6) by (simp_all add: notif_limit_def)
  obtain w' t where s: "serve_notifications E NotifList c (page_request limit cursor) w =
      (RespondPaginated 200 (BodyNotifications ?p) t
        (if int (length ?p) = limit \<and> ?p \<noteq> [] then notif_EncodeCursor (nv_lib E) (notif_key (last ?p)) else [])
        (int (length ?p) = limit), w')" "only_ticks w w'"
    using notif_List_page [OF Suc.prems(1) assms(2,3,5) lim(2) Suc.prems(3,4) refl] lim(1) Suc.prems(2) by auto
  show ?case
  proof (cases "length ?p = nat limit \<and> ?p \<noteq> []")
    case True
    let ?k = "notif_key (last ?p)"
    have len: "int (length ?p) = limit" using True assms(5) by simp
    have "last ?p \<in> set rows" using True page_in_table last_in_set by blast
    then have k: "time_1970_9999 (fst ?k)" "lib_col_time (nv_lib E) (fst ?k) = fst ?k"
      using assms(4) by (auto simp: notif_rows_ok_def notif_key_def)
    note c = notif_cursor.cursor_of_key [OF assms(1) k(1)]
    have w': "no_faults w'" "notifications w' = rows"
      using s(2) Suc.prems(1,2) by (simp_all add: only_ticks_no_faults notif_only_ticks)
    have "follow_notifications n E c limit (notif_EncodeCursor (nv_lib E) ?k) w' =
        keyset_follow (\<lambda>cur n. notif_page u cur n rows) notif_key (nat limit) n (Some ?k)"
      by (rule Suc.IH [OF w' c]) (simp add: k(2) prod_eq_iff)
    with s True len notif_cursor.enc_ne [OF assms(1) k(1)] show ?thesis by (simp add: Let_def)
  next
    case False
    with s assms(5) show ?thesis by (auto simp: Let_def)
  qed
qed simp

lemma user_notifications_distinct:
  "distinct (map nt_ID rows) \<Longrightarrow> distinct (map notif_key (user_notifications u rows))"
  by (auto simp: user_notifications_def rev_map [symmetric] distinct_map inj_on_def notif_key_def)

lemma user_notifications_length: "length (user_notifications u rows) = length (filter (\<lambda>n. nt_UserID n = u) rows)"
  by (simp add: user_notifications_def)

text \<open>
  C31: A client that reads its notifications page by page stops after at most one request more than it
  has notifications. With a limit of up to 100 it has then received every one of its notifications
  exactly once, newest first; with a larger limit it stops after the first page and has received
  only the newest 100, because the repository caps the page while the handler compares the length
  of the page with the limit that was asked for.
\<close>

theorem notification_pages_end:
  assumes "no_faults w" "cursor_lib_ok (nv_lib E)" "notif_rows_ok (nv_lib E) (notifications w)"
    and "GetAuthContext c = Some ac" "pg_uuid (nv_lib E) (UserID ac) = Some u"
    and "0 < limit" "limit < 2 ^ 63"
    and "length (filter (\<lambda>n. nt_UserID n = u) (notifications w)) < n"
  shows "follow_notifications n E c limit [] w =
    Some (if limit \<le> 100 then user_notifications u (notifications w)
          else take 100 (user_notifications u (notifications w)))"
proof (cases "limit \<le> 100")
  case True
  have "distinct (map notif_key (user_notifications u (notifications w)))"
    using assms(3) user_notifications_distinct by (simp add: notif_rows_ok_def)
  then have "keyset_follow (\<lambda>cur n. notif_page u cur n (notifications w)) notif_key (nat limit) n None =
      Some (user_notifications u (notifications w))"
    using notif_pages.follow_complete assms(6,8) by (simp add: user_notifications_length)
  with True follow_is_keyset [OF assms(2,4,5,3,6) True assms(1) refl, of "[]" None n] show ?thesis by simp
next
  case False
  let ?p = "take 100 (user_notifications u (notifications w))"
  have "notif_limit limit = 100" using False by (simp add: notif_limit_def)
  then have p: "?p = notif_page u None (nat (notif_limit limit)) (notifications w)"
    by (simp add: notif_page_after)
  obtain m where m: "n = Suc m" using assms(8) by (cases n) auto
  have e: "(if ([] :: string) = [] then Inr None else map_sum id Some (notif_decodeCursor (nv_lib E) [])) = Inr None"
    by simp
  obtain w' t where "serve_notifications E NotifList c (page_request limit []) w =
      (RespondPaginated 200 (BodyNotifications ?p) t
        (if int (length ?p) = limit \<and> ?p \<noteq> [] then notif_EncodeCursor (nv_lib E) (notif_key (last ?p)) else [])
        (int (length ?p) = limit), w')"
    using notif_List_page [OF assms(1,4-7) e _ p] by auto
  with False m show ?thesis by auto
qed

definition sample_notif_db :: "(nat \<Rightarrow> string option) \<Rightarrow> CaseRoleRow list \<Rightarrow> Notification list \<Rightarrow> notif_db" where
  "sample_notif_db faults roles rows =
     \<lparr>w_tick = 0, w_fault = faults, w_now = (\<lambda>n. 1000 * int n), w_uuid = (\<lambda>n. of_nat n + 100),
      custody_log = [], cases_table = [], case_roles = roles, notifications = rows, mail_queue = []\<rparr>"

definition sample_notification :: "uuid \<Rightarrow> uuid \<Rightarrow> time \<Rightarrow> Notification" where
  "sample_notification k user t =
     \<lparr>nt_ID = k, nt_CaseID = None, nt_UserID = user, nt_Type = EventBackupFailed, nt_Title = ''T'',
      nt_Body = ''B'', nt_Read = False, nt_CreatedAt = t\<rparr>"

definition sample_notif_env :: "string list \<Rightarrow> notif_env" where
  "sample_notif_env admins =
     \<lparr>nv_lib = sample_lib, nv_distinct = remdups, nv_admins = admins, nv_resolver = None, nv_host = []\<rparr>"

definition sample_user :: ctx where
  "sample_user =
     \<lparr>authContextKey = Some \<lparr>UserID = ''5'', Email = [], Username = ''U'', SystemRole = RoleUser,
        TokenExpiry = 100, SessionID = [], IPAddress = ''10.0.0.1''\<rparr>, caseRoleKey = None\<rparr>"

lemma sample_notif_sel [simp]:
  "no_faults (sample_notif_db (\<lambda>n. None) roles rows)" "notifications (sample_notif_db fs roles rows) = rows"
  "case_roles (sample_notif_db fs roles rows) = roles" "cases_table (sample_notif_db fs roles rows) = []"
  "nv_lib (sample_notif_env admins) = sample_lib" "nv_admins (sample_notif_env admins) = admins"
  "nv_distinct (sample_notif_env admins) = remdups" "nv_resolver (sample_notif_env admins) = None"
  "w_uuid (sample_notif_db fs roles rows) n = of_nat n + 100" "w_tick (sample_notif_db fs roles rows) = 0"
  by (simp_all add: sample_notif_db_def sample_notif_env_def no_faults_def)

lemma sample_notification_sel [simp]:
  "nt_ID (sample_notification k u t) = k" "nt_UserID (sample_notification k u t) = u"
  by (simp_all add: sample_notification_def)

lemma sample_pg_uuid: "pg_uuid sample_lib ''5'' = Some 5" "pg_uuid sample_lib ''7'' = Some 7"
  by (simp_all add: pg_uuid_def sample_lib_def sample_uuid_parse_def digits_value_def)

theorem notification_pages_end_witness:
  "follow_notifications 4 (sample_notif_env []) sample_user 1 []
     (sample_notif_db (\<lambda>n. None) []
        [sample_notification 1 5 1000, sample_notification 2 7 2000, sample_notification 3 5 3000]) =
   Some [sample_notification 3 5 3000, sample_notification 1 5 1000]"
proof -
  let ?rows = "[sample_notification 1 5 1000, sample_notification 2 7 2000, sample_notification 3 5 3000]"
  have ok: "notif_rows_ok sample_lib ?rows"
    by (simp add: notif_rows_ok_def sample_notification_def time_1970_9999_def sample_lib_def)
  have all: "user_notifications 5 ?rows = [sample_notification 3 5 3000, sample_notification 1 5 1000]"
    by (simp add: user_notifications_def sample_notification_def notif_key_def less_eq_prod_def)
  show ?thesis
    using notification_pages_end [of "sample_notif_db (\<lambda>n. None) [] ?rows" "sample_notif_env []" sample_user
        "\<lparr>UserID = ''5'', Email = [], Username = ''U'', SystemRole = RoleUser, TokenExpiry = 100, SessionID = [],
          IPAddress = ''10.0.0.1''\<rparr>" 5 1 4]
      cursor_lib_ok_sample ok sample_pg_uuid
    by (simp add: all sample_user_def GetAuthContext_def)
qed

section \<open>What a user can read and change\<close>

definition read_by :: "uuid option \<Rightarrow> Notification \<Rightarrow> Notification \<Rightarrow> bool" where
  "read_by user n n' \<longleftrightarrow> n' = n \<or> (Some (nt_UserID n) = user \<and> n' = n\<lparr>nt_Read := True\<rparr>)"

lemma read_by_refl: "list_all2 (read_by user) rows rows"
  by (simp add: list_all2_refl read_by_def)

lemma set_read_by:
  "(\<And>n. hit n \<Longrightarrow> Some (nt_UserID n) = user) \<Longrightarrow> list_all2 (read_by user) rows (set_read hit rows)"
  by (simp add: set_read_def list_all2_conv_all_nth read_by_def)

lemma user_arg_ok: "user_arg L userID w = Inr u \<Longrightarrow> pg_uuid L userID = Some u"
  by (auto simp: user_arg_def split: option.splits)

lemma ListByUser_frame:
  assumes "ListByUser L userID limit cursor w = (r, w')"
  shows "only_ticks w w'" "r = Inr (items, t) \<Longrightarrow> x \<in> set items \<Longrightarrow> x \<in> set (notifications w) \<and> pg_uuid L userID = Some (nt_UserID x)"
proof -
  show "only_ticks w w'"
    using assms by (auto simp: ListByUser_def Let_def split: sum.splits prod.splits
        dest!: query_rows_ticks intro: only_ticks_from_tick)
  assume "r = Inr (items, t)" "x \<in> set items"
  with assms obtain u cur n where "user_arg L userID w = Inr u" "x \<in> set (notif_page u cur n (notifications w))"
    by (auto simp: ListByUser_def Let_def split: sum.splits prod.splits if_splits
        dest!: query_rows_ok in_set_takeD)
  then show "x \<in> set (notifications w) \<and> pg_uuid L userID = Some (nt_UserID x)"
    using page_in_table user_arg_ok by fastforce
qed

lemma served_privately:
  assumes "serve_notifications E route c r w = (resp, w')" "GetAuthContext c = Some ac"
  shows "list_all2 (read_by (pg_uuid (nv_lib E) (UserID ac))) (notifications w) (notifications w')"
    and "resp = RespondPaginated s (BodyNotifications items) t cur more_pages \<Longrightarrow> n \<in> set items \<Longrightarrow>
      n \<in> set (notifications w) \<and> pg_uuid (nv_lib E) (UserID ac) = Some (nt_UserID n)"
proof -
  let ?u = "pg_uuid (nv_lib E) (UserID ac)"
  show "list_all2 (read_by ?u) (notifications w) (notifications w')"
  proof (cases route)
    case NotifList
    with assms show ?thesis
      by (auto simp: notif_List_def GetUserNotifications_def Let_def read_by_refl notif_only_ticks
          split: prod.splits sum.splits dest!: ListByUser_frame(1))
  next
    case NotifUnreadCount
    with assms show ?thesis
      by (auto simp: notif_UnreadCount_def GetUnreadCount_def notif_GetUnreadCount_def read_by_refl
          split: prod.splits sum.splits)
  next
    case NotifReadAll
    with assms show ?thesis
      by (auto simp: notif_MarkAllRead_handler_def MarkAllRead_def notif_MarkAllRead_def read_by_refl
          split: prod.splits sum.splits option.splits intro!: set_read_by dest: user_arg_ok)
  next
    case NotifRead
    with assms show ?thesis
      by (auto simp: notif_MarkRead_handler_def MarkRead_def notif_MarkRead_def read_by_refl Let_def
          split: prod.splits sum.splits option.splits if_splits intro!: set_read_by dest: user_arg_ok)
  qed
  assume r: "resp = RespondPaginated s (BodyNotifications items) t cur more_pages" "n \<in> set items"
  then have "route = NotifList"
    using assms by (cases route) (auto simp: notif_UnreadCount_def notif_MarkAllRead_handler_def
        notif_MarkRead_handler_def split: prod.splits sum.splits option.splits if_splits)
  with assms r obtain total_count w1 where
    "ListByUser (nv_lib E) (UserID ac) (query_limit 25 r) (req_query r ''cursor'') w = (Inr (items, total_count), w1)"
    by (auto simp: notif_List_def GetUserNotifications_def Let_def split: prod.splits sum.splits)
  then show "n \<in> set (notifications w) \<and> ?u = Some (nt_UserID n)"
    using ListByUser_frame(2) r(2) by blast
qed

text \<open>
  C28: Whatever a request to one of the four routes contains and whichever statement fails, every
  notification in the answer belongs to the caller, and the only thing that can have changed in the
  table is that notifications of the caller are marked as read.
\<close>

theorem notifications_private:
  assumes "serve_notifications E route c r w = (resp, w')" "GetAuthContext c = Some ac"
  shows "list_all2 (read_by (pg_uuid (nv_lib E) (UserID ac))) (notifications w) (notifications w') \<and>
    (\<forall>status items count cur more_pages. resp = RespondPaginated status (BodyNotifications items) count cur more_pages \<longrightarrow>
       (\<forall>n \<in> set items. n \<in> set (notifications w) \<and> pg_uuid (nv_lib E) (UserID ac) = Some (nt_UserID n)))"
  using served_privately [OF assms] by blast

theorem notifications_private_witness:
  "\<exists>w'. serve_notifications (sample_notif_env []) NotifRead sample_user
       ((page_request 1 [])\<lparr>req_param := (\<lambda>p. ''2'')\<rparr>)
       (sample_notif_db (\<lambda>n. None) [] [sample_notification 2 7 2000]) =
       (RespondError 403 ''notification not found or does not belong to you'', w') \<and>
     list_all2 (read_by (Some 5)) [sample_notification 2 7 2000] (notifications w')"
proof -
  let ?w = "sample_notif_db (\<lambda>n. None) [] [sample_notification 2 7 2000]"
  let ?r = "(page_request 1 [])\<lparr>req_param := (\<lambda>p. ''2'')\<rparr>"
  have p: "lib_uuid_parse sample_lib ''2'' = Inr 2"
    by (simp add: sample_lib_def sample_uuid_parse_def digits_value_def)
  obtain w' where s: "serve_notifications (sample_notif_env []) NotifRead sample_user ?r ?w =
      (RespondError 403 ''notification not found or does not belong to you'', w')"
    by (simp add: notif_MarkRead_handler_def MarkRead_def notif_MarkRead_def user_arg_def fault_none sample_pg_uuid p
        sample_user_def GetAuthContext_def Let_def notif_ErrNotFound_def)
  from notifications_private [OF s, of "\<lparr>UserID = ''5'', Email = [], Username = ''U'', SystemRole = RoleUser,
      TokenExpiry = 100, SessionID = [], IPAddress = ''10.0.0.1''\<rparr>"] s sample_pg_uuid
  show ?thesis by (auto simp: sample_user_def GetAuthContext_def)
qed

section \<open>Who is told\<close>

lemma dedup_loop_spec:
  "set (dedup_loop seen ss) = set ss - seen \<and> distinct (dedup_loop seen ss)"
  by (induction seen ss rule: dedup_loop.induct) auto

lemma deduplicateStrings_spec: "set (deduplicateStrings ss) = set ss" "distinct (deduplicateStrings ss)"
  using dedup_loop_spec [of "{}" ss] by (simp_all add: deduplicateStrings_def)

definition case_users :: "uuid \<Rightarrow> CaseRoleRow list \<Rightarrow> string set" where
  "case_users k rows = {cr_UserID r | r. r \<in> set rows \<and> cr_CaseID r = k}"

definition told :: "notif_env \<Rightarrow> NotifEvent \<Rightarrow> CaseRoleRow list \<Rightarrow> string set" where
  \<comment> \<open>whom an event concerns\<close>
  "told E event rows =
     (if ne_Type event \<in> {EventEvidenceUploaded, EventLegalHoldChanged} then case_users (ne_CaseID event) rows
      else if ne_Type event = EventUserAddedToCase then {ne_TargetUserID event}
      else if ne_Type event = EventIntegrityWarning then set (nv_admins E) \<union> case_users (ne_CaseID event) rows
      else if ne_Type event \<in> {EventRetentionExpiring, EventBackupFailed} then set (nv_admins E)
      else {})"

definition distinct_ok :: "(string list \<Rightarrow> string list) \<Rightarrow> bool" where
  "distinct_ok f \<longleftrightarrow> (\<forall>xs. set (f xs) = set xs \<and> distinct (f xs))"

lemma GetCaseUserIDs_calm:
  assumes "no_faults w" "distinct_ok f"
  shows "\<exists>us w1. GetCaseUserIDs f k w = (Inr us, w1) \<and> set us = case_users k (case_roles w) \<and> distinct us \<and>
    only_ticks w w1"
proof -
  obtain w1 where "GetCaseUserIDs f k w = (Inr (f (map cr_UserID (filter (\<lambda>r. cr_CaseID r = k) (case_roles w)))), w1)"
    unfolding GetCaseUserIDs_def using query_rows_no_faults [OF assms(1)] by (metis prod.collapse)
  then show ?thesis
    using assms(2) query_rows_ticks [of _ _ _ _ w "Inr _" w1]
    by (auto simp: distinct_ok_def case_users_def GetCaseUserIDs_def)
qed

lemma resolve_calm:
  assumes "no_faults w" "distinct_ok (nv_distinct E)"
    and "ne_Type event = EventUserAddedToCase \<Longrightarrow> ne_TargetUserID event \<noteq> []"
  shows "\<exists>rs w1. resolveRecipients E event w = (Inr rs, w1) \<and> set rs = told E event (case_roles w) \<and>
    (distinct (nv_admins E) \<longrightarrow> distinct rs) \<and> only_ticks w w1"
proof -
  obtain us w1 where u: "GetCaseUserIDs (nv_distinct E) (ne_CaseID event) w = (Inr us, w1)"
      "set us = case_users (ne_CaseID event) (case_roles w)" "distinct us" "only_ticks w w1"
    using GetCaseUserIDs_calm [OF assms(1,2)] by blast
  show ?thesis
    using u assms(3) by (auto simp: resolveRecipients_def told_def event_defs deduplicateStrings_spec)
qed

definition valid_ids :: "go_lib \<Rightarrow> string list \<Rightarrow> uuid list" where
  "valid_ids L us = concat (map (\<lambda>u. case lib_uuid_parse L u of Inl err \<Rightarrow> [] | Inr k \<Rightarrow> [k]) us)"

definition tells :: "NotifEvent \<Rightarrow> Notification \<Rightarrow> bool" where
  "tells event n \<longleftrightarrow> nt_Type n = ne_Type event \<and> nt_Title n = ne_Title event \<and> nt_Body n = ne_Body event \<and>
     \<not> nt_Read n \<and> nt_CaseID n = (if ne_CaseID event = uuid_Nil then None else Some (ne_CaseID event))"

definition fresh_ids :: "'a notif_db_scheme \<Rightarrow> nat \<Rightarrow> bool" where
  \<comment> \<open>the UUIDs drawn up to tick \<open>n\<close> are new and none is drawn twice\<close>
  "fresh_ids w n \<longleftrightarrow> inj_on (w_uuid w) {w_tick w..n} \<and>
     (\<forall>m \<in> {w_tick w..n}. w_uuid w m \<notin> nt_ID ` set (notifications w))"

definition same_deployment :: "'a notif_db_scheme \<Rightarrow> 'a notif_db_scheme \<Rightarrow> bool" where
  "same_deployment w w' \<longleftrightarrow> w_fault w' = w_fault w \<and> w_uuid w' = w_uuid w \<and> cases_table w' = cases_table w \<and>
     case_roles w' = case_roles w \<and> w_tick w \<le> w_tick w'"

lemma same_deployment_tick: "same_deployment w (tick w)"
  by (simp add: same_deployment_def tick_def)

lemma notify_email_frame: "same_deployment w (notify_email E event u w) \<and> notifications (notify_email E event u w) = notifications w"
  by (auto simp: notify_email_def email_Send_def Let_def same_deployment_def tick_def
      split: option.splits sum.splits prod.splits)

lemma notif_Create_frame: "notif_Create L n w = (r, w') \<Longrightarrow> same_deployment w w' \<and> w_tick w' = Suc (w_tick w)"
  by (auto simp: notif_Create_def same_deployment_def split: option.splits if_splits)

lemma same_deployment_trans: "same_deployment u v \<Longrightarrow> same_deployment v w \<Longrightarrow> same_deployment u w"
  by (auto simp: same_deployment_def)

lemma notify_user_frame: "same_deployment w (notify_user E event u w)"
proof (cases "lib_uuid_parse (nv_lib E) u")
  case (Inr k)
  obtain r w1 where c: "notif_Create (nv_lib E) (new_notification event k w) w = (r, w1)" by fastforce
  then show ?thesis
    using notif_Create_frame [OF c] notify_email_frame [of w1 E event u] same_deployment_trans Inr
    by (auto simp: notify_user_def split: option.splits)
qed (simp add: notify_user_def same_deployment_def)

lemma notify_fold_frame: "same_deployment w (fold (notify_user E event) us w)"
proof (induction us arbitrary: w)
  case (Cons u us)
  then show ?case using notify_user_frame same_deployment_trans by fastforce
qed (simp add: same_deployment_def)

lemma notify_user_calm:
  assumes "no_faults w" "ne_CaseID event = uuid_Nil \<or> find_case (ne_CaseID event) (cases_table w) \<noteq> None"
    and "w_uuid w (w_tick w) \<notin> nt_ID ` set (notifications w)"
  shows "\<exists>new. notifications (notify_user E event u w) = notifications w @ new \<and>
    map nt_UserID new = valid_ids (nv_lib E) [u] \<and> (\<forall>n \<in> set new. tells event n) \<and>
    (new \<noteq> [] \<longrightarrow> map nt_ID new = [w_uuid w (w_tick w)] \<and> w_tick w < w_tick (notify_user E event u w))"
proof (cases "lib_uuid_parse (nv_lib E) u")
  case (Inr k)
  let ?n = "new_notification event k w"
  have i: "nt_ID ?n \<notin> set (map nt_ID (notifications w))" using assms(3) by (simp add: new_notification_def new_uuid_def)
  have c: "\<not> (\<exists>k \<in> set_option (nt_CaseID ?n). find_case k (cases_table w) = None)"
    using assms(2) by (auto simp: new_notification_def)
  let ?row = "?n\<lparr>nt_CreatedAt := lib_col_time (nv_lib E) (nt_CreatedAt ?n)\<rparr>"
  let ?w1 = "(tick w)\<lparr>notifications := notifications w @ [?row]\<rparr>"
  have "notif_Create (nv_lib E) ?n w = (None, ?w1)"
    unfolding notif_Create_def fault_none [OF assms(1)] option.case by (simp only: i c if_False)
  then have "notify_user E event u w = notify_email E event u ?w1" by (simp add: notify_user_def Inr)
  moreover have "w_tick w < w_tick (notify_email E event u ?w1)"
    using notify_email_frame [of ?w1 E event u] by (simp add: same_deployment_def)
  ultimately show ?thesis
    using notify_email_frame [of ?w1 E event u]
    by (simp add: Inr valid_ids_def tells_def) (simp add: new_notification_def new_uuid_def)
qed (simp add: notify_user_def valid_ids_def)

lemma notify_fold_calm:
  assumes "no_faults w" "ne_CaseID event = uuid_Nil \<or> find_case (ne_CaseID event) (cases_table w) \<noteq> None"
    and "fresh_ids w n" "w_tick (fold (notify_user E event) us w) \<le> n"
  shows "\<exists>new. notifications (fold (notify_user E event) us w) = notifications w @ new \<and>
    map nt_UserID new = valid_ids (nv_lib E) us \<and> (\<forall>x \<in> set new. tells event x)"
  using assms
proof (induction us arbitrary: w)
  case (Cons u us)
  let ?w1 = "notify_user E event u w"
  have f: "same_deployment w ?w1" by (rule notify_user_frame)
  have le: "w_tick ?w1 \<le> n"
    using Cons.prems(4) notify_fold_frame [of ?w1 E event us] by (simp add: same_deployment_def)
  have "w_uuid w (w_tick w) \<notin> nt_ID ` set (notifications w)"
    using Cons.prems(3) le f by (simp add: fresh_ids_def same_deployment_def)
  from notify_user_calm [OF Cons.prems(1,2) this, of E u]
  obtain a where a: "notifications ?w1 = notifications w @ a" "map nt_UserID a = valid_ids (nv_lib E) [u]"
      "\<forall>x \<in> set a. tells event x"
      "a \<noteq> [] \<longrightarrow> map nt_ID a = [w_uuid w (w_tick w)] \<and> w_tick w < w_tick ?w1"
    by (elim exE conjE) (rule that)
  have "w_uuid w m \<notin> nt_ID ` set a" if "m \<in> {w_tick ?w1..n}" for m
  proof
    assume m: "w_uuid w m \<in> nt_ID ` set a"
    then have "a \<noteq> []" by auto
    with a(4) have "map nt_ID a = [w_uuid w (w_tick w)]" and lt: "w_tick w < w_tick ?w1" by auto
    then have "nt_ID ` set a = {w_uuid w (w_tick w)}" by (metis list.set_map list.set(1,2))
    with m have e: "w_uuid w m = w_uuid w (w_tick w)" by simp
    have "m \<in> {w_tick w..n}" "w_tick w \<in> {w_tick w..n}" using lt that by auto
    with Cons.prems(3) e have "m = w_tick w" unfolding fresh_ids_def by (meson inj_onD)
    with lt that show False by simp
  qed
  moreover have "inj_on (w_uuid w) {w_tick ?w1..n}" "\<forall>m \<in> {w_tick ?w1..n}. w_uuid w m \<notin> nt_ID ` set (notifications w)"
    using Cons.prems(3) f by (auto simp: fresh_ids_def same_deployment_def intro: inj_on_subset)
  ultimately have "fresh_ids ?w1 n"
    using f a(1) by (simp add: fresh_ids_def same_deployment_def image_Un)
  moreover have "no_faults ?w1" using Cons.prems(1) f by (simp add: no_faults_def same_deployment_def)
  moreover have "cases_table ?w1 = cases_table w" using f by (simp add: same_deployment_def)
  ultimately obtain b where "notifications (fold (notify_user E event) us ?w1) = notifications ?w1 @ b"
      "map nt_UserID b = valid_ids (nv_lib E) us" "\<forall>x \<in> set b. tells event x"
    using Cons.IH [of ?w1] Cons.prems(2,4) by auto
  with a show ?case by (intro exI [of _ "a @ b"]) (auto simp: valid_ids_def)
qed (simp add: valid_ids_def)

lemma notify_told:
  assumes "notif_Notify E event w = (r, w')" "no_faults w" "distinct_ok (nv_distinct E)"
    and "ne_Type event = EventUserAddedToCase \<Longrightarrow> ne_TargetUserID event \<noteq> []"
    and "ne_CaseID event = uuid_Nil \<or> find_case (ne_CaseID event) (cases_table w) \<noteq> None"
    and "fresh_ids w (w_tick w')"
  shows "r = None \<and> (\<exists>new us. notifications w' = notifications w @ new \<and>
    set us = told E event (case_roles w) \<and> (distinct (nv_admins E) \<longrightarrow> distinct us) \<and>
    map nt_UserID new = valid_ids (nv_lib E) us \<and> (\<forall>n \<in> set new. tells event n))"
proof -
  from resolve_calm [OF assms(2-4)]
  obtain us w1 where rs: "resolveRecipients E event w = (Inr us, w1)" "set us = told E event (case_roles w)"
      "distinct (nv_admins E) \<longrightarrow> distinct us" and t: "only_ticks w w1" by blast
  then have w': "r = None" "w' = fold (notify_user E event) us w1" using assms(1) by (simp_all add: notif_Notify_def)
  have s: "w_tick w \<le> w_tick w1" "w_uuid w1 = w_uuid w" "notifications w1 = notifications w"
      "cases_table w1 = cases_table w" "no_faults w1"
    using only_ticks_sel [OF t] notif_only_ticks [OF t] only_ticks_no_faults [OF t] assms(2) by simp_all
  have "fresh_ids w1 (w_tick w')"
    using assms(6) s by (auto simp: fresh_ids_def intro: inj_on_subset)
  then obtain new where "notifications w' = notifications w @ new" "map nt_UserID new = valid_ids (nv_lib E) us"
      "\<forall>n \<in> set new. tells event n"
    using notify_fold_calm [of w1 event "w_tick w'" E us] s assms(5) w'(2) by auto
  with w' rs show ?thesis by blast
qed


definition sample_event_backup :: NotifEvent where
  "sample_event_backup =
     \<lparr>ne_Type = EventBackupFailed, ne_CaseID = 0, ne_Title = ''T'', ne_Body = ''B'', ne_TargetUserID = []\<rparr>"


end
