(* ===== verification/Search_Filter.thy ===== *)
theory Search_Filter
  imports Go_Conv
begin

text \<open>
  \<open>internal/search/models.go\<close> and the filter of \<open>meilisearch.go\<close>: the query of a search, the filter
  text that is sent to the search server for it, and a reader of such texts after the documented
  syntax of filters (attributes, quoted values in which a backslash escapes the next character,
  \<open>IN\<close> lists, \<open>AND\<close>, parentheses around \<open>OR\<close>). Reading back what the client writes gives the conditions
  that were meant: a quote in a value never becomes syntax.
\<close>

section \<open>Queries\<close>

record SearchQuery =
  sq_Query :: string
  sq_CaseID :: "string option"
  sq_MimeTypes :: "string list"
  sq_Tags :: "string list"
  sq_Classifications :: "string list"
  sq_DateFrom :: "string option"
  sq_DateTo :: "string option"
  sq_Limit :: int
  sq_Offset :: int
  sq_UserCaseIDs :: "string list"
  sq_DisclosedOnly :: bool

abbreviation quote :: char where "quote \<equiv> CHR 0x27"
abbreviation backslash :: char where "backslash \<equiv> CHR 0x5C"

section \<open>The text of the filter\<close>

definition escapeFilterValue :: "string \<Rightarrow> string" where
  \<comment> \<open>\<open>strings.ReplaceAll\<close> of a quote by a backslash and a quote\<close>
  "escapeFilterValue s = concat (map (\<lambda>c. if c = quote then [backslash, quote] else [c]) s)"

definition quoted :: "string \<Rightarrow> string" where
  \<comment> \<open>\<open>fmt.Sprintf("'%s'", escapeFilterValue(v))\<close>\<close>
  "quoted v = [quote] @ escapeFilterValue v @ [quote]"

definition in_list :: "string \<Rightarrow> string list \<Rightarrow> string" where
  \<comment> \<open>\<open>fmt.Sprintf("<attribute> IN [%s]", strings.Join(quoted, ", "))\<close>\<close>
  "in_list a vs = a @ '' IN ['' @ join '', '' (map quoted vs) @ '']''"

definition buildEvidenceFilter :: "SearchQuery \<Rightarrow> string" where
  "buildEvidenceFilter q =
     join '' AND ''
       ((case sq_CaseID q of None \<Rightarrow> [] | Some v \<Rightarrow> if v \<noteq> [] then [''case_id = '' @ quoted v] else []) @
        (if sq_UserCaseIDs q \<noteq> [] then [in_list ''case_id'' (sq_UserCaseIDs q)] else []) @
        (if sq_MimeTypes q \<noteq> [] then [in_list ''mime_type'' (sq_MimeTypes q)] else []) @
        (if sq_Classifications q \<noteq> [] then [in_list ''classification'' (sq_Classifications q)] else []) @
        (if sq_Tags q \<noteq> [] then
           [''('' @ join '' OR '' (map (\<lambda>t. ''tags = '' @ quoted t) (sq_Tags q)) @ '')''] else []) @
        (if sq_DisclosedOnly q then [''is_disclosed = true''] else []) @
        (case sq_DateFrom q of None \<Rightarrow> [] | Some v \<Rightarrow> if v \<noteq> [] then [''source_date >= '' @ quoted v] else []) @
        (case sq_DateTo q of None \<Rightarrow> [] | Some v \<Rightarrow> if v \<noteq> [] then [''source_date <= '' @ quoted v] else []))"

section \<open>What is meant\<close>

text \<open>A filter is the conjunction of its conditions.\<close>

datatype condition =
    Equals string string
  | OneOf string "string list"
  | AnyOf "(string \<times> string) list"
  | IsTrue string
  | AtLeast string string
  | AtMost string string

definition conditions :: "SearchQuery \<Rightarrow> condition list" where
  "conditions q =
     (case sq_CaseID q of None \<Rightarrow> [] | Some v \<Rightarrow> if v \<noteq> [] then [Equals ''case_id'' v] else []) @
     (if sq_UserCaseIDs q \<noteq> [] then [OneOf ''case_id'' (sq_UserCaseIDs q)] else []) @
     (if sq_MimeTypes q \<noteq> [] then [OneOf ''mime_type'' (sq_MimeTypes q)] else []) @
     (if sq_Classifications q \<noteq> [] then [OneOf ''classification'' (sq_Classifications q)] else []) @
     (if sq_Tags q \<noteq> [] then [AnyOf (map (Pair ''tags'') (sq_Tags q))] else []) @
     (if sq_DisclosedOnly q then [IsTrue ''is_disclosed''] else []) @
     (case sq_DateFrom q of None \<Rightarrow> [] | Some v \<Rightarrow> if v \<noteq> [] then [AtLeast ''source_date'' v] else []) @
     (case sq_DateTo q of None \<Rightarrow> [] | Some v \<Rightarrow> if v \<noteq> [] then [AtMost ''source_date'' v] else [])"

section \<open>Reading a filter\<close>

datatype token = Word string | Value string

fun read_quoted :: "string \<Rightarrow> (string \<times> string) option" where
  \<comment> \<open>the value up to the closing quote, and the rest of the text\<close>
  "read_quoted [] = None"
| "read_quoted (c # cs) =
     (if c = quote then Some ([], cs)
      else if c = backslash then
        (case cs of
           [] \<Rightarrow> None
         | d # ds \<Rightarrow> map_option (map_prod (\<lambda>v. if d = quote then d # v else c # d # v) id) (read_quoted ds))
      else map_option (map_prod ((#) c) id) (read_quoted cs))"

definition single :: "char \<Rightarrow> bool" where
  \<comment> \<open>characters that are words of their own\<close>
  "single c \<longleftrightarrow> c \<in> {CHR ''('', CHR '')'', CHR ''['', CHR '']'', CHR '',''}"

definition wordy :: "char \<Rightarrow> bool" where
  "wordy c \<longleftrightarrow> c \<noteq> CHR '' '' \<and> c \<noteq> quote \<and> c \<noteq> backslash \<and> \<not> single c"

lemma read_quoted_shorter: "read_quoted s = Some (v, rest) \<Longrightarrow> length rest < length s"
  by (induction s arbitrary: v rest rule: read_quoted.induct) (fastforce split: if_splits list.splits)+

function lex_filter :: "string \<Rightarrow> token list option" where
  "lex_filter [] = Some []"
| "lex_filter (c # cs) =
     (if c = CHR '' '' then lex_filter cs
      else if single c then map_option ((#) (Word [c])) (lex_filter cs)
      else if c = quote then
        (case read_quoted cs of None \<Rightarrow> None | Some (v, rest) \<Rightarrow> map_option ((#) (Value v)) (lex_filter rest))
      else if c = backslash then None
      else map_option ((#) (Word (takeWhile wordy (c # cs)))) (lex_filter (dropWhile wordy (c # cs))))"
  by pat_completeness auto
termination
  by (relation "measure length")
    (auto dest: read_quoted_shorter simp: wordy_def less_Suc_eq_le length_dropWhile_le)

fun read_values :: "token list \<Rightarrow> (string list \<times> token list) option" where
  \<comment> \<open>the values of a list up to the closing bracket\<close>
  "read_values (Value v # Word s # ts) =
     (if s = '']'' then Some ([v], ts)
      else if s = '','' then map_option (map_prod ((#) v) id) (read_values ts)
      else None)"
| "read_values ts = None"

fun read_alternatives :: "token list \<Rightarrow> ((string \<times> string) list \<times> token list) option" where
  "read_alternatives (Word a # Word eq # Value v # Word s # ts) =
     (if eq \<noteq> ''='' then None
      else if s = '')'' then Some ([(a, v)], ts)
      else if s = ''OR'' then map_option (map_prod ((#) (a, v)) id) (read_alternatives ts)
      else None)"
| "read_alternatives ts = None"

definition read_condition :: "token list \<Rightarrow> (condition \<times> token list) option" where
  "read_condition ts =
     (case ts of
        Word a # ts1 \<Rightarrow>
          if a = ''('' then map_option (map_prod AnyOf id) (read_alternatives ts1)
          else (case ts1 of
            Word oper # Value v # ts2 \<Rightarrow>
              if oper = ''='' then Some (Equals a v, ts2)
              else if oper = ''>='' then Some (AtLeast a v, ts2)
              else if oper = ''<='' then Some (AtMost a v, ts2)
              else None
          | Word oper # Word x # ts2 \<Rightarrow>
              if oper = ''='' \<and> x = ''true'' then Some (IsTrue a, ts2)
              else if oper = ''IN'' \<and> x = ''['' then map_option (map_prod (OneOf a) id) (read_values ts2)
              else None
          | _ \<Rightarrow> None)
      | _ \<Rightarrow> None)"

fun read_conditions :: "nat \<Rightarrow> token list \<Rightarrow> condition list option" where
  \<comment> \<open>the fuel bounds the number of conditions; the number of tokens is enough\<close>
  "read_conditions 0 ts = None"
| "read_conditions (Suc n) ts =
     (case read_condition ts of
        None \<Rightarrow> None
      | Some (c, []) \<Rightarrow> Some [c]
      | Some (c, Word s # ts1) \<Rightarrow> if s = ''AND'' then map_option ((#) c) (read_conditions n ts1) else None
      | Some (c, Value v # ts1) \<Rightarrow> None)"

definition read_filter :: "string \<Rightarrow> condition list option" where
  "read_filter s =
     (case lex_filter s of
        None \<Rightarrow> None
      | Some [] \<Rightarrow> Some []
      | Some ts \<Rightarrow> read_conditions (length ts) ts)"

section \<open>Values survive\<close>

lemma read_quoted_escape:
  "backslash \<notin> set v \<Longrightarrow> read_quoted (escapeFilterValue v @ quote # rest) = Some (v, rest)"
  by (induction v) (auto simp: escapeFilterValue_def)

lemma lex_value:
  "backslash \<notin> set v \<Longrightarrow> lex_filter (quoted v @ rest) = map_option ((#) (Value v)) (lex_filter rest)"
  by (simp add: quoted_def read_quoted_escape single_def)

lemma lex_word:
  assumes "w \<noteq> []" "list_all wordy w" "rest = [] \<or> \<not> wordy (hd rest)"
  shows "lex_filter (w @ rest) = map_option ((#) (Word w)) (lex_filter rest)"
proof -
  obtain c cs where w: "w = c # cs" using assms(1) by (cases w) auto
  have t: "takeWhile wordy (w @ rest) = w" "dropWhile wordy (w @ rest) = rest"
    using assms(2,3) by (cases rest; simp add: list_all_iff takeWhile_append2 dropWhile_append2)+
  have c: "c \<noteq> CHR '' ''" "\<not> single c" "c \<noteq> quote" "c \<noteq> backslash"
    using assms(2) by (simp_all add: w wordy_def)
  show ?thesis
    using lex_filter.simps(2) [of c "cs @ rest"] c t by (simp add: w)
qed

lemma lex_space: "lex_filter (CHR '' '' # s) = lex_filter s"
  by simp

lemma lex_single: "single c \<Longrightarrow> lex_filter (c # s) = map_option ((#) (Word [c])) (lex_filter s)"
  by (auto simp: single_def)

declare lex_filter.simps(2) [simp del]

fun value_tokens :: "string list \<Rightarrow> token list" where
  "value_tokens [] = [Word '']'']"
| "value_tokens [v] = [Value v, Word '']'']"
| "value_tokens (v # vs) = [Value v, Word '',''] @ value_tokens vs"

fun alternative_tokens :: "(string \<times> string) list \<Rightarrow> token list" where
  "alternative_tokens [] = [Word '')'']"
| "alternative_tokens [(a, v)] = [Word a, Word ''='', Value v, Word '')'']"
| "alternative_tokens ((a, v) # avs) = [Word a, Word ''='', Value v, Word ''OR''] @ alternative_tokens avs"

fun condition_text :: "condition \<Rightarrow> string" where
  "condition_text (Equals a v) = a @ '' = '' @ quoted v"
| "condition_text (OneOf a vs) = in_list a vs"
| "condition_text (AnyOf avs) = ''('' @ join '' OR '' (map (\<lambda>(a, v). a @ '' = '' @ quoted v) avs) @ '')''"
| "condition_text (IsTrue a) = a @ '' = true''"
| "condition_text (AtLeast a v) = a @ '' >= '' @ quoted v"
| "condition_text (AtMost a v) = a @ '' <= '' @ quoted v"

fun condition_tokens :: "condition \<Rightarrow> token list" where
  "condition_tokens (Equals a v) = [Word a, Word ''='', Value v]"
| "condition_tokens (OneOf a vs) = [Word a, Word ''IN'', Word ''[''] @ value_tokens vs"
| "condition_tokens (AnyOf avs) = Word ''('' # alternative_tokens avs"
| "condition_tokens (IsTrue a) = [Word a, Word ''='', Word ''true'']"
| "condition_tokens (AtLeast a v) = [Word a, Word ''>='', Value v]"
| "condition_tokens (AtMost a v) = [Word a, Word ''<='', Value v]"

definition attribute :: "string \<Rightarrow> bool" where
  "attribute a \<longleftrightarrow> a \<noteq> [] \<and> list_all wordy a"

definition clean :: "string \<Rightarrow> bool" where
  "clean v \<longleftrightarrow> backslash \<notin> set v"

fun clean_condition :: "condition \<Rightarrow> bool" where
  "clean_condition (Equals a v) \<longleftrightarrow> attribute a \<and> clean v"
| "clean_condition (OneOf a vs) \<longleftrightarrow> attribute a \<and> vs \<noteq> [] \<and> list_all clean vs"
| "clean_condition (AnyOf avs) \<longleftrightarrow> avs \<noteq> [] \<and> list_all (\<lambda>(a, v). attribute a \<and> clean v) avs"
| "clean_condition (IsTrue a) \<longleftrightarrow> attribute a"
| "clean_condition (AtLeast a v) \<longleftrightarrow> attribute a \<and> clean v"
| "clean_condition (AtMost a v) \<longleftrightarrow> attribute a \<and> clean v"

lemma lex_clean: "clean v \<Longrightarrow> lex_filter (quoted v @ rest) = map_option ((#) (Value v)) (lex_filter rest)"
  by (simp add: lex_value clean_def)

lemma lex_attribute: "attribute a \<Longrightarrow> lex_filter (a @ CHR '' '' # rest) = map_option ((#) (Word a)) (lex_filter rest)"
  using lex_word [of a "CHR '' '' # rest"] by (simp add: attribute_def wordy_def lex_space)

lemma lex_operators:
  "lex_filter (CHR ''='' # CHR '' '' # s) = map_option ((#) (Word ''='')) (lex_filter s)"
  "lex_filter (CHR ''>'' # CHR ''='' # CHR '' '' # s) = map_option ((#) (Word ''>='')) (lex_filter s)"
  "lex_filter (CHR ''<'' # CHR ''='' # CHR '' '' # s) = map_option ((#) (Word ''<='')) (lex_filter s)"
  "lex_filter (CHR ''I'' # CHR ''N'' # CHR '' '' # s) = map_option ((#) (Word ''IN'')) (lex_filter s)"
  "lex_filter (CHR ''O'' # CHR ''R'' # CHR '' '' # s) = map_option ((#) (Word ''OR'')) (lex_filter s)"
  "lex_filter (CHR ''A'' # CHR ''N'' # CHR ''D'' # CHR '' '' # s) = map_option ((#) (Word ''AND'')) (lex_filter s)"
  using lex_attribute [of "''=''" s] lex_attribute [of "''>=''" s] lex_attribute [of "''<=''" s]
    lex_attribute [of "''IN''" s] lex_attribute [of "''OR''" s] lex_attribute [of "''AND''" s]
  by (simp_all add: attribute_def wordy_def single_def)

lemma lex_brackets:
  "lex_filter (CHR ''('' # s) = map_option ((#) (Word ''('')) (lex_filter s)"
  "lex_filter (CHR '')'' # s) = map_option ((#) (Word '')'')) (lex_filter s)"
  "lex_filter (CHR ''['' # s) = map_option ((#) (Word ''['')) (lex_filter s)"
  "lex_filter (CHR '']'' # s) = map_option ((#) (Word '']'')) (lex_filter s)"
  "lex_filter (CHR '','' # s) = map_option ((#) (Word '','')) (lex_filter s)"
  by (simp_all add: lex_single single_def)

lemmas lex_steps = lex_space lex_clean lex_attribute lex_operators lex_brackets

lemma lex_values:
  "vs \<noteq> [] \<Longrightarrow> list_all clean vs \<Longrightarrow>
     lex_filter (join '', '' (map quoted vs) @ CHR '']'' # rest) = map_option ((@) (value_tokens vs)) (lex_filter rest)"
  by (cases "lex_filter rest"; induction vs rule: value_tokens.induct) (simp_all add: lex_steps)

lemma lex_alternatives:
  "avs \<noteq> [] \<Longrightarrow> list_all (\<lambda>(a, v). attribute a \<and> clean v) avs \<Longrightarrow>
     lex_filter (join '' OR '' (map (\<lambda>(a, v). a @ '' = '' @ quoted v) avs) @ CHR '')'' # rest) =
     map_option ((@) (alternative_tokens avs)) (lex_filter rest)"
  by (cases "lex_filter rest"; induction avs rule: alternative_tokens.induct) (auto simp: lex_steps)

lemma lex_condition:
  assumes "clean_condition c" "rest = [] \<or> \<not> wordy (hd rest)"
  shows "lex_filter (condition_text c @ rest) = map_option ((@) (condition_tokens c)) (lex_filter rest)"
proof (cases c)
  case (IsTrue a)
  have "lex_filter (''true'' @ rest) = map_option ((#) (Word ''true'')) (lex_filter rest)"
    using assms(2) by (rule lex_word [rotated 2]) (simp_all add: wordy_def single_def)
  with assms(1) show ?thesis 
    by (cases "lex_filter rest") (simp_all add: IsTrue lex_steps)
next
  case (Equals a v)
  with assms(1) show ?thesis by (cases "lex_filter rest") (simp_all add: lex_steps)
next
  case (OneOf a vs)
  with assms(1) show ?thesis
    by (cases "lex_filter rest") (simp_all add: in_list_def lex_steps lex_values)
next
  case (AnyOf avs)
  with assms(1) lex_alternatives [of avs rest] show ?thesis
    by (cases "lex_filter rest") (simp_all add: lex_steps)
next
  case (AtLeast a v)
  with assms(1) show ?thesis by (cases "lex_filter rest") (simp_all add: lex_steps)
next
  case (AtMost a v)
  with assms(1) show ?thesis by (cases "lex_filter rest") (simp_all add: lex_steps)
qed

fun filter_tokens :: "condition list \<Rightarrow> token list" where
  "filter_tokens [] = []"
| "filter_tokens [c] = condition_tokens c"
| "filter_tokens (c # cs) = condition_tokens c @ Word ''AND'' # filter_tokens cs"

lemma lex_conditions:
  "list_all clean_condition cs \<Longrightarrow> lex_filter (join '' AND '' (map condition_text cs)) = Some (filter_tokens cs)"
proof (induction cs rule: filter_tokens.induct)
  case (2 c)
  then show ?case using lex_condition [of c "[]"] by simp
next
  case (3 c d cs)
  then show ?case
    using lex_condition [of c "'' AND '' @ join '' AND '' (map condition_text (d # cs))"]
    by (simp add: wordy_def lex_steps)
qed simp

lemma read_value_tokens: "vs \<noteq> [] \<Longrightarrow> read_values (value_tokens vs @ ts) = Some (vs, ts)"
  by (induction vs rule: value_tokens.induct) simp_all

lemma read_alternative_tokens: "avs \<noteq> [] \<Longrightarrow> read_alternatives (alternative_tokens avs @ ts) = Some (avs, ts)"
  by (induction avs rule: alternative_tokens.induct) simp_all

lemma attribute_not_paren: "attribute a \<Longrightarrow> a \<noteq> ''(''"
  by (auto simp: attribute_def wordy_def single_def)

lemma read_condition_tokens: "clean_condition c \<Longrightarrow> read_condition (condition_tokens c @ ts) = Some (c, ts)"
  by (cases c)
    (auto simp: read_condition_def read_value_tokens read_alternative_tokens dest: attribute_not_paren)

lemma read_filter_tokens:
  "cs \<noteq> [] \<Longrightarrow> list_all clean_condition cs \<Longrightarrow> length cs \<le> n \<Longrightarrow> read_conditions n (filter_tokens cs) = Some cs"
proof (induction cs arbitrary: n rule: filter_tokens.induct)
  case (2 c)
  then show ?case using read_condition_tokens [of c "[]"] by (cases n) simp_all
next
  case (3 c d cs)
  then show ?case using read_condition_tokens [of c "Word ''AND'' # filter_tokens (d # cs)"] by (cases n) simp_all
qed simp

lemma condition_tokens_ne: "condition_tokens c \<noteq> []"
  by (cases c) simp_all

lemma filter_tokens_length: "length cs \<le> length (filter_tokens cs)"
proof (induction cs rule: filter_tokens.induct)
  case (2 c)
  then show ?case using condition_tokens_ne [of c] by (cases "condition_tokens c") simp_all
qed simp_all

definition clean_query :: "SearchQuery \<Rightarrow> bool" where
  \<comment> \<open>no value of the query contains a backslash\<close>
  "clean_query q \<longleftrightarrow> list_all clean (sq_UserCaseIDs q) \<and> list_all clean (sq_MimeTypes q) \<and>
     list_all clean (sq_Classifications q) \<and> list_all clean (sq_Tags q) \<and>
     (\<forall>v \<in> set_option (sq_CaseID q) \<union> set_option (sq_DateFrom q) \<union> set_option (sq_DateTo q). clean v)"

lemma conditions_clean:
  "clean_query q \<Longrightarrow> list_all clean_condition (conditions q)"
  by (auto simp: clean_query_def conditions_def attribute_def wordy_def single_def list_all_iff split: option.splits)

lemma build_is_text: "buildEvidenceFilter q = join '' AND '' (map condition_text (conditions q))"
  by (simp add: buildEvidenceFilter_def conditions_def comp_def split: option.splits)

lemma search_filter_meaning:
  assumes "clean_query q"
  shows "read_filter (buildEvidenceFilter q) = Some (conditions q)"
proof -
  let ?cs = "conditions q"
  have c: "list_all clean_condition ?cs" by (rule conditions_clean [OF assms])
  show ?thesis
  proof (cases "?cs = []")
    case False
    then have "filter_tokens ?cs \<noteq> []" using filter_tokens_length [of ?cs] by auto
    then obtain t ts where "filter_tokens ?cs = t # ts" by (cases "filter_tokens ?cs") auto
    with read_filter_tokens [OF False c filter_tokens_length] show ?thesis
      by (simp add: read_filter_def build_is_text lex_conditions [OF c])
  qed (simp add: read_filter_def build_is_text)
qed

text \<open>
  C34: Reading the filter text that the client builds for a query gives exactly the conditions that
  the query means, for any values without a backslash, quotes, commas, brackets and the words of the
  filter language in them included: the conditions on cases and on disclosure cannot be weakened.
\<close>

theorem search_filter_roundtrip:
  "clean_query q \<Longrightarrow> read_filter (buildEvidenceFilter q) = Some (conditions q)"
  by (rule search_filter_meaning)

definition sample_query :: SearchQuery where
  "sample_query =
     \<lparr>sq_Query = ''knife'', sq_CaseID = Some ''x' OR case_id EXISTS OR title = 'y'', sq_MimeTypes = [''image/png'', ''a'b''],
      sq_Tags = [''t1'', '') OR (tags = t2''], sq_Classifications = [], sq_DateFrom = None, sq_DateTo = Some ''2024-01-01'',
      sq_Limit = 50, sq_Offset = 0, sq_UserCaseIDs = [''7'', ''8''], sq_DisclosedOnly = True\<rparr>"

theorem search_filter_roundtrip_witness:
  "read_filter (buildEvidenceFilter sample_query) =
     Some [Equals ''case_id'' ''x' OR case_id EXISTS OR title = 'y'', OneOf ''case_id'' [''7'', ''8''],
       OneOf ''mime_type'' [''image/png'', ''a'b''], AnyOf [(''tags'', ''t1''), (''tags'', '') OR (tags = t2'')],
       IsTrue ''is_disclosed'', AtMost ''source_date'' ''2024-01-01'']"
proof -
  have "clean_query sample_query" by (simp add: clean_query_def sample_query_def clean_def)
  from search_filter_roundtrip [OF this] show ?thesis by (simp add: conditions_def sample_query_def)
qed

text \<open>
  A backslash is not escaped: one at the end of a value swallows the closing quote, and the text is
  no filter any more.
\<close>

lemma search_filter_backslash:
  "read_filter (buildEvidenceFilter (sample_query\<lparr>sq_CaseID := Some ''x'' , sq_MimeTypes := [[CHR ''a'', backslash], ''b'']\<rparr>)) = None"
  by code_simp

end
