(* ===== verification/Search_Service.thy ===== *)
theory Search_Service
  imports Search_Filter Evidence_Service Auth_Middleware
begin

text \<open>
  \<open>internal/search/meilisearch.go\<close>: the client of the search server. The server is not part of the
  repository: what the client sends it is a list of tasks (documents to add or delete, settings),
  and how it answers a search after these tasks is a parameter, the engine. What the client relies
  on is the hypothesis \<open>engine_ok\<close> below.
\<close>

section \<open>What is sent and received\<close>

type_synonym ms_doc = "(string \<times> json) list"

datatype ms_task =
    AddDocuments string "ms_doc list"
  | DeleteDocumentTask string string
  | DeleteDocumentsByFilter string string
  | UpdateSearchableAttributes string "string list"
  | UpdateFilterableAttributes string "string list"
  | UpdateSortableAttributes string "string list"
  | UpdateTypoTolerance string bool

text \<open>A value of the type \<open>interface{}\<close> as \<open>parseFacetDistribution\<close> looks at it.\<close>

datatype go_any = AnyNil | AnyMap "(string \<times> go_any) list" | AnyFloat int int | AnyInt int | AnyOther

record ms_request =
  mr_query :: string
  mr_limit :: int
  mr_offset :: int
  mr_filter :: "string option"
  mr_highlight :: "string list"
  mr_facets :: "string list"

record ms_response =
  mp_hits :: "ms_doc list"
  mp_total :: int
  mp_time :: int
  mp_facets :: go_any

type_synonym search_engine = "ms_task list \<Rightarrow> string \<Rightarrow> ms_request \<Rightarrow> go_error + ms_response"

record search_db = cases_db +
  ms_tasks :: "ms_task list"

definition evidenceIndex :: string where "evidenceIndex = ''evidence''"

section \<open>Documents\<close>

record EvidenceSearchDoc =
  sd_ID :: string
  sd_CaseID :: string
  sd_Title :: string
  sd_Description :: string
  sd_EvidenceNumber :: string
  sd_Tags :: "string list"
  sd_Source :: string
  sd_FileName :: string
  sd_MimeType :: string
  sd_Classification :: string
  sd_SourceDate :: "string option"
  sd_UploadedAt :: string
  sd_IsCurrent :: bool
  sd_IsDisclosed :: bool

definition search_payload :: "EvidenceSearchDoc \<Rightarrow> ms_doc" where
  "search_payload doc =
     [(''id'', JString (sd_ID doc)), (''case_id'', JString (sd_CaseID doc)), (''title'', JString (sd_Title doc)),
      (''description'', JString (sd_Description doc)), (''evidence_number'', JString (sd_EvidenceNumber doc)),
      (''tags'', JArray (map JString (sd_Tags doc))), (''source'', JString (sd_Source doc)),
      (''file_name'', JString (sd_FileName doc)), (''mime_type'', JString (sd_MimeType doc)),
      (''classification'', JString (sd_Classification doc)),
      (''source_date'', case sd_SourceDate doc of None \<Rightarrow> JNull | Some d \<Rightarrow> JString d),
      (''uploaded_at'', JString (sd_UploadedAt doc)), (''is_current'', JBool (sd_IsCurrent doc)),
      (''is_disclosed'', JBool (sd_IsDisclosed doc))]"

definition document_payload :: "string \<times> (string \<times> json) list \<Rightarrow> ms_doc" where
  \<comment> \<open>the copy of the payload in \<open>IndexDocument\<close>, with the key \<open>id\<close> overwritten\<close>
  "document_payload doc = (''id'', JString (fst doc)) # filter (\<lambda>kv. fst kv \<noteq> ''id'') (snd doc)"

section \<open>The client\<close>

definition ms_call ::
  "(go_error \<Rightarrow> go_error) \<Rightarrow> ms_task \<Rightarrow> 'a search_db_scheme \<Rightarrow> go_error option \<times> 'a search_db_scheme" where
  \<comment> \<open>one request that puts a task into the server's queue\<close>
  "ms_call f t w =
     (case fault w of
        Some err \<Rightarrow> (Some (f err), tick w)
      | None \<Rightarrow> (None, (tick w)\<lparr>ms_tasks := ms_tasks w @ [t]\<rparr>))"

definition IndexDocument ::
  "string \<Rightarrow> string \<times> (string \<times> json) list \<Rightarrow> 'a search_db_scheme \<Rightarrow> go_error option \<times> 'a search_db_scheme" where
  "IndexDocument index doc w =
     ms_call (wrapf (''index document '' @ fst doc @ '' in '' @ index)) (AddDocuments index [document_payload doc]) w"

definition DeleteDocument ::
  "string \<Rightarrow> string \<Rightarrow> 'a search_db_scheme \<Rightarrow> go_error option \<times> 'a search_db_scheme" where
  "DeleteDocument index k w =
     ms_call (wrapf (''delete document '' @ k @ '' from '' @ index)) (DeleteDocumentTask index k) w"

definition IndexEvidence ::
  "EvidenceSearchDoc \<Rightarrow> 'a search_db_scheme \<Rightarrow> go_error option \<times> 'a search_db_scheme" where
  "IndexEvidence doc w =
     ms_call (wrapf (''index evidence '' @ sd_ID doc)) (AddDocuments evidenceIndex [search_payload doc]) w"

definition RemoveEvidence :: "string \<Rightarrow> 'a search_db_scheme \<Rightarrow> go_error option \<times> 'a search_db_scheme" where
  "RemoveEvidence k w = ms_call (wrapf (''remove evidence '' @ k)) (DeleteDocumentTask evidenceIndex k) w"

definition ReindexAll ::
  "string \<Rightarrow> EvidenceSearchDoc list \<Rightarrow> 'a search_db_scheme \<Rightarrow> go_error option \<times> 'a search_db_scheme" where
  "ReindexAll caseID items w =
     (case ms_call (wrapf (''delete documents for case '' @ caseID))
             (DeleteDocumentsByFilter evidenceIndex (''case_id = '' @ quoted caseID)) w of
        (Some err, w1) \<Rightarrow> (Some err, w1)
      | (None, w1) \<Rightarrow>
          if items = [] then (None, w1)
          else ms_call (wrapf (''reindex '' @ itoa (int (length items)) @ '' documents for case '' @ caseID))
                 (AddDocuments evidenceIndex (map search_payload items)) w1)"

definition ConfigureEvidenceIndex :: "'a search_db_scheme \<Rightarrow> go_error option \<times> 'a search_db_scheme" where
  "ConfigureEvidenceIndex w =
     (case ms_call (wrapf ''configure evidence searchable attributes'')
             (UpdateSearchableAttributes evidenceIndex
               [''title'', ''description'', ''tags'', ''evidence_number'', ''source'', ''file_name'']) w of
        (Some err, w1) \<Rightarrow> (Some err, w1)
      | (None, w1) \<Rightarrow>
     (case ms_call (wrapf ''configure evidence filterable attributes'')
             (UpdateFilterableAttributes evidenceIndex
               [''case_id'', ''mime_type'', ''classification'', ''tags'', ''source_date'', ''uploaded_at'',
                ''is_current'', ''is_disclosed'']) w1 of
        (Some err, w2) \<Rightarrow> (Some err, w2)
      | (None, w2) \<Rightarrow>
     (case ms_call (wrapf ''configure evidence sortable attributes'')
             (UpdateSortableAttributes evidenceIndex [''uploaded_at'', ''source_date'', ''evidence_number'']) w2 of
        (Some err, w3) \<Rightarrow> (Some err, w3)
      | (None, w3) \<Rightarrow>
          ms_call (wrapf ''configure evidence typo tolerance'') (UpdateTypoTolerance evidenceIndex True) w3)))"

section \<open>Answers\<close>

record EvidenceSearchHit =
  eh_EvidenceID :: string
  eh_CaseID :: string
  eh_Title :: string
  eh_Description :: string
  eh_EvidenceNumber :: string
  eh_Highlights :: "(string \<times> string list) list"
  eh_Score :: "int \<times> int"

record EvidenceSearchResult =
  sr_Hits :: "EvidenceSearchHit list"
  sr_TotalHits :: int
  sr_Query :: string
  sr_ProcessingTimeMs :: int
  sr_Facets :: "(string \<times> (string \<times> int) list) list option"

definition empty_result :: EvidenceSearchResult where
  "empty_result = \<lparr>sr_Hits = [], sr_TotalHits = 0, sr_Query = [], sr_ProcessingTimeMs = 0, sr_Facets = None\<rparr>"

definition getString :: "ms_doc \<Rightarrow> string \<Rightarrow> string" where
  "getString hit k = (case map_of hit k of Some (JString s) \<Rightarrow> s | _ \<Rightarrow> [])"

definition parseEvidenceHit :: "ms_doc \<Rightarrow> EvidenceSearchHit" where
  "parseEvidenceHit hit =
     \<lparr>eh_EvidenceID = getString hit ''id'', eh_CaseID = getString hit ''case_id'',
      eh_Title = getString hit ''title'', eh_Description = getString hit ''description'',
      eh_EvidenceNumber = getString hit ''evidence_number'',
      eh_Highlights =
        (case map_of hit ''_formatted'' of
           Some (JObject formatted) \<Rightarrow>
             concat (map (\<lambda>field. case map_of formatted field of
                 Some (JString val) \<Rightarrow> if val \<noteq> [] then [(field, [val])] else []
               | _ \<Rightarrow> []) [''title'', ''description'', ''evidence_number''])
         | _ \<Rightarrow> []),
      eh_Score = (case map_of hit ''_rankingScore'' of Some (JNumber m e) \<Rightarrow> (m, e) | _ \<Rightarrow> (0, 0))\<rparr>"

definition facet_counts :: "(string \<times> go_any) list \<Rightarrow> (string \<times> int) list" where
  "facet_counts inner =
     concat (map (\<lambda>(k, v). case v of AnyFloat m e \<Rightarrow> [(k, float_int64 (m, e))] | AnyInt i \<Rightarrow> [(k, i)] | _ \<Rightarrow> []) inner)"

fun parseFacetDistribution :: "go_any \<Rightarrow> (string \<times> (string \<times> int) list) list option" where
  "parseFacetDistribution (AnyMap outer) =
     Some (concat (map (\<lambda>(facet, inner). case inner of AnyMap m \<Rightarrow> [(facet, facet_counts m)] | _ \<Rightarrow> []) outer))"
| "parseFacetDistribution v = None"

definition search_limit :: "int \<Rightarrow> int" where
  "search_limit limit0 = (let limit = (if limit0 \<le> 0 then 50 else limit0) in if limit > 200 then 200 else limit)"

definition search_request :: "SearchQuery \<Rightarrow> ms_request" where
  "search_request q =
     \<lparr>mr_query = sq_Query q, mr_limit = search_limit (sq_Limit q), mr_offset = sq_Offset q,
      mr_filter = (let f = buildEvidenceFilter q in if f \<noteq> [] then Some f else None),
      mr_highlight = [''title'', ''description'', ''evidence_number''],
      mr_facets = [''mime_type'', ''classification'', ''tags'']\<rparr>"

definition SearchEvidence ::
  "search_engine \<Rightarrow> SearchQuery \<Rightarrow> 'a search_db_scheme
     \<Rightarrow> (go_error + EvidenceSearchResult) \<times> 'a search_db_scheme" where
  "SearchEvidence engine q w =
     (case fault w of
        Some err \<Rightarrow> (Inl (wrapf ''search evidence'' err), tick w)
      | None \<Rightarrow>
          (case engine (ms_tasks w) evidenceIndex (search_request q) of
             Inl err \<Rightarrow> (Inl (wrapf ''search evidence'' err), tick w)
           | Inr resp \<Rightarrow>
               (Inr \<lparr>sr_Hits = map parseEvidenceHit (mp_hits resp), sr_TotalHits = mp_total resp,
                     sr_Query = sq_Query q, sr_ProcessingTimeMs = mp_time resp,
                     sr_Facets = parseFacetDistribution (mp_facets resp)\<rparr>, tick w)))"

text \<open>The interface \<open>EvidenceSearcher\<close> has two implementations; the second discards everything.\<close>

datatype evidence_searcher = Meilisearch search_engine | NoopEvidenceSearcher

fun searcher_search ::
  "evidence_searcher \<Rightarrow> SearchQuery \<Rightarrow> 'a search_db_scheme
     \<Rightarrow> (go_error + EvidenceSearchResult) \<times> 'a search_db_scheme" where
  "searcher_search (Meilisearch engine) q w = SearchEvidence engine q w"
| "searcher_search NoopEvidenceSearcher q w = (Inr empty_result, w)"

record SearchResult =
  sres_ID :: string
  sres_Index :: string
  sres_Payload :: ms_doc

definition ms_Search ::
  "search_engine \<Rightarrow> string \<Rightarrow> string \<Rightarrow> int \<Rightarrow> 'a search_db_scheme
     \<Rightarrow> (go_error + SearchResult list) \<times> 'a search_db_scheme" where
  "ms_Search engine index q limit w =
     (case fault w of
        Some err \<Rightarrow> (Inl (wrapf (''search '' @ index) err), tick w)
      | None \<Rightarrow>
          (case engine (ms_tasks w) index
             \<lparr>mr_query = q, mr_limit = limit, mr_offset = 0, mr_filter = None, mr_highlight = [], mr_facets = []\<rparr> of
             Inl err \<Rightarrow> (Inl (wrapf (''search '' @ index) err), tick w)
           | Inr resp \<Rightarrow>
               (Inr (map (\<lambda>hit. \<lparr>sres_ID = getString hit ''id'', sres_Index = index, sres_Payload = hit\<rparr>)
                  (mp_hits resp)), tick w)))"

section \<open>What the client relies on\<close>

definition ascii_lower :: "char \<Rightarrow> char" where
  "ascii_lower c = (let k = of_char c :: nat in if 65 \<le> k \<and> k \<le> 90 then char_of (k + 32) else c)"

definition same_text :: "string \<Rightarrow> string \<Rightarrow> bool" where
  \<comment> \<open>the server compares texts without regard to case\<close>
  "same_text s t \<longleftrightarrow> map ascii_lower s = map ascii_lower t"

fun value_has :: "json \<Rightarrow> string \<Rightarrow> bool" where
  "value_has JNull v \<longleftrightarrow> False"
| "value_has (JString s) v \<longleftrightarrow> same_text s v"
| "value_has (JArray xs) v \<longleftrightarrow> list_ex (\<lambda>x. case x of JString s \<Rightarrow> same_text s v | _ \<Rightarrow> True) xs"
| "value_has _ v \<longleftrightarrow> True"

definition field_has :: "ms_doc \<Rightarrow> string \<Rightarrow> string \<Rightarrow> bool" where
  "field_has d a v \<longleftrightarrow> (case map_of d a of None \<Rightarrow> False | Some j \<Rightarrow> value_has j v)"

definition field_true :: "ms_doc \<Rightarrow> string \<Rightarrow> bool" where
  "field_true d a \<longleftrightarrow> (case map_of d a of None \<Rightarrow> False | Some (JBool b) \<Rightarrow> b | Some j \<Rightarrow> value_has j ''true'')"

fun admits :: "ms_doc \<Rightarrow> condition \<Rightarrow> bool" where
  \<comment> \<open>what a condition requires of a document at least; nothing is said of the order of dates\<close>
  "admits d (Equals a v) \<longleftrightarrow> field_has d a v"
| "admits d (OneOf a vs) \<longleftrightarrow> list_ex (field_has d a) vs"
| "admits d (AnyOf avs) \<longleftrightarrow> list_ex (\<lambda>(a, v). field_has d a v) avs"
| "admits d (IsTrue a) \<longleftrightarrow> field_true d a"
| "admits d (AtLeast a v) \<longleftrightarrow> True"
| "admits d (AtMost a v) \<longleftrightarrow> True"

fun condition_attributes :: "condition \<Rightarrow> string list" where
  "condition_attributes (Equals a v) = [a]"
| "condition_attributes (OneOf a vs) = [a]"
| "condition_attributes (AnyOf avs) = map fst avs"
| "condition_attributes (IsTrue a) = [a]"
| "condition_attributes (AtLeast a v) = [a]"
| "condition_attributes (AtMost a v) = [a]"

fun task_docs :: "string \<Rightarrow> ms_task \<Rightarrow> ms_doc list" where
  "task_docs index (AddDocuments i ds) = (if i = index then ds else [])"
| "task_docs index t = []"

definition added_docs :: "ms_task list \<Rightarrow> string \<Rightarrow> ms_doc list" where
  "added_docs tasks index = concat (map (task_docs index) tasks)"

fun task_filterable :: "string \<Rightarrow> ms_task \<Rightarrow> string list \<Rightarrow> string list" where
  "task_filterable index (UpdateFilterableAttributes i attrs) old = (if i = index then attrs else old)"
| "task_filterable index t old = old"

definition filterable :: "ms_task list \<Rightarrow> string \<Rightarrow> string list" where
  \<comment> \<open>the setting after the tasks; an index starts without filterable attributes\<close>
  "filterable tasks index = fold (task_filterable index) tasks []"

definition hit_of :: "ms_doc \<Rightarrow> ms_doc \<Rightarrow> bool" where
  "hit_of d h \<longleftrightarrow> (\<forall>a \<in> {''id'', ''case_id'', ''title'', ''description'', ''evidence_number''}. map_of h a = map_of d a)"

text \<open>
  The documented behaviour of the server: a search with a filter is refused unless the attributes
  of the filter were made filterable, and every hit is a document that was added to the index and
  that meets every condition of the filter.
\<close>

definition engine_ok :: "search_engine \<Rightarrow> bool" where
  "engine_ok engine \<longleftrightarrow>
     (\<forall>tasks index req resp s cs. engine tasks index req = Inr resp \<longrightarrow> mr_filter req = Some s \<longrightarrow>
        read_filter s = Some cs \<longrightarrow>
        (\<forall>c \<in> set cs. set (condition_attributes c) \<subseteq> set (filterable tasks index)) \<and>
        (\<forall>h \<in> set (mp_hits resp). \<exists>d \<in> set (added_docs tasks index). hit_of d h \<and> (\<forall>c \<in> set cs. admits d c)))"

text \<open>An engine with this behaviour that finds every admitted document.\<close>

definition sample_engine :: search_engine where
  "sample_engine tasks index req =
     (let found = (\<lambda>ds. Inr \<lparr>mp_hits = ds, mp_total = int (length ds), mp_time = 1, mp_facets = AnyNil\<rparr>) in
      case mr_filter req of
        None \<Rightarrow> found (added_docs tasks index)
      | Some s \<Rightarrow>
          (case read_filter s of
             None \<Rightarrow> Inl (ErrNew ''invalid_search_filter'')
           | Some cs \<Rightarrow>
               if \<forall>c \<in> set cs. set (condition_attributes c) \<subseteq> set (filterable tasks index) then
                 found (filter (\<lambda>d. \<forall>c \<in> set cs. admits d c) (added_docs tasks index))
               else Inl (ErrNew ''invalid_search_filter'')))"

lemma sample_engine_ok: "engine_ok sample_engine"
  by (auto simp: engine_ok_def sample_engine_def hit_of_def Let_def split: option.splits if_splits)

end
