(* ===== verification/Search_Api.thy ===== *)
theory Search_Api
  imports Search_Service "HOL-Library.Multiset"
begin

text \<open>
  \<open>internal/search/case_loader.go\<close> and \<open>handler.go\<close>: the cases and roles of a user, the parameters of
  a search and its handler, and who finds what: a user who is not a system administrator only finds
  evidence of cases in which they have a role, and the defence only disclosed evidence.
\<close>

section \<open>The cases of a user\<close>

text \<open>
  \<open>se_order\<close> is the order in which the server returns the rows of a query that asks for none.
\<close>

record search_env =
  se_lib :: go_lib
  se_searcher :: evidence_searcher
  se_order :: "CaseRoleRow list \<Rightarrow> CaseRoleRow list"

definition user_roles :: "go_lib \<Rightarrow> string \<Rightarrow> CaseRoleRow list \<Rightarrow> CaseRoleRow list" where
  \<comment> \<open>\<open>WHERE user_id = $1\<close>\<close>
  "user_roles L userID rows = filter (\<lambda>r. lib_col_uuid L userID = Some (cr_UserID r)) rows"

definition load_roles ::
  "search_env \<Rightarrow> string \<Rightarrow> string \<Rightarrow> string \<Rightarrow> string \<Rightarrow> 'a search_db_scheme
     \<Rightarrow> (go_error + CaseRoleRow list) \<times> 'a search_db_scheme" where
  \<comment> \<open>the query over \<open>case_roles\<close> of the two loaders, with the messages of its errors\<close>
  "load_roles E userID mq ms mi w =
     (if fault w = None \<and> lib_col_uuid (se_lib E) userID = None then (Inl (wrapf mq uuid_syntax), tick w)
      else query_rows (wrapf mq) (wrapf ms) (wrapf mi)
             (se_order E (user_roles (se_lib E) userID (case_roles w))) w)"

definition GetUserCaseIDs ::
  "search_env \<Rightarrow> string \<Rightarrow> 'a search_db_scheme \<Rightarrow> (go_error + string list) \<times> 'a search_db_scheme" where
  "GetUserCaseIDs E userID w =
     (case load_roles E userID ''query user case IDs'' ''scan case ID'' ''iterate user case IDs'' w of
        (Inl err, w1) \<Rightarrow> (Inl err, w1)
      | (Inr rows, w1) \<Rightarrow> (Inr (map (\<lambda>r. lib_uuid_string (se_lib E) (cr_CaseID r)) rows), w1))"

definition GetUserCaseRoles ::
  "search_env \<Rightarrow> string \<Rightarrow> 'a search_db_scheme \<Rightarrow> (go_error + (string \<times> string) list) \<times> 'a search_db_scheme" where
  \<comment> \<open>the Go map as the list of its entries: a later row of the same case overwrites the role\<close>
  "GetUserCaseRoles E userID w =
     (case load_roles E userID ''query user case roles'' ''scan case role'' ''iterate user case roles'' w of
        (Inl err, w1) \<Rightarrow> (Inl err, w1)
      | (Inr rows, w1) \<Rightarrow>
          (Inr (fold (\<lambda>r m. AList.update (lib_uuid_string (se_lib E) (cr_CaseID r)) (cr_Role r) m) rows []), w1))"

section \<open>The handler\<close>

definition splitAndTrim :: "string \<Rightarrow> string list" where
  "splitAndTrim s = filter (\<lambda>t. t \<noteq> []) (map trim_space (split_byte (CHR '','') s))"

definition parseSearchParams :: "request \<Rightarrow> SearchQuery" where
  "parseSearchParams r =
     (let q = req_query r;
          limit = (if q ''limit'' \<noteq> [] then
                     (case Atoi (q ''limit'') of None \<Rightarrow> 50 | Some parsed \<Rightarrow> if parsed > 0 then parsed else 50) else 50);
          offset = (if q ''offset'' \<noteq> [] then
                     (case Atoi (q ''offset'') of None \<Rightarrow> 0 | Some parsed \<Rightarrow> if parsed \<ge> 0 then parsed else 0) else 0)
      in \<lparr>sq_Query = q ''q'',
          sq_CaseID = (if q ''case_id'' \<noteq> [] then Some (q ''case_id'') else None),
          sq_MimeTypes = (if q ''type'' \<noteq> [] then splitAndTrim (q ''type'') else []),
          sq_Tags = (if q ''tag'' \<noteq> [] then splitAndTrim (q ''tag'') else []),
          sq_Classifications = (if q ''classification'' \<noteq> [] then splitAndTrim (q ''classification'') else []),
          sq_DateFrom = (if q ''from'' \<noteq> [] then Some (q ''from'') else None),
          sq_DateTo = (if q ''to'' \<noteq> [] then Some (q ''to'') else None),
          sq_Limit = (if limit > 200 then 200 else limit), sq_Offset = offset,
          sq_UserCaseIDs = [], sq_DisclosedOnly = False\<rparr>)"

definition restrict_query :: "string list \<Rightarrow> (string \<times> string) list \<Rightarrow> SearchQuery \<Rightarrow> SearchQuery" where
  "restrict_query caseIDs caseRoles query =
     query\<lparr>sq_UserCaseIDs := caseIDs,
       sq_DisclosedOnly := (if \<exists>kr \<in> set caseRoles. snd kr = ''defence'' then True else sq_DisclosedOnly query)\<rparr>"

definition permitted_query ::
  "search_env \<Rightarrow> AuthContext \<Rightarrow> SearchQuery \<Rightarrow> 'a search_db_scheme
     \<Rightarrow> (go_error + SearchQuery option) \<times> 'a search_db_scheme" where
  \<comment> \<open>the part of \<open>Search\<close> between parsing and searching; \<open>None\<close>: the user has no case\<close>
  "permitted_query E ac query w =
     (if SystemRole ac < RoleSystemAdmin then
        (case GetUserCaseIDs E (UserID ac) w of
           (Inl err, w1) \<Rightarrow> (Inl err, w1)
         | (Inr caseIDs, w1) \<Rightarrow>
             if caseIDs = [] then (Inr None, w1)
             else
               (case GetUserCaseRoles E (UserID ac) w1 of
                  (Inl err, w2) \<Rightarrow> (Inl err, w2)
                | (Inr caseRoles, w2) \<Rightarrow> (Inr (Some (restrict_query caseIDs caseRoles query)), w2)))
      else (Inr (Some query), w))"

definition search_Search ::
  "search_env \<Rightarrow> ctx \<Rightarrow> request \<Rightarrow> 'a search_db_scheme
     \<Rightarrow> EvidenceSearchResult http_response \<times> 'a search_db_scheme" where
  "search_Search E c r w =
     (case GetAuthContext c of
        None \<Rightarrow> (RespondError 500 ''internal error'', w)
      | Some ac \<Rightarrow>
          (case permitted_query E ac (parseSearchParams r) w of
             (Inl err, w1) \<Rightarrow> (RespondError 500 ''failed to load user permissions'', w1)
           | (Inr None, w1) \<Rightarrow> (RespondJSON 200 empty_result, w1)
           | (Inr (Some query), w1) \<Rightarrow>
               (case searcher_search (se_searcher E) query w1 of
                  (Inl err, w2) \<Rightarrow> (RespondError 503 ''search service unavailable'', w2)
                | (Inr result, w2) \<Rightarrow> (RespondJSON 200 result, w2))))"

section \<open>What the loaders give\<close>

lemma search_tick [simp]: "ms_tasks (tick w) = ms_tasks w"
  by (simp add: tick_def)

lemma search_only_ticks:
  assumes "only_ticks w (w' :: 'a search_db_scheme)"
  shows "ms_tasks w' = ms_tasks w" "case_roles w' = case_roles w"
proof -
  obtain n where "w' = w\<lparr>w_tick := n\<rparr>" using assms unfolding only_ticks_def by blast
  then show "ms_tasks w' = ms_tasks w" "case_roles w' = case_roles w" by simp_all
qed

lemma load_roles_ok:
  assumes "load_roles E u mq ms mi w = (Inr rows, w')"
  shows "rows = se_order E (user_roles (se_lib E) u (case_roles w))"
  using assms by (auto simp: load_roles_def split: if_splits dest: query_rows_ok)

lemma load_roles_ticks: "load_roles E u mq ms mi w = (r, w') \<Longrightarrow> only_ticks w w'"
  by (auto simp: load_roles_def split: if_splits dest: query_rows_ticks)

lemma load_roles_calm:
  assumes "no_faults w" "lib_col_uuid (se_lib E) u = Some v"
  shows "\<exists>w'. load_roles E u mq ms mi w = (Inr (se_order E (user_roles (se_lib E) u (case_roles w))), w') \<and> only_ticks w w'"
proof -
  let ?rows = "se_order E (user_roles (se_lib E) u (case_roles w))"
  obtain w' where q: "query_rows (wrapf mq) (wrapf ms) (wrapf mi) ?rows w = (Inr ?rows, w')"
    using query_rows_no_faults [OF assms(1)] by (metis prod.collapse)
  then have "load_roles E u mq ms mi w = (Inr ?rows, w')" using assms(2) by (simp add: load_roles_def)
  with query_rows_ticks [OF q] show ?thesis by blast
qed

definition order_ok :: "(CaseRoleRow list \<Rightarrow> CaseRoleRow list) \<Rightarrow> bool" where
  "order_ok f \<longleftrightarrow> (\<forall>rows. mset (f rows) = mset rows)"

lemma order_set: "order_ok f \<Longrightarrow> set (f rows) = set rows"
  unfolding order_ok_def by (metis set_mset_mset)

definition role_map :: "go_lib \<Rightarrow> CaseRoleRow list \<Rightarrow> (string \<times> string) list" where
  "role_map L rows = fold (\<lambda>r m. AList.update (lib_uuid_string L (cr_CaseID r)) (cr_Role r) m) rows []"

lemma map_of_fold_update:
  "map_of (fold (\<lambda>r m. AList.update (key r) (val r) m) rows m0) =
     (map_of m0) ++ map_of (rev (map (\<lambda>r. (key r, val r)) rows))"
  by (induction rows arbitrary: m0) (auto simp: update_conv' map_add_def split: option.splits)

lemma role_map_all:
  assumes "r \<in> set rows" "\<And>r'. r' \<in> set rows \<Longrightarrow> cr_CaseID r' = cr_CaseID r \<Longrightarrow> cr_Role r' = cr_Role r" "uuid_lib_ok L"
  shows "(lib_uuid_string L (cr_CaseID r), cr_Role r) \<in> set (role_map L rows)"
proof -
  let ?k = "lib_uuid_string L (cr_CaseID r)" and ?ps = "map (\<lambda>r. (lib_uuid_string L (cr_CaseID r), cr_Role r)) rows"
  have inj: "lib_uuid_string L u = lib_uuid_string L v \<Longrightarrow> u = v" for u v
    using assms(3) unfolding uuid_lib_ok_def by (metis sum.inject(2))
  have "?k \<in> fst ` set (rev ?ps)" using assms(1) by force
  then obtain v where v: "map_of (rev ?ps) ?k = Some v" by (metis map_of_eq_None_iff not_None_eq)
  then have "(?k, v) \<in> set ?ps" using map_of_SomeD by fastforce
  then have "v = cr_Role r" using assms(2) inj by auto
  with v have "map_of (role_map L rows) ?k = Some (cr_Role r)"
    by (simp add: role_map_def map_of_fold_update map_add_def)
  then show ?thesis by (rule map_of_SomeD)
qed

definition restricted :: "go_lib \<Rightarrow> CaseRoleRow list \<Rightarrow> SearchQuery \<Rightarrow> SearchQuery" where
  "restricted L rows q = restrict_query (map (\<lambda>r. lib_uuid_string L (cr_CaseID r)) rows) (role_map L rows) q"

lemma restricted_sel [simp]:
  "sq_UserCaseIDs (restricted L rows q) = map (\<lambda>r. lib_uuid_string L (cr_CaseID r)) rows"
  "sq_DisclosedOnly (restricted L rows q) \<longleftrightarrow> ''defence'' \<in> snd ` set (role_map L rows) \<or> sq_DisclosedOnly q"
  by (simp_all add: restricted_def restrict_query_def) (force simp: image_iff)

lemma permitted_ok:
  assumes "permitted_query E ac q w = (Inr (Some q'), w')" "SystemRole ac < RoleSystemAdmin"
  shows "\<exists>rows. rows = se_order E (user_roles (se_lib E) (UserID ac) (case_roles w)) \<and> rows \<noteq> [] \<and>
    q' = restricted (se_lib E) rows q \<and> only_ticks w w'"
proof -
  obtain rows w1 where l: "load_roles E (UserID ac) ''query user case IDs'' ''scan case ID'' ''iterate user case IDs'' w = (Inr rows, w1)"
      "rows \<noteq> []"
    using assms by (auto simp: permitted_query_def GetUserCaseIDs_def split: prod.splits sum.splits if_splits)
  note t = load_roles_ticks [OF l(1)]
  obtain rows2 w2 where m: "load_roles E (UserID ac) ''query user case roles'' ''scan case role'' ''iterate user case roles'' w1 = (Inr rows2, w2)"
    using assms l by (auto simp: permitted_query_def GetUserCaseIDs_def GetUserCaseRoles_def split: prod.splits sum.splits if_splits)
  have e: "rows2 = rows" "rows = se_order E (user_roles (se_lib E) (UserID ac) (case_roles w))"
    using load_roles_ok [OF l(1)] load_roles_ok [OF m] search_only_ticks(2) [OF t] by simp_all
  have "only_ticks w w2" using t load_roles_ticks [OF m] only_ticks_trans by blast
  moreover have "w' = w2" "q' = restricted (se_lib E) rows q"
    using assms l m e(1)
    by (auto simp: permitted_query_def GetUserCaseIDs_def GetUserCaseRoles_def role_map_def restricted_def)
  ultimately show ?thesis using e(2) l(2) by blast
qed

lemma permitted_calm:
  assumes "no_faults w" "SystemRole ac < RoleSystemAdmin"
    and "rows = se_order E (user_roles (se_lib E) (UserID ac) (case_roles w))" "rows \<noteq> []" "order_ok (se_order E)"
  shows "\<exists>w'. permitted_query E ac q w = (Inr (Some (restricted (se_lib E) rows q)), w') \<and> only_ticks w w'"
proof -
  have "set rows = set (user_roles (se_lib E) (UserID ac) (case_roles w))"
    unfolding assms(3) using order_set [OF assms(5)] by blast
  with assms(4) obtain v where v: "lib_col_uuid (se_lib E) (UserID ac) = Some v"
    by (cases rows) (auto simp: user_roles_def)
  obtain w1 where l1: "load_roles E (UserID ac) ''query user case IDs'' ''scan case ID'' ''iterate user case IDs'' w =
      (Inr rows, w1)" "only_ticks w w1"
    using load_roles_calm [where E = E and u = "UserID ac" and mq = "''query user case IDs''" and ms = "''scan case ID''"
        and mi = "''iterate user case IDs''", OF assms(1) v] assms(3) by blast
  have w1: "no_faults w1" "case_roles w1 = case_roles w"
    using l1(2) assms(1) by (simp_all add: only_ticks_no_faults search_only_ticks)
  obtain w2 where l2: "load_roles E (UserID ac) ''query user case roles'' ''scan case role'' ''iterate user case roles'' w1 =
      (Inr rows, w2)" "only_ticks w1 w2"
    using load_roles_calm [where E = E and u = "UserID ac" and mq = "''query user case roles''" and ms = "''scan case role''"
        and mi = "''iterate user case roles''", OF w1(1) v] assms(3) w1(2) by metis
  show ?thesis
    using assms(2,4) l1 l2 only_ticks_trans [OF l1(2) l2(2)]
    by (simp add: permitted_query_def GetUserCaseIDs_def GetUserCaseRoles_def restricted_def role_map_def)
qed

section \<open>Who finds what\<close>

definition only_defence :: "go_lib \<Rightarrow> string \<Rightarrow> CaseRoleRow list \<Rightarrow> bool" where
  \<comment> \<open>the user is of the defence in some case and nothing else in it\<close>
  "only_defence L user rows \<longleftrightarrow>
     (\<exists>r \<in> set (user_roles L user rows). \<forall>r' \<in> set (user_roles L user rows).
        cr_CaseID r' = cr_CaseID r \<longrightarrow> cr_Role r' = ''defence'')"

lemma permitted_clean:
  assumes "clean_query q" "\<And>u. clean (lib_uuid_string L u)"
  shows "clean_query (restricted L rows q)"
  using assms by (simp add: clean_query_def list_all_iff restricted_def restrict_query_def)

lemma conditions_permitted:
  "sq_UserCaseIDs q \<noteq> [] \<Longrightarrow> OneOf ''case_id'' (sq_UserCaseIDs q) \<in> set (conditions q)"
  "sq_DisclosedOnly q \<Longrightarrow> IsTrue ''is_disclosed'' \<in> set (conditions q)"
  by (simp_all add: conditions_def)

lemma search_request_filter:
  assumes "clean_query q" "sq_UserCaseIDs q \<noteq> []"
  shows "\<exists>s. mr_filter (search_request q) = Some s \<and> read_filter s = Some (conditions q)"
proof -
  note r = search_filter_meaning [OF assms(1)]
  have "conditions q \<noteq> []" using conditions_permitted(1) [OF assms(2)] by auto
  with r have "buildEvidenceFilter q \<noteq> []" by (auto simp: read_filter_def)
  with r show ?thesis by (simp add: search_request_def Let_def)
qed

lemma search_ok:
  assumes "search_Search E c r w = (RespondJSON 200 res, w')" "GetAuthContext c = Some ac"
    and "SystemRole ac < RoleSystemAdmin" "se_searcher E = Meilisearch engine" "sr_Hits res \<noteq> []"
  shows "\<exists>q w1 resp. permitted_query E ac (parseSearchParams r) w = (Inr (Some q), w1) \<and>
    engine (ms_tasks w1) evidenceIndex (search_request q) = Inr resp \<and> sr_Hits res = map parseEvidenceHit (mp_hits resp)"
  using assms by (auto simp: search_Search_def SearchEvidence_def empty_result_def
      split: prod.splits sum.splits option.splits)

text \<open>
  C16: Given the documented behaviour of the search server, every hit that a user who is not a system
  administrator receives is a document that was indexed, and its case is one in which the user has
  a role; when the user is of the defence in some case and nothing else in it, the document is
  marked as disclosed. Both hold for every query string whose parameters contain no backslash.
\<close>

theorem search_respects_roles:
  assumes "search_Search E c r w = (RespondJSON 200 res, w')" "GetAuthContext c = Some ac"
    and "SystemRole ac < RoleSystemAdmin" "se_searcher E = Meilisearch engine" "engine_ok engine"
    and "clean_query (parseSearchParams r)" "\<And>u. clean (lib_uuid_string (se_lib E) u)" "uuid_lib_ok (se_lib E)"
    and "order_ok (se_order E)" "h \<in> set (sr_Hits res)"
  shows "\<exists>d \<in> set (added_docs (ms_tasks w) evidenceIndex).
    eh_EvidenceID h = getString d ''id'' \<and> eh_CaseID h = getString d ''case_id'' \<and>
    (\<exists>role \<in> set (case_roles w). lib_col_uuid (se_lib E) (UserID ac) = Some (cr_UserID role) \<and>
       field_has d ''case_id'' (lib_uuid_string (se_lib E) (cr_CaseID role))) \<and>
    (only_defence (se_lib E) (UserID ac) (case_roles w) \<longrightarrow> field_true d ''is_disclosed'')"
proof -
  let ?L = "se_lib E" and ?ur = "user_roles (se_lib E) (UserID ac) (case_roles w)"
  from assms(10) have "sr_Hits res \<noteq> []" by auto
  from search_ok [OF assms(1-4) this] obtain q w1 resp
    where q: "permitted_query E ac (parseSearchParams r) w = (Inr (Some q), w1)"
      "engine (ms_tasks w1) evidenceIndex (search_request q) = Inr resp" "sr_Hits res = map parseEvidenceHit (mp_hits resp)"
    by blast
  from permitted_ok [OF q(1) assms(3)] obtain rows where rows: "rows = se_order E ?ur" "rows \<noteq> []"
      "q = restricted ?L rows (parseSearchParams r)" "only_ticks w w1" by blast
  have set_rows: "set rows = set ?ur" using order_set [OF assms(9)] rows(1) by simp
  have clean: "clean_query q" unfolding rows(3) by (rule permitted_clean [OF assms(6,7)])
  have ids: "sq_UserCaseIDs q \<noteq> []" "sq_UserCaseIDs q = map (\<lambda>r. lib_uuid_string ?L (cr_CaseID r)) rows"
    using rows(2) by (simp_all add: rows(3))
  obtain s where s: "mr_filter (search_request q) = Some s" "read_filter s = Some (conditions q)"
    using search_request_filter [OF clean ids(1)] by blast
  obtain hit where hit: "hit \<in> set (mp_hits resp)" "h = parseEvidenceHit hit" using assms(10) q(3) by auto
  then obtain d where d: "d \<in> set (added_docs (ms_tasks w1) evidenceIndex)" "hit_of d hit"
      "\<forall>c \<in> set (conditions q). admits d c"
    using assms(5) q(2) s unfolding engine_ok_def by blast
  have "admits d (OneOf ''case_id'' (sq_UserCaseIDs q))" using d(3) conditions_permitted(1) [OF ids(1)] by blast
  then obtain role where role: "role \<in> set ?ur" "field_has d ''case_id'' (lib_uuid_string ?L (cr_CaseID role))"
    using ids(2) set_rows by (auto simp: list_ex_iff)
  have "field_true d ''is_disclosed''" if o: "only_defence ?L (UserID ac) (case_roles w)"
  proof -
    from o obtain ro where ro: "ro \<in> set rows" "\<And>r'. r' \<in> set rows \<Longrightarrow> cr_CaseID r' = cr_CaseID ro \<Longrightarrow> cr_Role r' = ''defence''"
      unfolding only_defence_def set_rows by blast
    then have "(lib_uuid_string ?L (cr_CaseID ro), ''defence'') \<in> set (role_map ?L rows)"
      using role_map_all [OF ro(1) _ assms(8)] by force
    then have "sq_DisclosedOnly q" unfolding rows(3) by force
    then show ?thesis using d(3) conditions_permitted(2) by fastforce
  qed
  moreover have "eh_EvidenceID h = getString d ''id''" "eh_CaseID h = getString d ''case_id''"
    using d(2) by (simp_all add: hit(2) parseEvidenceHit_def getString_def hit_of_def)
  ultimately show ?thesis
    using d(1) role search_only_ticks(1) [OF rows(4)] by (auto simp: user_roles_def)
qed

section \<open>The deployment\<close>

text \<open>
  The program that \<open>cmd/server\<close> starts never calls \<open>ConfigureEvidenceIndex\<close>: all the server is ever
  sent are the documents of \<open>indexEvidence\<close>.
\<close>

definition wired_tasks :: "go_lib \<Rightarrow> EvidenceItem list \<Rightarrow> ms_task list" where
  "wired_tasks L items = map (\<lambda>e. AddDocuments evidenceIndex [document_payload (index_document L e)]) items"

lemma wired_not_filterable: "filterable (wired_tasks L items) index = []"
proof -
  have "fold (task_filterable index) (wired_tasks L items) [] = []"
    by (induction items) (simp_all add: wired_tasks_def)
  then show ?thesis by (simp add: filterable_def)
qed

text \<open>
  As the program is wired, with an index whose filterable attributes nobody sets, every search
  of a user who is not a system administrator and has a role in some case is refused by the server
  and answered with 503, whatever is asked.
\<close>

theorem wired_search_unavailable:
  assumes "GetAuthContext c = Some ac" "SystemRole ac < RoleSystemAdmin" "no_faults w"
    and "se_searcher E = Meilisearch engine" "engine_ok engine" "ms_tasks w = wired_tasks (se_lib E) items"
    and "clean_query (parseSearchParams r)" "\<And>u. clean (lib_uuid_string (se_lib E) u)" "order_ok (se_order E)"
    and "user_roles (se_lib E) (UserID ac) (case_roles w) \<noteq> []"
  shows "fst (search_Search E c r w) = RespondError 503 ''search service unavailable''"
proof -
  let ?L = "se_lib E" and ?ur = "user_roles (se_lib E) (UserID ac) (case_roles w)"
  let ?rows = "se_order E ?ur"
  let ?q = "restricted ?L ?rows (parseSearchParams r)"
  have ne: "?rows \<noteq> []" using order_set [OF assms(9), of ?ur] assms(10) by auto
  obtain w2 where p: "permitted_query E ac (parseSearchParams r) w = (Inr (Some ?q), w2)" "only_ticks w w2"
    using permitted_calm [OF assms(3,2) refl ne assms(9)] by blast
  have clean: "clean_query ?q" by (rule permitted_clean [OF assms(7,8)])
  have ids: "sq_UserCaseIDs ?q \<noteq> []" using ne by simp
  obtain s where s: "mr_filter (search_request ?q) = Some s" "read_filter s = Some (conditions ?q)"
    using search_request_filter [OF clean ids] by blast
  have t: "ms_tasks w2 = wired_tasks ?L items" using search_only_ticks(1) [OF p(2)] assms(6) by simp
  have "engine (wired_tasks ?L items) evidenceIndex (search_request ?q) \<noteq> Inr resp" for resp
  proof
    assume "engine (wired_tasks ?L items) evidenceIndex (search_request ?q) = Inr resp"
    then have "set (condition_attributes (OneOf ''case_id'' (sq_UserCaseIDs ?q))) \<subseteq> set (filterable (wired_tasks ?L items) evidenceIndex)"
      using assms(5) s conditions_permitted(1) [OF ids] unfolding engine_ok_def by blast
    then show False by (simp add: wired_not_filterable)
  qed
  then obtain err where "engine (wired_tasks ?L items) evidenceIndex (search_request ?q) = Inl err"
    by (cases "engine (wired_tasks ?L items) evidenceIndex (search_request ?q)") auto
  then show ?thesis
    using assms(1,4) p(1) t by (simp add: search_Search_def SearchEvidence_def split: option.splits)
qed

text \<open>
  And where the attributes are configured by hand, the documents of \<open>indexEvidence\<close> have no field
  \<open>is_disclosed\<close>, so that no search of the defence finds one.
\<close>

lemma wired_docs_undisclosed:
  "d \<in> set (added_docs (wired_tasks L items) evidenceIndex) \<Longrightarrow> \<not> field_true d ''is_disclosed''"
  by (auto simp: added_docs_def wired_tasks_def document_payload_def index_document_def field_true_def)

section \<open>Witnesses\<close>

definition sample_search_db :: "CaseRoleRow list \<Rightarrow> ms_task list \<Rightarrow> search_db" where
  "sample_search_db roles tasks =
     \<lparr>w_tick = 0, w_fault = (\<lambda>n. None), w_now = (\<lambda>n. 0), w_uuid = (\<lambda>n. 0), custody_log = [], cases_table = [],
      case_roles = roles, ms_tasks = tasks\<rparr>"

definition sample_search_env :: search_env where
  "sample_search_env = \<lparr>se_lib = sample_lib, se_searcher = Meilisearch sample_engine, se_order = id\<rparr>"

definition sample_search_user :: ctx where
  "sample_search_user =
     \<lparr>authContextKey = Some \<lparr>UserID = ''5'', Email = [], Username = ''U'', SystemRole = RoleUser,
        TokenExpiry = 100, SessionID = [], IPAddress = ''10.0.0.1''\<rparr>, caseRoleKey = None\<rparr>"

definition sample_search_get :: request where
  "sample_search_get =
     \<lparr>req_method = ''GET'', req_path = ''/api/search'', req_header = (\<lambda>h. []),
      req_query = (\<lambda>q. if q = ''q'' then ''knife'' else []), req_param = (\<lambda>p. []), req_remote_addr = [], req_body = []\<rparr>"

definition sample_defence :: CaseRoleRow where
  "sample_defence = \<lparr>cr_ID = 1, cr_CaseID = 7, cr_UserID = ''5'', cr_Role = ''defence'', cr_GrantedBy = ''9'', cr_GrantedAt = 0\<rparr>"

definition sample_doc :: "string \<Rightarrow> string \<Rightarrow> bool \<Rightarrow> ms_doc" where
  "sample_doc k caseID shown =
     [(''id'', JString k), (''case_id'', JString caseID), (''is_disclosed'', JBool shown)]"

lemma sample_params: "parseSearchParams sample_search_get =
    \<lparr>sq_Query = ''knife'', sq_CaseID = None, sq_MimeTypes = [], sq_Tags = [], sq_Classifications = [],
     sq_DateFrom = None, sq_DateTo = None, sq_Limit = 50, sq_Offset = 0, sq_UserCaseIDs = [], sq_DisclosedOnly = False\<rparr>"
  by (simp add: parseSearchParams_def sample_search_get_def Let_def)

lemma sample_uuid_clean: "clean (lib_uuid_string sample_lib u)"
  using nat_digits_chars [of backslash "unat u"] by (auto simp: clean_def sample_lib_def)

lemma sample_search_sel [simp]:
  "no_faults (sample_search_db roles tasks)" "case_roles (sample_search_db roles tasks) = roles"
  "ms_tasks (sample_search_db roles tasks) = tasks" "se_lib sample_search_env = sample_lib"
  "se_searcher sample_search_env = Meilisearch sample_engine" "se_order sample_search_env = id"
  "order_ok id" "clean_query (parseSearchParams sample_search_get)"
  by (simp_all add: sample_search_db_def sample_search_env_def no_faults_def order_ok_def sample_params clean_query_def)

abbreviation sample_search_ac :: AuthContext where
  "sample_search_ac \<equiv> \<lparr>UserID = ''5'', Email = [], Username = ''U'', SystemRole = RoleUser, TokenExpiry = 100,
     SessionID = [], IPAddress = ''10.0.0.1''\<rparr>"

lemma sample_search_user_ac: "GetAuthContext sample_search_user = Some sample_search_ac"
  by (simp add: sample_search_user_def GetAuthContext_def)

lemma sample_user_roles: "user_roles sample_lib ''5'' [sample_defence] = [sample_defence]"
  by (simp add: user_roles_def sample_lib_def sample_defence_def)

lemma sample_permitted:
  "\<exists>w'. permitted_query sample_search_env sample_search_ac (parseSearchParams sample_search_get)
      (sample_search_db [sample_defence] tasks) =
    (Inr (Some ((parseSearchParams sample_search_get)\<lparr>sq_UserCaseIDs := [''7''], sq_DisclosedOnly := True\<rparr>)), w') \<and>
    ms_tasks w' = tasks \<and> no_faults w'"
proof -
  let ?w = "sample_search_db [sample_defence] tasks"
  have "nat_digits 7 = ''7''" by code_simp
  then have k: "lib_uuid_string sample_lib (cr_CaseID sample_defence) = ''7''" "cr_Role sample_defence = ''defence''"
    by (simp_all add: sample_lib_def sample_defence_def)
  then have "restricted sample_lib [sample_defence] (parseSearchParams sample_search_get) =
      (parseSearchParams sample_search_get)\<lparr>sq_UserCaseIDs := [''7''], sq_DisclosedOnly := True\<rparr>"
    by (simp add: restricted_def restrict_query_def role_map_def)
  moreover have "RoleUser < RoleSystemAdmin" by code_simp
  ultimately show ?thesis
    using permitted_calm [of ?w sample_search_ac "[sample_defence]" sample_search_env "parseSearchParams sample_search_get"]
    by (auto simp: sample_user_roles only_ticks_no_faults search_only_ticks)
qed

definition sample_configured :: "ms_task list" where
  "sample_configured =
     [UpdateFilterableAttributes ''evidence'' [''case_id'', ''is_disclosed''],
      AddDocuments ''evidence'' [sample_doc ''1'' ''7'' True, sample_doc ''2'' ''7'' False, sample_doc ''3'' ''8'' True]]"

theorem search_respects_roles_witness:
  "\<exists>res w'. search_Search sample_search_env sample_search_user sample_search_get
       (sample_search_db [sample_defence] sample_configured) = (RespondJSON 200 res, w') \<and>
     map eh_EvidenceID (sr_Hits res) = [''1''] \<and>
     (\<exists>d \<in> set (added_docs sample_configured ''evidence''). getString d ''id'' = ''1'' \<and> field_true d ''is_disclosed'')"
proof -
  let ?q = "(parseSearchParams sample_search_get)\<lparr>sq_UserCaseIDs := [''7''], sq_DisclosedOnly := True\<rparr>"
  let ?w = "sample_search_db [sample_defence] sample_configured"
  obtain w' where p: "permitted_query sample_search_env sample_search_ac (parseSearchParams sample_search_get) ?w =
      (Inr (Some ?q), w')" "ms_tasks w' = sample_configured" "no_faults w'"
    using sample_permitted [of sample_configured] by blast
  have c: "clean_query ?q" by (simp add: sample_params clean_query_def clean_def)
  have f: "\<exists>s. mr_filter (search_request ?q) = Some s \<and> read_filter s = Some (conditions ?q)"
    by (rule search_request_filter [OF c]) simp
  have cs: "conditions ?q = [OneOf ''case_id'' [''7''], IsTrue ''is_disclosed'']"
    by (simp add: conditions_def sample_params)
  have d: "added_docs sample_configured evidenceIndex =
      [sample_doc ''1'' ''7'' True, sample_doc ''2'' ''7'' False, sample_doc ''3'' ''8'' True]"
      "filterable sample_configured evidenceIndex = [''case_id'', ''is_disclosed'']"
    by (simp_all add: added_docs_def sample_configured_def evidenceIndex_def filterable_def)
  have "filter (\<lambda>d. \<forall>c \<in> set (conditions ?q). admits d c) (added_docs sample_configured evidenceIndex) = [sample_doc ''1'' ''7'' True]"
    unfolding cs d by code_simp
  with f cs d(2) have e: "sample_engine sample_configured evidenceIndex (search_request ?q) =
      Inr \<lparr>mp_hits = [sample_doc ''1'' ''7'' True], mp_total = 1, mp_time = 1, mp_facets = AnyNil\<rparr>"
    by (auto simp: sample_engine_def Let_def)
  obtain res where s: "search_Search sample_search_env sample_search_user sample_search_get ?w = (RespondJSON 200 res, tick w')"
      "sr_Hits res = [parseEvidenceHit (sample_doc ''1'' ''7'' True)]"
    using p e by (simp add: search_Search_def sample_search_user_ac SearchEvidence_def fault_none)
  have h: "eh_EvidenceID (parseEvidenceHit (sample_doc ''1'' ''7'' True)) = ''1''"
    by (simp add: parseEvidenceHit_def getString_def sample_doc_def)
  have "cr_Role sample_defence = ''defence''" by (simp add: sample_defence_def)
  then have o: "only_defence sample_lib ''5'' [sample_defence]"
    by (simp add: only_defence_def sample_user_roles)
  have "RoleUser < RoleSystemAdmin" by code_simp
  with search_respects_roles [OF s(1) sample_search_user_ac, where h = "parseEvidenceHit (sample_doc ''1'' ''7'' True)"] s h o
  show ?thesis
    using sample_engine_ok sample_uuid_clean uuid_lib_ok_sample by (auto simp: evidenceIndex_def)
qed

theorem wired_search_unavailable_witness:
  "fst (search_Search sample_search_env sample_search_user sample_search_get (sample_search_db [sample_defence] [])) =
     RespondError 503 ''search service unavailable''"
proof -
  have "RoleUser < RoleSystemAdmin" by code_simp
  then show ?thesis
    using wired_search_unavailable [where E = sample_search_env and c = sample_search_user and r = sample_search_get
        and w = "sample_search_db [sample_defence] []" and items = "[]" and engine = sample_engine, OF sample_search_user_ac]
      sample_engine_ok sample_uuid_clean sample_user_roles
    by (simp add: wired_tasks_def)
qed

end
