(* ===== verification/Go_Csv.thy ===== *)
theory Go_Csv
  imports Go_Strings
begin

text \<open>
  The writer of Go's package \<open>encoding/csv\<close> with its defaults (comma, line feed), and a reader of such
  texts after RFC 4180. Whatever bytes the fields hold, reading gives back the records that were
  written.
\<close>

section \<open>Writing\<close>

abbreviation dquote :: char where "dquote \<equiv> CHR 0x22"
abbreviation newline :: char where "newline \<equiv> CHR 0x0A"

definition fieldNeedsQuotes :: "string \<Rightarrow> bool" where
  "fieldNeedsQuotes f \<longleftrightarrow>
     f \<noteq> [] \<and>
     (f = [CHR 0x5C, CHR ''.''] \<or> (\<exists>c \<in> set f. c = newline \<or> c = CHR 0x0D \<or> c = dquote \<or> c = CHR '','') \<or>
      leading_space space_encodings f \<noteq> 0)"

definition csv_field_text :: "string \<Rightarrow> string" where
  "csv_field_text f =
     (if fieldNeedsQuotes f
      then [dquote] @ concat (map (\<lambda>c. if c = dquote then [dquote, dquote] else [c]) f) @ [dquote]
      else f)"

definition csv_record :: "string list \<Rightarrow> string" where
  "csv_record fs = join '','' (map csv_field_text fs) @ [newline]"

definition csv_text :: "string list list \<Rightarrow> string" where
  "csv_text rows = concat (map csv_record rows)"

section \<open>Reading\<close>

fun csv_quoted :: "string \<Rightarrow> (string \<times> string) option" where
  \<comment> \<open>a field up to its closing quote; two quotes stand for one\<close>
  "csv_quoted [] = None"
| "csv_quoted [c] = (if c = dquote then Some ([], []) else None)"
| "csv_quoted (c # d # cs) =
     (if c \<noteq> dquote then map_option (map_prod ((#) c) id) (csv_quoted (d # cs))
      else if d = dquote then map_option (map_prod ((#) dquote) id) (csv_quoted cs)
      else Some ([], d # cs))"

definition unquoted_char :: "char \<Rightarrow> bool" where
  "unquoted_char c \<longleftrightarrow> c \<noteq> CHR '','' \<and> c \<noteq> newline"

definition csv_field :: "string \<Rightarrow> (string \<times> string) option" where
  "csv_field s =
     (if s \<noteq> [] \<and> hd s = dquote then csv_quoted (tl s)
      else Some (takeWhile unquoted_char s, dropWhile unquoted_char s))"

lemma csv_quoted_length: "csv_quoted s = Some (v, rest) \<Longrightarrow> length rest < length s"
  by (induction s arbitrary: v rest rule: csv_quoted.induct) (fastforce split: if_splits)+

lemma csv_field_length: "csv_field s = Some (v, rest) \<Longrightarrow> length rest \<le> length s"
  using csv_quoted_length [of "tl s" v rest] length_dropWhile_le [of unquoted_char s]
  by (auto simp: csv_field_def split: if_splits)

function csv_row :: "string \<Rightarrow> (string list \<times> string) option" where
  \<comment> \<open>the fields up to the end of the line\<close>
  "csv_row s =
     (case csv_field s of
        None \<Rightarrow> None
      | Some (v, []) \<Rightarrow> None
      | Some (v, c # rest) \<Rightarrow>
          if c = CHR '','' then map_option (map_prod ((#) v) id) (csv_row rest)
          else if c = newline then Some ([v], rest)
          else None)"
  by pat_completeness auto
termination
  by (relation "measure length") (auto dest: csv_field_length)

declare csv_row.simps [simp del]

lemma csv_row_length: "csv_row s = Some (vs, rest) \<Longrightarrow> length rest < length s"
proof (induction s arbitrary: vs rest rule: csv_row.induct)
  case (1 s)
  from "1.prems" obtain v c r where f: "csv_field s = Some (v, c # r)"
    by (auto simp: csv_row.simps [of s] split: option.splits list.splits)
  with csv_field_length [OF f] "1.IH" [OF f refl refl] "1.prems" show ?case
    by (fastforce simp: csv_row.simps [of s] split: if_splits)
qed

function csv_read :: "string \<Rightarrow> string list list option" where
  "csv_read s =
     (if s = [] then Some []
      else (case csv_row s of
          None \<Rightarrow> None
        | Some (r, rest) \<Rightarrow> map_option ((#) r) (csv_read rest)))"
  by pat_completeness auto
termination
  by (relation "measure length") (auto dest: csv_row_length)

declare csv_read.simps [simp del]

section \<open>Reading what was written\<close>

definition ends_field :: "string \<Rightarrow> bool" where
  "ends_field s \<longleftrightarrow> s \<noteq> [] \<and> (hd s = CHR '','' \<or> hd s = newline)"

lemma csv_quoted_text:
  "rest \<noteq> [] \<Longrightarrow> hd rest \<noteq> dquote \<Longrightarrow>
     csv_quoted (concat (map (\<lambda>c. if c = dquote then [dquote, dquote] else [c]) f) @ dquote # rest) = Some (f, rest)"
proof (induction f)
  case Nil
  then show ?case by (cases rest) auto
next
  case (Cons c f)
  let ?t = "concat (map (\<lambda>c. if c = dquote then [dquote, dquote] else [c]) f) @ dquote # rest"
  show ?case
  proof (cases "c = dquote")
    case True
    with Cons show ?thesis by simp
  next
    case False
    moreover obtain d ds where "?t = d # ds" by (cases ?t) auto
    ultimately show ?thesis using Cons by simp
  qed
qed

lemma csv_field_text_read:
  assumes "ends_field rest"
  shows "csv_field (csv_field_text f @ rest) = Some (f, rest)"
proof (cases "fieldNeedsQuotes f")
  case True
  with csv_quoted_text [of rest f] assms show ?thesis
    by (auto simp: csv_field_def csv_field_text_def ends_field_def)
next
  case False
  then have p: "\<forall>c \<in> set f. unquoted_char c \<and> c \<noteq> dquote"
    by (cases f) (auto simp: fieldNeedsQuotes_def unquoted_char_def)
  obtain c rest' where r: "rest = c # rest'" "c = CHR '','' \<or> c = newline"
    using assms by (cases rest) (auto simp: ends_field_def)
  have "hd (f @ rest) \<noteq> dquote"
    using p r by (cases f) auto
  moreover have "takeWhile unquoted_char (f @ rest) = f" "dropWhile unquoted_char (f @ rest) = rest"
    using p r by (auto simp: takeWhile_append2 dropWhile_append2 unquoted_char_def)
  ultimately show ?thesis using False by (simp add: csv_field_def csv_field_text_def)
qed

lemma csv_row_text: "fs \<noteq> [] \<Longrightarrow> csv_row (csv_record fs @ rest) = Some (fs, rest)"
proof (induction fs)
  case (Cons f fs)
  show ?case
  proof (cases fs)
    case Nil
    with csv_field_text_read [of "newline # rest" f] show ?thesis
      by (simp add: csv_record_def csv_row.simps [of "csv_field_text f @ newline # rest"] ends_field_def)
  next
    case (Cons g gs)
    let ?r = "csv_record fs @ rest"
    have s: "csv_record (f # fs) @ rest = csv_field_text f @ CHR '','' # ?r"
      by (simp add: csv_record_def Cons)
    have "csv_field (csv_field_text f @ CHR '','' # ?r) = Some (f, CHR '','' # ?r)"
      by (rule csv_field_text_read) (simp add: ends_field_def)
    with Cons.IH Cons show ?thesis
      unfolding s by (subst csv_row.simps) simp
  qed
qed simp

lemma csv_record_ne [simp]: "csv_record fs \<noteq> []"
  by (simp add: csv_record_def)

lemma csv_read_text: "\<forall>r \<in> set rows. r \<noteq> [] \<Longrightarrow> csv_read (csv_text rows) = Some rows"
proof (induction rows)
  case (Cons r rows)
  then have "csv_row (csv_record r @ csv_text rows) = Some (r, csv_text rows)"
    by (simp add: csv_row_text)
  with Cons show ?case
    by (subst csv_read.simps) (simp add: csv_text_def)
qed (simp add: csv_text_def csv_read.simps)

end
