(* ===== verification/Cases_Export.thy ===== *)
theory Cases_Export
  imports Evidence_Api Go_Csv
begin

text \<open>
  \<open>internal/cases/export.go\<close> and \<open>export_handler.go\<close>: the export of a case as a ZIP archive that is
  streamed to the client. The state is that of evidence with the archive: the entries handed to the
  \<open>zip.Writer\<close>, whether the central directory was written, and the error of the connection, which is
  sticky (the writer buffers with \<open>bufio\<close>): after it nothing else is written, not even by \<open>Close\<close>.
\<close>

section \<open>The archive\<close>

record export_db = evidence_db +
  zip_entries :: "(string \<times> string) list"
  zip_closed :: bool
  zip_broken :: "go_error option"

text \<open>
  What the exporter is deployed with: the library, the indenting \<open>json.Encoder\<close> (\<open>None\<close> when a value
  has no encoding), \<open>Format\<close> in the time zone of the process, in which \<open>pgx\<close> returns instants, and how
  much of an object was read when reading it fails at a tick.
\<close>

record export_env =
  xe_lib :: go_lib
  xe_json :: "json \<Rightarrow> string option"
  xe_local :: "string \<Rightarrow> time \<Rightarrow> string"
  xe_cut :: "nat \<Rightarrow> nat"

definition zip_op ::
  "(go_error \<Rightarrow> go_error) \<Rightarrow> ('a export_db_scheme \<Rightarrow> 'a export_db_scheme) \<Rightarrow> 'a export_db_scheme
     \<Rightarrow> go_error option \<times> 'a export_db_scheme" where
  \<comment> \<open>an operation of the writer, with \<open>g\<close> what it does when the connection holds\<close>
  "zip_op f g w =
     (case zip_broken w of
        Some err \<Rightarrow> (Some (f err), w)
      | None \<Rightarrow>
          (case fault w of
             Some err \<Rightarrow> (Some (f err), (tick w)\<lparr>zip_broken := Some err\<rparr>)
           | None \<Rightarrow> (None, g (tick w))))"

definition append_last :: "string \<Rightarrow> (string \<times> string) list \<Rightarrow> (string \<times> string) list" where
  "append_last data es = (if es = [] then [] else butlast es @ [(fst (last es), snd (last es) @ data)])"

definition zip_Create ::
  "(go_error \<Rightarrow> go_error) \<Rightarrow> string \<Rightarrow> 'a export_db_scheme \<Rightarrow> go_error option \<times> 'a export_db_scheme" where
  "zip_Create f name w = zip_op f (\<lambda>w. w\<lparr>zip_entries := zip_entries w @ [(name, [])]\<rparr>) w"

definition zip_Write ::
  "(go_error \<Rightarrow> go_error) \<Rightarrow> string \<Rightarrow> 'a export_db_scheme \<Rightarrow> go_error option \<times> 'a export_db_scheme" where
  "zip_Write f data w = zip_op f (\<lambda>w. w\<lparr>zip_entries := append_last data (zip_entries w)\<rparr>) w"

definition zip_Close ::
  "(go_error \<Rightarrow> go_error) \<Rightarrow> 'a export_db_scheme \<Rightarrow> go_error option \<times> 'a export_db_scheme" where
  "zip_Close f w = zip_op f (\<lambda>w. w\<lparr>zip_closed := True\<rparr>) w"

definition and_then ::
  "('s \<Rightarrow> go_error option \<times> 's) \<Rightarrow> ('s \<Rightarrow> go_error option \<times> 's) \<Rightarrow> 's \<Rightarrow> go_error option \<times> 's" where
  \<comment> \<open>\<open>if err := f(); err != nil { return err }\<close> in front of \<open>g\<close>\<close>
  "and_then f g w = (case f w of (Some err, w1) \<Rightarrow> (Some err, w1) | (None, w1) \<Rightarrow> g w1)"

section \<open>The entries\<close>

definition exportVersion :: string where "exportVersion = ''1.0''"

record exportManifest =
  xm_ExportDate :: time
  xm_Version :: string
  xm_CaseID :: string
  xm_Reference :: string
  xm_Title :: string
  xm_Jurisdiction :: string
  xm_Status :: string
  xm_TotalItems :: int
  xm_ExportedBy :: string

definition manifest_json :: "go_lib \<Rightarrow> exportManifest \<Rightarrow> json" where
  "manifest_json L m =
     JObject
       [(''export_date'', JString (lib_format L RFC3339Nano (xm_ExportDate m))), (''version'', JString (xm_Version m)),
        (''case_id'', JString (xm_CaseID m)), (''reference_code'', JString (xm_Reference m)),
        (''title'', JString (xm_Title m)), (''jurisdiction'', JString (xm_Jurisdiction m)),
        (''status'', JString (xm_Status m)), (''total_items'', JNumber (xm_TotalItems m) 0),
        (''exported_by'', JString (xm_ExportedBy m))]"

definition case_document :: "export_env \<Rightarrow> Case \<Rightarrow> json" where
  "case_document X c =
     JObject
       [(''id'', JString (lib_uuid_string (xe_lib X) (c_ID c))), (''reference_code'', JString (c_ReferenceCode c)),
        (''title'', JString (c_Title c)), (''description'', JString (c_Description c)),
        (''jurisdiction'', JString (c_Jurisdiction c)), (''status'', JString (c_Status c)),
        (''legal_hold'', JBool (c_LegalHold c)), (''created_by'', JString (c_CreatedBy c)),
        (''created_by_name'', JString (c_CreatedByName c)),
        (''created_at'', JString (xe_local X RFC3339Nano (c_CreatedAt c))),
        (''updated_at'', JString (xe_local X RFC3339Nano (c_UpdatedAt c)))]"

definition zip_encode ::
  "export_env \<Rightarrow> (go_error \<Rightarrow> go_error) \<Rightarrow> json \<Rightarrow> 'a export_db_scheme \<Rightarrow> go_error option \<times> 'a export_db_scheme" where
  \<comment> \<open>\<open>enc.Encode\<close> into the current entry\<close>
  "zip_encode X f j w =
     (case xe_json X j of
        None \<Rightarrow> (Some (f (ErrNew ''json: unsupported value'')), w)
      | Some s \<Rightarrow> zip_Write f s w)"

definition writeManifest ::
  "export_env \<Rightarrow> string \<Rightarrow> Case \<Rightarrow> EvidenceItem list \<Rightarrow> string \<Rightarrow> 'a export_db_scheme
     \<Rightarrow> go_error option \<times> 'a export_db_scheme" where
  "writeManifest X pre c items actorUserID w =
     (let manifest = \<lparr>xm_ExportDate = now w, xm_Version = exportVersion, xm_CaseID = lib_uuid_string (xe_lib X) (c_ID c),
            xm_Reference = c_ReferenceCode c, xm_Title = c_Title c, xm_Jurisdiction = c_Jurisdiction c,
            xm_Status = c_Status c, xm_TotalItems = int (length items), xm_ExportedBy = actorUserID\<rparr>
      in and_then (zip_Create (wrapf ''create manifest entry'') (pre @ ''manifest.json''))
           (zip_encode X (wrapf ''encode manifest'') (manifest_json (xe_lib X) manifest)) (tick w))"

definition writeCaseJSON ::
  "export_env \<Rightarrow> string \<Rightarrow> Case \<Rightarrow> 'a export_db_scheme \<Rightarrow> go_error option \<times> 'a export_db_scheme" where
  "writeCaseJSON X pre c =
     and_then (zip_Create (wrapf ''create case.json entry'') (pre @ ''case.json''))
       (zip_encode X (wrapf ''encode case.json'') (case_document X c))"

definition export_filename :: "EvidenceItem \<Rightarrow> string" where
  "export_filename e = derefStr (ei_EvidenceNumber e) @ ''_'' @ ei_Filename e"

definition zip_Copy ::
  "export_env \<Rightarrow> (go_error \<Rightarrow> go_error) \<Rightarrow> string \<Rightarrow> 'a export_db_scheme
     \<Rightarrow> go_error option \<times> 'a export_db_scheme" where
  \<comment> \<open>\<open>io.Copy(fw, rc)\<close>: when reading fails, what was read before is in the entry\<close>
  "zip_Copy X f data w =
     (case fault w of
        Some err \<Rightarrow> (Some (f err), (tick w)\<lparr>zip_entries := append_last (take (xe_cut X (w_tick w)) data) (zip_entries w)\<rparr>)
      | None \<Rightarrow> zip_Write f data (tick w))"

definition writeEvidenceFile ::
  "export_env \<Rightarrow> string \<Rightarrow> EvidenceItem \<Rightarrow> 'a export_db_scheme \<Rightarrow> go_error option \<times> 'a export_db_scheme" where
  \<comment> \<open>the body of the loop\<close>
  "writeEvidenceFile X pre e w =
     (case ei_StorageKey e of
        None \<Rightarrow> (None, w)
      | Some key \<Rightarrow>
          let filename = export_filename e in
          case zip_Create (wrapf (''create evidence zip entry '' @ filename)) (pre @ ''evidence/'' @ filename) w of
            (Some err, w1) \<Rightarrow> (Some err, w1)
          | (None, w1) \<Rightarrow>
              (case GetObject key w1 of
                 (Inl err, w2) \<Rightarrow> (Some (wrapf (''download evidence file '' @ key) err), w2)
               | (Inr (data, ct), w2) \<Rightarrow>
                   zip_Copy X (wrapf (''copy evidence file '' @ filename @ '' to zip'')) data w2))"

fun writeEvidenceFiles ::
  "export_env \<Rightarrow> string \<Rightarrow> EvidenceItem list \<Rightarrow> 'a export_db_scheme \<Rightarrow> go_error option \<times> 'a export_db_scheme" where
  "writeEvidenceFiles X pre [] w = (None, w)"
| "writeEvidenceFiles X pre (e # es) w =
     and_then (writeEvidenceFile X pre e) (writeEvidenceFiles X pre es) w"

definition tsa_text :: "export_env \<Rightarrow> EvidenceItem \<Rightarrow> string" where
  "tsa_text X e = (case ei_TSATimestamp e of None \<Rightarrow> [] | Some t \<Rightarrow> xe_local X RFC3339 t)"

definition metadata_header :: "string list" where
  "metadata_header =
     [''evidence_number'', ''filename'', ''original_name'', ''mime_type'', ''size_bytes'', ''sha256_hash'',
      ''classification'', ''description'', ''uploaded_by'', ''tsa_status'', ''tsa_timestamp'', ''created_at'']"

definition metadata_row :: "export_env \<Rightarrow> EvidenceItem \<Rightarrow> string list" where
  "metadata_row X e =
     [derefStr (ei_EvidenceNumber e), ei_Filename e, ei_OriginalName e, ei_MimeType e, itoa (ei_SizeBytes e),
      ei_SHA256Hash e, ei_Classification e, ei_Description e, ei_UploadedBy e, ei_TSAStatus e, tsa_text X e,
      xe_local X RFC3339 (ei_CreatedAt e)]"

definition writeMetadataCSV ::
  "export_env \<Rightarrow> string \<Rightarrow> EvidenceItem list \<Rightarrow> 'a export_db_scheme \<Rightarrow> go_error option \<times> 'a export_db_scheme" where
  "writeMetadataCSV X pre items =
     and_then (zip_Create (wrapf ''create metadata.csv entry'') (pre @ ''metadata.csv''))
       (zip_Write id (csv_text (metadata_header # map (metadata_row X) items)))"

definition custody_header :: "string list" where
  "custody_header =
     [''id'', ''case_id'', ''evidence_id'', ''action'', ''actor_user_id'', ''detail'', ''hash_value'',
      ''previous_hash'', ''timestamp'']"

definition custody_csv_row :: "export_env \<Rightarrow> Event \<Rightarrow> string list" where
  "custody_csv_row X e =
     [lib_uuid_string (xe_lib X) (ev_ID e), lib_uuid_string (xe_lib X) (ev_CaseID e),
      (if ev_EvidenceID e \<noteq> uuid_Nil then lib_uuid_string (xe_lib X) (ev_EvidenceID e) else []),
      ev_Action e, ev_ActorUserID e, ev_Detail e, ev_HashValue e, ev_PreviousHash e,
      xe_local X RFC3339 (ev_Timestamp e)]"

definition writeCustodyCSV ::
  "export_env \<Rightarrow> string \<Rightarrow> Event list \<Rightarrow> 'a export_db_scheme \<Rightarrow> go_error option \<times> 'a export_db_scheme" where
  "writeCustodyCSV X pre events =
     and_then (zip_Create (wrapf ''create custody_log.csv entry'') (pre @ ''custody_log.csv''))
       (zip_Write id (csv_text (custody_header # map (custody_csv_row X) events)))"

definition hashes_header :: "string list" where
  "hashes_header = [''evidence_number'', ''filename'', ''sha256_hash'', ''tsa_status'', ''tsa_timestamp'']"

definition hashes_row :: "export_env \<Rightarrow> EvidenceItem \<Rightarrow> string list" where
  "hashes_row X e = [derefStr (ei_EvidenceNumber e), ei_Filename e, ei_SHA256Hash e, ei_TSAStatus e, tsa_text X e]"

definition writeHashesCSV ::
  "export_env \<Rightarrow> string \<Rightarrow> EvidenceItem list \<Rightarrow> 'a export_db_scheme \<Rightarrow> go_error option \<times> 'a export_db_scheme" where
  "writeHashesCSV X pre items =
     and_then (zip_Create (wrapf ''create hashes.csv entry'') (pre @ ''hashes.csv''))
       (zip_Write id (csv_text (hashes_header # map (hashes_row X) items)))"

definition readme_text :: "go_lib \<Rightarrow> Case \<Rightarrow> time \<Rightarrow> string" where
  "readme_text L c t =
     join [newline]
       [''VaultKeeper Case Export'',
        ''======================'',
        [],
        ''Case Reference: '' @ c_ReferenceCode c,
        ''Case Title:     '' @ c_Title c,
        ''Jurisdiction:   '' @ c_Jurisdiction c,
        ''Export Date:     '' @ lib_format L RFC3339 t,
        ''Format Version: '' @ exportVersion,
        [],
        ''Contents'',
        ''--------'',
        ''manifest.json    - Export metadata (date, version, case info, total items)'',
        ''case.json        - Full case record'',
        ''evidence/        - Evidence files named as {evidence_number}_{filename}'',
        ''metadata.csv     - One row per evidence item with all metadata fields'',
        ''custody_log.csv  - Complete chain-of-custody log for the case'',
        ''hashes.csv       - SHA-256 hash and TSA timestamp status per evidence item'',
        ''README.txt       - This file'',
        [],
        ''Integrity Verification'',
        ''----------------------'',
        ''Each evidence file's SHA-256 hash is recorded in hashes.csv.'',
        ''Recompute the hash of any file and compare against the recorded value'',
        ''to verify integrity. TSA timestamps provide independent proof that the'',
        ''file existed at the recorded time.'',
        [],
        ''The custody log includes a hash chain where each entry's hash depends'',
        ''on the previous entry, ensuring the log has not been tampered with.'',
        []]"

definition writeREADME ::
  "export_env \<Rightarrow> string \<Rightarrow> Case \<Rightarrow> 'a export_db_scheme \<Rightarrow> go_error option \<times> 'a export_db_scheme" where
  "writeREADME X pre c =
     and_then (zip_Create (wrapf ''create README.txt entry'') (pre @ ''README.txt''))
       (\<lambda>w. zip_Write (wrapf ''write README.txt'') (readme_text (xe_lib X) c (now w)) (tick w))"

definition buildArchive ::
  "export_env \<Rightarrow> string \<Rightarrow> Case \<Rightarrow> EvidenceItem list \<Rightarrow> Event list \<Rightarrow> string \<Rightarrow> 'a export_db_scheme
     \<Rightarrow> go_error option \<times> 'a export_db_scheme" where
  "buildArchive X pre c items events actorUserID =
     and_then (writeManifest X pre c items actorUserID)
     (and_then (writeCaseJSON X pre c)
     (and_then (writeEvidenceFiles X pre items)
     (and_then (writeMetadataCSV X pre items)
     (and_then (writeCustodyCSV X pre events)
     (and_then (writeHashesCSV X pre items)
        (writeREADME X pre c))))))"

section \<open>The service and its handler\<close>

definition ExportCase ::
  "export_env \<Rightarrow> uuid \<Rightarrow> string \<Rightarrow> string \<Rightarrow> 'a export_db_scheme \<Rightarrow> go_error option \<times> 'a export_db_scheme" where
  \<comment> \<open>the deferred \<open>zw.Close()\<close> runs on every return after the writer is made; after a \<open>Close\<close> it does
    nothing (\<open>zip: writer closed twice\<close>)\<close>
  "ExportCase X caseID userRole actorUserID w =
     (case repo_FindByID caseID w of
        (Inl err, w1) \<Rightarrow> (Some (wrapf ''load case for export'' err), w1)
      | (Inr c, w1) \<Rightarrow>
     (case ListByCaseForExport caseID userRole w1 of
        (Inl err, w2) \<Rightarrow> (Some (wrapf ''list evidence for export'' err), w2)
      | (Inr items, w2) \<Rightarrow>
     (case ListAllByCase caseID w2 of
        (Inl err, w3) \<Rightarrow> (Some (wrapf ''list custody events for export'' err), w3)
      | (Inr events, w3) \<Rightarrow>
     (case buildArchive X (c_ReferenceCode c @ ''-export/'') c items events actorUserID
             (w3\<lparr>zip_entries := [], zip_closed := False, zip_broken := None\<rparr>) of
        (Some err, w4) \<Rightarrow> (Some err, snd (zip_Close id w4))
      | (None, w4) \<Rightarrow>
     (case zip_Close (wrapf ''close zip writer'') w4 of
        (Some err, w5) \<Rightarrow> (Some err, w5)
      | (None, w5) \<Rightarrow>
          (None, snd (RecordCaseEvent (xe_lib X) caseID ''case_exported'' actorUserID
             [(''evidence_count'', itoa (int (length items))), (''user_role'', userRole)] w5)))))))"

definition export_GetReferenceCode ::
  "uuid \<Rightarrow> 'a export_db_scheme \<Rightarrow> (go_error + string) \<times> 'a export_db_scheme" where
  "export_GetReferenceCode caseID w =
     (case repo_FindByID caseID w of
        (Inl err, w1) \<Rightarrow> (Inl (wrapf ''get reference code for export'' err), w1)
      | (Inr c, w1) \<Rightarrow> (Inr (c_ReferenceCode c), w1))"

text \<open>
  The answer of the handler: the name of the attachment. Its body is what was written to the archive
  and nothing if no writer was made; the status is already \<open>200\<close> when the export fails.
\<close>

definition Handler_ExportCase ::
  "export_env \<Rightarrow> ctx \<Rightarrow> request \<Rightarrow> 'a export_db_scheme \<Rightarrow> string http_response \<times> 'a export_db_scheme" where
  "Handler_ExportCase X c r w =
     (case GetAuthContext c of
        None \<Rightarrow> (RespondError 500 ''internal error'', w)
      | Some ac \<Rightarrow>
          (case lib_uuid_parse (xe_lib X) (req_param r ''id'') of
             Inl err \<Rightarrow> (RespondError 400 ''invalid case ID'', w)
           | Inr caseID \<Rightarrow>
               let userRole = (case GetCaseRole c of None \<Rightarrow> [] | Some role \<Rightarrow> role) in
               (case export_GetReferenceCode caseID w of
                  (Inl err, w1) \<Rightarrow> (RespondError 404 ''case not found'', w1)
                | (Inr refCode, w1) \<Rightarrow>
                    (RespondJSON 200 (refCode @ ''-export.zip''), snd (ExportCase X caseID userRole (UserID ac) w1)))))"

definition serve_export ::
  "export_env \<Rightarrow> ctx \<Rightarrow> request \<Rightarrow> 'a export_db_scheme \<Rightarrow> (string http_response \<times> access_denied list) \<times> 'a export_db_scheme" where
  "serve_export X c r w = gated (Some RoleCaseAdmin) c r (\<lambda>c' w'. Handler_ExportCase X c' r w') w"

end
