(* ===== verification/Export_Props.thy ===== *)
theory Export_Props
  imports Cases_Export Evidence_Destroy Evidence_Limits
begin

text \<open>
  What an export contains: every entry comes from the case and the items its reader may see, a
  successful export holds every such item with the bytes its recorded hash belongs to and lists of
  them that read back, and an export that fails while it collects evidence still ends as a
  well-formed archive.
\<close>

section \<open>Steps of the writer\<close>

definition zip_frame :: "'a export_db_scheme \<Rightarrow> 'a export_db_scheme \<Rightarrow> bool" where
  "zip_frame w w' \<longleftrightarrow> objects w' = objects w \<and> zip_closed w' = zip_closed w"

lemma zip_frame_refl [simp]: "zip_frame w w"
  by (simp add: zip_frame_def)

lemma zip_frame_trans: "zip_frame u v \<Longrightarrow> zip_frame v w \<Longrightarrow> zip_frame u w"
  by (simp add: zip_frame_def)

lemma export_tick [simp]:
  "zip_entries (tick w) = zip_entries w" "zip_closed (tick w) = zip_closed w"
  "zip_broken (tick w) = zip_broken w" "objects (tick w) = objects w"
  by (simp_all add: tick_def)

lemma export_only_ticks:
  assumes "only_ticks w (w' :: 'a export_db_scheme)"
  shows "zip_entries w' = zip_entries w" "zip_closed w' = zip_closed w" "zip_broken w' = zip_broken w"
    "objects w' = objects w"
proof -
  obtain n where "w' = w\<lparr>w_tick := n\<rparr>" using assms unfolding only_ticks_def by blast
  then show "zip_entries w' = zip_entries w" "zip_closed w' = zip_closed w" "zip_broken w' = zip_broken w"
    "objects w' = objects w" by simp_all
qed

text \<open>
  How a step that writes one entry may end: with the entry, or with an error and the entry cut
  short; \<open>b\<close> tells whether it may fail while the connection holds.
\<close>

definition entry_step ::
  "bool \<Rightarrow> string \<Rightarrow> string \<Rightarrow> go_error option \<Rightarrow> 'a export_db_scheme \<Rightarrow> 'a export_db_scheme \<Rightarrow> bool" where
  "entry_step b name data r w w' \<longleftrightarrow>
     zip_frame w w' \<and>
     (if r = None then zip_broken w' = None \<and> zip_entries w' = zip_entries w @ [(name, data)]
      else (b \<or> zip_broken w' \<noteq> None) \<and>
        (zip_entries w' = zip_entries w \<or> (\<exists>d. prefix d data \<and> zip_entries w' = zip_entries w @ [(name, d)])))"

lemma zip_Create_step:
  assumes "zip_Create f name w = (r, w')"
  shows "zip_frame w w'"
    "r = None \<Longrightarrow> zip_broken w' = None \<and> zip_entries w' = zip_entries w @ [(name, [])]"
    "r \<noteq> None \<Longrightarrow> zip_broken w' \<noteq> None \<and> zip_entries w' = zip_entries w"
  using assms by (auto simp: zip_Create_def zip_op_def zip_frame_def split: option.splits)

lemma zip_Write_step:
  assumes "zip_Write f data w = (r, w')" "zip_entries w = es @ [(name, [])]"
  shows "zip_frame w w'"
    "r = None \<Longrightarrow> zip_broken w' = None \<and> zip_entries w' = es @ [(name, data)]"
    "r \<noteq> None \<Longrightarrow> zip_broken w' \<noteq> None \<and> zip_entries w' = es @ [(name, [])]"
  using assms by (auto simp: zip_Write_def zip_op_def zip_frame_def append_last_def split: option.splits)

lemma file_step:
  assumes "and_then (zip_Create f name) (zip_Write g data) w = (r, w')"
  shows "entry_step False name data r w w'"
proof -
  obtain r1 w1 where c: "zip_Create f name w = (r1, w1)" by fastforce
  note s = zip_Create_step [OF c]
  show ?thesis
  proof (cases r1)
    case None
    with assms c have "zip_Write g data w1 = (r, w')" by (simp add: and_then_def)
    from zip_Write_step [OF this, of "zip_entries w" name] None s show ?thesis
      by (auto simp: entry_step_def intro: zip_frame_trans)
  next
    case (Some err)
    with assms c s show ?thesis by (auto simp: and_then_def entry_step_def)
  qed
qed

lemma entry_step_weaken: "entry_step False name data r w w' \<Longrightarrow> entry_step b name data r w w'"
  by (auto simp: entry_step_def split: if_splits)

lemma encode_step:
  assumes "and_then (zip_Create f name) (zip_encode X g j) w = (r, w')"
  shows "\<exists>data. entry_step True name data r w w' \<and> (r = None \<longrightarrow> xe_json X j = Some data)"
proof (cases "xe_json X j")
  case None
  obtain r1 w1 where c: "zip_Create f name w = (r1, w1)" by fastforce
  note s = zip_Create_step [OF c]
  have "r \<noteq> None" "zip_frame w w'" "zip_entries w' = zip_entries w \<or> zip_entries w' = zip_entries w @ [(name, [])]"
    using assms c s None by (cases r1; auto simp: and_then_def zip_encode_def)+
  then show ?thesis by (auto simp: entry_step_def)
next
  case (Some data)
  with assms have z: "and_then (zip_Create f name) (zip_Write g data) w = (r, w')"
    by (auto simp: and_then_def zip_encode_def split: option.splits prod.splits)
  have "entry_step True name data r w w'" by (rule entry_step_weaken [OF file_step [OF z]])
  with Some show ?thesis by blast
qed

lemma readme_step:
  assumes "writeREADME X pre c w = (r, w')"
  shows "\<exists>t. entry_step False (pre @ ''README.txt'') (readme_text (xe_lib X) c t) r w w'"
proof -
  obtain r1 w1 where c: "zip_Create (wrapf ''create README.txt entry'') (pre @ ''README.txt'') w = (r1, w1)" by fastforce
  note s = zip_Create_step [OF c]
  show ?thesis
  proof (cases r1)
    case None
    with assms c have z: "zip_Write (wrapf ''write README.txt'') (readme_text (xe_lib X) c (now w1)) (tick w1) = (r, w')"
      by (simp add: and_then_def writeREADME_def)
    have "zip_frame w1 (tick w1)" by (simp add: zip_frame_def)
    with zip_Write_step [OF z, of "zip_entries w" "pre @ ''README.txt''"] None s
    have "entry_step False (pre @ ''README.txt'') (readme_text (xe_lib X) c (now w1)) r w w'"
      by (auto simp: entry_step_def intro: zip_frame_trans)
    then show ?thesis by blast
  next
    case (Some err)
    with assms c s show ?thesis by (auto simp: and_then_def entry_step_def writeREADME_def)
  qed
qed

section \<open>The evidence files\<close>

definition evidence_entry :: "string \<Rightarrow> EvidenceItem \<Rightarrow> string" where
  "evidence_entry pre e = pre @ ''evidence/'' @ export_filename e"

definition part_of :: "(string \<Rightarrow> (string \<times> string) option) \<Rightarrow> EvidenceItem \<Rightarrow> string \<Rightarrow> bool" where
  \<comment> \<open>bytes from the beginning of the item's object\<close>
  "part_of obs e d \<longleftrightarrow>
     (case ei_StorageKey e of None \<Rightarrow> False
      | Some k \<Rightarrow> (case obs k of None \<Rightarrow> d = [] | Some (o', ct) \<Rightarrow> prefix d o'))"

definition files_of :: "string \<Rightarrow> (string \<Rightarrow> (string \<times> string) option) \<Rightarrow> EvidenceItem list \<Rightarrow> (string \<times> string) list" where
  \<comment> \<open>one entry per item that has a key, with its whole object\<close>
  "files_of pre obs items =
     concat (map (\<lambda>e. case ei_StorageKey e of None \<Rightarrow> []
       | Some k \<Rightarrow> [(evidence_entry pre e, case obs k of None \<Rightarrow> [] | Some x \<Rightarrow> fst x)]) items)"

definition all_stored :: "(string \<Rightarrow> (string \<times> string) option) \<Rightarrow> EvidenceItem list \<Rightarrow> bool" where
  "all_stored obs items \<longleftrightarrow> (\<forall>e \<in> set items. \<forall>k. ei_StorageKey e = Some k \<longrightarrow> obs k \<noteq> None)"

text \<open>The loop ends with all of them, or with initial parts of some.\<close>

definition evidence_step ::
  "string \<Rightarrow> EvidenceItem list \<Rightarrow> go_error option \<Rightarrow> 'a export_db_scheme \<Rightarrow> 'a export_db_scheme \<Rightarrow> bool" where
  "evidence_step pre items r w w' \<longleftrightarrow>
     zip_frame w w' \<and>
     (\<exists>files. zip_entries w' = zip_entries w @ files \<and>
       (if r = None then
          (zip_broken w = None \<longrightarrow> zip_broken w' = None) \<and> all_stored (objects w) items \<and>
          files = files_of pre (objects w) items
        else \<forall>nd \<in> set files. \<exists>e \<in> set items. fst nd = evidence_entry pre e \<and> part_of (objects w) e (snd nd)))"

lemma zip_Copy_step:
  assumes "zip_Copy X f data w = (r, w')" "zip_entries w = es @ [(name, [])]"
  shows "zip_frame w w'"
    "r = None \<Longrightarrow> zip_broken w' = None \<and> zip_entries w' = es @ [(name, data)]"
    "r \<noteq> None \<Longrightarrow> \<exists>d. prefix d data \<and> zip_entries w' = es @ [(name, d)]"
proof -
  have "zip_frame w w' \<and> (r = None \<longrightarrow> zip_broken w' = None \<and> zip_entries w' = es @ [(name, data)]) \<and>
    (r \<noteq> None \<longrightarrow> (\<exists>d. prefix d data \<and> zip_entries w' = es @ [(name, d)]))"
  proof (cases "fault w")
    case None
    with assms have z: "zip_Write f data (tick w) = (r, w')" by (simp add: zip_Copy_def)
    have "zip_frame w (tick w)" by (simp add: zip_frame_def)
    then have "zip_frame w w'" using zip_Write_step(1) [OF z, of es name] assms(2) by (simp add: zip_frame_def)
    with zip_Write_step(2,3) [OF z, of es name] assms(2) show ?thesis by (cases r) auto
  next
    case (Some err)
    with assms show ?thesis
      by (auto simp: zip_Copy_def zip_frame_def append_last_def take_is_prefix)
  qed
  then show "zip_frame w w'" "r = None \<Longrightarrow> zip_broken w' = None \<and> zip_entries w' = es @ [(name, data)]"
    "r \<noteq> None \<Longrightarrow> \<exists>d. prefix d data \<and> zip_entries w' = es @ [(name, d)]" by blast+
qed

lemma evidence_file_step:
  assumes "writeEvidenceFile X pre e w = (r, w')"
  shows "evidence_step pre [e] r w w'"
proof (cases "ei_StorageKey e")
  case None
  with assms show ?thesis by (auto simp: writeEvidenceFile_def evidence_step_def files_of_def all_stored_def)
next
  case (Some key)
  let ?n = "evidence_entry pre e"
  obtain r1 w1 where c: "zip_Create (wrapf (''create evidence zip entry '' @ export_filename e)) ?n w = (r1, w1)" by fastforce
  note s = zip_Create_step [OF c]
  show ?thesis
  proof (cases r1)
    case (Some err)
    with assms c s \<open>ei_StorageKey e = Some key\<close> show ?thesis
      by (auto simp: writeEvidenceFile_def evidence_step_def evidence_entry_def Let_def)
  next
    case None
    obtain x w2 where g: "GetObject key w1 = (x, w2)" by fastforce
    note t = export_only_ticks [OF GetObject_ticks [OF g]]
    have f2: "zip_frame w w2" using s(1) t by (simp add: zip_frame_def)
    show ?thesis
    proof (cases x)
      case (Inl err)
      with assms c g None Some s t f2 show ?thesis
        by (auto simp: writeEvidenceFile_def evidence_step_def evidence_entry_def Let_def part_of_def split: option.splits)
    next
      case (Inr y)
      obtain data ct where y: "y = (data, ct)" by fastforce
      with g Inr have "objects w1 key = Some (data, ct)" by (simp add: GetObject_ok)
      then have o: "objects w key = Some (data, ct)" using s(1) by (simp add: zip_frame_def)
      have z: "zip_Copy X (wrapf (''copy evidence file '' @ export_filename e @ '' to zip'')) data w2 = (r, w')"
        using assms c g None Some Inr y by (simp add: writeEvidenceFile_def evidence_entry_def Let_def)
      have es: "zip_entries w2 = zip_entries w @ [(?n, [])]" using s(2) None t by simp
      note p = zip_Copy_step [OF z es]
      have "zip_frame w w'" using f2 p(1) by (rule zip_frame_trans)
      with p(2,3) o Some show ?thesis
        by (cases r) (auto simp: evidence_step_def files_of_def all_stored_def part_of_def)
    qed
  qed
qed

lemma evidence_files_step: "writeEvidenceFiles X pre items w = (r, w') \<Longrightarrow> evidence_step pre items r w w'"
proof (induction items arbitrary: w)
  case Nil
  then show ?case by (simp add: evidence_step_def files_of_def all_stored_def)
next
  case (Cons e es)
  obtain r1 w1 where f: "writeEvidenceFile X pre e w = (r1, w1)" by fastforce
  note s = evidence_file_step [OF f]
  show ?case
  proof (cases r1)
    case (Some err)
    with Cons.prems f s show ?thesis by (auto simp: and_then_def evidence_step_def)
  next
    case None
    with Cons.prems f have "writeEvidenceFiles X pre es w1 = (r, w')" by (simp add: and_then_def)
    note t = Cons.IH [OF this]
    from s t have fr: "zip_frame w w'" "objects w1 = objects w"
      by (auto simp: evidence_step_def zip_frame_def)
    obtain f2 where f2: "zip_entries w' = zip_entries w1 @ f2"
      "if r = None then (zip_broken w1 = None \<longrightarrow> zip_broken w' = None) \<and> all_stored (objects w1) es \<and>
          files_of pre (objects w1) es = f2
        else \<forall>nd \<in> set f2. \<exists>e \<in> set es. fst nd = evidence_entry pre e \<and> part_of (objects w1) e (snd nd)"
      using t unfolding evidence_step_def by (auto split: if_splits)
    have s1: "zip_entries w1 = zip_entries w @ files_of pre (objects w) [e]" "all_stored (objects w) [e]"
      "zip_broken w = None \<longrightarrow> zip_broken w1 = None"
      using s None by (auto simp: evidence_step_def)
    have p: "\<forall>nd \<in> set (files_of pre (objects w) [e]). fst nd = evidence_entry pre e \<and> part_of (objects w) e (snd nd)"
      using s1(2) by (auto simp: files_of_def part_of_def all_stored_def split: option.splits)
    have a: "files_of pre obs (e # es) = files_of pre obs [e] @ files_of pre obs es"
        "all_stored obs (e # es) \<longleftrightarrow> all_stored obs [e] \<and> all_stored obs es" for obs
      by (simp_all add: files_of_def all_stored_def)
    let ?fs = "files_of pre (objects w) [e] @ f2"
    have es: "zip_entries w' = zip_entries w @ ?fs" using f2(1) s1(1) by simp
    show ?thesis
    proof (cases r)
      case None
      with es fr f2(2) s1(2,3) show ?thesis by (simp add: evidence_step_def a)
    next
      case (Some err)
      have "\<exists>e' \<in> set (e # es). fst nd = evidence_entry pre e' \<and> part_of (objects w) e' (snd nd)" if "nd \<in> set ?fs" for nd
        using that p f2(2) fr(2) Some by (auto simp del: split_paired_All)
      with es fr(1) Some show ?thesis unfolding evidence_step_def by (intro conjI exI [of _ ?fs]) simp_all
    qed
  qed
qed

section \<open>The archive as a whole\<close>

definition plain_entries :: "string \<Rightarrow> string list" where
  "plain_entries pre = map ((@) pre) [''manifest.json'', ''case.json'', ''metadata.csv'', ''custody_log.csv'', ''hashes.csv'', ''README.txt'']"

definition archive_of ::
  "export_env \<Rightarrow> string \<Rightarrow> (string \<Rightarrow> (string \<times> string) option) \<Rightarrow> EvidenceItem list \<Rightarrow> Event list \<Rightarrow> string \<Rightarrow> string \<Rightarrow> string
     \<Rightarrow> (string \<times> string) list" where
  "archive_of X pre obs items events mj cj readme =
     [(pre @ ''manifest.json'', mj), (pre @ ''case.json'', cj)] @ files_of pre obs items @
     [(pre @ ''metadata.csv'', csv_text (metadata_header # map (metadata_row X) items)),
      (pre @ ''custody_log.csv'', csv_text (custody_header # map (custody_csv_row X) events)),
      (pre @ ''hashes.csv'', csv_text (hashes_header # map (hashes_row X) items)),
      (pre @ ''README.txt'', readme)]"

text \<open>An entry is one of the plain ones or an initial part of an item's object.\<close>

definition entry_ok :: "string \<Rightarrow> (string \<Rightarrow> (string \<times> string) option) \<Rightarrow> EvidenceItem list \<Rightarrow> string \<times> string \<Rightarrow> bool" where
  "entry_ok pre obs items nd \<longleftrightarrow>
     fst nd \<in> set (plain_entries pre) \<or> (\<exists>e \<in> set items. fst nd = evidence_entry pre e \<and> part_of obs e (snd nd))"

definition early_entry :: "string \<Rightarrow> string \<times> string \<Rightarrow> bool" where
  \<comment> \<open>not one of the lists that follow the evidence\<close>
  "early_entry pre nd \<longleftrightarrow> fst nd \<notin> set (map ((@) pre) [''metadata.csv'', ''custody_log.csv'', ''hashes.csv'', ''README.txt''])"

definition grows :: "string \<Rightarrow> EvidenceItem list \<Rightarrow> bool \<Rightarrow> 'a export_db_scheme \<Rightarrow> 'a export_db_scheme \<Rightarrow> bool" where
  \<comment> \<open>from here on only such entries are added; \<open>early\<close>: all of them early, or the connection broke\<close>
  "grows pre items early w w' \<longleftrightarrow>
     zip_frame w w' \<and>
     (\<exists>files. zip_entries w' = zip_entries w @ files \<and> (\<forall>nd \<in> set files. entry_ok pre (objects w) items nd) \<and>
       (early \<longrightarrow> zip_broken w' = None \<longrightarrow> (\<forall>nd \<in> set files. early_entry pre nd)))"

lemma grows_refl [simp]: "grows pre items early w w"
  by (simp add: grows_def)

lemma grows_trans:
  assumes "grows pre items early u v" "grows pre items early' v w" "early' \<Longrightarrow> early \<and> zip_broken v = None"
  shows "grows pre items early' u w"
proof -
  obtain f where f: "zip_entries v = zip_entries u @ f" "\<forall>nd \<in> set f. entry_ok pre (objects u) items nd"
      "early \<longrightarrow> zip_broken v = None \<longrightarrow> (\<forall>nd \<in> set f. early_entry pre nd)"
    using assms(1) by (auto simp: grows_def)
  obtain g where g: "zip_entries w = zip_entries v @ g" "\<forall>nd \<in> set g. entry_ok pre (objects v) items nd"
      "early' \<longrightarrow> zip_broken w = None \<longrightarrow> (\<forall>nd \<in> set g. early_entry pre nd)"
    using assms(2) by (auto simp: grows_def)
  have "zip_frame u w" "objects v = objects u"
    using assms(1,2) by (simp_all add: grows_def zip_frame_def)
  with f g assms(3) show ?thesis unfolding grows_def by (intro conjI exI [of _ "f @ g"]) auto
qed

lemma grows_broken: "grows pre items False w w' \<Longrightarrow> early \<longrightarrow> zip_broken w' \<noteq> None \<Longrightarrow> grows pre items early w w'"
  by (auto simp: grows_def)

lemma and_then_cases:
  assumes "and_then f g w = (r, w')"
  obtains (second) w1 where "f w = (None, w1)" "g w1 = (r, w')" | (first) "r \<noteq> None" "f w = (r, w')"
  using assms by (auto simp: and_then_def split: prod.splits option.splits)

lemma entry_step_tick: "entry_step b name data r (tick w) w' \<Longrightarrow> entry_step b name data r w w'"
  unfolding entry_step_def zip_frame_def export_tick .

lemma entry_grows:
  assumes "entry_step b (pre @ n) data r w w'" "n \<in> set [''manifest.json'', ''case.json'', ''metadata.csv'', ''custody_log.csv'', ''hashes.csv'', ''README.txt'']"
    and "n \<in> set [''manifest.json'', ''case.json''] \<or> r \<noteq> None \<and> \<not> b \<or> \<not> early"
  shows "grows pre items early w w'"
proof -
  have "\<exists>files. zip_entries w' = zip_entries w @ files \<and> (files = [] \<or> (\<exists>d. files = [(pre @ n, d)]))"
    using assms(1) by (auto simp: entry_step_def split: if_splits)
  then obtain files where f: "zip_entries w' = zip_entries w @ files" "files = [] \<or> (\<exists>d. files = [(pre @ n, d)])" by blast
  have "entry_ok pre (objects w) items nd" if "nd \<in> set files" for nd
    using that f(2) assms(2) by (auto simp: entry_ok_def plain_entries_def)
  moreover have "early_entry pre nd" if "nd \<in> set files" "early" "zip_broken w' = None" for nd
    using that f(2) assms(1,3) by (auto simp: early_entry_def entry_step_def split: if_splits)
  ultimately show ?thesis using f(1) assms(1) unfolding grows_def by (auto simp: entry_step_def)
qed

lemma files_of_part:
  assumes "nd \<in> set (files_of pre obs items)"
  shows "\<exists>e \<in> set items. fst nd = evidence_entry pre e \<and> part_of obs e (snd nd)"
proof -
  obtain e where e: "e \<in> set items" "nd \<in> set (case ei_StorageKey e of None \<Rightarrow> []
       | Some k \<Rightarrow> [(evidence_entry pre e, case obs k of None \<Rightarrow> [] | Some x \<Rightarrow> fst x)])"
    using assms by (auto simp only: files_of_def set_concat set_map)
  show ?thesis
  proof (cases "ei_StorageKey e")
    case (Some k)
    with e show ?thesis by (cases "obs k") (auto simp: part_of_def)
  qed (use e in simp)
qed

lemma evidence_grows:
  assumes "evidence_step pre items r w w'"
  shows "grows pre items True w w'"
proof -
  note p = files_of_part [where pre = pre and obs = "objects w" and items = items]
  obtain files where f: "zip_entries w' = zip_entries w @ files" "zip_frame w w'"
      "\<forall>nd \<in> set files. \<exists>e \<in> set items. fst nd = evidence_entry pre e \<and> part_of (objects w) e (snd nd)"
    using assms p unfolding evidence_step_def by (auto split: if_splits)
  then have "\<forall>nd \<in> set files. early_entry pre nd"
    by (fastforce simp: early_entry_def evidence_entry_def)
  with f show ?thesis by (fastforce simp: grows_def entry_ok_def)
qed

lemma manifest_step:
  assumes "writeManifest X pre c items u w = (r, w')"
  shows "\<exists>mj. entry_step True (pre @ ''manifest.json'') mj r w w'"
  using encode_step [OF assms [unfolded writeManifest_def Let_def]] entry_step_tick by blast

lemma case_json_step:
  "writeCaseJSON X pre c w = (r, w') \<Longrightarrow>
     \<exists>cj. entry_step True (pre @ ''case.json'') cj r w w' \<and> (r = None \<longrightarrow> xe_json X (case_document X c) = Some cj)"
  unfolding writeCaseJSON_def by (rule encode_step)

lemma csv_steps:
  "writeMetadataCSV X pre items w = (r, w') \<Longrightarrow>
     entry_step False (pre @ ''metadata.csv'') (csv_text (metadata_header # map (metadata_row X) items)) r w w'"
  "writeCustodyCSV X pre events w = (r, w') \<Longrightarrow>
     entry_step False (pre @ ''custody_log.csv'') (csv_text (custody_header # map (custody_csv_row X) events)) r w w'"
  "writeHashesCSV X pre items w = (r, w') \<Longrightarrow>
     entry_step False (pre @ ''hashes.csv'') (csv_text (hashes_header # map (hashes_row X) items)) r w w'"
  unfolding writeMetadataCSV_def writeCustodyCSV_def writeHashesCSV_def by (rule file_step, assumption)+

text \<open>
  The stages of the archive: those in front of the lists, which may fail for other reasons than the
  connection, and the lists, which may not.
\<close>

definition front_stage ::
  "string \<Rightarrow> EvidenceItem list \<Rightarrow> ('a export_db_scheme \<Rightarrow> go_error option \<times> 'a export_db_scheme) \<Rightarrow> bool" where
  "front_stage pre items f \<longleftrightarrow>
     (\<forall>w r w'. zip_broken w = None \<longrightarrow> f w = (r, w') \<longrightarrow> grows pre items True w w' \<and> (r = None \<longrightarrow> zip_broken w' = None))"

definition list_stage ::
  "string \<Rightarrow> EvidenceItem list \<Rightarrow> ('a export_db_scheme \<Rightarrow> go_error option \<times> 'a export_db_scheme) \<Rightarrow> bool" where
  "list_stage pre items f \<longleftrightarrow>
     (\<forall>w r w'. f w = (r, w') \<longrightarrow> grows pre items False w w' \<and> (r \<noteq> None \<longrightarrow> zip_broken w' \<noteq> None))"

definition whole_stage ::
  "string \<Rightarrow> EvidenceItem list \<Rightarrow> ('a export_db_scheme \<Rightarrow> go_error option \<times> 'a export_db_scheme) \<Rightarrow> bool" where
  "whole_stage pre items f \<longleftrightarrow>
     (\<forall>w r w'. zip_broken w = None \<longrightarrow> f w = (r, w') \<longrightarrow> grows pre items (r \<noteq> None) w w')"

lemma list_then:
  assumes "list_stage pre items f" "list_stage pre items g"
  shows "list_stage pre items (and_then f g)"
  unfolding list_stage_def
proof (intro allI impI)
  fix w r w' assume "and_then f g w = (r, w')"
  then show "grows pre items False w w' \<and> (r \<noteq> None \<longrightarrow> zip_broken w' \<noteq> None)"
  proof (cases rule: and_then_cases)
    case (second w1)
    with assms have "grows pre items False w w1" "grows pre items False w1 w'" "r \<noteq> None \<longrightarrow> zip_broken w' \<noteq> None"
      by (auto simp: list_stage_def)
    then show ?thesis using grows_trans by blast
  next
    case first
    with assms(1) show ?thesis by (simp add: list_stage_def)
  qed
qed

lemma whole_then:
  assumes "front_stage pre items f" "whole_stage pre items g"
  shows "whole_stage pre items (and_then f g)"
  unfolding whole_stage_def
proof (intro allI impI)
  fix w r w' assume b: "zip_broken w = None" and a: "and_then f g w = (r, w')"
  from a show "grows pre items (r \<noteq> None) w w'"
  proof (cases rule: and_then_cases)
    case (second w1)
    from assms(1) b second(1) have "grows pre items True w w1" "zip_broken w1 = None"
      unfolding front_stage_def by blast+
    moreover from this(2) assms(2) second(2) have "grows pre items (r \<noteq> None) w1 w'"
      unfolding whole_stage_def by blast
    ultimately show ?thesis using grows_trans by blast
  next
    case first
    with assms(1) b show ?thesis unfolding front_stage_def by simp
  qed
qed

lemma whole_lists: "list_stage pre items f \<Longrightarrow> whole_stage pre items f"
  unfolding list_stage_def whole_stage_def using grows_broken by blast

lemma entry_step_fail: "entry_step False name data r w w' \<Longrightarrow> r \<noteq> None \<longrightarrow> zip_broken w' \<noteq> None"
  by (auto simp: entry_step_def)

lemma list_entry:
  assumes "entry_step False (pre @ n) data r w w'" "n \<in> set [''metadata.csv'', ''custody_log.csv'', ''hashes.csv'', ''README.txt'']"
  shows "grows pre items False w w' \<and> (r \<noteq> None \<longrightarrow> zip_broken w' \<noteq> None)"
  using entry_grows [OF assms(1), of False items] entry_step_fail [OF assms(1)] assms(2) by auto

lemma front_entry:
  assumes "entry_step True (pre @ n) data r w w'" "n \<in> set [''manifest.json'', ''case.json'']"
  shows "grows pre items True w w' \<and> (r = None \<longrightarrow> zip_broken w' = None)"
  using entry_grows [OF assms(1), of True items] assms by (auto simp: entry_step_def)

lemma list_stages:
  "list_stage pre items (writeMetadataCSV X pre items)" "list_stage pre items (writeCustodyCSV X pre events)"
  "list_stage pre items (writeHashesCSV X pre items)" "list_stage pre items (writeREADME X pre c)"
  unfolding list_stage_def
  by (auto dest!: csv_steps readme_step list_entry [where items = items])

lemma front_stages:
  "front_stage pre items (writeManifest X pre c items u)" "front_stage pre items (writeCaseJSON X pre c)"
  "front_stage pre items (writeEvidenceFiles X pre items)"
proof -
  show "front_stage pre items (writeManifest X pre c items u)" "front_stage pre items (writeCaseJSON X pre c)"
    unfolding front_stage_def by (auto dest!: manifest_step case_json_step front_entry [where items = items])
  show "front_stage pre items (writeEvidenceFiles X pre items)"
    unfolding front_stage_def
  proof (intro allI impI)
    fix w r w' assume b: "zip_broken w = None" and a: "writeEvidenceFiles X pre items w = (r, w')"
    have "r = None \<longrightarrow> zip_broken w' = None"
      using evidence_files_step [OF a] b by (auto simp: evidence_step_def)
    with evidence_grows [OF evidence_files_step [OF a]]
    show "grows pre items True w w' \<and> (r = None \<longrightarrow> zip_broken w' = None)" by blast
  qed
qed

lemma archive_stages: "whole_stage pre items (buildArchive X pre c items events u)"
  unfolding buildArchive_def by (intro whole_then whole_lists list_then front_stages list_stages)

lemma archive_ok:
  assumes "buildArchive X pre c items events u w = (None, w')" "zip_broken w = None"
  shows "zip_frame w w'" "zip_broken w' = None" "all_stored (objects w) items"
    "\<exists>mj cj rm. zip_entries w' = zip_entries w @ archive_of X pre (objects w) items events mj cj rm \<and>
       xe_json X (case_document X c) = Some cj"
proof -
  obtain w1 where w1: "writeManifest X pre c items u w = (None, w1)"
    and "(and_then (writeCaseJSON X pre c) (and_then (writeEvidenceFiles X pre items)
      (and_then (writeMetadataCSV X pre items) (and_then (writeCustodyCSV X pre events)
      (and_then (writeHashesCSV X pre items) (writeREADME X pre c)))))) w1 = (None, w')"
    using assms(1) unfolding buildArchive_def by (auto elim: and_then_cases)
  then obtain w2 where w2: "writeCaseJSON X pre c w1 = (None, w2)"
    and "(and_then (writeEvidenceFiles X pre items) (and_then (writeMetadataCSV X pre items)
      (and_then (writeCustodyCSV X pre events) (and_then (writeHashesCSV X pre items) (writeREADME X pre c))))) w2 = (None, w')"
    by (auto elim: and_then_cases)
  then obtain w3 where w3: "writeEvidenceFiles X pre items w2 = (None, w3)"
    and "(and_then (writeMetadataCSV X pre items) (and_then (writeCustodyCSV X pre events)
      (and_then (writeHashesCSV X pre items) (writeREADME X pre c)))) w3 = (None, w')"
    by (auto elim: and_then_cases)
  then obtain w4 where w4: "writeMetadataCSV X pre items w3 = (None, w4)"
    and "(and_then (writeCustodyCSV X pre events) (and_then (writeHashesCSV X pre items) (writeREADME X pre c))) w4 = (None, w')"
    by (auto elim: and_then_cases)
  then obtain w5 where w5: "writeCustodyCSV X pre events w4 = (None, w5)"
    and "(and_then (writeHashesCSV X pre items) (writeREADME X pre c)) w5 = (None, w')"
    by (auto elim: and_then_cases)
  then obtain w6 where w6: "writeHashesCSV X pre items w5 = (None, w6)" and w7: "writeREADME X pre c w6 = (None, w')"
    by (auto elim: and_then_cases)
  obtain mj where m: "entry_step True (pre @ ''manifest.json'') mj None w w1" using manifest_step [OF w1] by blast
  obtain cj where c: "entry_step True (pre @ ''case.json'') cj None w1 w2" "xe_json X (case_document X c) = Some cj"
    using case_json_step [OF w2] by blast
  obtain t where t: "entry_step False (pre @ ''README.txt'') (readme_text (xe_lib X) c t) None w6 w'"
    using readme_step [OF w7] by blast
  note steps = m c(1) csv_steps(1) [OF w4] csv_steps(2) [OF w5] csv_steps(3) [OF w6] t
  have e: "evidence_step pre items None w2 w3" by (rule evidence_files_step [OF w3])
  from steps e show "zip_frame w w'" "zip_broken w' = None" "all_stored (objects w) items"
    by (simp_all add: entry_step_def evidence_step_def zip_frame_def)
  have "zip_entries w' = zip_entries w @ archive_of X pre (objects w) items events mj cj (readme_text (xe_lib X) c t)"
    using steps e by (simp add: entry_step_def evidence_step_def zip_frame_def archive_of_def)
  with c(2) show "\<exists>mj cj rm. zip_entries w' = zip_entries w @ archive_of X pre (objects w) items events mj cj rm \<and>
       xe_json X (case_document X c) = Some cj" by blast
qed

section \<open>The export\<close>

definition export_items :: "uuid \<Rightarrow> string \<Rightarrow> 'a evidence_db_scheme \<Rightarrow> EvidenceItem list" where
  "export_items k role w =
     sort_key ei_CreatedAt (filter (\<lambda>e. ei_CaseID e = k \<and> ei_IsCurrent e \<and> ei_DestroyedAt e = None \<and>
       disclosed role (disclosures w) e) (evidence_items w))"

abbreviation export_events :: "uuid \<Rightarrow> 'a custody_db_scheme \<Rightarrow> Event list" where
  "export_events k w \<equiv> map scan_event (case_rows k (custody_log w))"

abbreviation archive_prefix :: "Case \<Rightarrow> string" where
  "archive_prefix c \<equiv> c_ReferenceCode c @ ''-export/''"

lemma RecordCaseEvent_zip:
  assumes "RecordCaseEvent L k action actor detail (w :: 'a export_db_scheme) = (r, w')"
  shows "zip_entries w' = zip_entries w" "zip_closed w' = zip_closed w"
proof -
  have "zip_entries w' = zip_entries w \<and> zip_closed w' = zip_closed w"
  proof (cases r)
    case None
    with assms custody_Insert_ok [of L _ "tick w" w'] show ?thesis
      by (fastforce simp: RecordCaseEvent_def)
  next
    case (Some err)
    with assms have "only_ticks (tick w) w'"
      unfolding RecordCaseEvent_def by (metis custody_Insert_fail)
    then show ?thesis using export_only_ticks by fastforce
  qed
  then show "zip_entries w' = zip_entries w" "zip_closed w' = zip_closed w" by simp_all
qed

lemma zip_Close_step:
  assumes "zip_Close f w = (r, w')"
  shows "zip_entries w' = zip_entries w" "zip_broken w' = None \<Longrightarrow> zip_closed w'" "r = None \<Longrightarrow> zip_closed w'"
  using assms by (auto simp: zip_Close_def zip_op_def split: option.splits)

definition built ::
  "export_env \<Rightarrow> uuid \<Rightarrow> string \<Rightarrow> string \<Rightarrow> 'a export_db_scheme \<Rightarrow> Case \<Rightarrow> 'a export_db_scheme \<Rightarrow> go_error option
     \<Rightarrow> 'a export_db_scheme \<Rightarrow> bool" where
  \<comment> \<open>the archive of a case was begun in the state \<open>w3\<close>, with these items and events\<close>
  "built X k role u w c w3 r4 w4 \<longleftrightarrow>
     find_case k (cases_table w) = Some c \<and> objects w3 = objects w \<and> zip_entries w3 = [] \<and> zip_broken w3 = None \<and>
     buildArchive X (archive_prefix c) c (export_items k role w) (export_events k w) u w3 = (r4, w4)"

lemma export_cases:
  assumes "ExportCase X k role u w = (r, w')"
  obtains (unread) "r \<noteq> None" "only_ticks w w'"
    | (begun) c w3 r4 w4 where "built X k role u w c w3 r4 w4" "r = None \<longrightarrow> r4 = None \<and> zip_closed w'"
        "zip_entries w' = zip_entries w4" "r4 \<noteq> None \<longrightarrow> w' = snd (zip_Close id w4)" "r4 = None \<and> r \<noteq> None \<longrightarrow> zip_broken w' \<noteq> None"
proof -
  obtain x1 w1 where a: "repo_FindByID k w = (x1, w1)" by fastforce
  then have w1: "w1 = tick w" by (rule repo_FindByID_state)
  show thesis
  proof (cases x1)
    case (Inl err)
    with assms a w1 show thesis by (intro unread) (auto simp: ExportCase_def)
  next
    case (Inr c)
    with a w1 have c: "find_case k (cases_table w) = Some c" using repo_FindByID_ok by blast
    obtain x2 w2 where b: "ListByCaseForExport k role w1 = (x2, w2)" by fastforce
    have t2: "only_ticks w w2"
      using query_rows_ticks [OF b [unfolded ListByCaseForExport_def]] w1 only_ticks_from_tick by simp
    show thesis
    proof (cases x2)
      case (Inl err)
      with assms a b \<open>x1 = Inr c\<close> t2 show thesis by (intro unread) (auto simp: ExportCase_def)
    next
      case (Inr items)
      then have i: "items = export_items k role w"
        using query_rows_ok [OF b [unfolded ListByCaseForExport_def Inr]] w1 by (simp add: export_items_def tick_def)
      obtain x3 w3 where d: "ListAllByCase k w2 = (x3, w3)" by fastforce
      have t3: "only_ticks w w3" using query_rows_ticks [OF d [unfolded ListAllByCase_def]] t2 only_ticks_trans by blast
      show thesis
      proof (cases x3)
        case (Inl err)
        with assms a b d \<open>x1 = Inr c\<close> \<open>x2 = Inr items\<close> t3 show thesis by (intro unread) (auto simp: ExportCase_def)
      next
        case (Inr events)
        then have e: "events = export_events k w"
          using query_rows_ok [OF d [unfolded ListAllByCase_def Inr]] cases_only_ticks(3) [OF t2] by simp
        let ?w3 = "w3\<lparr>zip_entries := [], zip_closed := False, zip_broken := None\<rparr>"
        obtain r4 w4 where f: "buildArchive X (archive_prefix c) c items events u ?w3 = (r4, w4)" by fastforce
        have bu: "built X k role u w c ?w3 r4 w4"
          using c f i e export_only_ticks(4) [OF t3] by (simp add: built_def)
        show thesis
        proof (cases r4)
          case (Some err)
          with assms a b d f \<open>x1 = Inr c\<close> \<open>x2 = Inr items\<close> \<open>x3 = Inr events\<close>
          have "r \<noteq> None" "w' = snd (zip_Close id w4)" by (auto simp: ExportCase_def)
          with Some show thesis
            by (intro begun [OF bu]) (simp_all add: zip_Close_step(1) [OF prod.collapse [symmetric]])
        next
          case None
          obtain r5 w5 where z: "zip_Close (wrapf ''close zip writer'') w4 = (r5, w5)" by fastforce
          note zs = zip_Close_step [OF z]
          let ?R = "RecordCaseEvent (xe_lib X) k ''case_exported'' u
            [(''evidence_count'', itoa (int (length items))), (''user_role'', role)] w5"
          show thesis
          proof (cases r5)
            case None
            have "r = None" "w' = snd ?R"
              using assms a b d f z \<open>x1 = Inr c\<close> \<open>x2 = Inr items\<close> \<open>x3 = Inr events\<close> \<open>r4 = None\<close> None
              by (auto simp: ExportCase_def)
            with zs None \<open>r4 = None\<close> show thesis
              by (intro begun [OF bu]) (simp_all add: RecordCaseEvent_zip [OF prod.collapse [symmetric]])
          next
            case (Some err)
            have "r = Some err" "w' = w5"
              using assms a b d f z \<open>x1 = Inr c\<close> \<open>x2 = Inr items\<close> \<open>x3 = Inr events\<close> \<open>r4 = None\<close> Some
              by (auto simp: ExportCase_def)
            moreover have "zip_broken w5 \<noteq> None"
              using z Some by (auto simp: zip_Close_def zip_op_def split: option.splits)
            ultimately show thesis using zs \<open>r4 = None\<close> by (intro begun [OF bu]) simp_all
          qed
        qed
      qed
    qed
  qed
qed

lemma export_items_set:
  "e \<in> set (export_items k role w) \<longleftrightarrow> e \<in> set (evidence_items w) \<and> ei_CaseID e = k \<and> ei_IsCurrent e \<and>
     ei_DestroyedAt e = None \<and> disclosed role (disclosures w) e"
  by (auto simp: export_items_def)

section \<open>The names of the entries\<close>

lemma zero_pad_no_underscore: "0 \<le> n \<Longrightarrow> CHR ''_'' \<notin> set (zero_pad k n)"
  using nat_digits_chars [of "CHR ''_''"] by (auto simp: zero_pad_def pad_left_def)

lemma number_prefix_inj:
  assumes "evidence_number r m @ ''_'' @ f = evidence_number r n @ ''_'' @ g" "0 \<le> m" "0 \<le> n"
  shows "m = n"
proof -
  have eq: "zero_pad 5 m @ CHR ''_'' # f = zero_pad 5 n @ CHR ''_'' # g"
    using assms(1) by (simp add: evidence_number_def)
  have t: "takeWhile (\<lambda>c. c \<noteq> CHR ''_'') (zero_pad 5 i @ CHR ''_'' # h) = zero_pad 5 i" if "0 \<le> i" for i h
    using zero_pad_no_underscore [OF that, of 5] by (subst takeWhile_append2) auto
  have "zero_pad 5 m = zero_pad 5 n" using t [OF assms(2), of f] t [OF assms(3), of g] eq by simp
  then show ?thesis using assms(2,3) by (intro zero_pad_inj)
qed

lemma export_names_inj:
  assumes inv: "evidence_inv E w" and e: "e \<in> set (evidence_items w)" "e' \<in> set (evidence_items w)" "ei_CaseID e = ei_CaseID e'"
    and n: "evidence_entry pre e = evidence_entry pre e'"
  shows "e = e'"
proof -
  have num: "numbered w e" "numbered w e'" and d: "distinct (map (\<lambda>e. (ei_CaseID e, ei_EvidenceNumber e)) (evidence_items w))"
    using inv e unfolding evidence_inv_def by auto
  obtain c m where m: "find_case (ei_CaseID e) (cases_table w) = Some c" "1 \<le> m"
      "ei_EvidenceNumber e = Some (evidence_number (c_ReferenceCode c) m)"
    using num(1) unfolding numbered_def by blast
  obtain m' where m': "1 \<le> m'" "ei_EvidenceNumber e' = Some (evidence_number (c_ReferenceCode c) m')"
    using num(2) m(1) e(3) unfolding numbered_def by auto
  have "evidence_number (c_ReferenceCode c) m @ ''_'' @ ei_Filename e =
      evidence_number (c_ReferenceCode c) m' @ ''_'' @ ei_Filename e'"
    using n m m' by (simp add: evidence_entry_def export_filename_def derefStr_def)
  then have "m = m'" using m(2) m'(1) by (intro number_prefix_inj) simp_all
  then have "ei_EvidenceNumber e = ei_EvidenceNumber e'" using m(3) m'(2) by simp
  with d e show ?thesis unfolding distinct_map inj_on_def by auto
qed

lemma stored_keyed:
  assumes "evidence_inv E w" "e \<in> set (export_items k role w)"
  shows "\<exists>key d ct. ei_StorageKey e = Some key \<and> objects w key = Some (d, ct) \<and> hex_encode (lib_sha256 (ee_lib E) d) = ei_SHA256Hash e"
  using assms unfolding evidence_inv_def stored_def export_items_set by blast

lemma files_of_names:
  assumes "\<forall>e \<in> set items. ei_StorageKey e \<noteq> None"
  shows "map fst (files_of pre obs items) = map (evidence_entry pre) items"
  using assms by (induction items) (auto simp: files_of_def)

lemma plain_distinct: "distinct [''manifest.json'', ''case.json'', ''metadata.csv'', ''custody_log.csv'', ''hashes.csv'', ''README.txt'']"
  by simp

lemma archive_names_distinct:
  assumes "evidence_inv E w"
  shows "distinct (map fst (archive_of X pre obs (export_items k role w) events mj cj rm))"
proof -
  let ?items = "export_items k role w"
  have keys: "\<forall>e \<in> set ?items. ei_StorageKey e \<noteq> None" using stored_keyed [OF assms] by fastforce
  have "distinct (evidence_items w)"
    using assms unfolding evidence_inv_def by (auto simp: distinct_map)
  then have "distinct ?items" by (simp add: export_items_def)
  moreover have "inj_on (evidence_entry pre) (set ?items)"
    by (rule inj_onI) (use export_names_inj [OF assms] in \<open>auto simp: export_items_set\<close>)
  ultimately have d: "distinct (map (evidence_entry pre) ?items)" by (simp add: distinct_map)
  have n: "pre @ n \<notin> set (map (evidence_entry pre) ?items)"
    if "n \<in> set [''manifest.json'', ''case.json'', ''metadata.csv'', ''custody_log.csv'', ''hashes.csv'', ''README.txt'']" for n
    using that by (auto simp: evidence_entry_def)
  show ?thesis
    using d n by (simp add: archive_of_def files_of_names [OF keys])
qed

section \<open>Complete exports\<close>

lemma built_ok:
  assumes "built X k role u w c w3 None w4"
  shows "all_stored (objects w) (export_items k role w)"
    "\<exists>mj cj rm. zip_entries w4 = archive_of X (archive_prefix c) (objects w) (export_items k role w) (export_events k w) mj cj rm"
proof -
  from assms have b: "buildArchive X (archive_prefix c) c (export_items k role w) (export_events k w) u w3 = (None, w4)"
      "zip_broken w3 = None" "objects w3 = objects w" "zip_entries w3 = []"
    by (simp_all add: built_def)
  from archive_ok(3,4) [OF b(1,2)] b(3,4) show "all_stored (objects w) (export_items k role w)"
    "\<exists>mj cj rm. zip_entries w4 = archive_of X (archive_prefix c) (objects w) (export_items k role w) (export_events k w) mj cj rm"
    by auto
qed

text \<open>
  C15: A successful export is a finished archive in which every name occurs once. It has, for every
  current and undestroyed item of the case that its reader may see, an entry whose bytes have the
  hash that was recorded at upload, and \<open>hashes.csv\<close>, read as CSV, lists the number, the name and
  that hash of it.
\<close>

theorem export_complete:
  assumes "start_db w0" "evidence_run E w0 w" "key_env E w"
    and x: "ExportCase X k role u w = (None, w')"
    and e: "e \<in> set (evidence_items w)" "ei_CaseID e = k" "ei_IsCurrent e" "ei_DestroyedAt e = None"
      "disclosed role (disclosures w) e"
  shows "zip_closed w' \<and> distinct (map fst (zip_entries w')) \<and>
    (\<exists>c data list rows.
       find_case k (cases_table w) = Some c \<and>
       map_of (zip_entries w') (c_ReferenceCode c @ ''-export/evidence/'' @ export_filename e) = Some data \<and>
       hex_encode (lib_sha256 (ee_lib E) data) = ei_SHA256Hash e \<and>
       map_of (zip_entries w') (c_ReferenceCode c @ ''-export/hashes.csv'') = Some list \<and>
       csv_read list = Some (hashes_header # rows) \<and>
       [derefStr (ei_EvidenceNumber e), ei_Filename e, ei_SHA256Hash e, ei_TSAStatus e, tsa_text X e] \<in> set rows)"
proof -
  have inv: "evidence_inv E w" by (rule start_inv [OF assms(1-3)])
  from x show ?thesis
  proof (cases rule: export_cases)
    case (begun c w3 r4 w4)
    then have b: "built X k role u w c w3 None w4" "zip_closed w'" by simp_all
    let ?pre = "archive_prefix c" and ?items = "export_items k role w"
    obtain mj cj rm where z: "zip_entries w' = archive_of X ?pre (objects w) ?items (export_events k w) mj cj rm"
      using built_ok(2) [OF b(1)] begun(3) by auto
    have d: "distinct (map fst (zip_entries w'))" unfolding z by (rule archive_names_distinct [OF inv])
    have i: "e \<in> set ?items" using e by (simp add: export_items_set)
    obtain key data ct where s: "ei_StorageKey e = Some key" "objects w key = Some (data, ct)"
        "hex_encode (lib_sha256 (ee_lib E) data) = ei_SHA256Hash e"
      using stored_keyed [OF inv i] by blast
    have "(evidence_entry ?pre e, data) \<in> set (files_of ?pre (objects w) ?items)"
      using i s by (force simp: files_of_def)
    then have m1: "map_of (zip_entries w') (evidence_entry ?pre e) = Some data"
      using d by (intro map_of_is_SomeI) (simp_all add: z archive_of_def)
    let ?list = "csv_text (hashes_header # map (hashes_row X) ?items)"
    have m2: "map_of (zip_entries w') (?pre @ ''hashes.csv'') = Some ?list"
      using d by (intro map_of_is_SomeI) (simp_all add: z archive_of_def)
    have r: "csv_read ?list = Some (hashes_header # map (hashes_row X) ?items)"
      by (rule csv_read_text) (auto simp: hashes_header_def hashes_row_def)
    have "find_case k (cases_table w) = Some c" using b(1) by (simp add: built_def)
    with b(2) d m1 m2 r s(3) i show ?thesis
      by (intro conjI exI [of _ c] exI [of _ data] exI [of _ ?list] exI [of _ "map (hashes_row X) ?items"])
        (auto simp: evidence_entry_def hashes_row_def)
  qed simp
qed


text \<open>
  An export that fails after the archive was begun, for any other reason than a broken
  connection, still finishes the archive, without the custody log, the lists and the hashes: the
  client gets a well-formed ZIP file with status \<open>200\<close>.
\<close>

theorem failed_export_is_finished:
  assumes "ExportCase X k role u w = (Some err, w')" "zip_entries w = []" "zip_entries w' \<noteq> []" "zip_broken w' = None"
  shows "zip_closed w' \<and> (\<exists>c. find_case k (cases_table w) = Some c \<and>
    (\<forall>n \<in> set [''metadata.csv'', ''custody_log.csv'', ''hashes.csv'', ''README.txt''].
       c_ReferenceCode c @ ''-export/'' @ n \<notin> set (map fst (zip_entries w'))))"
  using assms(1)
proof (cases rule: export_cases)
  case unread
  with assms(2,3) show ?thesis by (simp add: export_only_ticks)
next
  case (begun c w3 r4 w4)
  with assms(4) have b: "r4 \<noteq> None" "w' = snd (zip_Close id w4)" "find_case k (cases_table w) = Some c"
      "buildArchive X (archive_prefix c) c (export_items k role w) (export_events k w) u w3 = (r4, w4)"
      "zip_broken w3 = None" "zip_entries w3 = []"
    by (auto simp: built_def)
  have cl: "zip_closed w'" "zip_broken w4 = None"
    using b(2) assms(4) zip_Close_step(2) [OF prod.collapse [symmetric], of id w4]
    by (auto simp: zip_Close_def zip_op_def split: option.splits)
  have "grows (archive_prefix c) (export_items k role w) (r4 \<noteq> None) w3 w4"
    using archive_stages b(4,5) unfolding whole_stage_def by blast
  then have "\<forall>nd \<in> set (zip_entries w'). early_entry (archive_prefix c) nd"
    using b(1,6) cl(2) begun(3) by (auto simp: grows_def)
  then show ?thesis using cl(1) b(3) by (auto simp: early_entry_def)
qed

section \<open>When nothing fails\<close>

definition calm_stage ::
  "(string \<Rightarrow> (string \<times> string) option) \<Rightarrow> ('a export_db_scheme \<Rightarrow> go_error option \<times> 'a export_db_scheme) \<Rightarrow> bool" where
  "calm_stage obs f \<longleftrightarrow>
     (\<forall>w. no_faults w \<longrightarrow> zip_broken w = None \<longrightarrow> objects w = obs \<longrightarrow>
       (\<exists>w'. f w = (None, w') \<and> no_faults w' \<and> zip_broken w' = None \<and> objects w' = obs))"

lemma calm_then: "calm_stage obs f \<Longrightarrow> calm_stage obs g \<Longrightarrow> calm_stage obs (and_then f g)"
  unfolding calm_stage_def and_then_def by fastforce

lemma calm_zip_op:
  assumes "\<And>w. no_faults (g w) = no_faults w" "\<And>w. zip_broken (g w) = zip_broken w" "\<And>w. objects (g w) = objects w"
  shows "calm_stage obs (zip_op f g)"
  using assms by (auto simp: calm_stage_def zip_op_def fault_none)

lemma zip_no_faults [simp]:
  "no_faults (w\<lparr>zip_entries := es\<rparr>) = no_faults (w :: 'a export_db_scheme)"
  "no_faults (w\<lparr>zip_closed := c\<rparr>) = no_faults (w :: 'a export_db_scheme)"
  "no_faults (w\<lparr>zip_broken := b\<rparr>) = no_faults (w :: 'a export_db_scheme)"
  by (simp_all add: no_faults_def)

lemma calm_zip:
  "calm_stage obs (zip_Create f n)" "calm_stage obs (zip_Write f d)" "calm_stage obs (zip_Close f)"
  unfolding zip_Create_def [abs_def] zip_Write_def [abs_def] zip_Close_def [abs_def] by (rule calm_zip_op; simp)+

lemma calm_tick_stage: "calm_stage obs f \<Longrightarrow> calm_stage obs (\<lambda>w. f (tick w))"
  by (simp add: calm_stage_def)

lemma calm_encode:
  assumes "\<And>j. xe_json X j \<noteq> None"
  shows "calm_stage obs (zip_encode X f j)"
proof -
  obtain s where "xe_json X j = Some s" using assms by blast
  then show ?thesis using calm_zip(2) by (simp add: zip_encode_def [abs_def])
qed

lemma calm_evidence_file:
  assumes "all_stored obs [e]"
  shows "calm_stage obs (writeEvidenceFile X pre e)"
  unfolding calm_stage_def
proof (intro allI impI)
  fix w :: "'a export_db_scheme" assume w: "no_faults w" "zip_broken w = None" "objects w = obs"
  show "\<exists>w'. writeEvidenceFile X pre e w = (None, w') \<and> no_faults w' \<and> zip_broken w' = None \<and> objects w' = obs"
  proof (cases "ei_StorageKey e")
    case None
    with w show ?thesis by (simp add: writeEvidenceFile_def)
  next
    case (Some key)
    then obtain d ct where o: "obs key = Some (d, ct)" using assms by (auto simp: all_stored_def)
    obtain w1 where w1: "zip_Create (wrapf (''create evidence zip entry '' @ export_filename e)) (pre @ ''evidence/'' @ export_filename e) w = (None, w1)"
        "no_faults w1" "zip_broken w1 = None" "objects w1 = obs"
      using calm_zip(1) w unfolding calm_stage_def by blast
    have g: "GetObject key w1 = (Inr (d, ct), tick (tick w1))"
      using w1 o by (simp add: GetObject_def pg_call_no_faults)
    have w3: "no_faults (tick (tick (tick w1)))" "zip_broken (tick (tick (tick w1))) = None" "objects (tick (tick (tick w1))) = obs"
      using w1(2-4) by simp_all
    obtain w3 where "zip_Write (wrapf (''copy evidence file '' @ export_filename e @ '' to zip'')) d (tick (tick (tick w1))) = (None, w3)"
        "no_faults w3" "zip_broken w3 = None" "objects w3 = obs"
      using calm_zip(2) w3 unfolding calm_stage_def by blast
    with w1 g Some show ?thesis by (simp add: writeEvidenceFile_def zip_Copy_def fault_none Let_def)
  qed
qed

lemma calm_evidence_files:
  "all_stored obs items \<Longrightarrow> calm_stage obs (writeEvidenceFiles X pre items :: 'a export_db_scheme \<Rightarrow> _)"
proof (induction items)
  case Nil
  then show ?case by (simp add: calm_stage_def)
next
  case (Cons e es)
  then have "calm_stage obs (and_then (writeEvidenceFile X pre e) (writeEvidenceFiles X pre es) :: 'a export_db_scheme \<Rightarrow> _)"
    by (intro calm_then calm_evidence_file) (simp_all add: all_stored_def)
  moreover have "writeEvidenceFiles X pre (e # es) = and_then (writeEvidenceFile X pre e) (writeEvidenceFiles X pre es)"
    by (simp add: fun_eq_iff)
  ultimately show ?case by simp
qed

lemma calm_archive:
  assumes "all_stored obs items" "\<And>j. xe_json X j \<noteq> None"
  shows "calm_stage obs (buildArchive X pre c items events u)"
  unfolding buildArchive_def writeManifest_def Let_def writeCaseJSON_def writeMetadataCSV_def writeCustodyCSV_def
    writeHashesCSV_def writeREADME_def
proof (intro calm_then calm_zip calm_encode calm_evidence_files assms calm_tick_stage)
  have m: "calm_stage obs (and_then (zip_Create (wrapf ''create manifest entry'') (pre @ ''manifest.json''))
      (zip_encode X (wrapf ''encode manifest'') (manifest_json (xe_lib X) m)))" for m
    by (intro calm_then calm_zip calm_encode assms)
  show "calm_stage obs (\<lambda>w. and_then (zip_Create (wrapf ''create manifest entry'') (pre @ ''manifest.json''))
      (zip_encode X (wrapf ''encode manifest'') (manifest_json (xe_lib X)
        \<lparr>xm_ExportDate = now w, xm_Version = exportVersion, xm_CaseID = lib_uuid_string (xe_lib X) (c_ID c),
         xm_Reference = c_ReferenceCode c, xm_Title = c_Title c, xm_Jurisdiction = c_Jurisdiction c,
         xm_Status = c_Status c, xm_TotalItems = int (length items), xm_ExportedBy = u\<rparr>)) (tick w))"
    unfolding calm_stage_def by (intro allI impI m [unfolded calm_stage_def, rule_format]) simp_all
  show "calm_stage obs (\<lambda>w. zip_Write (wrapf ''write README.txt'') (readme_text (xe_lib X) c (now w)) (tick w))"
    unfolding calm_stage_def by (intro allI impI calm_zip(2) [unfolded calm_stage_def, rule_format]) simp_all
qed

lemma export_calm:
  assumes n: "no_faults w" and c: "find_case k (cases_table w) = Some c"
    and st: "all_stored (objects w) (export_items k role w)" and j: "\<And>j. xe_json X j \<noteq> None"
  shows "\<exists>w'. ExportCase X k role u w = (None, w')"
proof -
  have a: "repo_FindByID k w = (Inr c, tick w)" using n c by (simp add: repo_FindByID_def fault_none)
  obtain x2 w2 where b: "ListByCaseForExport k role (tick w) = (x2, w2)" by fastforce
  have x2: "x2 = Inr (export_items k role w)"
    using query_rows_no_faults [of "tick w"] n b by (auto simp: ListByCaseForExport_def export_items_def prod_eq_iff)
  have t2: "only_ticks w w2"
    by (rule only_ticks_from_tick [OF query_rows_ticks [OF b [unfolded ListByCaseForExport_def]]])
  have n2: "no_faults w2" using n only_ticks_no_faults [OF t2] by simp
  obtain x3 w3 where d: "ListAllByCase k w2 = (x3, w3)" by fastforce
  have x3: "x3 = Inr (export_events k w)"
    using query_rows_no_faults [OF n2] d cases_only_ticks(3) [OF t2] unfolding ListAllByCase_def
    by (metis fst_conv)
  have t3: "only_ticks w w3" using query_rows_ticks [OF d [unfolded ListAllByCase_def]] t2 only_ticks_trans by blast
  let ?w3 = "w3\<lparr>zip_entries := [], zip_closed := False, zip_broken := None\<rparr>"
  have w3: "no_faults ?w3" "objects ?w3 = objects w" "zip_broken ?w3 = None"
    using n only_ticks_no_faults [OF t3] export_only_ticks(4) [OF t3] by simp_all
  obtain w4 where w4: "buildArchive X (archive_prefix c) c (export_items k role w) (export_events k w) u ?w3 = (None, w4)"
      "no_faults w4" "zip_broken w4 = None" "objects w4 = objects w"
    using calm_archive [OF st j] w3 unfolding calm_stage_def by blast
  obtain w5 where "zip_Close (wrapf ''close zip writer'') w4 = (None, w5)"
    using calm_zip(3) w4(2-4) unfolding calm_stage_def by blast
  with a b x2 d x3 w4(1) show ?thesis by (simp add: ExportCase_def)
qed

section \<open>Concrete exports\<close>

definition sample_export_env :: export_env where
  "sample_export_env = \<lparr>xe_lib = sample_lib, xe_json = (\<lambda>j. Some ''{}''), xe_local = (\<lambda>l t. itoa t), xe_cut = (\<lambda>n. 2)\<rparr>"

definition sample_export_db ::
  "(nat \<Rightarrow> string option) \<Rightarrow> EvidenceItem list \<Rightarrow> (string \<Rightarrow> (string \<times> string) option) \<Rightarrow> export_db" where
  "sample_export_db faults es obs =
     \<lparr>w_tick = 0, w_fault = faults, w_now = (\<lambda>n. 1000 * int n), w_uuid = (\<lambda>n. of_nat n + 100),
      custody_log = [], cases_table = [sample_case 7 ''ICC-1'' ''active'' False], case_roles = [], evidence_items = es,
      evidence_counter = (\<lambda>k. 0), disclosures = [], integrity_warnings = [], session_locks = [],
      pool_conn = (\<lambda>n. n), objects = obs, search_docs = [], thumb_jobs = [],
      zip_entries = [], zip_closed = False, zip_broken = None\<rparr>"

text \<open>The object store breaks off in the middle of the only file.\<close>

definition sample_exported :: EvidenceItem where
  "sample_exported = (sample_item 1 None 1 None)\<lparr>ei_IsCurrent := True\<rparr>"

abbreviation sample_cut_db :: export_db where
  "sample_cut_db \<equiv> sample_export_db (\<lambda>n. if n = 14 then Some ''reset'' else None)
     [sample_exported] [''k'' \<mapsto> (''data'', ''image/png'')]"

lemma sample_exported_sel:
  "ei_CaseID sample_exported = 7" "ei_IsCurrent sample_exported" "ei_DestroyedAt sample_exported = None"
  "ei_StorageKey sample_exported = Some ''k''" "export_filename sample_exported = ''ICC-1-00001_a.txt''"
  by (simp_all add: sample_exported_def sample_item_def export_filename_def derefStr_def)

lemma sample_cut_sel:
  "find_case 7 (cases_table sample_cut_db) = Some (sample_case 7 ''ICC-1'' ''active'' False)" "zip_entries sample_cut_db = []"
  "c_ReferenceCode (sample_case 7 ''ICC-1'' ''active'' False) = ''ICC-1''"
  by (simp_all add: sample_export_db_def find_case_def sample_case_def)

lemma sample_cut_reads:
  "repo_FindByID 7 sample_cut_db = (Inr (sample_case 7 ''ICC-1'' ''active'' False), tick sample_cut_db)"
  "ListByCaseForExport 7 [] (tick sample_cut_db) = (Inr [sample_exported], sample_cut_db\<lparr>w_tick := 4\<rparr>)"
  "ListAllByCase 7 (sample_cut_db\<lparr>w_tick := 4\<rparr>) = (Inr [], sample_cut_db\<lparr>w_tick := 6\<rparr>)"
  by (simp_all add: repo_FindByID_def ListByCaseForExport_def ListAllByCase_def query_rows_def case_rows_def fault_def tick_def
      sample_export_db_def sample_exported_sel disclosed_def find_case_def sample_case_def)

lemma sample_cut_front:
  "writeManifest sample_export_env pre c items u (sample_cut_db\<lparr>w_tick := 6\<rparr>) =
     (None, sample_cut_db\<lparr>w_tick := 9, zip_entries := [(pre @ ''manifest.json'', ''{}'')]\<rparr>)"
  "writeCaseJSON sample_export_env pre c (sample_cut_db\<lparr>w_tick := 9, zip_entries := es\<rparr>) =
     (None, sample_cut_db\<lparr>w_tick := 11, zip_entries := es @ [(pre @ ''case.json'', ''{}'')]\<rparr>)"
  "writeEvidenceFile sample_export_env pre sample_exported (sample_cut_db\<lparr>w_tick := 11, zip_entries := es\<rparr>) =
     (Some (wrapf ''copy evidence file ICC-1-00001_a.txt to zip'' (ErrNew ''reset'')),
      sample_cut_db\<lparr>w_tick := 15, zip_entries := es @ [(pre @ ''evidence/ICC-1-00001_a.txt'', ''da'')]\<rparr>)"
  by (simp_all add: and_then_def writeManifest_def Let_def zip_Create_def zip_op_def zip_encode_def zip_Write_def
      sample_export_env_def fault_def tick_def sample_export_db_def writeCaseJSON_def sample_exported_sel append_last_def
      writeEvidenceFile_def GetObject_def pg_call_def zip_Copy_def)

lemma sample_cut_archive:
  "buildArchive sample_export_env ''ICC-1-export/'' (sample_case 7 ''ICC-1'' ''active'' False) [sample_exported] [] ''u1''
       (sample_cut_db\<lparr>w_tick := 6\<rparr>) =
     (Some (wrapf ''copy evidence file ICC-1-00001_a.txt to zip'' (ErrNew ''reset'')),
      sample_cut_db\<lparr>w_tick := 15, zip_entries := [(''ICC-1-export/manifest.json'', ''{}''), (''ICC-1-export/case.json'', ''{}''),
       (''ICC-1-export/evidence/ICC-1-00001_a.txt'', ''da'')]\<rparr>)"
  by (simp add: buildArchive_def and_then_def sample_cut_front)

lemma sample_cut_run:
  obtains err w' where "ExportCase sample_export_env 7 [] ''u1'' sample_cut_db = (Some err, w')" "zip_broken w' = None"
    "(''ICC-1-export/evidence/ICC-1-00001_a.txt'', ''da'') \<in> set (zip_entries w')"
proof -
  have e: "(sample_cut_db\<lparr>w_tick := 6\<rparr>)\<lparr>zip_entries := [], zip_closed := False, zip_broken := None\<rparr> = sample_cut_db\<lparr>w_tick := 6\<rparr>"
    by (simp add: sample_export_db_def)
  have p: "''ICC-1'' @ ''-export/'' = ''ICC-1-export/''" by simp
  have "ExportCase sample_export_env 7 [] ''u1'' sample_cut_db =
      (Some (wrapf ''copy evidence file ICC-1-00001_a.txt to zip'' (ErrNew ''reset'')),
       snd (zip_Close id (sample_cut_db\<lparr>w_tick := 15, zip_entries := [(''ICC-1-export/manifest.json'', ''{}''),
         (''ICC-1-export/case.json'', ''{}''), (''ICC-1-export/evidence/ICC-1-00001_a.txt'', ''da'')]\<rparr>)))"
    by (simp only: ExportCase_def sample_cut_reads prod.case sum.case option.case sample_cut_sel(3) p e sample_cut_archive)
  then show ?thesis
    using that by (simp add: zip_Close_def zip_op_def fault_def tick_def sample_export_db_def)
qed

theorem failed_export_is_finished_witness:
  "zip_closed (snd (ExportCase sample_export_env 7 [] ''u1'' sample_cut_db)) \<and>
   ''ICC-1-export/custody_log.csv'' \<notin> set (map fst (zip_entries (snd (ExportCase sample_export_env 7 [] ''u1'' sample_cut_db))))"
proof -
  obtain err w' where x: "ExportCase sample_export_env 7 [] ''u1'' sample_cut_db = (Some err, w')" "zip_broken w' = None"
      "(''ICC-1-export/evidence/ICC-1-00001_a.txt'', ''da'') \<in> set (zip_entries w')"
    by (rule sample_cut_run)
  then have "zip_entries w' \<noteq> []" by auto
  from failed_export_is_finished [OF x(1) sample_cut_sel(2) this x(2)] show ?thesis
    using x(1) sample_cut_sel(1,3) by simp
qed


text \<open>An upload and the export of its case.\<close>

abbreviation sample_export_start :: export_db where
  "sample_export_start \<equiv> sample_export_db (\<lambda>n. None) [] Map.empty"

lemma sample_export_start_sel [simp]:
  "start_db sample_export_start" "calm sample_export_start" "no_faults sample_export_start"
  "w_uuid sample_export_start = w_uuid sample_start" "w_tick sample_export_start = 0"
  "find_case 7 (cases_table sample_export_start) = Some (sample_case 7 ''ICC-1'' ''active'' False)"
  "evidence_counter sample_export_start c = 0" "evidence_items sample_export_start = []"
  by (simp_all add: sample_export_db_def calm_def no_faults_def sample_start_def sample_evidence_db_def find_case_def)

theorem export_complete_witness:
  "\<exists>e w w'. Upload sample_evidence_env (sample_upload 7 ''data'') sample_export_start = (Inr e, w) \<and>
     ExportCase sample_export_env 7 [] ''u1'' w = (None, w') \<and> zip_closed w' \<and>
     (\<exists>data. (''ICC-1-export/evidence/'' @ export_filename e, data) \<in> set (zip_entries w') \<and>
        hex_encode (lib_sha256 sample_lib data) = ei_SHA256Hash e)"
proof -
  have "\<exists>e w. Upload sample_evidence_env (sample_upload 7 ''data'') sample_export_start = (Inr e, w) \<and>
      w_tick w \<le> w_tick sample_export_start + 30"
    by (rule upload_calm [OF sample_upload_valid, where c = "sample_case 7 ''ICC-1'' ''active'' False"])
      (simp_all add: sample_upload_def counter_room_def)
  then obtain e w where u: "Upload sample_evidence_env (sample_upload 7 ''data'') sample_export_start = (Inr e, w)"
      "w_tick w \<le> 30" by auto
  have s: "evidence_steps sample_export_start w" using Upload_steps [OF u(1)] .
  have k: "key_env sample_evidence_env w"
    using s u(2) by (intro sample_key_env) (simp_all add: evidence_steps_def)
  note run = upload_run [OF u(1)]
  have inv: "evidence_inv sample_evidence_env w" by (rule start_inv [OF _ run k]) simp
  have e: "evidence_items w = [e]" "ei_CaseID e = 7" "ei_IsCurrent e" "ei_DestroyedAt e = None"
      "cases_table w = cases_table sample_export_start"
    using Upload_ok [OF u(1)] by (auto simp: uploaded_def sample_upload_def)
  have n: "no_faults w" using s by (simp add: no_faults_def evidence_steps_def sample_export_db_def)
  have c: "find_case 7 (cases_table w) = Some (sample_case 7 ''ICC-1'' ''active'' False)" using e(5) by simp
  have st: "all_stored (objects w) (export_items 7 [] w)"
    unfolding all_stored_def using stored_keyed [OF inv] by fastforce
  obtain w' where x: "ExportCase sample_export_env 7 [] ''u1'' w = (None, w')"
    using export_calm [OF n c st, where X = sample_export_env] by (auto simp: sample_export_env_def)
  have "zip_closed w' \<and> (\<exists>data. (''ICC-1-export/evidence/'' @ export_filename e, data) \<in> set (zip_entries w') \<and>
        hex_encode (lib_sha256 sample_lib data) = ei_SHA256Hash e)"
    using export_complete [OF _ run k x, of e] e c
    by (auto simp: disclosed_def sample_case_def dest: map_of_SomeD)
  with u(1) x show ?thesis by blast
qed

end
