(* ===== verification/Log_Redact.thy ===== *)
theory Log_Redact
  imports Go_Http
begin

text \<open>
  \<open>internal/logging/redact.go\<close> and \<open>middleware.go\<close>: what of a request gets into the log. The values of
  fields whose name has a sensitive part are replaced, at every depth; two requests that differ only
  in such values leave the same lines.
\<close>

section \<open>Redaction\<close>

text \<open>
  A value of type \<open>any\<close> as \<open>RedactValue\<close> looks at it: a string, a \<open>[]string\<close>, a \<open>[]any\<close>, a
  \<open>map[string]any\<close> (\<open>None\<close> for the nil map), or anything else. \<open>lower\<close> is \<open>strings.ToLower\<close>.
\<close>

datatype log_value =
    LogString string
  | LogStrings "string list"
  | LogList "log_value list"
  | LogMap "(string \<times> log_value) list option"
  | LogOther string

definition redactedValue :: string where "redactedValue = ''[REDACTED]''"

definition sensitiveMarkers :: "string list" where
  "sensitiveMarkers =
     [''token'', ''jwt'', ''bearer'', ''password'', ''secret'', ''key'', ''full_name'', ''contact_info'', ''location'',
      ''authorization'']"

definition IsSensitiveField :: "(string \<Rightarrow> string) \<Rightarrow> string \<Rightarrow> bool" where
  "IsSensitiveField lower name \<longleftrightarrow> list_ex (contains (lower (trim_space name))) sensitiveMarkers"

definition redact_string :: "(string \<Rightarrow> string) \<Rightarrow> string \<Rightarrow> string \<Rightarrow> log_value" where
  \<comment> \<open>\<open>RedactValue\<close> of a string\<close>
  "redact_string lower key s = (if IsSensitiveField lower key then LogString redactedValue else LogString s)"

lemma log_list_size: "v \<in> set vs \<Longrightarrow> size v < size (LogList vs)"
  by (induction vs) auto

lemma log_map_size: "(k, v) \<in> set kvs \<Longrightarrow> size v < size (LogMap (Some kvs))"
  by (induction kvs) auto

function RedactValue :: "(string \<Rightarrow> string) \<Rightarrow> string \<Rightarrow> log_value \<Rightarrow> log_value" where
  "RedactValue lower key (LogString s) = redact_string lower key s"
| "RedactValue lower key (LogStrings ss) =
     (if IsSensitiveField lower key then LogString redactedValue else LogList (map (redact_string lower key) ss))"
| "RedactValue lower key (LogList vs) =
     (if IsSensitiveField lower key then LogString redactedValue else LogList (map (RedactValue lower key) vs))"
| "RedactValue lower key (LogMap m) =
     (if IsSensitiveField lower key then LogString redactedValue
      else LogMap (map_option (map (\<lambda>(k, v). (k, RedactValue lower k v))) m))"
| "RedactValue lower key (LogOther s) =
     (if IsSensitiveField lower key then LogString redactedValue else LogOther s)"
  by pat_completeness auto
termination
  by (relation "measure (\<lambda>(lower, key, v). size v)") (auto dest: log_list_size log_map_size)

definition RedactMap :: "(string \<Rightarrow> string) \<Rightarrow> (string \<times> log_value) list option \<Rightarrow> (string \<times> log_value) list option" where
  "RedactMap lower m = map_option (map (\<lambda>(k, v). (k, RedactValue lower k v))) m"

section \<open>Two values that differ in secrets only\<close>

inductive alike :: "(string \<Rightarrow> string) \<Rightarrow> string \<Rightarrow> log_value \<Rightarrow> log_value \<Rightarrow> bool" for lower where
  alike_secret: "IsSensitiveField lower key \<Longrightarrow> alike lower key v v'"
| alike_refl: "alike lower key v v"
| alike_list: "list_all2 (alike lower key) vs vs' \<Longrightarrow> alike lower key (LogList vs) (LogList vs')"
| alike_map: "list_all2 (\<lambda>x y. fst x = fst y \<and> alike lower (fst x) (snd x) (snd y)) kvs kvs' \<Longrightarrow>
    alike lower key (LogMap (Some kvs)) (LogMap (Some kvs'))"

lemma redact_secret: "IsSensitiveField lower key \<Longrightarrow> RedactValue lower key v = LogString redactedValue"
  by (cases v) (simp_all add: redact_string_def)

lemma alike_redacted: "alike lower key v v' \<Longrightarrow> RedactValue lower key v = RedactValue lower key v'"
proof (induction rule: alike.induct)
  case (alike_list key vs vs')
  then have "map (RedactValue lower key) vs = map (RedactValue lower key) vs'"
    by (auto simp: list_all2_conv_all_nth intro: nth_equalityI)
  then show ?case by simp
next
  case (alike_map kvs kvs' key)
  then have "map (\<lambda>(k, v). (k, RedactValue lower k v)) kvs = map (\<lambda>(k, v). (k, RedactValue lower k v)) kvs'"
    by (auto simp: list_all2_conv_all_nth split_beta intro!: nth_equalityI)
  then show ?case by simp
qed (simp_all add: redact_secret)

section \<open>The log of a request\<close>

text \<open>
  A request as the middleware logs it; \<open>hr_Query\<close> and \<open>hr_Header\<close> are the maps \<open>r.URL.Query()\<close> and
  \<open>r.Header\<close> as the lists of their entries.
\<close>

record http_request =
  hr_Method :: string
  hr_Path :: string
  hr_Query :: "(string \<times> string list) list"
  hr_Header :: "(string \<times> string list) list"
  hr_RemoteAddr :: string
  hr_UserAgent :: string

record responseRecorder =
  rr_statusCode :: int
  rr_bytesWritten :: int

datatype response_op = WriteHeader int | WriteBody string int

fun recorder_step :: "responseRecorder \<Rightarrow> response_op \<Rightarrow> responseRecorder" where
  \<comment> \<open>\<open>WriteBody body written\<close>: the writer underneath reports that many bytes\<close>
  "recorder_step r (WriteHeader code) = r\<lparr>rr_statusCode := code\<rparr>"
| "recorder_step r (WriteBody body written) = r\<lparr>rr_bytesWritten := rr_bytesWritten r + written\<rparr>"

definition fields_of :: "(string \<times> string list) list \<Rightarrow> (string \<times> log_value) list option" where
  "fields_of values =
     (if values = [] then None
      else Some (map (\<lambda>(k, vals). (k, if length vals = 1 then LogString (hd vals) else LogList (map LogString vals))) values))"

definition queryFields :: "http_request \<Rightarrow> (string \<times> log_value) list option" where
  "queryFields r = fields_of (hr_Query r)"

definition headerFields :: "http_request \<Rightarrow> (string \<times> log_value) list option" where
  "headerFields r = fields_of (hr_Header r)"

definition log_Middleware ::
  "(string \<Rightarrow> string) \<Rightarrow> string \<Rightarrow> string \<Rightarrow> http_request \<Rightarrow> response_op list \<Rightarrow> int
     \<Rightarrow> (string \<times> (string \<times> log_value) list) list" where
  \<comment> \<open>the lines written for a request: \<open>reqID\<close> is the identifier of the context, \<open>fresh\<close> a new UUID, \<open>ops\<close>
    what the handler behind does with the recorder, \<open>ms\<close> how long it took\<close>
  "log_Middleware lower reqID fresh r ops ms =
     (if hr_Path r = ''/health'' then []
      else
        let requestID = (if reqID = [] then fresh else reqID);
            recorder = foldl recorder_step \<lparr>rr_statusCode = 200, rr_bytesWritten = 0\<rparr> ops
        in [(''request.started'',
             [(''request_id'', LogString requestID), (''method'', LogString (hr_Method r)), (''path'', LogString (hr_Path r)),
              (''query'', LogMap (RedactMap lower (queryFields r))), (''headers'', LogMap (RedactMap lower (headerFields r))),
              (''remote_addr'', LogString (hr_RemoteAddr r)), (''user_agent'', LogString (hr_UserAgent r))]),
            (''request.completed'',
             [(''request_id'', LogString requestID), (''method'', LogString (hr_Method r)), (''path'', LogString (hr_Path r)),
              (''status_code'', LogOther (itoa (rr_statusCode recorder))),
              (''bytes_written'', LogOther (itoa (rr_bytesWritten recorder))), (''duration_ms'', LogOther (itoa ms))])])"

definition same_but_secrets :: "(string \<Rightarrow> string) \<Rightarrow> (string \<times> string list) list \<Rightarrow> (string \<times> string list) list \<Rightarrow> bool" where
  \<comment> \<open>the same names, and the same values for every name that is not sensitive\<close>
  "same_but_secrets lower xs ys \<longleftrightarrow>
     list_all2 (\<lambda>(k, vs) (k', vs'). k = k' \<and> (IsSensitiveField lower k \<or> vs = vs')) xs ys"

lemma fields_alike:
  assumes "same_but_secrets lower xs ys"
  shows "RedactMap lower (fields_of xs) = RedactMap lower (fields_of ys)"
proof -
  have "RedactValue lower k (if length vs = 1 then LogString (hd vs) else LogList (map LogString vs)) =
      RedactValue lower k (if length vs' = 1 then LogString (hd vs') else LogList (map LogString vs'))"
    if "IsSensitiveField lower k \<or> vs = vs'" for k vs vs'
    using that by (auto simp: redact_secret redact_string_def)
  with assms show ?thesis
    unfolding same_but_secrets_def RedactMap_def fields_of_def
    by (induction rule: list_all2_induct) (auto simp del: RedactValue.simps split: if_splits)
qed


definition sample_logged :: "string \<Rightarrow> http_request" where
  "sample_logged token =
     \<lparr>hr_Method = ''GET'', hr_Path = ''/api/cases'', hr_Query = [(''access_token'', [token]), (''status'', [''open''])],
      hr_Header = [(''Accept'', [''text/html'']), (''Authorization'', [''Bearer '' @ token])],
      hr_RemoteAddr = ''10.0.0.1:80'', hr_UserAgent = ''curl''\<rparr>"

definition sample_lower :: "string \<Rightarrow> string" where
  "sample_lower s = map (\<lambda>c. let n = of_char c :: nat in if 65 \<le> n \<and> n \<le> 90 then char_of (n + 32) else c) s"


text \<open>The header \<open>Cookie\<close> has no sensitive part in its name: its value is logged as it is.\<close>

lemma cookies_are_logged:
  "RedactMap sample_lower (headerFields ((sample_logged ''t'')\<lparr>hr_Header := [(''Cookie'', [v])]\<rparr>)) =
     Some [(''Cookie'', LogString v)]"
proof -
  have "\<not> IsSensitiveField sample_lower ''Cookie''" by code_simp
  then show ?thesis by (simp add: headerFields_def fields_of_def RedactMap_def redact_string_def)
qed

end
