(* ===== verification/Server_Health.thy ===== *)
theory Server_Health
  imports Backup_Api Evidence_Service "HOL-Library.Multiset"
begin

text \<open>
  \<open>internal/server/health.go\<close>: the four probes of the health check, which run concurrently and answer
  over one channel, the status that is made of them, and the cached result that both endpoints share.
\<close>

section \<open>Data\<close>

definition statusHealthy :: string where "statusHealthy = ''healthy''"
definition statusDegraded :: string where "statusDegraded = ''degraded''"
definition statusUnhealthy :: string where "statusUnhealthy = ''unhealthy''"
definition serviceConnected :: string where "serviceConnected = ''connected''"
definition serviceDisconnected :: string where "serviceDisconnected = ''disconnected''"

definition healthCheckTimeout :: int where \<comment> \<open>nanoseconds\<close> "healthCheckTimeout = 5 * 1000000000"
definition defaultCacheTTL :: int where "defaultCacheTTL = 60 * 1000000000"

lemmas health_words = statusHealthy_def statusDegraded_def statusUnhealthy_def serviceConnected_def serviceDisconnected_def

record PublicHealth =
  ph_Status :: string
  ph_Version :: string

record DetailedHealth =
  dh_Status :: string
  dh_Version :: string
  dh_Postgres :: string
  dh_Minio :: string
  dh_Meilisearch :: string
  dh_Keycloak :: string
  dh_EvidenceCount :: int
  dh_UptimeSeconds :: int
  dh_LastBackup :: string
  dh_BackupStatus :: string

text \<open>
  The deployment: whether the bucket exists at a tick, the status a URL answers with at a tick (its
  request may fail before, by the fault script), whether a counter of evidence is configured and what
  it counts, whether a backup runner is, the format of an instant, the permutation in which the four
  answers arrive at a tick, the lifetime of the cache, the version and the time of the start.
\<close>

record health_env =
  he_bucket_exists :: "nat \<Rightarrow> bool"
  he_http_status :: "nat \<Rightarrow> string \<Rightarrow> int"
  he_evidence_count :: "(nat \<Rightarrow> int) option"
  he_backup :: bool
  he_format :: "string \<Rightarrow> time \<Rightarrow> string"
  he_arrival :: "nat \<Rightarrow> (string \<times> string) list \<Rightarrow> (string \<times> string) list"
  he_searchURL :: string
  he_keycloakURL :: string
  he_keycloakRealm :: string
  he_cacheTTL :: int
  he_version :: string
  he_startTime :: time

type_synonym health_option = "health_env \<Rightarrow> health_env"

definition WithEvidenceCounter :: "(nat \<Rightarrow> int) \<Rightarrow> health_option" where
  "WithEvidenceCounter ec h = h\<lparr>he_evidence_count := Some ec\<rparr>"

definition WithCacheTTL :: "int \<Rightarrow> health_option" where
  "WithCacheTTL ttl h = h\<lparr>he_cacheTTL := ttl\<rparr>"

definition WithBackupChecker :: health_option where
  "WithBackupChecker h = h\<lparr>he_backup := True\<rparr>"

definition NewHealthHandler ::
  "(nat \<Rightarrow> bool) \<Rightarrow> (nat \<Rightarrow> string \<Rightarrow> int) \<Rightarrow> (string \<Rightarrow> time \<Rightarrow> string)
     \<Rightarrow> (nat \<Rightarrow> (string \<times> string) list \<Rightarrow> (string \<times> string) list) \<Rightarrow> string \<Rightarrow> string \<Rightarrow> string \<Rightarrow> string \<Rightarrow> time
     \<Rightarrow> health_option list \<Rightarrow> health_env" where
  \<comment> \<open>the first four arguments are what the outside does, \<open>t\<close> is the time of the start\<close>
  "NewHealthHandler bucket http fmt arrival searchURL keycloakURL keycloakRealm version t opts =
     fold (\<lambda>opt h. opt h) opts
       \<lparr>he_bucket_exists = bucket, he_http_status = http, he_evidence_count = None, he_backup = False, he_format = fmt,
        he_arrival = arrival, he_searchURL = searchURL, he_keycloakURL = keycloakURL, he_keycloakRealm = keycloakRealm,
        he_cacheTTL = defaultCacheTTL, he_version = version, he_startTime = t\<rparr>"

record health_db = backup_db +
  health_cache :: "(DetailedHealth \<times> time) option"

section \<open>Probes\<close>

text \<open>
  Every call takes the context of the request that asked: \<open>gone\<close> tells that its client has gone away
  (or that five seconds are over), and then the call fails whatever its service does.
\<close>

definition health_call :: "bool \<Rightarrow> 'a world_scheme \<Rightarrow> go_error option \<times> 'a world_scheme" where
  "health_call gone w = (if gone then Some (ErrNew ''context canceled'') else fault w, tick w)"

definition checkPostgres :: "bool \<Rightarrow> 'a world_scheme \<Rightarrow> (string \<times> string) \<times> 'a world_scheme" where
  "checkPostgres gone w =
     (case health_call gone w of
        (Some err, w1) \<Rightarrow> ((''postgres'', serviceDisconnected), w1)
      | (None, w1) \<Rightarrow> ((''postgres'', serviceConnected), w1))"

definition checkMinio :: "health_env \<Rightarrow> bool \<Rightarrow> 'a world_scheme \<Rightarrow> (string \<times> string) \<times> 'a world_scheme" where
  "checkMinio H gone w =
     (case health_call gone w of
        (Some err, w1) \<Rightarrow> ((''minio'', serviceDisconnected), w1)
      | (None, w1) \<Rightarrow>
          ((''minio'', if he_bucket_exists H (w_tick w) then serviceConnected else serviceDisconnected), w1))"

definition checkURL :: "health_env \<Rightarrow> string \<Rightarrow> string \<Rightarrow> bool \<Rightarrow> 'a world_scheme \<Rightarrow> (string \<times> string) \<times> 'a world_scheme" where
  \<comment> \<open>\<open>http.NewRequestWithContext\<close> and \<open>httpClient.Do\<close>, and the comparison with \<open>http.StatusOK\<close>\<close>
  "checkURL H name url gone w =
     (case health_call gone w of
        (Some err, w1) \<Rightarrow> ((name, serviceDisconnected), w1)
      | (None, w1) \<Rightarrow>
          ((name, if he_http_status H (w_tick w) url = 200 then serviceConnected else serviceDisconnected), w1))"

definition checkMeilisearch :: "health_env \<Rightarrow> bool \<Rightarrow> 'a world_scheme \<Rightarrow> (string \<times> string) \<times> 'a world_scheme" where
  "checkMeilisearch H gone w = checkURL H ''meilisearch'' (he_searchURL H @ ''/health'') gone w"

definition checkKeycloak :: "health_env \<Rightarrow> bool \<Rightarrow> 'a world_scheme \<Rightarrow> (string \<times> string) \<times> 'a world_scheme" where
  "checkKeycloak H gone w = checkURL H ''keycloak'' (he_keycloakURL H @ ''/realms/'' @ he_keycloakRealm H) gone w"

definition probe_services :: "health_env \<Rightarrow> bool \<Rightarrow> 'a world_scheme \<Rightarrow> (string \<times> string) list \<times> 'a world_scheme" where
  \<comment> \<open>the four answers in the order in which they come out of the channel\<close>
  "probe_services H gone w =
     (case checkPostgres gone w of (p, w1) \<Rightarrow>
     (case checkMinio H gone w1 of (m, w2) \<Rightarrow>
     (case checkMeilisearch H gone w2 of (s, w3) \<Rightarrow>
     (case checkKeycloak H gone w3 of (k, w4) \<Rightarrow>
        (he_arrival H (w_tick w) [p, m, s, k], w4)))))"

section \<open>The result\<close>

definition services_map :: "(string \<times> string) list \<Rightarrow> string \<Rightarrow> string" where
  \<comment> \<open>\<open>services[sc.name] = sc.status\<close> in the order of arrival; a missing key reads as the empty string\<close>
  "services_map results = fold (\<lambda>sc m. m(fst sc := snd sc)) results (\<lambda>name. [])"

definition overall_status :: "(string \<Rightarrow> string) \<Rightarrow> string" where
  "overall_status services =
     (let criticalDown = (services ''postgres'' = serviceDisconnected \<or> services ''minio'' = serviceDisconnected);
          nonCriticalDown = (services ''meilisearch'' = serviceDisconnected \<or> services ''keycloak'' = serviceDisconnected)
      in if criticalDown then statusUnhealthy else if nonCriticalDown then statusDegraded else statusHealthy)"

definition uptime :: "health_env \<Rightarrow> time \<Rightarrow> int" where
  "uptime H t = (t - he_startTime H) div 1000000000"

definition count_evidence :: "health_env \<Rightarrow> bool \<Rightarrow> 'a world_scheme \<Rightarrow> int \<times> 'a world_scheme" where
  "count_evidence H gone w =
     (case he_evidence_count H of
        None \<Rightarrow> (0, w)
      | Some n \<Rightarrow> (case health_call gone w of (Some err, w1) \<Rightarrow> (0, w1) | (None, w1) \<Rightarrow> (n (w_tick w), w1)))"

definition last_backup :: "health_env \<Rightarrow> bool \<Rightarrow> 'a backup_db_scheme \<Rightarrow> (string \<times> string) \<times> 'a backup_db_scheme" where
  "last_backup H gone w =
     (if \<not> he_backup H then (([], []), w)
      else if gone then (([], []), tick w)
      else (case GetLastBackupInfo w of
          (Inl err, w1) \<Rightarrow> (([], []), w1)
        | (Inr (completedAt, bStatus), w1) \<Rightarrow> ((he_format H RFC3339 completedAt, bStatus), w1)))"

definition runChecks :: "health_env \<Rightarrow> bool \<Rightarrow> 'a backup_db_scheme \<Rightarrow> DetailedHealth \<times> 'a backup_db_scheme" where
  "runChecks H gone w =
     (case probe_services H gone w of (results, w1) \<Rightarrow>
      let services = services_map results in
     (case count_evidence H gone w1 of (n, w2) \<Rightarrow>
     (case last_backup H gone w2 of ((lastBackup, backupStatus), w3) \<Rightarrow>
        (\<lparr>dh_Status = overall_status services, dh_Version = he_version H, dh_Postgres = services ''postgres'',
          dh_Minio = services ''minio'', dh_Meilisearch = services ''meilisearch'', dh_Keycloak = services ''keycloak'',
          dh_EvidenceCount = n, dh_UptimeSeconds = uptime H (now w3), dh_LastBackup = lastBackup,
          dh_BackupStatus = backupStatus\<rparr>, tick w3))))"

definition getOrRefreshHealth ::
  "health_env \<Rightarrow> bool \<Rightarrow> 'a health_db_scheme \<Rightarrow> DetailedHealth \<times> 'a health_db_scheme" where
  "getOrRefreshHealth H gone w =
     (let refresh = (case runChecks H gone (tick w) of
          (result, w1) \<Rightarrow> (result, (tick w1)\<lparr>health_cache := Some (result, now w1)\<rparr>))
      in case health_cache w of
          None \<Rightarrow> refresh
        | Some (cached, cachedAt) \<Rightarrow>
            if now w - cachedAt < he_cacheTTL H then
              (cached\<lparr>dh_UptimeSeconds := uptime H (now (tick w))\<rparr>, tick (tick w))
            else refresh)"

section \<open>Endpoints\<close>

definition httpStatusForHealth :: "string \<Rightarrow> nat" where
  "httpStatusForHealth status = (if status = statusHealthy \<or> status = statusDegraded then 200 else 503)"

definition PublicHealthCheck ::
  "health_env \<Rightarrow> bool \<Rightarrow> 'a health_db_scheme \<Rightarrow> PublicHealth http_response \<times> 'a health_db_scheme" where
  "PublicHealthCheck H gone w =
     (case getOrRefreshHealth H gone w of (result, w1) \<Rightarrow>
      let status = (if dh_Postgres result = serviceDisconnected \<or> dh_Minio result = serviceDisconnected
            then statusUnhealthy else statusHealthy)
      in (RespondJSON (httpStatusForHealth status) \<lparr>ph_Status = status, ph_Version = he_version H\<rparr>, w1))"

definition handleDetailedHealth ::
  "health_env \<Rightarrow> bool \<Rightarrow> 'a health_db_scheme \<Rightarrow> DetailedHealth http_response \<times> 'a health_db_scheme" where
  "handleDetailedHealth H gone w =
     (case getOrRefreshHealth H gone w of (result, w1) \<Rightarrow>
        (RespondJSON (httpStatusForHealth (dh_Status result)) result, w1))"

definition serve_health ::
  "health_env \<Rightarrow> bool \<Rightarrow> ctx \<Rightarrow> request \<Rightarrow> 'a health_db_scheme
     \<Rightarrow> (DetailedHealth http_response \<times> access_denied list) \<times> 'a health_db_scheme" where
  "serve_health H gone c r w =
     gated (Some RoleSystemAdmin) c r (\<lambda>c' w'. handleDetailedHealth H gone w') w"

section \<open>The order of the answers\<close>

definition arrival_ok :: "health_env \<Rightarrow> bool" where
  "arrival_ok H \<longleftrightarrow> (\<forall>n xs. mset (he_arrival H n xs) = mset xs)"

lemma fold_updates:
  "fold (\<lambda>sc m. m(fst sc := snd sc)) xs m k =
     (case map_of (rev xs) k of None \<Rightarrow> m k | Some v \<Rightarrow> v)"
  by (induction xs arbitrary: m) (auto simp: map_add_def split: option.splits)

lemma services_map_of:
  assumes "distinct (map fst xs)" "(k, v) \<in> set xs"
  shows "services_map xs k = v"
proof -
  have "map_of (rev xs) k = Some v"
    using assms by (intro map_of_is_SomeI) (simp_all add: rev_map [symmetric])
  then show ?thesis by (simp add: services_map_def fold_updates)
qed

lemma services_map_arrival:
  assumes "arrival_ok H" "distinct (map fst xs)" "(k, v) \<in> set xs"
  shows "services_map (he_arrival H n xs) k = v"
proof -
  have m: "mset (he_arrival H n xs) = mset xs" using assms(1) by (simp add: arrival_ok_def)
  then have "mset (map fst (he_arrival H n xs)) = mset (map fst xs)" by simp
  then have "distinct (map fst (he_arrival H n xs))" using assms(2) mset_eq_imp_distinct_iff by blast
  moreover have "(k, v) \<in> set (he_arrival H n xs)" using m assms(3) by (metis set_mset_mset)
  ultimately show ?thesis by (rule services_map_of)
qed

lemma probe_names:
  assumes "probe_services (H\<lparr>he_arrival := \<lambda>n xs. xs\<rparr>) gone w = (xs, w')"
  shows "map fst xs = [''postgres'', ''minio'', ''meilisearch'', ''keycloak'']" "snd ` set xs \<subseteq> {serviceConnected, serviceDisconnected}"
proof -
  have "map fst xs = [''postgres'', ''minio'', ''meilisearch'', ''keycloak''] \<and> snd ` set xs \<subseteq> {serviceConnected, serviceDisconnected}"
    using assms
    by (auto simp: probe_services_def checkPostgres_def checkMinio_def checkMeilisearch_def checkKeycloak_def checkURL_def
        split: prod.splits option.splits if_splits)
  then show "map fst xs = [''postgres'', ''minio'', ''meilisearch'', ''keycloak'']"
    "snd ` set xs \<subseteq> {serviceConnected, serviceDisconnected}" by blast+
qed

lemma probe_arrival:
  "probe_services H gone w =
     (case probe_services (H\<lparr>he_arrival := \<lambda>n xs. xs\<rparr>) gone w of (xs, w') \<Rightarrow> (he_arrival H (w_tick w) xs, w'))"
  by (simp add: probe_services_def checkMinio_def checkMeilisearch_def checkKeycloak_def checkURL_def split: prod.splits)

lemma services_any_order:
  assumes "arrival_ok H" "probe_services (H\<lparr>he_arrival := \<lambda>n xs. xs\<rparr>) gone w = (xs, w')"
    and "name \<in> set [''postgres'', ''minio'', ''meilisearch'', ''keycloak'']"
  shows "services_map (he_arrival H n xs) name = services_map xs name"
proof -
  have n: "map fst xs = [''postgres'', ''minio'', ''meilisearch'', ''keycloak'']" by (rule probe_names(1) [OF assms(2)])
  then have d: "distinct (map fst xs)" by simp
  have "name \<in> set (map fst xs)" using n assms(3) by simp
  then obtain v where "(name, v) \<in> set xs" by force
  with services_map_arrival [OF assms(1) d] services_map_of [OF d] show ?thesis by simp
qed

lemma env_arrival [simp]:
  "count_evidence (H\<lparr>he_arrival := a\<rparr>) gone w = count_evidence H gone w" "last_backup (H\<lparr>he_arrival := a\<rparr>) gone w = last_backup H gone w"
  "uptime (H\<lparr>he_arrival := a\<rparr>) t = uptime H t"
  by (simp_all add: count_evidence_def last_backup_def uptime_def split: option.splits sum.splits prod.splits)

text \<open>
  The result of the concurrent probes does not depend on the order in which they answer: it is
  that of asking the services one after the other.
\<close>

theorem health_order_irrelevant:
  assumes "arrival_ok H"
  shows "runChecks H gone w = runChecks (H\<lparr>he_arrival := \<lambda>n xs. xs\<rparr>) gone w"
proof -
  obtain xs w1 where p: "probe_services (H\<lparr>he_arrival := \<lambda>n xs. xs\<rparr>) gone w = (xs, w1)" by fastforce
  then have "probe_services H gone w = (he_arrival H (w_tick w) xs, w1)" by (subst probe_arrival) simp
  then show ?thesis
    using p services_any_order [OF assms p] by (simp add: runChecks_def overall_status_def Let_def split: prod.splits)
qed

section \<open>The cache\<close>

definition health_ok :: "DetailedHealth \<Rightarrow> bool" where
  \<comment> \<open>the overall status is that of the four services\<close>
  "health_ok d \<longleftrightarrow>
     {dh_Postgres d, dh_Minio d, dh_Meilisearch d, dh_Keycloak d} \<subseteq> {serviceConnected, serviceDisconnected} \<and>
     dh_Status d = (if dh_Postgres d = serviceDisconnected \<or> dh_Minio d = serviceDisconnected then statusUnhealthy
       else if dh_Meilisearch d = serviceDisconnected \<or> dh_Keycloak d = serviceDisconnected then statusDegraded
       else statusHealthy)"

definition cache_ok :: "'a health_db_scheme \<Rightarrow> bool" where
  "cache_ok w \<longleftrightarrow> (\<forall>d t. health_cache w = Some (d, t) \<longrightarrow> health_ok d)"

lemma runChecks_ok:
  assumes "arrival_ok H" "runChecks H gone w = (d, w')"
  shows "health_ok d"
proof -
  let ?H = "H\<lparr>he_arrival := \<lambda>n xs. xs\<rparr>"
  obtain xs w1 where p: "probe_services ?H gone w = (xs, w1)" by fastforce
  have n: "map fst xs = [''postgres'', ''minio'', ''meilisearch'', ''keycloak'']" by (rule probe_names(1) [OF p])
  then have dx: "distinct (map fst xs)" by simp
  have v: "services_map xs k \<in> {serviceConnected, serviceDisconnected}"
    if "k \<in> set [''postgres'', ''minio'', ''meilisearch'', ''keycloak'']" for k
  proof -
    have "k \<in> set (map fst xs)" using n that by simp
    then obtain u where "(k, u) \<in> set xs" by force
    with services_map_of [OF dx] probe_names(2) [OF p] show ?thesis by force
  qed
  have d: "runChecks ?H gone w = (d, w')" using assms health_order_irrelevant by metis
  then have "dh_Postgres d = services_map xs ''postgres''" "dh_Minio d = services_map xs ''minio''"
      "dh_Meilisearch d = services_map xs ''meilisearch''" "dh_Keycloak d = services_map xs ''keycloak''"
      "dh_Status d = overall_status (services_map xs)"
    using p by (auto simp: runChecks_def Let_def split: prod.splits)
  then show ?thesis using v by (simp add: health_ok_def overall_status_def)
qed

lemma health_tick [simp]: "health_cache (tick w) = health_cache w"
  by (simp add: tick_def)

text \<open>Nothing but the cache and the tick changes.\<close>

definition fresh_cache :: "health_env \<Rightarrow> 'a health_db_scheme \<Rightarrow> bool" where
  "fresh_cache H w \<longleftrightarrow> (\<exists>d t. health_cache w = Some (d, t) \<and> now w - t < he_cacheTTL H)"

lemma refresh_cached:
  assumes "fresh_cache H w" "health_cache w = Some (d, t)"
  shows "getOrRefreshHealth H gone w = (d\<lparr>dh_UptimeSeconds := uptime H (now (tick w))\<rparr>, tick (tick w))"
  using assms by (auto simp: fresh_cache_def getOrRefreshHealth_def)

lemma refresh_stale:
  assumes "\<not> fresh_cache H w"
  shows "\<exists>d w1. runChecks H gone (tick w) = (d, w1) \<and>
    getOrRefreshHealth H gone w = (d, (tick w1)\<lparr>health_cache := Some (d, now w1)\<rparr>)"
proof -
  obtain d w1 where r: "runChecks H gone (tick w) = (d, w1)" by fastforce
  have "getOrRefreshHealth H gone w = (d, (tick w1)\<lparr>health_cache := Some (d, now w1)\<rparr>)"
  proof (cases "health_cache w")
    case None
    with r show ?thesis by (simp add: getOrRefreshHealth_def)
  next
    case (Some x)
    obtain c t where x: "x = (c, t)" by fastforce
    with Some assms have "\<not> now w - t < he_cacheTTL H" by (auto simp: fresh_cache_def)
    with r Some x show ?thesis by (simp add: getOrRefreshHealth_def)
  qed
  with r show ?thesis by blast
qed

lemma refresh_ok:
  assumes "arrival_ok H" "cache_ok w" "getOrRefreshHealth H gone w = (d, w')"
  shows "health_ok d \<and> cache_ok w'"
proof (cases "fresh_cache H w")
  case True
  then obtain c t where c: "health_cache w = Some (c, t)" by (auto simp: fresh_cache_def)
  then have "health_ok c" using assms(2) by (simp add: cache_ok_def)
  moreover have "d = c\<lparr>dh_UptimeSeconds := uptime H (now (tick w))\<rparr>" "w' = tick (tick w)"
    using refresh_cached [OF True c, of gone] assms(3) by simp_all
  ultimately show ?thesis using assms(2) by (simp add: cache_ok_def health_ok_def)
next
  case False
  obtain w1 where r: "runChecks H gone (tick w) = (d, w1)" "w' = (tick w1)\<lparr>health_cache := Some (d, now w1)\<rparr>"
    using refresh_stale [OF False, of gone] assms(3) by auto
  then have "health_ok d" using runChecks_ok [OF assms(1)] by blast
  with r(2) show ?thesis by (simp add: cache_ok_def)
qed

text \<open>Requests of any clients to either endpoint, with time passing in between.\<close>

inductive health_step :: "health_env \<Rightarrow> 'a health_db_scheme \<Rightarrow> 'a health_db_scheme \<Rightarrow> bool" for H where
  health_public: "PublicHealthCheck H gone w = (r, w') \<Longrightarrow> health_step H w w'"
| health_detailed: "serve_health H gone c q w = (x, w') \<Longrightarrow> health_step H w w'"
| health_other: "health_cache w' = health_cache w \<Longrightarrow> health_step H w w'"

abbreviation health_run :: "health_env \<Rightarrow> 'a health_db_scheme \<Rightarrow> 'a health_db_scheme \<Rightarrow> bool" where
  "health_run H \<equiv> (health_step H)\<^sup>*\<^sup>*"

lemma health_step_ok:
  assumes "arrival_ok H" "health_step H w w'" "cache_ok w"
  shows "cache_ok w'"
  using assms(2)
proof cases
  case (health_public gone r)
  then show ?thesis using refresh_ok [OF assms(1,3), of gone]
    by (auto simp: PublicHealthCheck_def Let_def split: prod.splits)
next
  case (health_detailed gone c q x)
  then show ?thesis using refresh_ok [OF assms(1,3), of gone] assms(3)
    by (auto simp: serve_health_def gated_def handleDetailedHealth_def split: prod.splits outcome.splits)
next
  case health_other
  with assms(3) show ?thesis by (simp add: cache_ok_def)
qed

lemma health_run_ok: "health_run H w w' \<Longrightarrow> arrival_ok H \<Longrightarrow> cache_ok w \<Longrightarrow> cache_ok w'"
  by (induction rule: rtranclp_induct) (auto intro: health_step_ok)

text \<open>
  At any time after the start, whoever asked before, the two endpoints answer with the same HTTP
  status, and it is \<open>503\<close> exactly when, in the result they look at, the database or the object store
  is disconnected.
\<close>

theorem health_endpoints_agree:
  assumes "arrival_ok H" "health_cache w0 = None" "health_run H w0 w"
  shows "\<exists>d w'. getOrRefreshHealth H gone w = (d, w') \<and>
    resp_status (fst (PublicHealthCheck H gone w)) = resp_status (fst (handleDetailedHealth H gone w)) \<and>
    (resp_status (fst (PublicHealthCheck H gone w)) = Some 503 \<longleftrightarrow>
       dh_Postgres d = serviceDisconnected \<or> dh_Minio d = serviceDisconnected)"
proof -
  obtain d w' where g: "getOrRefreshHealth H gone w = (d, w')" by fastforce
  have "cache_ok w" using health_run_ok [OF assms(3,1)] assms(2) by (simp add: cache_ok_def)
  then have "health_ok d" using refresh_ok [OF assms(1) _ g] by blast
  with g show ?thesis
    by (auto simp: PublicHealthCheck_def handleDetailedHealth_def Let_def health_ok_def httpStatusForHealth_def health_words)
qed

text \<open>
  Within the lifetime of the cache nothing is asked of the services; the answer is the cached one
  with the uptime brought up to date, and the cache is not older than its lifetime.
\<close>

theorem health_cache_used:
  assumes "health_cache w = Some (d, t)" "now w - t < he_cacheTTL H"
  shows "getOrRefreshHealth H gone w = (d\<lparr>dh_UptimeSeconds := uptime H (now (tick w))\<rparr>, tick (tick w))"
  by (rule refresh_cached) (use assms in \<open>auto simp: fresh_cache_def\<close>)

text \<open>
  A client that goes away while it asks with a stale cache makes the service look down to
  everybody: every call of the probes is cancelled with the request, the result that nothing is
  connected is cached, and until it expires all clients get \<open>503\<close>, whatever the state of the services.
\<close>

lemma gone_probes:
  assumes "probe_services (H\<lparr>he_arrival := \<lambda>n xs. xs\<rparr>) True w = (xs, w')"
  shows "xs = map (\<lambda>n. (n, serviceDisconnected)) [''postgres'', ''minio'', ''meilisearch'', ''keycloak'']"
  using assms
  by (auto simp: probe_services_def checkPostgres_def checkMinio_def checkMeilisearch_def checkKeycloak_def checkURL_def health_call_def)

lemma gone_checks:
  assumes "arrival_ok H" "runChecks H True w = (d, w')"
  shows "dh_Postgres d = serviceDisconnected"
proof -
  let ?H = "H\<lparr>he_arrival := \<lambda>n xs. xs\<rparr>"
  obtain xs w1 where p: "probe_services ?H True w = (xs, w1)" by fastforce
  have "runChecks ?H True w = (d, w')" using assms health_order_irrelevant by metis
  then have "dh_Postgres d = services_map xs ''postgres''"
    using p by (auto simp: runChecks_def Let_def split: prod.splits)
  then show ?thesis using gone_probes [OF p] by (simp add: services_map_def)
qed

theorem gone_client_fails_all:
  assumes "arrival_ok H" "\<not> fresh_cache H w" "PublicHealthCheck H True w = (r, w1)"
    and "health_cache w2 = health_cache w1" "fresh_cache H w2"
  shows "fst (PublicHealthCheck H False w2) = RespondJSON 503 \<lparr>ph_Status = statusUnhealthy, ph_Version = he_version H\<rparr>"
proof -
  obtain d w3 where d: "runChecks H True (tick w) = (d, w3)"
      "getOrRefreshHealth H True w = (d, (tick w3)\<lparr>health_cache := Some (d, now w3)\<rparr>)"
    using refresh_stale [OF assms(2)] by blast
  then have "w1 = (tick w3)\<lparr>health_cache := Some (d, now w3)\<rparr>"
    using assms(3) by (simp add: PublicHealthCheck_def Let_def)
  then have c: "health_cache w2 = Some (d, now w3)" using assms(4) by simp
  with refresh_cached [OF assms(5) c] gone_checks [OF assms(1) d(1)] show ?thesis
    by (simp add: PublicHealthCheck_def Let_def httpStatusForHealth_def health_words)
qed

section \<open>A concrete server\<close>

definition sample_health_env :: health_env where
  \<comment> \<open>everything is up; the answers arrive in reverse\<close>
  "sample_health_env =
     \<lparr>he_bucket_exists = (\<lambda>n. True), he_http_status = (\<lambda>n url. 200), he_evidence_count = None, he_backup = True,
      he_format = (\<lambda>l t. itoa t), he_arrival = (\<lambda>n. rev), he_searchURL = ''http://search'', he_keycloakURL = ''http://kc'',
      he_keycloakRealm = ''vk'', he_cacheTTL = defaultCacheTTL, he_version = ''1'', he_startTime = 0\<rparr>"

definition sample_health_db :: health_db where
  "sample_health_db =
     \<lparr>w_tick = 0, w_fault = (\<lambda>n. None), w_now = (\<lambda>n. 1000000000 * int n), w_uuid = (\<lambda>n. of_nat n),
      custody_log = [], cases_table = [], case_roles = [], evidence_items = [], evidence_counter = (\<lambda>k. 0), disclosures = [],
      integrity_warnings = [], session_locks = [], pool_conn = (\<lambda>n. n), objects = Map.empty, search_docs = [], thumb_jobs = [],
      backup_log = [], backup_files = Map.empty, consecutiveFailures = 0, backup_alerts = [], health_cache = None\<rparr>"

lemma sample_arrival [simp]: "arrival_ok sample_health_env"
  by (simp add: arrival_ok_def sample_health_env_def)

lemma sample_health_cache [simp]: "health_cache sample_health_db = None"
  by (simp add: sample_health_db_def)

theorem health_order_irrelevant_witness:
  "runChecks sample_health_env False sample_health_db =
   runChecks (sample_health_env\<lparr>he_arrival := \<lambda>n xs. xs\<rparr>) False sample_health_db"
  by (rule health_order_irrelevant) simp

theorem health_endpoints_agree_witness:
  "resp_status (fst (PublicHealthCheck sample_health_env False sample_health_db)) =
   resp_status (fst (handleDetailedHealth sample_health_env False sample_health_db))"
  using health_endpoints_agree [OF sample_arrival sample_health_cache rtranclp.rtrancl_refl] by blast

text \<open>One client goes away, another asks right after.\<close>

definition sample_gone_db :: health_db where
  "sample_gone_db = snd (PublicHealthCheck sample_health_env True sample_health_db)"

lemma sample_gone_fresh: "fresh_cache sample_health_env sample_gone_db"
proof -
  have st: "\<not> fresh_cache sample_health_env sample_health_db" by (simp add: fresh_cache_def)
  obtain d w3 where r: "runChecks sample_health_env True (tick sample_health_db) = (d, w3)"
      "getOrRefreshHealth sample_health_env True sample_health_db = (d, (tick w3)\<lparr>health_cache := Some (d, now w3)\<rparr>)"
    using refresh_stale [OF st] by blast
  have "w_now w3 = w_now sample_health_db"
    using r(1) by (auto simp: runChecks_def probe_services_def checkPostgres_def checkMinio_def checkMeilisearch_def
        checkKeycloak_def checkURL_def health_call_def count_evidence_def last_backup_def Let_def sample_health_env_def)
  then have n: "now ((tick w3)\<lparr>health_cache := c\<rparr>) - now w3 = 1000000000" for c
    by (simp add: now_def sample_health_db_def)
  have g: "sample_gone_db = (tick w3)\<lparr>health_cache := Some (d, now w3)\<rparr>"
    using r(2) by (simp add: sample_gone_db_def PublicHealthCheck_def Let_def)
  have "health_cache sample_gone_db = Some (d, now w3)" unfolding g by simp
  moreover have "now sample_gone_db - now w3 < he_cacheTTL sample_health_env"
    unfolding g n by (simp add: sample_health_env_def defaultCacheTTL_def)
  ultimately show ?thesis unfolding fresh_cache_def by blast
qed

theorem gone_client_fails_all_witness:
  "fst (PublicHealthCheck sample_health_env False sample_gone_db) = RespondJSON 503 \<lparr>ph_Status = ''unhealthy'', ph_Version = ''1''\<rparr>"
proof -
  have "fst (PublicHealthCheck sample_health_env False sample_gone_db) =
      RespondJSON 503 \<lparr>ph_Status = statusUnhealthy, ph_Version = he_version sample_health_env\<rparr>"
    by (rule gone_client_fails_all [OF sample_arrival _ _ refl sample_gone_fresh, where w = sample_health_db
          and r = "fst (PublicHealthCheck sample_health_env True sample_health_db)", folded sample_gone_db_def])
      (simp_all add: fresh_cache_def sample_gone_db_def)
  then show ?thesis by (simp add: statusUnhealthy_def sample_health_env_def)
qed

theorem health_cache_used_witness:
  "\<exists>d t. health_cache sample_gone_db = Some (d, t) \<and>
     getOrRefreshHealth sample_health_env False sample_gone_db =
       (d\<lparr>dh_UptimeSeconds := uptime sample_health_env (now (tick sample_gone_db))\<rparr>, tick (tick sample_gone_db))"
proof -
  obtain d t where c: "health_cache sample_gone_db = Some (d, t)" "now sample_gone_db - t < he_cacheTTL sample_health_env"
    using sample_gone_fresh by (auto simp: fresh_cache_def)
  then show ?thesis using health_cache_used [OF c] by blast
qed

end
