(* ===== verification/App_Config.thy ===== *)
theory App_Config
  imports Go_Conv
begin

text \<open>
  \<open>internal/config/config.go\<close>: reading the configuration from the environment. \<open>LoadFromEnv\<close> collects
  every problem before it fails; a configuration it returns is well formed, which is what the rest of
  the program takes for granted of its ports, addresses, limits and keys.
\<close>

section \<open>The configuration\<close>

record Config =
  cg_DatabaseURL :: string
  cg_MinIOEndpoint :: string
  cg_MinIOAccessKey :: string
  cg_MinIOSecretKey :: string
  cg_MinIOBucket :: string
  cg_MinIOUseSSL :: bool
  cg_KeycloakURL :: string
  cg_KeycloakRealm :: string
  cg_KeycloakClientID :: string
  cg_TSAURL :: string
  cg_TSAEnabled :: bool
  cg_MeilisearchURL :: string
  cg_MeilisearchAPIKey :: string
  cg_SMTPHost :: string
  cg_SMTPPort :: int
  cg_SMTPUsername :: string
  cg_SMTPPassword :: string
  cg_SMTPFrom :: string
  cg_AppURL :: string
  cg_AppEnv :: string
  cg_LogLevel :: int
  cg_MaxUploadSize :: int
  cg_ServerPort :: int
  cg_WitnessEncryptionKey :: string
  cg_MasterEncryptionKey :: string
  cg_MaxConcurrentSessions :: int
  cg_CaseReferenceRegex :: string
  cg_CORSOrigins :: "string list"
  cg_BackupDestination :: string
  cg_BackupEncKey :: string
  cg_ArchiveStorageBucket :: string
  cg_ArchiveStoragePath :: string
  cg_AdminUserIDs :: "string list"
  cg_Warnings :: "string list"

text \<open>
  The library: \<open>url.Parse\<close> with the scheme and host of the result, whether \<open>regexp.Compile\<close> takes a
  text, \<open>slog.Level.UnmarshalText\<close> and \<open>slog.Level.String\<close>, and \<open>json.Marshal\<close> (its error is dropped).
\<close>

record config_lib =
  cl_url :: "string \<Rightarrow> (string \<times> string) option"
  cl_regex :: "string \<Rightarrow> bool"
  cl_level :: "string \<Rightarrow> int option"
  cl_level_text :: "int \<Rightarrow> string"
  cl_json :: "json \<Rightarrow> string"

definition DefaultMaxUploadSize :: int where "DefaultMaxUploadSize = 10 * 1024 * 1024 * 1024"
definition DefaultCaseReferenceRegex :: string where
  "DefaultCaseReferenceRegex = ''^[A-Za-z0-9][A-Za-z0-9/._-]{1,98}[A-Za-z0-9]$''"

section \<open>Checks\<close>

definition validateDatabaseURL :: "config_lib \<Rightarrow> string \<Rightarrow> string option" where
  \<comment> \<open>the text of the error\<close>
  "validateDatabaseURL L v =
     (if \<not> prefix ''postgres://'' v \<and> \<not> prefix ''postgresql://'' v then
        Some ''must start with postgres:// or postgresql://''
      else case cl_url L v of
          None \<Rightarrow> Some ''must be a valid URL''
        | Some (scheme, host) \<Rightarrow> if host = [] then Some ''must include a host'' else None)"

definition validateURL :: "config_lib \<Rightarrow> string \<Rightarrow> string option" where
  "validateURL L v =
     (case cl_url L v of
        None \<Rightarrow> Some ''must be a valid URL''
      | Some (scheme, host) \<Rightarrow> if scheme = [] \<or> host = [] then Some ''must include scheme and host'' else None)"

definition parseCSV :: "string \<Rightarrow> string list" where
  "parseCSV v =
     (if trim_space v = [] then []
      else filter (\<lambda>t. t \<noteq> []) (map trim_space (split_byte (CHR '','') v)))"

definition config_redact :: "string \<Rightarrow> string" where
  "config_redact v = (if v = [] then [] else ''[REDACTED]'')"

section \<open>Loading\<close>

text \<open>What a variable contributes: its value, and the errors that are appended for it.\<close>

definition required :: "string \<Rightarrow> string \<Rightarrow> string list" where
  "required name v = (if v = [] then [name @ '' is required''] else [])"

definition checked :: "string \<Rightarrow> (string \<Rightarrow> string option) \<Rightarrow> string \<Rightarrow> string list" where
  \<comment> \<open>\<open>else if err := check(v); err != nil\<close>\<close>
  "checked name check v = (case check v of None \<Rightarrow> [] | Some e \<Rightarrow> [name @ '' '' @ e])"

definition required_checked :: "string \<Rightarrow> (string \<Rightarrow> string option) \<Rightarrow> string \<Rightarrow> string list" where
  "required_checked name check v = (if v = [] then [name @ '' is required''] else checked name check v)"

definition optional :: "'v \<Rightarrow> (string \<Rightarrow> string + 'v) \<Rightarrow> string \<Rightarrow> 'v \<times> string list" where
  \<comment> \<open>\<open>if value := strings.TrimSpace(os.Getenv(name)); value != "\"\"" { ... }\<close> over a default\<close>
  "optional d parse v =
     (if v = [] then (d, []) else (case parse v of Inl e \<Rightarrow> (d, [e]) | Inr x \<Rightarrow> (x, [])))"

definition parse_bool :: "string \<Rightarrow> string \<Rightarrow> string + bool" where
  "parse_bool name v = (case ParseBool v of None \<Rightarrow> Inl (name @ '' must be a boolean'') | Some b \<Rightarrow> Inr b)"

definition parse_positive :: "string \<Rightarrow> string \<Rightarrow> string + int" where
  "parse_positive name v =
     (case Atoi v of
        None \<Rightarrow> Inl (name @ '' must be an integer'')
      | Some n \<Rightarrow> if n \<le> 0 then Inl (name @ '' must be greater than zero'') else Inr n)"

definition parse_port :: "string \<Rightarrow> string + int" where
  "parse_port v =
     (case Atoi v of
        None \<Rightarrow> Inl ''SERVER_PORT must be an integer''
      | Some n \<Rightarrow> if n \<le> 0 \<or> n > 65535 then Inl ''SERVER_PORT must be between 1 and 65535'' else Inr n)"

definition parse_upload_size :: "string \<Rightarrow> string + int" where
  \<comment> \<open>\<open>strconv.ParseInt(value, 10, 64)\<close> takes what \<open>Atoi\<close> takes, where \<open>int\<close> has 64 bits\<close>
  "parse_upload_size v =
     (case Atoi v of
        None \<Rightarrow> Inl ''MAX_UPLOAD_SIZE must be a positive integer''
      | Some n \<Rightarrow> if n \<le> 0 then Inl ''MAX_UPLOAD_SIZE must be a positive integer'' else Inr n)"

definition parse_level :: "config_lib \<Rightarrow> string \<Rightarrow> string + int" where
  "parse_level L v =
     (case cl_level L v of None \<Rightarrow> Inl ''LOG_LEVEL must be one of debug|info|warn|error'' | Some l \<Rightarrow> Inr l)"

definition parse_regex :: "config_lib \<Rightarrow> string \<Rightarrow> string + string" where
  "parse_regex L v =
     (if cl_regex L v then Inr v else Inl ''CASE_REFERENCE_REGEX must be a valid regular expression'')"

definition smtp_warnings :: "string \<Rightarrow> string \<Rightarrow> string \<Rightarrow> string \<Rightarrow> string list" where
  "smtp_warnings host user password from =
     (let smtpConfigured = length (filter (\<lambda>v. v \<noteq> []) [host, user, password, from]) in
      if smtpConfigured > 0 \<and> smtpConfigured < 4 then
        [''SMTP configuration is partial; email delivery remains disabled until all SMTP_* fields are set'']
      else [])"

definition app_env_errors :: "string \<Rightarrow> string list" where
  "app_env_errors v =
     (if v = [] then [''APP_ENV is required'']
      else if v \<in> set [''development'', ''staging'', ''production''] then []
      else [''APP_ENV must be one of development|staging|production''])"

definition load_config :: "config_lib \<Rightarrow> (string \<Rightarrow> string) \<Rightarrow> Config" where
  \<comment> \<open>the values \<open>LoadFromEnv\<close> assigns; \<open>getenv\<close> is \<open>os.Getenv\<close>\<close>
  "load_config L getenv =
     (let t = (\<lambda>name. trim_space (getenv name)) in
      \<lparr>cg_DatabaseURL = t ''DATABASE_URL'', cg_MinIOEndpoint = t ''MINIO_ENDPOINT'',
       cg_MinIOAccessKey = getenv ''MINIO_ACCESS_KEY'', cg_MinIOSecretKey = getenv ''MINIO_SECRET_KEY'',
       cg_MinIOBucket = t ''MINIO_BUCKET'',
       cg_MinIOUseSSL = fst (optional True (parse_bool ''MINIO_USE_SSL'') (t ''MINIO_USE_SSL'')),
       cg_KeycloakURL = t ''KEYCLOAK_URL'', cg_KeycloakRealm = t ''KEYCLOAK_REALM'',
       cg_KeycloakClientID = t ''KEYCLOAK_CLIENT_ID'', cg_TSAURL = t ''TSA_URL'',
       cg_TSAEnabled = fst (optional True (parse_bool ''TSA_ENABLED'') (t ''TSA_ENABLED'')),
       cg_MeilisearchURL = t ''MEILISEARCH_URL'', cg_MeilisearchAPIKey = getenv ''MEILISEARCH_API_KEY'',
       cg_SMTPHost = t ''SMTP_HOST'',
       cg_SMTPPort = fst (optional 587 (parse_positive ''SMTP_PORT'') (t ''SMTP_PORT'')),
       cg_SMTPUsername = t ''SMTP_USERNAME'', cg_SMTPPassword = getenv ''SMTP_PASSWORD'', cg_SMTPFrom = t ''SMTP_FROM'',
       cg_AppURL = t ''APP_URL'', cg_AppEnv = t ''APP_ENV'',
       cg_LogLevel = fst (optional 0 (parse_level L) (t ''LOG_LEVEL'')),
       cg_MaxUploadSize = fst (optional DefaultMaxUploadSize parse_upload_size (t ''MAX_UPLOAD_SIZE'')),
       cg_ServerPort = fst (optional 8080 parse_port (t ''SERVER_PORT'')),
       cg_WitnessEncryptionKey = getenv ''WITNESS_ENCRYPTION_KEY'', cg_MasterEncryptionKey = getenv ''MASTER_ENCRYPTION_KEY'',
       cg_MaxConcurrentSessions = fst (optional 3 (parse_positive ''MAX_CONCURRENT_SESSIONS'') (t ''MAX_CONCURRENT_SESSIONS'')),
       cg_CaseReferenceRegex = fst (optional DefaultCaseReferenceRegex (parse_regex L) (t ''CASE_REFERENCE_REGEX'')),
       cg_CORSOrigins = parseCSV (getenv ''CORS_ORIGINS''), cg_BackupDestination = t ''BACKUP_DESTINATION'',
       cg_BackupEncKey = getenv ''BACKUP_ENC_KEY'', cg_ArchiveStorageBucket = t ''ARCHIVE_STORAGE_BUCKET'',
       cg_ArchiveStoragePath = t ''ARCHIVE_STORAGE_PATH'', cg_AdminUserIDs = parseCSV (getenv ''ADMIN_USER_IDS''),
       cg_Warnings = smtp_warnings (t ''SMTP_HOST'') (t ''SMTP_USERNAME'') (getenv ''SMTP_PASSWORD'') (t ''SMTP_FROM'')\<rparr>)"

definition tsa_url_errors :: "config_lib \<Rightarrow> bool \<Rightarrow> string \<Rightarrow> string list" where
  "tsa_url_errors L enabled url =
     (if enabled then
        (if url = [] then [''TSA_URL is required when TSA_ENABLED=true''] else checked ''TSA_URL'' (validateURL L) url)
      else if url \<noteq> [] then checked ''TSA_URL'' (validateURL L) url else [])"

definition key_errors :: "string \<Rightarrow> string \<Rightarrow> string \<Rightarrow> string list" where
  "key_errors appEnv witness master =
     (if appEnv = ''production'' then
        (if witness = [] then [''WITNESS_ENCRYPTION_KEY is required in production''] else []) @
        (if master = [] then [''MASTER_ENCRYPTION_KEY is required in production''] else [])
      else [])"

definition config_errors :: "config_lib \<Rightarrow> (string \<Rightarrow> string) \<Rightarrow> string list" where
  \<comment> \<open>the errors in the order of the checks\<close>
  "config_errors L getenv =
     (let t = (\<lambda>name. trim_space (getenv name)); c = load_config L getenv in
      required_checked ''DATABASE_URL'' (validateDatabaseURL L) (cg_DatabaseURL c) @
      required ''MINIO_ENDPOINT'' (cg_MinIOEndpoint c) @
      required ''MINIO_ACCESS_KEY'' (cg_MinIOAccessKey c) @
      required ''MINIO_SECRET_KEY'' (cg_MinIOSecretKey c) @
      required ''MINIO_BUCKET'' (cg_MinIOBucket c) @
      snd (optional True (parse_bool ''MINIO_USE_SSL'') (t ''MINIO_USE_SSL'')) @
      required_checked ''KEYCLOAK_URL'' (validateURL L) (cg_KeycloakURL c) @
      required ''KEYCLOAK_REALM'' (cg_KeycloakRealm c) @
      required ''KEYCLOAK_CLIENT_ID'' (cg_KeycloakClientID c) @
      snd (optional True (parse_bool ''TSA_ENABLED'') (t ''TSA_ENABLED'')) @
      tsa_url_errors L (cg_TSAEnabled c) (cg_TSAURL c) @
      required_checked ''MEILISEARCH_URL'' (validateURL L) (cg_MeilisearchURL c) @
      required ''MEILISEARCH_API_KEY'' (cg_MeilisearchAPIKey c) @
      snd (optional 587 (parse_positive ''SMTP_PORT'') (t ''SMTP_PORT'')) @
      required_checked ''APP_URL'' (validateURL L) (cg_AppURL c) @
      app_env_errors (cg_AppEnv c) @
      snd (optional 0 (parse_level L) (t ''LOG_LEVEL'')) @
      snd (optional DefaultMaxUploadSize parse_upload_size (t ''MAX_UPLOAD_SIZE'')) @
      snd (optional 8080 parse_port (t ''SERVER_PORT'')) @
      key_errors (cg_AppEnv c) (cg_WitnessEncryptionKey c) (cg_MasterEncryptionKey c) @
      snd (optional 3 (parse_positive ''MAX_CONCURRENT_SESSIONS'') (t ''MAX_CONCURRENT_SESSIONS'')) @
      snd (optional DefaultCaseReferenceRegex (parse_regex L) (t ''CASE_REFERENCE_REGEX'')) @
      (if cg_BackupDestination c \<noteq> [] \<and> cg_BackupEncKey c = [] then
         [''BACKUP_ENC_KEY is required when BACKUP_DESTINATION is set''] else []))"

definition LoadFromEnv :: "config_lib \<Rightarrow> (string \<Rightarrow> string) \<Rightarrow> go_error + Config" where
  "LoadFromEnv L getenv =
     (let errs = config_errors L getenv in
      if errs \<noteq> [] then Inl (ErrNew (''configuration validation failed: '' @ join ''; '' errs))
      else Inr (load_config L getenv))"

section \<open>Printing\<close>

definition json_strings :: "string list \<Rightarrow> json" where
  "json_strings ss = JArray (map JString ss)"

definition config_String :: "config_lib \<Rightarrow> Config \<Rightarrow> string" where
  \<comment> \<open>\<open>json.Marshal\<close> sorts the keys of the map\<close>
  "config_String L c =
     cl_json L (JObject
       [(''AdminUserIDs'', json_strings (cg_AdminUserIDs c)), (''AppEnv'', JString (cg_AppEnv c)),
        (''AppURL'', JString (cg_AppURL c)), (''ArchiveStorageBucket'', JString (cg_ArchiveStorageBucket c)),
        (''ArchiveStoragePath'', JString (cg_ArchiveStoragePath c)), (''BackupDestination'', JString (cg_BackupDestination c)),
        (''BackupEncKey'', JString (config_redact (cg_BackupEncKey c))), (''CORSOrigins'', json_strings (cg_CORSOrigins c)),
        (''CaseReferenceRegex'', JString (cg_CaseReferenceRegex c)),
        (''DatabaseURL'', JString (config_redact (cg_DatabaseURL c))),
        (''KeycloakClientID'', JString (cg_KeycloakClientID c)), (''KeycloakRealm'', JString (cg_KeycloakRealm c)),
        (''KeycloakURL'', JString (cg_KeycloakURL c)), (''LogLevel'', JString (cl_level_text L (cg_LogLevel c))),
        (''MasterEncryptionKey'', JString (config_redact (cg_MasterEncryptionKey c))),
        (''MaxConcurrentSessions'', JNumber (cg_MaxConcurrentSessions c) 0), (''MaxUploadSize'', JNumber (cg_MaxUploadSize c) 0),
        (''MeilisearchAPIKey'', JString (config_redact (cg_MeilisearchAPIKey c))),
        (''MeilisearchURL'', JString (cg_MeilisearchURL c)), (''MinIOAccessKey'', JString (config_redact (cg_MinIOAccessKey c))),
        (''MinIOBucket'', JString (cg_MinIOBucket c)), (''MinIOEndpoint'', JString (cg_MinIOEndpoint c)),
        (''MinIOSecretKey'', JString (config_redact (cg_MinIOSecretKey c))), (''MinIOUseSSL'', JBool (cg_MinIOUseSSL c)),
        (''SMTPFrom'', JString (cg_SMTPFrom c)), (''SMTPHost'', JString (cg_SMTPHost c)),
        (''SMTPPassword'', JString (config_redact (cg_SMTPPassword c))), (''SMTPPort'', JNumber (cg_SMTPPort c) 0),
        (''SMTPUsername'', JString (cg_SMTPUsername c)), (''ServerPort'', JNumber (cg_ServerPort c) 0),
        (''TSAEnabled'', JBool (cg_TSAEnabled c)), (''TSAURL'', JString (cg_TSAURL c)),
        (''WitnessEncryptionKey'', JString (config_redact (cg_WitnessEncryptionKey c)))])"

section \<open>What a loaded configuration is\<close>

definition url_ok :: "config_lib \<Rightarrow> string \<Rightarrow> bool" where
  "url_ok L v \<longleftrightarrow> (case cl_url L v of None \<Rightarrow> False | Some (scheme, host) \<Rightarrow> scheme \<noteq> [] \<and> host \<noteq> [])"

definition database_ok :: "config_lib \<Rightarrow> string \<Rightarrow> bool" where
  "database_ok L v \<longleftrightarrow> (prefix ''postgres://'' v \<or> prefix ''postgresql://'' v) \<and>
     (case cl_url L v of None \<Rightarrow> False | Some (scheme, host) \<Rightarrow> host \<noteq> [])"

definition config_wf :: "config_lib \<Rightarrow> Config \<Rightarrow> bool" where
  "config_wf L c \<longleftrightarrow>
     database_ok L (cg_DatabaseURL c) \<and>
     cg_MinIOEndpoint c \<noteq> [] \<and> cg_MinIOAccessKey c \<noteq> [] \<and> cg_MinIOSecretKey c \<noteq> [] \<and> cg_MinIOBucket c \<noteq> [] \<and>
     cg_KeycloakRealm c \<noteq> [] \<and> cg_KeycloakClientID c \<noteq> [] \<and> cg_MeilisearchAPIKey c \<noteq> [] \<and>
     url_ok L (cg_KeycloakURL c) \<and> url_ok L (cg_MeilisearchURL c) \<and> url_ok L (cg_AppURL c) \<and>
     (cg_TSAEnabled c \<or> cg_TSAURL c \<noteq> [] \<longrightarrow> url_ok L (cg_TSAURL c)) \<and>
     0 < cg_SMTPPort c \<and> 0 < cg_ServerPort c \<and> cg_ServerPort c \<le> 65535 \<and>
     0 < cg_MaxUploadSize c \<and> cg_MaxUploadSize c < 2 ^ 63 \<and> 0 < cg_MaxConcurrentSessions c \<and>
     cg_AppEnv c \<in> set [''development'', ''staging'', ''production''] \<and>
     (cg_AppEnv c = ''production'' \<longrightarrow> cg_WitnessEncryptionKey c \<noteq> [] \<and> cg_MasterEncryptionKey c \<noteq> []) \<and>
     (cg_CaseReferenceRegex c = DefaultCaseReferenceRegex \<or> cl_regex L (cg_CaseReferenceRegex c)) \<and>
     (cg_BackupDestination c \<noteq> [] \<longrightarrow> cg_BackupEncKey c \<noteq> []) \<and>
     (\<forall>v \<in> set (cg_CORSOrigins c @ cg_AdminUserIDs c). v \<noteq> [] \<and> trim_space v = v)"

lemma required_nil: "required name v = [] \<longleftrightarrow> v \<noteq> []"
  by (simp add: required_def)

lemma required_checked_nil: "required_checked name check v = [] \<longleftrightarrow> v \<noteq> [] \<and> check v = None"
  by (simp add: required_checked_def checked_def split: option.splits)

lemma validate_url_ok: "validateURL L v = None \<longleftrightarrow> url_ok L v"
  by (auto simp: validateURL_def url_ok_def split: option.splits)

lemma validate_database_ok: "validateDatabaseURL L v = None \<longleftrightarrow> database_ok L v"
  by (auto simp: validateDatabaseURL_def database_ok_def split: option.splits)

lemma tsa_url_nil: "tsa_url_errors L b v = [] \<longleftrightarrow> (b \<longrightarrow> v \<noteq> []) \<and> (v \<noteq> [] \<longrightarrow> url_ok L v)"
  by (cases "validateURL L v") (auto simp: tsa_url_errors_def checked_def validate_url_ok [symmetric])

lemma optional_range:
  "snd (optional d (parse_positive name) v) = [] \<Longrightarrow> 0 < d \<Longrightarrow> 0 < fst (optional d (parse_positive name) v)"
  "snd (optional 8080 parse_port v) = [] \<Longrightarrow>
     0 < fst (optional 8080 parse_port v) \<and> fst (optional 8080 parse_port v) \<le> 65535"
  "snd (optional DefaultMaxUploadSize parse_upload_size v) = [] \<Longrightarrow>
     0 < fst (optional DefaultMaxUploadSize parse_upload_size v) \<and>
     fst (optional DefaultMaxUploadSize parse_upload_size v) < 2 ^ 63"
  "snd (optional DefaultCaseReferenceRegex (parse_regex L) v) = [] \<Longrightarrow>
     fst (optional DefaultCaseReferenceRegex (parse_regex L) v) = DefaultCaseReferenceRegex \<or>
     cl_regex L (fst (optional DefaultCaseReferenceRegex (parse_regex L) v))"
proof -
  show "snd (optional DefaultMaxUploadSize parse_upload_size v) = [] \<Longrightarrow>
     0 < fst (optional DefaultMaxUploadSize parse_upload_size v) \<and>
     fst (optional DefaultMaxUploadSize parse_upload_size v) < 2 ^ 63"
    using Atoi_range [of v]
    by (cases "Atoi v") (auto simp: optional_def parse_upload_size_def DefaultMaxUploadSize_def split: if_splits)
qed (auto simp: optional_def parse_positive_def parse_port_def parse_regex_def split: option.splits if_splits)

lemma parseCSV_trimmed: "v \<in> set (parseCSV s) \<Longrightarrow> v \<noteq> [] \<and> trim_space v = v"
  by (auto simp: parseCSV_def split: if_splits)

lemma no_errors:
  assumes "config_errors L getenv = []"
  shows "config_wf L (load_config L getenv)"
proof -
  let ?c = "load_config L getenv"
  note n = assms [unfolded config_errors_def Let_def append_is_Nil_conv required_nil required_checked_nil
      validate_url_ok validate_database_ok tsa_url_nil]
  have "0 < cg_SMTPPort ?c" "0 < cg_MaxConcurrentSessions ?c" "0 < cg_ServerPort ?c \<and> cg_ServerPort ?c \<le> 65535"
      "0 < cg_MaxUploadSize ?c \<and> cg_MaxUploadSize ?c < 2 ^ 63"
      "cg_CaseReferenceRegex ?c = DefaultCaseReferenceRegex \<or> cl_regex L (cg_CaseReferenceRegex ?c)"
    using n optional_range(3) [of "trim_space (getenv ''MAX_UPLOAD_SIZE'')"]
    by (simp_all add: load_config_def Let_def optional_range)
  moreover have "v \<noteq> [] \<and> trim_space v = v" if "v \<in> set (cg_CORSOrigins ?c @ cg_AdminUserIDs ?c)" for v
    using that parseCSV_trimmed by (auto simp: load_config_def Let_def)
  moreover have "cg_AppEnv ?c \<in> set [''development'', ''staging'', ''production'']"
    using n by (auto simp: app_env_errors_def split: if_splits)
  moreover have "cg_AppEnv ?c = ''production'' \<longrightarrow> cg_WitnessEncryptionKey ?c \<noteq> [] \<and> cg_MasterEncryptionKey ?c \<noteq> []"
    using n by (auto simp: key_errors_def split: if_splits)
  ultimately show ?thesis using n unfolding config_wf_def by (auto split: if_splits)
qed


section \<open>What is reported\<close>

lemma sublist_after: "sublist x ys \<Longrightarrow> sublist x (ps @ ys)"
  unfolding sublist_def by (metis append.assoc)

lemma join_mem: "x \<in> set xs \<Longrightarrow> sublist x (join sep xs)"
proof (induction sep xs rule: join.induct)
  case (3 sep a b xs)
  show ?case
  proof (cases "x = a")
    case True
    then show ?thesis by simp
  next
    case False
    with 3 have "sublist x (join sep (b # xs))" by simp
    then have "sublist x ((a @ sep) @ join sep (b # xs))" by (rule sublist_after)
    then show ?thesis by simp
  qed
qed simp_all

lemma load_reports:
  assumes "e \<in> set (config_errors L getenv)"
  shows "\<exists>msg. LoadFromEnv L getenv = Inl (ErrNew msg) \<and> contains msg e"
proof -
  have "config_errors L getenv \<noteq> []" using assms by auto
  moreover have "contains (''configuration validation failed: '' @ join ''; '' (config_errors L getenv)) e"
    unfolding contains_def by (rule sublist_after [OF join_mem [OF assms]])
  ultimately show ?thesis by (simp add: LoadFromEnv_def Let_def)
qed

definition plain_required :: "string list" where
  "plain_required = [''MINIO_ENDPOINT'', ''MINIO_BUCKET'', ''KEYCLOAK_REALM'', ''KEYCLOAK_CLIENT_ID'']"

definition url_required :: "string list" where
  "url_required = [''DATABASE_URL'', ''KEYCLOAK_URL'', ''MEILISEARCH_URL'', ''APP_URL'']"

definition trimmed_required :: "string list" where
  "trimmed_required = plain_required @ url_required @ [''APP_ENV'']"

definition raw_required :: "string list" where
  "raw_required = [''MINIO_ACCESS_KEY'', ''MINIO_SECRET_KEY'', ''MEILISEARCH_API_KEY'']"

lemma required_reported:
  "\<forall>name \<in> set plain_required. set (required name (trim_space (getenv name))) \<subseteq> set (config_errors L getenv)"
  "\<forall>name \<in> set raw_required. set (required name (getenv name)) \<subseteq> set (config_errors L getenv)"
  "\<forall>name \<in> set url_required. \<exists>check. set (required_checked name check (trim_space (getenv name))) \<subseteq> set (config_errors L getenv)"
  "set (app_env_errors (trim_space (getenv ''APP_ENV''))) \<subseteq> set (config_errors L getenv)"
  unfolding plain_required_def raw_required_def url_required_def config_errors_def load_config_def Let_def Config.simps set_append list.set
  by ((intro ballI, elim insertE emptyE; hypsubst; blast)+, blast)

lemma missing_reported:
  assumes "name \<in> set trimmed_required \<and> trim_space (getenv name) = [] \<or> name \<in> set raw_required \<and> getenv name = []"
  shows "name @ '' is required'' \<in> set (config_errors L getenv)"
proof -
  have m: "name @ '' is required'' \<in> set (required name [])" "name @ '' is required'' \<in> set (required_checked name check [])"
      "name = ''APP_ENV'' \<Longrightarrow> name @ '' is required'' \<in> set (app_env_errors [])" for check
    by (simp_all add: required_def required_checked_def app_env_errors_def)
  note r = required_reported [where L = L and getenv = getenv]
  consider (plain) "name \<in> set plain_required" "trim_space (getenv name) = []"
    | (url) "name \<in> set url_required" "trim_space (getenv name) = []"
    | (env) "name = ''APP_ENV''" "trim_space (getenv name) = []" | (raw) "name \<in> set raw_required" "getenv name = []"
    using assms unfolding trimmed_required_def set_append by fastforce
  then show ?thesis
  proof cases
    case plain
    with r(1) have "set (required name []) \<subseteq> set (config_errors L getenv)" by fastforce
    with m(1) show ?thesis by blast
  next
    case url
    with r(3) obtain check where "set (required_checked name check []) \<subseteq> set (config_errors L getenv)" by fastforce
    with m(2) show ?thesis by blast
  next
    case env
    with m(3) r(4) show ?thesis by auto
  next
    case raw
    with r(2) have "set (required name []) \<subseteq> set (config_errors L getenv)" by fastforce
    with m(1) show ?thesis by blast
  qed
qed

text \<open>
  Loading fails exactly when a check fails, and the one error that is returned names every
  required variable that is missing: they are all reported at once.
\<close>

theorem load_names_all_missing:
  "(\<exists>c. LoadFromEnv L getenv = Inr c) \<noteq> (\<exists>msg. LoadFromEnv L getenv = Inl (ErrNew msg)) \<and>
   (LoadFromEnv L getenv = Inr c \<longleftrightarrow> config_errors L getenv = [] \<and> c = load_config L getenv) \<and>
   (\<forall>name. name \<in> set trimmed_required \<and> trim_space (getenv name) = [] \<or> name \<in> set raw_required \<and> getenv name = [] \<longrightarrow>
      (\<exists>msg. LoadFromEnv L getenv = Inl (ErrNew msg) \<and> contains msg (name @ '' is required'')))"
  using load_reports missing_reported by (auto simp: LoadFromEnv_def Let_def)

section \<open>What is printed\<close>

definition strip_secrets :: "Config \<Rightarrow> Config" where
  "strip_secrets c =
     c\<lparr>cg_DatabaseURL := [], cg_MinIOAccessKey := [], cg_MinIOSecretKey := [], cg_MeilisearchAPIKey := [],
       cg_SMTPPassword := [], cg_WitnessEncryptionKey := [], cg_MasterEncryptionKey := [], cg_BackupEncKey := []\<rparr>"

definition set_secrets :: "Config \<Rightarrow> bool list" where
  "set_secrets c =
     map (\<lambda>s. s \<noteq> []) [cg_DatabaseURL c, cg_MinIOAccessKey c, cg_MinIOSecretKey c, cg_MeilisearchAPIKey c,
       cg_SMTPPassword c, cg_WitnessEncryptionKey c, cg_MasterEncryptionKey c, cg_BackupEncKey c]"

definition same_config_but_secrets :: "Config \<Rightarrow> Config \<Rightarrow> bool" where
  \<comment> \<open>the same settings; of the secrets only whether they are set\<close>
  "same_config_but_secrets c d \<longleftrightarrow> strip_secrets c = strip_secrets d \<and> set_secrets c = set_secrets d"

lemma config_redact_eq: "(v = [] \<longleftrightarrow> v' = []) \<Longrightarrow> config_redact v = config_redact v'"
  by (simp add: config_redact_def)

text \<open>
  The printed configuration tells nothing of the secrets but whether they are set: two
  configurations that agree otherwise print the same.
\<close>

theorem printed_config_hides_secrets:
  assumes "same_config_but_secrets c d"
  shows "config_String L d = config_String L c"
proof -
  have e: "config_redact (cg_DatabaseURL d) = config_redact (cg_DatabaseURL c)"
    "config_redact (cg_MinIOAccessKey d) = config_redact (cg_MinIOAccessKey c)"
    "config_redact (cg_MinIOSecretKey d) = config_redact (cg_MinIOSecretKey c)"
    "config_redact (cg_MeilisearchAPIKey d) = config_redact (cg_MeilisearchAPIKey c)"
    "config_redact (cg_SMTPPassword d) = config_redact (cg_SMTPPassword c)"
    "config_redact (cg_WitnessEncryptionKey d) = config_redact (cg_WitnessEncryptionKey c)"
    "config_redact (cg_MasterEncryptionKey d) = config_redact (cg_MasterEncryptionKey c)"
    "config_redact (cg_BackupEncKey d) = config_redact (cg_BackupEncKey c)"
    using assms by (simp_all add: same_config_but_secrets_def set_secrets_def config_redact_def)
  have "strip_secrets d = strip_secrets c" using assms by (simp add: same_config_but_secrets_def)
  with e show ?thesis unfolding config_String_def
    by (cases c; cases d) (simp add: strip_secrets_def)
qed

section \<open>Concrete environments\<close>

definition sample_config_lib :: config_lib where
  "sample_config_lib =
     \<lparr>cl_url = (\<lambda>v. Some (''https'', ''host'')), cl_regex = (\<lambda>v. True), cl_level = (\<lambda>v. Some 0), cl_level_text = (\<lambda>l. ''INFO''),
      cl_json = (\<lambda>j. case j of JObject kvs \<Rightarrow> concat (map (\<lambda>(k, v). case v of JString s \<Rightarrow> k @ s | _ \<Rightarrow> k) kvs) | _ \<Rightarrow> [])\<rparr>"

definition sample_getenv :: "string \<Rightarrow> string" where
  "sample_getenv name =
     (if name = ''DATABASE_URL'' then ''postgres://h''
      else if name = ''APP_ENV'' then ''staging''
      else if name = ''SERVER_PORT'' then ''9000''
      else if name = ''TSA_ENABLED'' then ''0''
      else if name \<in> set (trimmed_required @ raw_required) then ''h''
      else [])"

lemma sample_trims:
  "trim_space ''postgres://h'' = ''postgres://h''" "trim_space ''staging'' = ''staging''" "trim_space ''9000'' = ''9000''"
  "trim_space ''0'' = ''0''" "trim_space ''h'' = ''h''" "trim_space [] = []"
  by (simp_all add: trim_space_def trim_trailing_def trim_leading_id leading_space_def space_encodings_def)

lemma sample_parses: "Atoi ''9000'' = Some 9000" "ParseBool ''0'' = Some False"
  by code_simp+

lemma sample_getenv_sel:
  "sample_getenv ''DATABASE_URL'' = ''postgres://h''" "sample_getenv ''APP_ENV'' = ''staging''" "sample_getenv ''SERVER_PORT'' = ''9000''"
  "sample_getenv ''TSA_ENABLED'' = ''0''" "sample_getenv ''MINIO_ENDPOINT'' = ''h''" "sample_getenv ''MINIO_ACCESS_KEY'' = ''h''"
  "sample_getenv ''MINIO_SECRET_KEY'' = ''h''" "sample_getenv ''MINIO_BUCKET'' = ''h''" "sample_getenv ''KEYCLOAK_URL'' = ''h''"
  "sample_getenv ''KEYCLOAK_REALM'' = ''h''" "sample_getenv ''KEYCLOAK_CLIENT_ID'' = ''h''" "sample_getenv ''MEILISEARCH_URL'' = ''h''"
  "sample_getenv ''MEILISEARCH_API_KEY'' = ''h''" "sample_getenv ''APP_URL'' = ''h''" "sample_getenv ''MINIO_USE_SSL'' = []"
  "sample_getenv ''TSA_URL'' = []" "sample_getenv ''SMTP_PORT'' = []" "sample_getenv ''LOG_LEVEL'' = []"
  "sample_getenv ''MAX_UPLOAD_SIZE'' = []" "sample_getenv ''MAX_CONCURRENT_SESSIONS'' = []"
  "sample_getenv ''CASE_REFERENCE_REGEX'' = []" "sample_getenv ''BACKUP_DESTINATION'' = []" "sample_getenv ''SMTP_HOST'' = []"
  by (simp_all add: sample_getenv_def trimmed_required_def plain_required_def url_required_def raw_required_def)

lemma sample_config_loads: "config_errors sample_config_lib sample_getenv = []"
  by (simp add: config_errors_def load_config_def Let_def sample_getenv_sel sample_trims sample_parses required_def
      required_checked_def checked_def validateDatabaseURL_def validateURL_def sample_config_lib_def optional_def parse_bool_def
      parse_port_def tsa_url_errors_def app_env_errors_def key_errors_def)


theorem load_names_all_missing_witness:
  "\<exists>msg. LoadFromEnv sample_config_lib (\<lambda>name. []) = Inl (ErrNew msg) \<and> contains msg ''DATABASE_URL is required'' \<and>
     contains msg ''APP_ENV is required''"
proof -
  note m = load_names_all_missing [of sample_config_lib "\<lambda>name. []", THEN conjunct2, THEN conjunct2, rule_format]
  have r: "''DATABASE_URL'' \<in> set trimmed_required" "''APP_ENV'' \<in> set trimmed_required"
    by (simp_all add: trimmed_required_def url_required_def)
  obtain m1 where m1: "LoadFromEnv sample_config_lib (\<lambda>name. []) = Inl (ErrNew m1)" "contains m1 (''DATABASE_URL'' @ '' is required'')"
    using m r(1) sample_trims(6) by blast
  obtain m2 where m2: "LoadFromEnv sample_config_lib (\<lambda>name. []) = Inl (ErrNew m2)" "contains m2 (''APP_ENV'' @ '' is required'')"
    using m r(2) sample_trims(6) by blast
  from m1 m2 show ?thesis by simp
qed

theorem printed_config_hides_secrets_witness:
  "config_String sample_config_lib ((load_config sample_config_lib sample_getenv)\<lparr>cg_MinIOSecretKey := ''other''\<rparr>) =
   config_String sample_config_lib (load_config sample_config_lib sample_getenv)"
proof -
  have "cg_MinIOSecretKey (load_config sample_config_lib sample_getenv) \<noteq> []"
    by (simp add: load_config_def Let_def sample_getenv_sel)
  then have "same_config_but_secrets (load_config sample_config_lib sample_getenv)
      ((load_config sample_config_lib sample_getenv)\<lparr>cg_MinIOSecretKey := ''other''\<rparr>)"
    by (simp add: same_config_but_secrets_def strip_secrets_def set_secrets_def)
  then show ?thesis by (rule printed_config_hides_secrets)
qed

text \<open>
  With only the host of the SMTP server set, a configuration loads with the warning that no e-mail
  is delivered.
\<close>

lemma partial_smtp_loads:
  assumes "config_errors L getenv = []" "trim_space (getenv ''SMTP_HOST'') \<noteq> []" "trim_space (getenv ''SMTP_FROM'') = []"
  shows "\<exists>c. LoadFromEnv L getenv = Inr c \<and> cg_SMTPHost c \<noteq> [] \<and> cg_Warnings c \<noteq> []"
  using assms by (simp add: LoadFromEnv_def load_config_def Let_def smtp_warnings_def)

end
