(* ===== verification/Server_Http.thy ===== *)
theory Server_Http
  imports App_Config Auth_Props
begin

text \<open>
  \<open>internal/server/server.go\<close> and \<open>routes.go\<close>: the chain of middlewares in front of the routes (request
  identifier and log, cross-origin headers, recovery, authentication) and what it lets through.
\<close>

section \<open>Cross-origin requests\<close>

definition allowed_origins :: "string list \<Rightarrow> string \<Rightarrow> string list" where
  \<comment> \<open>the keys of the map \<open>allowed\<close>\<close>
  "allowed_origins origins appURL = origins @ (if appURL \<noteq> [] then [appURL] else [])"

definition isOriginAllowed :: "string \<Rightarrow> string list \<Rightarrow> bool" where
  "isOriginAllowed origin allowed \<longleftrightarrow>
     (if allowed = [] then False else if ''*'' \<in> set allowed then True else origin \<in> set allowed)"

definition cors_headers :: "string list \<Rightarrow> string \<Rightarrow> (string \<times> string) list" where
  "cors_headers allowed origin =
     (if origin \<noteq> [] \<and> isOriginAllowed origin allowed then
        [(''Access-Control-Allow-Origin'', origin), (''Vary'', ''Origin''), (''Access-Control-Allow-Credentials'', ''true''),
         (''Access-Control-Allow-Headers'', join '', '' [''Accept'', ''Authorization'', ''Content-Type'', ''Content-Disposition'',
            ''X-Request-ID'', ''Upload-Length'', ''Upload-Offset'', ''Tus-Resumable'']),
         (''Access-Control-Expose-Headers'', join '', '' [''Content-Disposition'', ''Content-Length'', ''X-Request-ID'']),
         (''Access-Control-Allow-Methods'', join '', '' [''GET'', ''POST'', ''PUT'', ''PATCH'', ''DELETE'', ''OPTIONS''])]
      else [])"

definition corsMiddleware ::
  "string list \<Rightarrow> string \<Rightarrow> request \<Rightarrow> ('s \<Rightarrow> (nat \<times> 'b) \<times> 's) \<Rightarrow> 'b \<Rightarrow> 's \<Rightarrow> ((string \<times> string) list \<times> nat \<times> 'b) \<times> 's" where
  \<comment> \<open>the headers that are set and the answer of \<open>next\<close>, or \<open>204\<close> with an nobody body to a preflight\<close>
  "corsMiddleware origins appURL r next nobody w =
     (let hs = cors_headers (allowed_origins origins appURL) (req_header r ''Origin'') in
      if req_method r = ''OPTIONS'' then ((hs, 204, nobody), w)
      else (case next w of (answer, w') \<Rightarrow> ((hs, answer), w')))"

section \<open>The chain\<close>

text \<open>
  A handler behind the chain: given the context it either answers or panics (\<open>None\<close>). The recovery
  middleware of the router package is a parameter; it documents that it answers a panic with status
  500 and no body and passes every other answer on.
\<close>

type_synonym ('s, 'b) recoverer = "('s \<Rightarrow> (nat \<times> 'b) option \<times> 's) \<Rightarrow> 's \<Rightarrow> (nat \<times> 'b) \<times> 's"

definition recoverer_ok :: "'b \<Rightarrow> ('s, 'b) recoverer \<Rightarrow> bool" where
  "recoverer_ok nobody rc \<longleftrightarrow>
     (\<forall>handle w. rc handle w = (case handle w of (None, w') \<Rightarrow> ((500, nobody), w') | (Some a, w') \<Rightarrow> (a, w')))"

record server_config =
  sc_origins :: "string list"
  sc_appURL :: string
  sc_auth :: Middleware

definition server_of :: "config_lib \<Rightarrow> Config \<Rightarrow> server_config" where
  \<comment> \<open>what \<open>NewHTTPServer\<close> takes from the configuration\<close>
  "server_of L c =
     \<lparr>sc_origins = cg_CORSOrigins c, sc_appURL = cg_AppURL c,
      sc_auth = NewMiddleware (cg_KeycloakURL c) (cg_KeycloakRealm c) (cg_KeycloakClientID c)\<rparr>"

definition server_handle ::
  "go_lib \<Rightarrow> jwt_lib \<Rightarrow> server_config \<Rightarrow> (jwks_state \<times> 's, 'b) recoverer \<Rightarrow> (string \<Rightarrow> 'b) \<Rightarrow> 'b
     \<Rightarrow> (ctx \<Rightarrow> request \<Rightarrow> 's \<Rightarrow> (nat \<times> 'b) option \<times> 's) \<Rightarrow> ctx \<Rightarrow> request \<Rightarrow> jwks_state \<times> 's \<Rightarrow> ((string \<times> string) list \<times> nat \<times> 'b) \<times> (jwks_state \<times> 's)" where
  \<comment> \<open>\<open>errbody\<close> is the body of an error response, \<open>h\<close> the routes\<close>
  "server_handle L J S rc errbody nobody h c r =
     corsMiddleware (sc_origins S) (sc_appURL S) r
       (rc
          (\<lambda>(jw, s). case Authenticate L J (sc_auth S) c r jw of
             (Answered status msg, jw') \<Rightarrow> (Some (status, errbody msg), (jw', s))
           | (Passed c', jw') \<Rightarrow> (case h c' r s of (a, s') \<Rightarrow> (a, (jw', s')))))
       nobody"

type_synonym ('s, 'b) handler = "ctx \<Rightarrow> request \<Rightarrow> 's \<Rightarrow> (nat \<times> 'b) option \<times> 's"

definition RegisterRoutes ::
  "('s, 'b) handler option \<Rightarrow> (request \<Rightarrow> ('s, 'b) handler option) \<Rightarrow> (request \<Rightarrow> ('s, 'b) handler option) option list
     \<Rightarrow> 'b \<Rightarrow> nat \<times> 'b \<Rightarrow> ('s, 'b) handler" where
  \<comment> \<open>\<open>public\<close> and \<open>detailed\<close> are the routes of the health handler, if there is one, \<open>static_body\<close> the
    answer without one; the routes of the registrars are disjoint, and nil registrars are skipped\<close>
  "RegisterRoutes public detailed registrars static_body not_found c r w =
     (if req_path r = ''/health'' \<and> req_method r = ''GET'' then
        (case public of Some h \<Rightarrow> h c r w | None \<Rightarrow> (Some (200, static_body), w))
      else
        let regs = (if public = None then [] else [detailed]) @ concat (map (\<lambda>reg. case reg of None \<Rightarrow> [] | Some g \<Rightarrow> [g]) registrars)
        in case find (\<lambda>reg. reg r \<noteq> None) regs of
            None \<Rightarrow> (Some not_found, w)
          | Some reg \<Rightarrow> the (reg r) c r w)"

section \<open>Properties\<close>

lemma authenticate_answers:
  "Authenticate L J m c r w = (Answered status msg, w') \<Longrightarrow> status = 401 \<or> status = 502"
  by (auto simp: Authenticate_def Let_def split: if_splits prod.splits sum.splits)


lemma cors_lookup:
  "map_of (cors_headers allowed origin) ''Access-Control-Allow-Origin'' =
     (if origin \<noteq> [] \<and> isOriginAllowed origin allowed then Some origin else None)"
  by (simp add: cors_headers_def)

text \<open>
  With a configuration from the environment, the response names an allowed origin exactly when
  the request has one which is the trimmed \<open>APP_URL\<close> or an entry of \<open>CORS_ORIGINS\<close>, or one of those is
  \<open>*\<close>, and then it is the origin of the request.
\<close>

theorem cors_allows_configured:
  assumes "LoadFromEnv LC getenv = Inr cfg"
    and "server_handle L J (server_of LC cfg) rc errbody nobody h c r w = ((hs, answer), w')"
  shows "map_of hs ''Access-Control-Allow-Origin'' =
    (let origin = req_header r ''Origin''; listed = trim_space (getenv ''APP_URL'') # parseCSV (getenv ''CORS_ORIGINS'') in
     if origin \<noteq> [] \<and> (origin \<in> set listed \<or> ''*'' \<in> set listed) then Some origin else None)"
proof -
  have cfg: "cg_AppURL cfg = trim_space (getenv ''APP_URL'')" "cg_CORSOrigins cfg = parseCSV (getenv ''CORS_ORIGINS'')"
    using assms(1) by (auto simp: LoadFromEnv_def load_config_def Let_def split: if_splits)
  have "config_wf LC cfg" using assms(1) no_errors by (auto simp: LoadFromEnv_def Let_def split: if_splits)
  then have "url_ok LC (cg_AppURL cfg)" "config_errors LC getenv = []"
    using assms(1) by (simp_all add: config_wf_def LoadFromEnv_def Let_def split: if_splits)
  then have ne: "cg_AppURL cfg \<noteq> []"
    using assms(1) by (auto simp: LoadFromEnv_def config_errors_def Let_def required_checked_nil split: if_splits)
  have "hs = cors_headers (allowed_origins (cg_CORSOrigins cfg) (cg_AppURL cfg)) (req_header r ''Origin'')"
    using assms(2) by (auto simp: server_handle_def server_of_def corsMiddleware_def Let_def split: if_splits prod.splits)
  then show ?thesis
    using ne by (auto simp: cors_lookup isOriginAllowed_def allowed_origins_def cfg Let_def)
qed

text \<open>With the entry \<open>*\<close> any site is allowed to send requests with the user's credentials.\<close>

lemma cors_wildcard_credentials:
  "''*'' \<in> set origins \<Longrightarrow> origin \<noteq> [] \<Longrightarrow>
     map_of (cors_headers (allowed_origins origins appURL) origin) ''Access-Control-Allow-Origin'' = Some origin \<and>
     map_of (cors_headers (allowed_origins origins appURL) origin) ''Access-Control-Allow-Credentials'' = Some ''true''"
  by (auto simp: cors_headers_def isOriginAllowed_def allowed_origins_def)

section \<open>A concrete server\<close>

definition sample_server :: server_config where
  "sample_server = server_of sample_config_lib (load_config sample_config_lib sample_getenv)"

definition sample_route :: "(nat, string) handler" where
  "sample_route c r n = (Some (200, ''ok''), Suc n)"

definition sample_recoverer :: "'b \<Rightarrow> ('s, 'b) recoverer" where
  "sample_recoverer nobody handle w = (case handle w of (None, w') \<Rightarrow> ((500, nobody), w') | (Some a, w') \<Rightarrow> (a, w'))"

lemma sample_recoverer_ok: "recoverer_ok nobody (sample_recoverer nobody)"
  by (simp add: recoverer_ok_def sample_recoverer_def)


theorem cors_allows_configured_witness:
  "\<exists>hs answer w'. server_handle sample_lib sample_jwt_lib sample_server (sample_recoverer []) id [] sample_route \<lparr>authContextKey = None, caseRoleKey = None\<rparr>
       (sample_auth_request\<lparr>req_header := (\<lambda>n. if n = ''Origin'' then ''h'' else [])\<rparr>) (sample_jwks 5, 0) = ((hs, answer), w') \<and>
     map_of hs ''Access-Control-Allow-Origin'' = Some ''h''"
proof -
  let ?r = "sample_auth_request\<lparr>req_header := (\<lambda>n. if n = ''Origin'' then ''h'' else [])\<rparr>"
  obtain hs answer w' where x: "server_handle sample_lib sample_jwt_lib sample_server (sample_recoverer []) id [] sample_route
      \<lparr>authContextKey = None, caseRoleKey = None\<rparr> ?r (sample_jwks 5, 0) = ((hs, answer), w')"
    by (metis prod.exhaust)
  have "LoadFromEnv sample_config_lib sample_getenv = Inr (load_config sample_config_lib sample_getenv)"
    using sample_config_loads by (simp add: LoadFromEnv_def)
  from cors_allows_configured [OF this x [unfolded sample_server_def]] x show ?thesis
    by (simp add: sample_getenv_sel sample_trims Let_def)
qed

end
