(* ===== verification/Report_Pdf.thy ===== *)
theory Report_Pdf
  imports Evidence_Api
begin

text \<open>
  \<open>internal/reports/pdf.go\<close> and \<open>handler.go\<close>, with the adapter \<open>caseReportSourceAdapter\<close> of
  \<open>cmd/server/main.go\<close>: the custody reports. A document is the list of the calls on \<open>fpdf.Fpdf\<close> after
  \<open>fpdf.New("P", "mm", "A4", "")\<close>; \<open>pdf.Output\<close>, which lays them out, is a parameter. Lengths and
  font sizes are in tenths of the code's unit.
\<close>

section \<open>Documents\<close>

datatype pdf_op =
    SetAutoPageBreak bool int
  | AddPage
  | SetFont string string int
  | SetDrawColor int int int
  | SetFillColor int int int
  | SetTextColor int int int
  | CellFormat int int string string int string bool
      \<comment> \<open>width, height, text, border, what follows (\<open>1\<close>: the next line), alignment, filled\<close>
  | Ln int
  | LineAtY int int \<comment> \<open>\<open>Line(x1, GetY(), x2, GetY())\<close>\<close>

definition pageMargin :: int where "pageMargin = 150"
definition headerHeight :: int where "headerHeight = 80"
definition rowHeight :: int where "rowHeight = 60"
definition fontSizeTitle :: int where "fontSizeTitle = 140"
definition fontSizeH2 :: int where "fontSizeH2 = 110"
definition fontSizeBody :: int where "fontSizeBody = 90"
definition fontSizeSmall :: int where "fontSizeSmall = 75"

text \<open>
  \<open>rp_local\<close> is \<open>Format\<close> of an instant from the database, which \<open>pgx\<close> returns in the time zone of the
  process, and \<open>rp_output\<close> is \<open>pdf.Output\<close>.
\<close>

record report_env =
  rp_evidence :: evidence_env
  rp_local :: "string \<Rightarrow> time \<Rightarrow> string"
  rp_output :: "pdf_op list \<Rightarrow> go_error + string"

abbreviation rp_lib :: "report_env \<Rightarrow> go_lib" where
  "rp_lib X \<equiv> ee_lib (rp_evidence X)"

record CaseRecord =
  cd_ID :: uuid
  cd_ReferenceCode :: string
  cd_Title :: string
  cd_Jurisdiction :: string
  cd_Status :: string

definition case_report_FindByID ::
  "uuid \<Rightarrow> 'a cases_db_scheme \<Rightarrow> (go_error + CaseRecord) \<times> 'a cases_db_scheme" where
  "case_report_FindByID k w =
     (case repo_FindByID k w of
        (Inl err, w1) \<Rightarrow> (Inl err, w1)
      | (Inr c, w1) \<Rightarrow>
          (Inr \<lparr>cd_ID = c_ID c, cd_ReferenceCode = c_ReferenceCode c, cd_Title = c_Title c,
                cd_Jurisdiction = c_Jurisdiction c, cd_Status = c_Status c\<rparr>, w1))"

section \<open>The parts of a report\<close>

definition truncate :: "string \<Rightarrow> nat \<Rightarrow> string" where
  \<comment> \<open>called with lengths of at least 3 only\<close>
  "truncate s maxLen = (if length s \<le> maxLen then s else take (maxLen - 3) s @ ''...'')"

definition rule_below :: "pdf_op list" where
  "rule_below = [SetDrawColor 180 180 180, LineAtY pageMargin (2100 - pageMargin)]"

definition label_cell :: "string \<Rightarrow> pdf_op" where
  "label_cell s = CellFormat 450 rowHeight s [] 0 [] False"

definition value_cell :: "string \<Rightarrow> pdf_op" where
  "value_cell s = CellFormat 0 rowHeight s [] 1 [] False"

definition writeReportHeader :: "report_env \<Rightarrow> time \<Rightarrow> CaseRecord \<Rightarrow> pdf_op list" where
  "writeReportHeader X t c =
     [SetFont ''Helvetica'' ''B'' fontSizeTitle,
      CellFormat 0 100 ''Chain of Custody Report'' [] 1 ''C'' False,
      Ln 20,
      SetFont ''Helvetica'' [] fontSizeBody, label_cell ''Case Reference:'',
      SetFont ''Helvetica'' ''B'' fontSizeBody, value_cell (cd_ReferenceCode c),
      SetFont ''Helvetica'' [] fontSizeBody,
      label_cell ''Case Title:'', value_cell (cd_Title c),
      label_cell ''Jurisdiction:'', value_cell (cd_Jurisdiction c),
      label_cell ''Report Generated:'', value_cell (lib_format (rp_lib X) RFC3339 t),
      Ln 40] @ rule_below @ [Ln 40]"

definition section_title :: "string \<Rightarrow> pdf_op list" where
  "section_title s =
     [SetFont ''Helvetica'' ''B'' fontSizeH2, CellFormat 0 headerHeight s [] 1 [] False, Ln 20]"

definition table_header :: "(int \<times> string) list \<Rightarrow> pdf_op list" where
  "table_header cols =
     [SetFont ''Helvetica'' ''B'' fontSizeSmall, SetFillColor 230 230 230] @
     map (\<lambda>(width, h). CellFormat width headerHeight h ''1'' 0 ''C'' True) cols @
     [Ln (- 10), SetFont ''Helvetica'' [] fontSizeSmall, SetFillColor 245 245 245]"

definition evidence_columns :: "(int \<times> string) list" where
  "evidence_columns =
     [(250, ''Number''), (500, ''Filename''), (250, ''TSA Status''), (350, ''Upload Date''), (450, ''SHA-256 (first 16 chars)'')]"

definition item_number :: "EvidenceItem \<Rightarrow> string" where
  "item_number e = (case ei_EvidenceNumber e of None \<Rightarrow> [] | Some n \<Rightarrow> n)"

definition item_cells :: "report_env \<Rightarrow> nat \<Rightarrow> EvidenceItem \<Rightarrow> pdf_op list" where
  \<comment> \<open>the body of the loop of \<open>writeEvidenceSummary\<close>\<close>
  "item_cells X idx item =
     (let fill = (idx mod 2 = 1);
          tsaTimestamp = (case ei_TSATimestamp item of None \<Rightarrow> [] | Some t \<Rightarrow> rp_local X ''2006-01-02 15:04'' t);
          hashPrefix = (if length (ei_SHA256Hash item) > 16 then take 16 (ei_SHA256Hash item) else ei_SHA256Hash item)
      in [CellFormat 250 rowHeight (item_number item) ''1'' 0 [] fill,
          CellFormat 500 rowHeight (truncate (ei_Filename item) 30) ''1'' 0 [] fill,
          CellFormat 250 rowHeight (ei_TSAStatus item) ''1'' 0 ''C'' fill,
          CellFormat 350 rowHeight tsaTimestamp ''1'' 0 [] fill,
          CellFormat 450 rowHeight hashPrefix ''1'' 0 [] fill,
          Ln (- 10)])"

definition table_body :: "(nat \<Rightarrow> 'b \<Rightarrow> pdf_op list) \<Rightarrow> 'b list \<Rightarrow> pdf_op list" where
  \<comment> \<open>\<open>for idx, x := range xs\<close>\<close>
  "table_body f xs = concat (map (\<lambda>(idx, x). f idx x) (enumerate 0 xs))"

definition writeEvidenceSummary :: "report_env \<Rightarrow> EvidenceItem list \<Rightarrow> pdf_op list" where
  "writeEvidenceSummary X items =
     section_title ''Evidence Items'' @ table_header evidence_columns @ table_body (item_cells X) items @ [Ln 40]"

definition detail_fields :: "report_env \<Rightarrow> EvidenceItem \<Rightarrow> (string \<times> string) list" where
  "detail_fields X item =
     [(''Evidence Number'', item_number item), (''Filename'', ei_Filename item), (''Original Name'', ei_OriginalName item),
      (''MIME Type'', ei_MimeType item), (''Size (bytes)'', itoa (ei_SizeBytes item)),
      (''Classification'', ei_Classification item), (''SHA-256 Hash'', ei_SHA256Hash item), (''TSA Status'', ei_TSAStatus item),
      (''TSA Timestamp'', case ei_TSATimestamp item of None \<Rightarrow> [] | Some t \<Rightarrow> rp_local X RFC3339 t),
      (''Uploaded By'', ei_UploadedBy item), (''Created At'', rp_local X RFC3339 (ei_CreatedAt item))]"

definition writeSingleEvidenceDetail :: "report_env \<Rightarrow> EvidenceItem \<Rightarrow> pdf_op list" where
  "writeSingleEvidenceDetail X item =
     section_title ''Evidence Item Detail'' @ [SetFont ''Helvetica'' [] fontSizeBody] @
     concat (map (\<lambda>(label, v). [SetFont ''Helvetica'' ''B'' fontSizeBody, label_cell (label @ '':''),
       SetFont ''Helvetica'' [] fontSizeBody, value_cell v]) (detail_fields X item)) @
     [Ln 40] @ rule_below @ [Ln 40]"

definition custody_columns :: "(int \<times> string) list" where
  "custody_columns =
     [(350, ''Timestamp''), (250, ''Action''), (300, ''Actor''), (300, ''Hash (first 12)''), (600, ''Detail'')]"

definition event_cells :: "report_env \<Rightarrow> nat \<Rightarrow> Event \<Rightarrow> pdf_op list" where
  \<comment> \<open>the body of the loop of \<open>writeCustodyTable\<close>\<close>
  "event_cells X idx e =
     (let fill = (idx mod 2 = 1);
          hashPrefix = (if length (ev_HashValue e) > 12 then take 12 (ev_HashValue e) else ev_HashValue e)
      in [CellFormat 350 rowHeight (rp_local X ''2006-01-02 15:04:05'' (ev_Timestamp e)) ''1'' 0 [] fill,
          CellFormat 250 rowHeight (truncate (ev_Action e) 15) ''1'' 0 [] fill,
          CellFormat 300 rowHeight (truncate (ev_ActorUserID e) 18) ''1'' 0 [] fill,
          CellFormat 300 rowHeight hashPrefix ''1'' 0 [] fill,
          CellFormat 600 rowHeight (truncate (ev_Detail e) 38) ''1'' 0 [] fill,
          Ln (- 10)])"

definition writeCustodyTable :: "report_env \<Rightarrow> Event list \<Rightarrow> pdf_op list" where
  "writeCustodyTable X events =
     section_title ''Custody Chain'' @ table_header custody_columns @ table_body (event_cells X) events @ [Ln 40]"

fun chain_check :: "go_lib \<Rightarrow> bool \<times> int \<Rightarrow> Event list \<Rightarrow> bool \<times> int" where
  \<comment> \<open>the loop of \<open>writeHashChainStatus\<close> over \<open>events[i-1]\<close> and \<open>events[i]\<close>, on \<open>(verified, breakCount)\<close>\<close>
  "chain_check L vb (d # e # es) =
     (let expected = ComputeLogHash L (ev_HashValue d) e in
      chain_check L (if expected \<noteq> ev_HashValue e then (False, snd vb + 1) else vb) (e # es))"
| "chain_check L vb es = vb"

definition chain_status :: "bool \<times> int \<Rightarrow> string" where
  "chain_status vb =
     (if fst vb then ''VERIFIED - Chain is intact'' else ''BROKEN - '' @ itoa (snd vb) @ '' break(s) detected'')"

definition writeHashChainStatus :: "report_env \<Rightarrow> Event list \<Rightarrow> pdf_op list" where
  "writeHashChainStatus X events =
     (let vb = chain_check (rp_lib X) (True, 0) events in
      section_title ''Hash Chain Verification'' @
      [SetFont ''Helvetica'' [] fontSizeBody,
       label_cell ''Total Entries:'', value_cell (itoa (int (length events))),
       label_cell ''Chain Status:'',
       (if fst vb then SetTextColor 0 128 0 else SetTextColor 200 0 0), value_cell (chain_status vb),
       SetTextColor 0 0 0, Ln 40])"

definition writeFooter :: "report_env \<Rightarrow> time \<Rightarrow> pdf_op list" where
  "writeFooter X t =
     rule_below @
     [Ln 20, SetFont ''Helvetica'' ''I'' fontSizeSmall, SetTextColor 128 128 128,
      CellFormat 0 rowHeight (''Generated by VaultKeeper at '' @ lib_format (rp_lib X) RFC3339 t) [] 1 ''C'' False,
      SetTextColor 0 0 0]"

section \<open>The generator\<close>

definition new_page :: "pdf_op list" where
  "new_page = [SetAutoPageBreak True pageMargin, AddPage]"

definition report_filter :: "uuid \<Rightarrow> EvidenceFilter" where
  "report_filter k =
     \<lparr>ef_CaseID = k, ef_Classification = [], ef_MimeType = [], ef_Tags = [], ef_CurrentOnly = True,
      ef_IncludeDestroyed = False, ef_SearchQuery = [], ef_UserRole = []\<rparr>"

definition GenerateCustodyPDF ::
  "report_env \<Rightarrow> uuid \<Rightarrow> 'a evidence_db_scheme \<Rightarrow> (go_error + string) \<times> 'a evidence_db_scheme" where
  "GenerateCustodyPDF X caseID w =
     (case case_report_FindByID caseID w of
        (Inl err, w1) \<Rightarrow> (Inl (wrapf ''load case for custody report'' err), w1)
      | (Inr caseData, w1) \<Rightarrow>
     (case evidence_FindByCase (rp_evidence X) (report_filter caseID) \<lparr>pg_Limit = 200, pg_Cursor = []\<rparr> w1 of
        (Inl err, w2) \<Rightarrow> (Inl (wrapf ''load evidence for custody report'' err), w2)
      | (Inr (items, total_count), w2) \<Rightarrow>
     (case ListAllByCase caseID w2 of
        (Inl err, w3) \<Rightarrow> (Inl (wrapf ''load custody events for report'' err), w3)
      | (Inr events, w3) \<Rightarrow>
          let w4 = tick w3; w5 = tick w4;
              pdf = new_page @ writeReportHeader X (now w3) caseData @ writeEvidenceSummary X items @
                writeCustodyTable X events @ writeHashChainStatus X events @ writeFooter X (now w4)
          in (case rp_output X pdf of
                Inl err \<Rightarrow> (Inl (wrapf ''render custody PDF'' err), w5)
              | Inr bytes \<Rightarrow> (Inr bytes, w5)))))"

definition report_GetReferenceCode ::
  "uuid \<Rightarrow> 'a evidence_db_scheme \<Rightarrow> (go_error + string) \<times> 'a evidence_db_scheme" where
  "report_GetReferenceCode caseID w =
     (case case_report_FindByID caseID w of
        (Inl err, w1) \<Rightarrow> (Inl (wrapf ''load case for reference code'' err), w1)
      | (Inr c, w1) \<Rightarrow> (Inr (cd_ReferenceCode c), w1))"

definition GenerateEvidenceCustodyPDF ::
  "report_env \<Rightarrow> uuid \<Rightarrow> 'a evidence_db_scheme \<Rightarrow> (go_error + string) \<times> 'a evidence_db_scheme" where
  "GenerateEvidenceCustodyPDF X evidenceID w =
     (case evidence_FindByID evidenceID w of
        (Inl err, w1) \<Rightarrow> (Inl (wrapf ''load evidence item for report'' err), w1)
      | (Inr item, w1) \<Rightarrow>
     (case case_report_FindByID (ei_CaseID item) w1 of
        (Inl err, w2) \<Rightarrow> (Inl (wrapf ''load case for evidence report'' err), w2)
      | (Inr caseData, w2) \<Rightarrow>
     (case ListByEvidence (rp_lib X) evidenceID 10000 [] w2 of
        (Inl err, w3) \<Rightarrow> (Inl (wrapf ''load custody events for evidence report'' err), w3)
      | (Inr (events, total_count), w3) \<Rightarrow>
          let w4 = tick w3; w5 = tick w4;
              pdf = new_page @ writeReportHeader X (now w3) caseData @ writeSingleEvidenceDetail X item @
                writeCustodyTable X events @ writeFooter X (now w4)
          in (case rp_output X pdf of
                Inl err \<Rightarrow> (Inl (wrapf ''render evidence custody PDF'' err), w5)
              | Inr bytes \<Rightarrow> (Inr bytes, w5)))))"

section \<open>The endpoints\<close>

text \<open>An answer is the name of the attachment and its bytes.\<close>

definition ExportCaseCustody ::
  "report_env \<Rightarrow> request \<Rightarrow> 'a evidence_db_scheme \<Rightarrow> (string \<times> string) http_response \<times> 'a evidence_db_scheme" where
  "ExportCaseCustody X r w =
     (case lib_uuid_parse (rp_lib X) (req_param r ''id'') of
        Inl err \<Rightarrow> (RespondError 400 ''invalid case ID'', w)
      | Inr caseID \<Rightarrow>
     (case report_GetReferenceCode caseID w of
        (Inl err, w1) \<Rightarrow> (RespondError 500 ''failed to generate report'', w1)
      | (Inr refCode, w1) \<Rightarrow>
     (case GenerateCustodyPDF X caseID w1 of
        (Inl err, w2) \<Rightarrow> (RespondError 500 ''failed to generate report'', w2)
      | (Inr pdfBytes, w2) \<Rightarrow> (RespondJSON 200 (''custody-report-'' @ refCode @ ''.pdf'', pdfBytes), w2))))"

definition ExportEvidenceCustody ::
  "report_env \<Rightarrow> request \<Rightarrow> 'a evidence_db_scheme \<Rightarrow> (string \<times> string) http_response \<times> 'a evidence_db_scheme" where
  "ExportEvidenceCustody X r w =
     (case lib_uuid_parse (rp_lib X) (req_param r ''id'') of
        Inl err \<Rightarrow> (RespondError 400 ''invalid evidence ID'', w)
      | Inr evidenceID \<Rightarrow>
     (case GenerateEvidenceCustodyPDF X evidenceID w of
        (Inl err, w1) \<Rightarrow> (RespondError 500 ''failed to generate report'', w1)
      | (Inr pdfBytes, w1) \<Rightarrow>
          (RespondJSON 200 (''evidence-custody-'' @ lib_uuid_string (rp_lib X) evidenceID @ ''.pdf'', pdfBytes), w1)))"

datatype report_route = GetEvidenceReport | GetCaseReport

fun report_handler ::
  "report_env \<Rightarrow> report_route \<Rightarrow> request \<Rightarrow> ctx \<Rightarrow> 'a evidence_db_scheme
     \<Rightarrow> (string \<times> string) http_response \<times> 'a evidence_db_scheme" where
  "report_handler X GetEvidenceReport r c w = ExportEvidenceCustody X r w"
| "report_handler X GetCaseReport r c w = ExportCaseCustody X r w"

definition serve_report ::
  "report_env \<Rightarrow> report_route \<Rightarrow> request \<Rightarrow> ctx \<Rightarrow> 'a evidence_db_scheme
     \<Rightarrow> ((string \<times> string) http_response \<times> access_denied list) \<times> 'a evidence_db_scheme" where
  "serve_report X rt r c w = gated (Some RoleCaseAdmin) c r (report_handler X rt r) w"

end
