(* ===== verification/Report_Props.thy ===== *)
theory Report_Props
  imports Report_Pdf Evidence_Limits Custody_Props
begin

text \<open>
  What the custody reports say: the lines of text of a document are read back from its cells, so that
  the properties are about the text a reader sees. A report of a case shows its whole custody log,
  but its verdict on the chain looks at less than the verifier does, and both kinds of report cut
  their other table after 200 rows without a note.
\<close>

section \<open>The text of a document\<close>

fun typeset_step :: "string list list \<times> string list \<Rightarrow> pdf_op \<Rightarrow> string list list \<times> string list" where
  \<comment> \<open>the finished lines and the cells of the current one\<close>
  "typeset_step (ls, cur) (CellFormat width h s b n al fill) =
     (if n = 1 then (ls @ [cur @ [s]], []) else (ls, cur @ [s]))"
| "typeset_step (ls, cur) (Ln h) = (if cur = [] then (ls, []) else (ls @ [cur], []))"
| "typeset_step st c = st"

definition pdf_lines :: "pdf_op list \<Rightarrow> string list list" where
  "pdf_lines pdf = (case foldl typeset_step ([], []) pdf of (ls, cur) \<Rightarrow> if cur = [] then ls else ls @ [cur])"

definition sets_lines :: "pdf_op list \<Rightarrow> string list list \<Rightarrow> bool" where
  "sets_lines pdf ls \<longleftrightarrow> (\<forall>d. foldl typeset_step (d, []) pdf = (d @ ls, []))"

lemma sets_lines_append: "sets_lines p ls \<Longrightarrow> sets_lines q ls' \<Longrightarrow> sets_lines (p @ q) (ls @ ls')"
  by (simp add: sets_lines_def)

lemma sets_lines_Nil: "sets_lines [] []"
  by (simp add: sets_lines_def)

lemma sets_lines_pdf: "sets_lines p ls \<Longrightarrow> pdf_lines p = ls"
  by (simp add: sets_lines_def pdf_lines_def)

lemma sets_lines_concat:
  "(\<And>x. x \<in> set xs \<Longrightarrow> sets_lines (f x) (g x)) \<Longrightarrow> sets_lines (concat (map f xs)) (concat (map g xs))"
  by (induction xs) (auto intro: sets_lines_append simp: sets_lines_Nil)

lemma sets_table_body:
  assumes "\<And>i x. sets_lines (f i x) [g x]"
  shows "sets_lines (table_body f xs) (map g xs)"
proof -
  have "sets_lines (concat (map (\<lambda>(i, x). f i x) (enumerate n xs))) (map g xs)" for n
  proof (induction xs arbitrary: n)
    case (Cons x xs)
    show ?case using sets_lines_append [OF assms [of n x] Cons.IH [of "Suc n"]] by simp
  qed (simp add: sets_lines_Nil)
  then show ?thesis by (simp add: table_body_def)
qed

definition item_row :: "report_env \<Rightarrow> EvidenceItem \<Rightarrow> string list" where
  "item_row X e =
     [item_number e, truncate (ei_Filename e) 30, ei_TSAStatus e,
      (case ei_TSATimestamp e of None \<Rightarrow> [] | Some t \<Rightarrow> rp_local X ''2006-01-02 15:04'' t), take 16 (ei_SHA256Hash e)]"

definition event_row :: "report_env \<Rightarrow> Event \<Rightarrow> string list" where
  "event_row X e =
     [rp_local X ''2006-01-02 15:04:05'' (ev_Timestamp e), truncate (ev_Action e) 15, truncate (ev_ActorUserID e) 18,
      take 12 (ev_HashValue e), truncate (ev_Detail e) 38]"

definition report_head :: "report_env \<Rightarrow> time \<Rightarrow> Case \<Rightarrow> string list list" where
  "report_head X t c =
     [[''Chain of Custody Report''], [''Case Reference:'', c_ReferenceCode c], [''Case Title:'', c_Title c],
      [''Jurisdiction:'', c_Jurisdiction c], [''Report Generated:'', lib_format (rp_lib X) RFC3339 t]]"

definition custody_table :: "report_env \<Rightarrow> Event list \<Rightarrow> string list list" where
  "custody_table X events = [[''Custody Chain''], map snd custody_columns] @ map (event_row X) events"

definition report_foot :: "report_env \<Rightarrow> time \<Rightarrow> string list list" where
  "report_foot X t = [[''Generated by VaultKeeper at '' @ lib_format (rp_lib X) RFC3339 t]]"

lemmas pdf_defs = sets_lines_def rule_below_def label_cell_def value_cell_def section_title_def table_header_def
  evidence_columns_def custody_columns_def

lemma sets_new_page: "sets_lines new_page []"
  by (simp add: pdf_defs new_page_def)

lemma sets_header: "sets_lines (writeReportHeader X t
    \<lparr>cd_ID = i, cd_ReferenceCode = c_ReferenceCode c, cd_Title = c_Title c, cd_Jurisdiction = c_Jurisdiction c, cd_Status = s\<rparr>)
  (report_head X t c)"
  by (simp add: pdf_defs writeReportHeader_def report_head_def)

lemma sets_footer: "sets_lines (writeFooter X t) (report_foot X t)"
  by (simp add: pdf_defs writeFooter_def report_foot_def)

lemma sets_title: "sets_lines (section_title s) [[s]]"
  by (simp add: pdf_defs)

lemma sets_columns:
  "sets_lines (table_header evidence_columns) [map snd evidence_columns]"
  "sets_lines (table_header custody_columns) [map snd custody_columns]"
  by (simp_all add: pdf_defs)

lemma sets_Ln: "sets_lines [Ln h] []"
  by (simp add: pdf_defs)

lemma sets_custody_table: "sets_lines (writeCustodyTable X events) (custody_table X events)"
proof -
  have "sets_lines (event_cells X i e) [event_row X e]" for i e
    by (simp add: sets_lines_def event_cells_def event_row_def Let_def)
  from sets_table_body [of "event_cells X" "event_row X", OF this]
    sets_lines_append [OF sets_title sets_lines_append [OF sets_columns(2) sets_lines_append [OF _ sets_Ln]]]
  show ?thesis by (fastforce simp: writeCustodyTable_def custody_table_def)
qed

lemma sets_evidence_table:
  "sets_lines (writeEvidenceSummary X items) ([[''Evidence Items''], map snd evidence_columns] @ map (item_row X) items)"
proof -
  have "sets_lines (item_cells X i e) [item_row X e]" for i e
    by (simp add: sets_lines_def item_cells_def item_row_def Let_def)
  from sets_table_body [of "item_cells X" "item_row X", OF this]
    sets_lines_append [OF sets_title sets_lines_append [OF sets_columns(1) sets_lines_append [OF _ sets_Ln]]]
  show ?thesis by (fastforce simp: writeEvidenceSummary_def)
qed

lemma sets_detail:
  "sets_lines (writeSingleEvidenceDetail X item)
     ([''Evidence Item Detail''] # map (\<lambda>(l, v). [l @ '':'', v]) (detail_fields X item))"
proof -
  let ?f = "\<lambda>(l, v). [SetFont ''Helvetica'' ''B'' fontSizeBody, label_cell (l @ '':''), SetFont ''Helvetica'' [] fontSizeBody, value_cell v]"
  have "sets_lines (?f x) [(\<lambda>(l, v). [l @ '':'', v]) x]" for x
    by (simp add: pdf_defs split: prod.split)
  from sets_lines_concat [of "detail_fields X item" ?f "\<lambda>x. [(\<lambda>(l, v). [l @ '':'', v]) x]", OF this]
  have b: "sets_lines (concat (map ?f (detail_fields X item))) (map (\<lambda>(l, v). [l @ '':'', v]) (detail_fields X item))"
    by (simp add: concat_map_singleton)
  have f: "sets_lines [SetFont ''Helvetica'' [] fontSizeBody] []" "sets_lines ([Ln 40] @ rule_below @ [Ln 40]) []"
    by (simp_all add: pdf_defs)
  from sets_lines_append [OF sets_title sets_lines_append [OF f(1) sets_lines_append [OF b f(2)]]]
  show ?thesis by (simp add: writeSingleEvidenceDetail_def)
qed

section \<open>The verdict on the chain\<close>

definition chain_gaps :: "go_lib \<Rightarrow> Event list \<Rightarrow> (Event \<times> Event) list" where
  \<comment> \<open>the neighbours whose hashes do not fit\<close>
  "chain_gaps L es = filter (\<lambda>(d, e). ComputeLogHash L (ev_HashValue d) e \<noteq> ev_HashValue e) (zip es (tl es))"

definition verdict :: "go_lib \<Rightarrow> Event list \<Rightarrow> string" where
  "verdict L es =
     (if chain_gaps L es = [] then ''VERIFIED - Chain is intact''
      else ''BROKEN - '' @ itoa (int (length (chain_gaps L es))) @ '' break(s) detected'')"

lemma chain_check_gaps:
  "chain_check L vb es = (fst vb \<and> chain_gaps L es = [], snd vb + int (length (chain_gaps L es)))"
  by (induction L vb es rule: chain_check.induct) (auto simp: chain_gaps_def Let_def)

definition links_kept :: "Event list \<Rightarrow> bool" where
  \<comment> \<open>every entry names the hash of the one before it\<close>
  "links_kept es \<longleftrightarrow> (\<forall>(d, e) \<in> set (zip es (tl es)). ev_PreviousHash e = ev_HashValue d)"

definition first_kept :: "go_lib \<Rightarrow> Event list \<Rightarrow> bool" where
  "first_kept L es \<longleftrightarrow> (es \<noteq> [] \<longrightarrow> ev_PreviousHash (hd es) = [] \<and> ev_HashValue (hd es) = ComputeLogHash L [] (hd es))"

lemma chained_gaps:
  "custody_chained L h (e # es) \<longleftrightarrow>
     ev_PreviousHash e = h \<and> ev_HashValue e = ComputeLogHash L h e \<and> chain_gaps L (e # es) = [] \<and> links_kept (e # es)"
proof (induction es arbitrary: h e)
  case (Cons e' es)
  then show ?case by (auto simp: chain_gaps_def links_kept_def)
qed (simp add: chain_gaps_def links_kept_def)

lemma chained_verdict:
  "custody_chained L [] es \<longleftrightarrow> verdict L es = ''VERIFIED - Chain is intact'' \<and> first_kept L es \<and> links_kept es"
proof (cases es)
  case Nil
  then show ?thesis by (simp add: verdict_def first_kept_def chain_gaps_def links_kept_def)
next
  case (Cons e es')
  have "verdict L (e # es') = ''VERIFIED - Chain is intact'' \<longleftrightarrow> chain_gaps L (e # es') = []"
    by (simp add: verdict_def)
  then show ?thesis unfolding Cons chained_gaps first_kept_def by auto
qed

definition chain_lines :: "report_env \<Rightarrow> Event list \<Rightarrow> string list list" where
  "chain_lines X es =
     [[''Hash Chain Verification''], [''Total Entries:'', itoa (int (length es))], [''Chain Status:'', verdict (rp_lib X) es]]"

lemma sets_chain: "sets_lines (writeHashChainStatus X es) (chain_lines X es)"
proof -
  have "chain_status (chain_check (rp_lib X) (True, 0) es) = verdict (rp_lib X) es"
    by (simp add: chain_check_gaps chain_status_def verdict_def)
  then show ?thesis
    by (simp add: sets_lines_def writeHashChainStatus_def chain_lines_def section_title_def label_cell_def value_cell_def Let_def)
qed

section \<open>The report of a case\<close>

definition shown_items :: "uuid \<Rightarrow> EvidenceItem list \<Rightarrow> EvidenceItem list" where
  \<comment> \<open>the current items of a case that are not destroyed, newest first\<close>
  "shown_items k rows =
     rev (sort_key (\<lambda>e. (ei_CreatedAt e, ei_ID e))
       (filter (\<lambda>e. ei_CaseID e = k \<and> ei_IsCurrent e \<and> ei_DestroyedAt e = None) rows))"

lemma report_page:
  assumes "evidence_FindByCase E (report_filter k) \<lparr>pg_Limit = 200, pg_Cursor = []\<rparr> w = (Inr (items, n), w')"
  shows "items = take 200 (shown_items k (evidence_items w))" "only_ticks w w'"
proof -
  let ?q = "query_rows (wrapf ''query evidence'') (wrapf ''scan evidence row'') id (take 201 (shown_items k (evidence_items w))) (tick w)"
  have m: "item_matches E (report_filter k) e \<and> disclosed (ef_UserRole (report_filter k)) ds e \<longleftrightarrow>
      ei_CaseID e = k \<and> ei_IsCurrent e \<and> ei_DestroyedAt e = None" for e ds
    by (simp add: item_matches_def report_filter_def disclosed_def)
  have page: "item_page (\<lambda>e. item_matches E (report_filter k) e \<and> disclosed (ef_UserRole (report_filter k)) ds e) None 201 rows =
      take 201 (shown_items k rows)" for ds rows
    by (simp add: item_page_def m shown_items_def)
  have clamp: "evidence_clamp \<lparr>pg_Limit = 200, pg_Cursor = []\<rparr> = \<lparr>pg_Limit = 200, pg_Cursor = []\<rparr>"
    by (simp add: evidence_clamp_def)
  obtain es where q: "?q = (Inr es, w')" "items = (if int (length es) > 200 then take 200 es else es)"
    using assms by (auto simp: evidence_FindByCase_def clamp page Let_def pg_call_def split: option.splits prod.splits sum.splits)
  have es: "es = take 201 (shown_items k (evidence_items w))" using query_rows_ok [OF q(1)] .
  show "items = take 200 (shown_items k (evidence_items w))"
    using q(2) by (auto simp: es min_def)
  show "only_ticks w w'" using query_rows_ticks [OF q(1)] by (rule only_ticks_from_tick)
qed

lemma case_report_case:
  assumes "case_report_FindByID k w = (Inr d, w')"
  shows "\<exists>c. find_case k (cases_table w) = Some c \<and> w' = tick w \<and>
    d = \<lparr>cd_ID = c_ID c, cd_ReferenceCode = c_ReferenceCode c, cd_Title = c_Title c,
         cd_Jurisdiction = c_Jurisdiction c, cd_Status = c_Status c\<rparr>"
  using assms by (auto simp: case_report_FindByID_def repo_FindByID_def split: option.splits)

definition case_report_lines ::
  "report_env \<Rightarrow> Case \<Rightarrow> EvidenceItem list \<Rightarrow> Event list \<Rightarrow> time \<Rightarrow> time \<Rightarrow> string list list" where
  "case_report_lines X c items events t t' =
     report_head X t c @ [[''Evidence Items''], map snd evidence_columns] @ map (item_row X) items @
     custody_table X events @ chain_lines X events @ report_foot X t'"

lemma case_report_text:
  assumes "GenerateCustodyPDF X k w = (Inr bytes, w')"
  shows "\<exists>pdf c t t'. rp_output X pdf = Inr bytes \<and> find_case k (cases_table w) = Some c \<and>
    pdf_lines pdf = case_report_lines X c (take 200 (shown_items k (evidence_items w))) (case_events k w) t t'"
proof -
  obtain d w1 where d: "case_report_FindByID k w = (Inr d, w1)"
    using assms by (auto simp: GenerateCustodyPDF_def split: prod.splits sum.splits)
  then obtain c where c: "find_case k (cases_table w) = Some c" "w1 = tick w"
      "d = \<lparr>cd_ID = c_ID c, cd_ReferenceCode = c_ReferenceCode c, cd_Title = c_Title c,
         cd_Jurisdiction = c_Jurisdiction c, cd_Status = c_Status c\<rparr>"
    using case_report_case by blast
  obtain items n w2 where i: "evidence_FindByCase (rp_evidence X) (report_filter k) \<lparr>pg_Limit = 200, pg_Cursor = []\<rparr> w1 = (Inr (items, n), w2)"
    using assms d by (auto simp: GenerateCustodyPDF_def split: prod.splits sum.splits)
  obtain events w3 where e: "ListAllByCase k w2 = (Inr events, w3)"
    using assms d i by (auto simp: GenerateCustodyPDF_def split: prod.splits sum.splits)
  let ?pdf = "new_page @ writeReportHeader X (now w3) d @ writeEvidenceSummary X items @
    writeCustodyTable X events @ writeHashChainStatus X events @ writeFooter X (now (tick w3))"
  have out: "rp_output X ?pdf = Inr bytes"
    using assms d i e by (auto simp: GenerateCustodyPDF_def Let_def split: prod.splits sum.splits)
  have "custody_log w2 = custody_log w"
    using only_ticks_custody_log [OF report_page(2) [OF i]] c(2) by simp
  then have ev: "events = case_events k w" using query_rows_ok [OF e [unfolded ListAllByCase_def]] by simp
  have it: "items = take 200 (shown_items k (evidence_items w))" using report_page(1) [OF i] c(2) by simp
  note parts = sets_lines_append [OF sets_new_page sets_lines_append [OF sets_header sets_lines_append [OF sets_evidence_table
    sets_lines_append [OF sets_custody_table sets_lines_append [OF sets_chain sets_footer]]]]]
  have "pdf_lines ?pdf = case_report_lines X c items events (now w3) (now (tick w3))"
    using sets_lines_pdf [OF parts] unfolding c(3) case_report_lines_def by simp
  with out c(1) show ?thesis unfolding it ev by blast
qed

lemma chain_line:
  "[''Chain Status:'', s] \<in> set (case_report_lines X c items events t t') \<longleftrightarrow> s = verdict (rp_lib X) events"
  by (auto simp: case_report_lines_def report_head_def item_row_def custody_table_def event_row_def chain_lines_def
      report_foot_def evidence_columns_def custody_columns_def)

text \<open>
  The report of a case shows the reference, title and jurisdiction of the case, every entry of its
  custody log in order with the number of entries, and of its evidence the newest 200 current items
  that are not destroyed, each row with the fields of the code, long ones cut: the evidence beyond
  200 is left out without a note.
\<close>

theorem case_report_shows:
  assumes "GenerateCustodyPDF X k w = (Inr bytes, w')"
  shows "\<exists>pdf c t t'. rp_output X pdf = Inr bytes \<and> find_case k (cases_table w) = Some c \<and>
    pdf_lines pdf =
      report_head X t c @
      [[''Evidence Items''], map snd evidence_columns] @ map (item_row X) (take 200 (shown_items k (evidence_items w))) @
      [[''Custody Chain''], map snd custody_columns] @ map (event_row X) (case_events k w) @
      [[''Hash Chain Verification''], [''Total Entries:'', itoa (int (length (case_events k w)))],
       [''Chain Status:'', verdict (rp_lib X) (case_events k w)]] @ report_foot X t'"
  using case_report_text [OF assms] by (simp add: case_report_lines_def custody_table_def chain_lines_def)

text \<open>
  C26: The verifier accepts the log of a case exactly when the report says that the chain is intact
  and, which the report does not look at, the first entry has its own hash and no predecessor and
  every entry names the hash of the one before it.
\<close>

theorem report_verdict:
  assumes "GenerateCustodyPDF X k w = (Inr bytes, w')" "VerifyCaseChain (rp_lib X) k v = (Inr cv, v')"
    and "custody_log v = custody_log w"
  shows "\<exists>pdf. rp_output X pdf = Inr bytes \<and>
    (cv_Valid cv \<longleftrightarrow> [''Chain Status:'', ''VERIFIED - Chain is intact''] \<in> set (pdf_lines pdf) \<and>
       first_kept (rp_lib X) (case_events k w) \<and> links_kept (case_events k w))"
proof -
  obtain pdf c t t' where pdf: "rp_output X pdf = Inr bytes"
      "pdf_lines pdf = case_report_lines X c (take 200 (shown_items k (evidence_items w))) (case_events k w) t t'"
    using case_report_text [OF assms(1)] by blast
  have "cv_Valid cv = custody_chained (rp_lib X) [] (case_events k w)"
    using VerifyCaseChain_ok(1) [OF assms(2)] assms(3) by simp
  with pdf show ?thesis unfolding chained_verdict by (metis chain_line)
qed

text \<open>The report does not notice a first entry with other content, as long as its column has the old hash.\<close>

lemma verdict_blind:
  "ev_HashValue d' = ev_HashValue d \<Longrightarrow> verdict L (d' # es) = verdict L (d # es)"
  by (cases es) (simp_all add: verdict_def chain_gaps_def)

section \<open>The report of one item\<close>

text \<open>
  The report of one item shows its details and of its custody entries the newest 200, newest
  first, although it asks for ten thousand: the limit is cut down by the repository, and older
  entries, the upload among them, are left out without a note.
\<close>

theorem evidence_report_newest:
  assumes "GenerateEvidenceCustodyPDF X i w = (Inr bytes, w')"
  shows "\<exists>pdf item c t t'. rp_output X pdf = Inr bytes \<and> find_item i (evidence_items w) = Some item \<and>
    find_case (ei_CaseID item) (cases_table w) = Some c \<and>
    pdf_lines pdf =
      report_head X t c @ [''Evidence Item Detail''] # map (\<lambda>(l, v). [l @ '':'', v]) (detail_fields X item) @
      [[''Custody Chain''], map snd custody_columns] @
      map (event_row X) (map scan_event (page_rows ''evidence_id'' i None 200 (custody_log w))) @ report_foot X t'"
proof -
  obtain item w1 where it: "evidence_FindByID i w = (Inr item, w1)"
    using assms by (auto simp: GenerateEvidenceCustodyPDF_def split: prod.splits sum.splits)
  obtain d w2 where d: "case_report_FindByID (ei_CaseID item) w1 = (Inr d, w2)"
    using assms it by (auto simp: GenerateEvidenceCustodyPDF_def split: prod.splits sum.splits)
  then obtain c where c: "find_case (ei_CaseID item) (cases_table w1) = Some c" "w2 = tick w1"
      "d = \<lparr>cd_ID = c_ID c, cd_ReferenceCode = c_ReferenceCode c, cd_Title = c_Title c,
         cd_Jurisdiction = c_Jurisdiction c, cd_Status = c_Status c\<rparr>"
    using case_report_case by blast
  obtain events n w3 where e: "ListByEvidence (rp_lib X) i 10000 [] w2 = (Inr (events, n), w3)"
    using assms it d by (auto simp: GenerateEvidenceCustodyPDF_def split: prod.splits sum.splits)
  let ?pdf = "new_page @ writeReportHeader X (now w3) d @ writeSingleEvidenceDetail X item @
    writeCustodyTable X events @ writeFooter X (now (tick w3))"
  have out: "rp_output X ?pdf = Inr bytes"
    using assms it d e by (auto simp: GenerateEvidenceCustodyPDF_def Let_def split: prod.splits sum.splits)
  have w1: "w1 = tick w" "find_item i (evidence_items w) = Some item"
    using it by (auto simp: evidence_FindByID_def split: option.splits)
  have ev: "events = map scan_event (page_rows ''evidence_id'' i None 200 (custody_log w))"
    using custody_list_ok [OF e [unfolded ListByEvidence_def]] c(2) w1(1) by (simp add: custody_limit_def)
  note parts = sets_lines_append [OF sets_new_page sets_lines_append [OF sets_header sets_lines_append [OF sets_detail
    sets_lines_append [OF sets_custody_table sets_footer]]]]
  have "pdf_lines ?pdf = report_head X (now w3) c @ ([''Evidence Item Detail''] # map (\<lambda>(l, v). [l @ '':'', v]) (detail_fields X item)) @
      custody_table X events @ report_foot X (now (tick w3))"
    using sets_lines_pdf [OF parts] unfolding c(3) by simp
  with out c(1) w1 show ?thesis unfolding ev custody_table_def by (intro exI conjI) (assumption | simp)+
qed

section \<open>Who gets a report\<close>

lemma reports_refused:
  assumes "RequireSystemRole RoleCaseAdmin True c r = (Answered status msg, log)"
  shows "serve_report X rt r c w = ((RespondError status msg, log), w)"
  using assms by (simp add: serve_report_def gated_def)

text \<open>On a database without faults every case that exists has a report.\<close>

lemma case_report_succeeds:
  assumes "no_faults w" "find_case k (cases_table w) = Some c" "\<And>pdf. \<exists>bytes. rp_output X pdf = Inr bytes"
  shows "\<exists>bytes w'. GenerateCustodyPDF X k w = (Inr bytes, w')"
proof -
  let ?p = "\<lparr>pg_Limit = 200, pg_Cursor = []\<rparr>"
  obtain d where d: "case_report_FindByID k w = (Inr d, tick w)"
    using assms(1,2) by (simp add: case_report_FindByID_def repo_FindByID_def fault_none)
  have n: "no_faults (tick w)" using assms(1) by simp
  have "fst (query_rows fq fs fi rows (tick (tick w))) = Inr rows" for fq fs fi and rows :: "EvidenceItem list"
    by (rule query_rows_no_faults) (simp add: assms(1))
  then have "\<exists>es. fst (evidence_FindByCase (rp_evidence X) (report_filter k) ?p (tick w)) = Inr es"
    by (simp add: FindByCase_result Let_def evidence_clamp_def fault_none [OF n])
  then obtain items m w2 where i: "evidence_FindByCase (rp_evidence X) (report_filter k) ?p (tick w) = (Inr (items, m), w2)"
    by (metis prod.collapse)
  have "no_faults w2" using only_ticks_no_faults [OF report_page(2) [OF i]] n by simp
  then have "\<exists>es. fst (ListAllByCase k w2) = Inr es" unfolding ListAllByCase_def by (metis query_rows_no_faults)
  then obtain events w3 where e: "ListAllByCase k w2 = (Inr events, w3)" by (metis prod.collapse)
  let ?pdf = "new_page @ writeReportHeader X (now w3) d @ writeEvidenceSummary X items @
    writeCustodyTable X events @ writeHashChainStatus X events @ writeFooter X (now (tick w3))"
  obtain bytes where "rp_output X ?pdf = Inr bytes" using assms(3) by blast
  with d i e show ?thesis by (simp add: GenerateCustodyPDF_def Let_def)
qed

section \<open>A concrete report\<close>

definition sample_report_env :: report_env where
  "sample_report_env = \<lparr>rp_evidence = sample_evidence_env, rp_local = (\<lambda>l t. itoa t), rp_output = (\<lambda>pdf. Inr ''%PDF'')\<rparr>"

definition sample_report_db :: evidence_db where
  "sample_report_db =
     (sample_evidence_db (\<lambda>n. None) [sample_case 7 ''ICC-1'' ''active'' False] [sample_item 1 None 1 None])
       \<lparr>custody_log := custody_log (tamper_db ''aa'')\<rparr>"

lemma sample_report_sel:
  "no_faults sample_report_db" "find_case 7 (cases_table sample_report_db) = Some (sample_case 7 ''ICC-1'' ''active'' False)"
  "rp_lib sample_report_env = sample_lib" "custody_log sample_report_db = custody_log (tamper_db ''aa'')"
  "evidence_items sample_report_db = [sample_item 1 None 1 None]" "w_fault sample_report_db n = None"
  by (simp_all add: sample_report_db_def sample_report_env_def no_faults_def find_case_def sample_case_def)

lemma sample_report: "\<exists>bytes w'. GenerateCustodyPDF sample_report_env 7 sample_report_db = (Inr bytes, w')"
  by (rule case_report_succeeds [OF sample_report_sel(1,2)]) (simp add: sample_report_env_def)

lemma sample_report_events:
  "case_events 7 sample_report_db = [tamper_first ''aa'', tamper_second (ev_HashValue (tamper_first ''aa''))]"
  using tamper_case [of "''aa''"] by (simp add: sample_report_sel)

theorem case_report_shows_witness:
  "\<exists>bytes w' pdf. GenerateCustodyPDF sample_report_env 7 sample_report_db = (Inr bytes, w') \<and>
     [''Case Reference:'', ''ICC-1''] \<in> set (pdf_lines pdf) \<and> [''Total Entries:'', ''2''] \<in> set (pdf_lines pdf)"
proof -
  obtain bytes w' where g: "GenerateCustodyPDF sample_report_env 7 sample_report_db = (Inr bytes, w')"
    using sample_report by blast
  have "itoa 2 = ''2''" by code_simp
  moreover have "length (case_events 7 sample_report_db) = 2" by (simp add: sample_report_events)
  moreover have "c_ReferenceCode (sample_case 7 ''ICC-1'' ''active'' False) = ''ICC-1''" by (simp add: sample_case_def)
  ultimately have "\<exists>pdf. [''Case Reference:'', ''ICC-1''] \<in> set (pdf_lines pdf) \<and> [''Total Entries:'', ''2''] \<in> set (pdf_lines pdf)"
    using case_report_shows [OF g] unfolding sample_report_sel
    apply (elim exE conjE)
    subgoal for pdf by (rule exI [of _ pdf]) (auto simp: report_head_def)
    done
  with g show ?thesis by blast
qed

theorem report_verdict_witness:
  "\<exists>bytes w' cv v' pdf. GenerateCustodyPDF sample_report_env 7 sample_report_db = (Inr bytes, w') \<and>
     VerifyCaseChain sample_lib 7 sample_report_db = (Inr cv, v') \<and> cv_Valid cv \<and>
     [''Chain Status:'', ''VERIFIED - Chain is intact''] \<in> set (pdf_lines pdf)"
proof -
  obtain bytes w' where g: "GenerateCustodyPDF sample_report_env 7 sample_report_db = (Inr bytes, w')"
    using sample_report by blast
  obtain cv v' where v: "VerifyCaseChain sample_lib 7 sample_report_db = (Inr cv, v')"
    using VerifyCaseChain_returns [OF sample_report_sel(1)] by blast
  have "custody_chained sample_lib [] (case_events 7 sample_report_db)"
    using tamper_valid [of "''aa''"] VerifyCaseChain_ok(1) [of sample_lib 7 "tamper_db ''aa''"] tamper_case [of "''aa''"]
    unfolding sample_report_events by auto
  then have "cv_Valid cv" using VerifyCaseChain_ok(1) [OF v] by simp
  with report_verdict [OF g, of sample_report_db cv v'] v g show ?thesis
    by (auto simp: sample_report_sel)
qed

theorem evidence_report_newest_witness:
  "\<exists>bytes w' pdf. GenerateEvidenceCustodyPDF sample_report_env 1 sample_report_db = (Inr bytes, w') \<and>
     [''Filename:'', ''a.txt''] \<in> set (pdf_lines pdf)"
proof -
  let ?w = sample_report_db
  have it: "evidence_FindByID 1 ?w = (Inr (sample_item 1 None 1 None), tick ?w)"
    by (simp add: evidence_FindByID_def sample_report_sel fault_none find_item_def sample_item_def)
  obtain d where d: "case_report_FindByID 7 (tick ?w) = (Inr d, tick (tick ?w))"
    by (simp add: case_report_FindByID_def repo_FindByID_def sample_report_sel fault_none)
  have "\<exists>p. fst (ListByEvidence sample_lib 1 10000 [] (tick (tick ?w))) = Inr p"
    unfolding ListByEvidence_def by (rule custody_list_no_faults) (simp_all add: sample_report_sel)
  then obtain events n w3 where e: "ListByEvidence sample_lib 1 10000 [] (tick (tick ?w)) = (Inr (events, n), w3)"
    by (metis prod.collapse)
  have "ei_CaseID (sample_item 1 None 1 None) = 7" by (simp add: sample_item_def)
  with it d e obtain bytes w' where g: "GenerateEvidenceCustodyPDF sample_report_env 1 ?w = (Inr bytes, w')"
    by (simp add: GenerateEvidenceCustodyPDF_def Let_def sample_report_sel(3)) (simp add: sample_report_env_def)
  have "\<exists>pdf item. find_item 1 (evidence_items ?w) = Some item \<and> [''Filename:'', ei_Filename item] \<in> set (pdf_lines pdf)"
    using evidence_report_newest [OF g]
    apply (elim exE conjE)
    subgoal for pdf item by (rule exI [of _ pdf], rule exI [of _ item]) (simp add: detail_fields_def)
    done
  then obtain pdf item where p: "find_item 1 (evidence_items ?w) = Some item" "[''Filename:'', ei_Filename item] \<in> set (pdf_lines pdf)"
    by blast
  then have "item = sample_item 1 None 1 None" by (simp add: sample_report_sel find_item_def sample_item_def)
  with p(2) g show ?thesis by (auto simp: sample_item_def)
qed

end
