(* ===== verification/Evidence_Media.thy ===== *)
theory Evidence_Media
  imports Go_Http Complex_Main
begin

text \<open>
  \<open>internal/evidence/thumbnail.go\<close> and \<open>exif.go\<close>: which files get a thumbnail, how large it is, and what
  is kept of the EXIF data of a picture. Decoding, scaling and encoding of pictures and the package
  \<open>goexif\<close> are parameters; the arithmetic on \<open>float64\<close> that fixes the size is written out.
\<close>

section \<open>Arithmetic on float64\<close>

text \<open>
  The value of an operation is its exact result, rounded to 53 significant bits, to even on a tie
  (IEEE 754 in the range of normal numbers, which the operands below do not leave).
\<close>

function f64_exponent :: "rat \<Rightarrow> int" where
  \<comment> \<open>\<open>e\<close> with \<open>2 ^ e \<le> x < 2 ^ (e + 1)\<close>, for positive \<open>x\<close>\<close>
  "f64_exponent x =
     (if x \<le> 0 then 0 else if x < 1 then f64_exponent (2 * x) - 1 else if x < 2 then 0 else f64_exponent (x / 2) + 1)"
  by pat_completeness auto
termination
proof (relation "measure (\<lambda>x. if x \<ge> 1 then nat \<lfloor>x\<rfloor> - 1 else nat \<lfloor>1 / x\<rfloor>)", goal_cases)
  case (2 x)
  then have x: "0 < x" "x < 1" by simp_all
  show ?case
  proof (cases "1 \<le> 2 * x")
    case True
    have "\<lfloor>2 * x\<rfloor> < 2" using x by (simp add: floor_less_iff)
    then have "nat \<lfloor>2 * x\<rfloor> - 1 = 0" by linarith
    moreover have "1 \<le> \<lfloor>1 / x\<rfloor>" using x by (simp add: le_floor_iff)
    then have "0 < nat \<lfloor>1 / x\<rfloor>" by linarith
    ultimately show ?thesis using True x by simp
  next
    case False
    have "\<lfloor>1 / (2 * x)\<rfloor> < \<lfloor>1 / x\<rfloor>"
    proof -
      have "2 < 1 / x" using False x by (simp add: field_simps)
      then have "1 / (2 * x) + 1 \<le> 1 / x" by (simp add: field_simps)
      then have "\<lfloor>1 / (2 * x) + 1\<rfloor> \<le> \<lfloor>1 / x\<rfloor>" by (rule floor_mono)
      then show ?thesis by simp
    qed
    moreover have "0 \<le> \<lfloor>1 / (2 * x)\<rfloor>" using x by simp
    ultimately show ?thesis using False x by simp
  qed
next
  case (3 x)
  then have "x / 2 + 1 \<le> x" by simp
  then have "\<lfloor>x / 2 + 1\<rfloor> \<le> \<lfloor>x\<rfloor>" by (rule floor_mono)
  moreover have "1 \<le> \<lfloor>x / 2\<rfloor>" using 3 by (simp add: le_floor_iff)
  ultimately have "nat \<lfloor>x / 2\<rfloor> - 1 < nat \<lfloor>x\<rfloor> - 1" by linarith
  then show ?case using 3 by simp
qed simp

declare f64_exponent.simps [simp del]

definition round_even :: "rat \<Rightarrow> int" where
  "round_even y =
     (let f = \<lfloor>y\<rfloor>; r = y - of_int f in
      if r < 1 / 2 then f else if r > 1 / 2 then f + 1 else if even f then f else f + 1)"

definition f64 :: "rat \<Rightarrow> rat" where
  "f64 x = (if x \<le> 0 then 0 else let u = 2 powi (f64_exponent x - 52) in of_int (round_even (x / u)) * u)"
    \<comment> \<open>of a non-negative value\<close>

lemma f64_exponent_bounds: "0 < x \<Longrightarrow> 2 powi f64_exponent x \<le> x \<and> x < 2 powi (f64_exponent x + 1)"
proof (induction x rule: f64_exponent.induct)
  case (1 x)
  show ?case
  proof (cases "x < 1")
    case True
    with 1 have "2 powi f64_exponent (2 * x) \<le> 2 * x \<and> 2 * x < 2 powi (f64_exponent (2 * x) + 1)" by simp
    with True 1(3) show ?thesis
      by (subst (1 2) f64_exponent.simps) (simp add: power_int_diff power_int_add)
  next
    case False
    show ?thesis
    proof (cases "x < 2")
      case True
      with False 1(3) show ?thesis by (subst (1 2) f64_exponent.simps) simp
    next
      case f: False
      with 1 False have "2 powi f64_exponent (x / 2) \<le> x / 2 \<and> x / 2 < 2 powi (f64_exponent (x / 2) + 1)" by simp
      with False f 1(3) show ?thesis
        by (subst (1 2) f64_exponent.simps) (simp add: power_int_add)
    qed
  qed
qed

lemma round_even_error: "\<bar>of_int (round_even y) - y\<bar> \<le> 1 / 2"
proof -
  have "of_int \<lfloor>y\<rfloor> \<le> y" "y < of_int \<lfloor>y\<rfloor> + 1" by linarith+
  then show ?thesis by (auto simp: round_even_def Let_def)
qed

text \<open>The relative error is at most half a unit in the last place.\<close>

lemma f64_error:
  assumes "0 < x"
  shows "\<bar>f64 x - x\<bar> \<le> x / 2 ^ 53"
proof -
  define u :: rat where "u = 2 powi (f64_exponent x - 52)"
  have u: "0 < u" by (simp add: u_def)
  have "u * 2 ^ 52 \<le> x"
    using f64_exponent_bounds [OF assms] by (simp add: u_def power_int_diff)
  have "f64 x - x = (of_int (round_even (x / u)) - x / u) * u"
    using assms u by (simp add: f64_def u_def [symmetric] left_diff_distrib)
  then have "\<bar>f64 x - x\<bar> = \<bar>of_int (round_even (x / u)) - x / u\<bar> * u"
    using u by (simp add: abs_mult)
  also have "\<dots> \<le> 1 / 2 * u"
    using round_even_error [of "x / u"] u by (intro mult_right_mono) simp_all
  also have "\<dots> \<le> x / 2 ^ 53" using \<open>u * 2 ^ 52 \<le> x\<close> by simp
  finally show ?thesis .
qed

lemma f64_int:
  assumes "0 \<le> n" "n < 2 ^ 53"
  shows "f64 (of_int n) = of_int n"
proof (cases "n = 0")
  case False
  with assms have n: "0 < (of_int n :: rat)" by simp
  let ?e = "f64_exponent (of_int n)"
  have "(of_int n :: rat) < of_int (2 ^ 53)" using assms(2) by (rule of_int_less_iff [THEN iffD2])
  then have "2 powi ?e < (2 :: rat) powi 53" using f64_exponent_bounds [OF n] by simp
  then have "?e < 53" using power_int_increasing [of 53 ?e "2 :: rat"] by linarith
  then have "(2 :: rat) powi (?e - 52) = inverse (2 ^ nat (52 - ?e))"
    by (simp add: power_int_def power_inverse [symmetric] inverse_eq_divide power_one_over)
  then have "of_int n / (2 :: rat) powi (?e - 52) = of_int (n * 2 ^ nat (52 - ?e))"
    by (simp add: divide_inverse)
  then have "round_even (of_int n / 2 powi (?e - 52)) = n * 2 ^ nat (52 - ?e)"
    by (simp add: round_even_def del: of_int_mult)
  with n \<open>2 powi (?e - 52) = inverse (2 ^ nat (52 - ?e))\<close> show ?thesis
    by (simp add: f64_def)
qed (simp add: f64_def)

section \<open>Thumbnails\<close>

definition thumbnailMaxWidth :: int where "thumbnailMaxWidth = 300"
definition thumbnailMaxHeight :: int where "thumbnailMaxHeight = 300"

definition fitDimensions :: "int \<Rightarrow> int \<Rightarrow> int \<Rightarrow> int \<Rightarrow> int \<times> int" where
  "fitDimensions srcW srcH maxW maxH =
     (if srcW \<le> maxW \<and> srcH \<le> maxH then (srcW, srcH)
      else
        let ratioW = f64 (f64 (of_int maxW) / f64 (of_int srcW));
            ratioH = f64 (f64 (of_int maxH) / f64 (of_int srcH));
            ratio = (if ratioH < ratioW then ratioH else ratioW)
        in (\<lfloor>f64 (f64 (of_int srcW) * ratio)\<rfloor>, \<lfloor>f64 (f64 (of_int srcH) * ratio)\<rfloor>))"

definition isThumbnailSupported :: "(string \<Rightarrow> string) \<Rightarrow> string \<Rightarrow> bool" where
  \<comment> \<open>\<open>lower\<close> is \<open>strings.ToLower\<close>\<close>
  "isThumbnailSupported lower mimeType \<longleftrightarrow>
     lower mimeType \<in> set [''image/jpeg'', ''image/jpg'', ''image/png'', ''image/gif'', ''image/webp'']"

text \<open>
  The image packages: the decoded picture with its width and height, scaling it to a size with
  \<open>draw.CatmullRom\<close>, and \<open>jpeg.Encode\<close> with the quality 85.
\<close>

record 'p image_lib =
  il_decode :: "string \<Rightarrow> go_error + 'p"
  il_width :: "'p \<Rightarrow> int"
  il_height :: "'p \<Rightarrow> int"
  il_scale :: "int \<Rightarrow> int \<Rightarrow> 'p \<Rightarrow> 'p"
  il_jpeg :: "'p \<Rightarrow> string"

definition Generate :: "(string \<Rightarrow> string) \<Rightarrow> 'p image_lib \<Rightarrow> string \<Rightarrow> string \<Rightarrow> go_error + string option" where
  "Generate lower G data mimeType =
     (if \<not> isThumbnailSupported lower mimeType then Inr None
      else
        case il_decode G data of
          Inl err \<Rightarrow> Inl (wrapf ''decode image for thumbnail'' err)
        | Inr src \<Rightarrow>
            let srcW = il_width G src; srcH = il_height G src in
            if srcW = 0 \<or> srcH = 0 then Inr None
            else
              case fitDimensions srcW srcH thumbnailMaxWidth thumbnailMaxHeight of
                (dstW, dstH) \<Rightarrow> Inr (Some (il_jpeg G (il_scale G dstW dstH src))))"

lemma f64_bounds:
  assumes "0 < x" "x \<le> b" shows "f64 x \<le> b * (1 + 1 / 2 ^ 53)" "x * (1 - 1 / 2 ^ 53) \<le> f64 x" "0 < f64 x"
proof -
  have e: "\<bar>f64 x - x\<bar> \<le> x / 2 ^ 53" by (rule f64_error [OF assms(1)])
  have "x * (1 - 1 / 2 ^ 53) = x - x / 2 ^ 53"
    by (simp only: right_diff_distrib mult_1_right times_divide_eq_right)
  with e show "x * (1 - 1 / 2 ^ 53) \<le> f64 x" by linarith
  moreover have "0 < x * (1 - 1 / 2 ^ 53)" using assms(1) by simp
  ultimately show "0 < f64 x" by linarith
  have "x * (1 + 1 / 2 ^ 53) = x + x / 2 ^ 53"
    by (simp only: distrib_left mult_1_right times_divide_eq_right)
  with e have "f64 x \<le> x * (1 + 1 / 2 ^ 53)" by linarith
  also have "\<dots> \<le> b * (1 + 1 / 2 ^ 53)" using assms(2) by (intro mult_right_mono) simp_all
  finally show "f64 x \<le> b * (1 + 1 / 2 ^ 53)" .
qed

lemma scaled_below:
  assumes "0 < n" "0 < r" "r \<le> f64 (300 / n)"
  shows "f64 (n * r) < 301"
proof -
  have "f64 (300 / n) \<le> 300 / n * (1 + 1 / 2 ^ 53)" using assms(1) by (intro f64_bounds(1)) simp_all
  with assms(3) have "r \<le> 300 / n * (1 + 1 / 2 ^ 53)" by linarith
  then have "n * r \<le> n * (300 / n * (1 + 1 / 2 ^ 53))" using assms(1) by (intro mult_left_mono) simp_all
  then have "n * r \<le> 300 * (1 + 1 / 2 ^ 53)" using assms(1) by simp
  then have "f64 (n * r) \<le> 300 * (1 + 1 / 2 ^ 53) * (1 + 1 / 2 ^ 53)"
    using assms(1,2) by (intro f64_bounds(1)) simp_all
  then show ?thesis by simp
qed

lemma scaled_smaller:
  assumes "0 < n" "0 < r" "r \<le> f64 (300 / m)" "301 \<le> m"
  shows "f64 (n * r) < n"
proof -
  have "f64 (300 / m) \<le> 300 / 301 * (1 + 1 / 2 ^ 53)"
    using assms(4) by (intro f64_bounds(1)) (simp_all add: field_simps)
  with assms(3) have "r \<le> 300 / 301 * (1 + 1 / 2 ^ 53)" by linarith
  then have "n * r \<le> n * (300 / 301 * (1 + 1 / 2 ^ 53))" using assms(1) by (intro mult_left_mono) simp_all
  then have "f64 (n * r) \<le> n * (300 / 301 * (1 + 1 / 2 ^ 53)) * (1 + 1 / 2 ^ 53)"
    using assms(1,2) by (intro f64_bounds(1)) simp_all
  also have "\<dots> < n" using assms(1) by simp
  finally show ?thesis .
qed

lemma scaled_above:
  assumes "0 < n"
  shows "299 < f64 (n * f64 (300 / n))"
proof -
  let ?r = "f64 (300 / n)"
  have "0 < 300 / n" using assms by simp
  note r = f64_bounds(2,3) [OF this order_refl]
  then have "n * (300 / n * (1 - 1 / 2 ^ 53)) \<le> n * ?r" using assms by (intro mult_left_mono) simp_all
  then have "300 * (1 - 1 / 2 ^ 53) \<le> n * ?r" using assms by simp
  moreover have "n * ?r * (1 - 1 / 2 ^ 53) \<le> f64 (n * ?r)"
    using assms r(2) by (intro f64_bounds(2) [OF _ order_refl]) simp_all
  ultimately show ?thesis by simp
qed

text \<open>
  C40: A thumbnail fits into 300 by 300 and is no larger than the picture in either direction; a picture
  that fits keeps its size, and any other is scaled until its longer side has 299 or 300 pixels,
  whatever the rounding of the quotient does.
\<close>

theorem thumbnail_fits:
  assumes "0 < w" "0 < h" "w < 2 ^ 53" "h < 2 ^ 53"
    and "fitDimensions w h thumbnailMaxWidth thumbnailMaxHeight = (w', h')"
  shows "0 \<le> w' \<and> w' \<le> w \<and> w' \<le> 300 \<and> 0 \<le> h' \<and> h' \<le> h \<and> h' \<le> 300 \<and>
    (if w \<le> 300 \<and> h \<le> 300 then w' = w \<and> h' = h else 299 \<le> max w' h')"
proof (cases "w \<le> 300 \<and> h \<le> 300")
  case True
  with assms show ?thesis by (simp add: fitDimensions_def thumbnailMaxWidth_def thumbnailMaxHeight_def)
next
  case False
  let ?W = "of_int w :: rat" let ?H = "of_int h :: rat"
  let ?rW = "f64 (300 / ?W)" let ?rH = "f64 (300 / ?H)"
  define r where "r = (if ?rH < ?rW then ?rH else ?rW)"
  have p: "0 < ?W" "0 < ?H" using assms(1,2) by simp_all
  have r: "r \<le> ?rW" "r \<le> ?rH" "0 < r" "r = ?rW \<or> r = ?rH"
    using f64_bounds(3) [of "300 / ?W" "300 / ?W"] f64_bounds(3) [of "300 / ?H" "300 / ?H"] p by (auto simp: r_def)
  have f: "f64 300 = 300" using f64_int [of 300] by simp
  have i: "f64 ?W = ?W" "f64 ?H = ?H" using assms(1-4) by (simp_all add: f64_int)
  have d: "w' = \<lfloor>f64 (?W * r)\<rfloor>" "h' = \<lfloor>f64 (?H * r)\<rfloor>"
    using assms(5) False by (auto simp: fitDimensions_def thumbnailMaxWidth_def thumbnailMaxHeight_def i f Let_def r_def)
  obtain m where m: "301 \<le> (of_int m :: rat)" "r \<le> f64 (300 / of_int m)"
  proof (cases "w \<le> 300")
    case True
    then have "301 \<le> h" using False by simp
    then have "301 \<le> ?H" by (metis of_int_le_iff of_int_numeral)
    then show ?thesis using r(2) by (rule that)
  next
    case w: False
    then have "301 \<le> w" by simp
    then have "301 \<le> ?W" by (metis of_int_le_iff of_int_numeral)
    then show ?thesis using r(1) by (rule that)
  qed
  have "0 < f64 (?W * r)" "0 < f64 (?H * r)" using p r(3) by (auto intro: f64_bounds(3))
  moreover have "f64 (?W * r) < 301" "f64 (?H * r) < 301" using p r by (auto intro: scaled_below)
  moreover have "f64 (?W * r) < ?W" "f64 (?H * r) < ?H" using p r(3) m by (auto intro: scaled_smaller)
  moreover have "299 < f64 (?W * r) \<or> 299 < f64 (?H * r)" using scaled_above [OF p(1)] scaled_above [OF p(2)] r(4) by metis
  ultimately show ?thesis using False unfolding d by (auto simp: le_floor_iff floor_le_iff floor_less_iff le_max_iff_disj)
qed

text \<open>
  The shorter side may vanish: a picture of 1000 by 1 pixels gets a thumbnail without a row.
\<close>

lemma thumbnail_may_vanish: "snd (fitDimensions 1000 1 thumbnailMaxWidth thumbnailMaxHeight) = 0"
proof -
  have i: "f64 300 = 300" "f64 1000 = 1000" "f64 1 = 1"
    using f64_int [of 300] f64_int [of 1000] f64_int [of 1] by simp_all
  have a: "0 < f64 (3 / 10)" "f64 (3 / 10) \<le> 1 / 2"
    using f64_bounds(1,3) [of "3 / 10" "3 / 10"] by simp_all
  moreover have "0 < f64 (f64 (3 / 10))" "f64 (f64 (3 / 10)) < 1"
    using f64_bounds(1,3) [OF a] by simp_all
  ultimately show ?thesis
    by (simp add: fitDimensions_def thumbnailMaxWidth_def thumbnailMaxHeight_def i Let_def floor_eq_iff)
qed

theorem thumbnail_fits_witness:
  "\<exists>w' h'. fitDimensions 4000 3000 thumbnailMaxWidth thumbnailMaxHeight = (w', h') \<and> w' \<le> 300 \<and> h' \<le> 300 \<and> 299 \<le> max w' h'"
proof -
  obtain w' h' where f: "fitDimensions 4000 3000 thumbnailMaxWidth thumbnailMaxHeight = (w', h')" by fastforce
  from thumbnail_fits [OF _ _ _ _ f] f show ?thesis by simp
qed

section \<open>EXIF data\<close>

text \<open>
  The package \<open>goexif\<close>: a tag has a text (\<open>String()\<close>) and maybe an integer (\<open>Int(0)\<close>), a position is two
  values of type \<open>float64\<close>, which are not numbers when a denominator in the file is zero.
\<close>

record exif_tag =
  xt_text :: string
  xt_int :: "int option"

datatype float_value = Finite int int \<comment> \<open>\<open>m * 10 ^ e\<close>\<close> | NotFinite

record exif_data =
  xd_tag :: "string \<Rightarrow> exif_tag option"
  xd_position :: "(float_value \<times> float_value) option"

record ExifMetadata =
  em_CameraMake :: string
  em_CameraModel :: string
  em_DateTime :: string
  em_GPSLat :: "float_value option"
  em_GPSLong :: "float_value option"
  em_GPSAlt :: "float_value option"
  em_Software :: string
  em_Orientation :: int
  em_Width :: int
  em_Height :: int

definition isEXIFSupported :: "(string \<Rightarrow> string) \<Rightarrow> string \<Rightarrow> bool" where
  "isEXIFSupported lower mimeType \<longleftrightarrow> lower mimeType \<in> set [''image/jpeg'', ''image/tiff'', ''image/jpg'']"

definition cleanExifString :: "string \<Rightarrow> string" where
  "cleanExifString s =
     trim_space (rev (dropWhile (\<lambda>c. c = CHR 0x22) (rev (dropWhile (\<lambda>c. c = CHR 0x22) s))))"

definition exif_text :: "exif_data \<Rightarrow> string \<Rightarrow> string" where
  \<comment> \<open>\<open>if tag, err := x.Get(name); err == nil\<close> and the text of the tag\<close>
  "exif_text x name = (case xd_tag x name of None \<Rightarrow> [] | Some tag \<Rightarrow> cleanExifString (xt_text tag))"

definition exif_int :: "exif_data \<Rightarrow> string \<Rightarrow> int" where
  "exif_int x name = (case xd_tag x name of None \<Rightarrow> 0 | Some tag \<Rightarrow> (case xt_int tag of None \<Rightarrow> 0 | Some v \<Rightarrow> v))"

definition exif_metadata :: "exif_data \<Rightarrow> ExifMetadata" where
  "exif_metadata x =
     \<lparr>em_CameraMake = exif_text x ''Make'', em_CameraModel = exif_text x ''Model'', em_DateTime = exif_text x ''DateTime'',
      em_GPSLat = map_option fst (xd_position x), em_GPSLong = map_option snd (xd_position x), em_GPSAlt = None,
      em_Software = exif_text x ''Software'', em_Orientation = exif_int x ''Orientation'',
      em_Width = exif_int x ''PixelXDimension'', em_Height = exif_int x ''PixelYDimension''\<rparr>"

fun float_json :: "float_value \<Rightarrow> json option" where
  \<comment> \<open>\<open>encoding/json\<close> has no text for infinities and \<open>NaN\<close>\<close>
  "float_json (Finite m e) = Some (JNumber m e)"
| "float_json NotFinite = None"

definition omit_empty ::
  "string \<Rightarrow> bool \<Rightarrow> json option \<Rightarrow> (string \<times> json) list option \<Rightarrow> (string \<times> json) list option" where
  \<comment> \<open>a field with \<open>omitempty\<close> in front of the others\<close>
  "omit_empty name is_empty v rest =
     (if is_empty then rest else case v of None \<Rightarrow> None | Some j \<Rightarrow> map_option (Cons (name, j)) rest)"

definition text_field :: "string \<Rightarrow> string \<Rightarrow> (string \<times> json) list option \<Rightarrow> (string \<times> json) list option" where
  "text_field name s = omit_empty name (s = []) (Some (JString s))"

definition int_field :: "string \<Rightarrow> int \<Rightarrow> (string \<times> json) list option \<Rightarrow> (string \<times> json) list option" where
  "int_field name n = omit_empty name (n = 0) (Some (JNumber n 0))"

definition float_field :: "string \<Rightarrow> float_value option \<Rightarrow> (string \<times> json) list option \<Rightarrow> (string \<times> json) list option" where
  "float_field name x = omit_empty name (x = None) (case x of None \<Rightarrow> None | Some v \<Rightarrow> float_json v)"

definition exif_fields :: "ExifMetadata \<Rightarrow> (string \<times> json) list option" where
  "exif_fields m =
     (text_field ''camera_make'' (em_CameraMake m) \<circ> text_field ''camera_model'' (em_CameraModel m) \<circ>
      text_field ''date_time'' (em_DateTime m) \<circ> float_field ''gps_lat'' (em_GPSLat m) \<circ>
      float_field ''gps_long'' (em_GPSLong m) \<circ> float_field ''gps_alt'' (em_GPSAlt m) \<circ>
      text_field ''software'' (em_Software m) \<circ> int_field ''orientation'' (em_Orientation m) \<circ>
      int_field ''width'' (em_Width m) \<circ> int_field ''height'' (em_Height m)) (Some [])"

definition ExtractEXIF ::
  "(string \<Rightarrow> string) \<Rightarrow> go_lib \<Rightarrow> (string \<Rightarrow> exif_data option) \<Rightarrow> go_error + string \<Rightarrow> string
     \<Rightarrow> go_error + string option" where
  \<comment> \<open>\<open>decode\<close> is \<open>exif.Decode\<close>, \<open>reader\<close> what \<open>io.ReadAll\<close> gives; the error of \<open>json.Marshal\<close> is dropped\<close>
  "ExtractEXIF lower L decode reader mimeType =
     (if \<not> isEXIFSupported lower mimeType then Inr None
      else
        case reader of
          Inl err \<Rightarrow> Inl (wrapf ''read data for EXIF'' err)
        | Inr data \<Rightarrow>
            (case decode data of
               None \<Rightarrow> Inr None
             | Some x \<Rightarrow>
                 (case exif_fields (exif_metadata x) of
                    None \<Rightarrow> Inr None
                  | Some kvs \<Rightarrow> Inr (lib_json_print L (JObject kvs)))))"

lemma omit_empty_cases:
  "omit_empty name b v rest = None \<longleftrightarrow> \<not> b \<and> v = None \<or> rest = None"
  by (auto simp: omit_empty_def split: option.splits)

text \<open>
  Everything is dropped when the position is not a number, although the comment in the code says
  that the values always have an encoding: make, model and time of the picture are lost with it.
\<close>

lemma exif_lost:
  "exif_fields m = None \<longleftrightarrow> NotFinite \<in> set_option (em_GPSLat m) \<union> set_option (em_GPSLong m) \<union> set_option (em_GPSAlt m)"
proof -
  have t: "text_field name s r = None \<longleftrightarrow> r = None" "int_field name n r = None \<longleftrightarrow> r = None" for name s n r
    by (simp_all add: text_field_def int_field_def omit_empty_cases)
  have f: "float_field name x r = None \<longleftrightarrow> x = Some NotFinite \<or> r = None" for name x r
  proof (cases x)
    case (Some v)
    then show ?thesis by (cases v) (simp_all add: float_field_def omit_empty_cases)
  qed (simp add: float_field_def omit_empty_cases)
  show ?thesis by (simp add: exif_fields_def t f)
qed

lemma exif_lost_extract:
  assumes "isEXIFSupported lower mimeType" "decode data = Some x" "xd_position x = Some (lat, lon)" "lat = NotFinite \<or> lon = NotFinite"
  shows "ExtractEXIF lower L decode (Inr data) mimeType = Inr None"
proof -
  have "exif_fields (exif_metadata x) = None" using assms(3,4) by (auto simp: exif_lost exif_metadata_def)
  with assms(1,2) show ?thesis by (simp add: ExtractEXIF_def)
qed

text \<open>The text of a tag, a quoted string, is kept without its quotes and the space around it.\<close>

lemma clean_quoted:
  assumes "s \<noteq> []" "hd s \<noteq> CHR 0x22" "last s \<noteq> CHR 0x22"
  shows "cleanExifString (CHR 0x22 # s @ [CHR 0x22]) = trim_space s"
proof -
  have f: "dropWhile (\<lambda>c. c = CHR 0x22) (s @ [CHR 0x22]) = s @ [CHR 0x22]"
    using assms(1,2) by (cases s) simp_all
  have b: "dropWhile (\<lambda>c. c = CHR 0x22) (rev s) = rev s"
    using assms(1,3) by (cases s rule: rev_cases) simp_all
  show ?thesis by (simp add: cleanExifString_def f b)
qed

end
