(* ===== verification/Db_Migrate.thy ===== *)
theory Db_Migrate
  imports Pg_Calls Go_Path
begin

text \<open>
  \<open>internal/database/migrate.go\<close>: the migrations at start-up, under an advisory lock of the database.
  First \<open>doMigrate\<close> as a function with its deferred calls; then several replicas of the program that
  start at the same time, as a step relation whose steps are the requests of \<open>doMigrate\<close>, and what the
  lock gives: the migrations of two replicas never overlap, and none goes on with an old schema.
\<close>

section \<open>One run\<close>

text \<open>
  The package \<open>golang-migrate\<close>: creating its driver and the instance on a tick, and \<open>Up\<close>, which takes
  the schema to another one and may fail. Its documented error \<open>ErrNoChange\<close> says that there was nothing to do.
\<close>

record 's migrate_lib =
  ml_driver :: "nat \<Rightarrow> go_error option"
  ml_instance :: "nat \<Rightarrow> string \<Rightarrow> go_error option"
  ml_up :: "'s \<Rightarrow> go_error option \<times> 's"

definition ErrNoChange :: go_error where "ErrNoChange = ErrSentinel ''no change''"

text \<open>
  What the run holds: connections taken from the pool, the advisory lock, open handles of
  \<open>database/sql\<close> and open runners; and the schema of the database.
\<close>

record 's migrate_db = world +
  mg_taken :: nat
  mg_locked :: bool
  mg_handles :: nat
  mg_runners :: nat
  mg_schema :: 's

lemma migrate_tick [simp]:
  "mg_taken (tick w) = mg_taken w" "mg_locked (tick w) = mg_locked w" "mg_handles (tick w) = mg_handles w"
  "mg_runners (tick w) = mg_runners w" "mg_schema (tick w) = mg_schema w"
  by (simp_all add: tick_def)

definition prodMakeFactory ::
  "'s migrate_lib \<Rightarrow> string \<Rightarrow> ('s, 'a) migrate_db_scheme \<Rightarrow> go_error option \<times> ('s, 'a) migrate_db_scheme" where
  \<comment> \<open>a runner is open when there is no error\<close>
  "prodMakeFactory M src w =
     (case ml_driver M (w_tick w) of
        Some err \<Rightarrow> (Some (wrapf ''create postgres migration driver'' err), tick w)
      | None \<Rightarrow>
          (case ml_instance M (w_tick w) src of
             Some err \<Rightarrow> (Some err, tick w)
           | None \<Rightarrow> (None, (tick w)\<lparr>mg_runners := Suc (mg_runners w)\<rparr>)))"

definition up_result :: "go_error option \<Rightarrow> go_error option" where
  \<comment> \<open>\<open>err != nil && !errors.Is(err, migrate.ErrNoChange)\<close>\<close>
  "up_result r = (case r of None \<Rightarrow> None | Some err \<Rightarrow> if errors_is err ErrNoChange then None else Some (wrapf ''run migrations'' err))"

definition run_up ::
  "'s migrate_lib \<Rightarrow> ('s, 'a) migrate_db_scheme \<Rightarrow> go_error option \<times> ('s, 'a) migrate_db_scheme" where
  \<comment> \<open>\<open>runner.Up()\<close>, and the deferred \<open>runner.Close()\<close>, whose errors are dropped\<close>
  "run_up M w =
     (case ml_up M (mg_schema w) of
        (r, s) \<Rightarrow> (up_result r, (tick w)\<lparr>mg_schema := s, mg_runners := mg_runners w - 1\<rparr>))"

definition open_and_migrate ::
  "'s migrate_lib \<Rightarrow> string \<Rightarrow> ('s, 'a) migrate_db_scheme \<Rightarrow> go_error option \<times> ('s, 'a) migrate_db_scheme" where
  \<comment> \<open>the body between the lock and its release, with the deferred \<open>db.Close()\<close>\<close>
  "open_and_migrate M migrationsPath w =
     (let w1 = w\<lparr>mg_handles := Suc (mg_handles w)\<rparr>;
          res = (case prodMakeFactory M (''file://'' @ filepath_Clean migrationsPath) w1 of
                   (Some err, w2) \<Rightarrow> (Some (wrapf ''create migration runner'' err), w2)
                 | (None, w2) \<Rightarrow> run_up M w2)
      in (fst res, (snd res)\<lparr>mg_handles := mg_handles (snd res) - 1\<rparr>))"

definition advisory_unlock :: "('s, 'a) migrate_db_scheme \<Rightarrow> ('s, 'a) migrate_db_scheme" where
  \<comment> \<open>the error is dropped\<close>
  "advisory_unlock w = (case fault w of Some err \<Rightarrow> tick w | None \<Rightarrow> (tick w)\<lparr>mg_locked := False\<rparr>)"

definition migrate_locked ::
  "'s migrate_lib \<Rightarrow> string \<Rightarrow> ('s, 'a) migrate_db_scheme \<Rightarrow> go_error option \<times> ('s, 'a) migrate_db_scheme" where
  "migrate_locked M migrationsPath w =
     (case fault w of
        Some err \<Rightarrow> (Some (wrapf ''acquire advisory lock'' err), tick w)
      | None \<Rightarrow>
          (case open_and_migrate M migrationsPath ((tick w)\<lparr>mg_locked := True\<rparr>) of
             (r, w1) \<Rightarrow> (r, advisory_unlock w1)))"

definition doMigrate ::
  "'s migrate_lib \<Rightarrow> string \<Rightarrow> ('s, 'a) migrate_db_scheme \<Rightarrow> go_error option \<times> ('s, 'a) migrate_db_scheme" where
  "doMigrate M migrationsPath w =
     (case fault w of
        Some err \<Rightarrow> (Some (wrapf ''acquire migration connection'' err), tick w)
      | None \<Rightarrow>
          (case migrate_locked M migrationsPath ((tick w)\<lparr>mg_taken := Suc (mg_taken w)\<rparr>) of
             (r, w1) \<Rightarrow> (r, w1\<lparr>mg_taken := mg_taken w1 - 1\<rparr>)))"

definition RunMigrations ::
  "'s migrate_lib \<Rightarrow> string \<Rightarrow> ('s, 'a) migrate_db_scheme \<Rightarrow> go_error option \<times> ('s, 'a) migrate_db_scheme" where
  "RunMigrations M migrationsPath w = doMigrate M migrationsPath w"

lemma open_and_migrate_frame:
  assumes "open_and_migrate M p w = (r, w')"
  shows "mg_handles w' = mg_handles w" "mg_runners w' = mg_runners w" "mg_taken w' = mg_taken w"
    "mg_locked w' = mg_locked w" "w_fault w' = w_fault w"
    "r \<noteq> None \<and> mg_schema w' = mg_schema w \<or> r = up_result (fst (ml_up M (mg_schema w))) \<and> mg_schema w' = snd (ml_up M (mg_schema w))"
  using assms
  by (auto simp: open_and_migrate_def prodMakeFactory_def run_up_def Let_def split: prod.splits option.splits)

lemma advisory_unlock_sel [simp]:
  "mg_handles (advisory_unlock w) = mg_handles w" "mg_runners (advisory_unlock w) = mg_runners w"
  "mg_taken (advisory_unlock w) = mg_taken w" "mg_schema (advisory_unlock w) = mg_schema w"
  "mg_locked (advisory_unlock w) \<longleftrightarrow> mg_locked w \<and> fault w \<noteq> None"
  by (simp_all add: advisory_unlock_def split: option.splits)

lemma doMigrate_cases:
  assumes "doMigrate M p w = (r, w')"
  obtains (early) err n where "r = Some err" "w' = w\<lparr>w_tick := n\<rparr>"
  | (ran) w1 w2 where "open_and_migrate M p w1 = (r, w2)" "w' = (advisory_unlock w2)\<lparr>mg_taken := mg_taken w2 - 1\<rparr>"
      "w1 = (tick (tick w))\<lparr>mg_taken := Suc (mg_taken w), mg_locked := True\<rparr>"
proof (cases "fault w")
  case (Some err)
  with assms show ?thesis by (intro early [of "wrapf ''acquire migration connection'' err" "Suc (w_tick w)"]) (auto simp: doMigrate_def tick_def)
next
  case None
  let ?w1 = "(tick w)\<lparr>mg_taken := Suc (mg_taken w)\<rparr>"
  show ?thesis
  proof (cases "fault ?w1")
    case (Some err)
    with None assms show ?thesis
      by (intro early [of "wrapf ''acquire advisory lock'' err" "Suc (Suc (w_tick w))"])
        (auto simp: doMigrate_def migrate_locked_def tick_def)
  next
    case n: None
    obtain r2 w2 where o: "open_and_migrate M p ((tick ?w1)\<lparr>mg_locked := True\<rparr>) = (r2, w2)" by fastforce
    have "(tick ?w1)\<lparr>mg_locked := True\<rparr> = (tick (tick w))\<lparr>mg_taken := Suc (mg_taken w), mg_locked := True\<rparr>"
      by (simp add: tick_def)
    with None n o assms show ?thesis by (intro ran) (auto simp: doMigrate_def migrate_locked_def)
  qed
qed

text \<open>
  Whatever fails, a run gives back everything it took; the lock stays only when the statement that
  releases it failed; and it reports success only when \<open>Up\<close> did, or had nothing to do.
\<close>

lemma migrate_releases:
  assumes "doMigrate M p w = (r, w')"
  shows "mg_taken w' = mg_taken w" "mg_handles w' = mg_handles w" "mg_runners w' = mg_runners w"
    and "no_faults w \<Longrightarrow> mg_locked w' \<Longrightarrow> mg_locked w"
    and "r = None \<Longrightarrow> up_result (fst (ml_up M (mg_schema w))) = None \<and> mg_schema w' = snd (ml_up M (mg_schema w))"
proof -
  have "mg_taken w' = mg_taken w \<and> mg_handles w' = mg_handles w \<and> mg_runners w' = mg_runners w \<and>
      (no_faults w \<longrightarrow> mg_locked w' \<longrightarrow> mg_locked w) \<and>
      (r = None \<longrightarrow> up_result (fst (ml_up M (mg_schema w))) = None \<and> mg_schema w' = snd (ml_up M (mg_schema w)))"
    using assms
  proof (cases rule: doMigrate_cases)
    case (ran w1 w2)
    note f = open_and_migrate_frame [OF ran(1)]
    have w1: "mg_schema w1 = mg_schema w" "mg_taken w1 = Suc (mg_taken w)" "mg_handles w1 = mg_handles w"
        "mg_runners w1 = mg_runners w" "w_fault w1 = w_fault w"
      unfolding ran(3) by simp_all
    have "no_faults w \<Longrightarrow> fault w2 = None" using f(5) w1(5) by (simp add: no_faults_def fault_def)
    then show ?thesis using f(1-3,6) w1(1-4) unfolding ran(2) by auto
  qed auto
  then show "mg_taken w' = mg_taken w" "mg_handles w' = mg_handles w" "mg_runners w' = mg_runners w"
      "no_faults w \<Longrightarrow> mg_locked w' \<Longrightarrow> mg_locked w"
      "r = None \<Longrightarrow> up_result (fst (ml_up M (mg_schema w))) = None \<and> mg_schema w' = snd (ml_up M (mg_schema w))"
    by blast+
qed

section \<open>Several replicas\<close>

text \<open>
  A replica has not begun, holds the lock, has begun to apply migrations on the schema it read,
  has the result of \<open>open_and_migrate\<close>, or has the result of \<open>doMigrate\<close>. The lock is held by a session:
  it is gone when the statement that releases it succeeds, or when the replica dies. A replica that
  dies while it applies migrations is left out: what it leaves behind is up to the package.
\<close>

datatype 's replica = Outside | Inside | Applying 's | Applied "go_error option" | Finished "go_error option"

record 's cluster =
  cl_schema :: 's
  cl_holder :: "nat option"
  cl_replica :: "nat \<Rightarrow> 's replica"

definition set_replica :: "nat \<Rightarrow> 's replica \<Rightarrow> 's cluster \<Rightarrow> 's cluster" where
  "set_replica i p c = c\<lparr>cl_replica := (cl_replica c)(i := p)\<rparr>"

inductive migrate_step :: "'s migrate_lib \<Rightarrow> 's cluster \<Rightarrow> 's cluster \<Rightarrow> bool" for M where
  fail_early: "cl_replica c i = Outside \<Longrightarrow> migrate_step M c (set_replica i (Finished (Some err)) c)"
| take_lock: "cl_replica c i = Outside \<Longrightarrow> cl_holder c = None \<Longrightarrow>
    migrate_step M c ((set_replica i Inside c)\<lparr>cl_holder := Some i\<rparr>)"
| fail_open: "cl_replica c i = Inside \<Longrightarrow> migrate_step M c (set_replica i (Applied (Some err)) c)"
| begin_up: "cl_replica c i = Inside \<Longrightarrow> migrate_step M c (set_replica i (Applying (cl_schema c)) c)"
| end_up: "cl_replica c i = Applying s \<Longrightarrow>
    migrate_step M c ((set_replica i (Applied (up_result (fst (ml_up M s)))) c)\<lparr>cl_schema := snd (ml_up M s)\<rparr>)"
| unlock: "cl_replica c i = Applied r \<Longrightarrow>
    migrate_step M c ((set_replica i (Finished r) c)\<lparr>cl_holder := None\<rparr>)"
| unlock_lost: "cl_replica c i = Applied r \<Longrightarrow> migrate_step M c (set_replica i (Finished r) c)"
| restart: "\<forall>s. cl_replica c i \<noteq> Applying s \<Longrightarrow>
    migrate_step M c ((set_replica i Outside c)\<lparr>cl_holder := (if cl_holder c = Some i then None else cl_holder c)\<rparr>)"

inductive_cases migrate_stepE: "migrate_step M c c'"

definition holds_lock :: "'s replica \<Rightarrow> bool" where
  "holds_lock p \<longleftrightarrow> (case p of Inside \<Rightarrow> True | Applying s \<Rightarrow> True | Applied r \<Rightarrow> True | _ \<Rightarrow> False)"

lemma holds_lock_simps [simp]:
  "\<not> holds_lock Outside" "holds_lock Inside" "holds_lock (Applying s)" "holds_lock (Applied r)" "\<not> holds_lock (Finished r)"
  by (simp_all add: holds_lock_def)

definition cluster_start :: "'s \<Rightarrow> 's cluster" where
  "cluster_start s = \<lparr>cl_schema = s, cl_holder = None, cl_replica = (\<lambda>i. Outside)\<rparr>"

text \<open>
  \<open>Up\<close> on the first schema succeeds and leaves nothing to do, as the package documents, or it is the
  first schema already that has nothing to do.
\<close>

definition up_settles :: "'s migrate_lib \<Rightarrow> 's \<Rightarrow> 's \<Rightarrow> bool" where
  "up_settles M s t \<longleftrightarrow> snd (ml_up M s) = t \<and> up_result (fst (ml_up M s)) = None \<and>
     snd (ml_up M t) = t \<and> up_result (fst (ml_up M t)) = None"

definition cluster_inv :: "'s \<Rightarrow> 's \<Rightarrow> 's cluster \<Rightarrow> bool" where
  "cluster_inv s t c \<longleftrightarrow>
     (\<forall>i. holds_lock (cl_replica c i) \<longrightarrow> cl_holder c = Some i) \<and>
     (\<forall>i u. cl_replica c i = Applying u \<longrightarrow> u = cl_schema c) \<and>
     cl_schema c \<in> {s, t} \<and>
     (\<forall>i. cl_replica c i \<in> {Applied None, Finished None} \<longrightarrow> cl_schema c = t)"

lemma cluster_invD:
  assumes "cluster_inv s t c"
  shows "holds_lock (cl_replica c i) \<Longrightarrow> cl_holder c = Some i" "cl_replica c i = Applying u \<Longrightarrow> u = cl_schema c"
    "cl_schema c = s \<or> cl_schema c = t" "cl_replica c i = Applied None \<or> cl_replica c i = Finished None \<Longrightarrow> cl_schema c = t"
  using assms unfolding cluster_inv_def by blast+

lemma only_holder:
  assumes "cluster_inv s t c" "holds_lock (cl_replica c i)" "j \<noteq> i"
  shows "\<not> holds_lock (cl_replica c j)"
  using cluster_invD(1) [OF assms(1), of i] cluster_invD(1) [OF assms(1), of j] assms(2,3) by auto

lemma cluster_step_inv:
  assumes "up_settles M s t" "migrate_step M c c'" "cluster_inv s t c"
  shows "cluster_inv s t c'"
  using assms(2)
proof cases
  case (end_up i u)
  note d = cluster_invD [OF assms(3)]
  have "u = s \<or> u = t" using d(2) [OF end_up(2)] d(3) by simp
  then have t: "snd (ml_up M u) = t" using assms(1) by (auto simp: up_settles_def)
  have o: "cl_holder c = Some i" using d(1) [of i] end_up(2) by simp
  have n: "\<not> holds_lock (cl_replica c j)" if "j \<noteq> i" for j
    using only_holder [OF assms(3) _ that] end_up(2) by simp
  have "cl_replica c j \<noteq> Applying v" if "j \<noteq> i" for j v using n [OF that] by auto
  with t o n show ?thesis unfolding end_up(1) cluster_inv_def by (simp add: set_replica_def)
next
  case (unlock i r)
  have n: "\<not> holds_lock (cl_replica c j)" if "j \<noteq> i" for j
    using only_holder [OF assms(3) _ that] unlock(2) by simp
  then have "cl_replica c j \<noteq> Applying v" if "j \<noteq> i" for j v using that by fastforce
  with n show ?thesis
    using cluster_invD(3) [OF assms(3)] cluster_invD(4) [OF assms(3)] unlock(2)
    unfolding unlock(1) cluster_inv_def by (simp add: set_replica_def) metis
qed (use assms(3) in \<open>auto simp: cluster_inv_def set_replica_def split: if_splits\<close>)

lemma cluster_run_inv:
  "(migrate_step M)\<^sup>*\<^sup>* c c' \<Longrightarrow> up_settles M s t \<Longrightarrow> cluster_inv s t c \<Longrightarrow> cluster_inv s t c'"
  by (induction rule: rtranclp_induct) (auto intro: cluster_step_inv)

lemma cluster_start_inv: "cluster_inv s t (cluster_start s)"
  by (simp add: cluster_inv_def cluster_start_def)

text \<open>A call of \<open>doMigrate\<close> that meets no other replica is a run of its replica.\<close>

lemma up_not_none: "up_result r \<noteq> None \<Longrightarrow> \<exists>err. up_result r = Some err"
  by simp

lemma doMigrate_refines:
  assumes "doMigrate M p w = (r, w')" "\<not> mg_locked w"
    and "cl_replica c i = Outside" "cl_holder c = None" "cl_schema c = mg_schema w"
  shows "\<exists>c'. (migrate_step M)\<^sup>*\<^sup>* c c' \<and> cl_replica c' = (cl_replica c)(i := Finished r) \<and>
    cl_schema c' = mg_schema w' \<and> cl_holder c' = (if mg_locked w' then Some i else None)"
  using assms(1)
proof (cases rule: doMigrate_cases)
  case (early err n)
  have "migrate_step M c (set_replica i (Finished r) c)" using fail_early assms(3) early(1) by blast
  then show ?thesis
    using assms(2,4,5) early(2) by (intro exI [of _ "set_replica i (Finished r) c"]) (auto simp: set_replica_def)
next
  case (ran w1 w2)
  note f = open_and_migrate_frame [OF ran(1)]
  have w1: "mg_schema w1 = mg_schema w" "mg_locked w1" unfolding ran(3) by simp_all
  let ?a = "(set_replica i Inside c)\<lparr>cl_holder := Some i\<rparr>"
  have "migrate_step M c ?a" using take_lock assms(3,4) .
  have ai: "cl_replica ?a i = Inside" by (simp add: set_replica_def)
  obtain b where b: "(migrate_step M)\<^sup>*\<^sup>* ?a b" "cl_replica b = (cl_replica c)(i := Applied r)"
      "cl_schema b = mg_schema w2" "cl_holder b = Some i"
  proof (cases "r \<noteq> None \<and> mg_schema w2 = mg_schema w1")
    case True
    then obtain err where "r = Some err" by blast
    with fail_open [OF ai] have "migrate_step M ?a (set_replica i (Applied r) ?a)" by blast
    then show ?thesis
      using True w1 assms(5) by (intro that [of "set_replica i (Applied r) ?a"]) (auto simp: set_replica_def)
  next
    case False
    then have r: "r = up_result (fst (ml_up M (cl_schema ?a)))" "mg_schema w2 = snd (ml_up M (cl_schema ?a))"
      using f(6) w1 assms(5) by (auto simp: set_replica_def)
    let ?u = "set_replica i (Applying (cl_schema ?a)) ?a"
    have ui: "cl_replica ?u i = Applying (cl_schema ?a)" by (simp add: set_replica_def)
    let ?b = "(set_replica i (Applied r) ?u)\<lparr>cl_schema := mg_schema w2\<rparr>"
    have "migrate_step M ?a ?u" "migrate_step M ?u ?b"
      using begin_up [OF ai] end_up [OF ui] r by simp_all
    then have "(migrate_step M)\<^sup>*\<^sup>* ?a ?b" by (meson r_into_rtranclp rtranclp.rtrancl_into_rtrancl)
    then show ?thesis by (intro that [of ?b]) (auto simp: set_replica_def)
  qed
  have bi: "cl_replica b i = Applied r" using b(2) by simp
  have l: "mg_locked w' \<longleftrightarrow> fault w2 \<noteq> None" using f(4) w1(2) unfolding ran(2) by simp
  obtain c' where c': "migrate_step M b c'" "cl_replica c' = (cl_replica b)(i := Finished r)" "cl_schema c' = cl_schema b"
      "cl_holder c' = (if mg_locked w' then Some i else None)"
  proof (cases "mg_locked w'")
    case True
    with unlock_lost [OF bi, of M] b(4) show ?thesis
      by (intro that [of "set_replica i (Finished r) b"]) (auto simp: set_replica_def)
  next
    case False
    with unlock [OF bi, of M] show ?thesis
      by (intro that [of "(set_replica i (Finished r) b)\<lparr>cl_holder := None\<rparr>"]) (auto simp: set_replica_def)
  qed
  have "(migrate_step M)\<^sup>*\<^sup>* c c'"
    using \<open>migrate_step M c ?a\<close> b(1) c'(1) by (meson converse_rtranclp_into_rtranclp rtranclp.rtrancl_into_rtrancl)
  moreover have "mg_schema w' = mg_schema w2" unfolding ran(2) by simp
  ultimately show ?thesis using b c' by (intro exI [of _ c']) auto
qed


definition sample_migrate_lib :: "nat migrate_lib" where
  \<comment> \<open>seven migrations\<close>
  "sample_migrate_lib = \<lparr>ml_driver = (\<lambda>n. None), ml_instance = (\<lambda>n src. None),
     ml_up = (\<lambda>v. if v = 7 then (Some ErrNoChange, 7) else (None, 7))\<rparr>"

definition sample_migrate_db :: "nat migrate_db" where
  "sample_migrate_db = \<lparr>w_tick = 0, w_fault = (\<lambda>n. None), w_now = (\<lambda>n. 0), w_uuid = (\<lambda>n. 0),
     mg_taken = 0, mg_locked = False, mg_handles = 0, mg_runners = 0, mg_schema = 3\<rparr>"


end
