(* ===== verification/App_Start.thy ===== *)
theory App_Start
  imports Server_Http Server_Health Db_Migrate Integrity_Tsa Search_Service
begin

text \<open>
  \<open>cmd/server/main.go\<close>: the choices that the start makes from the configuration, and the start itself
  with its deferred releases and what must have succeeded before it serves.
\<close>

section \<open>Choices\<close>

text \<open>\<open>client\<close> makes the client of a service from its address (and key).\<close>

definition main_tsa :: "Config \<Rightarrow> (string \<Rightarrow> tsa_client) \<Rightarrow> authority" where
  "main_tsa cfg client = (if cg_TSAEnabled cfg then RFC3161Client (client (cg_TSAURL cfg)) else NoopTimestampAuthority)"

definition main_searcher :: "Config \<Rightarrow> (string \<Rightarrow> string \<Rightarrow> search_engine) \<Rightarrow> evidence_searcher" where
  "main_searcher cfg client =
     (if cg_MeilisearchURL cfg \<noteq> [] then Meilisearch (client (cg_MeilisearchURL cfg) (cg_MeilisearchAPIKey cfg))
      else NoopEvidenceSearcher)"

definition main_health ::
  "(nat \<Rightarrow> bool) \<Rightarrow> (nat \<Rightarrow> string \<Rightarrow> int) \<Rightarrow> (string \<Rightarrow> time \<Rightarrow> string)
     \<Rightarrow> (nat \<Rightarrow> (string \<times> string) list \<Rightarrow> (string \<times> string) list) \<Rightarrow> Config \<Rightarrow> string \<Rightarrow> time \<Rightarrow> health_env" where
  "main_health bucket http fmt arrival cfg version t =
     NewHealthHandler bucket http fmt arrival (cg_MeilisearchURL cfg) (cg_KeycloakURL cfg) (cg_KeycloakRealm cfg) version t
       [WithBackupChecker]"

text \<open>As it is wired, the detailed health report says that there is no evidence: no counter is ever given.\<close>

lemma no_evidence_counted:
  "dh_EvidenceCount (fst (runChecks (main_health bucket http fmt arrival cfg version t) gone w)) = 0"
  by (simp add: runChecks_def count_evidence_def main_health_def NewHealthHandler_def WithBackupChecker_def Let_def split: prod.split)

section \<open>The bucket\<close>

text \<open>
  \<open>bd_bucket\<close>: the server has the bucket; \<open>bd_storage\<close>: the storage the start has made;
  \<open>bd_probe\<close>: the object of the probe is in the bucket.
\<close>

record 's boot_db = "'s migrate_db" +
  bd_bucket :: bool
  bd_storage :: "MinIOStorage option"
  bd_probe :: bool

lemma boot_tick [simp]: "bd_bucket (tick w) = bd_bucket w" "bd_storage (tick w) = bd_storage w" "bd_probe (tick w) = bd_probe w"
  by (simp_all add: tick_def)

definition ensure_bucket :: "('s, 'a) boot_db_scheme \<Rightarrow> go_error option \<times> ('s, 'a) boot_db_scheme" where
  "ensure_bucket w =
     (case pg_call (wrapf ''check bucket exists'') w of
        (Some err, w1) \<Rightarrow> (Some err, w1)
      | (None, w1) \<Rightarrow>
          if bd_bucket w1 then (None, w1)
          else
            (case pg_call (wrapf ''create bucket'') w1 of
               (Some err, w2) \<Rightarrow> (Some err, w2)
             | (None, w2) \<Rightarrow> (None, w2\<lparr>bd_bucket := True\<rparr>)))"

definition probe_encryption :: "('s, 'a) boot_db_scheme \<Rightarrow> bool \<times> ('s, 'a) boot_db_scheme" where
  \<comment> \<open>any error of the probe turns the encryption off; the one of \<open>RemoveObject\<close> is dropped\<close>
  "probe_encryption w =
     (case fault w of
        Some err \<Rightarrow> (False, tick w)
      | None \<Rightarrow>
          (let w1 = (tick w)\<lparr>bd_probe := True\<rparr>
           in (True, (tick w1)\<lparr>bd_probe := fault w1 \<noteq> None\<rparr>)))"

definition initStorage ::
  "string \<Rightarrow> ('s, 'a) boot_db_scheme \<Rightarrow> (go_error + MinIOStorage) \<times> ('s, 'a) boot_db_scheme" where
  "initStorage bucket w =
     (case ensure_bucket w of
        (Some err, w1) \<Rightarrow> (Inl err, w1)
      | (None, w1) \<Rightarrow> (case probe_encryption w1 of (sse, w2) \<Rightarrow> (Inr \<lparr>ms_bucket = bucket, ms_sse = sse\<rparr>, w2)))"

definition NewMinIOStorage ::
  "(string \<Rightarrow> go_error option) \<Rightarrow> string \<Rightarrow> string \<Rightarrow> ('s, 'a) boot_db_scheme
     \<Rightarrow> (go_error + MinIOStorage) \<times> ('s, 'a) boot_db_scheme" where
  "NewMinIOStorage new_client endpoint bucket w =
     (case new_client endpoint of
        Some err \<Rightarrow> (Inl (wrapf ''create minio client'' err), w)
      | None \<Rightarrow> initStorage bucket w)"

lemmas storage_defs = NewMinIOStorage_def initStorage_def ensure_bucket_def probe_encryption_def pg_call_def Let_def

lemma NewMinIOStorage_frame:
  assumes "NewMinIOStorage c e b w = (r, w')"
  shows "mg_schema w' = mg_schema w" "mg_taken w' = mg_taken w" "\<not> isl r \<Longrightarrow> bd_bucket w'"
  using assms by (auto simp: storage_defs split: option.splits if_splits)

text \<open>
  The storage fails open: when only the request of the probe fails, the start goes on without an error and every
  file is stored without encryption by the server until the next start.
\<close>

lemma encryption_fails_open:
  assumes "c e = None" "bd_bucket w" "fault w = None" "fault (tick w) = Some err"
  shows "NewMinIOStorage c e b w = (Inr \<lparr>ms_bucket = b, ms_sse = False\<rparr>, tick (tick w))"
  using assms by (simp add: storage_defs)

section \<open>Starting and stopping\<close>

text \<open>
  What \<open>run\<close> holds until it returns, in the order in which it takes it, and what it does in between
  (\<open>Serving\<close>: it calls \<open>ListenAndServe\<close> on the address with this port).
\<close>

datatype resource = Signals | Pool | PingContext | KeysContext | RetryJob | MailContext | Mailer | Scheduler | ShutdownContext

datatype boot_action =
    Acquire resource
  | Release resource
  | Migrated
  | Prefetched "go_error option"
  | OpenedStorage
  | Serving int
  | ShuttingDown

type_synonym 'w boot = "'w \<Rightarrow> (go_error option \<times> boot_action list) \<times> 'w"

definition holding :: "resource \<Rightarrow> 'w boot \<Rightarrow> 'w boot" where
  \<comment> \<open>the resource is taken, and its release deferred\<close>
  "holding x k w = (case k w of ((r, tr), w') \<Rightarrow> ((r, Acquire x # tr @ [Release x]), w'))"

definition noting :: "boot_action \<Rightarrow> 'w boot \<Rightarrow> 'w boot" where
  "noting a k w = (case k w of ((r, tr), w') \<Rightarrow> ((r, a # tr), w'))"

definition or_return :: "('w \<Rightarrow> go_error option \<times> 'w) \<Rightarrow> 'w boot \<Rightarrow> 'w boot" where
  \<comment> \<open>\<open>if err := f(); err != nil { return err }\<close>\<close>
  "or_return f k w = (case f w of (Some err, w1) \<Rightarrow> ((Some err, []), w1) | (None, w1) \<Rightarrow> k w1)"

text \<open>
  What the outside decides: how \<open>ListenAndServe\<close> ends (\<open>None\<close>: a signal comes first; \<open>http.ErrServerClosed\<close> counts
  as no error), \<open>regexp.Compile\<close>, and \<open>minio.New\<close> on an address.
\<close>

record boot_env =
  bo_config :: config_lib
  bo_getenv :: "string \<Rightarrow> string"
  bo_minio :: "string \<Rightarrow> go_error option"
  bo_compile :: "string \<Rightarrow> go_error + (string \<Rightarrow> bool)"
  bo_served :: "go_error option option"

definition serve :: "boot_env \<Rightarrow> Config \<Rightarrow> 'a world_scheme boot" where
  \<comment> \<open>the goroutine of the server, the \<open>select\<close> and the shutdown\<close>
  "serve B cfg w =
     (case bo_served B of
        Some (Some err) \<Rightarrow> ((Some (wrapf ''http server'' err), [Serving (cg_ServerPort cfg)]), tick w)
      | _ \<Rightarrow> noting (Serving (cg_ServerPort cfg)) (holding ShutdownContext (noting ShuttingDown
            (or_return (pg_call (wrapf ''graceful shutdown'')) (\<lambda>w. ((None, []), w))))) w)"

definition with_jobs :: "'w boot \<Rightarrow> 'w boot" where
  \<comment> \<open>the retry job for time stamps and the sender of mails\<close>
  "with_jobs k = holding RetryJob (holding MailContext (holding Mailer k))"

definition with_scheduler :: "'w boot \<Rightarrow> 'w boot" where
  "with_scheduler k = holding Scheduler k"

definition open_storage ::
  "boot_env \<Rightarrow> Config \<Rightarrow> ('s, 'a) boot_db_scheme \<Rightarrow> go_error option \<times> ('s, 'a) boot_db_scheme" where
  "open_storage B cfg w =
     (case NewMinIOStorage (bo_minio B) (cg_MinIOEndpoint cfg) (cg_MinIOBucket cfg) w of
        (Inl err, w1) \<Rightarrow> (Some (wrapf ''create minio storage'' err), w1)
      | (Inr st, w1) \<Rightarrow> (None, w1\<lparr>bd_storage := Some st\<rparr>))"

lemma open_storage_frame:
  assumes "open_storage B cfg w = (r, w')"
  shows "mg_schema w' = mg_schema w" "mg_taken w' = mg_taken w" "r = None \<Longrightarrow> bd_bucket w'"
    "r = Some e \<Longrightarrow> \<exists>err. e = wrapf ''create minio storage'' err"
  using assms by (auto simp: open_storage_def split: prod.splits sum.splits dest: NewMinIOStorage_frame)

definition start_services :: "boot_env \<Rightarrow> Config \<Rightarrow> ('s, 'a) boot_db_scheme boot" where
  "start_services B cfg =
     or_return (\<lambda>w. (case bo_compile B (cg_CaseReferenceRegex cfg) of
          Inl err \<Rightarrow> Some (wrapf ''create case service'' (wrapf ''compile reference code regex'' err))
        | Inr expr \<Rightarrow> None, w))
     (or_return (open_storage B cfg)
     (noting OpenedStorage
     (with_jobs (with_scheduler (serve B cfg)))))"

definition start_all :: "boot_env \<Rightarrow> 's migrate_lib \<Rightarrow> Config \<Rightarrow> ('s, 'a) boot_db_scheme boot" where
  \<comment> \<open>\<open>run\<close> behind the configuration\<close>
  "start_all B M cfg =
     or_return (pg_call (wrapf ''create postgres pool''))
     (holding Pool
     (holding PingContext
     (or_return (pg_call (wrapf ''ping postgres''))
     (or_return (\<lambda>w. case RunMigrations M ''migrations'' w of (r, w1) \<Rightarrow> (map_option (wrapf ''run migrations'') r, w1))
     (noting Migrated
     (holding KeysContext
     (\<lambda>w. noting (Prefetched (fault w)) (start_services B cfg) (tick w))))))))"

definition run :: "boot_env \<Rightarrow> 's migrate_lib \<Rightarrow> ('s, 'a) boot_db_scheme boot" where
  "run B M =
     holding Signals (\<lambda>w.
       case LoadFromEnv (bo_config B) (bo_getenv B) of
         Inl err \<Rightarrow> ((Some (wrapf ''configuration error'' err), []), w)
       | Inr cfg \<Rightarrow> start_all B M cfg w)"

definition main_exit :: "go_error option \<Rightarrow> int" where
  "main_exit r = (if r = None then 0 else 1)"

fun released :: "boot_action list \<Rightarrow> resource list \<Rightarrow> resource list option" where
  \<comment> \<open>the resources held after the actions, the last one taken first; \<open>None\<close>: one is released out of order\<close>
  "released [] held = Some held"
| "released (Acquire x # tr) held = released tr (x # held)"
| "released (Release x # tr) held =
     (case held of [] \<Rightarrow> None | y # ys \<Rightarrow> if y = x then released tr ys else None)"
| "released (a # tr) held = released tr held"

definition nested :: "boot_action list \<Rightarrow> bool" where
  "nested tr \<longleftrightarrow> (\<forall>rest held. released (tr @ rest) held = released rest held)"

lemma nested_simps [simp]: "nested []" "nested tr \<Longrightarrow> nested (Acquire x # tr @ [Release x])"
  by (simp_all add: nested_def)

definition plain_action :: "boot_action \<Rightarrow> bool" where
  "plain_action a \<longleftrightarrow> (\<forall>x. a \<noteq> Acquire x \<and> a \<noteq> Release x)"

lemma nested_note: "plain_action a \<Longrightarrow> nested tr \<Longrightarrow> nested (a # tr)"
  by (cases a) (simp_all add: nested_def plain_action_def)

text \<open>What every part of the start keeps: it is nested, and without an error it serves.\<close>

definition orderly :: "(go_error option \<times> boot_action list) \<times> 'w \<Rightarrow> bool" where
  "orderly out \<longleftrightarrow> nested (snd (fst out)) \<and> (fst (fst out) = None \<longrightarrow> (\<exists>port. Serving port \<in> set (snd (fst out))))"

lemma orderly_error [simp]: "orderly ((Some err, []), w)"
  by (simp add: orderly_def)

lemma orderly_holding: "orderly (k w) \<Longrightarrow> orderly (holding x k w)"
  by (auto simp: orderly_def holding_def split: prod.splits)

lemma orderly_noting: "plain_action a \<Longrightarrow> orderly (k w) \<Longrightarrow> orderly (noting a k w)"
  by (auto simp: orderly_def noting_def nested_note split: prod.splits)

lemma orderly_or_return: "(\<And>w1. f w = (None, w1) \<Longrightarrow> orderly (k w1)) \<Longrightarrow> orderly (or_return f k w)"
  by (auto simp: or_return_def split: prod.splits option.splits)

lemma orderly_serve: "orderly (serve B cfg w)"
  by (auto simp: serve_def orderly_def noting_def holding_def or_return_def pg_call_def nested_def
      split: option.splits prod.splits)

lemma orderly_services: "orderly (start_services B cfg w)"
  unfolding start_services_def with_jobs_def with_scheduler_def
  by (intro orderly_or_return orderly_noting orderly_holding orderly_serve) (simp add: plain_action_def)

lemma orderly_start: "orderly (start_all B M cfg w)"
  unfolding start_all_def
  by (intro orderly_or_return orderly_holding orderly_noting orderly_services) (simp_all add: plain_action_def)

lemma orderly_run: "orderly (run B M w)"
  unfolding run_def by (intro orderly_holding) (simp add: orderly_start split: sum.splits)

text \<open>Serving takes a configuration that loads and migrations that succeed.\<close>

definition keeps :: "('w \<Rightarrow> 'v) \<Rightarrow> 'w boot \<Rightarrow> bool" where
  "keeps f k \<longleftrightarrow> (\<forall>w. f (snd (k w)) = f w)"

lemma keeps_holding: "keeps f k \<Longrightarrow> keeps f (holding x k)"
  by (simp add: keeps_def holding_def split: prod.split) (metis snd_conv)

lemma keeps_noting: "keeps f k \<Longrightarrow> keeps f (noting a k)"
  by (simp add: keeps_def noting_def split: prod.split) (metis snd_conv)

lemma keeps_return: "(\<And>w. f (snd (g w)) = f w) \<Longrightarrow> keeps f k \<Longrightarrow> keeps f (or_return g k)"
  by (simp add: keeps_def or_return_def split: prod.split option.split) (metis snd_conv)

lemma keeps_serve:
  assumes "\<And>w. f (tick w) = f w"
  shows "keeps f (serve B cfg)"
proof (cases "bo_served B = None \<or> bo_served B = Some None")
  case True
  then have e: "serve B cfg = noting (Serving (cg_ServerPort cfg)) (holding ShutdownContext (noting ShuttingDown
      (or_return (pg_call (wrapf ''graceful shutdown'')) (\<lambda>w. ((None, []), w)))))"
    by (auto simp: serve_def fun_eq_iff)
  show ?thesis unfolding e
    by (intro keeps_noting keeps_holding keeps_return) (simp_all add: keeps_def pg_call_def assms split: option.split)
next
  case False
  then show ?thesis by (auto simp: keeps_def serve_def assms)
qed

lemma keeps_jobs: "keeps f k \<Longrightarrow> keeps f (with_jobs (with_scheduler k))"
  unfolding with_jobs_def with_scheduler_def by (intro keeps_holding)

lemma services_keep:
  "mg_schema (snd (start_services B cfg w)) = mg_schema w" "mg_taken (snd (start_services B cfg w)) = mg_taken w"
proof -
  have "mg_schema (snd (open_storage B cfg w)) = mg_schema w" "mg_taken (snd (open_storage B cfg w)) = mg_taken w"
    for w :: "('a, 'b) boot_db_scheme"
    using open_storage_frame(1,2) [of B cfg w] by (metis prod.collapse)+
  then have "keeps mg_schema (start_services B cfg :: ('a, 'b) boot_db_scheme boot)"
      "keeps mg_taken (start_services B cfg :: ('a, 'b) boot_db_scheme boot)"
    unfolding start_services_def by (auto intro!: keeps_return keeps_noting keeps_jobs keeps_serve)
  then show "mg_schema (snd (start_services B cfg w)) = mg_schema w" "mg_taken (snd (start_services B cfg w)) = mg_taken w"
    by (simp_all add: keeps_def)
qed

lemma serving_under:
  "Serving port \<in> set (snd (fst (holding x k w))) \<longleftrightarrow> Serving port \<in> set (snd (fst (k w)))"
  "a \<noteq> Serving port \<Longrightarrow> Serving port \<in> set (snd (fst (noting a k w))) \<longleftrightarrow> Serving port \<in> set (snd (fst (k w)))"
  "snd (holding x k w) = snd (k w)" "snd (noting a k w) = snd (k w)"
  by (auto simp: holding_def noting_def split: prod.splits)

lemma services_bucket:
  assumes "Serving port \<in> set (snd (fst (start_services B cfg w)))"
  shows "bd_bucket (snd (start_services B cfg w))"
proof -
  obtain w1 where o: "open_storage B cfg w = (None, w1)" "snd (start_services B cfg w) = snd (with_jobs (with_scheduler (serve B cfg)) w1)"
    using assms by (auto simp: start_services_def or_return_def serving_under split: option.splits sum.splits prod.splits)
  have "keeps bd_bucket (with_jobs (with_scheduler (serve B cfg)) :: ('a, 'b) boot_db_scheme boot)"
    by (intro keeps_jobs keeps_serve) simp
  with open_storage_frame(3) [OF o(1)] show ?thesis unfolding o(2) by (simp add: keeps_def)
qed

lemma start_all_serves:
  assumes "Serving port \<in> set (snd (fst (start_all B M cfg w)))"
  shows "up_result (fst (ml_up M (mg_schema w))) = None \<and>
    mg_schema (snd (start_all B M cfg w)) = snd (ml_up M (mg_schema w)) \<and> mg_taken (snd (start_all B M cfg w)) = mg_taken w \<and>
    bd_bucket (snd (start_all B M cfg w))"
proof -
  obtain w1 where m: "doMigrate M ''migrations'' (tick (tick w)) = (None, w1)"
      "snd (start_all B M cfg w) = snd (start_services B cfg (tick w1))"
      "Serving port \<in> set (snd (fst (start_services B cfg (tick w1))))"
    using assms
    by (auto simp: start_all_def or_return_def pg_call_def serving_under RunMigrations_def split: option.splits prod.splits)
  from migrate_releases(1,5) [OF m(1)] show ?thesis
    unfolding m(2) by (simp add: services_keep services_bucket [OF m(3)])
qed

lemma serve_port: "Serving port \<in> set (snd (fst (serve B cfg w))) \<Longrightarrow> port = cg_ServerPort cfg"
  by (auto simp: serve_def noting_def holding_def or_return_def pg_call_def split: option.splits prod.splits)

lemma serving_port:
  assumes "Serving port \<in> set (snd (fst (start_services B cfg w)))"
  shows "port = cg_ServerPort cfg"
  using assms
  by (auto simp: start_services_def with_jobs_def with_scheduler_def or_return_def pg_call_def serving_under dest!: serve_port
      split: option.splits sum.splits prod.splits)

lemma start_all_port:
  assumes "Serving port \<in> set (snd (fst (start_all B M cfg w)))"
  shows "port = cg_ServerPort cfg"
  using assms serving_port
  by (auto simp: start_all_def or_return_def pg_call_def serving_under split: option.splits prod.splits)

lemma fst_holding: "fst (fst (holding x k w)) = fst (fst (k w))" "fst (fst (noting a k w)) = fst (fst (k w))"
  by (simp_all add: holding_def noting_def split: prod.split)

lemma start_texts_differ:
  "wrapf ''configuration error'' e \<noteq> wrapf ''create case service'' e'"
  "wrapf ''create postgres pool'' e \<noteq> wrapf ''create case service'' e'"
  "wrapf ''ping postgres'' e \<noteq> wrapf ''create case service'' e'"
  "wrapf ''run migrations'' e \<noteq> wrapf ''create case service'' e'"
  "wrapf ''create minio storage'' e \<noteq> wrapf ''create case service'' e'"
  "wrapf ''http server'' e \<noteq> wrapf ''create case service'' e'"
  "wrapf ''graceful shutdown'' e \<noteq> wrapf ''create case service'' e'"
  by (simp_all add: wrapf_def)

lemma serve_error: "fst (fst (serve B cfg w)) \<noteq> Some (wrapf ''create case service'' e)"
  by (auto simp: serve_def or_return_def pg_call_def fst_holding start_texts_differ split: option.splits)

lemma services_error:
  assumes "\<not> isl (bo_compile B (cg_CaseReferenceRegex cfg))"
  shows "fst (fst (start_services B cfg w)) \<noteq> Some (wrapf ''create case service'' e)"
  using assms
  by (auto simp: start_services_def with_jobs_def with_scheduler_def or_return_def pg_call_def fst_holding start_texts_differ serve_error
      split: option.splits sum.splits prod.splits dest!: open_storage_frame(4) [OF _ refl])

lemma start_all_error:
  assumes "\<not> isl (bo_compile B (cg_CaseReferenceRegex cfg))"
  shows "fst (fst (start_all B M cfg w)) \<noteq> Some (wrapf ''create case service'' e)"
  using services_error [OF assms]
  by (auto simp: start_all_def or_return_def pg_call_def fst_holding start_texts_differ split: option.splits prod.splits)

text \<open>An expression for case references that passed the check of the configuration compiles again.\<close>

lemma loaded_config:
  assumes "LoadFromEnv L getenv = Inr cfg"
  shows "config_wf L cfg" "cl_regex L DefaultCaseReferenceRegex \<Longrightarrow> cl_regex L (cg_CaseReferenceRegex cfg)"
proof -
  show "config_wf L cfg" using assms no_errors by (auto simp: LoadFromEnv_def Let_def split: if_splits)
  then have "cg_CaseReferenceRegex cfg = DefaultCaseReferenceRegex \<or> cl_regex L (cg_CaseReferenceRegex cfg)"
    unfolding config_wf_def by (elim conjE)
  then show "cl_regex L DefaultCaseReferenceRegex \<Longrightarrow> cl_regex L (cg_CaseReferenceRegex cfg)" by fastforce
qed

text \<open>
  The address of the search engine is required, so that a configuration that loaded never leads to
  the searcher that finds nothing.
\<close>

lemma searcher_is_engine:
  assumes "LoadFromEnv L getenv = Inr cfg" "\<not> url_ok L []"
  shows "main_searcher cfg client = Meilisearch (client (cg_MeilisearchURL cfg) (cg_MeilisearchAPIKey cfg))"
proof -
  have "url_ok L (cg_MeilisearchURL cfg)" using loaded_config(1) [OF assms(1)] unfolding config_wf_def by (elim conjE)
  with assms(2) have "cg_MeilisearchURL cfg \<noteq> []" by metis
  then show ?thesis by (simp add: main_searcher_def)
qed


definition sample_boot_db :: "nat boot_db" where
  "sample_boot_db = \<lparr>w_tick = 0, w_fault = (\<lambda>n. None), w_now = (\<lambda>n. 0), w_uuid = (\<lambda>n. 0),
     mg_taken = 0, mg_locked = False, mg_handles = 0, mg_runners = 0, mg_schema = 3, bd_bucket = False, bd_storage = None,
     bd_probe = False\<rparr>"

definition sample_boot :: boot_env where
  "sample_boot = \<lparr>bo_config = sample_config_lib, bo_getenv = sample_getenv, bo_minio = (\<lambda>e. None), bo_compile = (\<lambda>v. Inr (\<lambda>s. True)), bo_served = None\<rparr>"

lemma sample_starts: "fst (fst (run sample_boot sample_migrate_lib sample_boot_db)) = None"
proof -
  have l: "LoadFromEnv sample_config_lib sample_getenv = Inr (load_config sample_config_lib sample_getenv)"
    using sample_config_loads by (simp add: LoadFromEnv_def)
  show ?thesis
    by (simp add: run_def fst_holding sample_boot_def l start_all_def or_return_def pg_call_def fault_def sample_boot_db_def
        RunMigrations_def doMigrate_def migrate_locked_def open_and_migrate_def prodMakeFactory_def run_up_def
        sample_migrate_lib_def up_result_def advisory_unlock_def start_services_def open_storage_def storage_defs with_jobs_def with_scheduler_def serve_def Let_def tick_def)
qed


end
