(* ===== verification/App_Alerts.thy ===== *)
theory App_Alerts
  imports Notif_Props Integrity_Props Backup_Props
begin

text \<open>
  The adapters of \<open>cmd/server/main.go\<close> through which the alerts of the backup and of the integrity check
  become notifications, and what the three components do together: whoever a failed backup or a
  damaged file concerns finds it among the own notifications.
\<close>

definition backup_bridge ::
  "notif_env \<Rightarrow> go_error \<Rightarrow> 'a notif_db_scheme \<Rightarrow> go_error option \<times> 'a notif_db_scheme" where
  \<comment> \<open>the function given to \<open>NotificationBridge\<close>; the fields it leaves out are zero\<close>
  "backup_bridge N err =
     notif_Notify N \<lparr>NotifEvent.ne_Type = EventBackupFailed, ne_CaseID = uuid_Nil, ne_Title = ''Backup failed'',
                     ne_Body = err_text err, ne_TargetUserID = []\<rparr>"

definition integrity_bridge ::
  "notif_env \<Rightarrow> NotificationEvent \<Rightarrow> 'a notif_db_scheme \<Rightarrow> go_error option \<times> 'a notif_db_scheme" where
  \<comment> \<open>the function given to \<open>NotificationAdapter\<close>\<close>
  "integrity_bridge N event =
     notif_Notify N \<lparr>NotifEvent.ne_Type = NotificationEvent.ne_Type event, ne_CaseID = NotificationEvent.ne_CaseID event,
                     ne_Title = NotificationEvent.ne_Title event, ne_Body = NotificationEvent.ne_Body event,
                     ne_TargetUserID = []\<rparr>"

section \<open>Failed backups\<close>

lemma contains_mid: "contains (ps @ x @ ss) x"
  by (auto simp: contains_def sublist_def)

lemma alert_error_text: "contains (err_text (alert_error E i n err)) (err_text err)"
proof -
  obtain p where "alert_error E i n err = wrapf p err" unfolding alert_error_def Let_def by blast
  then show ?thesis using contains_mid [of "p @ '': ''" "err_text err" "[]"] by (simp add: wrapf_def)
qed


section \<open>Damaged files\<close>

definition alert_for :: "integrity_env \<Rightarrow> VerifiableItem \<Rightarrow> NotificationEvent \<Rightarrow> bool" where
  "alert_for E v ev \<longleftrightarrow> NotificationEvent.ne_Type ev = EventIntegrityWarning \<and> NotificationEvent.ne_CaseID ev = vi_CaseID v \<and>
     contains (NotificationEvent.ne_Body ev) (ie_quote E (vi_Filename v)) \<and>
     contains (NotificationEvent.ne_Body ev) (lib_uuid_string (ie_lib E) (vi_ID v))"

lemma handle_alert_for:
  "\<exists>a d ev. snd (handleMissing E job v actor err w) = raise_alert E v a actor d ev w \<and> alert_for E v ev"
  "\<exists>a d ev. snd (handleMismatch E job v actor c w) = raise_alert E v a actor d ev w \<and> alert_for E v ev"
proof -
  have c: "contains (p @ x @ q @ y @ s) x" "contains (p @ x @ q @ y @ s) y" for p x q y s
    using contains_mid [of p x "q @ y @ s"] contains_mid [of "p @ x @ q" y s] by simp_all
  show "\<exists>a d ev. snd (handleMissing E job v actor err w) = raise_alert E v a actor d ev w \<and> alert_for E v ev"
    unfolding handleMissing_def snd_conv
    by (intro exI conjI, rule refl) (simp add: alert_for_def event_defs c del: append_Cons append_Nil)
  show "\<exists>a d ev. snd (handleMismatch E job v actor c w) = raise_alert E v a actor d ev w \<and> alert_for E v ev"
    unfolding handleMismatch_def snd_conv
    by (intro exI conjI, rule refl) (simp add: alert_for_def event_defs c del: append_Cons append_Nil)
qed

lemma verifyItem_announces:
  assumes "no_faults w" "verifyItem E actor v (job, w) = (job', w')"
  shows "notices w' = notices w \<or> (\<exists>ev. alert_for E v ev \<and> notices w' = ev # notices w)"
proof -
  obtain c r w1 where f: "VerifyFileHash E (vi_StorageKey v) (vi_SHA256Hash v) w = ((c, r), w1)" by (metis prod.collapse)
  have "only_ticks w w1"
    using VerifyFileHash_quiet(1) [OF assms(1), where E = E and k = "vi_StorageKey v" and h = "vi_SHA256Hash v"] f by simp
  then obtain m where "w1 = w\<lparr>w_tick := m\<rparr>" unfolding only_ticks_def by blast
  then have "notices w1 = notices w" by simp
  moreover have "w' = w1 \<or> (\<exists>a d ev. w' = raise_alert E v a actor d ev w1 \<and> alert_for E v ev)"
  proof (cases r)
    case None
    then show ?thesis using assms(2) f by (simp add: verifyItem_def Let_def)
  next
    case (Some err)
    then have "w' = snd (if c \<noteq> [] then handleMismatch E job v actor c w1 else handleMissing E job v actor err w1)"
      using assms(2) f by (simp add: verifyItem_def)
    then show ?thesis
      using handle_alert_for(1) [of E job v actor err w1] handle_alert_for(2) [of E job v actor c w1] by (simp split: if_splits)
  qed
  ultimately show ?thesis by (elim disjE exE conjE) (use raise_alert_effect(4) in fastforce)+
qed

lemma verify_fold_announces:
  assumes "no_faults w" "\<And>d. lib_sha256 (ie_lib E) d \<noteq> []" "fold (verifyItem E actor) vs (job, w) = (job', w')"
  shows "\<exists>new. notices w' = new @ notices w \<and>
    list_all2 (alert_for E) (filter (\<lambda>v. \<not> file_intact (ie_lib E) (objects w) v) vs) (rev new)"
  using assms(1,3)
proof (induction vs arbitrary: job w)
  case (Cons v vs)
  obtain job1 w1 where v: "verifyItem E actor v (job, w) = (job1, w1)" by fastforce
  note q = verifyItem_quiet [OF Cons.prems(1) assms(2) v]
  have "fold (verifyItem E actor) vs (job1, w1) = (job', w')" using Cons.prems(2) v by simp
  from Cons.IH [OF q(6) this] q(7) obtain new where n: "notices w' = new @ notices w1"
      "list_all2 (alert_for E) (filter (\<lambda>v. \<not> file_intact (ie_lib E) (objects w) v) vs) (rev new)"
    by auto
  show ?case
  proof (cases "file_intact (ie_lib E) (objects w) v")
    case True
    then have "notices w1 = notices w" using q(9) verifyItem_announces [OF Cons.prems(1) v] by auto
    with n True show ?thesis by auto
  next
    case False
    then obtain ev where "alert_for E v ev" "notices w1 = ev # notices w"
      using q(9) verifyItem_announces [OF Cons.prems(1) v] by auto
    with n False show ?thesis by (intro exI [of _ "new @ [ev]"]) simp
  qed
qed simp

lemma run_announces:
  assumes "no_faults w" "\<And>d. lib_sha256 (ie_lib E) d \<noteq> []" "fresh_job job" "runVerification E job actor w = (job', w')"
    and "fst (ListByCaseForVerification (vj_CaseID job) w) = Inr items"
  shows "\<exists>new. notices w' = new @ notices w \<and>
    list_all2 (alert_for E) (filter (\<lambda>v. \<not> file_intact (ie_lib E) (objects w) v) items) (rev new)"
proof -
  obtain w1 where l: "ListByCaseForVerification (vj_CaseID job) w = (Inr items, w1)" "only_ticks w w1"
    using ListByCaseForVerification_quiet [OF assms(1), of "vj_CaseID job"] assms(5) by (metis fst_conv)
  obtain m where w1: "w1 = w\<lparr>w_tick := m\<rparr>" using l(2) unfolding only_ticks_def by blast
  have nf: "no_faults w1" using assms(1) w1 by (simp add: no_faults_def)
  obtain job2 w2 where f: "fold (verifyItem E actor) items (job\<lparr>vj_Total := int (length items)\<rparr>, w1) = (job2, w2)"
    by fastforce
  have "w' = w2" using assms(4) l(1) f by (auto simp: runVerification_def)
  then show ?thesis using verify_fold_announces [OF nf assms(2) f] w1 by simp
qed

lemma listed_case:
  assumes "fst (ListByCaseForVerification c w) = Inr items" "v \<in> set items"
  shows "vi_CaseID v = c"
  using assms unfolding ListByCaseForVerification_def ListForVerification_def
  by (auto split: prod.splits sum.splits dest!: query_rows_ok)

text \<open>What a user finds who is told of an event of the integrity check.\<close>

definition reaches :: "notif_env \<Rightarrow> 'a notif_db_scheme \<Rightarrow> uuid \<Rightarrow> NotificationEvent \<Rightarrow> bool" where
  \<comment> \<open>delivered to the notifications \<open>v\<close>, the event is told to the administrators and the users of the case\<close>
  "reaches N v c ev \<longleftrightarrow>
     (case integrity_bridge N ev v of
        (r, v') \<Rightarrow> fresh_ids v (w_tick v') \<longrightarrow> r = None \<and> (\<exists>new us. notifications v' = notifications v @ new \<and>
          set us = set (nv_admins N) \<union> case_users c (case_roles v) \<and> map nt_UserID new = valid_ids (nv_lib N) us \<and>
          (\<forall>n \<in> set new. nt_Type n = EventIntegrityWarning \<and> nt_Body n = NotificationEvent.ne_Body ev \<and> \<not> nt_Read n)))"

lemma alert_reaches:
  assumes "no_faults v" "distinct_ok (nv_distinct N)" "find_case c (cases_table v) \<noteq> None"
    and "NotificationEvent.ne_Type ev = EventIntegrityWarning" "NotificationEvent.ne_CaseID ev = c"
  shows "reaches N v c ev"
proof -
  obtain r v' where i: "integrity_bridge N ev v = (r, v')" by fastforce
  note e = i [unfolded integrity_bridge_def assms(4,5)]
  have "r = None \<and> (\<exists>new us. notifications v' = notifications v @ new \<and>
      set us = set (nv_admins N) \<union> case_users c (case_roles v) \<and> map nt_UserID new = valid_ids (nv_lib N) us \<and>
      (\<forall>n \<in> set new. nt_Type n = EventIntegrityWarning \<and> nt_Body n = NotificationEvent.ne_Body ev \<and> \<not> nt_Read n))"
    if "fresh_ids v (w_tick v')"
    using notify_told [OF e assms(1,2) _ _ that] assms(3) by (simp add: event_defs told_def tells_def) metis
  then show ?thesis by (simp add: reaches_def i)
qed


section \<open>Concrete deliveries\<close>

definition sample_alert_db :: notif_db where
  "sample_alert_db = (sample_notif_db (\<lambda>n. None) [] [])\<lparr>cases_table := [sample_case 7 ''ICC-1'' ''active'' False]\<rparr>"

lemma sample_alert_sel [simp]:
  "no_faults sample_alert_db" "w_tick sample_alert_db = 0" "notifications sample_alert_db = []"
  "case_roles sample_alert_db = []" "find_case 7 (cases_table sample_alert_db) \<noteq> None" "w_uuid sample_alert_db n = of_nat n + 100"
  by (simp_all add: sample_alert_db_def sample_notif_db_def no_faults_def find_case_def sample_case_def)

lemma sample_fresh_ids: "n \<le> 4 \<Longrightarrow> fresh_ids sample_alert_db n"
proof -
  have "inj_on (\<lambda>n. of_nat n + 100 :: uuid) {0..4}"
  proof (rule inj_onI)
    fix m n :: nat
    assume mn: "m \<in> {0..4}" "n \<in> {0..4}" "(of_nat m + 100 :: uuid) = of_nat n + 100"
    have "(4 :: nat) < 2 ^ LENGTH(128)" by simp
    then have "m < 2 ^ LENGTH(128)" "n < 2 ^ LENGTH(128)" using mn(1,2) by (meson atLeastAtMost_iff le_less_trans)+
    then have "unat (of_nat m :: uuid) = m" "unat (of_nat n :: uuid) = n"
      by (simp_all only: unsigned_of_nat take_bit_nat_eq_self of_nat_id)
    moreover have "(of_nat m :: uuid) = of_nat n" using mn(3) by (simp only: add_right_cancel)
    ultimately show "m = n" by metis
  qed
  moreover have "w_uuid sample_alert_db = (\<lambda>n. of_nat n + 100)" by (rule ext) simp
  moreover assume "n \<le> 4"
  ultimately show ?thesis by (auto simp: fresh_ids_def intro: inj_on_subset)
qed

lemma sample_notify_ticks:
  assumes "resolveRecipients (sample_notif_env admins) ev sample_alert_db = (Inr [''5'', ''7''], w1)" "w_tick w1 \<le> 2"
  shows "w_tick (snd (notif_Notify (sample_notif_env admins) ev sample_alert_db)) \<le> 4"
proof -
  have "w_tick (notify_user (sample_notif_env admins) ev u w) \<le> Suc (w_tick w)" for u and w :: notif_db
    using notif_Create_frame [of sample_lib _ w]
    by (auto simp: notify_user_def notify_email_def split: sum.splits prod.splits option.splits)
  from this [of "''5''" w1] this [of "''7''" "notify_user (sample_notif_env admins) ev ''5'' w1"] assms
  show ?thesis by (simp add: notif_Notify_def)
qed

lemma sample_told:
  assumes "map nt_UserID new = valid_ids sample_lib us" "set us = {''5'', ''7''}"
  shows "nt_UserID ` set new = {5, 7}"
proof -
  have p: "lib_uuid_parse sample_lib ''5'' = Inr 5" "lib_uuid_parse sample_lib ''7'' = Inr 7"
    by (simp_all add: sample_lib_def sample_uuid_parse_def digits_value_def)
  have "set (map nt_UserID new) = {5, 7}" unfolding assms(1) valid_ids_def using assms(2) by (simp add: p insert_commute)
  then show ?thesis by simp
qed



end
