(* ===== verification/Backup_Evidence.thy ===== *)
theory Backup_Evidence
  imports Backup_Props Evidence_Props Integrity_Props
begin

text \<open>
  Backups of the evidence: the state that uploads, new versions and destructions leave, copied by a run of
  \<open>internal/backup/runner.go\<close>, and what can be got back from the file.
\<close>

definition in_archive :: "evidence_env \<Rightarrow> (string \<times> time \<times> string) list \<Rightarrow> EvidenceItem \<Rightarrow> bool" where
  \<comment> \<open>the entries have bytes under the storage key of the item, and their digest is the recorded one\<close>
  "in_archive E es e \<longleftrightarrow>
     (\<exists>key t d. ei_StorageKey e = Some key \<and> (filepath_Join [''evidence'', key], t, d) \<in> set es \<and>
        hex_encode (lib_sha256 (ee_lib E) d) = ei_SHA256Hash e)"

lemma stored_in_archive:
  assumes "evidence_inv E w" "e \<in> set (evidence_items w)" "ei_DestroyedAt e = None" "complete_snapshot B (objects w) es"
  shows "in_archive E es e"
  using assms unfolding evidence_inv_def stored_def complete_snapshot_def in_archive_def by blast


text \<open>Uploads leave the log of backups alone.\<close>

lemma backup_log_tick [simp]: "backup_log (tick w) = backup_log w"
  by (simp add: tick_def)

lemma backup_log_put: "put_attempts n k x err w = (r, w') \<Longrightarrow> backup_log w' = backup_log w"
  by (induction n k x err w rule: put_attempts.induct) (auto split: option.splits if_splits)

lemma backup_log_calls:
  "pg_call f w = (r, w') \<Longrightarrow> backup_log w' = backup_log w"
  "case_column f g c w = (r1, w') \<Longrightarrow> backup_log w' = backup_log w"
  "DeleteObject k w = (r, w') \<Longrightarrow> backup_log w' = backup_log w"
  "evidence_Create E i w = (r2, w') \<Longrightarrow> backup_log w' = backup_log w"
  "indexEvidence E e w = w' \<Longrightarrow> backup_log w' = backup_log w"
  "stamp_digest E d w = (r3, w') \<Longrightarrow> backup_log w' = backup_log w"
  by (auto simp: pg_call_def case_column_def DeleteObject_def evidence_Create_def
      indexEvidence_def stamp_digest_def Let_def split: option.splits if_splits sum.splits prod.splits)

lemma backup_log_counter: "IncrementEvidenceCounter c w = (r, w') \<Longrightarrow> backup_log w' = backup_log w"
  by (auto simp: IncrementEvidenceCounter_def Let_def split: prod.splits option.splits if_splits dest!: backup_log_calls(1))

lemma backup_log_event: "backup_log (recordCustodyEvent E c k a u d w) = backup_log w"
proof -
  obtain r w2 where r: "RecordEvidenceEvent (ee_lib E) c k a u d w = (r, w2)" by fastforce
  then obtain n log where "w2 = w\<lparr>w_tick := n, custody_log := log\<rparr>" using RecordEvidenceEvent_frame by blast
  with r show ?thesis by (simp add: recordCustodyEvent_def)
qed

lemma backup_log_checks: "upload_checks E i w = (x, w') \<Longrightarrow> backup_log w' = backup_log w"
  by (auto simp: upload_checks_def GetStatus_def Let_def split: option.splits sum.splits prod.splits if_splits
      dest!: backup_log_calls(2))

lemma backup_log_store: "upload_store E i name data w = (y, w') \<Longrightarrow> backup_log w' = backup_log w"
  by (auto simp: upload_store_def GetReferenceCode_def PutObject_def Let_def split: option.splits sum.splits prod.splits
      dest!: backup_log_calls(2,4,6) backup_log_put backup_log_counter) (metis backup_log_calls(3) prod.collapse)+

lemma backup_log_upload:
  assumes "Upload E i w = (r, w')"
  shows "backup_log w' = backup_log w"
  using assms
  by (auto simp: Upload_def Let_def backup_log_event backup_log_calls(5) [OF refl] split: sum.splits prod.splits
      dest!: backup_log_checks backup_log_store)

section \<open>A concrete backup\<close>

definition sample_backup_start :: backup_db where
  "sample_backup_start =
     (sample_backup_db (\<lambda>n. None) 0)\<lparr>w_uuid := (\<lambda>n. of_nat n + 100), objects := Map.empty,
       cases_table := [sample_case 7 ''ICC-1'' ''active'' False]\<rparr>"

lemma sample_backup_start_sel [simp]:
  "start_db sample_backup_start" "calm sample_backup_start" "no_faults sample_backup_start" "w_tick sample_backup_start = 0"
  "find_case 7 (cases_table sample_backup_start) = Some (sample_case 7 ''ICC-1'' ''active'' False)"
  "objects sample_backup_start = Map.empty" "backup_log sample_backup_start = []" "evidence_items sample_backup_start = []"
  "w_uuid sample_backup_start = w_uuid sample_start" "evidence_counter sample_backup_start = (\<lambda>c. 0)"
  by (simp_all add: sample_backup_start_def sample_backup_db_def calm_def no_faults_def find_case_def sample_case_def
      sample_start_def sample_evidence_db_def)


end
