(* ===== verification/Spec2Isabelle.thy ===== *)
theory Spec2Isabelle
  imports Auth_Props Audit_Log Custody_Props Cases_Access Evidence_Limits Evidence_Destroy Integrity_Props
    Backup_Props Backup_Api
    Notif_Props Search_Api Export_Props Log_Redact Server_Health Server_Http Report_Props Evidence_Media
    App_Start App_Alerts Backup_Evidence
begin

text \<open>
  VaultKeeper keeps the digital evidence of legal cases: files with their digests, who touched them
  when, and who may see them. This library models its Go code (\<open>internal/\<close> and \<open>cmd/server/\<close>) as Isabelle
  functions and proves what it guarantees, and where a guarantee ends.

  \<^bold>\<open>How the program is modelled.\<close> A Go function is a HOL function of the same name; one that returns
  \<open>(T, error)\<close> has a result in \<open>go_error + 'a\<close>; one that changes state takes the state as its last
  argument and returns the new one. The state is a record: \<open>world\<close> (theory \<open>VK_Prelude\<close>) has a tick,
  a script of faults, the readings of the clock and the generated UUIDs, each by tick, and the
  components extend it by their tables: \<open>custody_db\<close>, \<open>cases_db\<close>, \<open>evidence_db\<close> and then
  \<open>integrity_db\<close>, \<open>backup_db\<close>, \<open>notif_db\<close>, \<open>search_db\<close>, \<open>export_db\<close>, \<open>health_db\<close>, and \<open>migrate_db\<close> and \<open>boot_db\<close>. Every call that leaves the process takes a tick and fails when the
  script says so, so that a theorem without a hypothesis on faults covers every pattern of failures.
  Constraints of the schema (\<open>migrations/\<close>) are part of the statements that they guard.
  Library functions that are not Go's strings, paths or encodings (SHA-256, JSON, RSA, AES-GCM,
  PBKDF2, tar, RFC 3161, MIME detection, pictures, PDF documents, golang-migrate) are fields of parameter records such as
  \<open>go_lib\<close>, \<open>crypt_lib\<close>, \<open>evidence_env\<close> and \<open>backup_env\<close>; what is relied on of them is a
  hypothesis (\<open>uuid_lib_ok\<close>, \<open>crypt_ok\<close>, \<open>backup_env_ok\<close>) that a sample meets.

  \<^bold>\<open>Shared theories.\<close> \<open>VK_Prelude\<close> errors, world, HTTP responses (\<open>httputil/response.go\<close>); \<open>Go_Strings\<close>,
  \<open>Go_Base64\<close>, \<open>Go_Path\<close>, \<open>Go_Http\<close>, \<open>Go_Conv\<close>, \<open>Go_Csv\<close> the parts of Go's library that the code computes with; \<open>Pg_Calls\<close>
  statements and row scans; \<open>Hash_Chain\<close> and \<open>Keyset\<close> the contracts (locales) of hash-chained logs and
  of cursor pages, with the facts proved once and used by custody, audit and cases.

  \<^item> \<open>auth/\<close>: \<open>Auth_Roles\<close> (context, roles, \<open>RequireSystemRole\<close>, \<open>RequireCaseRole\<close>), \<open>Auth_Jwks\<close> (key cache
    with refresh and fallback), \<open>Auth_Middleware\<close> (\<open>Authenticate\<close> and its checks), \<open>Auth_Props\<close>.
  \<^item> \<open>custody/\<close>: \<open>Custody\<close> (insert under the lock, listing, verifier), \<open>Custody_Chain\<close> (the verifier accepts
    exactly the chained logs), \<open>Custody_Props\<close>.
  \<^item> \<open>audit/\<close>: \<open>Audit_Log\<close>, with \<open>LogAuthEvent\<close> as two steps, before and after its lock.
  \<^item> \<open>cases/\<close>: \<open>Cases_Repo\<close>, \<open>Cases_Service\<close>, \<open>Cases_Api\<close> (handlers, roles, routes and gates), \<open>Cases_Life\<close>
    (the specification \<open>case_change\<close> that every operation refines, and the table's invariant),
    \<open>Cases_List\<close>, \<open>Cases_Props\<close>, \<open>Cases_Access\<close>.
  \<^item> \<open>evidence/\<close>: \<open>Evidence_Files\<close> (names and keys), \<open>Evidence_Repo\<close>, \<open>Evidence_Store\<close> (object store and case
    look-ups, each with its contract), \<open>Evidence_Service\<close>, \<open>Evidence_Api\<close>; \<open>Evidence_Life\<close> and
    \<open>Evidence_Runs\<close> (each operation is a sequence of the three effects \<open>evidence_effect\<close>), \<open>Evidence_Inv\<close>
    (the invariant over runs), \<open>Evidence_Props\<close>, \<open>Evidence_Destroy\<close>, \<open>Evidence_Limits\<close>.
  \<^item> \<open>integrity/\<close>: \<open>Integrity_Tsa\<close> (time-stamping client, contract \<open>timestamp_authority\<close>, retry job),
    \<open>Integrity_Verify\<close> (check of a case, its jobs and endpoints), \<open>Integrity_Props\<close>.
  \<^item> \<open>backup/\<close>: \<open>Backup_Crypt\<close> (file format, encryption, decryption), \<open>Backup_Format\<close> (the format as a
    reference definition), \<open>Backup_Runner\<close> (run, log, alerts, check, schedule), \<open>Backup_Api\<close>, \<open>Backup_Props\<close>;
    \<open>Backup_Evidence\<close> puts backups behind runs of the evidence operations.
  \<^item> \<open>evidence/thumbnail.go\<close>, \<open>exif.go\<close>: \<open>Evidence_Media\<close> (the size of a thumbnail with the arithmetic on
    \<open>float64\<close>, what is kept of EXIF data).
  \<^item> \<open>reports/\<close>: \<open>Report_Pdf\<close> (both reports as the lists of the calls that write them, the check of the
    chain, the endpoints), \<open>Report_Props\<close>.
  \<^item> \<open>cases/export.go\<close>: \<open>Cases_Export\<close> (the archive as the list of its entries, written step by step),
    \<open>Export_Props\<close> (what a finished or failed archive has, for every pattern of failures).
  \<^item> \<open>notifications/\<close>: \<open>Notif_Repo\<close> (table, cursor pages), \<open>Notif_Service\<close> (recipients, rows, handlers),
    \<open>Notif_Mail\<close> (the mail queue and its goroutine as a step relation), \<open>Notif_Props\<close>.
  \<^item> \<open>search/\<close>: \<open>Search_Filter\<close> (the filter text, a reader of it and their agreement), \<open>Search_Service\<close> (the
    client and what the search server documents, \<open>engine_ok\<close>), \<open>Search_Api\<close> (roles, handler, properties).
  \<^item> \<open>config/\<close>: \<open>App_Config\<close>; \<open>logging/\<close>: \<open>Log_Redact\<close>; \<open>server/\<close>: \<open>Server_Health\<close> (probes, cache, endpoints),
    \<open>Server_Http\<close> (cross-origin headers, recovery and authentication in front of the routes).
  \<^item> \<open>database/migrate.go\<close>: \<open>Db_Migrate\<close> (one run with everything it takes and gives back, and replicas that
    start together as the step relation \<open>migrate_step\<close>, which \<open>doMigrate\<close> refines).
  \<^item> \<open>cmd/server/main.go\<close>: \<open>App_Start\<close> (the start, the bucket of \<open>evidence/storage.go\<close>, deferred releases, choices), \<open>App_Alerts\<close> (the
    adapters through which alerts of backups and of the integrity check become notifications).

  \<^bold>\<open>What is shown.\<close> A request passes authentication only with a token that the checks accept, and a
  gate only with the role it asks for. The custody log verifies as long as events come in order
  and survive the columns, and a changed entry is found. Cases only advance in their life, and
  archived ones stay as they are. Whatever fails in between, the bytes a download gives have the
  recorded digest, destruction needs a case that is neither archived nor held and is final, numbers
  of evidence are not used twice, and the integrity check finds exactly the files that differ. A
  completed backup decrypts to an archive with the dump, and the log of backups is truthful. An
  export has every item its reader may see with the bytes of its recorded digest, a search gives only
  documents of the user's cases, notifications go to exactly the users concerned and are read by
  them only, mails leave in the order of the queue, a loaded configuration is well formed, and no route
  but the health check runs without a token. The start gives back what it took and serves only behind
  migrations that succeeded, those of several replicas never overlap, and a report prints a verdict on the chain that
  is compared with the verifier's. Components are also put together: a backup taken after any run of the evidence
  operations has the bytes of every item, and failed backups and damaged files reach the users they concern. Some properties and many lemmas state the limits that the code has and a reader would not expect.

  \<^bold>\<open>Bounds.\<close> Loops over lists are structural; loops over bytes (\<open>trim_leading\<close>, \<open>encrypt_loop\<close>,
  \<open>decrypt_loop\<close>, \<open>csv_read\<close>, \<open>lex_filter\<close>) have measures; retry loops count down the attempts of the code (3 each). Clients that
  follow cursors and background loops (\<open>list_all_pages\<close>, \<open>StartScheduler\<close>, \<open>tsa_job_loop\<close>) take the number
  of turns as an argument, and the theorems hold for every number, or for enough turns that is given. The arithmetic on
  \<open>float64\<close> rounds exact rationals to 53 bits; the theorem takes sides below 2 to the 53, which are exact.

  \<^bold>\<open>What is assumed.\<close> An operation runs as one step with respect to the others, except where a
  transaction or a look-up is split on purpose (audit log, starting a check). A request that fails
  has no effect. \<open>key_env\<close> says that no UUID is drawn twice. Integers are unbounded where the code
  counts rows or bytes; the evidence counter has the bound of its column, UUIDs and lock identifiers are words.

  \<^bold>\<open>Not modelled.\<close> Cancellation of contexts (but for the health check), locks inside the process, the time
  limits of the HTTP server, the lines that components log (but for the request log), constructors that only fill in fields, the layout
  of the reports, and a replica that dies while it applies a migration. The front end and the SQL of the
  migrations are not Go code; constraints of the schema are used where a statement relies on them.
\<close>

end
